(* ===== verification/Prelude.thy ===== *)
theory Prelude
  imports Main "HOL-Library.Char_ord" "HOL-Library.List_Lexorder" "HOL-Library.Product_Lexorder"
begin

text \<open>
  Shared foundations of the library: Rust's \<open>Result\<close> as a sum type, the ordered
  collections \<open>BTreeMap\<close> and \<open>BTreeSet\<close> as ascending lists, strings as lists of
  Unicode scalar values with the trimming the kernel applies to identifiers, and the
  interface of a transition system with an invariant, which every stateful component
  of the library instantiates.
\<close>

named_theorems result_simps \<open>equations and inversions for fallible operations\<close>
named_theorems inv_intros \<open>preservation of component invariants\<close>

section \<open>Fallible operations\<close>

text \<open>
  \<open>Result<T, E>\<close> is \<open>'e + 'a\<close>. An operation on \<open>&mut self\<close> returns the new state in
  the \<open>Inr\<close> case; \<open>Inl\<close> means that the state is the one before the call.
\<close>

definition rbind :: "'e + 'a \<Rightarrow> ('a \<Rightarrow> 'e + 'b) \<Rightarrow> 'e + 'b" where
  "rbind m f = (case m of Inl e \<Rightarrow> Inl e | Inr x \<Rightarrow> f x)"

definition ensure :: "bool \<Rightarrow> 'e \<Rightarrow> 'e + unit" where
  "ensure b e = (if b then Inr () else Inl e)"

definition ok_or :: "'a option \<Rightarrow> 'e \<Rightarrow> 'e + 'a" where
  "ok_or x e = (case x of None \<Rightarrow> Inl e | Some v \<Rightarrow> Inr v)"

definition is_ok :: "'e + 'a \<Rightarrow> bool" where
  "is_ok r = (case r of Inl _ \<Rightarrow> False | Inr _ \<Rightarrow> True)"

lemma rbind_simps [simp]:
  "rbind (Inl e) f = Inl e"
  "rbind (Inr x) f = f x"
  by (simp_all add: rbind_def)

lemma ensure_simps [simp]:
  "ensure True e = Inr ()"
  "ensure False e = Inl e"
  by (simp_all add: ensure_def)

lemma ok_or_simps [simp]:
  "ok_or None e = Inl e"
  "ok_or (Some v) e = Inr v"
  by (simp_all add: ok_or_def)

lemma is_ok_simps [simp]:
  "is_ok (Inl e) = False"
  "is_ok (Inr x) = True"
  by (simp_all add: is_ok_def)

lemma rbind_eq_Inr [result_simps]: "rbind m f = Inr y \<longleftrightarrow> (\<exists>x. m = Inr x \<and> f x = Inr y)"
  by (cases m) auto

lemma rbind_eq_Inl [result_simps]:
  "rbind m f = Inl e \<longleftrightarrow> m = Inl e \<or> (\<exists>x. m = Inr x \<and> f x = Inl e)"
  by (cases m) auto

lemma ensure_eq [result_simps]:
  "ensure b e = Inr u \<longleftrightarrow> b"
  "ensure b e = Inl e' \<longleftrightarrow> \<not> b \<and> e' = e"
  by (auto simp: ensure_def)

lemma ok_or_eq [result_simps]:
  "ok_or x e = Inr v \<longleftrightarrow> x = Some v"
  "ok_or x e = Inl e' \<longleftrightarrow> x = None \<and> e' = e"
  by (auto simp: ok_or_def split: option.splits)

section \<open>Ordered maps and sets\<close>

text \<open>
  A \<open>BTreeMap<K, V>\<close> is the list of its entries in ascending key order, which is the
  order its iterators visit; lookup is \<^const>\<open>map_of\<close>.
\<close>

type_synonym ('k, 'v) btree = "('k \<times> 'v) list"

fun bt_insert :: "'k::linorder \<Rightarrow> 'v \<Rightarrow> ('k, 'v) btree \<Rightarrow> ('k, 'v) btree" where
  "bt_insert k v [] = [(k, v)]"
| "bt_insert k v (p # m) =
     (if k < fst p then (k, v) # p # m
      else if fst p = k then (k, v) # m
      else p # bt_insert k v m)"

definition bt_remove :: "'k \<Rightarrow> ('k, 'v) btree \<Rightarrow> ('k, 'v) btree" where
  "bt_remove k m = filter (\<lambda>p. fst p \<noteq> k) m"

definition bt_contains :: "('k, 'v) btree \<Rightarrow> 'k \<Rightarrow> bool" where
  "bt_contains m k = (map_of m k \<noteq> None)"

definition bt_values :: "('k, 'v) btree \<Rightarrow> 'v list" where
  "bt_values m = map snd m"

definition bt_keys :: "('k, 'v) btree \<Rightarrow> 'k list" where
  "bt_keys m = map fst m"

definition bt_map_values :: "('v \<Rightarrow> 'w) \<Rightarrow> ('k, 'v) btree \<Rightarrow> ('k, 'w) btree" where
  "bt_map_values f m = map (\<lambda>p. (fst p, f (snd p))) m"

definition bt_ok :: "('k::linorder, 'v) btree \<Rightarrow> bool" where
  "bt_ok m = sorted_wrt (<) (map fst m)"

definition bt_from_list :: "('k::linorder \<times> 'v) list \<Rightarrow> ('k, 'v) btree" where
  "bt_from_list xs = fold (\<lambda>p m. bt_insert (fst p) (snd p) m) xs []"

lemma map_of_bt_insert [simp]: "map_of (bt_insert k v m) = (map_of m)(k \<mapsto> v)"
  by (induction m) (auto simp: fun_eq_iff)

lemma map_of_bt_remove [simp]: "map_of (bt_remove k m) = (map_of m)(k := None)"
  by (induction m) (auto simp: bt_remove_def fun_eq_iff)

lemma map_of_bt_map_values [simp]: "map_of (bt_map_values f m) k = map_option f (map_of m k)"
  by (induction m) (auto simp: bt_map_values_def)

lemma keys_bt_map_values [simp]: "map fst (bt_map_values f m) = map fst m"
  by (simp add: bt_map_values_def)

lemma bt_ok_Nil [simp]: "bt_ok []"
  by (simp add: bt_ok_def)

lemma set_bt_insert_keys: "fst ` set (bt_insert k v m) = insert k (fst ` set m)"
  by (induction m) auto

lemma bt_ok_insert [simp]: "bt_ok m \<Longrightarrow> bt_ok (bt_insert k v m)"
proof (induction m)
  case Nil
  then show ?case by (simp add: bt_ok_def)
next
  case (Cons p m)
  then have "bt_ok (bt_insert k v m)" by (simp add: bt_ok_def)
  with Cons.prems show ?case
    using set_bt_insert_keys [of k v m] by (auto simp: bt_ok_def)
qed

lemma bt_ok_remove [simp]: "bt_ok m \<Longrightarrow> bt_ok (bt_remove k m)"
  by (induction m) (auto simp: bt_ok_def bt_remove_def)

lemma bt_ok_map_values [simp]: "bt_ok (bt_map_values f m) = bt_ok m"
  by (simp add: bt_ok_def bt_map_values_def comp_def)

lemma bt_ok_distinct: "bt_ok m \<Longrightarrow> distinct (map fst m)"
  by (simp add: bt_ok_def strict_sorted_iff)

lemma bt_member_iff: "bt_ok m \<Longrightarrow> (k, v) \<in> set m \<longleftrightarrow> map_of m k = Some v"
  by (auto dest: bt_ok_distinct map_of_SomeD)

lemma bt_values_iff: "bt_ok m \<Longrightarrow> v \<in> set (bt_values m) \<longleftrightarrow> (\<exists>k. map_of m k = Some v)"
  using bt_member_iff [of m] by (force simp: bt_values_def)

lemma length_bt_insert:
  "bt_ok m \<Longrightarrow> map_of m k = None \<Longrightarrow> length (bt_insert k v m) = Suc (length m)"
  by (induction m) (auto simp: bt_ok_def split: if_splits)

text \<open>Two ascending entry lists with the same lookup are the same map.\<close>

lemma bt_eqI:
  assumes "bt_ok m" "bt_ok m'" "map_of m = map_of m'"
  shows "m = m'"
proof (rule map_sorted_distinct_set_unique [where f = fst])
  have "set m = set m'"
    using assms by (auto simp: bt_member_iff)
  then show "set m = set m'" .
  from assms show "sorted (map fst m)" "distinct (map fst m)"
    "sorted (map fst m')" "distinct (map fst m')"
    by (auto simp: bt_ok_def strict_sorted_iff)
  show "inj_on fst (set m \<union> set m')"
    using assms \<open>set m = set m'\<close> bt_member_iff [OF assms(1)]
    by (auto simp: inj_on_def)
qed

lemma bt_ok_from_list [simp]: "bt_ok (bt_from_list xs)"
proof -
  have "bt_ok m \<Longrightarrow> bt_ok (fold (\<lambda>p m. bt_insert (fst p) (snd p) m) xs m)" for m :: "('a, 'b) btree"
    by (induction xs arbitrary: m) auto
  then show ?thesis by (simp add: bt_from_list_def)
qed

text \<open>A \<open>BTreeSet\<close> is its ascending list of elements; \<open>first\<close> is the head.\<close>

definition bs_insert :: "'a::linorder \<Rightarrow> 'a list \<Rightarrow> 'a list" where
  "bs_insert x xs = insort_insert x xs"

definition bs_remove :: "'a \<Rightarrow> 'a list \<Rightarrow> 'a list" where
  "bs_remove x xs = remove1 x xs"

definition bs_first :: "'a list \<Rightarrow> 'a option" where
  "bs_first xs = (case xs of [] \<Rightarrow> None | x # _ \<Rightarrow> Some x)"

definition bs_ok :: "'a::linorder list \<Rightarrow> bool" where
  "bs_ok xs = sorted_wrt (<) xs"

definition bs_from_list :: "'a::linorder list \<Rightarrow> 'a list" where
  "bs_from_list xs = fold bs_insert xs []"

lemma bs_ok_iff: "bs_ok xs \<longleftrightarrow> sorted xs \<and> distinct xs"
  by (simp add: bs_ok_def strict_sorted_iff)

lemma bs_ok_Nil [simp]: "bs_ok []"
  by (simp add: bs_ok_def)

lemma set_bs_insert [simp]: "set (bs_insert x xs) = insert x (set xs)"
  by (simp add: bs_insert_def set_insort_insert)

lemma bs_ok_insert [simp]: "bs_ok xs \<Longrightarrow> bs_ok (bs_insert x xs)"
  by (simp add: bs_insert_def bs_ok_iff sorted_insort_insert distinct_insort_insert)

lemma set_bs_remove [simp]: "bs_ok xs \<Longrightarrow> set (bs_remove x xs) = set xs - {x}"
  by (simp add: bs_remove_def bs_ok_iff)

lemma bs_ok_remove [simp]: "bs_ok xs \<Longrightarrow> bs_ok (bs_remove x xs)"
  by (simp add: bs_remove_def bs_ok_iff sorted_remove1)

lemma bs_first_SomeD: "bs_ok xs \<Longrightarrow> bs_first xs = Some x \<Longrightarrow> x \<in> set xs \<and> (\<forall>y \<in> set xs. x \<le> y)"
  by (cases xs) (auto simp: bs_first_def bs_ok_def less_imp_le)

lemma bs_first_simps [simp]: "bs_first [] = None" "bs_first (x # xs) = Some x"
  by (simp_all add: bs_first_def)

lemma bs_first_None [simp]: "bs_first xs = None \<longleftrightarrow> xs = []"
  by (cases xs) (auto simp: bs_first_def)

lemma bs_eqI: "bs_ok xs \<Longrightarrow> bs_ok ys \<Longrightarrow> set xs = set ys \<Longrightarrow> xs = ys"
  by (simp add: bs_ok_iff sorted_distinct_set_unique)

lemma bs_from_list_props [simp]:
  "bs_ok (bs_from_list xs)"
  "set (bs_from_list xs) = set xs"
proof -
  have "bs_ok ys \<Longrightarrow> bs_ok (fold bs_insert xs ys) \<and> set (fold bs_insert xs ys) = set xs \<union> set ys"
    for ys
    by (induction xs arbitrary: ys) auto
  from this [of "[]"] show "bs_ok (bs_from_list xs)" "set (bs_from_list xs) = set xs"
    by (simp_all add: bs_from_list_def)
qed

section \<open>Comparison\<close>

text \<open>\<open>std::cmp::Ordering\<close> with the combinators the kernel uses.\<close>

datatype ordering = Less | Equal | Greater

definition cmp :: "'a::linorder \<Rightarrow> 'a \<Rightarrow> ordering" where
  "cmp a b = (if a < b then Less else if a = b then Equal else Greater)"

definition then_with :: "ordering \<Rightarrow> ordering \<Rightarrow> ordering" where
  "then_with a b = (if a = Equal then b else a)"

fun ord_reverse :: "ordering \<Rightarrow> ordering" where
  "ord_reverse Less = Greater"
| "ord_reverse Equal = Equal"
| "ord_reverse Greater = Less"

lemma cmp_simps [simp]:
  "cmp a b = Greater \<longleftrightarrow> b < a" "cmp a b = Equal \<longleftrightarrow> a = b" "cmp a b = Less \<longleftrightarrow> a < b"
  by (auto simp: cmp_def)

lemma ord_reverse_cmp: "ord_reverse (cmp a b) = cmp b a"
  by (auto simp: cmp_def)

lemma cmp_cong: "(a < b \<longleftrightarrow> c < d) \<Longrightarrow> (a = b \<longleftrightarrow> c = d) \<Longrightarrow> cmp a b = cmp c d"
  by (simp add: cmp_def)

section \<open>Text\<close>

text \<open>
  A Rust string is the list of its Unicode scalar values; the order of such lists is the
  byte order of the UTF-8 encodings, which is Rust's \<open>Ord for str\<close>.
  \<open>unicode_white_space\<close> lists the code points of the Unicode property White\_Space, the
  definition of \<open>char::is_whitespace\<close>; the kernel's identifiers also trim the four
  information separators.
\<close>

type_synonym rstr = "nat list"

definition str_lit :: "string \<Rightarrow> rstr" where
  "str_lit s = map of_char s"

definition unicode_white_space :: "nat \<Rightarrow> bool" where
  "unicode_white_space c =
     (9 \<le> c \<and> c \<le> 13 \<or> c = 32 \<or> c = 133 \<or> c = 160 \<or> c = 5760
      \<or> 8192 \<le> c \<and> c \<le> 8202 \<or> c = 8232 \<or> c = 8233 \<or> c = 8239 \<or> c = 8287 \<or> c = 12288)"

definition whitespace :: "nat \<Rightarrow> bool" where
  "whitespace c = (unicode_white_space c \<or> 28 \<le> c \<and> c \<le> 31)"

definition trim_matches :: "('a \<Rightarrow> bool) \<Rightarrow> 'a list \<Rightarrow> 'a list" where
  "trim_matches P s = rev (dropWhile P (rev (dropWhile P s)))"

lemma dropWhile_rev_dropWhile:
  "dropWhile P (rev (dropWhile P (rev (dropWhile P s)))) = rev (dropWhile P (rev (dropWhile P s)))"
proof (cases "dropWhile P s")
  case Nil
  then show ?thesis by (simp only: dropWhile.simps rev.simps)
next
  case (Cons x xs)
  then have "\<not> P x" by (simp add: dropWhile_eq_Cons_conv)
  then have "dropWhile P (rev xs @ [x]) \<noteq> []" and
    "last (dropWhile P (rev xs @ [x])) = x"
    by (simp_all add: dropWhile_append)
  then obtain ys where "rev (dropWhile P (rev xs @ [x])) = x # ys"
    by (metis append_butlast_last_id rev.simps(2) rev_append rev_rev_ident append_Cons append_Nil)
  with Cons \<open>\<not> P x\<close> show ?thesis by simp
qed

lemma trim_matches_idem [simp]: "trim_matches P (trim_matches P s) = trim_matches P s"
  by (simp add: trim_matches_def dropWhile_rev_dropWhile)

section \<open>Transition systems\<close>

text \<open>
  Every stateful component is a start state, a step relation and an invariant its steps
  keep. The reachable states are those of finitely many steps.
\<close>

inductive reachable :: "('s \<Rightarrow> bool) \<Rightarrow> ('s \<Rightarrow> 's \<Rightarrow> bool) \<Rightarrow> 's \<Rightarrow> bool"
  for init :: "'s \<Rightarrow> bool" and step :: "'s \<Rightarrow> 's \<Rightarrow> bool" where
  reach_init: "init s \<Longrightarrow> reachable init step s"
| reach_step: "reachable init step s \<Longrightarrow> step s t \<Longrightarrow> reachable init step t"

locale invariant_system =
  fixes init :: "'s \<Rightarrow> bool" and step :: "'s \<Rightarrow> 's \<Rightarrow> bool" and inv :: "'s \<Rightarrow> bool"
  assumes inv_init: "init s \<Longrightarrow> inv s"
    and inv_step: "inv s \<Longrightarrow> step s t \<Longrightarrow> inv t"
begin

lemma reachable_inv: "reachable init step s \<Longrightarrow> inv s"
  by (induction rule: reachable.induct) (auto intro: inv_init inv_step)

lemma run_inv: "step\<^sup>*\<^sup>* s t \<Longrightarrow> inv s \<Longrightarrow> inv t"
  by (induction rule: rtranclp_induct) (auto intro: inv_step)

lemma reachable_run: "reachable init step s \<Longrightarrow> step\<^sup>*\<^sup>* s t \<Longrightarrow> reachable init step t"
  by (rotate_tac, induction rule: rtranclp_induct) (auto intro: reach_step)

end

end
