(* ===== verification/Timer_Scheduler.thy ===== *)
theory Timer_Scheduler
  imports Prelude
begin

text \<open>
  The deterministic timer scheduler of \<open>crates/clock\<close>: the data model of
  \<open>model.rs\<close>, the snapshot validator of \<open>snapshot.rs\<close> and every operation of
  \<open>scheduler.rs\<close>. \<open>BigInt\<close> is \<^typ>\<open>int\<close>, \<open>BigUint\<close> is \<^typ>\<open>nat\<close>. The identity of
  the \<open>Arc\<close> in a dispatch token is a number; the allocation in \<open>new\<close> and \<open>restore\<close>
  is an argument of the model. \<open>ClockPanic\<close> stands for the two \<open>expect\<close>s of
  \<open>complete_dispatch\<close>; the invariant shows it never occurs.
\<close>

section \<open>Data model\<close>

datatype clock_error =
    ClockValidation string
  | ClockClosed
  | ClockBusy
  | DuplicateId rstr
  | UnknownId rstr
  | InvalidSnapshot string
  | StaleDispatch
  | ClockNative string
  | ClockCallback string
  | ClockPanic string

datatype clock_state = ClkRunning | ClkClosing | ClkClosed | ClkFailed

datatype timer_mode = OneShot | FixedRate

datatype timer_state = Scheduled | Firing | Cancelled | Completed | TimerFailed

type_synonym timer_id = rstr

definition timer_id_new :: "rstr \<Rightarrow> clock_error + timer_id" where
  "timer_id_new value =
     (let v = trim_matches whitespace value
      in if v = [] then Inl (ClockValidation ''empty Timer ID'') else Inr v)"

definition is_active :: "timer_state \<Rightarrow> bool" where
  "is_active st = (st = Scheduled \<or> st = Firing)"

record timer =
  t_id :: timer_id
  t_mode :: timer_mode
  t_state :: timer_state
  t_created_ns :: int
  t_first_deadline_ns :: int
  t_deadline_ns :: int
  t_interval_ns :: "int option"
  t_sequence :: nat
  t_fire_count :: nat
  t_metadata :: "(rstr, rstr) btree"

record timer_event =
  ev_id :: timer_id
  ev_deadline_ns :: int
  ev_fired_at_ns :: int
  ev_sequence :: nat
  ev_fire_count :: nat

datatype callback_failure = CallbackError string | CallbackPanic string

record timer_failure =
  tf_event :: timer_event
  tf_failure :: callback_failure

record clock_snapshot =
  cs_current_ns :: int
  cs_sequence :: nat
  cs_timers :: "timer list"
  cs_failures :: "timer_failure list"

record dispatch_token =
  dt_event :: timer_event
  dt_owner :: nat
  dt_nonce :: nat

type_synonym pending_key = "int \<times> nat \<times> timer_id"

record scheduler =
  s_current_ns :: int
  s_sequence :: nat
  s_timers :: "(timer_id, timer) btree"
  s_pending :: "pending_key list"
  s_failures :: "timer_failure list"
  s_closed :: bool
  s_owner :: nat
  s_nonce :: nat
  s_outstanding :: "dispatch_token option"

section \<open>Snapshot validation\<close>

definition bad_snapshot :: clock_error where
  "bad_snapshot = InvalidSnapshot ''invalid Timer state or reservation''"

definition timer_header_valid :: "clock_snapshot \<Rightarrow> timer \<Rightarrow> bool" where
  "timer_header_valid c t =
     (\<not> (t_sequence t = 0
        \<or> t_sequence t > cs_sequence c
        \<or> t_created_ns t > cs_current_ns c
        \<or> t_first_deadline_ns t < t_created_ns t
        \<or> t_deadline_ns t < t_first_deadline_ns t
        \<or> t_state t = Firing
        \<or> (t_state t = Scheduled \<and> t_deadline_ns t < cs_current_ns c)))"

definition one_shot_valid :: "clock_snapshot \<Rightarrow> timer \<Rightarrow> bool" where
  "one_shot_valid c t =
     (\<not> (t_interval_ns t \<noteq> None
        \<or> t_fire_count t > 1
        \<or> t_deadline_ns t \<noteq> t_first_deadline_ns t
        \<or> (t_state t = Completed \<and> t_fire_count t \<noteq> 1)
        \<or> (t_state t = Scheduled \<and> t_fire_count t \<noteq> 0)
        \<or> (t_fire_count t \<noteq> 0 \<and> t_deadline_ns t > cs_current_ns c)))"

definition fixed_rate_valid :: "clock_snapshot \<Rightarrow> timer \<Rightarrow> bool" where
  "fixed_rate_valid c t =
     (case t_interval_ns t of
        None \<Rightarrow> False
      | Some interval \<Rightarrow>
          interval > 0 \<and> t_state t \<noteq> Completed \<and>
          (let nxt = t_first_deadline_ns t + interval * int (t_fire_count t);
               lst = (if t_fire_count t = 0 then None else Some (nxt - interval))
           in (case lst of None \<Rightarrow> True | Some l \<Rightarrow> l \<le> cs_current_ns c) \<and>
              (case t_state t of
                 Scheduled \<Rightarrow> t_deadline_ns t = nxt
               | TimerFailed \<Rightarrow> lst = Some (t_deadline_ns t)
               | Cancelled \<Rightarrow> t_deadline_ns t = nxt \<or> lst = Some (t_deadline_ns t)
               | _ \<Rightarrow> False)))"

definition timer_valid :: "clock_snapshot \<Rightarrow> timer \<Rightarrow> bool" where
  "timer_valid c t =
     (timer_header_valid c t
      \<and> (case t_mode t of OneShot \<Rightarrow> one_shot_valid c t | FixedRate \<Rightarrow> fixed_rate_valid c t)
      \<and> \<not> (t_state t = TimerFailed \<and> t_fire_count t = 0))"

fun validate_timers ::
  "clock_snapshot \<Rightarrow> timer list \<Rightarrow> (timer_id, timer) btree \<Rightarrow> nat list \<Rightarrow> nat \<Rightarrow>
   clock_error + (timer_id, timer) btree \<times> nat" where
  "validate_timers c [] timers sequences count = Inr (timers, count)"
| "validate_timers c (t # ts) timers sequences count =
     (if \<not> timer_valid c t \<or> t_sequence t \<in> set sequences \<or> bt_contains timers (t_id t)
      then Inl bad_snapshot
      else validate_timers c ts (bt_insert (t_id t) t timers)
             (bs_insert (t_sequence t) sequences) (count + 1))"

definition failure_valid :: "timer \<Rightarrow> timer_failure \<Rightarrow> bool" where
  "failure_valid t f =
     (let e = tf_event f;
          deadline = (case t_mode t of
                        OneShot \<Rightarrow> Some (t_first_deadline_ns t)
                      | FixedRate \<Rightarrow>
                          map_option (\<lambda>iv. t_first_deadline_ns t + iv * (int (t_fire_count t) - 1))
                            (t_interval_ns t))
      in (case deadline of
            None \<Rightarrow> False
          | Some d \<Rightarrow>
              \<not> (ev_deadline_ns e \<noteq> d
                 \<or> ev_sequence e \<noteq> t_sequence t
                 \<or> ev_fire_count e = 0
                 \<or> ev_fire_count e \<noteq> t_fire_count t
                 \<or> ev_deadline_ns e \<noteq> t_deadline_ns t
                 \<or> \<not> (t_state t = TimerFailed \<or> t_state t = Cancelled))))"

fun validate_failures ::
  "(timer_id, timer) btree \<Rightarrow> timer_failure list \<Rightarrow> timer_id list \<Rightarrow> clock_error + timer_id list" where
  "validate_failures timers [] failed = Inr failed"
| "validate_failures timers (f # fs) failed =
     (case map_of timers (ev_id (tf_event f)) of
        None \<Rightarrow> Inl bad_snapshot
      | Some t \<Rightarrow>
          if \<not> failure_valid t f \<or> ev_id (tf_event f) \<in> set failed then Inl bad_snapshot
          else validate_failures timers fs (bs_insert (ev_id (tf_event f)) failed))"

definition validate :: "clock_snapshot \<Rightarrow> clock_error + (timer_id, timer) btree" where
  "validate c =
     rbind (validate_timers c (cs_timers c) [] [] 0) (\<lambda>(timers, count).
       if count \<noteq> cs_sequence c then Inl bad_snapshot
       else rbind (validate_failures timers (cs_failures c) []) (\<lambda>failed.
         if \<exists>t \<in> set (bt_values timers). t_state t = TimerFailed \<and> t_id t \<notin> set failed
         then Inl bad_snapshot
         else Inr timers))"

section \<open>Operations\<close>

definition scheduler_new :: "nat \<Rightarrow> int \<Rightarrow> scheduler" where
  "scheduler_new owner initial_ns =
     \<lparr>s_current_ns = initial_ns, s_sequence = 0, s_timers = [], s_pending = [], s_failures = [],
      s_closed = False, s_owner = owner, s_nonce = 0, s_outstanding = None\<rparr>"

definition state :: "scheduler \<Rightarrow> clock_state" where
  "state s = (if s_closed s then ClkClosed else ClkRunning)"

definition get_timer :: "scheduler \<Rightarrow> rstr \<Rightarrow> clock_error + timer" where
  "get_timer s idt =
     rbind (timer_id_new idt) (\<lambda>k. ok_or (map_of (s_timers s) k) (UnknownId idt))"

definition has_timer :: "scheduler \<Rightarrow> rstr \<Rightarrow> bool" where
  "has_timer s idt = (case get_timer s idt of Inl _ \<Rightarrow> False | Inr t \<Rightarrow> is_active (t_state t))"

definition pending_key_of :: "timer \<Rightarrow> pending_key" where
  "pending_key_of t = (t_deadline_ns t, t_sequence t, t_id t)"

definition register ::
  "scheduler \<Rightarrow> rstr \<Rightarrow> int \<Rightarrow> timer_mode \<Rightarrow> int option \<Rightarrow> clock_error + timer_id \<times> scheduler" where
  "register s idt deadline mode interval =
     (if s_closed s then Inl ClockClosed
      else rbind (timer_id_new idt) (\<lambda>k.
        if bt_contains (s_timers s) k then Inl (DuplicateId k)
        else if deadline < s_current_ns s then Inl (ClockValidation ''past deadline'')
        else
          let n = s_sequence s + 1;
              t = \<lparr>t_id = k, t_mode = mode, t_state = Scheduled, t_created_ns = s_current_ns s,
                   t_first_deadline_ns = deadline, t_deadline_ns = deadline,
                   t_interval_ns = interval, t_sequence = n, t_fire_count = 0, t_metadata = []\<rparr>
          in Inr (k, s\<lparr>s_sequence := n, s_pending := bs_insert (deadline, n, k) (s_pending s),
                       s_timers := bt_insert k t (s_timers s)\<rparr>)))"

definition schedule_at :: "scheduler \<Rightarrow> rstr \<Rightarrow> int \<Rightarrow> clock_error + timer_id \<times> scheduler" where
  "schedule_at s idt deadline = register s idt deadline OneShot None"

definition schedule_after :: "scheduler \<Rightarrow> rstr \<Rightarrow> int \<Rightarrow> clock_error + timer_id \<times> scheduler" where
  "schedule_after s idt delay =
     (if delay < 0 then Inl (ClockValidation ''negative delay'')
      else schedule_at s idt (s_current_ns s + delay))"

definition schedule_every ::
  "scheduler \<Rightarrow> rstr \<Rightarrow> int \<Rightarrow> int option \<Rightarrow> clock_error + timer_id \<times> scheduler" where
  "schedule_every s idt interval start =
     (if interval \<le> 0 then Inl (ClockValidation ''nonpositive interval'')
      else register s idt (case start of None \<Rightarrow> s_current_ns s + interval | Some d \<Rightarrow> d)
             FixedRate (Some interval))"

definition cancel :: "scheduler \<Rightarrow> rstr \<Rightarrow> clock_error + bool \<times> scheduler" where
  "cancel s idt =
     rbind (timer_id_new idt) (\<lambda>k.
       case map_of (s_timers s) k of
         None \<Rightarrow> Inr (False, s)
       | Some t \<Rightarrow>
           if is_active (t_state t)
           then Inr (True, s\<lparr>s_pending := bs_remove (pending_key_of t) (s_pending s),
                             s_timers := bt_insert k (t\<lparr>t_state := Cancelled\<rparr>) (s_timers s)\<rparr>)
           else Inr (False, s))"

definition require_dispatchable :: "scheduler \<Rightarrow> clock_error + unit" where
  "require_dispatchable s =
     (if s_closed s then Inl ClockClosed
      else if s_outstanding s \<noteq> None then Inl ClockBusy else Inr ())"

definition event_of :: "timer \<Rightarrow> int \<Rightarrow> timer_event" where
  "event_of t fired_at =
     \<lparr>ev_id = t_id t, ev_deadline_ns = t_deadline_ns t, ev_fired_at_ns = fired_at,
      ev_sequence = t_sequence t, ev_fire_count = t_fire_count t\<rparr>"

definition dispatch_id ::
  "scheduler \<Rightarrow> timer_id \<Rightarrow> int \<Rightarrow> clock_error + dispatch_token \<times> scheduler" where
  "dispatch_id s k fired_at =
     rbind (require_dispatchable s) (\<lambda>_.
     rbind (ok_or (map_of (s_timers s) k) (UnknownId k)) (\<lambda>t.
       if t_state t \<noteq> Scheduled then Inl StaleDispatch
       else
         let t' = t\<lparr>t_state := Firing, t_fire_count := t_fire_count t + 1\<rparr>;
             nonce = s_nonce s + 1;
             token = \<lparr>dt_event = (event_of t' fired_at)\<lparr>ev_id := k\<rparr>, dt_owner = s_owner s,
                      dt_nonce = nonce\<rparr>
         in Inr (token, s\<lparr>s_pending := bs_remove (t_deadline_ns t, t_sequence t, k) (s_pending s),
                          s_timers := bt_insert k t' (s_timers s), s_nonce := nonce,
                          s_current_ns := fired_at, s_outstanding := Some token\<rparr>)))"

definition dispatch_next ::
  "scheduler \<Rightarrow> int \<Rightarrow> clock_error + dispatch_token option \<times> scheduler" where
  "dispatch_next s target =
     rbind (require_dispatchable s) (\<lambda>_.
       case bs_first (s_pending s) of
         None \<Rightarrow> Inr (None, s)
       | Some (deadline, _, k) \<Rightarrow>
           if deadline \<le> target
           then rbind (dispatch_id s k deadline) (\<lambda>(token, s'). Inr (Some token, s'))
           else Inr (None, s))"

definition token_valid :: "scheduler \<Rightarrow> dispatch_token \<Rightarrow> bool" where
  "token_valid s token =
     (case s_outstanding s of
        None \<Rightarrow> False
      | Some actual \<Rightarrow> dt_owner token = s_owner s \<and> dt_nonce token = dt_nonce actual
                      \<and> dt_event token = dt_event actual)"

definition complete_dispatch ::
  "scheduler \<Rightarrow> dispatch_token \<Rightarrow> callback_failure + unit \<Rightarrow> clock_error + scheduler" where
  "complete_dispatch s token result =
     (if \<not> token_valid s token then Inl StaleDispatch
      else let k = ev_id (dt_event token) in
        case map_of (s_timers s) k of
          None \<Rightarrow> Inl (ClockPanic ''outstanding Timer remains reserved'')
        | Some t \<Rightarrow>
            (case result of
               Inl failure \<Rightarrow>
                 let t' = (if t_state t \<noteq> Cancelled then t\<lparr>t_state := TimerFailed\<rparr> else t)
                 in Inr (s\<lparr>s_failures := s_failures s @ [\<lparr>tf_event = dt_event token, tf_failure = failure\<rparr>],
                           s_timers := bt_insert k t' (s_timers s), s_outstanding := None\<rparr>)
             | Inr _ \<Rightarrow>
                 if t_state t = Cancelled then Inr (s\<lparr>s_outstanding := None\<rparr>)
                 else (case t_mode t of
                    OneShot \<Rightarrow>
                      Inr (s\<lparr>s_timers := bt_insert k (t\<lparr>t_state := Completed\<rparr>) (s_timers s),
                             s_outstanding := None\<rparr>)
                  | FixedRate \<Rightarrow>
                      (case t_interval_ns t of
                         None \<Rightarrow> Inl (ClockPanic ''validated fixed-rate interval'')
                       | Some interval \<Rightarrow>
                           let t' = t\<lparr>t_deadline_ns := t_deadline_ns t + interval,
                                      t_state := Scheduled\<rparr>
                           in Inr (s\<lparr>s_timers := bt_insert k t' (s_timers s),
                                     s_pending := bs_insert (pending_key_of t') (s_pending s),
                                     s_outstanding := None\<rparr>)))))"

definition cancel_if_active :: "timer \<Rightarrow> timer" where
  "cancel_if_active t = (if is_active (t_state t) then t\<lparr>t_state := Cancelled\<rparr> else t)"

definition close :: "scheduler \<Rightarrow> scheduler" where
  "close s = s\<lparr>s_closed := True, s_pending := [],
               s_timers := bt_map_values cancel_if_active (s_timers s)\<rparr>"

definition snapshot :: "scheduler \<Rightarrow> clock_error + clock_snapshot" where
  "snapshot s =
     (if s_outstanding s \<noteq> None then Inl ClockBusy
      else Inr \<lparr>cs_current_ns = s_current_ns s, cs_sequence = s_sequence s,
                cs_timers = sort_key t_sequence (bt_values (s_timers s)),
                cs_failures = s_failures s\<rparr>)"

definition active_ids :: "clock_snapshot \<Rightarrow> timer_id list" where
  "active_ids c = bs_from_list (map t_id (filter (\<lambda>t. t_state t = Scheduled) (cs_timers c)))"

definition same_reservation :: "timer \<Rightarrow> timer \<Rightarrow> bool" where
  "same_reservation old new =
     (\<not> (t_created_ns old \<noteq> t_created_ns new
        \<or> t_sequence old \<noteq> t_sequence new
        \<or> t_mode old \<noteq> t_mode new
        \<or> t_interval_ns old \<noteq> t_interval_ns new
        \<or> t_first_deadline_ns old \<noteq> t_first_deadline_ns new
        \<or> t_metadata old \<noteq> t_metadata new))"

fun check_reservations ::
  "(timer_id, timer) btree \<Rightarrow> (timer_id, timer) btree \<Rightarrow> clock_error + unit" where
  "check_reservations [] candidate = Inr ()"
| "check_reservations ((k, old) # rest) candidate =
     (case map_of candidate k of
        None \<Rightarrow> Inl (InvalidSnapshot ''restore releases reserved ID'')
      | Some new \<Rightarrow>
          if \<not> same_reservation old new
          then Inl (InvalidSnapshot ''restore redefines reserved Timer'')
          else check_reservations rest candidate)"

definition restore :: "scheduler \<Rightarrow> nat \<Rightarrow> clock_snapshot \<Rightarrow> clock_error + scheduler" where
  "restore s fresh_owner c =
     rbind (require_dispatchable s) (\<lambda>_.
     rbind (validate c) (\<lambda>candidate.
     rbind (check_reservations (s_timers s) candidate) (\<lambda>_.
       Inr (s\<lparr>s_pending := bs_from_list
                 (map pending_key_of (filter (\<lambda>t. t_state t = Scheduled) (bt_values candidate))),
              s_current_ns := cs_current_ns c, s_sequence := cs_sequence c,
              s_timers := candidate, s_failures := cs_failures c,
              s_owner := fresh_owner\<rparr>))))"

definition is_fresh :: "scheduler \<Rightarrow> bool" where
  "is_fresh s = (s_timers s = [] \<and> s_sequence s = 0)"

end
