(* ===== verification/Scheduler_Invariant.thy ===== *)
theory Scheduler_Invariant
  imports Timer_Scheduler
begin

text \<open>
  The invariant of the timer scheduler and its preservation by every operation. The
  conditions on a single timer are those of the snapshot validator: a timer at rest is
  one the validator accepts, and a timer in flight is one the validator would accept as
  failed.
\<close>

section \<open>The invariant\<close>

definition ctx :: "int \<Rightarrow> nat \<Rightarrow> clock_snapshot" where
  "ctx now n = \<lparr>cs_current_ns = now, cs_sequence = n, cs_timers = [], cs_failures = []\<rparr>"

abbreviation failed_as :: "timer \<Rightarrow> timer" where
  "failed_as t \<equiv> t\<lparr>t_state := TimerFailed\<rparr>"

definition failure_ids :: "timer_failure list \<Rightarrow> timer_id list" where
  "failure_ids fs = map (ev_id \<circ> tf_event) fs"

definition timers_ok :: "int \<Rightarrow> nat \<Rightarrow> (timer_id, timer) btree \<Rightarrow> bool" where
  "timers_ok now n m \<longleftrightarrow>
     bt_ok m \<and> card (dom (map_of m)) = n
     \<and> (\<forall>k t. map_of m k = Some t \<longrightarrow> t_id t = k \<and> t_sequence t \<le> n
           \<and> (t_state t \<noteq> Firing \<longrightarrow> timer_valid (ctx now n) t))
     \<and> (\<forall>k k' t t'. map_of m k = Some t \<longrightarrow> map_of m k' = Some t' \<longrightarrow>
          t_sequence t = t_sequence t' \<longrightarrow> k = k')"

definition scheduled_keys :: "(timer_id, timer) btree \<Rightarrow> pending_key set" where
  "scheduled_keys m = {pending_key_of t | k t. map_of m k = Some t \<and> t_state t = Scheduled}"

definition failures_ok :: "(timer_id, timer) btree \<Rightarrow> timer_failure list \<Rightarrow> bool" where
  "failures_ok m fs \<longleftrightarrow>
     distinct (failure_ids fs)
     \<and> (\<forall>f \<in> set fs. \<exists>t. map_of m (ev_id (tf_event f)) = Some t \<and> failure_valid t f)
     \<and> (\<forall>k t. map_of m k = Some t \<longrightarrow> t_state t = TimerFailed \<longrightarrow> k \<in> set (failure_ids fs))"

definition in_flight :: "scheduler \<Rightarrow> dispatch_token \<Rightarrow> timer \<Rightarrow> bool" where
  "in_flight s tok t \<longleftrightarrow>
     t_state t \<in> {Firing, Cancelled}
     \<and> timer_valid (ctx (s_current_ns s) (s_sequence s)) (failed_as t)
     \<and> s_current_ns s = t_deadline_ns t
     \<and> dt_event tok = event_of t (ev_fired_at_ns (dt_event tok))
     \<and> t_id t \<notin> set (failure_ids (s_failures s))"

definition outstanding_ok :: "scheduler \<Rightarrow> bool" where
  "outstanding_ok s \<longleftrightarrow>
     (case s_outstanding s of
        None \<Rightarrow> (\<forall>k t. map_of (s_timers s) k = Some t \<longrightarrow> t_state t \<noteq> Firing)
      | Some tok \<Rightarrow>
          (\<exists>t. map_of (s_timers s) (ev_id (dt_event tok)) = Some t \<and> in_flight s tok t)
          \<and> (\<forall>k t. map_of (s_timers s) k = Some t \<longrightarrow> t_state t = Firing \<longrightarrow> k = ev_id (dt_event tok))
          \<and> dt_owner tok = s_owner s)"

definition sched_inv :: "scheduler \<Rightarrow> bool" where
  "sched_inv s \<longleftrightarrow>
     timers_ok (s_current_ns s) (s_sequence s) (s_timers s)
     \<and> bs_ok (s_pending s) \<and> set (s_pending s) = scheduled_keys (s_timers s)
     \<and> failures_ok (s_timers s) (s_failures s)
     \<and> outstanding_ok s
     \<and> (s_closed s \<longrightarrow> (\<forall>k t. map_of (s_timers s) k = Some t \<longrightarrow> \<not> is_active (t_state t)))"

lemma sched_invD:
  assumes "sched_inv s"
  shows "timers_ok (s_current_ns s) (s_sequence s) (s_timers s)"
    and "bs_ok (s_pending s)" and "set (s_pending s) = scheduled_keys (s_timers s)"
    and "failures_ok (s_timers s) (s_failures s)" and "outstanding_ok s"
    and "s_closed s \<Longrightarrow> map_of (s_timers s) k = Some t \<Longrightarrow> \<not> is_active (t_state t)"
  using assms by (auto simp: sched_inv_def)

lemma timers_okD:
  assumes "timers_ok now n m" and "map_of m k = Some t"
  shows "t_id t = k" and "t_state t \<noteq> Firing \<Longrightarrow> timer_valid (ctx now n) t"
    and "t_sequence t \<le> n"
  using assms by (auto simp: timers_ok_def)

lemma ctx_simps [simp]:
  "cs_current_ns (ctx now n) = now"
  "cs_sequence (ctx now n) = n"
  by (simp_all add: ctx_def)

section \<open>Facts on single timers\<close>

lemmas timer_valid_defs =
  timer_valid_def timer_header_valid_def one_shot_valid_def fixed_rate_valid_def

lemma timer_valid_mono:
  assumes "timer_valid c t" and "cs_current_ns c \<le> cs_current_ns c'"
    and "cs_sequence c \<le> cs_sequence c'"
    and "t_state t = Scheduled \<Longrightarrow> cs_current_ns c' \<le> t_deadline_ns t"
  shows "timer_valid c' t"
  using assms
  by (auto simp: timer_valid_defs Let_def split: timer_mode.splits option.splits timer_state.splits if_splits)

lemma timer_valid_context:
  "cs_current_ns c = cs_current_ns c' \<Longrightarrow> cs_sequence c = cs_sequence c' \<Longrightarrow>
   timer_valid c t = timer_valid c' t"
  by (cases "t_mode t"; cases "t_interval_ns t") (simp_all add: timer_valid_defs Let_def)

lemma timer_valid_scheduled:
  "timer_valid c t \<Longrightarrow> t_state t = Scheduled \<Longrightarrow> cs_current_ns c \<le> t_deadline_ns t"
  by (simp add: timer_valid_defs)

text \<open>A scheduled timer that fires at its deadline is a timer the validator accepts as failed.\<close>

lemma fire_valid:
  assumes "timer_valid (ctx now n) t" and "t_state t = Scheduled" and "t_deadline_ns t \<le> fired_at"
  shows "timer_valid (ctx fired_at n)
           (failed_as (t\<lparr>t_state := Firing, t_fire_count := Suc (t_fire_count t)\<rparr>))"
  using assms
  by (auto simp: timer_valid_defs Let_def algebra_simps split: timer_mode.splits option.splits)

lemma state_update_same: "t_state t = x \<Longrightarrow> t\<lparr>t_state := x\<rparr> = t"
  by (cases t) simp

lemma failed_valid_cancelled:
  assumes "timer_valid c (failed_as t)"
  shows "timer_valid c (t\<lparr>t_state := Cancelled\<rparr>)"
  using assms by (auto simp: timer_valid_defs Let_def split: timer_mode.splits option.splits)

lemma failed_valid_completed:
  assumes "timer_valid c (failed_as t)" and "t_mode t = OneShot"
  shows "timer_valid c (t\<lparr>t_state := Completed\<rparr>)"
  using assms by (auto simp: timer_valid_defs Let_def split: timer_mode.splits option.splits)

lemma failed_valid_rearmed:
  assumes "timer_valid c (failed_as t)" and "t_mode t = FixedRate" and "t_interval_ns t = Some iv"
    and "cs_current_ns c \<le> t_deadline_ns t + iv"
  shows "timer_valid c (t\<lparr>t_deadline_ns := t_deadline_ns t + iv, t_state := Scheduled\<rparr>)"
  using assms
  by (auto simp: timer_valid_defs Let_def algebra_simps split: timer_mode.splits option.splits if_splits)

lemma scheduled_valid_cancelled:
  assumes "timer_valid c t" and "t_state t = Scheduled"
  shows "timer_valid c (t\<lparr>t_state := Cancelled\<rparr>)"
  using assms by (auto simp: timer_valid_defs Let_def split: timer_mode.splits option.splits)

lemma failed_valid_interval:
  "timer_valid c (failed_as t) \<Longrightarrow> t_mode t = FixedRate \<Longrightarrow> \<exists>iv > 0. t_interval_ns t = Some iv"
  by (auto simp: timer_valid_defs split: option.splits)

lemma failed_valid_failure:
  assumes "timer_valid c (failed_as t)" and "t_state t \<in> {TimerFailed, Cancelled}"
    and "tf_event f = event_of t fa"
  shows "failure_valid t f"
  using assms
  by (auto simp: timer_valid_defs failure_valid_def event_of_def Let_def algebra_simps
           split: timer_mode.splits option.splits if_splits)

lemma failure_valid_inactive: "failure_valid t f \<Longrightarrow> \<not> is_active (t_state t)"
  by (auto simp: failure_valid_def Let_def is_active_def split: option.splits)

section \<open>Replacing one timer\<close>

lemma scheduled_keys_iff:
  "x \<in> scheduled_keys m \<longleftrightarrow> (\<exists>k t. map_of m k = Some t \<and> t_state t = Scheduled \<and> x = pending_key_of t)"
  by (auto simp: scheduled_keys_def)

lemma scheduled_keys_update:
  assumes "timers_ok now n m" and "map_of m k = Some t" and "t_id t' = k"
  shows "scheduled_keys (bt_insert k t' m) =
     (scheduled_keys m - {pending_key_of t}) \<union> (if t_state t' = Scheduled then {pending_key_of t'} else {})"
proof -
  have ids: "t_id u = j" if "map_of m j = Some u" for u j
    using that assms(1) by (auto dest: timers_okD)
  have "x \<in> scheduled_keys (bt_insert k t' m) \<longleftrightarrow>
      (\<exists>j u. j \<noteq> k \<and> map_of m j = Some u \<and> t_state u = Scheduled \<and> x = pending_key_of u)
      \<or> (t_state t' = Scheduled \<and> x = pending_key_of t')" for x
    by (auto simp: scheduled_keys_iff)
  moreover have "(\<exists>j u. j \<noteq> k \<and> map_of m j = Some u \<and> t_state u = Scheduled \<and> x = pending_key_of u)
      \<longleftrightarrow> x \<in> scheduled_keys m - {pending_key_of t}" for x
  proof -
    have "pending_key_of u = pending_key_of t \<longleftrightarrow> j = k" if "map_of m j = Some u" for j u
    proof (cases "j = k")
      case True
      with that assms(2) show ?thesis by simp
    next
      case False
      with ids [OF that] ids [OF assms(2)] show ?thesis by (simp add: pending_key_of_def)
    qed
    then show ?thesis by (fastforce simp: scheduled_keys_iff)
  qed
  ultimately show ?thesis by (auto simp: set_eq_iff)
qed

lemma scheduled_keys_insert:
  assumes "map_of m k = None"
  shows "scheduled_keys (bt_insert k t' m) =
     scheduled_keys m \<union> (if t_state t' = Scheduled then {pending_key_of t'} else {})"
proof -
  have "x \<in> scheduled_keys (bt_insert k t' m) \<longleftrightarrow>
      (\<exists>j u. j \<noteq> k \<and> map_of m j = Some u \<and> t_state u = Scheduled \<and> x = pending_key_of u)
      \<or> (t_state t' = Scheduled \<and> x = pending_key_of t')" for x
    by (auto simp: scheduled_keys_iff)
  moreover have "(\<exists>j u. j \<noteq> k \<and> map_of m j = Some u \<and> t_state u = Scheduled \<and> x = pending_key_of u)
      \<longleftrightarrow> x \<in> scheduled_keys m" for x
    unfolding scheduled_keys_iff
  proof -
    have "j \<noteq> k" if "map_of m j = Some u" for j u using that assms by auto
    then show "(\<exists>j u. j \<noteq> k \<and> map_of m j = Some u \<and> t_state u = Scheduled \<and> x = pending_key_of u)
      \<longleftrightarrow> (\<exists>j u. map_of m j = Some u \<and> t_state u = Scheduled \<and> x = pending_key_of u)"
      by blast
  qed
  ultimately show ?thesis by (simp add: set_eq_iff)
qed

lemma timers_ok_update:
  assumes ok: "timers_ok now n m" and t: "map_of m k = Some t" and "t_id t' = k"
    and sq: "t_sequence t' = t_sequence t"
    and "t_state t' \<noteq> Firing \<Longrightarrow> timer_valid (ctx now n) t'"
  shows "timers_ok now n (bt_insert k t' m)"
  unfolding timers_ok_def
proof (intro conjI allI impI)
  show "bt_ok (bt_insert k t' m)" using ok by (simp add: timers_ok_def)
  have "insert k (dom (map_of m)) = dom (map_of m)" using t by auto
  then show "card (dom (map_of (bt_insert k t' m))) = n" using ok by (simp add: timers_ok_def)
next
  fix j u assume "map_of (bt_insert k t' m) j = Some u"
  then show "t_id u = j" "t_sequence u \<le> n" "t_state u \<noteq> Firing \<Longrightarrow> timer_valid (ctx now n) u"
    using assms timers_okD [OF ok] by (auto split: if_splits)
next
  fix j j' u u'
  assume u: "map_of (bt_insert k t' m) j = Some u" and u': "map_of (bt_insert k t' m) j' = Some u'"
    and eq: "t_sequence u = t_sequence u'"
  have old: "\<exists>v. map_of m i = Some v \<and> t_sequence v = t_sequence w"
    if "map_of (bt_insert k t' m) i = Some w" for i w
    using that t sq by (cases "i = k") auto
  obtain v v' where "map_of m j = Some v" "map_of m j' = Some v'" "t_sequence v = t_sequence v'"
    using old [OF u] old [OF u'] eq by auto
  then show "j = j'" using ok unfolding timers_ok_def by blast
qed

lemma timers_ok_mono:
  assumes ok: "timers_ok now n m" and "now \<le> now'"
    and dl: "\<And>k t. map_of m k = Some t \<Longrightarrow> t_state t = Scheduled \<Longrightarrow> now' \<le> t_deadline_ns t"
  shows "timers_ok now' n m"
proof -
  have "timer_valid (ctx now' n) t" if "map_of m k = Some t" "t_state t \<noteq> Firing" for k t
    by (rule timer_valid_mono [OF timers_okD(2) [OF ok that]])
       (simp_all add: \<open>now \<le> now'\<close> dl [OF that(1)])
  with ok show ?thesis unfolding timers_ok_def by blast
qed

lemma failures_ok_update:
  assumes "failures_ok m fs" and "map_of m k = Some t" and "k \<notin> set (failure_ids fs)"
    and "t_state t' \<noteq> TimerFailed"
  shows "failures_ok (bt_insert k t' m) fs"
  using assms unfolding failures_ok_def failure_ids_def by (auto 0 4 split: if_splits)

lemma failures_ok_fail:
  assumes "failures_ok m fs" and "k \<notin> set (failure_ids fs)"
    and "ev_id (tf_event f) = k" and "failure_valid t' f"
  shows "failures_ok (bt_insert k t' m) (fs @ [f])"
  using assms unfolding failures_ok_def failure_ids_def
  by (auto 0 4 split: if_splits simp: image_iff)

lemma failed_not_active:
  assumes "failures_ok m fs" and "map_of m k = Some t" and "is_active (t_state t)"
  shows "k \<notin> set (failure_ids fs)"
  using assms failure_valid_inactive unfolding failures_ok_def failure_ids_def by fastforce

section \<open>Preservation by the operations\<close>

lemma sched_inv_new [inv_intros]: "sched_inv (scheduler_new owner now)"
  by (simp add: sched_inv_def scheduler_new_def timers_ok_def scheduled_keys_def failures_ok_def
      failure_ids_def outstanding_ok_def)

lemma timers_ok_insert:
  assumes ok: "timers_ok now n m" and k: "map_of m k = None" and t': "t_id t' = k" "t_sequence t' = Suc n"
    and valid: "timer_valid (ctx now (Suc n)) t'"
  shows "timers_ok now (Suc n) (bt_insert k t' m)"
  unfolding timers_ok_def
proof (intro conjI allI impI)
  show "bt_ok (bt_insert k t' m)" using ok by (simp add: timers_ok_def)
  have "finite (dom (map_of m))" by (rule finite_dom_map_of)
  then show "card (dom (map_of (bt_insert k t' m))) = Suc n"
    using ok k by (simp add: timers_ok_def domIff)
next
  fix j u assume u: "map_of (bt_insert k t' m) j = Some u"
  show "t_id u = j" "t_sequence u \<le> Suc n"
    using u t' timers_okD(1,3) [OF ok, of j u] by (cases "j = k"; simp)+
  assume "t_state u \<noteq> Firing"
  show "timer_valid (ctx now (Suc n)) u"
  proof (cases "j = k")
    case True
    with u valid show ?thesis by simp
  next
    case False
    with u have v: "timer_valid (ctx now n) u"
      using timers_okD(2) [OF ok] \<open>t_state u \<noteq> Firing\<close> by auto
    show ?thesis
      by (rule timer_valid_mono [OF v]) (use timer_valid_scheduled [OF v] in auto)
  qed
next
  fix j j' u u'
  assume u: "map_of (bt_insert k t' m) j = Some u" "map_of (bt_insert k t' m) j' = Some u'"
    and eq: "t_sequence u = t_sequence u'"
  have small: "t_sequence v \<noteq> Suc n" if "map_of m i = Some v" for i v
    using timers_okD(3) [OF ok that] by simp
  show "j = j'"
    using u eq t' small [of j u] small [of j' u'] ok unfolding timers_ok_def
    by (cases "j = k"; cases "j' = k") auto
qed

lemma sched_inv_register [inv_intros]:
  assumes inv: "sched_inv s" and reg: "register s idt deadline mode interval = Inr (k, s')"
    and mode: "mode = OneShot \<and> interval = None \<or> mode = FixedRate \<and> (\<exists>iv > 0. interval = Some iv)"
  shows "sched_inv s'"
proof -
  let ?t = "\<lparr>t_id = k, t_mode = mode, t_state = Scheduled, t_created_ns = s_current_ns s,
             t_first_deadline_ns = deadline, t_deadline_ns = deadline, t_interval_ns = interval,
             t_sequence = Suc (s_sequence s), t_fire_count = 0, t_metadata = []\<rparr>"
  from reg have open_: "\<not> s_closed s" and dl: "s_current_ns s \<le> deadline"
    and k: "map_of (s_timers s) k = None"
    and s': "s' = s\<lparr>s_sequence := Suc (s_sequence s),
        s_pending := bs_insert (pending_key_of ?t) (s_pending s), s_timers := bt_insert k ?t (s_timers s)\<rparr>"
    by (auto simp: register_def result_simps bt_contains_def Let_def pending_key_of_def split: if_splits)
  have ok: "timers_ok (s_current_ns s) (Suc (s_sequence s)) (bt_insert k ?t (s_timers s))"
  proof (rule timers_ok_insert [OF sched_invD(1) [OF inv] k])
    show "timer_valid (ctx (s_current_ns s) (Suc (s_sequence s))) ?t"
      using dl mode by (auto simp: timer_valid_defs)
  qed simp_all
  have fl: "failures_ok (bt_insert k ?t (s_timers s)) (s_failures s)"
    using sched_invD(4) [OF inv] k unfolding failures_ok_def
    by (auto split: if_splits)
  have "in_flight s' tok u" if "in_flight s tok u" for tok u
    using that unfolding in_flight_def s' by (auto elim!: timer_valid_mono)
  then have out: "outstanding_ok s'"
    using sched_invD(5) [OF inv] k unfolding outstanding_ok_def s'
    by (auto split: option.splits if_splits)
  show ?thesis
    using inv ok fl out open_ scheduled_keys_insert [OF k, of ?t] unfolding sched_inv_def
    by (simp add: s')
qed

lemma sched_inv_cancel [inv_intros]:
  assumes inv: "sched_inv s" and c: "cancel s idt = Inr (b, s')"
  shows "sched_inv s'"
proof (cases "s' = s")
  case True
  with inv show ?thesis by simp
next
  case False
  then obtain k t where t: "map_of (s_timers s) k = Some t" and act: "is_active (t_state t)"
    and s': "s' = s\<lparr>s_pending := bs_remove (pending_key_of t) (s_pending s),
                  s_timers := bt_insert k (t\<lparr>t_state := Cancelled\<rparr>) (s_timers s)\<rparr>"
    using c by (auto simp: cancel_def result_simps split: option.splits if_splits)
  let ?t = "t\<lparr>t_state := Cancelled\<rparr>"
  note ok = sched_invD(1) [OF inv]
  have id: "t_id t = k" using timers_okD(1) [OF ok t] .
  have flying: "\<exists>tok. s_outstanding s = Some tok \<and> ev_id (dt_event tok) = k \<and> in_flight s tok t"
    if "t_state t = Firing"
    using sched_invD(5) [OF inv] t that unfolding outstanding_ok_def
    by (auto split: option.splits)
  have valid: "timer_valid (ctx (s_current_ns s) (s_sequence s)) ?t"
  proof (cases "t_state t = Firing")
    case True
    with flying show ?thesis by (auto simp: in_flight_def intro: failed_valid_cancelled)
  next
    case False
    with act have "t_state t = Scheduled" by (simp add: is_active_def)
    with timers_okD(2) [OF ok t] show ?thesis by (auto intro: scheduled_valid_cancelled)
  qed
  have tok: "timers_ok (s_current_ns s) (s_sequence s) (bt_insert k ?t (s_timers s))"
    by (rule timers_ok_update [OF ok t]) (use id valid in auto)
  have fl: "failures_ok (bt_insert k ?t (s_timers s)) (s_failures s)"
    by (rule failures_ok_update [OF sched_invD(4) [OF inv] t])
       (use failed_not_active [OF sched_invD(4) [OF inv] t act] in auto)
  have "in_flight s' tok (if ev_id (dt_event tok) = k then ?t else u)"
    if "in_flight s tok u" "map_of (s_timers s) (ev_id (dt_event tok)) = Some u" for tok u
    using that t unfolding in_flight_def s' by (auto simp: event_of_def)
  then have out: "outstanding_ok s'"
    using sched_invD(5) [OF inv] t unfolding outstanding_ok_def s'
    by (fastforce split: option.splits if_splits)
  show ?thesis
    using inv tok fl out scheduled_keys_update [OF ok t, of ?t] id unfolding sched_inv_def
    by (auto simp: s' is_active_def)
qed

lemma sched_inv_dispatch_id:
  assumes inv: "sched_inv s" and d: "dispatch_id s k fired_at = Inr (tok, s')"
    and t: "map_of (s_timers s) k = Some t"
    and late: "t_deadline_ns t = fired_at" "s_current_ns s \<le> fired_at"
    and first: "\<And>j u. map_of (s_timers s) j = Some u \<Longrightarrow> t_state u = Scheduled \<Longrightarrow> j \<noteq> k \<Longrightarrow>
      fired_at \<le> t_deadline_ns u"
  shows "sched_inv s'"
proof -
  let ?t = "t\<lparr>t_state := Firing, t_fire_count := Suc (t_fire_count t)\<rparr>"
  note ok = sched_invD(1) [OF inv]
  have id: "t_id t = k" using timers_okD(1) [OF ok t] .
  from d t have st: "t_state t = Scheduled" and none: "s_outstanding s = None" and "\<not> s_closed s"
    and tok: "tok = \<lparr>dt_event = event_of ?t fired_at, dt_owner = s_owner s, dt_nonce = Suc (s_nonce s)\<rparr>"
    and s': "s' = s\<lparr>s_pending := bs_remove (pending_key_of t) (s_pending s),
                  s_timers := bt_insert k ?t (s_timers s), s_nonce := Suc (s_nonce s),
                  s_current_ns := fired_at, s_outstanding := Some tok\<rparr>"
    by (auto simp: dispatch_id_def require_dispatchable_def result_simps Let_def event_of_def
        pending_key_of_def id split: if_splits)
  have valid: "timer_valid (ctx fired_at (s_sequence s)) (failed_as ?t)"
    by (rule fire_valid [OF timers_okD(2) [OF ok t] st]) (simp_all add: st late(1))
  have tok_ok: "timers_ok (s_current_ns s) (s_sequence s) (bt_insert k ?t (s_timers s))"
    by (rule timers_ok_update [OF ok t]) (use id in auto)
  have tok_ok': "timers_ok fired_at (s_sequence s) (bt_insert k ?t (s_timers s))"
    by (rule timers_ok_mono [OF tok_ok late(2)]) (use first in \<open>auto split: if_splits\<close>)
  have fid: "k \<notin> set (failure_ids (s_failures s))"
    by (rule failed_not_active [OF sched_invD(4) [OF inv] t]) (simp add: st is_active_def)
  have fl: "failures_ok (bt_insert k ?t (s_timers s)) (s_failures s)"
    by (rule failures_ok_update [OF sched_invD(4) [OF inv] t fid]) simp
  have out: "outstanding_ok s'"
    using sched_invD(5) [OF inv] valid fid id none late(1)
    by (auto simp: outstanding_ok_def s' in_flight_def tok event_of_def split: if_splits)
  show ?thesis
    using inv tok_ok' fl out \<open>\<not> s_closed s\<close> scheduled_keys_update [OF ok t, of ?t] id
    unfolding sched_inv_def by (simp add: s')
qed

lemma dispatch_next_cases:
  assumes inv: "sched_inv s" and d: "dispatch_next s target = Inr (r, s')"
  obtains (idle) "r = None" "s' = s" "\<And>j u. map_of (s_timers s) j = Some u \<Longrightarrow>
        t_state u = Scheduled \<Longrightarrow> target < t_deadline_ns u" "s_outstanding s = None" "\<not> s_closed s"
  | (fire) k t tok where "r = Some tok" "map_of (s_timers s) k = Some t" "t_state t = Scheduled"
      "t_deadline_ns t \<le> target" "dispatch_id s k (t_deadline_ns t) = Inr (tok, s')"
      "\<And>j u. map_of (s_timers s) j = Some u \<Longrightarrow> t_state u = Scheduled \<Longrightarrow>
        pending_key_of t \<le> pending_key_of u"
proof -
  have disp: "s_outstanding s = None" "\<not> s_closed s"
    using d by (auto simp: dispatch_next_def require_dispatchable_def result_simps split: if_splits)
  have mem: "pending_key_of u \<in> set (s_pending s)"
    if "map_of (s_timers s) j = Some u" "t_state u = Scheduled" for j u
    using that sched_invD(3) [OF inv] by (auto simp: scheduled_keys_iff)
  show thesis
  proof (cases "bs_first (s_pending s)")
    case None
    with mem have "\<not> (map_of (s_timers s) j = Some u \<and> t_state u = Scheduled)" for j u by fastforce
    with None d disp show ?thesis
      by (intro idle) (auto simp: dispatch_next_def require_dispatchable_def)
  next
    case (Some x)
    then have x: "x \<in> set (s_pending s)" "\<And>y. y \<in> set (s_pending s) \<Longrightarrow> x \<le> y"
      using bs_first_SomeD [OF sched_invD(2) [OF inv]] by auto
    then obtain k t where t: "map_of (s_timers s) k = Some t" "t_state t = Scheduled" "x = pending_key_of t"
      using sched_invD(3) [OF inv] by (auto simp: scheduled_keys_iff)
    have id: "t_id t = k" by (rule timers_okD(1) [OF sched_invD(1) [OF inv] t(1)])
    have le: "pending_key_of t \<le> pending_key_of u"
      if "map_of (s_timers s) j = Some u" "t_state u = Scheduled" for j u
      using x(2) [OF mem [OF that]] t(3) by simp
    show ?thesis
    proof (cases "t_deadline_ns t \<le> target")
      case True
      with d disp Some t(3) id obtain tok
        where "r = Some tok" "dispatch_id s k (t_deadline_ns t) = Inr (tok, s')"
        by (auto simp: dispatch_next_def require_dispatchable_def pending_key_of_def result_simps)
      then show ?thesis using True t le by (intro fire [of tok k t]) auto
    next
      case False
      have "target < t_deadline_ns u" if "map_of (s_timers s) j = Some u" "t_state u = Scheduled" for j u
        using le [OF that] False by (auto simp: pending_key_of_def less_eq_prod_def)
      with d disp Some t False show ?thesis
        by (intro idle) (auto simp: dispatch_next_def require_dispatchable_def pending_key_of_def)
    qed
  qed
qed

lemma sched_inv_dispatch_next [inv_intros]:
  assumes inv: "sched_inv s" and d: "dispatch_next s target = Inr (r, s')"
  shows "sched_inv s'"
  using inv d
proof (cases rule: dispatch_next_cases)
  case idle
  with inv show ?thesis by simp
next
  case (fire k t tok)
  show ?thesis
  proof (rule sched_inv_dispatch_id [OF inv fire(5) fire(2)])
    show "s_current_ns s \<le> t_deadline_ns t"
      using timers_okD(2) [OF sched_invD(1) [OF inv] fire(2)] fire(3)
      by (auto dest: timer_valid_scheduled)
    show "t_deadline_ns t \<le> t_deadline_ns u"
      if "map_of (s_timers s) j = Some u" "t_state u = Scheduled" for j u
      using fire(6) [OF that] by (auto simp: pending_key_of_def less_eq_prod_def)
  qed simp
qed

text \<open>Completion replaces the timer in flight by one at rest.\<close>

lemma outstandingE:
  assumes "sched_inv s" and "s_outstanding s = Some tok"
  obtains t where "map_of (s_timers s) (ev_id (dt_event tok)) = Some t" and "in_flight s tok t"
    and "t_id t = ev_id (dt_event tok)"
    and "\<And>j u. map_of (s_timers s) j = Some u \<Longrightarrow> t_state u = Firing \<Longrightarrow> j = ev_id (dt_event tok)"
  using sched_invD(5) [OF assms(1)] assms(2) timers_okD(1) [OF sched_invD(1) [OF assms(1)]]
  unfolding outstanding_ok_def by auto

lemma in_flight_not_pending:
  assumes ok: "timers_ok now n m" and t: "map_of m k = Some t" and st: "t_state t \<noteq> Scheduled"
  shows "pending_key_of t \<notin> scheduled_keys m"
proof
  assume "pending_key_of t \<in> scheduled_keys m"
  then obtain j u where u: "map_of m j = Some u" "t_state u = Scheduled"
    "pending_key_of t = pending_key_of u"
    unfolding scheduled_keys_iff by blast
  then have "j = k"
    using timers_okD(1) [OF ok u(1)] timers_okD(1) [OF ok t] by (simp add: pending_key_of_def)
  with u t st show False by auto
qed

lemma sched_inv_land:
  assumes inv: "sched_inv s" and out: "s_outstanding s = Some tok"
    and t: "map_of (s_timers s) k = Some t" "k = ev_id (dt_event tok)" "in_flight s tok t"
    and t': "t_id t' = k" "t_sequence t' = t_sequence t" "t_state t' \<noteq> Firing"
      "timer_valid (ctx (s_current_ns s) (s_sequence s)) t'"
    and p: "p = (if t_state t' = Scheduled then bs_insert (pending_key_of t') (s_pending s) else s_pending s)"
    and f: "failures_ok (bt_insert k t' (s_timers s)) fs"
    and closed: "s_closed s \<Longrightarrow> t_state t' \<noteq> Scheduled"
  shows "sched_inv (s\<lparr>s_timers := bt_insert k t' (s_timers s), s_pending := p,
        s_failures := fs, s_outstanding := None\<rparr>)"
proof -
  note ok = sched_invD(1) [OF inv]
  have "pending_key_of t \<notin> scheduled_keys (s_timers s)"
    by (rule in_flight_not_pending [OF ok t(1)]) (use t(3) in \<open>auto simp: in_flight_def\<close>)
  then have "scheduled_keys (bt_insert k t' (s_timers s)) = set p" and "bs_ok p"
    using scheduled_keys_update [OF ok t(1) t'(1)] sched_invD(2,3) [OF inv] p by auto
  moreover have "timers_ok (s_current_ns s) (s_sequence s) (bt_insert k t' (s_timers s))"
    by (rule timers_ok_update [OF ok t(1) t'(1,2)]) (rule t'(4))
  moreover have "t_state u \<noteq> Firing" if "map_of (bt_insert k t' (s_timers s)) j = Some u" for j u
    using that inv out t(2) t'(3) by (auto split: if_splits elim: outstandingE)
  ultimately show ?thesis
    using t'(3) f closed sched_invD(6) [OF inv]
    by (auto simp: sched_inv_def outstanding_ok_def is_active_def split: if_splits)
qed

lemma in_flightD:
  assumes "in_flight s tok t"
  shows "timer_valid (ctx (s_current_ns s) (s_sequence s)) (failed_as t)"
    and "s_current_ns s = t_deadline_ns t" and "t_state t = Firing \<or> t_state t = Cancelled"
    and "t_id t \<notin> set (failure_ids (s_failures s))"
    and "dt_event tok = event_of t (ev_fired_at_ns (dt_event tok))"
  using assms by (auto simp: in_flight_def)

lemma sched_inv_complete_failure:
  assumes inv: "sched_inv s" and out: "s_outstanding s = Some tok"
    and ev: "dt_event token = dt_event tok" and c: "complete_dispatch s token (Inl failure) = Inr s'"
  shows "sched_inv s'"
proof -
  obtain t where t: "map_of (s_timers s) (ev_id (dt_event tok)) = Some t" "in_flight s tok t"
    and id: "t_id t = ev_id (dt_event tok)"
    by (rule outstandingE [OF inv out])
  note fl = in_flightD [OF t(2)]
  let ?t = "if t_state t \<noteq> Cancelled then failed_as t else t"
  let ?f = "\<lparr>tf_event = dt_event tok, tf_failure = failure\<rparr>"
  have "failure_valid ?t ?f"
    by (rule failed_valid_failure [of "ctx (s_current_ns s) (s_sequence s)" _ _ "ev_fired_at_ns (dt_event tok)"])
       (use fl in \<open>auto simp: event_of_def\<close>)
  then have f: "failures_ok (bt_insert (ev_id (dt_event tok)) ?t (s_timers s)) (s_failures s @ [?f])"
    using fl(4) id by (intro failures_ok_fail [OF sched_invD(4) [OF inv]]) auto
  have v: "timer_valid (ctx (s_current_ns s) (s_sequence s)) ?t"
    using fl(1,3) failed_valid_cancelled [OF fl(1)] by (auto simp: state_update_same)
  from c out ev t(1)
  have "s' = s\<lparr>s_timers := bt_insert (ev_id (dt_event tok)) ?t (s_timers s), s_pending := s_pending s,
      s_failures := s_failures s @ [?f], s_outstanding := None\<rparr>"
    by (auto simp: complete_dispatch_def Let_def split: if_splits)
  then show ?thesis
    using sched_inv_land [OF inv out t(1) refl t(2), of ?t] v f id fl(3) by auto
qed

lemma sched_inv_complete_success:
  assumes inv: "sched_inv s" and out: "s_outstanding s = Some tok"
    and ev: "dt_event token = dt_event tok" and c: "complete_dispatch s token (Inr u) = Inr s'"
  shows "sched_inv s'"
proof -
  let ?k = "ev_id (dt_event tok)"
  obtain t where t: "map_of (s_timers s) ?k = Some t" "in_flight s tok t" and id: "t_id t = ?k"
    by (rule outstandingE [OF inv out])
  note fl = in_flightD [OF t(2)] and land = sched_inv_land [OF inv out t(1) refl t(2)]
  have fid: "?k \<notin> set (failure_ids (s_failures s))" using fl(4) id by simp
  note keep = failures_ok_update [OF sched_invD(4) [OF inv] t(1) fid]
  consider (cancelled) "t_state t = Cancelled" | (once) "t_state t = Firing" "t_mode t = OneShot"
    | (again) iv where "t_state t = Firing" "t_mode t = FixedRate" "iv > 0" "t_interval_ns t = Some iv"
    using fl(3) failed_valid_interval [OF fl(1)] by (cases "t_mode t") auto
  then show ?thesis
  proof cases
    case cancelled
    have same: "bt_insert ?k t (s_timers s) = s_timers s"
      using sched_invD(1) [OF inv] t(1) by (intro bt_eqI) (auto simp: timers_ok_def)
    from c out ev t(1) cancelled have "s' = s\<lparr>s_outstanding := None\<rparr>"
      by (auto simp: complete_dispatch_def Let_def split: if_splits)
    then show ?thesis
      using land [of t "s_pending s" "s_failures s"] id cancelled same sched_invD(4) [OF inv]
        failed_valid_cancelled [OF fl(1)] by (simp add: state_update_same)
  next
    case once
    let ?t = "t\<lparr>t_state := Completed\<rparr>"
    from c out ev t(1) once
    have "s' = s\<lparr>s_timers := bt_insert ?k ?t (s_timers s), s_outstanding := None\<rparr>"
      by (auto simp: complete_dispatch_def Let_def split: if_splits)
    then show ?thesis
      using land [of ?t "s_pending s" "s_failures s"] id failed_valid_completed [OF fl(1) once(2)]
        keep [of ?t] by simp
  next
    case again
    let ?t = "t\<lparr>t_deadline_ns := t_deadline_ns t + iv, t_state := Scheduled\<rparr>"
    from c out ev t(1) again
    have "s' = s\<lparr>s_timers := bt_insert ?k ?t (s_timers s),
        s_pending := bs_insert (pending_key_of ?t) (s_pending s), s_outstanding := None\<rparr>"
      by (auto simp: complete_dispatch_def Let_def split: if_splits)
    moreover have "timer_valid (ctx (s_current_ns s) (s_sequence s)) ?t"
      by (rule failed_valid_rearmed [OF fl(1) again(2,4)]) (use fl(2) again(3) in simp)
    moreover have "\<not> s_closed s"
      using sched_invD(6) [OF inv _ t(1)] again(1) by (auto simp: is_active_def)
    ultimately show ?thesis
      using land [of ?t _ "s_failures s"] id keep [of ?t] by simp
  qed
qed

lemma sched_inv_complete [inv_intros]:
  assumes inv: "sched_inv s" and c: "complete_dispatch s token result = Inr s'"
  shows "sched_inv s'"
proof -
  from c obtain tok where "s_outstanding s = Some tok" "dt_event token = dt_event tok"
    by (auto simp: complete_dispatch_def token_valid_def split: if_splits option.splits)
  with c show ?thesis
    using sched_inv_complete_failure [OF inv] sched_inv_complete_success [OF inv]
    by (cases result) auto
qed

text \<open>The \<open>expect\<close>s of \<open>complete_dispatch\<close> cannot fail, and the outstanding token is accepted.\<close>

lemma complete_dispatch_ok:
  assumes inv: "sched_inv s" and out: "s_outstanding s = Some tok"
  shows "\<exists>s'. complete_dispatch s tok result = Inr s'"
proof -
  obtain t where t: "map_of (s_timers s) (ev_id (dt_event tok)) = Some t" "in_flight s tok t"
    by (rule outstandingE [OF inv out])
  have "dt_owner tok = s_owner s"
    using sched_invD(5) [OF inv] out by (simp add: outstanding_ok_def)
  then show ?thesis
    using t(1) out failed_valid_interval [OF in_flightD(1) [OF t(2)]]
    by (cases "t_mode t")
       (auto simp: complete_dispatch_def token_valid_def Let_def split: sum.splits)
qed

lemma complete_dispatch_no_panic:
  assumes inv: "sched_inv s"
  shows "complete_dispatch s token result \<noteq> Inl (ClockPanic msg)"
proof (cases "token_valid s token")
  case True
  then obtain tok where out: "s_outstanding s = Some tok"
    and same: "dt_owner token = s_owner s" "dt_nonce token = dt_nonce tok" "dt_event token = dt_event tok"
    by (auto simp: token_valid_def split: option.splits)
  have "dt_owner tok = s_owner s"
    using sched_invD(5) [OF inv] out by (simp add: outstanding_ok_def)
  with same have "token = tok" by (cases token, cases tok) simp
  with complete_dispatch_ok [OF inv out, of result] show ?thesis by auto
qed (simp add: complete_dispatch_def)

text \<open>Closing turns every active timer into a cancelled one.\<close>

lemma cancel_if_active_simps:
  "\<not> is_active (t_state (cancel_if_active t))"
  "t_id (cancel_if_active t) = t_id t"
  "t_sequence (cancel_if_active t) = t_sequence t"
  "t_deadline_ns (cancel_if_active t) = t_deadline_ns t"
  "event_of (cancel_if_active t) fa = event_of t fa"
  "failed_as (cancel_if_active t) = failed_as t"
  "\<not> is_active (t_state t) \<Longrightarrow> cancel_if_active t = t"
  "t_state (cancel_if_active t) = TimerFailed \<longleftrightarrow> t_state t = TimerFailed"
  by (auto simp: cancel_if_active_def event_of_def is_active_def)

lemma close_lookup:
  "map_of (bt_map_values cancel_if_active m) k = Some u \<longleftrightarrow>
   (\<exists>t. map_of m k = Some t \<and> u = cancel_if_active t)"
  by auto

lemma close_valid:
  assumes inv: "sched_inv s" and t: "map_of (s_timers s) k = Some t"
  shows "timer_valid (ctx (s_current_ns s) (s_sequence s)) (cancel_if_active t)"
proof (cases "t_state t = Firing")
  case True
  then obtain tok where "s_outstanding s = Some tok" "in_flight s tok t"
    using sched_invD(5) [OF inv] t unfolding outstanding_ok_def by (auto split: option.splits)
  with True show ?thesis
    using failed_valid_cancelled [OF in_flightD(1)] by (auto simp: cancel_if_active_def is_active_def)
next
  case False
  with timers_okD(2) [OF sched_invD(1) [OF inv] t] show ?thesis
    using scheduled_valid_cancelled by (auto simp: cancel_if_active_def is_active_def)
qed

lemma close_failures:
  assumes "failures_ok m fs"
  shows "failures_ok (bt_map_values cancel_if_active m) fs"
proof -
  have "failure_valid (cancel_if_active t) f" if "failure_valid t f" for t f
    using that failure_valid_inactive [OF that] by (simp add: cancel_if_active_simps)
  then show ?thesis
    using assms unfolding failures_ok_def by (fastforce simp: close_lookup cancel_if_active_simps)
qed

lemma close_outstanding:
  assumes inv: "sched_inv s"
  shows "outstanding_ok (close s)"
proof -
  have rest: "t_state u \<noteq> Firing" if "map_of (s_timers (close s)) k = Some u" for k u
    using that cancel_if_active_simps(1) by (auto simp: close_def is_active_def)
  show ?thesis
  proof (cases "s_outstanding s")
    case None
    with rest show ?thesis by (simp add: outstanding_ok_def close_def)
  next
    case (Some tok)
    obtain t where t: "map_of (s_timers s) (ev_id (dt_event tok)) = Some t" "in_flight s tok t"
      by (rule outstandingE [OF inv Some])
    have "t_state (cancel_if_active t) = Cancelled"
      using in_flightD(3) [OF t(2)] by (auto simp: cancel_if_active_def is_active_def)
    then have "in_flight (close s) tok (cancel_if_active t)"
      using t(2) by (auto simp: in_flight_def cancel_if_active_simps close_def)
    moreover have "dt_owner tok = s_owner s"
      using sched_invD(5) [OF inv] Some by (simp add: outstanding_ok_def)
    ultimately show ?thesis
      using rest Some t(1) unfolding outstanding_ok_def by (auto simp: close_def)
  qed
qed

lemma sched_inv_close [inv_intros]:
  assumes inv: "sched_inv s"
  shows "sched_inv (close s)"
proof -
  note ok = sched_invD(1) [OF inv]
  let ?m = "bt_map_values cancel_if_active (s_timers s)"
  have "dom (map_of ?m) = dom (map_of (s_timers s))" by (auto simp: dom_def)
  then have "timers_ok (s_current_ns s) (s_sequence s) ?m"
    using ok close_valid [OF inv] unfolding timers_ok_def
    by (auto simp: close_lookup cancel_if_active_simps)
  moreover have "outstanding_ok (close s)"
    by (rule close_outstanding [OF inv])
  moreover have "scheduled_keys ?m = {}"
    using cancel_if_active_simps(1) by (auto simp: scheduled_keys_def close_lookup is_active_def)
  ultimately show ?thesis
    using close_failures [OF sched_invD(4) [OF inv]] cancel_if_active_simps(1)
    by (auto simp: sched_inv_def close_def close_lookup)
qed

text \<open>Moving the time forward past no scheduled deadline.\<close>

lemma sched_inv_set_time [inv_intros]:
  assumes inv: "sched_inv s" and d: "dispatch_next s target = Inr (None, s')"
    and le: "s_current_ns s \<le> target"
  shows "sched_inv (s'\<lparr>s_current_ns := target\<rparr>)"
  using inv d
proof (cases rule: dispatch_next_cases)
  case idle
  have "timers_ok target (s_sequence s) (s_timers s)"
    by (rule timers_ok_mono [OF sched_invD(1) [OF inv] le]) (use idle(3) in fastforce)
  with inv idle show ?thesis
    by (auto simp: sched_inv_def outstanding_ok_def)
qed simp

end
