(* ===== verification/Clock_Snapshot.thy ===== *)
theory Clock_Snapshot
  imports Scheduler_Invariant
begin

text \<open>
  Checkpointing of the timer scheduler. \<open>snapshot_wf\<close> is the specification of a
  well-formed snapshot; the validator of \<open>snapshot.rs\<close> accepts exactly the well-formed
  snapshots, every state that satisfies the invariant produces one, and restoring one
  re-establishes the invariant.
\<close>

section \<open>The validator decides well-formedness\<close>

definition snapshot_wf :: "clock_snapshot \<Rightarrow> bool" where
  "snapshot_wf c \<longleftrightarrow>
     (\<forall>t \<in> set (cs_timers c). timer_valid c t)
     \<and> distinct (map t_sequence (cs_timers c)) \<and> distinct (map t_id (cs_timers c))
     \<and> length (cs_timers c) = cs_sequence c
     \<and> distinct (failure_ids (cs_failures c))
     \<and> (\<forall>f \<in> set (cs_failures c). \<exists>t \<in> set (cs_timers c). t_id t = ev_id (tf_event f) \<and> failure_valid t f)
     \<and> (\<forall>t \<in> set (cs_timers c). t_state t = TimerFailed \<longrightarrow> t_id t \<in> set (failure_ids (cs_failures c)))"

definition index_timers :: "timer list \<Rightarrow> (timer_id, timer) btree" where
  "index_timers ts = fold (\<lambda>t. bt_insert (t_id t) t) ts []"

lemma fold_index:
  "distinct (map t_id ts) \<Longrightarrow> map_of (fold (\<lambda>t. bt_insert (t_id t) t) ts m) k = Some t \<longleftrightarrow>
     t \<in> set ts \<and> t_id t = k \<or> k \<notin> t_id ` set ts \<and> map_of m k = Some t"
  by (induction ts arbitrary: m) (auto split: if_splits)

lemma bt_ok_fold_index: "bt_ok m \<Longrightarrow> bt_ok (fold (\<lambda>t. bt_insert (t_id t) t) ts m)"
  by (induction ts arbitrary: m) auto

lemma bt_ok_index [simp]: "bt_ok (index_timers ts)"
  by (simp add: index_timers_def bt_ok_fold_index)

lemma index_lookup:
  "distinct (map t_id ts) \<Longrightarrow> map_of (index_timers ts) k = Some t \<longleftrightarrow> t \<in> set ts \<and> t_id t = k"
  by (auto simp: index_timers_def fold_index)

lemma validate_timers_iff:
  "validate_timers c ts m sq n = Inr r \<longleftrightarrow>
     (\<forall>t \<in> set ts. timer_valid c t) \<and> distinct (map t_sequence ts) \<and> distinct (map t_id ts)
     \<and> t_sequence ` set ts \<inter> set sq = {} \<and> (\<forall>t \<in> set ts. map_of m (t_id t) = None)
     \<and> r = (fold (\<lambda>t. bt_insert (t_id t) t) ts m, n + length ts)"
  by (induction ts arbitrary: m sq n) (auto simp: bt_contains_def image_iff split: if_splits)

lemma validate_failures_sound:
  "validate_failures m fs done = Inr failed \<Longrightarrow>
     distinct (failure_ids fs) \<and> set (failure_ids fs) \<inter> set done = {}
     \<and> (\<forall>f \<in> set fs. \<exists>t. map_of m (ev_id (tf_event f)) = Some t \<and> failure_valid t f)
     \<and> set failed = set (failure_ids fs) \<union> set done"
proof (induction fs arbitrary: "done")
  case (Cons f fs)
  then obtain t where t: "map_of m (ev_id (tf_event f)) = Some t" "failure_valid t f"
    and new: "ev_id (tf_event f) \<notin> set done"
    and rest: "validate_failures m fs (bs_insert (ev_id (tf_event f)) done) = Inr failed"
    by (auto split: option.splits if_splits)
  from Cons.IH [OF rest] t new show ?case by (auto simp: failure_ids_def)
qed (simp add: failure_ids_def)

lemma validate_failures_complete:
  "distinct (failure_ids fs) \<Longrightarrow> set (failure_ids fs) \<inter> set done = {} \<Longrightarrow>
   (\<And>f. f \<in> set fs \<Longrightarrow> \<exists>t. map_of m (ev_id (tf_event f)) = Some t \<and> failure_valid t f) \<Longrightarrow>
   \<exists>failed. validate_failures m fs done = Inr failed"
proof (induction fs arbitrary: "done")
  case (Cons f fs)
  obtain t where t: "map_of m (ev_id (tf_event f)) = Some t" "failure_valid t f"
    using Cons.prems(3) by fastforce
  have "\<exists>failed. validate_failures m fs (bs_insert (ev_id (tf_event f)) done) = Inr failed"
    using Cons.prems by (intro Cons.IH) (auto simp: failure_ids_def)
  with t Cons.prems(2) show ?case by (auto simp: failure_ids_def)
qed simp

lemma index_values: "distinct (map t_id ts) \<Longrightarrow> set (bt_values (index_timers ts)) = set ts"
  by (auto simp: bt_values_iff index_lookup)

text \<open>The validator accepts exactly the well-formed snapshots and returns their index.\<close>

lemma validate_eq:
  "validate c = Inr m \<longleftrightarrow> snapshot_wf c \<and> m = index_timers (cs_timers c)"
proof
  assume "validate c = Inr m"
  then obtain failed where v: "validate_timers c (cs_timers c) [] [] 0 = Inr (m, cs_sequence c)"
    and f: "validate_failures m (cs_failures c) [] = Inr failed"
    and all: "\<And>t. t \<in> set (bt_values m) \<Longrightarrow> t_state t = TimerFailed \<Longrightarrow> t_id t \<in> set failed"
    by (auto simp: validate_def result_simps split: if_splits)
  from v have ts: "\<forall>t \<in> set (cs_timers c). timer_valid c t" "distinct (map t_sequence (cs_timers c))"
    and ids: "distinct (map t_id (cs_timers c))" and len: "length (cs_timers c) = cs_sequence c"
    and m: "m = index_timers (cs_timers c)"
    by (auto simp: validate_timers_iff index_timers_def)
  show "snapshot_wf c \<and> m = index_timers (cs_timers c)"
    using validate_failures_sound [OF f] ts ids len all m
    unfolding snapshot_wf_def by (auto simp: index_lookup index_values)
next
  assume wf: "snapshot_wf c \<and> m = index_timers (cs_timers c)"
  then have ids: "distinct (map t_id (cs_timers c))" by (simp add: snapshot_wf_def)
  have v: "validate_timers c (cs_timers c) [] [] 0 = Inr (m, cs_sequence c)"
    using wf by (auto simp: validate_timers_iff snapshot_wf_def index_timers_def)
  have "\<exists>failed. validate_failures m (cs_failures c) [] = Inr failed"
    by (rule validate_failures_complete) (use wf ids in \<open>auto simp: snapshot_wf_def index_lookup\<close>)
  then obtain failed where f: "validate_failures m (cs_failures c) [] = Inr failed" ..
  show "validate c = Inr m"
    using v f validate_failures_sound [OF f] wf ids
    by (auto simp: validate_def snapshot_wf_def index_values)
qed

section \<open>Snapshots of the scheduler\<close>

lemma snapshot_timers:
  assumes inv: "sched_inv s" and snap: "snapshot s = Inr c"
  shows "set (cs_timers c) = set (bt_values (s_timers s))" and "distinct (map t_id (cs_timers c))"
    and "distinct (map t_sequence (cs_timers c))" and "length (cs_timers c) = s_sequence s"
proof -
  note ok = sched_invD(1) [OF inv]
  then have bt: "bt_ok (s_timers s)" by (simp add: timers_ok_def)
  from snap have c: "cs_timers c = sort_key t_sequence (bt_values (s_timers s))"
    by (auto simp: snapshot_def split: if_splits)
  then show set_eq: "set (cs_timers c) = set (bt_values (s_timers s))" by simp
  have "map t_id (bt_values (s_timers s)) = map fst (s_timers s)"
    using timers_okD(1) [OF ok] bt_member_iff [OF bt] by (auto simp: bt_values_def)
  then have ids: "distinct (map t_id (bt_values (s_timers s)))" using bt_ok_distinct [OF bt] by simp
  have inj: "inj_on t_sequence (set (bt_values (s_timers s)))"
    using ok bt by (auto simp: inj_on_def bt_values_iff timers_ok_def) (metis option.inject)
  have d: "distinct (bt_values (s_timers s))" using ids by (simp add: distinct_map)
  show "distinct (map t_id (cs_timers c))"
    using ids d by (simp add: c distinct_map)
  show "distinct (map t_sequence (cs_timers c))"
    using inj d by (simp add: c distinct_map)
  have "length (s_timers s) = card (dom (map_of (s_timers s)))"
    using distinct_card [OF bt_ok_distinct [OF bt]] by (simp add: dom_map_of_conv_image_fst)
  then show "length (cs_timers c) = s_sequence s"
    using ok by (simp add: c bt_values_def timers_ok_def)
qed

lemma snapshot_well_formed:
  assumes inv: "sched_inv s" and snap: "snapshot s = Inr c"
  shows "snapshot_wf c"
proof -
  note ok = sched_invD(1) [OF inv] and ts = snapshot_timers [OF inv snap]
  then have bt: "bt_ok (s_timers s)" by (simp add: timers_ok_def)
  from snap have c: "cs_current_ns c = s_current_ns s" "cs_sequence c = s_sequence s"
    "cs_failures c = s_failures s" and none: "s_outstanding s = None"
    by (auto simp: snapshot_def split: if_splits)
  have mem: "t \<in> set (cs_timers c) \<longleftrightarrow> map_of (s_timers s) (t_id t) = Some t" for t
    using ts(1) timers_okD(1) [OF ok] by (auto simp: bt_values_iff [OF bt])
  have "t_state t \<noteq> Firing" if "map_of (s_timers s) k = Some t" for k t
    using sched_invD(5) [OF inv] none that by (auto simp: outstanding_ok_def)
  then have "timer_valid c t" if "t \<in> set (cs_timers c)" for t
    using that mem timers_okD(2) [OF ok] c by (auto simp: timer_valid_context [of c "ctx (s_current_ns s) (s_sequence s)"])
  moreover have "\<exists>t \<in> set (cs_timers c). t_id t = ev_id (tf_event f) \<and> failure_valid t f"
    if "f \<in> set (s_failures s)" for f
    using that sched_invD(4) [OF inv] timers_okD(1) [OF ok] unfolding failures_ok_def
    by (metis mem)
  ultimately show ?thesis
    using ts sched_invD(4) [OF inv] c mem unfolding snapshot_wf_def failures_ok_def by auto
qed

lemma snapshot_index:
  assumes inv: "sched_inv s" and snap: "snapshot s = Inr c"
  shows "index_timers (cs_timers c) = s_timers s"
proof -
  note ok = sched_invD(1) [OF inv] and ts = snapshot_timers [OF inv snap]
  then have bt: "bt_ok (s_timers s)" by (simp add: timers_ok_def)
  have "map_of (index_timers (cs_timers c)) k = Some t \<longleftrightarrow> map_of (s_timers s) k = Some t" for k t
    using ts(1,2) timers_okD(1) [OF ok] bt_values_iff [OF bt] by (auto simp: index_lookup)
  then have "map_of (index_timers (cs_timers c)) = map_of (s_timers s)"
    by (metis ext option.exhaust)
  with bt show ?thesis by (intro bt_eqI) simp_all
qed

section \<open>Restoring\<close>

lemma restore_cases:
  assumes "restore s owner c = Inr s'"
  obtains "snapshot_wf c" "\<not> s_closed s" "s_outstanding s = None"
    "check_reservations (s_timers s) (index_timers (cs_timers c)) = Inr ()"
    "s' = s\<lparr>s_pending := bs_from_list (map pending_key_of
             (filter (\<lambda>t. t_state t = Scheduled) (bt_values (index_timers (cs_timers c))))),
           s_current_ns := cs_current_ns c, s_sequence := cs_sequence c,
           s_timers := index_timers (cs_timers c), s_failures := cs_failures c, s_owner := owner\<rparr>"
  using assms
  by (auto simp: restore_def result_simps validate_eq require_dispatchable_def split: if_splits)

lemma scheduled_keys_index:
  assumes "bt_ok m"
  shows "set (map pending_key_of (filter (\<lambda>t. t_state t = Scheduled) (bt_values m))) = scheduled_keys m"
  using assms by (auto simp: scheduled_keys_def bt_values_iff)

lemma timers_ok_index:
  assumes "snapshot_wf c"
  shows "timers_ok (cs_current_ns c) (cs_sequence c) (index_timers (cs_timers c))"
proof -
  have ids: "distinct (map t_id (cs_timers c))" and sq: "distinct (map t_sequence (cs_timers c))"
    and len: "length (cs_timers c) = cs_sequence c"
    and valid: "\<And>t. t \<in> set (cs_timers c) \<Longrightarrow> timer_valid c t"
    using assms by (auto simp: snapshot_wf_def)
  have "dom (map_of (index_timers (cs_timers c))) = t_id ` set (cs_timers c)"
    by (auto simp: dom_def index_lookup [OF ids])
  then have "card (dom (map_of (index_timers (cs_timers c)))) = cs_sequence c"
    using ids len by (metis distinct_card length_map list.set_map)
  moreover have "t_sequence t \<le> cs_sequence c" if "t \<in> set (cs_timers c)" for t
    using valid [OF that] by (simp add: timer_valid_defs)
  moreover have "timer_valid (ctx (cs_current_ns c) (cs_sequence c)) t" if "t \<in> set (cs_timers c)" for t
    using valid [OF that] by (simp add: timer_valid_context [of c "ctx (cs_current_ns c) (cs_sequence c)"])
  moreover have "t = t'" if "t \<in> set (cs_timers c)" "t' \<in> set (cs_timers c)"
    "t_sequence t = t_sequence t'" for t t'
    using sq that by (simp add: distinct_map inj_on_def)
  ultimately show ?thesis
    unfolding timers_ok_def by (auto simp: index_lookup [OF ids])
qed

lemma sched_inv_restore [inv_intros]:
  assumes inv: "sched_inv s" and r: "restore s owner c = Inr s'"
  shows "sched_inv s'"
proof -
  let ?m = "index_timers (cs_timers c)"
  from r obtain wf: "snapshot_wf c" and st: "\<not> s_closed s" "s_outstanding s = None"
    and s': "s' = s\<lparr>s_pending := bs_from_list (map pending_key_of
               (filter (\<lambda>t. t_state t = Scheduled) (bt_values ?m))),
             s_current_ns := cs_current_ns c, s_sequence := cs_sequence c,
             s_timers := ?m, s_failures := cs_failures c, s_owner := owner\<rparr>"
    by (rule restore_cases)
  have ids: "distinct (map t_id (cs_timers c))" using wf by (simp add: snapshot_wf_def)
  have "failures_ok ?m (cs_failures c)"
    using wf unfolding snapshot_wf_def failures_ok_def by (auto simp: index_lookup [OF ids])
  moreover have "t_state t \<noteq> Firing" if "t \<in> set (cs_timers c)" for t
    using wf that by (auto simp: snapshot_wf_def timer_valid_defs)
  ultimately show ?thesis
    using timers_ok_index [OF wf] st scheduled_keys_index [OF bt_ok_index]
    unfolding sched_inv_def outstanding_ok_def by (auto simp: s' index_lookup [OF ids])
qed

lemma check_reservations_refl: "bt_ok m \<Longrightarrow> check_reservations m m = Inr ()"
proof -
  have "bt_ok m \<Longrightarrow> set xs \<subseteq> set m \<Longrightarrow> check_reservations xs m = Inr ()" for xs
    by (induction xs) (auto simp: same_reservation_def bt_member_iff)
  then show "bt_ok m \<Longrightarrow> check_reservations m m = Inr ()" by simp
qed

text \<open>Restoring a scheduler's own snapshot changes nothing but the identity of its tokens.\<close>

lemma restore_own_snapshot:
  assumes inv: "sched_inv s" and snap: "snapshot s = Inr c" and "\<not> s_closed s"
  shows "restore s owner c = Inr (s\<lparr>s_owner := owner\<rparr>)"
proof -
  have bt: "bt_ok (s_timers s)" using sched_invD(1) [OF inv] by (simp add: timers_ok_def)
  have v: "validate c = Inr (s_timers s)"
    using snapshot_well_formed [OF inv snap] snapshot_index [OF inv snap] by (simp add: validate_eq)
  have p: "bs_from_list (map pending_key_of (filter (\<lambda>t. t_state t = Scheduled) (bt_values (s_timers s))))
      = s_pending s"
    using sched_invD(2,3) [OF inv] scheduled_keys_index [OF bt] by (intro bs_eqI) simp_all
  from snap have "s_outstanding s = None" "cs_current_ns c = s_current_ns s"
    "cs_sequence c = s_sequence s" "cs_failures c = s_failures s"
    by (auto simp: snapshot_def split: if_splits)
  with v p \<open>\<not> s_closed s\<close> show ?thesis
    by (simp add: restore_def require_dispatchable_def check_reservations_refl [OF bt])
qed

section \<open>The scheduler as a transition system\<close>

inductive sched_init :: "scheduler \<Rightarrow> bool" where
  "sched_init (scheduler_new owner now)"

inductive sched_step :: "scheduler \<Rightarrow> scheduler \<Rightarrow> bool" where
  step_at: "schedule_at s idt d = Inr (k, s') \<Longrightarrow> sched_step s s'"
| step_after: "schedule_after s idt d = Inr (k, s') \<Longrightarrow> sched_step s s'"
| step_every: "schedule_every s idt i st = Inr (k, s') \<Longrightarrow> sched_step s s'"
| step_cancel: "cancel s idt = Inr (b, s') \<Longrightarrow> sched_step s s'"
| step_dispatch: "dispatch_next s target = Inr (r, s') \<Longrightarrow> sched_step s s'"
| step_complete: "complete_dispatch s token result = Inr s' \<Longrightarrow> sched_step s s'"
| step_time: "dispatch_next s target = Inr (None, s') \<Longrightarrow> s_current_ns s \<le> target \<Longrightarrow>
     sched_step s (s'\<lparr>s_current_ns := target\<rparr>)"
| step_close: "sched_step s (close s)"
| step_restore: "restore s owner c = Inr s' \<Longrightarrow> sched_step s s'"

inductive_cases sched_initE: "sched_init s"
inductive_cases sched_stepE: "sched_step s s'"

lemma sched_inv_schedule [inv_intros]:
  "sched_inv s \<Longrightarrow> schedule_at s idt d = Inr (k, s') \<Longrightarrow> sched_inv s'"
  "sched_inv s \<Longrightarrow> schedule_after s idt d = Inr (k, s') \<Longrightarrow> sched_inv s'"
  "sched_inv s \<Longrightarrow> schedule_every s idt i st = Inr (k, s') \<Longrightarrow> sched_inv s'"
  by (auto simp: schedule_at_def schedule_after_def schedule_every_def
      intro: sched_inv_register split: if_splits)

interpretation timers: invariant_system sched_init sched_step sched_inv
  by unfold_locales (auto elim!: sched_initE sched_stepE intro: inv_intros)

section \<open>Properties\<close>


definition demo_scheduler :: scheduler where
  "demo_scheduler = \<lparr>s_current_ns = 10, s_sequence = 1,
     s_timers = [([65], \<lparr>t_id = [65], t_mode = FixedRate, t_state = Scheduled, t_created_ns = 10,
        t_first_deadline_ns = 15, t_deadline_ns = 15, t_interval_ns = Some 5, t_sequence = 1,
        t_fire_count = 0, t_metadata = []\<rparr>)],
     s_pending = [(15, 1, [65])], s_failures = [], s_closed = False, s_owner = 0, s_nonce = 0,
     s_outstanding = None\<rparr>"

lemma demo_scheduled: "schedule_every (scheduler_new 0 10) [65] 5 None = Inr ([65], demo_scheduler)"
  by code_simp

lemma demo_reachable: "reachable sched_init sched_step demo_scheduler"
proof (rule reach_step)
  show "reachable sched_init sched_step (scheduler_new 0 10)"
    by (rule reach_init) (rule sched_init.intros)
  show "sched_step (scheduler_new 0 10) demo_scheduler"
    by (rule step_every [OF demo_scheduled])
qed



text \<open>
  C24: a checkpoint of a reachable scheduler restored into a new scheduler reproduces the
  time, the sequence, the timers, the pending queue and the failure log.
\<close>

theorem restore_snapshot_roundtrip:
  assumes "reachable sched_init sched_step s" and "snapshot s = Inr c"
  shows "restore (scheduler_new o1 t1) o2 c =
           Inr (s\<lparr>s_closed := False, s_owner := o2, s_nonce := 0\<rparr>)"
proof -
  have inv: "sched_inv s" using assms(1) by (rule timers.reachable_inv)
  have bt: "bt_ok (s_timers s)" using sched_invD(1) [OF inv] by (simp add: timers_ok_def)
  have v: "validate c = Inr (s_timers s)"
    using snapshot_well_formed [OF inv assms(2)] snapshot_index [OF inv assms(2)] by (simp add: validate_eq)
  have p: "bs_from_list (map pending_key_of (filter (\<lambda>t. t_state t = Scheduled) (bt_values (s_timers s))))
      = s_pending s"
    using sched_invD(2,3) [OF inv] scheduled_keys_index [OF bt] by (intro bs_eqI) simp_all
  from assms(2) have "s_outstanding s = None" "cs_current_ns c = s_current_ns s"
    "cs_sequence c = s_sequence s" "cs_failures c = s_failures s"
    by (auto simp: snapshot_def split: if_splits)
  with v p show ?thesis
    by (simp add: restore_def require_dispatchable_def scheduler_new_def)
qed

theorem restore_snapshot_roundtrip_witness:
  "\<exists>c. snapshot demo_scheduler = Inr c \<and>
       restore (scheduler_new 7 0) 8 c = Inr (demo_scheduler\<lparr>s_closed := False, s_owner := 8, s_nonce := 0\<rparr>)"
proof -
  have "\<exists>c. snapshot demo_scheduler = Inr c" by (simp add: snapshot_def demo_scheduler_def)
  then obtain c where c: "snapshot demo_scheduler = Inr c" ..
  then show ?thesis using restore_snapshot_roundtrip [OF demo_reachable c, of 7 0 8] by blast
qed

text \<open>
  C25: in every reachable state a token completes a dispatch exactly when it is the
  outstanding one; any other token is refused as stale and neither \<open>expect\<close> of
  \<open>complete_dispatch\<close> can panic.
\<close>

theorem complete_dispatch_exact:
  assumes "reachable sched_init sched_step s"
  shows "(if s_outstanding s = Some token then is_ok (complete_dispatch s token result)
          else complete_dispatch s token result = Inl StaleDispatch)"
proof -
  have inv: "sched_inv s" using assms by (rule timers.reachable_inv)
  have eq: "token_valid s token \<longleftrightarrow> s_outstanding s = Some token"
  proof (cases "s_outstanding s")
    case (Some tok)
    then have "dt_owner tok = s_owner s" using sched_invD(5) [OF inv] by (simp add: outstanding_ok_def)
    with Some show ?thesis by (cases tok, cases token) (auto simp: token_valid_def)
  qed (simp add: token_valid_def)
  have "is_ok (complete_dispatch s token result)" if "s_outstanding s = Some token"
    using complete_dispatch_ok [OF inv that, of result] by auto
  with eq show ?thesis by (simp add: complete_dispatch_def)
qed

theorem complete_dispatch_exact_witness:
  "complete_dispatch demo_scheduler \<lparr>dt_event = \<lparr>ev_id = [65], ev_deadline_ns = 15, ev_fired_at_ns = 15,
      ev_sequence = 1, ev_fire_count = 1\<rparr>, dt_owner = 0, dt_nonce = 1\<rparr> (Inr ()) = Inl StaleDispatch"
  using complete_dispatch_exact [OF demo_reachable, of "\<lparr>dt_event = \<lparr>ev_id = [65], ev_deadline_ns = 15,
      ev_fired_at_ns = 15, ev_sequence = 1, ev_fire_count = 1\<rparr>, dt_owner = 0, dt_nonce = 1\<rparr>"]
  by (simp add: demo_scheduler_def)

end
