(* ===== verification/Virtual_Clock.thy ===== *)
theory Virtual_Clock
  imports Clock_Snapshot
begin

text \<open>
  The virtual clock of \<open>crates/clock/src/virtual_clock.rs\<close>: a scheduler, the callbacks
  of its scheduled timers and the loop that advances the time. A callback is a value of a
  type \<open>'cb\<close>; what it does when invoked is given by a \<open>behaviour\<close>, which reads the
  clock and yields the context operations it performs, its outcome and its own next state
  (a Rust \<open>FnMut\<close>). The loop need not end (a callback may keep scheduling at the current
  time), so it runs on fuel; \<open>None\<close> means that the fuel did not suffice. A poisoned mutex
  does not occur: a callback runs with the lock released and inside \<open>catch_unwind\<close>.
\<close>

section \<open>State and operations\<close>

record 'cb vclock =
  v_sched :: scheduler
  v_callbacks :: "(timer_id, 'cb) btree"
  v_advancing :: bool

datatype 'cb action =
    ActScheduleAt rstr int 'cb
  | ActScheduleAfter rstr int 'cb
  | ActScheduleEvery rstr int "int option" 'cb
  | ActCancel rstr
  | ActRequestClose

datatype callback_outcome = CbOk | CbErr string | CbPanic

type_synonym 'cb behaviour =
  "'cb \<Rightarrow> timer_event \<Rightarrow> 'cb vclock \<Rightarrow> 'cb action list \<times> callback_outcome \<times> 'cb"

record advance_result =
  ar_previous_ns :: int
  ar_current_ns :: int
  ar_reached_target :: bool
  ar_events :: "timer_event list"
  ar_failures :: "timer_failure list"

definition vclock_new :: "nat \<Rightarrow> int \<Rightarrow> 'cb vclock" where
  "vclock_new owner initial_ns =
     \<lparr>v_sched = scheduler_new owner initial_ns, v_callbacks = [], v_advancing = False\<rparr>"

definition install :: "'cb vclock \<Rightarrow> 'cb \<Rightarrow> clock_error + timer_id \<times> scheduler \<Rightarrow>
    clock_error + timer_id \<times> 'cb vclock" where
  "install v cb r =
     rbind r (\<lambda>(k, s). Inr (k, v\<lparr>v_sched := s, v_callbacks := bt_insert k cb (v_callbacks v)\<rparr>))"

definition v_schedule_at :: "'cb vclock \<Rightarrow> rstr \<Rightarrow> int \<Rightarrow> 'cb \<Rightarrow> clock_error + timer_id \<times> 'cb vclock" where
  "v_schedule_at v idt deadline cb = install v cb (schedule_at (v_sched v) idt deadline)"

definition v_schedule_after :: "'cb vclock \<Rightarrow> rstr \<Rightarrow> int \<Rightarrow> 'cb \<Rightarrow> clock_error + timer_id \<times> 'cb vclock" where
  "v_schedule_after v idt delay cb = install v cb (schedule_after (v_sched v) idt delay)"

definition v_schedule_every ::
  "'cb vclock \<Rightarrow> rstr \<Rightarrow> int \<Rightarrow> int option \<Rightarrow> 'cb \<Rightarrow> clock_error + timer_id \<times> 'cb vclock" where
  "v_schedule_every v idt interval start cb = install v cb (schedule_every (v_sched v) idt interval start)"

definition handle_cancel :: "'cb vclock \<Rightarrow> timer_id \<Rightarrow> clock_error + bool \<times> 'cb vclock" where
  "handle_cancel v k =
     rbind (cancel (v_sched v) k) (\<lambda>(changed, s).
       Inr (changed, v\<lparr>v_sched := s,
         v_callbacks := (if changed then bt_remove k (v_callbacks v) else v_callbacks v)\<rparr>))"

definition v_cancel :: "'cb vclock \<Rightarrow> rstr \<Rightarrow> clock_error + bool \<times> 'cb vclock" where
  "v_cancel v idt = rbind (timer_id_new idt) (\<lambda>k. handle_cancel v k)"

definition v_close :: "'cb vclock \<Rightarrow> 'cb vclock" where
  "v_close v = v\<lparr>v_sched := close (v_sched v), v_callbacks := []\<rparr>"

definition v_snapshot :: "'cb vclock \<Rightarrow> clock_error + clock_snapshot" where
  "v_snapshot v = (if v_advancing v then Inl ClockBusy else snapshot (v_sched v))"

definition v_restore ::
  "'cb vclock \<Rightarrow> nat \<Rightarrow> clock_snapshot \<Rightarrow> (timer_id, 'cb) btree \<Rightarrow> clock_error + 'cb vclock" where
  "v_restore v fresh_owner c callbacks =
     (if v_advancing v then Inl ClockBusy
      else if active_ids c \<noteq> bt_keys callbacks
      then Inl (InvalidSnapshot ''callback bindings differ'')
      else rbind (restore (v_sched v) fresh_owner c) (\<lambda>s.
             Inr (v\<lparr>v_sched := s, v_callbacks := callbacks\<rparr>)))"

definition v_restore_fresh ::
  "'cb vclock \<Rightarrow> nat \<Rightarrow> clock_snapshot \<Rightarrow> (timer_id, 'cb) btree \<Rightarrow> clock_error + 'cb vclock" where
  "v_restore_fresh v fresh_owner c callbacks =
     (if \<not> is_fresh (v_sched v)
      then Inl (InvalidSnapshot ''fresh restore requires unused Clock'')
      else v_restore v fresh_owner c callbacks)"

text \<open>The context operations of a callback; a failed one leaves the clock as it was.\<close>

definition or_same :: "'cb vclock \<Rightarrow> clock_error + 'a \<times> 'cb vclock \<Rightarrow> 'cb vclock" where
  "or_same v r = (case r of Inl _ \<Rightarrow> v | Inr (_, v') \<Rightarrow> v')"

fun run_action :: "'cb vclock \<Rightarrow> 'cb action \<Rightarrow> 'cb vclock" where
  "run_action v (ActScheduleAt k d cb) = or_same v (v_schedule_at v k d cb)"
| "run_action v (ActScheduleAfter k d cb) = or_same v (v_schedule_after v k d cb)"
| "run_action v (ActScheduleEvery k i st cb) = or_same v (v_schedule_every v k i st cb)"
| "run_action v (ActCancel k) = or_same v (v_cancel v k)"
| "run_action v ActRequestClose = v_close v"

definition run_actions :: "'cb vclock \<Rightarrow> 'cb action list \<Rightarrow> 'cb vclock" where
  "run_actions v acts = foldl run_action v acts"

fun callback_result :: "callback_outcome \<Rightarrow> callback_failure + unit" where
  "callback_result CbOk = Inr ()"
| "callback_result (CbErr e) = Inl (CallbackError e)"
| "callback_result CbPanic = Inl (CallbackPanic ''callback panicked'')"

definition settle ::
  "'cb vclock \<Rightarrow> dispatch_token \<Rightarrow> callback_outcome \<Rightarrow> 'cb \<Rightarrow> clock_error + 'cb vclock" where
  "settle v token outcome cb =
     rbind (complete_dispatch (v_sched v) token (callback_result outcome)) (\<lambda>s.
     rbind (get_timer s (ev_id (dt_event token))) (\<lambda>t.
       Inr (v\<lparr>v_sched := s,
              v_callbacks := (if is_active (t_state t)
                              then bt_insert (ev_id (dt_event token)) cb (v_callbacks v)
                              else v_callbacks v)\<rparr>)))"

fun advance_loop ::
  "nat \<Rightarrow> 'cb behaviour \<Rightarrow> 'cb vclock \<Rightarrow> int \<Rightarrow> timer_event list \<Rightarrow>
   ('cb vclock \<times> (clock_error + timer_event list)) option" where
  "advance_loop 0 beh v target events = None"
| "advance_loop (Suc fuel) beh v target events =
     (if state (v_sched v) \<noteq> ClkRunning then Some (v, Inr events)
      else case dispatch_next (v_sched v) target of
        Inl e \<Rightarrow> Some (v, Inl e)
      | Inr (None, s) \<Rightarrow> Some (v\<lparr>v_sched := s\<lparr>s_current_ns := target\<rparr>\<rparr>, Inr events)
      | Inr (Some token, s) \<Rightarrow>
          (case map_of (v_callbacks v) (ev_id (dt_event token)) of
             None \<Rightarrow> Some (v\<lparr>v_sched := s\<rparr>, Inl (ClockPanic ''registered Timer has a callback''))
           | Some cb \<Rightarrow>
               let v1 = v\<lparr>v_sched := s,
                          v_callbacks := bt_remove (ev_id (dt_event token)) (v_callbacks v)\<rparr>
               in case beh cb (dt_event token) v1 of
                 (acts, outcome, cb') \<Rightarrow>
                   let v2 = run_actions v1 acts
                   in case settle v2 token outcome cb' of
                        Inl e \<Rightarrow> Some (v2, Inl e)
                      | Inr v3 \<Rightarrow> advance_loop fuel beh v3 target (events @ [dt_event token])))"

definition advance_inner ::
  "nat \<Rightarrow> 'cb behaviour \<Rightarrow> 'cb vclock \<Rightarrow> int \<Rightarrow> ('cb vclock \<times> (clock_error + advance_result)) option" where
  "advance_inner fuel beh v target =
     map_option (\<lambda>(v', r). (v', rbind r (\<lambda>events.
         Inr \<lparr>ar_previous_ns = s_current_ns (v_sched v), ar_current_ns = s_current_ns (v_sched v'),
              ar_reached_target = (s_current_ns (v_sched v') = target), ar_events = events,
              ar_failures = drop (length (s_failures (v_sched v))) (s_failures (v_sched v'))\<rparr>)))
       (advance_loop fuel beh v target [])"

definition advance_to ::
  "nat \<Rightarrow> 'cb behaviour \<Rightarrow> 'cb vclock \<Rightarrow> int \<Rightarrow> ('cb vclock \<times> (clock_error + advance_result)) option" where
  "advance_to fuel beh v target =
     (if v_advancing v then Some (v, Inl ClockBusy)
      else if state (v_sched v) \<noteq> ClkRunning then Some (v, Inl ClockClosed)
      else if target < s_current_ns (v_sched v)
      then Some (v, Inl (ClockValidation ''backward advancement''))
      else map_option (\<lambda>(v', r). (v'\<lparr>v_advancing := False\<rparr>, r))
             (advance_inner fuel beh (v\<lparr>v_advancing := True\<rparr>) target))"

definition advance_by ::
  "nat \<Rightarrow> 'cb behaviour \<Rightarrow> 'cb vclock \<Rightarrow> int \<Rightarrow> ('cb vclock \<times> (clock_error + advance_result)) option" where
  "advance_by fuel beh v delta =
     (if delta < 0 then Some (v, Inl (ClockValidation ''negative advancement''))
      else advance_to fuel beh v (s_current_ns (v_sched v) + delta))"

section \<open>Invariant\<close>

text \<open>
  Exactly the scheduled timers have a callback; the one in flight owns its callback. The
  identifiers are canonical, which the private field of \<open>TimerId\<close> guarantees by type.
\<close>

definition canonical_id :: "timer_id \<Rightarrow> bool" where
  "canonical_id k \<longleftrightarrow> timer_id_new k = Inr k"

lemma timer_id_new_canonical: "timer_id_new x = Inr k \<Longrightarrow> canonical_id k"
  by (auto simp: canonical_id_def timer_id_new_def Let_def split: if_splits)

definition vclock_inv :: "'cb vclock \<Rightarrow> bool" where
  "vclock_inv v \<longleftrightarrow>
     sched_inv (v_sched v) \<and> bt_ok (v_callbacks v)
     \<and> (\<forall>k \<in> dom (map_of (s_timers (v_sched v))). canonical_id k)
     \<and> dom (map_of (v_callbacks v)) =
         {k. \<exists>t. map_of (s_timers (v_sched v)) k = Some t \<and> t_state t = Scheduled}"

lemma vclock_invD:
  assumes "vclock_inv v"
  shows "sched_inv (v_sched v)" and "bt_ok (v_callbacks v)"
    and "k \<in> dom (map_of (v_callbacks v)) \<longleftrightarrow>
         (\<exists>t. map_of (s_timers (v_sched v)) k = Some t \<and> t_state t = Scheduled)"
    and "k \<in> dom (map_of (s_timers (v_sched v))) \<Longrightarrow> canonical_id k"
  using assms by (auto simp: vclock_inv_def)

lemma vclock_inv_new [inv_intros]: "vclock_inv (vclock_new owner now)"
  by (simp add: vclock_inv_def vclock_new_def sched_inv_new) (simp add: scheduler_new_def)

lemma registerD:
  assumes "register s idt deadline mode interval = Inr (k, s')"
  shows "\<exists>t. s_timers s' = bt_insert k t (s_timers s) \<and> t_state t = Scheduled"
    and "s_outstanding s' = s_outstanding s" and "s_closed s' = s_closed s"
    and "s_current_ns s' = s_current_ns s" and "s_failures s' = s_failures s"
    and "canonical_id k"
  using assms timer_id_new_canonical by (auto simp: register_def result_simps Let_def split: if_splits)

lemma schedule_register:
  "schedule_at s idt d = Inr r \<Longrightarrow> register s idt d OneShot None = Inr r"
  "schedule_after s idt d = Inr r \<Longrightarrow> register s idt (s_current_ns s + d) OneShot None = Inr r"
  "schedule_every s idt i st = Inr r \<Longrightarrow> i > 0 \<and>
     register s idt (case st of None \<Rightarrow> s_current_ns s + i | Some d \<Rightarrow> d) FixedRate (Some i) = Inr r"
  by (auto simp: schedule_at_def schedule_after_def schedule_every_def split: if_splits)

lemma vclock_inv_install:
  assumes inv: "vclock_inv v" and r: "register (v_sched v) idt d mode iv = Inr (k, s)"
    and mode: "mode = OneShot \<and> iv = None \<or> mode = FixedRate \<and> (\<exists>i > 0. iv = Some i)"
  shows "vclock_inv (v\<lparr>v_sched := s, v_callbacks := bt_insert k cb (v_callbacks v)\<rparr>)"
proof -
  obtain t where "s_timers s = bt_insert k t (s_timers (v_sched v))" "t_state t = Scheduled"
    using registerD(1) [OF r] by blast
  then show ?thesis
    using sched_inv_register [OF vclock_invD(1) [OF inv] r mode] inv registerD(6) [OF r]
    by (auto simp: vclock_inv_def)
qed

lemma cancelD:
  assumes "cancel s k = Inr (b, s')" and "canonical_id k"
  obtains (unchanged) "\<not> b" "s' = s"
  | (cancelled) t where "b" "map_of (s_timers s) k = Some t" "is_active (t_state t)"
      "s' = s\<lparr>s_pending := bs_remove (pending_key_of t) (s_pending s),
              s_timers := bt_insert k (t\<lparr>t_state := Cancelled\<rparr>) (s_timers s)\<rparr>"
  using assms by (auto simp: cancel_def canonical_id_def result_simps split: option.splits if_splits)

lemma vclock_inv_cancel:
  assumes inv: "vclock_inv v" and c: "handle_cancel v k = Inr (b, v')" and k: "canonical_id k"
  shows "vclock_inv v'"
proof -
  from c obtain s where s: "cancel (v_sched v) k = Inr (b, s)"
    and v': "v' = v\<lparr>v_sched := s, v_callbacks := (if b then bt_remove k (v_callbacks v) else v_callbacks v)\<rparr>"
    by (auto simp: handle_cancel_def result_simps)
  have "sched_inv s" by (rule sched_inv_cancel [OF vclock_invD(1) [OF inv] s])
  from s k show ?thesis
  proof (cases rule: cancelD)
    case unchanged
    then show ?thesis using inv v' by simp
  next
    case (cancelled t)
    then show ?thesis
      using inv v' \<open>sched_inv s\<close> k by (auto simp: vclock_inv_def)
  qed
qed

lemma vclock_inv_close: "vclock_inv v \<Longrightarrow> vclock_inv (v_close v)"
  using sched_inv_close [of "v_sched v"] cancel_if_active_simps(1)
  by (auto simp: vclock_inv_def v_close_def close_def close_lookup is_active_def domIff)

lemma vclock_inv_run_action [inv_intros]:
  assumes inv: "vclock_inv v"
  shows "vclock_inv (run_action v a)"
  using vclock_inv_install [OF inv] vclock_inv_cancel [OF inv] vclock_inv_close [OF inv] inv
  by (cases a)
     (auto simp: or_same_def v_schedule_at_def v_schedule_after_def v_schedule_every_def install_def
       v_cancel_def result_simps
       dest!: schedule_register dest: timer_id_new_canonical split: sum.splits)

lemma vclock_inv_run_actions [inv_intros]: "vclock_inv v \<Longrightarrow> vclock_inv (run_actions v acts)"
  unfolding run_actions_def by (induction acts arbitrary: v) (auto intro: inv_intros)

text \<open>What a callback cannot change: the time, the dispatch in flight and the failure log.\<close>

definition same_frame :: "scheduler \<Rightarrow> scheduler \<Rightarrow> bool" where
  "same_frame s s' \<longleftrightarrow> s_current_ns s' = s_current_ns s \<and> s_outstanding s' = s_outstanding s
     \<and> s_failures s' = s_failures s \<and> s_owner s' = s_owner s"

lemma register_frame: "register s idt d mode iv = Inr (k, s') \<Longrightarrow> same_frame s s'"
  by (auto simp: same_frame_def register_def result_simps Let_def split: if_splits)

lemma cancel_frame: "cancel s idt = Inr (b, s') \<Longrightarrow> same_frame s s'"
  by (auto simp: same_frame_def cancel_def result_simps split: option.splits if_splits)

lemma run_action_frame: "same_frame (v_sched v) (v_sched (run_action v a))"
  by (cases a)
     (auto simp: or_same_def v_schedule_at_def v_schedule_after_def v_schedule_every_def install_def
       v_cancel_def handle_cancel_def v_close_def close_def result_simps
       dest!: schedule_register dest: register_frame cancel_frame split: sum.splits
       intro: same_frame_def [THEN iffD2])

lemma run_actions_frame: "same_frame (v_sched v) (v_sched (run_actions v acts))"
  unfolding run_actions_def
proof (induction acts arbitrary: v)
  case (Cons a acts)
  show ?case using run_action_frame [of v a] Cons.IH [of "run_action v a"] by (simp add: same_frame_def)
qed (simp add: same_frame_def)

section \<open>One iteration of the advance loop\<close>

lemma vclock_inv_dispatch:
  assumes inv: "vclock_inv v" and d: "dispatch_next (v_sched v) target = Inr (Some tok, s)"
  shows "\<exists>cb. map_of (v_callbacks v) (ev_id (dt_event tok)) = Some cb"
    and "vclock_inv (v\<lparr>v_sched := s, v_callbacks := bt_remove (ev_id (dt_event tok)) (v_callbacks v)\<rparr>)"
    and "s_outstanding s = Some tok"
    and "ev_deadline_ns (dt_event tok) = s_current_ns s" and "ev_fired_at_ns (dt_event tok) = s_current_ns s"
    and "s_current_ns (v_sched v) \<le> s_current_ns s" and "s_current_ns s \<le> target"
    and "s_failures s = s_failures (v_sched v)"
proof -
  note si = vclock_invD(1) [OF inv]
  from si d obtain k t where t: "map_of (s_timers (v_sched v)) k = Some t" "t_state t = Scheduled"
    "t_deadline_ns t \<le> target" "dispatch_id (v_sched v) k (t_deadline_ns t) = Inr (tok, s)"
    by (cases rule: dispatch_next_cases) auto
  then have tok: "ev_id (dt_event tok) = k" "ev_deadline_ns (dt_event tok) = t_deadline_ns t"
      "ev_fired_at_ns (dt_event tok) = t_deadline_ns t"
    and s: "s_timers s = bt_insert k (t\<lparr>t_state := Firing, t_fire_count := t_fire_count t + 1\<rparr>)
                          (s_timers (v_sched v))"
      "s_outstanding s = Some tok" "s_current_ns s = t_deadline_ns t" "s_failures s = s_failures (v_sched v)"
    by (auto simp: dispatch_id_def result_simps Let_def event_of_def split: if_splits)
  show "\<exists>cb. map_of (v_callbacks v) (ev_id (dt_event tok)) = Some cb"
    using vclock_invD(3) [OF inv, of k] t(1,2) tok(1) by auto
  show "vclock_inv (v\<lparr>v_sched := s, v_callbacks := bt_remove (ev_id (dt_event tok)) (v_callbacks v)\<rparr>)"
    using sched_inv_dispatch_next [OF si d] inv t(1) s(1) tok(1)
    by (auto simp: vclock_inv_def)
  show "s_outstanding s = Some tok" "ev_deadline_ns (dt_event tok) = s_current_ns s"
    "ev_fired_at_ns (dt_event tok) = s_current_ns s" "s_current_ns s \<le> target"
    "s_failures s = s_failures (v_sched v)"
    using s tok t(3) by simp_all
  show "s_current_ns (v_sched v) \<le> s_current_ns s"
    using timers_okD(2) [OF sched_invD(1) [OF si] t(1)] t(2) s(3)
    by (auto dest: timer_valid_scheduled)
qed

lemma complete_dispatch_lookup:
  assumes "complete_dispatch s tok r = Inr s'" and "j \<noteq> ev_id (dt_event tok)"
  shows "map_of (s_timers s') j = map_of (s_timers s) j"
  using assms
  by (auto simp: complete_dispatch_def Let_def split: if_splits option.splits sum.splits timer_mode.splits)

lemma complete_dispatch_frame:
  assumes "complete_dispatch s tok r = Inr s'"
  shows "s_current_ns s' = s_current_ns s" and "s_outstanding s' = None"
    and "dom (map_of (s_timers s')) = dom (map_of (s_timers s))"
    and "\<exists>fs. s_failures s' = s_failures s @ fs" and "s_closed s' = s_closed s"
  using assms
  by (auto simp: complete_dispatch_def Let_def split: if_splits option.splits sum.splits timer_mode.splits)

lemma settle_ok:
  assumes inv: "vclock_inv v" and out: "s_outstanding (v_sched v) = Some tok"
  shows "\<exists>v'. settle v tok outcome cb = Inr v' \<and> vclock_inv v' \<and> s_outstanding (v_sched v') = None
     \<and> s_current_ns (v_sched v') = s_current_ns (v_sched v)
     \<and> (\<exists>fs. s_failures (v_sched v') = s_failures (v_sched v) @ fs)"
proof -
  note si = vclock_invD(1) [OF inv]
  let ?k = "ev_id (dt_event tok)"
  obtain s' where c: "complete_dispatch (v_sched v) tok (callback_result outcome) = Inr s'"
    using complete_dispatch_ok [OF si out] by blast
  note fr = complete_dispatch_frame [OF c]
  obtain t0 where t0: "map_of (s_timers (v_sched v)) ?k = Some t0" "in_flight (v_sched v) tok t0"
    by (rule outstandingE [OF si out])
  then obtain t where t: "map_of (s_timers s') ?k = Some t" using fr(3) by auto
  have can: "canonical_id ?k" using vclock_invD(4) [OF inv, of ?k] t0(1) by auto
  then have get: "get_timer s' ?k = Inr t" using t by (simp add: get_timer_def canonical_id_def)
  have si': "sched_inv s'" by (rule sched_inv_complete [OF si c])
  have "t_state t \<noteq> Firing"
    using sched_invD(5) [OF si'] fr(2) t by (auto simp: outstanding_ok_def)
  then have act: "is_active (t_state t) \<longleftrightarrow> t_state t = Scheduled" by (simp add: is_active_def)
  let ?v = "v\<lparr>v_sched := s', v_callbacks := (if is_active (t_state t)
               then bt_insert ?k cb (v_callbacks v) else v_callbacks v)\<rparr>"
  have "settle v tok outcome cb = Inr ?v" using c get by (simp add: settle_def)
  moreover have "vclock_inv ?v"
  proof -
    have "?k \<notin> dom (map_of (v_callbacks v))"
      using vclock_invD(3) [OF inv, of ?k] t0(1) in_flightD(3) [OF t0(2)] by auto
    then have "j \<in> dom (map_of (v_callbacks ?v)) \<longleftrightarrow>
        (\<exists>t. map_of (s_timers s') j = Some t \<and> t_state t = Scheduled)" for j
      using vclock_invD(3) [OF inv, of j] complete_dispatch_lookup [OF c, of j] t act
      by (cases "j = ?k") auto
    then have "dom (map_of (v_callbacks ?v)) = {k. \<exists>t. map_of (s_timers s') k = Some t \<and> t_state t = Scheduled}"
      by blast
    with si' inv fr(3) show ?thesis by (simp add: vclock_inv_def)
  qed
  ultimately show ?thesis using fr by auto
qed

section \<open>Correctness of the advance loop\<close>

definition at_rest :: "'cb vclock \<Rightarrow> bool" where
  "at_rest v \<longleftrightarrow> vclock_inv v \<and> s_outstanding (v_sched v) = None"

lemma dispatch_next_total:
  assumes "sched_inv s" and "s_outstanding s = None" and "\<not> s_closed s"
  shows "\<exists>r. dispatch_next s target = Inr r"
proof (cases "bs_first (s_pending s)")
  case (Some x)
  then have "x \<in> scheduled_keys (s_timers s)"
    using bs_first_SomeD [OF sched_invD(2) [OF assms(1)]] sched_invD(3) [OF assms(1)] by auto
  then obtain j t where "map_of (s_timers s) j = Some t" "t_state t = Scheduled" "x = pending_key_of t"
    unfolding scheduled_keys_iff by blast
  moreover have "t_id t = j" using timers_okD(1) [OF sched_invD(1) [OF assms(1)]] calculation(1) by blast
  ultimately show ?thesis
    using Some assms(2,3)
    by (auto simp: dispatch_next_def dispatch_id_def require_dispatchable_def pending_key_of_def Let_def)
qed (use assms in \<open>simp add: dispatch_next_def require_dispatchable_def\<close>)

lemma advance_loop_cases:
  assumes rest: "at_rest v" and le: "s_current_ns (v_sched v) \<le> target"
  obtains (closed) "s_closed (v_sched v)" "\<And>n evs. advance_loop (Suc n) beh v target evs = Some (v, Inr evs)"
  | (idle) "\<not> s_closed (v_sched v)"
      "\<And>n evs. advance_loop (Suc n) beh v target evs =
         Some (v\<lparr>v_sched := (v_sched v)\<lparr>s_current_ns := target\<rparr>\<rparr>, Inr evs)"
      "at_rest (v\<lparr>v_sched := (v_sched v)\<lparr>s_current_ns := target\<rparr>\<rparr>)"
      "\<And>k t. map_of (s_timers (v_sched v)) k = Some t \<Longrightarrow> t_state t = Scheduled \<Longrightarrow> target < t_deadline_ns t"
  | (fire) tok s acts outcome cb cb' v1 v3 where "\<not> s_closed (v_sched v)"
      "dispatch_next (v_sched v) target = Inr (Some tok, s)"
      "v1 = v\<lparr>v_sched := s, v_callbacks := bt_remove (ev_id (dt_event tok)) (v_callbacks v)\<rparr>"
      "beh cb (dt_event tok) v1 = (acts, outcome, cb')"
      "settle (run_actions v1 acts) tok outcome cb' = Inr v3"
      "\<And>n evs. advance_loop (Suc n) beh v target evs = advance_loop n beh v3 target (evs @ [dt_event tok])"
      "at_rest v3" "s_current_ns (v_sched v3) = ev_deadline_ns (dt_event tok)"
      "s_current_ns (v_sched v) \<le> ev_deadline_ns (dt_event tok)" "ev_deadline_ns (dt_event tok) \<le> target"
      "ev_fired_at_ns (dt_event tok) = ev_deadline_ns (dt_event tok)"
      "\<exists>fs. s_failures (v_sched v3) = s_failures (v_sched v) @ fs"
proof (cases "s_closed (v_sched v)")
  case True
  then show ?thesis by (intro closed) (auto simp: state_def)
next
  case False
  have inv: "vclock_inv v" and none: "s_outstanding (v_sched v) = None" using rest by (auto simp: at_rest_def)
  note si = vclock_invD(1) [OF inv]
  obtain r s where d: "dispatch_next (v_sched v) target = Inr (r, s)"
    using dispatch_next_total [OF si none False, of target] by fastforce
  show ?thesis
  proof (cases r)
    case None
    with d have d0: "dispatch_next (v_sched v) target = Inr (None, s)" by simp
    from si d0 have s: "s = v_sched v"
      and late: "\<And>k t. map_of (s_timers (v_sched v)) k = Some t \<Longrightarrow> t_state t = Scheduled \<Longrightarrow> target < t_deadline_ns t"
      by (cases rule: dispatch_next_cases; simp)+
    have "at_rest (v\<lparr>v_sched := (v_sched v)\<lparr>s_current_ns := target\<rparr>\<rparr>)"
      using sched_inv_set_time [OF si d0 le] inv none s by (auto simp: at_rest_def vclock_inv_def)
    with False d0 s late show ?thesis by (intro idle) (auto simp: state_def)
  next
    case (Some tok)
    with d have d1: "dispatch_next (v_sched v) target = Inr (Some tok, s)" by simp
    note vd = vclock_inv_dispatch [OF inv d1]
    then obtain cb where cb: "map_of (v_callbacks v) (ev_id (dt_event tok)) = Some cb" by blast
    define v1 where "v1 = v\<lparr>v_sched := s, v_callbacks := bt_remove (ev_id (dt_event tok)) (v_callbacks v)\<rparr>"
    obtain acts outcome cb' where beh: "beh cb (dt_event tok) v1 = (acts, outcome, cb')"
      by (metis prod_cases3)
    have inv2: "vclock_inv (run_actions v1 acts)"
      using vclock_inv_run_actions vd(2) v1_def by blast
    have fr: "same_frame s (v_sched (run_actions v1 acts))"
      using run_actions_frame [of v1 acts] by (simp add: v1_def)
    obtain v3 where v3: "settle (run_actions v1 acts) tok outcome cb' = Inr v3" "vclock_inv v3"
      "s_outstanding (v_sched v3) = None" "s_current_ns (v_sched v3) = s_current_ns s"
      "\<exists>fs. s_failures (v_sched v3) = s_failures s @ fs"
      using settle_ok [OF inv2, of tok outcome cb'] fr vd(3) by (auto simp: same_frame_def)
    show ?thesis
      by (rule fire [OF False d1 v1_def beh v3(1)])
         (use False d1 cb beh v3 vd in \<open>auto simp: state_def v1_def at_rest_def\<close>)
  qed
qed

definition advanced :: "int \<Rightarrow> 'cb vclock \<Rightarrow> 'cb vclock \<Rightarrow> timer_event list \<Rightarrow> bool" where
  "advanced target v v' evs \<longleftrightarrow>
     at_rest v' \<and> sorted (map ev_deadline_ns evs)
     \<and> (\<forall>e \<in> set evs. s_current_ns (v_sched v) \<le> ev_deadline_ns e \<and> ev_deadline_ns e \<le> target
           \<and> ev_fired_at_ns e = ev_deadline_ns e)
     \<and> s_current_ns (v_sched v) \<le> s_current_ns (v_sched v') \<and> s_current_ns (v_sched v') \<le> target
     \<and> (\<exists>fs. s_failures (v_sched v') = s_failures (v_sched v) @ fs)
     \<and> (\<not> s_closed (v_sched v') \<longrightarrow> s_current_ns (v_sched v') = target
          \<and> (\<forall>k t. map_of (s_timers (v_sched v')) k = Some t \<longrightarrow> t_state t = Scheduled \<longrightarrow>
                target < t_deadline_ns t))"

lemma advance_loop_correct:
  assumes "at_rest v" and "s_current_ns (v_sched v) \<le> target"
    and "advance_loop n beh v target evs = Some (v', r)"
  shows "\<exists>new. r = Inr (evs @ new) \<and> advanced target v v' new"
  using assms
proof (induction n arbitrary: v evs)
  case (Suc n)
  from Suc.prems(1,2) show ?case
  proof (cases rule: advance_loop_cases [where beh = beh])
    case closed
    with Suc.prems show ?thesis by (auto simp: advanced_def)
  next
    case idle
    from idle(2) Suc.prems(3)
    have "r = Inr (evs @ [])" "v' = v\<lparr>v_sched := (v_sched v)\<lparr>s_current_ns := target\<rparr>\<rparr>"
      by (simp_all only: option.inject prod.inject append_Nil2)
    with idle(1,3,4) Suc.prems(2) show ?thesis by (auto simp: advanced_def)
  next
    case (fire tok s acts outcome cb cb' v1 v3)
    have "s_current_ns (v_sched v3) \<le> target" using fire(8,10) by simp
    with Suc.IH [OF fire(7), of "evs @ [dt_event tok]"] fire(6) Suc.prems(3)
    obtain new where new: "r = Inr ((evs @ [dt_event tok]) @ new)" "advanced target v3 v' new" by auto
    then have "advanced target v v' (dt_event tok # new)"
      using fire(8-12) by (auto simp: advanced_def)
    with new(1) show ?thesis by (metis append.assoc append_Cons append_Nil)
  qed
qed simp

lemma advance_loop_mono:
  "advance_loop n beh v target evs = Some r \<Longrightarrow> n \<le> m \<Longrightarrow> advance_loop m beh v target evs = Some r"
proof (induction n arbitrary: v evs m)
  case (Suc n)
  then obtain m' where "m = Suc m'" "n \<le> m'" by (metis Suc_le_D Suc_le_mono)
  with Suc show ?case
    by (auto simp: Let_def split: if_splits sum.splits prod.splits option.splits)
qed simp

end
