(* ===== verification/Clock_Progress.thy ===== *)
theory Clock_Progress
  imports Virtual_Clock
begin

text \<open>
  Termination of the advance loop. A callback that schedules nothing cannot keep the loop
  running: every pass uses up one of the finitely many firings that fall before the
  target.
\<close>

section \<open>Counting the firings that are left\<close>

definition due :: "int \<Rightarrow> int \<Rightarrow> int option \<Rightarrow> nat" where
  "due target d interval =
     (if d \<le> target then (case interval of None \<Rightarrow> 1 | Some iv \<Rightarrow> Suc (nat ((target - d) div iv))) else 0)"

definition load :: "int \<Rightarrow> timer \<Rightarrow> nat" where
  "load target t =
     (case t_state t of
        Scheduled \<Rightarrow> due target (t_deadline_ns t) (t_interval_ns t)
      | Firing \<Rightarrow> (case t_interval_ns t of
                     None \<Rightarrow> 0 | Some iv \<Rightarrow> due target (t_deadline_ns t + iv) (Some iv))
      | _ \<Rightarrow> 0)"

definition total_load :: "int \<Rightarrow> scheduler \<Rightarrow> nat" where
  "total_load target s = sum_list (map (load target) (bt_values (s_timers s)))"

lemma due_step:
  assumes "iv > 0" and "d \<le> target"
  shows "Suc (due target (d + iv) (Some iv)) \<le> due target d (Some iv)"
proof (cases "d + iv \<le> target")
  case True
  have "(target - d) div iv = (target - (d + iv)) div iv + 1"
    using assms(1) div_add_self2 [of iv "target - (d + iv)"] by simp
  moreover have "0 \<le> (target - (d + iv)) div iv"
    using True assms(1) by (simp add: pos_imp_zdiv_nonneg_iff)
  ultimately show ?thesis using True assms by (simp add: due_def)
qed (use assms in \<open>simp add: due_def\<close>)

lemma load_fire:
  assumes "timer_valid c t" and "t_state t = Scheduled" and "t_deadline_ns t \<le> target"
  shows "Suc (load target (t\<lparr>t_state := Firing, t_fire_count := n\<rparr>)) \<le> load target t"
proof (cases "t_interval_ns t")
  case None
  with assms show ?thesis by (simp add: load_def due_def)
next
  case (Some iv)
  with assms(1) have "iv > 0" by (auto simp: timer_valid_defs split: timer_mode.splits)
  with Some assms(2,3) show ?thesis using due_step by (simp add: load_def)
qed

lemma sum_list_bt_insert:
  fixes f :: "'v \<Rightarrow> nat"
  assumes "bt_ok m" and "map_of m k = Some t"
  shows "sum_list (map f (bt_values (bt_insert k t' m))) + f t = sum_list (map f (bt_values m)) + f t'"
  using assms
proof (induction m)
  case (Cons p m)
  then have ok: "bt_ok m" and lt: "\<And>q. q \<in> set m \<Longrightarrow> fst p < fst q" by (auto simp: bt_ok_def)
  show ?case
  proof (cases "fst p = k")
    case True
    with Cons.prems show ?thesis by (cases p) (simp add: bt_values_def)
  next
    case False
    then have k: "map_of m k = Some t" using Cons.prems(2) by (cases p) auto
    then have "fst p < k" using lt map_of_SomeD by force
    then have "\<not> k < fst p" by (rule less_not_sym)
    with False Cons.IH [OF ok k] show ?thesis by (simp add: bt_values_def)
  qed
qed simp

lemma total_load_update:
  assumes "timers_ok now n (s_timers s)" and "map_of (s_timers s) k = Some t"
  shows "total_load target (s\<lparr>s_timers := bt_insert k t' (s_timers s)\<rparr>) + load target t
       = total_load target s + load target t'"
  using sum_list_bt_insert [of "s_timers s" k t "load target" t'] assms
  by (simp add: total_load_def timers_ok_def)

lemma total_load_timers: "s_timers s = s_timers s' \<Longrightarrow> total_load target s = total_load target s'"
  by (simp add: total_load_def)

section \<open>How the operations change it\<close>

lemma total_load_dispatch:
  assumes inv: "sched_inv s" and d: "dispatch_next s target = Inr (Some tok, s')"
  shows "total_load target s' < total_load target s"
proof -
  from inv d obtain k t where t: "map_of (s_timers s) k = Some t" "t_state t = Scheduled"
    "t_deadline_ns t \<le> target" "dispatch_id s k (t_deadline_ns t) = Inr (tok, s')"
    by (cases rule: dispatch_next_cases) auto
  let ?t = "t\<lparr>t_state := Firing, t_fire_count := t_fire_count t + 1\<rparr>"
  from t have "s_timers s' = bt_insert k ?t (s_timers s)"
    by (auto simp: dispatch_id_def result_simps Let_def split: if_splits)
  then have "total_load target s' + load target t = total_load target s + load target ?t"
    using total_load_update [OF sched_invD(1) [OF inv] t(1), of target ?t]
    by (metis (no_types, lifting) scheduler.select_convs(3) scheduler.surjective
        scheduler.update_convs(3) total_load_timers)
  moreover have "Suc (load target ?t) \<le> load target t"
    using load_fire [OF timers_okD(2) [OF sched_invD(1) [OF inv] t(1)] t(2,3)] t(2) by simp
  ultimately show ?thesis by linarith
qed

lemma total_load_cancel:
  assumes inv: "sched_inv s" and c: "cancel s idt = Inr (b, s')"
  shows "total_load target s' \<le> total_load target s"
proof (cases "s' = s")
  case False
  then obtain k t where t: "map_of (s_timers s) k = Some t"
    and s': "s_timers s' = bt_insert k (t\<lparr>t_state := Cancelled\<rparr>) (s_timers s)"
    using c by (auto simp: cancel_def result_simps split: option.splits if_splits)
  have "load target (t\<lparr>t_state := Cancelled\<rparr>) = 0" by (simp add: load_def)
  with total_load_update [OF sched_invD(1) [OF inv] t, of target "t\<lparr>t_state := Cancelled\<rparr>"] s'
  show ?thesis by (simp add: total_load_def)
qed simp

lemma total_load_close: "total_load target (close s) = 0"
  by (auto simp: total_load_def close_def bt_values_def bt_map_values_def load_def cancel_if_active_def
      is_active_def comp_def sum_list_eq_0_iff split: timer_state.splits)

lemma total_load_complete:
  assumes inv: "sched_inv s" and c: "complete_dispatch s tok r = Inr s'"
  shows "total_load target s' \<le> total_load target s"
proof (cases "s_timers s' = s_timers s")
  case True
  then show ?thesis by (simp add: total_load_timers [OF True])
next
  case False
  then obtain k t t' where t: "map_of (s_timers s) k = Some t" and s': "s_timers s' = bt_insert k t' (s_timers s)"
    and t': "t_state t' \<in> {TimerFailed, Completed, Cancelled} \<or> t_state t \<noteq> Cancelled \<and>
       (\<exists>iv. t_interval_ns t = Some iv \<and>
          t' = t\<lparr>t_deadline_ns := t_deadline_ns t + iv, t_state := Scheduled\<rparr>)"
    and tok: "token_valid s tok" "k = ev_id (dt_event tok)"
    using c
    by (auto simp: complete_dispatch_def Let_def split: if_splits option.splits sum.splits timer_mode.splits)
  from tok obtain tok0 where "s_outstanding s = Some tok0" "k = ev_id (dt_event tok0)"
    by (auto simp: token_valid_def split: option.splits)
  then have "t_state t = Firing \<or> t_state t = Cancelled"
    using t by (metis inv in_flightD(3) option.inject outstandingE)
  with t' have "load target t' \<le> load target t" by (auto simp: load_def)
  with total_load_update [OF sched_invD(1) [OF inv] t, of target t'] s' show ?thesis
    by (simp add: total_load_def)
qed

section \<open>Termination\<close>

text \<open>A behaviour is quiet when its callbacks schedule nothing; they may cancel and close.\<close>

definition quiet_action :: "'cb action \<Rightarrow> bool" where
  "quiet_action a = (case a of ActCancel _ \<Rightarrow> True | ActRequestClose \<Rightarrow> True | _ \<Rightarrow> False)"

definition quiet :: "'cb behaviour \<Rightarrow> bool" where
  "quiet beh \<longleftrightarrow> (\<forall>cb e v. \<forall>a \<in> set (fst (beh cb e v)). quiet_action a)"

lemma total_load_action:
  assumes inv: "vclock_inv v" and q: "quiet_action a"
  shows "total_load target (v_sched (run_action v a)) \<le> total_load target (v_sched v)"
  using q total_load_cancel [OF vclock_invD(1) [OF inv]]
  by (cases a)
     (auto simp: quiet_action_def or_same_def v_cancel_def handle_cancel_def result_simps v_close_def
       total_load_close split: sum.splits)

lemma total_load_actions:
  "vclock_inv v \<Longrightarrow> (\<And>a. a \<in> set acts \<Longrightarrow> quiet_action a) \<Longrightarrow>
   total_load target (v_sched (run_actions v acts)) \<le> total_load target (v_sched v)"
proof (induction acts arbitrary: v)
  case (Cons a acts)
  have "vclock_inv (run_action v a)" using Cons.prems(1) by (rule vclock_inv_run_action)
  then have "total_load target (v_sched (run_actions (run_action v a) acts))
      \<le> total_load target (v_sched (run_action v a))"
    by (rule Cons.IH) (simp add: Cons.prems(2))
  also have "\<dots> \<le> total_load target (v_sched v)"
    by (rule total_load_action) (use Cons.prems in auto)
  finally show ?case by (simp add: run_actions_def)
qed (simp add: run_actions_def)

lemma advance_loop_terminates:
  assumes "quiet beh" and "at_rest v" and "s_current_ns (v_sched v) \<le> target"
    and "total_load target (v_sched v) < n"
  shows "\<exists>r. advance_loop n beh v target evs = Some r"
  using assms(2-)
proof (induction n arbitrary: v evs)
  case (Suc n)
  from Suc.prems(1,2) show ?case
  proof (cases rule: advance_loop_cases [where beh = beh])
    case (fire tok s acts outcome cb cb' v1 v3)
    have inv: "vclock_inv v" using Suc.prems(1) by (simp add: at_rest_def)
    have inv1: "vclock_inv v1" using vclock_inv_dispatch(2) [OF inv fire(2)] fire(3) by simp
    from fire(5) obtain s3 where c: "complete_dispatch (v_sched (run_actions v1 acts)) tok (callback_result outcome) = Inr s3"
      and s3: "v_sched v3 = s3"
      by (auto simp: settle_def result_simps)
    have "total_load target s3 \<le> total_load target (v_sched (run_actions v1 acts))"
      by (rule total_load_complete [OF vclock_invD(1) [OF vclock_inv_run_actions [OF inv1]] c])
    also have "\<dots> \<le> total_load target (v_sched v1)"
    proof (rule total_load_actions [OF inv1])
      show "quiet_action a" if "a \<in> set acts" for a
        using assms(1) that fire(4) unfolding quiet_def by (metis fst_conv)
    qed
    also have "\<dots> < total_load target (v_sched v)"
      using total_load_dispatch [OF vclock_invD(1) [OF inv] fire(2)] fire(3) by simp
    finally have "total_load target (v_sched v3) < n" using s3 Suc.prems(3) by simp
    with Suc.IH [OF fire(7), of "evs @ [dt_event tok]"] fire(6,8,10) show ?thesis by simp
  qed simp_all
qed simp

section \<open>The clock as a transition system\<close>

text \<open>Snapshots given to \<open>restore\<close> carry canonical identifiers, by the type \<open>TimerId\<close>.\<close>

definition canonical_snapshot :: "clock_snapshot \<Rightarrow> bool" where
  "canonical_snapshot c \<longleftrightarrow> (\<forall>t \<in> set (cs_timers c). canonical_id (t_id t))"

inductive vclock_init :: "'cb vclock \<Rightarrow> bool" where
  "vclock_init (vclock_new owner now)"

inductive vclock_step :: "'cb behaviour \<Rightarrow> 'cb vclock \<Rightarrow> 'cb vclock \<Rightarrow> bool" for beh where
  vstep_action: "vclock_step beh v (run_action v a)"
| vstep_restore: "v_restore v owner c cbs = Inr v' \<Longrightarrow> canonical_snapshot c \<Longrightarrow> bt_ok cbs \<Longrightarrow>
     vclock_step beh v v'"
| vstep_advance: "advance_to fuel beh v target = Some (v', r) \<Longrightarrow> vclock_step beh v v'"

inductive_cases vclock_initE: "vclock_init v"
inductive_cases vclock_stepE: "vclock_step beh v v'"

definition vclock_idle :: "'cb vclock \<Rightarrow> bool" where
  "vclock_idle v \<longleftrightarrow> at_rest v \<and> \<not> v_advancing v"

lemma run_action_idle: "vclock_idle v \<Longrightarrow> vclock_idle (run_action v a)"
  using vclock_inv_run_action [of v a] run_action_frame [of v a]
  by (cases a)
     (auto simp: vclock_idle_def at_rest_def same_frame_def or_same_def v_schedule_at_def v_schedule_after_def
       v_schedule_every_def install_def v_cancel_def handle_cancel_def v_close_def result_simps split: sum.splits)

lemma restore_idle:
  assumes idle: "vclock_idle v" and r: "v_restore v owner c cbs = Inr v'"
    and can: "canonical_snapshot c" and ok: "bt_ok cbs"
  shows "vclock_idle v'"
proof -
  from r obtain s where s: "restore (v_sched v) owner c = Inr s" and keys: "active_ids c = bt_keys cbs"
    and v': "v' = v\<lparr>v_sched := s, v_callbacks := cbs\<rparr>"
    by (auto simp: v_restore_def result_simps split: if_splits)
  have si: "sched_inv (v_sched v)" using idle by (simp add: vclock_idle_def at_rest_def vclock_invD(1))
  from s obtain wf: "snapshot_wf c" and st: "s_timers s = index_timers (cs_timers c)" "s_outstanding s = None"
    by (auto elim!: restore_cases)
  have ids: "distinct (map t_id (cs_timers c))" using wf by (simp add: snapshot_wf_def)
  have "dom (map_of cbs) = set (active_ids c)"
    by (simp add: keys bt_keys_def dom_map_of_conv_image_fst)
  also have "\<dots> = {k. \<exists>t. map_of (s_timers s) k = Some t \<and> t_state t = Scheduled}"
    by (auto simp: active_ids_def st index_lookup [OF ids])
  finally have "vclock_inv v'"
    using sched_inv_restore [OF si s] ok can
    by (auto simp: vclock_inv_def v' st index_lookup [OF ids] canonical_snapshot_def)
  then show ?thesis using st v' idle by (simp add: vclock_idle_def at_rest_def)
qed

lemma at_rest_advancing [simp]: "at_rest (v\<lparr>v_advancing := b\<rparr>) = at_rest v"
  by (simp add: at_rest_def vclock_inv_def)

lemma advanced_advancing [simp]:
  "advanced target (v\<lparr>v_advancing := b\<rparr>) v' evs = advanced target v v' evs"
  "advanced target v (v'\<lparr>v_advancing := b\<rparr>) evs = advanced target v v' evs"
  by (simp_all add: advanced_def)

definition advance_report :: "int \<Rightarrow> 'cb vclock \<Rightarrow> 'cb vclock \<Rightarrow> timer_event list \<Rightarrow> advance_result" where
  "advance_report target v v' evs =
     \<lparr>ar_previous_ns = s_current_ns (v_sched v), ar_current_ns = s_current_ns (v_sched v'),
      ar_reached_target = (s_current_ns (v_sched v') = target), ar_events = evs,
      ar_failures = drop (length (s_failures (v_sched v))) (s_failures (v_sched v'))\<rparr>"

lemma advance_to_correct:
  assumes idle: "vclock_idle v" and open_: "\<not> s_closed (v_sched v)" and le: "s_current_ns (v_sched v) \<le> target"
    and a: "advance_to fuel beh v target = Some (v', r)"
  shows "\<exists>evs. r = Inr (advance_report target v v' evs) \<and> advanced target v v' evs \<and> \<not> v_advancing v'"
proof -
  have na: "\<not> v_advancing v" using idle by (simp add: vclock_idle_def)
  from a open_ le na obtain v1 r1 where l: "advance_loop fuel beh (v\<lparr>v_advancing := True\<rparr>) target [] = Some (v1, r1)"
    and v': "v' = v1\<lparr>v_advancing := False\<rparr>"
    and r: "r = rbind r1 (\<lambda>events. Inr (advance_report target v v1 events))"
    by (auto simp: advance_to_def advance_inner_def advance_report_def state_def)
  have "at_rest (v\<lparr>v_advancing := True\<rparr>)" using idle by (simp add: vclock_idle_def)
  from advance_loop_correct [OF this _ l] le obtain new where "r1 = Inr new" "advanced target v v1 new" by auto
  with r v' show ?thesis by (auto simp: advance_report_def)
qed

lemma advance_to_idle:
  assumes "vclock_idle v" and "advance_to fuel beh v target = Some (v', r)"
  shows "vclock_idle v'"
proof (cases "\<not> s_closed (v_sched v) \<and> s_current_ns (v_sched v) \<le> target")
  case True
  with advance_to_correct [OF assms(1) _ _ assms(2)] show ?thesis
    by (auto simp: vclock_idle_def advanced_def)
next
  case False
  with assms show ?thesis by (auto simp: advance_to_def state_def vclock_idle_def split: if_splits)
qed

lemma vclock_idle_new: "vclock_idle (vclock_new owner now)"
  using vclock_inv_new [of owner now] by (simp add: vclock_idle_def at_rest_def) (simp add: vclock_new_def scheduler_new_def)

interpretation clock: invariant_system vclock_init "vclock_step beh" vclock_idle for beh
  by unfold_locales
     (auto elim!: vclock_initE vclock_stepE intro: vclock_idle_new run_action_idle restore_idle advance_to_idle)

section \<open>Properties\<close>


definition demo_behaviour :: "unit behaviour" where
  "demo_behaviour cb e v = ([], CbOk, cb)"

definition demo_clock :: "unit vclock" where
  "demo_clock = run_action (vclock_new 0 10) (ActScheduleEvery [65] 5 None ())"

lemma demo_clock_reachable: "reachable vclock_init (vclock_step demo_behaviour) demo_clock"
  unfolding demo_clock_def
proof (rule reach_step)
  show "reachable vclock_init (vclock_step demo_behaviour) (vclock_new 0 10 :: unit vclock)"
    by (rule reach_init) (rule vclock_init.intros)
  show "vclock_step demo_behaviour (vclock_new 0 10) (run_action (vclock_new 0 10) (ActScheduleEvery [65] 5 None ()))"
    by (rule vstep_action)
qed

lemma demo_clock_state:
  "\<not> s_closed (v_sched demo_clock) \<and> s_current_ns (v_sched demo_clock) = 10"
  by code_simp

lemma demo_clock_run:
  "map_option (\<lambda>(v, r). case r of Inl _ \<Rightarrow> [] | Inr rep \<Rightarrow> map ev_deadline_ns (ar_events rep))
     (advance_to 3 demo_behaviour demo_clock 22) = Some [15, 20]"
  by code_simp


text \<open>
  C27: if the callbacks schedule no new timers, \<open>advance_to\<close> returns: the number of passes is
  at most the number of firings that are due before the target, plus one.
\<close>

theorem advance_to_terminates:
  assumes "reachable vclock_init (vclock_step beh) v" and "quiet beh"
    and "total_load target (v_sched v) < fuel"
  shows "\<exists>v' r. advance_to fuel beh v target = Some (v', r)"
proof -
  have idle: "vclock_idle v" using assms(1) by (rule clock.reachable_inv)
  have "\<exists>r. advance_loop fuel beh (v\<lparr>v_advancing := True\<rparr>) target [] = Some r"
    if "s_current_ns (v_sched v) \<le> target"
    by (rule advance_loop_terminates [OF assms(2)]) (use idle that assms(3) in \<open>simp_all add: vclock_idle_def\<close>)
  then show ?thesis by (fastforce simp: advance_to_def advance_inner_def)
qed

theorem advance_to_terminates_witness:
  "\<exists>v' r. advance_to 3 demo_behaviour demo_clock 22 = Some (v', r)"
proof (rule advance_to_terminates [OF demo_clock_reachable])
  show "quiet demo_behaviour" by (simp add: quiet_def demo_behaviour_def)
  show "total_load 22 (v_sched demo_clock) < 3" by code_simp
qed

end
