(* ===== verification/Json.thy ===== *)
theory Json
  imports Prelude
begin

text \<open>
  The JSON values of \<open>serde_json\<close> as the kernel uses them: with arbitrary precision a
  number is its token, an object is the ascending list of its members. The kernel walks
  values with explicit work lists; \<open>json_weight\<close> is the measure of such walks.
\<close>

datatype json =
    JNull
  | JBool bool
  | JNumber rstr
  | JString rstr
  | JArray "json list"
  | JObject "(rstr \<times> json) list"

definition is_object :: "json \<Rightarrow> bool" where
  "is_object v = (case v of JObject _ \<Rightarrow> True | _ \<Rightarrow> False)"

fun json_numbers :: "json \<Rightarrow> rstr list" where
  "json_numbers (JNumber n) = [n]"
| "json_numbers (JArray vs) = concat (map json_numbers vs)"
| "json_numbers (JObject ms) = concat (map (\<lambda>m. json_numbers (snd m)) ms)"
| "json_numbers _ = []"

fun json_weight :: "json \<Rightarrow> nat" where
  "json_weight (JArray vs) = Suc (sum_list (map json_weight vs))"
| "json_weight (JObject ms) = Suc (sum_list (map (\<lambda>m. json_weight (snd m)) ms))"
| "json_weight _ = 1"

lemma json_weight_pos [simp]: "0 < json_weight v"
  by (cases v) auto

end
