(* ===== verification/Event_Model.thy ===== *)
theory Event_Model
  imports Json
begin

text \<open>
  The event data model of \<open>crates/event/src/model.rs\<close>: UUID identifiers with their parser
  and printer, trimmed names, priorities, scopes, payload validation and the constructor
  of an event. Two pieces of code the sources only call are parameters: \<open>utc_from_ns\<close>
  (the calendar conversion of the \<open>tz\<close> crate) and, in payload validation, the acceptance
  of a numeric token as an integer or as a JSON number. The market bar of a payload is the
  type parameter \<open>'b\<close>.
\<close>

section \<open>Errors and identifiers\<close>

datatype event_error =
    EvValidation string
  | EvRecord string
  | EvScope
  | EvCapacity
  | EvRuntimeFailure
  | EvClosed
  | EvBusy
  | EvDuplicateSubscription
  | EvCallback rstr
  | EvUnwind

definition hex_digit :: "nat \<Rightarrow> nat option" where
  "hex_digit b =
     (if 48 \<le> b \<and> b \<le> 57 then Some (b - 48)
      else if 97 \<le> b \<and> b \<le> 102 then Some (b - 97 + 10)
      else if 65 \<le> b \<and> b \<le> 70 then Some (b - 65 + 10)
      else None)"

definition hyphens :: "nat list" where
  "hyphens = [8, 13, 18, 23]"

fun hex_pairs :: "nat list \<Rightarrow> event_error + nat list" where
  "hex_pairs (a # b # bs) =
     rbind (ok_or (hex_digit a) (EvValidation ''invalid UUID'')) (\<lambda>x.
     rbind (ok_or (hex_digit b) (EvValidation ''invalid UUID'')) (\<lambda>y.
     rbind (hex_pairs bs) (\<lambda>out. Inr ((x * 16 + y) # out))))"
| "hex_pairs _ = Inr []"

definition uuid_parse :: "nat list \<Rightarrow> event_error + nat list" where
  "uuid_parse s =
     (if length s \<noteq> 36 \<or> \<not> (\<forall>i \<in> set hyphens. s ! i = 45)
      then Inl (EvValidation ''invalid UUID'')
      else hex_pairs (map snd (filter (\<lambda>(i, b). i \<notin> set hyphens) (enumerate 0 s))))"

definition hex_char :: "nat \<Rightarrow> nat" where
  "hex_char d = (if d < 10 then 48 + d else 87 + d)"

definition uuid_display :: "nat list \<Rightarrow> nat list" where
  "uuid_display u =
     concat (map (\<lambda>(i, b). (if i \<in> {4, 6, 8, 10} then [45] else [])
                           @ [hex_char (b div 16), hex_char (b mod 16)]) (enumerate 0 u))"

definition event_name :: "rstr \<Rightarrow> event_error + rstr" where
  "event_name s =
     (let t = trim_matches whitespace s
      in if t = [] then Inl (EvValidation ''empty Event name'') else Inr t)"

section \<open>Priorities\<close>

datatype event_priority = Low | Normal | High | Critical

fun priority_rank :: "event_priority \<Rightarrow> nat" where
  "priority_rank Low = 0"
| "priority_rank Normal = 1"
| "priority_rank High = 2"
| "priority_rank Critical = 3"

lemma priority_rank_inj [simp]: "priority_rank p = priority_rank q \<longleftrightarrow> p = q"
  by (cases p; cases q) simp_all

instantiation event_priority :: linorder
begin

definition less_eq_event_priority :: "event_priority \<Rightarrow> event_priority \<Rightarrow> bool" where
  "less_eq_event_priority p q = (priority_rank p \<le> priority_rank q)"

definition less_event_priority :: "event_priority \<Rightarrow> event_priority \<Rightarrow> bool" where
  "less_event_priority p q = (priority_rank p < priority_rank q)"

instance
  by standard (auto simp: less_eq_event_priority_def less_event_priority_def)

end

fun priority_name :: "event_priority \<Rightarrow> string" where
  "priority_name Low = ''LOW''"
| "priority_name Normal = ''NORMAL''"
| "priority_name High = ''HIGH''"
| "priority_name Critical = ''CRITICAL''"

definition priority_parse :: "string \<Rightarrow> event_error + event_priority" where
  "priority_parse s =
     (if s = ''LOW'' then Inr Low
      else if s = ''NORMAL'' then Inr Normal
      else if s = ''HIGH'' then Inr High
      else if s = ''CRITICAL'' then Inr Critical
      else Inl (EvValidation ''unknown Event priority''))"

datatype known_event_type =
    BarReceived | BarValidated | DerivedBarCreated | BarCacheUpdated | IndicatorUpdated
  | MarketDataSnapshotReady | MarketDataPipelineFailed | ClusterBarHandled | ClusterBarHandlerFailed

fun known_name :: "known_event_type \<Rightarrow> string" where
  "known_name BarReceived = ''BAR_RECEIVED''"
| "known_name BarValidated = ''BAR_VALIDATED''"
| "known_name DerivedBarCreated = ''DERIVED_BAR_CREATED''"
| "known_name BarCacheUpdated = ''BAR_CACHE_UPDATED''"
| "known_name IndicatorUpdated = ''INDICATOR_UPDATED''"
| "known_name MarketDataSnapshotReady = ''MARKET_DATA_SNAPSHOT_READY''"
| "known_name MarketDataPipelineFailed = ''MARKET_DATA_PIPELINE_FAILED''"
| "known_name ClusterBarHandled = ''CLUSTER_BAR_HANDLED''"
| "known_name ClusterBarHandlerFailed = ''CLUSTER_BAR_HANDLER_FAILED''"

section \<open>Scopes\<close>

record event_scope =
  sc_engine :: rstr
  sc_runtime :: "rstr option"
  sc_cluster :: "rstr option"

definition scope_new :: "rstr \<Rightarrow> rstr option \<Rightarrow> rstr option \<Rightarrow> event_error + event_scope" where
  "scope_new engine runtime cluster =
     (if cluster \<noteq> None \<and> runtime = None then Inl (EvValidation ''Cluster requires Runtime'')
      else Inr \<lparr>sc_engine = engine, sc_runtime = runtime, sc_cluster = cluster\<rparr>)"

definition scope_includes :: "event_scope \<Rightarrow> event_scope \<Rightarrow> bool" where
  "scope_includes a b =
     (sc_engine a = sc_engine b
      \<and> (case sc_runtime a of None \<Rightarrow> True | Some v \<Rightarrow> Some v = sc_runtime b)
      \<and> (case sc_cluster a of None \<Rightarrow> True | Some v \<Rightarrow> Some v = sc_cluster b))"

lemma scope_includes_refl [simp]: "scope_includes a a"
  by (simp add: scope_includes_def split: option.split)

lemma scope_includes_trans: "scope_includes a b \<Longrightarrow> scope_includes b c \<Longrightarrow> scope_includes a c"
  by (auto simp: scope_includes_def split: option.splits)

lemma scope_includes_antisym: "scope_includes a b \<Longrightarrow> scope_includes b a \<Longrightarrow> a = b"
  by (auto simp: scope_includes_def split: option.splits)

section \<open>Timestamps\<close>

record utc_datetime =
  utc_year :: int
  utc_second :: int
  utc_nanos :: int
  utc_total_ns :: int

type_synonym utc_from_ns = "int \<Rightarrow> utc_datetime option"

definition to_unix_micros :: "int \<Rightarrow> int" where
  "to_unix_micros ns = ns div 1000"

definition fits_i64 :: "int \<Rightarrow> bool" where
  "fits_i64 i = (- (2 ^ 63) \<le> i \<and> i < 2 ^ 63)"

definition utc_datetime_new :: "utc_datetime \<Rightarrow> event_error + utc_datetime" where
  "utc_datetime_new t =
     (if \<not> (1 \<le> utc_year t \<and> utc_year t \<le> 9999) \<or> utc_second t \<ge> 60 \<or> utc_nanos t mod 1000 \<noteq> 0
      then Inl (EvValidation ''UTC datetime requires years 1..9999, seconds 0..59 and microsecond precision'')
      else Inr t)"

definition to_datetime :: "utc_from_ns \<Rightarrow> int \<Rightarrow> event_error + utc_datetime" where
  "to_datetime conv ns =
     (let micros = to_unix_micros ns
      in if \<not> fits_i64 micros then Inl (EvValidation ''datetime is outside years 1..9999'')
         else rbind (ok_or (conv (micros * 1000)) (EvValidation ''time'')) utc_datetime_new)"

section \<open>Payloads and events\<close>

datatype 'b event_payload = PayBar 'b | PayMapping json | PayScalar json

record numeric_tokens =
  int_token :: "rstr \<Rightarrow> bool"
  json_token :: "rstr \<Rightarrow> bool"

fun json_children :: "json \<Rightarrow> json list" where
  "json_children (JObject ms) = map snd ms"
| "json_children (JArray vs) = vs"
| "json_children _ = []"

lemma json_children_weight: "Suc (sum_list (map json_weight (json_children v))) = json_weight v"
  by (cases v) (simp_all add: comp_def)

lemma pop_weight:
  "pending \<noteq> [] \<Longrightarrow>
   sum_list (map json_weight (butlast pending @ json_children (last pending))) < sum_list (map json_weight pending)"
  using json_children_weight [of "last pending"]
  by (cases pending rule: rev_cases) simp_all

definition number_ok :: "numeric_tokens \<Rightarrow> json \<Rightarrow> bool" where
  "number_ok nt v = (case v of JNumber n \<Rightarrow> json_token nt n | _ \<Rightarrow> True)"

function validate_json :: "numeric_tokens \<Rightarrow> json list \<Rightarrow> event_error + unit" where
  "validate_json nt pending =
     (if pending = [] then Inr ()
      else if number_ok nt (last pending)
      then validate_json nt (butlast pending @ json_children (last pending))
      else Inl (EvValidation ''invalid JSON numeric token''))"
  by pat_completeness auto
termination
  by (relation "measure (\<lambda>(_, p). sum_list (map json_weight p))") (simp_all only: wf_measure in_measure prod.case pop_weight simp_thms)

declare validate_json.simps [simp del]

definition payload_validate :: "numeric_tokens \<Rightarrow> 'b event_payload \<Rightarrow> event_error + unit" where
  "payload_validate nt p =
     (case p of
        PayBar _ \<Rightarrow> Inr ()
      | PayMapping v \<Rightarrow>
          if is_object v then validate_json nt [v] else Inl (EvValidation ''unsupported Event payload'')
      | PayScalar v \<Rightarrow>
          (case v of
             JNull \<Rightarrow> Inr ()
           | JString _ \<Rightarrow> Inr ()
           | JBool _ \<Rightarrow> Inr ()
           | JNumber n \<Rightarrow> ensure (int_token nt n) (EvValidation ''unsupported Event payload'')
           | _ \<Rightarrow> Inl (EvValidation ''unsupported Event payload'')))"

record 'b event =
  e_id :: "nat list"
  e_type :: rstr
  e_source :: rstr
  e_scope :: event_scope
  e_timestamp :: int
  e_init_timestamp :: int
  e_sequence :: nat
  e_correlation_id :: "nat list option"
  e_causation_id :: "nat list option"
  e_priority :: event_priority
  e_payload :: "'b event_payload"
  e_metadata :: "(rstr, rstr) btree"

definition event_new :: "utc_from_ns \<Rightarrow> numeric_tokens \<Rightarrow> 'b event \<Rightarrow> event_error + 'b event" where
  "event_new conv nt input =
     (if sc_runtime (e_scope input) = None \<or> e_init_timestamp input < e_timestamp input
      then Inl (EvValidation ''invalid Event scope or timestamps'')
      else rbind (to_datetime conv (e_timestamp input)) (\<lambda>_.
           rbind (to_datetime conv (e_init_timestamp input)) (\<lambda>_.
           rbind (payload_validate nt (e_payload input)) (\<lambda>_. Inr input))))"

section \<open>Laws of the data model\<close>

lemma numbers_children:
  "(\<forall>n \<in> set (json_numbers v). json_token nt n) \<longleftrightarrow>
   number_ok nt v \<and> (\<forall>c \<in> set (json_children v). \<forall>n \<in> set (json_numbers c). json_token nt n)"
  by (cases v) (auto simp: number_ok_def)

text \<open>The work-list validator accepts exactly when every number at any depth is a JSON number.\<close>

lemma validate_json_iff:
  "validate_json nt pending = Inr () \<longleftrightarrow>
   (\<forall>v \<in> set pending. \<forall>n \<in> set (json_numbers v). json_token nt n)"
proof (induction nt pending rule: validate_json.induct)
  case (1 nt pending)
  show ?case
  proof (cases pending rule: rev_cases)
    case (snoc rest v)
    with 1 show ?thesis
      using numbers_children [of v nt]
      by (subst validate_json.simps) auto
  qed (simp add: validate_json.simps)
qed

lemma priority_roundtrip [simp]: "priority_parse (priority_name p) = Inr p"
  by (cases p) (simp_all add: priority_parse_def)

lemma event_name_canonical: "event_name s = Inr t \<Longrightarrow> event_name t = Inr t"
  by (auto simp: event_name_def Let_def split: if_splits)

lemma known_name_inj: "known_name a = known_name b \<Longrightarrow> a = b"
  by (cases a; cases b) simp_all

lemma hex_digit_char [simp]: "d < 16 \<Longrightarrow> hex_digit (hex_char d) = Some d"
  by (auto simp: hex_digit_def hex_char_def)

lemma hex_pairs_chars:
  "\<forall>b \<in> set bs. b < 256 \<Longrightarrow>
   hex_pairs (concat (map (\<lambda>b. [hex_char (b div 16), hex_char (b mod 16)]) bs)) = Inr bs"
  by (induction bs) auto

lemma length_16_conv:
  "length u = 16 \<Longrightarrow> \<exists>a b c d e f g h i j k l m n p q. u = [a, b, c, d, e, f, g, h, i, j, k, l, m, n, p, q]"
  by (auto simp: numeral_eq_Suc length_Suc_conv)

section \<open>Properties\<close>

text \<open>
  printing a 16-byte identifier in hyphenated hexadecimal and parsing the text gives the
  identifier back.
\<close>

theorem uuid_parse_display:
  assumes "length u = 16" "\<forall>b \<in> set u. b < 256"
  shows "uuid_parse (uuid_display u) = Inr u"
proof -
  from length_16_conv [OF assms(1)] obtain a b c d e f g h i j k l m n p q
    where u: "u = [a, b, c, d, e, f, g, h, i, j, k, l, m, n, p, q]" by blast
  have "uuid_parse (uuid_display u) =
      hex_pairs (concat (map (\<lambda>b. [hex_char (b div 16), hex_char (b mod 16)]) u))"
    by (simp add: u uuid_display_def uuid_parse_def hyphens_def)
  with hex_pairs_chars [OF assms(2)] show ?thesis by simp
qed

theorem uuid_parse_display_witness:
  "uuid_parse (uuid_display (replicate 16 171)) = Inr (replicate 16 171)"
  using uuid_parse_display [of "replicate 16 171"] by simp

end
