(* ===== verification/Event_Bus.thy ===== *)
theory Event_Bus
  imports Event_Model
begin

text \<open>
  The event bus of \<open>crates/event\<close>: bounded retained samples (\<open>diagnostics.rs\<close>), the
  subscription registry (\<open>capabilities.rs\<close>), the bounded queue with its overflow
  policies, dispatch, drain, close and drop (\<open>bus.rs\<close>), and the publication counts of
  \<open>ports.rs\<close>.

  A handler is a value of type \<open>'cb\<close>, the captured state of the callback. The record
  \<open>handler_env\<close> says what calling it does: from the handler, the event and the bus it
  gives the operations performed through the callback context, how the call ended and the
  handler's next state; \<open>env_dispose\<close> is the panic message of the capture destructor, if
  it panics; the two texts are the derived renderings of an error and of an outcome.
  \<open>EvUnwind\<close> stands for a panic that leaves the call. No borrow of the shared state
  outlives a bus operation, so \<open>borrow\<close> never fails in the sequential model.
\<close>

section \<open>Diagnostics\<close>

record 'a retained =
  rt_capacity :: nat
  rt_values :: "'a list"
  rt_total :: nat
  rt_evicted :: nat

definition retained_new :: "nat \<Rightarrow> 'a retained" where
  "retained_new capacity = \<lparr>rt_capacity = capacity, rt_values = [], rt_total = 0, rt_evicted = 0\<rparr>"

definition retained_push :: "'a retained \<Rightarrow> 'a \<Rightarrow> 'a retained" where
  "retained_push r v =
     (let r1 = r\<lparr>rt_total := rt_total r + 1\<rparr>;
          r2 = (if length (rt_values r1) = rt_capacity r1
                then r1\<lparr>rt_values := tl (rt_values r1), rt_evicted := rt_evicted r1 + 1\<rparr> else r1)
      in r2\<lparr>rt_values := rt_values r2 @ [v]\<rparr>)"

record subscription =
  sub_id :: "nat list"
  sub_event_type :: rstr
  sub_handler_name :: rstr
  sub_priority :: event_priority
  sub_sequence :: nat

datatype handler_outcome = HSucceeded | HError rstr | HPanic rstr

record handler_result =
  hr_subscription :: subscription
  hr_outcome :: handler_outcome

record 'b dispatch_report =
  dr_event :: "'b event"
  dr_results :: "handler_result list"

record 'b event_failure =
  ef_event :: "'b event"
  ef_result :: handler_result

record 'b enqueue_receipt =
  rc_accepted :: "'b event"
  rc_replaced :: "'b event option"

record 'b diagnostics =
  dg_dispatches :: "'b dispatch_report retained"
  dg_failures :: "'b event_failure retained"
  dg_replacements :: "'b enqueue_receipt retained"
  dg_abandoned :: nat

definition diagnostics_new :: "nat \<Rightarrow> 'b diagnostics" where
  "diagnostics_new capacity = \<lparr>dg_dispatches = retained_new capacity, dg_failures = retained_new capacity,
     dg_replacements = retained_new capacity, dg_abandoned = 0\<rparr>"

definition report_failures :: "'b dispatch_report \<Rightarrow> 'b event_failure list" where
  "report_failures report =
     map (\<lambda>r. \<lparr>ef_event = dr_event report, ef_result = r\<rparr>)
       (filter (\<lambda>r. hr_outcome r \<noteq> HSucceeded) (dr_results report))"

definition diagnostics_dispatch :: "'b diagnostics \<Rightarrow> 'b dispatch_report \<Rightarrow> 'b diagnostics" where
  "diagnostics_dispatch d report =
     d\<lparr>dg_failures := foldl retained_push (dg_failures d) (report_failures report),
       dg_dispatches := retained_push (dg_dispatches d) report\<rparr>"

definition diagnostics_replacement :: "'b diagnostics \<Rightarrow> 'b enqueue_receipt \<Rightarrow> 'b diagnostics" where
  "diagnostics_replacement d receipt = d\<lparr>dg_replacements := retained_push (dg_replacements d) receipt\<rparr>"

section \<open>State\<close>

datatype queue_policy = Reject | FailRuntime | DropLowPriority

datatype bus_phase = BusRunning | BusClosing | BusClosed | BusFailed

record bus_config =
  cf_capacity :: nat
  cf_diagnostic_capacity :: nat
  cf_scope :: "event_scope option"
  cf_policy :: queue_policy

record 'cb registered =
  rg_subscription :: subscription
  rg_handler :: 'cb

record ('b, 'cb) bus =
  b_diagnostics :: "'b diagnostics"
  b_handlers :: "(nat list, 'cb registered) btree"
  b_used_ids :: "nat list list"
  b_sequence :: nat
  b_dispatching :: bool
  b_phase :: bus_phase
  b_config :: bus_config
  b_queue :: "'b event list"

definition bus_new :: "bus_config \<Rightarrow> event_error + ('b, 'cb) bus" where
  "bus_new config =
     (if cf_capacity config = 0 \<or> cf_diagnostic_capacity config = 0
      then Inl (EvValidation ''capacities must be positive'')
      else Inr \<lparr>b_diagnostics = diagnostics_new (cf_diagnostic_capacity config), b_handlers = [],
                b_used_ids = [], b_sequence = 0, b_dispatching = False, b_phase = BusRunning,
                b_config = config, b_queue = []\<rparr>)"

section \<open>Publication\<close>

definition require_running :: "('b, 'cb) bus \<Rightarrow> event_error + unit" where
  "require_running s = (if b_phase s \<noteq> BusRunning then Inl EvClosed else Inr ())"

definition in_scope :: "bus_config \<Rightarrow> 'b event \<Rightarrow> bool" where
  "in_scope c e = (case cf_scope c of None \<Rightarrow> True | Some sc \<Rightarrow> scope_includes sc (e_scope e))"

definition require_scope :: "('b, 'cb) bus \<Rightarrow> 'b event \<Rightarrow> event_error + unit" where
  "require_scope s e = (if \<not> in_scope (b_config s) e then Inl EvScope else Inr ())"

definition capacity_error :: "('b, 'cb) bus \<Rightarrow> event_error" where
  "capacity_error s = (if cf_policy (b_config s) = FailRuntime then EvRuntimeFailure else EvCapacity)"

definition victims :: "'b event list \<Rightarrow> 'b event \<Rightarrow> (event_priority \<times> nat) list" where
  "victims queue e =
     map (\<lambda>(i, old). (e_priority old, i))
       (filter (\<lambda>(i, old). e_priority old < e_priority e) (enumerate 0 queue))"

definition min_key :: "('k::linorder) list \<Rightarrow> 'k option" where
  "min_key ks = (case ks of [] \<Rightarrow> None | k # rest \<Rightarrow> Some (foldl min k rest))"

definition victim_index :: "'b event list \<Rightarrow> 'b event \<Rightarrow> nat option" where
  "victim_index queue e = map_option snd (min_key (victims queue e))"

definition remove_nth :: "nat \<Rightarrow> 'a list \<Rightarrow> 'a list" where
  "remove_nth i xs = take i xs @ drop (Suc i) xs"

definition enqueue :: "('b, 'cb) bus \<Rightarrow> 'b event \<Rightarrow> event_error + 'b enqueue_receipt \<times> ('b, 'cb) bus" where
  "enqueue s e =
     rbind (require_running s) (\<lambda>_.
     rbind (require_scope s e) (\<lambda>_.
     rbind (if length (b_queue s) = cf_capacity (b_config s) then
              if cf_policy (b_config s) \<noteq> DropLowPriority then Inl (capacity_error s)
              else rbind (ok_or (victim_index (b_queue s) e) (capacity_error s)) (\<lambda>i.
                   Inr (Some (b_queue s ! i), remove_nth i (b_queue s)))
            else Inr (None, b_queue s)) (\<lambda>(replaced, queue).
     let receipt = \<lparr>rc_accepted = e, rc_replaced = replaced\<rparr>;
         s1 = s\<lparr>b_queue := queue @ [e]\<rparr>
     in Inr (receipt,
          if replaced \<noteq> None then s1\<lparr>b_diagnostics := diagnostics_replacement (b_diagnostics s1) receipt\<rparr>
          else s1))))"

record batch_failure =
  bf_accepted :: nat
  bf_rejected_index :: nat
  bf_cause :: event_error

fun publish_from ::
  "nat \<Rightarrow> ('b, 'cb) bus \<Rightarrow> 'b event list \<Rightarrow> ('b, 'cb) bus \<times> (batch_failure + nat)" where
  "publish_from i s [] = (s, Inr i)"
| "publish_from i s (e # es) =
     (case enqueue s e of
        Inl cause \<Rightarrow> (s, Inl \<lparr>bf_accepted = i, bf_rejected_index = i, bf_cause = cause\<rparr>)
      | Inr (_, s1) \<Rightarrow> publish_from (Suc i) s1 es)"

definition publish_many :: "('b, 'cb) bus \<Rightarrow> 'b event list \<Rightarrow> ('b, 'cb) bus \<times> (batch_failure + nat)" where
  "publish_many s es = publish_from 0 s es"

fun require_scopes :: "('b, 'cb) bus \<Rightarrow> 'b event list \<Rightarrow> event_error + unit" where
  "require_scopes s [] = Inr ()"
| "require_scopes s (e # es) = rbind (require_scope s e) (\<lambda>_. require_scopes s es)"

definition publish_many_atomic :: "('b, 'cb) bus \<Rightarrow> 'b event list \<Rightarrow> event_error + nat \<times> ('b, 'cb) bus" where
  "publish_many_atomic s es =
     rbind (require_running s) (\<lambda>_.
     if cf_policy (b_config s) = DropLowPriority
     then Inl (EvValidation ''atomic replacement unsupported'')
     else rbind (require_scopes s es) (\<lambda>_.
     if length es > cf_capacity (b_config s) - length (b_queue s) then Inl (capacity_error s)
     else Inr (length es, s\<lparr>b_queue := b_queue s @ es\<rparr>)))"

section \<open>Subscriptions\<close>

definition subscribe ::
  "('b, 'cb) bus \<Rightarrow> nat list \<Rightarrow> rstr \<Rightarrow> rstr \<Rightarrow> event_priority \<Rightarrow> 'cb \<Rightarrow>
   event_error + subscription \<times> ('b, 'cb) bus" where
  "subscribe s ident event_type handler_name priority handler =
     (let name = trim_matches unicode_white_space handler_name
      in if name = [] then Inl (EvValidation ''empty handler name'')
         else rbind (require_running s) (\<lambda>_.
         if ident \<in> set (b_used_ids s) then Inl EvDuplicateSubscription
         else
           let sq = b_sequence s + 1;
               sub = \<lparr>sub_id = ident, sub_event_type = event_type, sub_handler_name = name,
                      sub_priority = priority, sub_sequence = sq\<rparr>
           in Inr (sub, s\<lparr>b_sequence := sq, b_used_ids := bs_insert ident (b_used_ids s),
                b_handlers := bt_insert ident \<lparr>rg_subscription = sub, rg_handler = handler\<rparr> (b_handlers s)\<rparr>)))"

definition unsubscribe :: "('b, 'cb) bus \<Rightarrow> nat list \<Rightarrow> bool \<times> ('b, 'cb) bus" where
  "unsubscribe s ident =
     (bt_contains (b_handlers s) ident, s\<lparr>b_handlers := bt_remove ident (b_handlers s)\<rparr>)"

definition request_close :: "('b, 'cb) bus \<Rightarrow> event_error + ('b, 'cb) bus" where
  "request_close s =
     (if b_phase s = BusFailed then Inl EvClosed
      else if b_phase s = BusRunning then Inr (s\<lparr>b_phase := BusClosing\<rparr>) else Inr s)"

section \<open>Dispatch\<close>

datatype ('b, 'cb) bus_action =
    ActPublish "'b event"
  | ActSubscribe "nat list" rstr rstr event_priority 'cb
  | ActUnsubscribe "nat list"
  | ActRequestClose

fun perform :: "('b, 'cb) bus \<Rightarrow> ('b, 'cb) bus_action \<Rightarrow> ('b, 'cb) bus" where
  "perform s (ActPublish e) = (case enqueue s e of Inl _ \<Rightarrow> s | Inr (_, s') \<Rightarrow> s')"
| "perform s (ActSubscribe i ty n p h) = (case subscribe s i ty n p h of Inl _ \<Rightarrow> s | Inr (_, s') \<Rightarrow> s')"
| "perform s (ActUnsubscribe i) = snd (unsubscribe s i)"
| "perform s ActRequestClose = (case request_close s of Inl _ \<Rightarrow> s | Inr s' \<Rightarrow> s')"

datatype call_end = CallOk | CallError event_error | CallPanic rstr

record ('b, 'cb) handler_env =
  env_call :: "'cb \<Rightarrow> 'b event \<Rightarrow> ('b, 'cb) bus \<Rightarrow> ('b, 'cb) bus_action list \<times> call_end \<times> 'cb"
  env_dispose :: "'cb \<Rightarrow> rstr option"
  env_error_text :: "event_error \<Rightarrow> rstr"
  env_drop_text :: "handler_outcome \<Rightarrow> rstr \<Rightarrow> rstr"

definition outcome_of :: "('b, 'cb) handler_env \<Rightarrow> call_end \<Rightarrow> handler_outcome" where
  "outcome_of env r =
     (case r of CallOk \<Rightarrow> HSucceeded | CallError e \<Rightarrow> HError (env_error_text env e) | CallPanic m \<Rightarrow> HPanic m)"

definition keep_handler :: "('b, 'cb) bus \<Rightarrow> nat list \<Rightarrow> 'cb \<Rightarrow> ('b, 'cb) bus" where
  "keep_handler s ident cb =
     (case map_of (b_handlers s) ident of
        None \<Rightarrow> s
      | Some g \<Rightarrow> s\<lparr>b_handlers := bt_insert ident (g\<lparr>rg_handler := cb\<rparr>) (b_handlers s)\<rparr>)"

definition run_handler ::
  "('b, 'cb) handler_env \<Rightarrow> 'b event \<Rightarrow> 'cb registered \<Rightarrow> ('b, 'cb) bus \<Rightarrow> handler_result \<times> ('b, 'cb) bus" where
  "run_handler env e g s =
     (let sub = rg_subscription g;
          (actions, fin, cb) = env_call env (rg_handler g) e s;
          s1 = foldl perform s actions;
          outcome = outcome_of env fin;
          outcome1 = (if bt_contains (b_handlers s1) (sub_id sub) then outcome
                      else case env_dispose env cb of
                             None \<Rightarrow> outcome
                           | Some m \<Rightarrow> HPanic (env_drop_text env outcome m))
      in (\<lparr>hr_subscription = sub, hr_outcome = outcome1\<rparr>, keep_handler s1 (sub_id sub) cb))"

fun run_handlers ::
  "('b, 'cb) handler_env \<Rightarrow> 'b event \<Rightarrow> 'cb registered list \<Rightarrow> ('b, 'cb) bus \<Rightarrow> handler_result list \<times> ('b, 'cb) bus" where
  "run_handlers env e [] s = ([], s)"
| "run_handlers env e (g # gs) s =
     (let (r, s1) = run_handler env e g s; (rs, s2) = run_handlers env e gs s1 in (r # rs, s2))"

definition dispatch_order :: "'cb registered \<Rightarrow> nat \<times> nat" where
  "dispatch_order g = (3 - priority_rank (sub_priority (rg_subscription g)), sub_sequence (rg_subscription g))"

definition observers :: "('b, 'cb) bus \<Rightarrow> 'b event \<Rightarrow> 'cb registered list" where
  "observers s e =
     sort_key dispatch_order (filter (\<lambda>g. sub_event_type (rg_subscription g) = e_type e) (bt_values (b_handlers s)))"

definition finish_closing :: "('b, 'cb) handler_env \<Rightarrow> ('b, 'cb) bus \<Rightarrow> ('b, 'cb) bus \<times> (event_error + unit)" where
  "finish_closing env s =
     (if b_phase s = BusClosing \<and> \<not> b_dispatching s \<and> b_queue s = []
      then (s\<lparr>b_phase := BusClosed, b_handlers := []\<rparr>,
            if list_ex (\<lambda>g. env_dispose env (rg_handler g) \<noteq> None) (bt_values (b_handlers s))
            then Inl EvUnwind else Inr ())
      else (s, Inr ()))"

definition dispatch_one ::
  "('b, 'cb) handler_env \<Rightarrow> ('b, 'cb) bus \<Rightarrow> ('b, 'cb) bus \<times> (event_error + 'b dispatch_report option)" where
  "dispatch_one env s =
     (if b_dispatching s then (s, Inl EvBusy)
      else if b_phase s = BusFailed then (s, Inl EvClosed)
      else case b_queue s of
        [] \<Rightarrow> (s, Inr None)
      | e # queue \<Rightarrow>
          let (results, s1) = run_handlers env e (observers s e) (s\<lparr>b_queue := queue, b_dispatching := True\<rparr>);
              report = \<lparr>dr_event = e, dr_results = results\<rparr>;
              s2 = s1\<lparr>b_dispatching := False, b_diagnostics := diagnostics_dispatch (b_diagnostics s1) report\<rparr>
          in case finish_closing env s2 of
               (s3, Inl err) \<Rightarrow> (s3\<lparr>b_dispatching := False, b_phase := BusFailed\<rparr>, Inl err)
             | (s3, Inr _) \<Rightarrow> (s3, Inr (Some report)))"

fun drain ::
  "nat \<Rightarrow> ('b, 'cb) handler_env \<Rightarrow> nat \<Rightarrow> ('b, 'cb) bus \<Rightarrow> (('b, 'cb) bus \<times> (event_error + nat)) option" where
  "drain 0 env count s = None"
| "drain (Suc fuel) env count s =
     (case dispatch_one env s of
        (s1, Inl err) \<Rightarrow> Some (s1, Inl err)
      | (s1, Inr None) \<Rightarrow> Some (s1, Inr count)
      | (s1, Inr (Some _)) \<Rightarrow> drain fuel env (count + 1) s1)"

definition bus_close ::
  "nat \<Rightarrow> ('b, 'cb) handler_env \<Rightarrow> ('b, 'cb) bus \<Rightarrow> (('b, 'cb) bus \<times> (event_error + bus_phase)) option" where
  "bus_close fuel env s =
     (if b_dispatching s then Some (s, Inl EvBusy)
      else if b_phase s = BusFailed then Some (s, Inl EvClosed)
      else
        let s0 = (if b_phase s = BusRunning then s\<lparr>b_phase := BusClosing\<rparr> else s)
        in case drain fuel env 0 s0 of
             None \<Rightarrow> None
           | Some (s1, Inl err) \<Rightarrow> Some (s1, Inl err)
           | Some (s1, Inr _) \<Rightarrow>
               (case finish_closing env s1 of
                  (s2, Inl err) \<Rightarrow> Some (s2, Inl err)
                | (s2, Inr _) \<Rightarrow> Some (s2, Inr (b_phase s2))))"

definition bus_drop :: "('b, 'cb) bus \<Rightarrow> ('b, 'cb) bus" where
  "bus_drop s =
     (let unfinished = (b_dispatching s \<or> b_queue s \<noteq> [] \<or> b_phase s = BusFailed)
      in s\<lparr>b_phase := (if unfinished then BusFailed else BusClosed),
           b_diagnostics := (b_diagnostics s)\<lparr>dg_abandoned := dg_abandoned (b_diagnostics s) + length (b_queue s)\<rparr>,
           b_handlers := [], b_queue := []\<rparr>)"

section \<open>Publication ports\<close>

datatype event_route = ExternalDirect | DurableOutbox | Lifecycle

datatype event_disposition = Published | Staged | Suppressed | Rejected

record publication =
  pb_route :: event_route
  pb_disposition :: event_disposition
  pb_attempted :: nat
  pb_published :: nat
  pb_staged :: nat
  pb_suppressed :: nat
  pb_rejected :: nat
  pb_error :: "rstr option"

definition publication_new :: "publication \<Rightarrow> event_error + publication" where
  "publication_new p =
     (if pb_attempted p \<noteq> pb_published p + pb_staged p + pb_suppressed p + pb_rejected p
      then Inl (EvValidation ''publication counts must conserve attempts'') else Inr p)"

end
