(* ===== verification/Event_Bus_Properties.thy ===== *)
theory Event_Bus_Properties
  imports Event_Bus
begin

text \<open>
  Correctness of the event bus: the retained-sample window, the choice of the replaced
  event, the invariant of the bus kept by every operation and by every callback, the order
  in which observers run, the equivalence of atomic and sequential publication, and that
  closing drains the queue.
\<close>

section \<open>Retained samples\<close>

definition retained_ok :: "nat \<Rightarrow> 'a retained \<Rightarrow> bool" where
  "retained_ok cap r =
     (rt_capacity r = cap \<and> length (rt_values r) \<le> cap \<and> rt_total r = rt_evicted r + length (rt_values r))"

definition window :: "nat \<Rightarrow> 'a list \<Rightarrow> 'a retained" where
  "window cap xs = \<lparr>rt_capacity = cap, rt_values = drop (length xs - cap) xs, rt_total = length xs,
     rt_evicted = length xs - cap\<rparr>"

lemma retained_ok_new [simp]: "retained_ok cap (retained_new cap)"
  by (simp add: retained_ok_def retained_new_def)

lemma retained_ok_push [inv_intros]:
  "0 < cap \<Longrightarrow> retained_ok cap r \<Longrightarrow> retained_ok cap (retained_push r v)"
  by (auto simp: retained_ok_def retained_push_def Let_def)

lemma retained_ok_pushes [inv_intros]:
  "0 < cap \<Longrightarrow> retained_ok cap r \<Longrightarrow> retained_ok cap (foldl retained_push r vs)"
  by (induction vs arbitrary: r) (auto intro: retained_ok_push)

lemma retained_push_window:
  assumes "0 < cap"
  shows "retained_push (window cap xs) v = window cap (xs @ [v])"
proof (cases "length xs < cap")
  case True
  then show ?thesis by (simp add: retained_push_def window_def)
next
  case False
  then have "Suc (length xs) - cap = Suc (length xs - cap)" by simp
  moreover have "tl (drop (length xs - cap) xs) = drop (Suc (length xs - cap)) xs"
    by (simp add: drop_Suc tl_drop)
  ultimately show ?thesis using False assms
    by (simp add: retained_push_def window_def Let_def)
qed

section \<open>Replacement victim\<close>

lemma foldl_min: "foldl min (k :: 'k::linorder) ks \<in> set (k # ks) \<and> (\<forall>x \<in> set (k # ks). foldl min k ks \<le> x)"
proof (induction ks arbitrary: k)
  case (Cons a ks)
  have "foldl min (min k a) ks \<le> min k a" using Cons.IH [of "min k a"] by simp
  then show ?case using Cons.IH [of "min k a"] by (auto simp: min_def split: if_splits)
qed simp

lemma min_key_Some: "min_key ks = Some k \<Longrightarrow> k \<in> set ks \<and> (\<forall>x \<in> set ks. k \<le> x)"
  using foldl_min by (cases ks) (auto simp: min_key_def)

lemma min_key_None [simp]: "min_key ks = None \<longleftrightarrow> ks = []"
  by (cases ks) (simp_all add: min_key_def)

lemma victims_iff:
  "(p, i) \<in> set (victims queue e) \<longleftrightarrow>
   i < length queue \<and> p = e_priority (queue ! i) \<and> p < e_priority e"
  by (auto simp: victims_def in_set_enumerate_eq image_iff Bex_def)

lemma victim_index_None:
  "victim_index queue e = None \<longleftrightarrow> (\<forall>old \<in> set queue. e_priority e \<le> e_priority old)"
proof -
  have "victims queue e = [] \<longleftrightarrow> (\<forall>i < length queue. \<not> e_priority (queue ! i) < e_priority e)"
  proof
    assume none: "victims queue e = []"
    show "\<forall>i < length queue. \<not> e_priority (queue ! i) < e_priority e"
    proof (intro allI impI notI)
      fix i
      assume "i < length queue" "e_priority (queue ! i) < e_priority e"
      then have "(e_priority (queue ! i), i) \<in> set (victims queue e)" by (simp add: victims_iff)
      with none show False by simp
    qed
  next
    assume all: "\<forall>i < length queue. \<not> e_priority (queue ! i) < e_priority e"
    have "(p, i) \<notin> set (victims queue e)" for p i
      using all by (simp add: victims_iff)
    then have "set (victims queue e) = {}" by (intro equals0I) (metis surj_pair)
    then show "victims queue e = []" by simp
  qed
  then show ?thesis by (auto simp: victim_index_def all_set_conv_all_nth not_less)
qed

lemma victim_index_Some:
  assumes "victim_index queue e = Some i"
  shows "i < length queue \<and> e_priority (queue ! i) < e_priority e
    \<and> (\<forall>j < i. e_priority (queue ! i) < e_priority (queue ! j))
    \<and> (\<forall>j < length queue. e_priority (queue ! i) \<le> e_priority (queue ! j))"
proof -
  from assms obtain p where "min_key (victims queue e) = Some (p, i)"
    by (auto simp: victim_index_def)
  then have m: "(p, i) \<in> set (victims queue e)" "\<forall>x \<in> set (victims queue e). (p, i) \<le> x"
    using min_key_Some by blast+
  from m(1) have i: "i < length queue" "p = e_priority (queue ! i)" "p < e_priority e"
    unfolding victims_iff by blast+
  have "(p, i) \<le> (e_priority (queue ! j), j)" if "j < length queue" "e_priority (queue ! j) < e_priority e" for j
    using bspec [OF m(2), of "(e_priority (queue ! j), j)"] that by (simp add: victims_iff)
  then have l: "p < e_priority (queue ! j) \<or> p = e_priority (queue ! j) \<and> i \<le> j"
    if "j < length queue" for j
    using that i(3) by (cases "e_priority (queue ! j) < e_priority e") (force simp: less_eq_prod_def)+
  show ?thesis
  proof (intro conjI allI impI)
    fix j
    assume "j < i"
    then have "j < length queue" using i by simp
    then show "e_priority (queue ! i) < e_priority (queue ! j)"
      using l [of j] \<open>j < i\<close> i by auto
  next
    fix j
    assume "j < length queue"
    then show "e_priority (queue ! i) \<le> e_priority (queue ! j)"
      using l [of j] i by auto
  qed (use i in simp_all)
qed

lemma remove_nth_split: "i < length xs \<Longrightarrow> xs = take i xs @ (xs ! i) # drop (Suc i) xs"
  by (simp add: id_take_nth_drop)

lemma length_remove_nth [simp]: "i < length xs \<Longrightarrow> length (remove_nth i xs) = length xs - 1"
  by (simp add: remove_nth_def)

lemma set_remove_nth: "set (remove_nth i xs) \<subseteq> set xs"
  by (auto simp: remove_nth_def dest: in_set_takeD in_set_dropD)

section \<open>The invariant\<close>

definition handlers_ok :: "('b, 'cb) bus \<Rightarrow> bool" where
  "handlers_ok s =
     (bt_ok (b_handlers s)
      \<and> (\<forall>i g. map_of (b_handlers s) i = Some g \<longrightarrow>
            sub_id (rg_subscription g) = i \<and> i \<in> set (b_used_ids s)
            \<and> 0 < sub_sequence (rg_subscription g) \<and> sub_sequence (rg_subscription g) \<le> b_sequence s)
      \<and> (\<forall>i j g h. map_of (b_handlers s) i = Some g \<longrightarrow> map_of (b_handlers s) j = Some h \<longrightarrow>
            sub_sequence (rg_subscription g) = sub_sequence (rg_subscription h) \<longrightarrow> i = j))"

definition diagnostics_ok :: "nat \<Rightarrow> 'b diagnostics \<Rightarrow> bool" where
  "diagnostics_ok cap d =
     (retained_ok cap (dg_dispatches d) \<and> retained_ok cap (dg_failures d) \<and> retained_ok cap (dg_replacements d))"

definition bus_inv :: "('b, 'cb) bus \<Rightarrow> bool" where
  "bus_inv s =
     (handlers_ok s
      \<and> bs_ok (b_used_ids s) \<and> card (set (b_used_ids s)) = b_sequence s
      \<and> length (b_queue s) \<le> cf_capacity (b_config s) \<and> (\<forall>e \<in> set (b_queue s). in_scope (b_config s) e)
      \<and> 0 < cf_capacity (b_config s) \<and> 0 < cf_diagnostic_capacity (b_config s)
      \<and> diagnostics_ok (cf_diagnostic_capacity (b_config s)) (b_diagnostics s)
      \<and> (b_phase s = BusClosed \<longrightarrow> b_queue s = [] \<and> b_handlers s = []))"

lemma bus_invD:
  assumes "bus_inv s"
  shows "handlers_ok s" "length (b_queue s) \<le> cf_capacity (b_config s)"
    "\<forall>e \<in> set (b_queue s). in_scope (b_config s) e"
    "b_phase s = BusClosed \<Longrightarrow> b_queue s = [] \<and> b_handlers s = []"
    "diagnostics_ok (cf_diagnostic_capacity (b_config s)) (b_diagnostics s)"
    "0 < cf_diagnostic_capacity (b_config s)"
  using assms by (simp_all add: bus_inv_def)

lemma bus_inv_new: "bus_new config = Inr s \<Longrightarrow> bus_inv s \<and> \<not> b_dispatching s \<and> b_phase s = BusRunning"
  by (auto simp: bus_new_def bus_inv_def handlers_ok_def diagnostics_ok_def diagnostics_new_def split: if_splits)

lemma bus_inv_dispatching [simp]: "bus_inv (s\<lparr>b_dispatching := d\<rparr>) = bus_inv s"
  by (simp add: bus_inv_def handlers_ok_def)

lemma bus_inv_phase: "bus_inv s \<Longrightarrow> p \<noteq> BusClosed \<Longrightarrow> bus_inv (s\<lparr>b_phase := p\<rparr>)"
  by (simp add: bus_inv_def handlers_ok_def)

text \<open>What an accepted event does to the queue, on both branches.\<close>

lemma enqueue_cases:
  assumes "enqueue s e = Inr (rc, s')"
  obtains (append) "b_phase s = BusRunning" "in_scope (b_config s) e"
      "length (b_queue s) \<noteq> cf_capacity (b_config s)" "s' = s\<lparr>b_queue := b_queue s @ [e]\<rparr>"
      "rc = \<lparr>rc_accepted = e, rc_replaced = None\<rparr>"
    | (replace) i where "b_phase s = BusRunning" "in_scope (b_config s) e"
      "length (b_queue s) = cf_capacity (b_config s)" "cf_policy (b_config s) = DropLowPriority"
      "victim_index (b_queue s) e = Some i"
      "rc = \<lparr>rc_accepted = e, rc_replaced = Some (b_queue s ! i)\<rparr>"
      "s' = s\<lparr>b_queue := remove_nth i (b_queue s) @ [e],
              b_diagnostics := diagnostics_replacement (b_diagnostics s) rc\<rparr>"
proof (cases "length (b_queue s) = cf_capacity (b_config s)")
  case True
  with assms obtain i where "victim_index (b_queue s) e = Some i"
    by (auto simp: enqueue_def result_simps split: if_splits)
  with True assms show ?thesis
    by (intro replace [of i]) (auto simp: enqueue_def result_simps require_running_def require_scope_def
          Let_def split: if_splits)
next
  case False
  with assms show ?thesis
    by (intro append) (auto simp: enqueue_def result_simps require_running_def require_scope_def
          Let_def split: if_splits)
qed

lemma handlers_ok_frame [simp]:
  "handlers_ok (s\<lparr>b_queue := q\<rparr>) = handlers_ok s"
  "handlers_ok (s\<lparr>b_diagnostics := d\<rparr>) = handlers_ok s"
  "handlers_ok (s\<lparr>b_dispatching := b\<rparr>) = handlers_ok s"
  "handlers_ok (s\<lparr>b_phase := p\<rparr>) = handlers_ok s"
  by (simp_all add: handlers_ok_def)

lemma enqueue_inv [inv_intros]:
  assumes "bus_inv s" "enqueue s e = Inr (rc, s')"
  shows "bus_inv s'"
  using assms(2)
proof (cases rule: enqueue_cases)
  case append
  with assms(1) show ?thesis by (simp add: bus_inv_def)
next
  case (replace i)
  have "i < length (b_queue s)" using victim_index_Some [OF replace(5)] by simp
  then have "Suc (length (remove_nth i (b_queue s))) = length (b_queue s)" by simp
  moreover have "diagnostics_ok (cf_diagnostic_capacity (b_config s)) (diagnostics_replacement (b_diagnostics s) rc)"
    using bus_invD(5,6) [OF assms(1)]
    by (auto simp: diagnostics_ok_def diagnostics_replacement_def intro: retained_ok_push)
  ultimately show ?thesis
    using assms(1) replace set_remove_nth [of i "b_queue s"]
    by (auto simp: bus_inv_def)
qed

lemma subscribe_cases:
  assumes "subscribe s ident ty name prio h = Inr (sub, s')"
  shows "b_phase s = BusRunning \<and> ident \<notin> set (b_used_ids s)
    \<and> sub = \<lparr>sub_id = ident, sub_event_type = ty, sub_handler_name = trim_matches unicode_white_space name,
             sub_priority = prio, sub_sequence = b_sequence s + 1\<rparr>
    \<and> s' = s\<lparr>b_sequence := b_sequence s + 1, b_used_ids := bs_insert ident (b_used_ids s),
             b_handlers := bt_insert ident \<lparr>rg_subscription = sub, rg_handler = h\<rparr> (b_handlers s)\<rparr>"
  using assms by (auto simp: subscribe_def Let_def result_simps require_running_def split: if_splits)

lemma subscribe_inv [inv_intros]:
  assumes "bus_inv s" "subscribe s ident ty name prio h = Inr (sub, s')"
  shows "bus_inv s'"
proof -
  note c = subscribe_cases [OF assms(2)]
  have old: "0 < sub_sequence (rg_subscription g) \<and> sub_sequence (rg_subscription g) \<le> b_sequence s
      \<and> sub_id (rg_subscription g) = i \<and> i \<in> set (b_used_ids s)"
    if "map_of (b_handlers s) i = Some g" for i g
    using bus_invD(1) [OF assms(1)] that by (simp add: handlers_ok_def)
  have "handlers_ok s'"
    using bus_invD(1) [OF assms(1)] c old
    by (auto simp: handlers_ok_def le_Suc_eq) fastforce+
  moreover have "card (set (b_used_ids s')) = b_sequence s'"
    using assms(1) c by (simp add: bus_inv_def)
  ultimately show ?thesis using assms(1) c by (simp add: bus_inv_def)
qed

lemma unsubscribe_inv [inv_intros]: "bus_inv s \<Longrightarrow> bus_inv (snd (unsubscribe s i))"
  by (auto simp: unsubscribe_def bus_inv_def handlers_ok_def bt_remove_def [of _ "[]"])

lemma request_close_inv [inv_intros]: "bus_inv s \<Longrightarrow> request_close s = Inr s' \<Longrightarrow> bus_inv s'"
  by (auto simp: request_close_def bus_inv_phase split: if_splits)

lemma perform_inv [inv_intros]: "bus_inv s \<Longrightarrow> bus_inv (perform s a)"
  by (cases a) (auto split: sum.split prod.split intro: inv_intros)

lemma perform_frame:
  "b_dispatching (perform s a) = b_dispatching s" "b_config (perform s a) = b_config s"
  by (cases a; auto simp: unsubscribe_def request_close_def dest!: subscribe_cases
        elim!: enqueue_cases split: sum.split prod.split if_splits)+

lemma performs_inv [inv_intros]: "bus_inv s \<Longrightarrow> bus_inv (foldl perform s as)"
  by (induction as arbitrary: s) (auto intro: perform_inv)

lemma performs_frame [simp]:
  "b_dispatching (foldl perform s as) = b_dispatching s" "b_config (foldl perform s as) = b_config s"
  by (induction as arbitrary: s) (simp_all add: perform_frame)

lemma keep_handler_inv [inv_intros]: "bus_inv s \<Longrightarrow> bus_inv (keep_handler s i cb)"
proof -
  assume inv: "bus_inv s"
  show ?thesis
  proof (cases "map_of (b_handlers s) i")
    case (Some g)
    with inv have "handlers_ok (s\<lparr>b_handlers := bt_insert i (g\<lparr>rg_handler := cb\<rparr>) (b_handlers s)\<rparr>)"
      by (auto simp: bus_inv_def handlers_ok_def)
    with inv Some show ?thesis by (auto simp: keep_handler_def bus_inv_def)
  qed (use inv in \<open>simp add: keep_handler_def\<close>)
qed

lemma keep_handler_frame [simp]:
  "b_dispatching (keep_handler s i cb) = b_dispatching s" "b_config (keep_handler s i cb) = b_config s"
  "b_phase (keep_handler s i cb) = b_phase s" "b_queue (keep_handler s i cb) = b_queue s"
  "b_diagnostics (keep_handler s i cb) = b_diagnostics s"
  by (simp_all add: keep_handler_def split: option.split)

lemma run_handler_keeps:
  assumes "run_handler env e g s = (r, s')"
  shows "(bus_inv s \<longrightarrow> bus_inv s') \<and> b_dispatching s' = b_dispatching s \<and> b_config s' = b_config s
    \<and> hr_subscription r = rg_subscription g"
  using assms by (auto simp: run_handler_def Let_def split: prod.splits intro!: keep_handler_inv performs_inv)

lemma run_handlers_keeps:
  "run_handlers env e gs s = (rs, s') \<Longrightarrow>
   (bus_inv s \<longrightarrow> bus_inv s') \<and> b_dispatching s' = b_dispatching s \<and> b_config s' = b_config s
    \<and> map hr_subscription rs = map rg_subscription gs"
proof (induction gs arbitrary: s rs)
  case (Cons g gs)
  obtain r s1 where 1: "run_handler env e g s = (r, s1)" by (cases "run_handler env e g s")
  obtain rs2 s2 where 2: "run_handlers env e gs s1 = (rs2, s2)" by (cases "run_handlers env e gs s1")
  from Cons.prems 1 2 have "rs = r # rs2" "s' = s2" by simp_all
  with run_handler_keeps [OF 1] Cons.IH [OF 2 [folded \<open>s' = s2\<close>]] show ?case by auto
qed simp

lemma finish_closing_inv [inv_intros]: "bus_inv s \<Longrightarrow> bus_inv (fst (finish_closing env s))"
  by (auto simp: finish_closing_def bus_inv_def handlers_ok_def)

lemma finish_closing_result: "snd (finish_closing env s) = Inr () \<or> snd (finish_closing env s) = Inl EvUnwind"
  by (simp add: finish_closing_def)

lemma finish_closing_frame [simp]: "b_dispatching (fst (finish_closing env s)) = b_dispatching s"
  by (simp add: finish_closing_def)

definition dispatched ::
  "('b, 'cb) handler_env \<Rightarrow> ('b, 'cb) bus \<Rightarrow> 'b event \<Rightarrow> 'b event list \<Rightarrow> handler_result list \<times> ('b, 'cb) bus" where
  "dispatched env s e queue = run_handlers env e (observers s e) (s\<lparr>b_queue := queue, b_dispatching := True\<rparr>)"

definition recorded :: "'b event \<Rightarrow> handler_result list \<times> ('b, 'cb) bus \<Rightarrow> ('b, 'cb) bus" where
  "recorded e rs = (snd rs)\<lparr>b_dispatching := False, b_diagnostics :=
     diagnostics_dispatch (b_diagnostics (snd rs)) \<lparr>dr_event = e, dr_results = fst rs\<rparr>\<rparr>"

lemma dispatch_one_Cons:
  assumes "\<not> b_dispatching s" "b_phase s \<noteq> BusFailed" "b_queue s = e # queue"
  shows "dispatch_one env s =
    (case finish_closing env (recorded e (dispatched env s e queue)) of
       (s3, Inl err) \<Rightarrow> (s3\<lparr>b_dispatching := False, b_phase := BusFailed\<rparr>, Inl err)
     | (s3, Inr _) \<Rightarrow> (s3, Inr (Some \<lparr>dr_event = e, dr_results = fst (dispatched env s e queue)\<rparr>)))"
  using assms by (simp add: dispatch_one_def dispatched_def recorded_def split: prod.splits sum.splits)

lemma diagnostics_dispatch_ok:
  "0 < cap \<Longrightarrow> diagnostics_ok cap d \<Longrightarrow> diagnostics_ok cap (diagnostics_dispatch d report)"
  by (auto simp: diagnostics_ok_def diagnostics_dispatch_def intro: inv_intros)

lemma recorded_inv:
  assumes "bus_inv s" "b_queue s = e # queue"
  shows "bus_inv (recorded e (dispatched env s e queue))"
proof -
  let ?s = "s\<lparr>b_queue := queue, b_dispatching := True\<rparr>"
  have "bus_inv ?s" using assms by (auto simp: bus_inv_def)
  then have inv: "bus_inv (snd (dispatched env s e queue))"
    using run_handlers_keeps [of env e "observers s e" ?s] by (cases "dispatched env s e queue") (auto simp: dispatched_def)
  then show ?thesis
    using diagnostics_dispatch_ok [OF bus_invD(6,5) [OF inv]] by (simp add: recorded_def bus_inv_def)
qed

definition at_rest_inv :: "('b, 'cb) bus \<Rightarrow> bool" where
  "at_rest_inv s = (bus_inv s \<and> \<not> b_dispatching s)"

lemma dispatch_one_rest:
  assumes "at_rest_inv s" "dispatch_one env s = (s', r)"
  shows "at_rest_inv s'"
proof (cases "b_phase s = BusFailed \<or> b_queue s = []")
  case True
  then show ?thesis using assms by (auto simp: dispatch_one_def at_rest_inv_def split: if_splits list.splits)
next
  case False
  then obtain e queue where q: "b_queue s = e # queue" by (cases "b_queue s") auto
  let ?m = "recorded e (dispatched env s e queue)"
  obtain s3 r3 where f: "finish_closing env ?m = (s3, r3)" by (cases "finish_closing env ?m")
  then have "bus_inv s3" "\<not> b_dispatching s3"
    using finish_closing_inv [OF recorded_inv [OF _ q], of env env] finish_closing_frame [of env ?m] assms(1)
    by (simp_all add: at_rest_inv_def recorded_def)
  then show ?thesis
    using assms False q f dispatch_one_Cons [of s e queue env]
    by (cases r3) (auto simp: at_rest_inv_def bus_inv_phase)
qed

lemma drain_rest: "at_rest_inv s \<Longrightarrow> drain fuel env n s = Some (s', r) \<Longrightarrow> at_rest_inv s'"
  by (induction fuel env n s rule: drain.induct)
     (auto split: prod.splits sum.splits option.splits dest: dispatch_one_rest)

lemma publish_from_rest: "at_rest_inv s \<Longrightarrow> publish_from i s es = (s', r) \<Longrightarrow> at_rest_inv s'"
proof (induction es arbitrary: s i)
  case (Cons e es)
  show ?case
  proof (cases "enqueue s e")
    case (Inr p)
    then obtain rc s1 where 1: "enqueue s e = Inr (rc, s1)" by (cases p) auto
    have "b_dispatching s1 = b_dispatching s" using 1 by (cases rule: enqueue_cases) simp_all
    with enqueue_inv [OF _ 1] Cons.prems(1) have "at_rest_inv s1" by (simp add: at_rest_inv_def)
    with Cons 1 show ?thesis by simp
  qed (use Cons in simp)
qed simp

lemma require_scopes_ok [result_simps]:
  "require_scopes s es = Inr () \<longleftrightarrow> (\<forall>e \<in> set es. in_scope (b_config s) e)"
  by (induction es) (auto simp: result_simps require_scope_def)

lemma publish_many_atomic_ok:
  "publish_many_atomic s es = Inr (n, s') \<longleftrightarrow>
     b_phase s = BusRunning \<and> cf_policy (b_config s) \<noteq> DropLowPriority
     \<and> (\<forall>e \<in> set es. in_scope (b_config s) e)
     \<and> length es \<le> cf_capacity (b_config s) - length (b_queue s)
     \<and> n = length es \<and> s' = s\<lparr>b_queue := b_queue s @ es\<rparr>"
  by (auto simp: publish_many_atomic_def result_simps require_running_def)

lemma publish_many_atomic_rest:
  "at_rest_inv s \<Longrightarrow> publish_many_atomic s es = Inr (n, s') \<Longrightarrow> at_rest_inv s'"
  unfolding publish_many_atomic_ok by (auto simp: at_rest_inv_def bus_inv_def)

lemma bus_close_rest:
  assumes "at_rest_inv s" "bus_close fuel env s = Some (s', r)"
  shows "at_rest_inv s'"
proof -
  let ?s0 = "if b_phase s = BusRunning then s\<lparr>b_phase := BusClosing\<rparr> else s"
  have rest0: "at_rest_inv ?s0" using assms(1) by (simp add: at_rest_inv_def bus_inv_phase)
  show ?thesis
  proof (cases "b_phase s = BusFailed")
    case False
    with assms obtain s1 r1 where d: "drain fuel env 0 ?s0 = Some (s1, r1)"
      by (auto simp: bus_close_def at_rest_inv_def Let_def split: option.splits)
    note rest1 = drain_rest [OF rest0 d]
    obtain s2 r2 where f: "finish_closing env s1 = (s2, r2)" by (cases "finish_closing env s1")
    then have "at_rest_inv s2"
      using rest1 finish_closing_inv [of s1 env] finish_closing_frame [of env s1] by (simp add: at_rest_inv_def)
    moreover have "s' = s1 \<or> s' = s2"
      using assms False d f by (auto simp: bus_close_def Let_def at_rest_inv_def split: sum.splits)
    ultimately show ?thesis using rest1 by auto
  qed (use assms in \<open>auto simp: bus_close_def at_rest_inv_def\<close>)
qed

lemma bus_drop_rest: "at_rest_inv s \<Longrightarrow> at_rest_inv (bus_drop s)"
  by (auto simp: at_rest_inv_def bus_inv_def bus_drop_def handlers_ok_def diagnostics_ok_def)

section \<open>The bus as a transition system\<close>

inductive bus_init :: "('b, 'cb) bus \<Rightarrow> bool" where
  "bus_new config = Inr s \<Longrightarrow> bus_init s"

inductive bus_step :: "('b, 'cb) handler_env \<Rightarrow> ('b, 'cb) bus \<Rightarrow> ('b, 'cb) bus \<Rightarrow> bool" for env where
  bstep_action: "bus_step env s (perform s a)"
| bstep_many: "publish_many s es = (s', r) \<Longrightarrow> bus_step env s s'"
| bstep_atomic: "publish_many_atomic s es = Inr (n, s') \<Longrightarrow> bus_step env s s'"
| bstep_dispatch: "dispatch_one env s = (s', r) \<Longrightarrow> bus_step env s s'"
| bstep_drain: "drain fuel env 0 s = Some (s', r) \<Longrightarrow> bus_step env s s'"
| bstep_close: "bus_close fuel env s = Some (s', r) \<Longrightarrow> bus_step env s s'"
| bstep_drop: "bus_step env s (bus_drop s)"

inductive_cases bus_initE: "bus_init s"
inductive_cases bus_stepE: "bus_step env s s'"

lemma perform_rest: "at_rest_inv s \<Longrightarrow> at_rest_inv (perform s a)"
  by (simp add: at_rest_inv_def perform_inv perform_frame)

lemma bus_init_rest: "bus_new config = Inr s \<Longrightarrow> at_rest_inv s"
  by (simp add: at_rest_inv_def bus_inv_new)

interpretation ebus: invariant_system bus_init "bus_step env" at_rest_inv for env
  by unfold_locales
     (auto elim!: bus_initE bus_stepE dest: bus_inv_new simp: publish_many_def
        intro: bus_init_rest perform_rest publish_from_rest publish_many_atomic_rest
          dispatch_one_rest drain_rest bus_close_rest bus_drop_rest)

section \<open>Observers\<close>

definition before :: "subscription \<Rightarrow> subscription \<Rightarrow> bool" where
  "before a b = (sub_priority b < sub_priority a
                 \<or> sub_priority a = sub_priority b \<and> sub_sequence a < sub_sequence b)"

lemma dispatch_order_less: "dispatch_order g < dispatch_order h \<longleftrightarrow> before (rg_subscription g) (rg_subscription h)"
proof -
  have r: "priority_rank p \<le> 3" for p by (cases p) simp_all
  show ?thesis
    using r [of "sub_priority (rg_subscription g)"] r [of "sub_priority (rg_subscription h)"]
    by (auto simp: dispatch_order_def before_def less_prod_def less_event_priority_def
          simp flip: priority_rank_inj)
qed

lemma observers_set:
  "bt_ok (b_handlers s) \<Longrightarrow>
   set (observers s e) = {g. (\<exists>i. map_of (b_handlers s) i = Some g) \<and> sub_event_type (rg_subscription g) = e_type e}"
  by (auto simp: observers_def bt_values_iff)

lemma observers_sorted:
  assumes "handlers_ok s"
  shows "sorted_wrt before (map rg_subscription (observers s e))"
proof -
  have bt: "bt_ok (b_handlers s)" using assms by (simp add: handlers_ok_def)
  have "inj_on (sub_sequence \<circ> rg_subscription) (set (bt_values (b_handlers s)))"
  proof (rule inj_onI)
    fix g h
    assume gh: "g \<in> set (bt_values (b_handlers s))" "h \<in> set (bt_values (b_handlers s))"
      "(sub_sequence \<circ> rg_subscription) g = (sub_sequence \<circ> rg_subscription) h"
    then obtain i j where "map_of (b_handlers s) i = Some g" "map_of (b_handlers s) j = Some h"
      using bt_values_iff [OF bt] by blast
    with assms gh(3) show "g = h" unfolding handlers_ok_def comp_def by (metis option.inject)
  qed
  moreover have "distinct (bt_values (b_handlers s))"
    using bt assms bt_ok_distinct [OF bt] bt_member_iff [OF bt]
    unfolding bt_values_def handlers_ok_def
    by (intro distinct_map [THEN iffD2] conjI inj_onI) (force simp: distinct_map)+
  ultimately have "distinct (map dispatch_order (observers s e))"
    by (auto simp: distinct_map observers_def dispatch_order_def inj_on_def)
  then have "sorted_wrt (<) (map dispatch_order (observers s e))"
    by (simp add: strict_sorted_iff observers_def)
  then show ?thesis by (simp add: sorted_wrt_map dispatch_order_less)
qed

section \<open>Closing\<close>

definition publishes :: "('b, 'cb) bus_action \<Rightarrow> bool" where
  "publishes a = (case a of ActPublish _ \<Rightarrow> True | _ \<Rightarrow> False)"

definition calm :: "('b, 'cb) handler_env \<Rightarrow> bool" where
  "calm env = (\<forall>cb. env_dispose env cb = None
                 \<and> (\<forall>e s. list_all (\<lambda>a. \<not> publishes a) (fst (env_call env cb e s))))"

lemma calm_perform:
  "\<not> publishes a \<Longrightarrow> b_phase s = BusClosing \<Longrightarrow>
   b_phase (perform s a) = BusClosing \<and> b_queue (perform s a) = b_queue s \<and> b_diagnostics (perform s a) = b_diagnostics s"
  by (cases a) (auto simp: publishes_def unsubscribe_def request_close_def dest!: subscribe_cases split: sum.split)

lemma calm_performs:
  "list_all (\<lambda>a. \<not> publishes a) as \<Longrightarrow> b_phase s = BusClosing \<Longrightarrow>
   b_phase (foldl perform s as) = BusClosing \<and> b_queue (foldl perform s as) = b_queue s
   \<and> b_diagnostics (foldl perform s as) = b_diagnostics s"
  by (induction as arbitrary: s) (simp_all add: calm_perform)

lemma calm_run_handler:
  assumes "calm env" "b_phase s = BusClosing" "run_handler env e g s = (r, s')"
  shows "b_phase s' = BusClosing \<and> b_queue s' = b_queue s \<and> b_diagnostics s' = b_diagnostics s"
proof -
  obtain as fin cb where c: "env_call env (rg_handler g) e s = (as, fin, cb)"
    by (cases "env_call env (rg_handler g) e s")
  with assms(1) have "list_all (\<lambda>a. \<not> publishes a) as" unfolding calm_def by (metis fst_conv)
  from calm_performs [OF this assms(2)] c assms(3) show ?thesis
    by (auto simp: run_handler_def Let_def)
qed

lemma calm_run_handlers:
  "calm env \<Longrightarrow> b_phase s = BusClosing \<Longrightarrow> run_handlers env e gs s = (rs, s') \<Longrightarrow>
   b_phase s' = BusClosing \<and> b_queue s' = b_queue s \<and> b_diagnostics s' = b_diagnostics s"
proof (induction gs arbitrary: s rs)
  case (Cons g gs)
  obtain r s1 where 1: "run_handler env e g s = (r, s1)" by (cases "run_handler env e g s")
  obtain rs2 s2 where 2: "run_handlers env e gs s1 = (rs2, s2)" by (cases "run_handlers env e gs s1")
  note k = calm_run_handler [OF Cons.prems(1,2) 1]
  from Cons.prems(3) 1 2 have "s' = s2" by simp
  with k Cons.IH [OF Cons.prems(1) _ 2 [folded \<open>s' = s2\<close>]] show ?case by simp
qed simp

lemma retained_push_total [simp]: "rt_total (retained_push r v) = Suc (rt_total r)"
  by (simp add: retained_push_def Let_def)

lemma calm_finish: "calm env \<Longrightarrow> snd (finish_closing env s) = Inr ()"
  by (simp add: finish_closing_def calm_def list_ex_iff)

definition dispatch_total :: "('b, 'cb) bus \<Rightarrow> nat" where
  "dispatch_total s = rt_total (dg_dispatches (b_diagnostics s))"

lemma calm_dispatch:
  assumes "calm env" "\<not> b_dispatching s" "b_phase s = BusClosing" "b_queue s = e # queue"
  shows "\<exists>s' rep. dispatch_one env s = (s', Inr (Some rep)) \<and> \<not> b_dispatching s' \<and> b_queue s' = queue
    \<and> b_phase s' = (if queue = [] then BusClosed else BusClosing) \<and> dispatch_total s' = Suc (dispatch_total s)
    \<and> (queue = [] \<longrightarrow> b_handlers s' = [])"
proof -
  let ?m = "recorded e (dispatched env s e queue)"
  have "b_phase (snd (dispatched env s e queue)) = BusClosing \<and> b_queue (snd (dispatched env s e queue)) = queue
      \<and> b_diagnostics (snd (dispatched env s e queue)) = b_diagnostics s"
    using calm_run_handlers [OF assms(1), of "s\<lparr>b_queue := queue, b_dispatching := True\<rparr>" e "observers s e"] assms(3)
    by (cases "dispatched env s e queue") (simp add: dispatched_def)
  then have m: "b_phase ?m = BusClosing" "b_queue ?m = queue" "\<not> b_dispatching ?m"
    "dispatch_total ?m = Suc (dispatch_total s)"
    by (simp_all add: recorded_def dispatch_total_def diagnostics_dispatch_def)
  moreover obtain s3 where "finish_closing env ?m = (s3, Inr ())"
    using calm_finish [OF assms(1), of ?m] by (cases "finish_closing env ?m") auto
  ultimately show ?thesis
    using dispatch_one_Cons [OF assms(2) _ assms(4), of env] assms(3)
    by (auto simp: finish_closing_def dispatch_total_def split: if_splits)
qed

lemma calm_drain:
  assumes "calm env"
  shows "\<not> b_dispatching s \<Longrightarrow> b_phase s = BusClosing \<Longrightarrow> length (b_queue s) < fuel \<Longrightarrow>
    \<exists>s'. drain fuel env n s = Some (s', Inr (n + length (b_queue s))) \<and> \<not> b_dispatching s' \<and> b_queue s' = []
      \<and> (b_phase s' = BusClosing \<or> b_phase s' = BusClosed \<and> b_handlers s' = [])
      \<and> dispatch_total s' = dispatch_total s + length (b_queue s)"
proof (induction "b_queue s" arbitrary: s fuel n)
  case Nil
  then show ?case by (cases fuel) (auto simp: dispatch_one_def split: list.split)
next
  case (Cons e queue)
  from calm_dispatch [OF assms Cons.prems(1,2) Cons.hyps(2) [symmetric]] obtain s1 rep where
    1: "dispatch_one env s = (s1, Inr (Some rep))" "\<not> b_dispatching s1" "b_queue s1 = queue"
       "b_phase s1 = (if queue = [] then BusClosed else BusClosing)" "dispatch_total s1 = Suc (dispatch_total s)"
       "queue = [] \<longrightarrow> b_handlers s1 = []" by blast
  from Cons.prems(3) Cons.hyps(2) [symmetric] obtain f where f: "fuel = Suc f" "length queue < f"
    by (cases fuel) auto
  show ?case
  proof (cases "queue = []")
    case True
    with 1 f Cons.hyps(2) [symmetric] show ?thesis
      by (cases f) (auto simp: dispatch_one_def)
  next
    case False
    with Cons.hyps(1) [OF 1(3) [symmetric] 1(2), of f "n + 1"] 1 f Cons.hyps(2) [symmetric] show ?thesis
      by simp
  qed
qed

section \<open>Sequential publication\<close>

lemma enqueue_append:
  "b_phase s = BusRunning \<Longrightarrow> cf_policy (b_config s) \<noteq> DropLowPriority \<Longrightarrow>
   enqueue s e =
     (if \<not> in_scope (b_config s) e then Inl EvScope
      else if length (b_queue s) = cf_capacity (b_config s) then Inl (capacity_error s)
      else Inr (\<lparr>rc_accepted = e, rc_replaced = None\<rparr>, s\<lparr>b_queue := b_queue s @ [e]\<rparr>))"
  by (simp add: enqueue_def require_running_def require_scope_def)

lemma publish_from_ok:
  "b_phase s = BusRunning \<Longrightarrow> cf_policy (b_config s) \<noteq> DropLowPriority \<Longrightarrow>
   length (b_queue s) \<le> cf_capacity (b_config s) \<Longrightarrow>
   (\<exists>n. publish_from i s es = (s', Inr n)) \<longleftrightarrow>
     (\<forall>e \<in> set es. in_scope (b_config s) e) \<and> length (b_queue s) + length es \<le> cf_capacity (b_config s)
     \<and> s' = s\<lparr>b_queue := b_queue s @ es\<rparr>"
proof (induction es arbitrary: s i)
  case (Cons e es)
  show ?case
  proof (cases "in_scope (b_config s) e \<and> length (b_queue s) \<noteq> cf_capacity (b_config s)")
    case True
    then have q: "length (b_queue (s\<lparr>b_queue := b_queue s @ [e]\<rparr>)) \<le> cf_capacity (b_config s)"
      using Cons.prems by simp
    show ?thesis
      using Cons.IH [of "s\<lparr>b_queue := b_queue s @ [e]\<rparr>" "Suc i"] Cons.prems True q
      by (simp add: enqueue_append)
  qed (use Cons.prems in \<open>auto simp: enqueue_append\<close>)
qed auto

section \<open>Properties\<close>

definition demo_config :: bus_config where
  "demo_config = \<lparr>cf_capacity = 2, cf_diagnostic_capacity = 1, cf_scope = None, cf_policy = DropLowPriority\<rparr>"

definition demo_event :: "nat \<Rightarrow> event_priority \<Rightarrow> unit event" where
  "demo_event n p = \<lparr>e_id = [n], e_type = [70], e_source = [83],
     e_scope = \<lparr>sc_engine = [69], sc_runtime = Some [82], sc_cluster = None\<rparr>,
     e_timestamp = 0, e_init_timestamp = 0, e_sequence = n, e_correlation_id = None, e_causation_id = None,
     e_priority = p, e_payload = PayScalar JNull, e_metadata = []\<rparr>"

definition demo_env :: "(unit, nat) handler_env" where
  "demo_env = \<lparr>env_call = (\<lambda>cb e s. ([], if cb = 0 then CallPanic [33] else CallOk, cb)),
     env_dispose = (\<lambda>_. None), env_error_text = (\<lambda>_. []), env_drop_text = (\<lambda>_ m. m)\<rparr>"

definition demo_bus :: "bus_config \<Rightarrow> (unit, nat) bus_action list \<Rightarrow> (unit, nat) bus" where
  "demo_bus config as = foldl perform (case bus_new config of Inr s \<Rightarrow> s) as"

definition demo_full :: "(unit, nat) bus" where
  "demo_full = demo_bus demo_config
     [ActSubscribe [1] [70] [104] Normal 0, ActSubscribe [2] [70] [104] High 1,
      ActPublish (demo_event 1 Normal), ActPublish (demo_event 2 Low)]"

lemma demo_bus_reachable:
  "0 < cf_capacity config \<Longrightarrow> 0 < cf_diagnostic_capacity config \<Longrightarrow>
   reachable bus_init (bus_step env) (demo_bus config as)"
proof (induction as rule: rev_induct)
  case Nil
  then have "bus_init (demo_bus config [])"
    by (intro bus_init.intros [of config]) (simp add: demo_bus_def bus_new_def)
  then show ?case by (rule reach_init)
next
  case (snoc a as)
  then have "reachable bus_init (bus_step env) (demo_bus config as)" by simp
  moreover have "bus_step env (demo_bus config as) (demo_bus config (as @ [a]))"
    using bstep_action [of env "demo_bus config as" a] by (simp add: demo_bus_def)
  ultimately show ?case by (rule reach_step)
qed

lemma demo_full_reachable: "reachable bus_init (bus_step env) demo_full"
  unfolding demo_full_def by (rule demo_bus_reachable) (simp_all add: demo_config_def)

lemma trim_h: "trim_matches unicode_white_space [104] = [104]"
  by (simp add: trim_matches_def unicode_white_space_def)

lemma demo_full_state:
  "b_queue demo_full = [demo_event 1 Normal, demo_event 2 Low]" "b_phase demo_full = BusRunning"
  "b_config demo_full = demo_config" "\<not> b_dispatching demo_full"
  by (simp_all add: demo_full_def demo_bus_def bus_new_def demo_config_def subscribe_def enqueue_def
      require_running_def require_scope_def in_scope_def trim_h Let_def)

text \<open>
  C28: in every reachable state of the event bus, whatever the handlers did, the queue is
  within its capacity and scope, live subscriptions are keyed by their identifier with
  distinct registration numbers, every identifier ever used stays used, each diagnostic log
  counts exactly what it retains plus what it evicted within its capacity, and a closed bus
  holds neither events nor handlers.
\<close>

theorem bus_reachable_consistent:
  assumes "reachable bus_init (bus_step env) s"
  shows "length (b_queue s) \<le> cf_capacity (b_config s) \<and> (\<forall>e \<in> set (b_queue s). in_scope (b_config s) e)
    \<and> (\<forall>i g. map_of (b_handlers s) i = Some g \<longrightarrow> sub_id (rg_subscription g) = i \<and> i \<in> set (b_used_ids s)
          \<and> sub_sequence (rg_subscription g) \<in> {1..b_sequence s})
    \<and> inj_on (\<lambda>i. sub_sequence (rg_subscription (the (map_of (b_handlers s) i)))) (dom (map_of (b_handlers s)))
    \<and> card (set (b_used_ids s)) = b_sequence s
    \<and> diagnostics_ok (cf_diagnostic_capacity (b_config s)) (b_diagnostics s)
    \<and> \<not> b_dispatching s \<and> (b_phase s = BusClosed \<longrightarrow> b_queue s = [] \<and> b_handlers s = [])"
proof -
  have "at_rest_inv s" using assms by (rule ebus.reachable_inv)
  then have inv: "bus_inv s" "\<not> b_dispatching s" by (simp_all add: at_rest_inv_def)
  then have h: "handlers_ok s" by (simp add: bus_inv_def)
  then have "inj_on (\<lambda>i. sub_sequence (rg_subscription (the (map_of (b_handlers s) i)))) (dom (map_of (b_handlers s)))"
    by (auto simp: inj_on_def handlers_ok_def)
  moreover have "sub_sequence (rg_subscription g) \<in> {1..b_sequence s}"
    "sub_id (rg_subscription g) = i" "i \<in> set (b_used_ids s)" if "map_of (b_handlers s) i = Some g" for i g
    using h that by (auto simp: handlers_ok_def Suc_le_eq)
  ultimately show ?thesis using inv by (simp add: bus_inv_def)
qed

theorem bus_reachable_consistent_witness:
  "length (b_queue demo_full) \<le> 2"
  using bus_reachable_consistent [OF demo_full_reachable] by (simp add: demo_full_state demo_config_def)

text \<open>
  C29: publishing to a full queue under the replacement policy removes the oldest event of
  the lowest priority, provided that priority is below the new event's, keeps the order of
  the others and appends the new event; if no queued event has a lower priority the event
  is refused for capacity.
\<close>

theorem enqueue_replaces_lowest_oldest:
  assumes "b_phase s = BusRunning" "in_scope (b_config s) e"
    "length (b_queue s) = cf_capacity (b_config s)" "cf_policy (b_config s) = DropLowPriority"
  shows "(case enqueue s e of
      Inl err \<Rightarrow> err = EvCapacity \<and> (\<forall>old \<in> set (b_queue s). e_priority e \<le> e_priority old)
    | Inr (rc, s') \<Rightarrow> \<exists>xs old ys. b_queue s = xs @ old # ys \<and> b_queue s' = xs @ ys @ [e]
        \<and> rc_replaced rc = Some old \<and> e_priority old < e_priority e
        \<and> (\<forall>x \<in> set xs. e_priority old < e_priority x) \<and> (\<forall>y \<in> set ys. e_priority old \<le> e_priority y))"
proof (cases "victim_index (b_queue s) e")
  case None
  then show ?thesis
    using assms victim_index_None [of "b_queue s" e]
    by (simp add: enqueue_def require_running_def require_scope_def capacity_error_def)
next
  case (Some i)
  note v = victim_index_Some [OF Some]
  define xs ys where "xs = take i (b_queue s)" and "ys = drop (Suc i) (b_queue s)"
  have q: "b_queue s = xs @ (b_queue s ! i) # ys" using v by (simp add: xs_def ys_def id_take_nth_drop)
  have "\<forall>x \<in> set xs. e_priority (b_queue s ! i) < e_priority x"
    using v by (auto simp: xs_def in_set_conv_nth)
  moreover have "\<forall>y \<in> set ys. e_priority (b_queue s ! i) \<le> e_priority y"
    using v by (auto simp: ys_def in_set_conv_nth)
  moreover have "enqueue s e = Inr (\<lparr>rc_accepted = e, rc_replaced = Some (b_queue s ! i)\<rparr>,
      s\<lparr>b_queue := xs @ ys @ [e], b_diagnostics := diagnostics_replacement (b_diagnostics s)
          \<lparr>rc_accepted = e, rc_replaced = Some (b_queue s ! i)\<rparr>\<rparr>)"
    using assms Some
    by (simp add: enqueue_def require_running_def require_scope_def remove_nth_def xs_def ys_def Let_def)
  ultimately show ?thesis using v q by auto
qed

theorem enqueue_replaces_lowest_oldest_witness:
  "\<exists>rc s'. enqueue demo_full (demo_event 3 High) = Inr (rc, s') \<and> rc_replaced rc = Some (demo_event 2 Low)"
proof -
  have "victim_index (b_queue demo_full) (demo_event 3 High) = Some 1"
    by (simp add: demo_full_state victim_index_def victims_def min_key_def demo_event_def
        less_event_priority_def less_eq_event_priority_def min_def less_eq_prod_def)
  then obtain rc s' where r: "enqueue demo_full (demo_event 3 High) = Inr (rc, s')"
    by (simp add: enqueue_def require_running_def require_scope_def in_scope_def demo_full_state demo_config_def Let_def)
  with enqueue_replaces_lowest_oldest [of demo_full "demo_event 3 High"] obtain xs old ys where
    "[demo_event 1 Normal, demo_event 2 Low] = xs @ old # ys" "rc_replaced rc = Some old"
    "\<forall>y \<in> set ys. e_priority old \<le> e_priority y"
    by (auto simp: demo_full_state demo_config_def in_scope_def)
  with r show ?thesis
    by (cases xs) (auto simp: Cons_eq_append_conv demo_event_def less_eq_event_priority_def)
qed

text \<open>
  C30: dispatching the head of the queue runs every handler subscribed to its type exactly
  once, in descending priority and, within a priority, in registration order, and reports
  one outcome per handler, whichever of them succeed, fail, panic, unsubscribe others or
  request the close of the bus.
\<close>

theorem dispatch_runs_observers_in_order:
  assumes "reachable bus_init (bus_step env) s" "b_phase s \<noteq> BusFailed" "b_queue s = e # queue"
  shows "(case dispatch_one env s of
      (s', Inl err) \<Rightarrow> err = EvUnwind \<and> b_phase s' = BusFailed
    | (s', Inr None) \<Rightarrow> False
    | (s', Inr (Some report)) \<Rightarrow> dr_event report = e
        \<and> sorted_wrt before (map hr_subscription (dr_results report))
        \<and> set (map hr_subscription (dr_results report)) =
            {sub. \<exists>i g. map_of (b_handlers s) i = Some g \<and> sub = rg_subscription g \<and> sub_event_type sub = e_type e})"
proof -
  have "at_rest_inv s" using assms(1) by (rule ebus.reachable_inv)
  then have h: "handlers_ok s" and nd: "\<not> b_dispatching s" by (simp_all add: at_rest_inv_def bus_inv_def)
  then have bt: "bt_ok (b_handlers s)" by (simp add: handlers_ok_def)
  have m: "map hr_subscription (fst (dispatched env s e queue)) = map rg_subscription (observers s e)"
    using run_handlers_keeps [of env e "observers s e" "s\<lparr>b_queue := queue, b_dispatching := True\<rparr>"]
    by (cases "dispatched env s e queue") (simp add: dispatched_def)
  have o: "set (map hr_subscription (fst (dispatched env s e queue))) =
      {sub. \<exists>i g. map_of (b_handlers s) i = Some g \<and> sub = rg_subscription g \<and> sub_event_type sub = e_type e}"
    unfolding m set_map observers_set [OF bt] by blast
  obtain s3 r3 where "finish_closing env (recorded e (dispatched env s e queue)) = (s3, r3)" "r3 = Inr () \<or> r3 = Inl EvUnwind"
    using finish_closing_result by (metis surj_pair snd_conv)
  then show ?thesis
    using dispatch_one_Cons [OF nd assms(2,3), of env] observers_sorted [OF h, of e, folded m] o
    by (elim disjE) simp_all
qed

theorem dispatch_runs_observers_in_order_witness:
  "\<exists>s' report. dispatch_one demo_env demo_full = (s', Inr (Some report))
     \<and> sorted_wrt before (map hr_subscription (dr_results report))"
proof -
  have "snd (finish_closing demo_env s) = Inr ()" for s
    by (rule calm_finish) (simp add: calm_def demo_env_def)
  then have "\<exists>report. snd (dispatch_one demo_env demo_full) = Inr (Some report)"
    using dispatch_one_Cons [of demo_full "demo_event 1 Normal" "[demo_event 2 Low]" demo_env]
    by (auto simp: demo_full_state split: prod.splits sum.splits) (metis snd_conv sum.distinct(1))
  then obtain s' report where "dispatch_one demo_env demo_full = (s', Inr (Some report))"
    by (cases "dispatch_one demo_env demo_full") auto
  with dispatch_runs_observers_in_order [OF demo_full_reachable, of "demo_event 1 Normal" "[demo_event 2 Low]" demo_env]
  show ?thesis by (simp add: demo_full_state)
qed



text \<open>
  C32: if the handlers publish nothing, closing a running bus returns within one dispatch per
  queued event and one more pass: every queued event is dispatched, the queue and the
  handlers are empty and the bus is closed.
\<close>

theorem close_drains_queue:
  assumes "reachable bus_init (bus_step env) s" "b_phase s = BusRunning" "calm env"
    "length (b_queue s) < fuel"
  shows "\<exists>s'. bus_close fuel env s = Some (s', Inr BusClosed) \<and> b_queue s' = [] \<and> b_handlers s' = []
    \<and> b_phase s' = BusClosed \<and> dispatch_total s' = dispatch_total s + length (b_queue s)"
proof -
  have "at_rest_inv s" using assms(1) by (rule ebus.reachable_inv)
  then have nd: "\<not> b_dispatching s" by (simp add: at_rest_inv_def)
  from calm_drain [OF assms(3), of "s\<lparr>b_phase := BusClosing\<rparr>" fuel 0] nd assms(4) obtain s1 where
    1: "drain fuel env 0 (s\<lparr>b_phase := BusClosing\<rparr>) = Some (s1, Inr (length (b_queue s)))" "\<not> b_dispatching s1"
       "b_queue s1 = []" "b_phase s1 = BusClosing \<or> b_phase s1 = BusClosed \<and> b_handlers s1 = []"
       "dispatch_total s1 = dispatch_total s + length (b_queue s)"
    by (auto simp: dispatch_total_def)
  obtain s2 where f: "finish_closing env s1 = (s2, Inr ())"
    using calm_finish [OF assms(3), of s1] by (cases "finish_closing env s1") auto
  then have "b_phase s2 = BusClosed \<and> b_queue s2 = [] \<and> b_handlers s2 = [] \<and> dispatch_total s2 = dispatch_total s1"
    using 1 by (auto simp: finish_closing_def dispatch_total_def split: if_splits)
  with 1 f nd assms(2) show ?thesis by (simp add: bus_close_def)
qed

theorem close_drains_queue_witness:
  "\<exists>s'. bus_close 3 demo_env demo_full = Some (s', Inr BusClosed) \<and> b_queue s' = []"
  using close_drains_queue [OF demo_full_reachable, of demo_env 3]
  by (auto simp: demo_full_state calm_def demo_env_def)

text \<open>
  a diagnostic log of positive capacity is the window on the last entries pushed to it:
  it retains the newest ones in order, and counts all pushed and all evicted entries.
\<close>

theorem retained_is_window:
  assumes "0 < cap"
  shows "foldl retained_push (retained_new cap) xs =
    \<lparr>rt_capacity = cap, rt_values = drop (length xs - cap) xs, rt_total = length xs, rt_evicted = length xs - cap\<rparr>"
proof -
  have "foldl retained_push (retained_new cap) xs = window cap xs"
  proof (induction xs rule: rev_induct)
    case Nil
    then show ?case by (simp add: retained_new_def window_def)
  qed (simp add: retained_push_window [OF assms])
  then show ?thesis by (simp add: window_def)
qed

theorem retained_is_window_witness:
  "rt_values (foldl retained_push (retained_new 2) [1 :: nat, 2, 3]) = [2, 3]"
  using retained_is_window [of 2 "[1 :: nat, 2, 3]"] by simp

end
