(* ===== verification/Operators.thy ===== *)
theory Operators
  imports Prelude
begin

text \<open>
  The market-independent operators of \<open>crates/operators/src/lib.rs\<close>: rounding of a ratio to
  the nearest even integer, the rolling mean, the linear weighted mean and the fractional
  change. \<open>BigInt\<close> is \<^typ>\<open>int\<close>; an \<open>i128\<close> is an \<^typ>\<open>int\<close> whose conversion from \<open>BigInt\<close>
  is checked by \<open>to_i128\<close>; a panic (\<open>assert!\<close>, \<open>expect\<close>) is \<^const>\<open>None\<close>. The locale
  \<open>rolling_window\<close> states what every bounded window with an incrementally maintained sum
  promises; the means here and the windows of the indicators interpret it.
\<close>

section \<open>Operations\<close>

definition fits_i128 :: "int \<Rightarrow> bool" where
  "fits_i128 i = (- (2 ^ 127) \<le> i \<and> i < 2 ^ 127)"

definition to_i128 :: "int \<Rightarrow> int option" where
  "to_i128 i = (if fits_i128 i then Some i else None)"

definition round_ratio :: "int \<Rightarrow> int \<Rightarrow> int option" where
  "round_ratio num weight =
     (if \<not> weight > 0 then None
      else
        let mean = num div weight; remainder = num mod weight; twice = 2 * remainder
        in Some (if twice > weight \<or> twice = weight \<and> odd mean then mean + 1 else mean))"

definition rounded_mean :: "int \<Rightarrow> int \<Rightarrow> int option" where
  "rounded_mean num weight = Option.bind (round_ratio num weight) to_i128"

record rolling_mean =
  rm_period :: nat
  rm_window :: "int list"
  rm_sum :: int

definition rolling_mean_new :: "nat \<Rightarrow> rolling_mean" where
  "rolling_mean_new period = \<lparr>rm_period = period, rm_window = [], rm_sum = 0\<rparr>"

definition rm_is_full :: "rolling_mean \<Rightarrow> bool" where
  "rm_is_full m = (length (rm_window m) = rm_period m)"

definition rm_advance :: "rolling_mean \<Rightarrow> int \<Rightarrow> rolling_mean" where
  "rm_advance m v =
     (let m1 = (if rm_is_full m
                then m\<lparr>rm_window := tl (rm_window m), rm_sum := rm_sum m - hd (rm_window m)\<rparr> else m)
      in m1\<lparr>rm_window := rm_window m1 @ [v], rm_sum := rm_sum m1 + v\<rparr>)"

definition rolling_mean_push :: "rolling_mean \<Rightarrow> int \<Rightarrow> (int \<times> rolling_mean) option" where
  "rolling_mean_push m v =
     (let m1 = rm_advance m v
      in map_option (\<lambda>r. (r, m1)) (rounded_mean (rm_sum m1) (int (length (rm_window m1)))))"

record weighted_mean =
  wm_period :: nat
  wm_window :: "int list"
  wm_sum :: int
  wm_weighted_sum :: int

definition weighted_mean_new :: "nat \<Rightarrow> weighted_mean" where
  "weighted_mean_new period = \<lparr>wm_period = period, wm_window = [], wm_sum = 0, wm_weighted_sum = 0\<rparr>"

definition wm_advance :: "weighted_mean \<Rightarrow> int \<Rightarrow> weighted_mean" where
  "wm_advance m v =
     (let m1 = (if length (wm_window m) = wm_period m
                then m\<lparr>wm_weighted_sum := wm_weighted_sum m - wm_sum m,
                       wm_sum := wm_sum m - hd (wm_window m), wm_window := tl (wm_window m)\<rparr> else m);
          m2 = m1\<lparr>wm_window := wm_window m1 @ [v], wm_sum := wm_sum m1 + v\<rparr>
      in m2\<lparr>wm_weighted_sum := wm_weighted_sum m2 + int (length (wm_window m2)) * v\<rparr>)"

definition weighted_mean_push :: "weighted_mean \<Rightarrow> int \<Rightarrow> (int option \<times> weighted_mean) option" where
  "weighted_mean_push m v =
     (let m1 = wm_advance m v; count = int (length (wm_window m1))
      in if length (wm_window m1) \<noteq> wm_period m1 then Some (None, m1)
         else map_option (\<lambda>r. (Some r, m1)) (rounded_mean (wm_weighted_sum m1) (count * (count + 1) div 2)))"

definition fractional_change :: "int \<Rightarrow> int \<Rightarrow> int \<Rightarrow> int option" where
  "fractional_change current reference quantum =
     Option.bind (round_ratio ((current - reference) * quantum * sgn reference) \<bar>reference\<bar>) to_i128"

section \<open>Rounding to the nearest even integer\<close>

text \<open>
  The specification of \<open>round_ratio\<close>: twice the distance to the exact ratio is at most one,
  and a tie goes to the even neighbour.
\<close>

definition nearest_even :: "int \<Rightarrow> int \<Rightarrow> int \<Rightarrow> bool" where
  "nearest_even num den r =
     (\<bar>2 * (r * den - num)\<bar> \<le> den \<and> (\<bar>2 * (r * den - num)\<bar> = den \<longrightarrow> even r))"

lemma round_ratio_nearest_even:
  assumes "0 < den"
  shows "\<exists>r. round_ratio num den = Some r \<and> nearest_even num den r"
proof -
  define q m where "q = num div den" and "m = num mod den"
  have num: "num = q * den + m" by (simp add: q_def m_def)
  have m: "0 \<le> m" "m < den" using assms by (simp_all add: m_def)
  define r where "r = (if 2 * m > den \<or> 2 * m = den \<and> odd q then q + 1 else q)"
  have "r * den - num = (if 2 * m > den \<or> 2 * m = den \<and> odd q then den - m else - m)"
    by (simp add: r_def num algebra_simps)
  moreover have "round_ratio num den = Some r"
    using assms by (simp add: round_ratio_def Let_def r_def q_def m_def)
  ultimately show ?thesis using m by (auto simp: nearest_even_def r_def)
qed

lemma nearest_even_unique:
  assumes "0 < den" "nearest_even num den r" "nearest_even num den s"
  shows "r = s"
proof -
  have "\<bar>2 * (r * den - num)\<bar> \<le> den" "\<bar>2 * (s * den - num)\<bar> \<le> den"
    using assms(2,3) by (simp_all add: nearest_even_def)
  then have "\<bar>2 * ((r - s) * den)\<bar> \<le> 2 * den" by (simp add: algebra_simps abs_le_iff)
  then have "\<bar>r - s\<bar> * den \<le> 1 * den" using assms(1) by (simp add: abs_mult)
  then have d: "\<bar>r - s\<bar> \<le> 1" using assms(1) mult_le_cancel_right_pos by blast
  show ?thesis
  proof (rule ccontr)
    assume "r \<noteq> s"
    with d have "r = s + 1 \<or> s = r + 1" by linarith
    then have "\<bar>2 * (r * den - num)\<bar> = den" "\<bar>2 * (s * den - num)\<bar> = den"
      using assms by (auto simp: nearest_even_def algebra_simps)
    then have "even r" "even s" using assms by (simp_all add: nearest_even_def)
    with \<open>r = s + 1 \<or> s = r + 1\<close> show False by auto
  qed
qed

lemma round_ratio_iff: "0 < den \<Longrightarrow> round_ratio num den = Some r \<longleftrightarrow> nearest_even num den r"
  using round_ratio_nearest_even nearest_even_unique by (metis option.inject)

text \<open>A ratio between two integers rounds to a value between them.\<close>

lemma nearest_even_lower:
  assumes "0 < den" "nearest_even num den r" "lo * den \<le> num"
  shows "lo \<le> r"
proof -
  have "\<bar>2 * (r * den - num)\<bar> \<le> den" using assms(2) by (simp add: nearest_even_def)
  then have "(2 * lo - 1) * den \<le> 2 * r * den" using assms(3) by (simp add: algebra_simps abs_le_iff)
  then have "2 * lo - 1 \<le> 2 * r" using assms(1) mult_le_cancel_right_pos by blast
  then show ?thesis by linarith
qed

lemma nearest_even_upper:
  assumes "0 < den" "nearest_even num den r" "num \<le> hi * den"
  shows "r \<le> hi"
proof -
  have "\<bar>2 * (r * den - num)\<bar> \<le> den" using assms(2) by (simp add: nearest_even_def)
  then have "2 * r * den \<le> (2 * hi + 1) * den" using assms(3) by (simp add: algebra_simps abs_le_iff)
  then have "2 * r \<le> 2 * hi + 1" using assms(1) mult_le_cancel_right_pos by blast
  then show ?thesis by linarith
qed

lemma round_ratio_bounds:
  "0 < den \<Longrightarrow> lo * den \<le> num \<Longrightarrow> num \<le> hi * den \<Longrightarrow>
   \<exists>r. round_ratio num den = Some r \<and> lo \<le> r \<and> r \<le> hi"
  using round_ratio_nearest_even nearest_even_lower nearest_even_upper by metis

lemma round_ratio_exact: "0 < den \<Longrightarrow> round_ratio (r * den) den = Some r"
  by (simp add: round_ratio_iff nearest_even_def)

lemma round_ratio_mono:
  assumes "0 < den" "a \<le> b" "round_ratio a den = Some r" "round_ratio b den = Some s"
  shows "r \<le> s"
proof (rule ccontr)
  assume "\<not> r \<le> s"
  then have rs: "s + 1 \<le> r" by simp
  have ra: "\<bar>2 * (r * den - a)\<bar> \<le> den" "\<bar>2 * (r * den - a)\<bar> = den \<longrightarrow> even r"
    and sb: "\<bar>2 * (s * den - b)\<bar> \<le> den" "\<bar>2 * (s * den - b)\<bar> = den \<longrightarrow> even s"
    using assms by (simp_all add: round_ratio_iff nearest_even_def)
  have "(s + 1) * den \<le> r * den" using rs assms(1) by (intro mult_right_mono) simp_all
  moreover have "2 * (r * den) \<le> 2 * a + den" "2 * b \<le> 2 * (s * den) + den" using ra sb by (simp_all add: abs_le_iff)
  ultimately have e: "r * den = (s + 1) * den" "a = b" "2 * (r * den) = 2 * a + den" "2 * b = 2 * (s * den) + den"
    using assms(2) by (simp_all add: algebra_simps)
  then have "even r" "even s" using ra(2) sb(2) assms(1) by auto
  moreover have "r = s + 1" using e(1) assms(1) by simp
  ultimately show False by simp
qed

section \<open>Rolling windows\<close>

definition last_n :: "nat \<Rightarrow> 'a list \<Rightarrow> 'a list" where
  "last_n n xs = drop (length xs - n) xs"

lemma length_last_n [simp]: "length (last_n n xs) = min n (length xs)"
  by (simp add: last_n_def)

lemma set_last_n: "set (last_n n xs) \<subseteq> set xs"
  by (simp add: last_n_def set_drop_subset)

lemma last_n_snoc:
  assumes "0 < n"
  shows "last_n n (xs @ [x]) = (if length (last_n n xs) = n then tl (last_n n xs) else last_n n xs) @ [x]"
proof (cases "length xs < n")
  case False
  then have "Suc (length xs) - n = Suc (length xs - n)" by simp
  with False assms show ?thesis by (simp add: last_n_def tl_drop drop_Suc)
qed (simp add: last_n_def)

locale rolling_window =
  fixes per :: "'s \<Rightarrow> nat" and step :: "'s \<Rightarrow> 'a \<Rightarrow> 's" and win :: "'s \<Rightarrow> 'a list"
    and acc :: "'s \<Rightarrow> int" and weight :: "'a \<Rightarrow> int"
  assumes per_step: "per (step s v) = per s"
    and win_step: "win (step s v) = (if length (win s) = per s then tl (win s) else win s) @ [v]"
    and acc_step: "acc (step s v) = (if length (win s) = per s then acc s - weight (hd (win s)) else acc s) + weight v"
begin

lemma run_window:
  assumes "0 < per s" "win s = []" "acc s = 0"
  shows "per (foldl step s vs) = per s \<and> win (foldl step s vs) = last_n (per s) vs
    \<and> acc (foldl step s vs) = sum_list (map weight (last_n (per s) vs))"
proof (induction vs rule: rev_induct)
  case Nil
  then show ?case using assms by (simp add: last_n_def)
next
  case (snoc v vs)
  let ?w = "last_n (per s) vs"
  have "sum_list (map weight ?w) - weight (hd ?w) = sum_list (map weight (tl ?w))" if "length ?w = per s"
    using that assms(1) by (cases ?w) auto
  then show ?case
    using snoc.IH last_n_snoc [OF assms(1), of vs v]
    by (simp add: per_step win_step acc_step)
qed

end

interpretation mean_window: rolling_window rm_period rm_advance rm_window rm_sum "\<lambda>v. v"
  by unfold_locales (simp_all add: rm_advance_def rm_is_full_def Let_def)

interpretation weighted_window: rolling_window wm_period wm_advance wm_window wm_sum "\<lambda>v. v"
  by unfold_locales (simp_all add: wm_advance_def Let_def)

lemma rolling_mean_run:
  "0 < p \<Longrightarrow> rm_window (foldl rm_advance (rolling_mean_new p) vs) = last_n p vs
     \<and> rm_sum (foldl rm_advance (rolling_mean_new p) vs) = sum_list (last_n p vs)
     \<and> rm_period (foldl rm_advance (rolling_mean_new p) vs) = p"
  using mean_window.run_window [of "rolling_mean_new p" vs] by (simp add: rolling_mean_new_def)

lemma weighted_mean_run:
  "0 < p \<Longrightarrow> wm_window (foldl wm_advance (weighted_mean_new p) vs) = last_n p vs
     \<and> wm_sum (foldl wm_advance (weighted_mean_new p) vs) = sum_list (last_n p vs)
     \<and> wm_period (foldl wm_advance (weighted_mean_new p) vs) = p"
  using weighted_window.run_window [of "weighted_mean_new p" vs] by (simp add: weighted_mean_new_def)

section \<open>Weighted sums and bounds\<close>

definition weighted_total :: "int list \<Rightarrow> int" where
  "weighted_total xs = (\<Sum>i < length xs. int (i + 1) * xs ! i)"

lemma weighted_total_snoc: "weighted_total (xs @ [v]) = weighted_total xs + int (length xs + 1) * v"
  by (simp add: weighted_total_def nth_append)

lemma weighted_total_Cons: "weighted_total (x # xs) = weighted_total xs + sum_list (x # xs)"
  by (simp add: weighted_total_def sum.lessThan_Suc_shift sum_list_sum_nth atLeast0LessThan
      algebra_simps sum.distrib del: sum.lessThan_Suc)

lemma wm_weighted_step:
  "wm_weighted_sum (wm_advance m v) =
     (if length (wm_window m) = wm_period m then wm_weighted_sum m - wm_sum m else wm_weighted_sum m)
     + int (length (wm_window (wm_advance m v))) * v"
  by (simp add: wm_advance_def Let_def)

lemma weighted_run:
  assumes "0 < p"
  shows "wm_weighted_sum (foldl wm_advance (weighted_mean_new p) vs) = weighted_total (last_n p vs)"
proof (induction vs rule: rev_induct)
  case Nil
  then show ?case by (simp add: weighted_mean_new_def weighted_total_def last_n_def)
next
  case (snoc v vs)
  let ?m = "foldl wm_advance (weighted_mean_new p) vs" and ?w = "last_n p vs"
  have run: "wm_period ?m = p" "wm_window ?m = ?w" "wm_sum ?m = sum_list ?w"
    using weighted_mean_run [OF assms] by blast+
  have tl: "weighted_total ?w - sum_list ?w = weighted_total (tl ?w)" if "length ?w = p"
    using that assms by (cases ?w) (auto simp: weighted_total_Cons)
  have w: "wm_window (wm_advance ?m v) = last_n p (vs @ [v])"
    using run last_n_snoc [OF assms, of vs v] by (simp add: weighted_window.win_step)
  have "int (length (last_n p (vs @ [v]))) = int (length (if length ?w = p then tl ?w else ?w) + 1)"
    using last_n_snoc [OF assms, of vs v] by (metis One_nat_def length_append length_Cons list.size(3))
  then show ?case
    using snoc.IH run tl last_n_snoc [OF assms, of vs v]
    by (simp add: wm_weighted_step w weighted_total_snoc del: length_last_n)
qed

lemma sum_list_bounds:
  fixes xs :: "int list"
  shows "\<forall>x \<in> set xs. lo \<le> x \<and> x \<le> hi \<Longrightarrow> lo * int (length xs) \<le> sum_list xs \<and> sum_list xs \<le> hi * int (length xs)"
  by (induction xs) (auto simp: algebra_simps)

lemma triangle: "(\<Sum>i < n. int (i + 1)) * 2 = int n * (int n + 1)"
  by (induction n) (simp_all add: algebra_simps)

lemma triangle_div: "int n * (int n + 1) div 2 = (\<Sum>i < n. int (i + 1))"
  using triangle [of n] by (metis nonzero_mult_div_cancel_right zero_neq_numeral)

lemma weighted_total_bounds:
  assumes "\<forall>x \<in> set xs. lo \<le> x \<and> x \<le> hi"
  shows "lo * (\<Sum>i < length xs. int (i + 1)) \<le> weighted_total xs
    \<and> weighted_total xs \<le> hi * (\<Sum>i < length xs. int (i + 1))"
  unfolding weighted_total_def sum_distrib_left
  using assms by (auto intro!: sum_mono simp: mult.commute [of _ "_ + 1"])

lemma triangle_pos: "0 < n \<Longrightarrow> 0 < (\<Sum>i < n. int (i + 1))"
  by (rule sum_pos) auto

lemma rounded_mean_ok:
  assumes "0 < den" "lo * den \<le> num" "num \<le> hi * den" "fits_i128 lo" "fits_i128 hi"
  shows "\<exists>r. rounded_mean num den = Some r \<and> nearest_even num den r \<and> lo \<le> r \<and> r \<le> hi"
proof -
  obtain r where r: "round_ratio num den = Some r" "nearest_even num den r"
    using round_ratio_nearest_even [OF assms(1)] by blast
  have b: "lo \<le> r \<and> r \<le> hi"
    using nearest_even_lower [OF assms(1) r(2) assms(2)] nearest_even_upper [OF assms(1) r(2) assms(3)] by blast
  then have "fits_i128 r" using assms(4,5) by (auto simp: fits_i128_def)
  with r b show ?thesis by (simp add: rounded_mean_def to_i128_def)
qed

section \<open>Properties\<close>

text \<open>
  C33: for a positive denominator \<open>round_ratio\<close> never panics and returns the one integer whose
  distance to the exact ratio is at most one half, the even one in a tie; for any other
  denominator it panics.
\<close>

theorem round_ratio_correct:
  "round_ratio num den = Some r \<longleftrightarrow>
     0 < den \<and> \<bar>2 * (r * den - num)\<bar> \<le> den \<and> (if \<bar>2 * (r * den - num)\<bar> = den then even r else True)"
proof (cases "0 < den")
  case True
  then show ?thesis by (simp add: round_ratio_iff nearest_even_def)
next
  case False
  then show ?thesis by (simp add: round_ratio_def)
qed

text \<open>
  after any history of 128-bit samples, pushing one more into a rolling mean does not
  panic and returns the mean of the last \<open>period\<close> samples (fewer during warm-up), rounded
  once to nearest even and lying between the smallest and the largest of them.
\<close>

theorem rolling_mean_correct:
  assumes "0 < period" "\<forall>x \<in> set (vs @ [v]). fits_i128 x"
  shows "\<exists>r. rolling_mean_push (foldl rm_advance (rolling_mean_new period) vs) v =
        Some (r, foldl rm_advance (rolling_mean_new period) (vs @ [v]))
      \<and> nearest_even (sum_list (last_n period (vs @ [v]))) (int (length (last_n period (vs @ [v])))) r
      \<and> Min (set (last_n period (vs @ [v]))) \<le> r \<and> r \<le> Max (set (last_n period (vs @ [v])))"
proof -
  let ?w = "last_n period (vs @ [v])"
  have m: "rm_window (foldl rm_advance (rolling_mean_new period) (vs @ [v])) = ?w"
    "rm_sum (foldl rm_advance (rolling_mean_new period) (vs @ [v])) = sum_list ?w"
    using rolling_mean_run [OF assms(1)] by blast+
  have ne: "?w \<noteq> []" using last_n_snoc [OF assms(1), of vs v] by simp
  have fit: "\<forall>x \<in> set ?w. fits_i128 x"
    by (intro ballI) (rule bspec [OF assms(2) subsetD [OF set_last_n]])
  have "Min (set ?w) \<in> set ?w" "Max (set ?w) \<in> set ?w"
    using ne by (intro Min_in Max_in; simp only: finite_set set_empty not_False_eq_True)+
  then have "fits_i128 (Min (set ?w))" "fits_i128 (Max (set ?w))" using fit by blast+
  moreover have "\<forall>x \<in> set ?w. Min (set ?w) \<le> x \<and> x \<le> Max (set ?w)"
    by (intro ballI conjI Min_le Max_ge finite_set)
  from sum_list_bounds [OF this] have "Min (set ?w) * int (length ?w) \<le> sum_list ?w"
    "sum_list ?w \<le> Max (set ?w) * int (length ?w)" by blast+
  moreover have "0 < int (length ?w)" using ne by (simp only: of_nat_0_less_iff length_greater_0_conv not_False_eq_True)
  ultimately obtain r where "rounded_mean (sum_list ?w) (int (length ?w)) = Some r"
    "nearest_even (sum_list ?w) (int (length ?w)) r" "Min (set ?w) \<le> r \<and> r \<le> Max (set ?w)"
    using rounded_mean_ok by blast
  with m show ?thesis by (simp add: rolling_mean_push_def Let_def del: length_last_n)
qed

theorem rolling_mean_correct_witness:
  "\<exists>r. rolling_mean_push (foldl rm_advance (rolling_mean_new 2) [1, 2]) 3 =
     Some (r, foldl rm_advance (rolling_mean_new 2) [1, 2, 3]) \<and> nearest_even 5 2 r"
proof -
  have w: "last_n 2 ([1, 2] @ [3 :: int]) = [2, 3]" by (simp add: last_n_def)
  have "\<forall>x \<in> set ([1, 2] @ [3]). fits_i128 x" by (simp add: fits_i128_def)
  from rolling_mean_correct [of 2, OF _ this] show ?thesis unfolding w by auto
qed

text \<open>
  the linear weighted mean, updated incrementally, emits nothing before the window is full
  and then the mean of the last \<open>period\<close> samples with weights 1 to \<open>period\<close>, oldest first,
  rounded once to nearest even; it never panics on 128-bit samples.
\<close>

theorem weighted_mean_correct:
  assumes "0 < period" "\<forall>x \<in> set (vs @ [v]). fits_i128 x"
  shows "\<exists>out. weighted_mean_push (foldl wm_advance (weighted_mean_new period) vs) v =
        Some (out, foldl wm_advance (weighted_mean_new period) (vs @ [v]))
      \<and> (case out of
           None \<Rightarrow> length (vs @ [v]) < period
         | Some r \<Rightarrow> period \<le> length (vs @ [v])
             \<and> nearest_even (\<Sum>i < period. int (i + 1) * last_n period (vs @ [v]) ! i) (\<Sum>i < period. int (i + 1)) r)"
proof -
  let ?w = "last_n period (vs @ [v])" and ?m = "foldl wm_advance (weighted_mean_new period) (vs @ [v])"
  have m: "wm_period ?m = period" "wm_window ?m = ?w" "wm_weighted_sum ?m = weighted_total ?w"
    using weighted_mean_run [OF assms(1)] weighted_run [OF assms(1)] by blast+
  show ?thesis
  proof (cases "length (vs @ [v]) < period")
    case True
    with m show ?thesis by (intro exI [of _ None]) (simp add: weighted_mean_push_def Let_def)
  next
    case False
    then have len: "length ?w = period" by simp
    let ?t = "\<Sum>i < period. int (i + 1)"
    have fit: "\<forall>x \<in> set ?w. - (2 ^ 127) \<le> x \<and> x \<le> 2 ^ 127 - 1"
      using assms(2) set_last_n [of period "vs @ [v]"] by (force simp: fits_i128_def)
    from weighted_total_bounds [OF fit] len
    have "- (2 ^ 127) * ?t \<le> weighted_total ?w" "weighted_total ?w \<le> (2 ^ 127 - 1) * ?t" by simp_all
    then obtain r where "rounded_mean (weighted_total ?w) ?t = Some r" "nearest_even (weighted_total ?w) ?t r"
      using rounded_mean_ok [OF triangle_pos [OF assms(1)], of "- (2 ^ 127)" _ "2 ^ 127 - 1"]
      by (auto simp: fits_i128_def)
    with m len False show ?thesis
      by (intro exI [of _ "Some r"])
         (simp add: weighted_mean_push_def Let_def triangle_div weighted_total_def del: length_last_n)
  qed
qed

theorem weighted_mean_correct_witness:
  "\<exists>out. weighted_mean_push (foldl wm_advance (weighted_mean_new 2) [4]) 6 =
     Some (out, foldl wm_advance (weighted_mean_new 2) [4, 6])
     \<and> (case out of None \<Rightarrow> False | Some r \<Rightarrow> nearest_even 16 3 r)"
  using weighted_mean_correct [of 2 "[4]" 6]
  by (auto simp: fits_i128_def last_n_def numeral_2_eq_2 split: option.splits)

end
