(* ===== verification/Decimal_Text.thy ===== *)
theory Decimal_Text
  imports Prelude
begin

text \<open>
  Decimal digits as the standard library reads and prints them: \<open>digits_value\<close> is the value
  of a run of ASCII digits (\<open>str::parse\<close>), \<open>nat_digits\<close> the shortest decimal spelling of a
  number (\<open>Display\<close>), \<open>zero_pad\<close> the padding of the format specification \<open>0N\<close>.
\<close>

definition is_digit :: "nat \<Rightarrow> bool" where
  "is_digit c = (48 \<le> c \<and> c \<le> 57)"

definition digits_value :: "nat list \<Rightarrow> nat" where
  "digits_value ds = foldl (\<lambda>a d. a * 10 + (d - 48)) 0 ds"

fun nat_digits :: "nat \<Rightarrow> nat list" where
  "nat_digits n = (if n < 10 then [48 + n] else nat_digits (n div 10) @ [48 + n mod 10])"

declare nat_digits.simps [simp del]

definition zero_pad :: "nat \<Rightarrow> nat list \<Rightarrow> nat list" where
  "zero_pad k ds = replicate (k - length ds) 48 @ ds"

lemma digits_value_snoc [simp]: "digits_value (ds @ [d]) = digits_value ds * 10 + (d - 48)"
  by (simp add: digits_value_def)

lemma digits_value_Nil [simp]: "digits_value [] = 0"
  by (simp add: digits_value_def)

lemma digits_value_append: "digits_value (xs @ ys) = digits_value xs * 10 ^ length ys + digits_value ys"
  by (induction ys rule: rev_induct) (simp_all add: algebra_simps flip: append_assoc)

lemma digits_value_Cons: "digits_value (d # ds) = (d - 48) * 10 ^ length ds + digits_value ds"
  using digits_value_append [of "[d]" ds] by (simp add: digits_value_def)

lemma digits_value_zeros [simp]: "digits_value (replicate k 48) = 0"
  by (induction k) (simp_all add: digits_value_Cons)

lemma digits_value_pad [simp]: "digits_value (zero_pad k ds) = digits_value ds"
  by (simp add: zero_pad_def digits_value_append)

lemma digits_value_less: "list_all is_digit ds \<Longrightarrow> digits_value ds < 10 ^ length ds"
  by (induction ds rule: rev_induct) (auto simp: is_digit_def)

lemma digits_value_nat_digits [simp]: "digits_value (nat_digits n) = n"
proof (induction n rule: nat_digits.induct)
  case (1 n)
  then show ?case by (subst nat_digits.simps) (auto simp: digits_value_def)
qed

lemma nat_digits_all [simp]: "list_all is_digit (nat_digits n)"
proof (induction n rule: nat_digits.induct)
  case (1 n)
  moreover have "is_digit (48 + n mod 10)" "n < 10 \<Longrightarrow> is_digit (48 + n)" by (auto simp: is_digit_def)
  ultimately show ?case by (subst nat_digits.simps) simp
qed

lemma nat_digits_ne [simp]: "nat_digits n \<noteq> []"
  by (subst nat_digits.simps) simp

lemma length_nat_digits: "0 < k \<Longrightarrow> length (nat_digits n) \<le> k \<longleftrightarrow> n < 10 ^ k"
proof (induction n arbitrary: k rule: nat_digits.induct)
  case (1 n)
  show ?case
  proof (cases "n < 10")
    case True
    have "(10 :: nat) ^ 1 \<le> 10 ^ k" using 1 by (intro power_increasing) simp_all
    with True 1 show ?thesis by (subst nat_digits.simps) simp
  next
    case False
    obtain j where k: "k = Suc j" using 1 by (cases k) auto
    show ?thesis
    proof (cases "j = 0")
      case True
      with False k show ?thesis by (subst nat_digits.simps) simp
    next
      case j: False
      have "length (nat_digits (n div 10)) \<le> j \<longleftrightarrow> n div 10 < 10 ^ j" using 1 False j by simp
      with False k show ?thesis by (subst nat_digits.simps) (auto simp: div_less_iff_less_mult mult.commute)
    qed
  qed
qed

lemma nat_digits_no_leading_zero: "hd (nat_digits n) = 48 \<Longrightarrow> n = 0"
proof (induction n rule: nat_digits.induct)
  case (1 n)
  then show ?case by (cases "n < 10") (auto simp: nat_digits.simps [of n])
qed

lemma nat_digits_0 [simp]: "nat_digits 0 = [48]"
  by (simp add: nat_digits.simps)

text \<open>A digit run without a leading zero is the spelling of its value.\<close>

lemma nat_digits_digits_value:
  assumes "list_all is_digit ds" "ds \<noteq> []" "length ds > 1 \<longrightarrow> hd ds \<noteq> 48"
  shows "nat_digits (digits_value ds) = ds"
  using assms
proof (induction ds rule: rev_induct)
  case (snoc d ds)
  have d: "48 \<le> d" "d \<le> 57" using snoc.prems(1) by (simp_all add: is_digit_def)
  show ?case
  proof (cases "ds = []")
    case True
    with d show ?thesis by (simp add: digits_value_def nat_digits.simps)
  next
    case False
    then have hd: "hd ds \<noteq> 48" using snoc.prems by (cases ds) auto
    then have v: "nat_digits (digits_value ds) = ds" using snoc False by simp
    have "digits_value ds \<noteq> 0"
    proof
      assume "digits_value ds = 0"
      with v have "ds = [48]" by simp
      with hd show False by simp
    qed
    moreover have "d = 48 + (d - 48)" "d - 48 < 10" using d by auto
    then obtain e where "d = 48 + e" "e < 10" by blast
    ultimately show ?thesis using v by (simp add: nat_digits.simps [of "digits_value ds * 10 + e"])
  qed
qed simp

section \<open>Signed integers\<close>

text \<open>\<open>BigInt::to_string\<close> and \<open>str::parse::<BigInt>\<close> on integer tokens.\<close>

definition int_text :: "int \<Rightarrow> rstr" where
  "int_text i = (if i < 0 then 45 # nat_digits (nat (- i)) else nat_digits (nat i))"

definition int_parse :: "rstr \<Rightarrow> int option" where
  "int_parse t =
     (let neg = (t \<noteq> [] \<and> hd t = 45); ds = (if neg then tl t else t)
      in if ds \<noteq> [] \<and> list_all is_digit ds
         then Some (if neg then - int (digits_value ds) else int (digits_value ds)) else None)"

lemma int_parse_text [simp]: "int_parse (int_text i) = Some i"
proof -
  have ne: "nat_digits n \<noteq> []" for n by (subst nat_digits.simps) simp
  have hd: "hd (nat_digits n) \<noteq> 45" for n
    using nat_digits_all [of n] ne [of n] by (cases "nat_digits n") (auto simp: is_digit_def)
  show ?thesis by (simp add: int_text_def int_parse_def Let_def ne hd)
qed

end
