(* ===== verification/Indicators.thy ===== *)
theory Indicators
  imports Operators Decimal_Text
begin

text \<open>
  The built-in indicators of \<open>crates/indicators\<close>, one group of definitions per file: the
  fixed-scale decimal reader and printer (\<open>sma.rs\<close>), financial values, volumes, bar
  validation and the Wilder mean (\<open>fixed_window.rs\<close>), SMA, WMA, EMA, RSI, ATR, MACD, OBV,
  ROC, the rolling moments with Bollinger bands, Z-score and volatility, the stochastic
  oscillator and both VWAPs. Prices are coefficients at scale 12. A \<open>push\<close> returns
  \<^const>\<open>None\<close> where the code would panic, \<open>Some (Inl e)\<close> for an error, which leaves the
  indicator unchanged, and \<open>Some (Inr (point, next))\<close> otherwise.
\<close>

section \<open>Decimal text at scale 12 (sma.rs)\<close>

definition quantum :: int where
  "quantum = 10 ^ 12"

datatype fixed_scale_error = InvalidFixedScaleInput

definition strip_sign :: "rstr \<Rightarrow> int \<times> rstr" where
  "strip_sign s = (case s of c # r \<Rightarrow> if c = 45 then (- 1, r) else (1, s) | [] \<Rightarrow> (1, s))"

definition split_once :: "nat \<Rightarrow> rstr \<Rightarrow> (rstr \<times> rstr) option" where
  "split_once c s = (if c \<in> set s then Some (takeWhile (\<lambda>x. x \<noteq> c) s, tl (dropWhile (\<lambda>x. x \<noteq> c) s)) else None)"

definition coefficient :: "rstr \<Rightarrow> fixed_scale_error + int" where
  "coefficient price =
     (let (sign, unsigned) = strip_sign price
      in rbind (case split_once 46 unsigned of
                  Some (_, []) \<Rightarrow> Inl InvalidFixedScaleInput
                | Some parts \<Rightarrow> Inr parts
                | None \<Rightarrow> Inr (unsigned, [])) (\<lambda>(whole, fraction).
         if whole = [] \<or> length whole > 26 \<or> (length whole > 1 \<and> hd whole = 48)
            \<or> length fraction > 12 \<or> \<not> list_all is_digit (whole @ fraction)
         then Inl InvalidFixedScaleInput
         else
           let magnitude = int (digits_value whole) * quantum
                           + int (digits_value fraction) * 10 ^ (12 - length fraction)
           in Inr (sign * magnitude)))"

definition format_coefficient :: "int \<Rightarrow> rstr" where
  "format_coefficient v =
     (let magnitude = nat \<bar>v\<bar>
      in (if v < 0 then [45] else []) @ nat_digits (magnitude div nat quantum) @ [46]
         @ zero_pad 12 (nat_digits (magnitude mod nat quantum)))"

section \<open>Simple and weighted averages (lib.rs, sma.rs, wma.rs)\<close>

record average_point =
  ap_value :: rstr
  ap_ready :: bool

definition simple_average_push :: "rolling_mean \<Rightarrow> int \<Rightarrow> ((int \<times> bool) \<times> rolling_mean) option" where
  "simple_average_push m price =
     map_option (\<lambda>(v, m1). ((v, rm_is_full m1), m1)) (rolling_mean_push m price)"

definition sma_push :: "rolling_mean \<Rightarrow> rstr \<Rightarrow> (fixed_scale_error + average_point \<times> rolling_mean) option" where
  "sma_push m price =
     (case coefficient price of
        Inl e \<Rightarrow> Some (Inl e)
      | Inr c \<Rightarrow> map_option (\<lambda>((v, ready), m1). Inr (\<lparr>ap_value = format_coefficient v, ap_ready = ready\<rparr>, m1))
                   (simple_average_push m c))"

definition wma_push :: "weighted_mean \<Rightarrow> rstr \<Rightarrow> (fixed_scale_error + rstr option \<times> weighted_mean) option" where
  "wma_push m price =
     (case coefficient price of
        Inl e \<Rightarrow> Some (Inl e)
      | Inr c \<Rightarrow> map_option (\<lambda>(v, m1). Inr (map_option format_coefficient v, m1)) (weighted_mean_push m c))"

section \<open>Financial values and Wilder means (fixed_window.rs)\<close>

definition carrier_limit :: int where
  "carrier_limit = 10 ^ 38"

definition guard_factor :: int where
  "guard_factor = 10 ^ 24"

datatype financial_error = InvalidDecimal | NegativeVolume | InvalidPriceRange | InvalidTimestampOrder

datatype financial_value = FvWarmup | FvMissing | FvUndefined | FvOutOfRange | FvReady rstr

definition fv_from_coefficient :: "int \<Rightarrow> financial_value" where
  "fv_from_coefficient v =
     (case to_i128 v of
        None \<Rightarrow> FvOutOfRange
      | Some w \<Rightarrow> if \<bar>w\<bar> \<ge> carrier_limit then FvOutOfRange else FvReady (format_coefficient w))"

definition fin_coefficient :: "rstr \<Rightarrow> financial_error + int" where
  "fin_coefficient s = (case coefficient s of Inl _ \<Rightarrow> Inl InvalidDecimal | Inr c \<Rightarrow> Inr c)"

definition transpose_map :: "('a \<Rightarrow> 'e + 'b) \<Rightarrow> 'a option \<Rightarrow> 'e + 'b option" where
  "transpose_map f x = (case x of None \<Rightarrow> Inr None | Some v \<Rightarrow> rbind (f v) (\<lambda>w. Inr (Some w)))"

definition volume :: "rstr option \<Rightarrow> financial_error + int option" where
  "volume input =
     rbind (transpose_map fin_coefficient input) (\<lambda>v.
     if (case v of None \<Rightarrow> False | Some w \<Rightarrow> w < 0) then Inl NegativeVolume else Inr v)"

definition zip_option :: "'a option \<Rightarrow> 'b option \<Rightarrow> ('a \<times> 'b) option" where
  "zip_option x y = (case (x, y) of (Some a, Some b) \<Rightarrow> Some (a, b) | _ \<Rightarrow> None)"

definition some_and :: "('a \<Rightarrow> bool) \<Rightarrow> 'a option \<Rightarrow> bool" where
  "some_and P x = (case x of None \<Rightarrow> False | Some v \<Rightarrow> P v)"

definition validate_bar :: "int option \<Rightarrow> int option \<Rightarrow> int option \<Rightarrow> financial_error + unit" where
  "validate_bar high low close =
     (if some_and (\<lambda>(h, l). h < l) (zip_option high low)
         \<or> some_and (\<lambda>(h, c). c > h) (zip_option high close)
         \<or> some_and (\<lambda>(l, c). c < l) (zip_option low close)
      then Inl InvalidPriceRange else Inr ())"

record wilder_mean =
  wl_period :: nat
  wl_count :: nat
  wl_state :: int

definition wilder_new :: "nat \<Rightarrow> wilder_mean" where
  "wilder_new period = \<lparr>wl_period = period, wl_count = 0, wl_state = 0\<rparr>"

definition wilder_push :: "wilder_mean \<Rightarrow> int \<Rightarrow> (int option \<times> wilder_mean) option" where
  "wilder_push w c =
     (let period = wl_period w; v = c * guard_factor
      in if wl_count w < period then
           let w1 = w\<lparr>wl_count := wl_count w + 1, wl_state := wl_state w + v\<rparr>
           in if wl_count w1 < period then Some (None, w1)
              else map_option (\<lambda>s. (Some s, w1\<lparr>wl_state := s\<rparr>)) (round_ratio (wl_state w1) (int period))
         else map_option (\<lambda>s. (Some s, w\<lparr>wl_state := s\<rparr>))
                (round_ratio (wl_state w * int (period - 1) + v) (int period)))"

section \<open>RSI (rsi.rs)\<close>

datatype rsi_zone = Oversold | Neutral | Overbought

record rsi_point =
  rp_value :: financial_value
  rp_zone :: rsi_zone

record rsi =
  rsi_previous :: "int option"
  rsi_gains :: wilder_mean
  rsi_losses :: wilder_mean

definition rsi_new :: "nat \<Rightarrow> rsi" where
  "rsi_new period = \<lparr>rsi_previous = None, rsi_gains = wilder_new period, rsi_losses = wilder_new period\<rparr>"

definition rsi_warmup :: rsi_point where
  "rsi_warmup = \<lparr>rp_value = FvWarmup, rp_zone = Neutral\<rparr>"

definition rsi_report :: "int \<Rightarrow> int \<Rightarrow> rsi_point option" where
  "rsi_report gain loss =
     (let total = gain + loss
      in if total = 0 then Some \<lparr>rp_value = fv_from_coefficient (50 * quantum), rp_zone = Neutral\<rparr>
         else
           let percentage = gain * 100;
               zone = (if percentage < total * 30 then Oversold
                       else if percentage > total * 70 then Overbought else Neutral)
           in map_option (\<lambda>r. \<lparr>rp_value = fv_from_coefficient r, rp_zone = zone\<rparr>)
                (round_ratio (percentage * quantum) total))"

definition rsi_push :: "rsi \<Rightarrow> rstr \<Rightarrow> (financial_error + rsi_point \<times> rsi) option" where
  "rsi_push r price =
     (case fin_coefficient price of
        Inl e \<Rightarrow> Some (Inl e)
      | Inr p \<Rightarrow>
          let r1 = r\<lparr>rsi_previous := Some p\<rparr>
          in case rsi_previous r of
               None \<Rightarrow> Some (Inr (rsi_warmup, r1))
             | Some previous \<Rightarrow>
                 let change = p - previous;
                     (gain, loss) = (if change < 0 then (0, - change) else (change, 0))
                 in case (wilder_push (rsi_gains r1) gain, wilder_push (rsi_losses r1) loss) of
                      (Some (g, gains), Some (l, losses)) \<Rightarrow>
                        let r2 = r1\<lparr>rsi_gains := gains, rsi_losses := losses\<rparr>
                        in (case (g, l) of
                              (Some gv, Some lv) \<Rightarrow> map_option (\<lambda>pt. Inr (pt, r2)) (rsi_report gv lv)
                            | _ \<Rightarrow> Some (Inr (rsi_warmup, r2)))
                    | _ \<Rightarrow> None)"

section \<open>EMA (ema.rs)\<close>

definition guard_quantum :: int where
  "guard_quantum = 10 ^ 24"

record exponential_state =
  ex_denominator :: int
  ex_prior_weight :: int
  ex_prior :: "int option"

definition exponential_new :: "nat \<Rightarrow> exponential_state" where
  "exponential_new period =
     \<lparr>ex_denominator = int period + 1, ex_prior_weight = int (period - 1), ex_prior = None\<rparr>"

definition ex_next :: "exponential_state \<Rightarrow> int \<Rightarrow> int option" where
  "ex_next x c =
     (let input = c * guard_quantum
      in case ex_prior x of
           Some prior \<Rightarrow> round_ratio (prior * ex_prior_weight x + 2 * input) (ex_denominator x)
         | None \<Rightarrow> Some input)"

definition ex_accept :: "exponential_state \<Rightarrow> int \<Rightarrow> exponential_state" where
  "ex_accept x nxt = x\<lparr>ex_prior := Some nxt\<rparr>"

definition reported :: "int \<Rightarrow> int option" where
  "reported st = round_ratio st guard_quantum"

record ema =
  ema_state :: exponential_state
  ema_period :: nat
  ema_samples :: nat

definition ema_new :: "nat \<Rightarrow> ema" where
  "ema_new period = \<lparr>ema_state = exponential_new period, ema_period = period, ema_samples = 0\<rparr>"

definition ema_push :: "ema \<Rightarrow> rstr \<Rightarrow> (fixed_scale_error + average_point \<times> ema) option" where
  "ema_push m price =
     (case coefficient price of
        Inl e \<Rightarrow> Some (Inl e)
      | Inr c \<Rightarrow>
          Option.bind (ex_next (ema_state m) c) (\<lambda>nxt.
          Option.bind (reported nxt) (\<lambda>rep0.
          Option.bind (to_i128 rep0) (\<lambda>rep.
          let m1 = m\<lparr>ema_state := ex_accept (ema_state m) nxt,
                     ema_samples := min (ema_samples m + 1) (ema_period m)\<rparr>
          in Some (Inr (\<lparr>ap_value = format_coefficient rep, ap_ready = (ema_samples m1 = ema_period m1)\<rparr>, m1))))))"

section \<open>ATR (atr.rs)\<close>

record atr_point =
  at_atr :: financial_value
  at_normalized :: financial_value

record atr =
  atr_previous_close :: "int option"
  atr_mean :: wilder_mean

definition atr_new :: "nat \<Rightarrow> atr" where
  "atr_new period = \<lparr>atr_previous_close = None, atr_mean = wilder_new period\<rparr>"

definition absolute_difference :: "int \<Rightarrow> int \<Rightarrow> int" where
  "absolute_difference left right =
     (let difference = left - right in if difference < 0 then - difference else difference)"

definition true_range :: "int option \<Rightarrow> int \<Rightarrow> int \<Rightarrow> int" where
  "true_range previous_close high low =
     (let range = high - low
      in case previous_close of
           None \<Rightarrow> range
         | Some previous \<Rightarrow>
             max (max range (absolute_difference high previous)) (absolute_difference low previous))"

definition atr_report :: "int \<Rightarrow> int \<Rightarrow> atr_point option" where
  "atr_report mean close =
     Option.bind (if close = 0 then Some FvUndefined
                  else map_option fv_from_coefficient
                         (round_ratio (mean * quantum * sgn close) (\<bar>close\<bar> * guard_factor))) (\<lambda>normalized.
     map_option (\<lambda>a. \<lparr>at_atr = fv_from_coefficient a, at_normalized = normalized\<rparr>)
       (round_ratio mean guard_factor))"

definition atr_push :: "atr \<Rightarrow> rstr \<Rightarrow> rstr \<Rightarrow> rstr \<Rightarrow> (financial_error + atr_point \<times> atr) option" where
  "atr_push a high low close =
     (case rbind (fin_coefficient high) (\<lambda>h. rbind (fin_coefficient low) (\<lambda>l.
           rbind (fin_coefficient close) (\<lambda>c.
           rbind (validate_bar (Some h) (Some l) (Some c)) (\<lambda>_. Inr (h, l, c))))) of
        Inl e \<Rightarrow> Some (Inl e)
      | Inr (h, l, c) \<Rightarrow>
          Option.bind (wilder_push (atr_mean a) (true_range (atr_previous_close a) h l)) (\<lambda>(mean, w).
          let a1 = a\<lparr>atr_previous_close := Some c, atr_mean := w\<rparr>
          in case mean of
               None \<Rightarrow> Some (Inr (\<lparr>at_atr = FvWarmup, at_normalized = FvWarmup\<rparr>, a1))
             | Some m \<Rightarrow> map_option (\<lambda>pt. Inr (pt, a1)) (atr_report m c)))"

section \<open>Rolling moments (rolling_statistics.rs)\<close>

datatype statistical_error = StInvalidInput | StOutOfRange

definition st_parse :: "rstr \<Rightarrow> statistical_error + int" where
  "st_parse price = (case coefficient price of Inl _ \<Rightarrow> Inl StInvalidInput | Inr c \<Rightarrow> Inr c)"

definition st_format :: "int \<Rightarrow> statistical_error + rstr" where
  "st_format v =
     (case to_i128 v of
        None \<Rightarrow> Inl StOutOfRange
      | Some w \<Rightarrow> if \<bar>w\<bar> < 10 ^ 38 then Inr (format_coefficient w) else Inl StOutOfRange)"

record rolling_moments =
  mo_period :: nat
  mo_window :: "int list"
  mo_sum :: int
  mo_sum_squares :: int

record moments =
  ms_sum :: int
  ms_count :: int
  ms_spread_squared :: int
  ms_ready :: bool

definition moments_new :: "nat \<Rightarrow> rolling_moments" where
  "moments_new period = \<lparr>mo_period = period, mo_window = [], mo_sum = 0, mo_sum_squares = 0\<rparr>"

definition moments_advance :: "rolling_moments \<Rightarrow> int \<Rightarrow> moments \<times> rolling_moments" where
  "moments_advance m price =
     (let total = mo_sum m + price;
          squares = mo_sum_squares m + price * price;
          full = (length (mo_window m) = mo_period m);
          total1 = (if full then total - hd (mo_window m) else total);
          squares1 = (if full then squares - hd (mo_window m) * hd (mo_window m) else squares);
          count = int (length (mo_window m) + (if full then 0 else 1))
      in (\<lparr>ms_sum = total1, ms_count = count, ms_spread_squared = count * squares1 - total1 * total1,
           ms_ready = (length (mo_window m) \<ge> mo_period m - 1)\<rparr>,
          m\<lparr>mo_window := (if full then tl (mo_window m) else mo_window m) @ [price],
            mo_sum := total1, mo_sum_squares := squares1\<rparr>))"

definition moments_push ::
  "rolling_moments \<Rightarrow> int \<Rightarrow> (moments \<Rightarrow> (statistical_error + 'a) option) \<Rightarrow>
   (statistical_error + 'a \<times> rolling_moments) option" where
  "moments_push m price evaluate =
     (let (mm, m1) = moments_advance m price
      in map_option (\<lambda>r. rbind r (\<lambda>out. Inr (out, m1))) (evaluate mm))"

fun isqrt_nat :: "nat \<Rightarrow> nat" where
  "isqrt_nat n =
     (if n = 0 then 0
      else let r = 2 * isqrt_nat (n div 4) in if (r + 1) * (r + 1) \<le> n then r + 1 else r)"

declare isqrt_nat.simps [simp del]

definition isqrt :: "int \<Rightarrow> int" where
  "isqrt n = int (isqrt_nat (nat n))"

definition round_radical :: "int \<Rightarrow> int \<Rightarrow> int \<Rightarrow> bool \<Rightarrow> int" where
  "round_radical base square divisor subtract =
     (let root = isqrt square;
          integral = (if subtract then base - root - (if root * root = square then 0 else 1) else base + root);
          flr = integral div divisor;
          midpoint = (2 * flr + 1) * divisor - 2 * base;
          twice_square = 4 * square;
          comparison =
            (if \<not> subtract \<and> midpoint < 0 then Greater
             else if subtract \<and> midpoint > 0 then Less
             else if \<not> subtract then cmp twice_square (midpoint * midpoint)
             else cmp (midpoint * midpoint) twice_square)
      in if comparison = Greater \<or> comparison = Equal \<and> odd flr then flr + 1 else flr)"

section \<open>Bollinger bands, Z-score and volatility\<close>

record bollinger =
  bo_moments :: rolling_moments
  bo_multiplier_squared :: int

record bollinger_point =
  bp_middle :: rstr
  bp_upper :: rstr
  bp_lower :: rstr
  bp_ready :: bool

definition bollinger_new :: "nat \<Rightarrow> rstr \<Rightarrow> statistical_error + bollinger" where
  "bollinger_new period multiplier =
     rbind (st_parse multiplier) (\<lambda>m.
     if m < 0 then Inl StInvalidInput
     else Inr \<lparr>bo_moments = moments_new period, bo_multiplier_squared = m * m\<rparr>)"

definition bollinger_report :: "int \<Rightarrow> moments \<Rightarrow> (statistical_error + bollinger_point) option" where
  "bollinger_report multiplier_squared mm =
     map_option (\<lambda>middle.
       let base = ms_sum mm * quantum; divisor = ms_count mm * quantum;
           square = ms_spread_squared mm * multiplier_squared
       in rbind (st_format middle) (\<lambda>mid.
          rbind (st_format (round_radical base square divisor False)) (\<lambda>upper.
          rbind (st_format (round_radical base square divisor True)) (\<lambda>lower.
          Inr \<lparr>bp_middle = mid, bp_upper = upper, bp_lower = lower, bp_ready = ms_ready mm\<rparr>))))
     (round_ratio (ms_sum mm) (ms_count mm))"

definition bollinger_push :: "bollinger \<Rightarrow> rstr \<Rightarrow> (statistical_error + bollinger_point \<times> bollinger) option" where
  "bollinger_push b price =
     (case st_parse price of
        Inl e \<Rightarrow> Some (Inl e)
      | Inr p \<Rightarrow>
          map_option (\<lambda>r. rbind r (\<lambda>(pt, m). Inr (pt, b\<lparr>bo_moments := m\<rparr>)))
            (moments_push (bo_moments b) p (bollinger_report (bo_multiplier_squared b))))"

definition rounded_score :: "int \<Rightarrow> int \<Rightarrow> int" where
  "rounded_score numerator spread_squared =
     (let square = numerator * numerator;
          magnitude = isqrt (square div spread_squared);
          midpoint = 2 * magnitude + 1;
          comparison = cmp (4 * square) (midpoint * midpoint * spread_squared);
          magnitude1 = (if comparison = Greater \<or> comparison = Equal \<and> odd magnitude then magnitude + 1 else magnitude)
      in if numerator < 0 then - magnitude1 else magnitude1)"

definition zscore_report :: "int \<Rightarrow> moments \<Rightarrow> (statistical_error + average_point) option" where
  "zscore_report price mm =
     (let numerator = (price * ms_count mm - ms_sum mm) * quantum;
          v = (if ms_spread_squared mm = 0 then 0 else rounded_score numerator (ms_spread_squared mm))
      in Some (rbind (st_format v) (\<lambda>t. Inr \<lparr>ap_value = t, ap_ready = ms_ready mm\<rparr>)))"

definition zscore_push :: "rolling_moments \<Rightarrow> rstr \<Rightarrow> (statistical_error + average_point \<times> rolling_moments) option" where
  "zscore_push m price =
     (case st_parse price of
        Inl e \<Rightarrow> Some (Inl e)
      | Inr p \<Rightarrow> moments_push m p (zscore_report p))"

definition volatility_report :: "moments \<Rightarrow> (statistical_error + average_point) option" where
  "volatility_report mm =
     Some (rbind (st_format (round_radical 0 (ms_spread_squared mm) (ms_count mm) False)) (\<lambda>t.
           Inr \<lparr>ap_value = t, ap_ready = ms_ready mm\<rparr>))"

definition volatility_push :: "rolling_moments \<Rightarrow> rstr \<Rightarrow> (statistical_error + average_point \<times> rolling_moments) option" where
  "volatility_push m price =
     (case st_parse price of
        Inl e \<Rightarrow> Some (Inl e)
      | Inr p \<Rightarrow> moments_push m p volatility_report)"

section \<open>MACD (macd.rs)\<close>

datatype macd_cross = CrossNone | Golden | Death

record macd_point =
  mp_dif :: rstr
  mp_dea :: rstr
  mp_histogram :: rstr
  mp_cross :: macd_cross
  mp_ready :: bool

record macd =
  macd_fast :: exponential_state
  macd_slow :: exponential_state
  macd_signal :: exponential_state
  macd_previous_sign :: int
  macd_slow_period :: nat
  macd_samples :: nat

definition macd_new :: "nat \<Rightarrow> nat \<Rightarrow> nat \<Rightarrow> macd option" where
  "macd_new fast slow signal =
     (if fast \<ge> slow then None
      else Some \<lparr>macd_fast = exponential_new fast, macd_slow = exponential_new slow,
                 macd_signal = exponential_new signal, macd_previous_sign = 0,
                 macd_slow_period = slow, macd_samples = 0\<rparr>)"

definition macd_cross_of :: "int \<Rightarrow> int \<Rightarrow> macd_cross" where
  "macd_cross_of previous sign =
     (if previous \<le> 0 \<and> sign > 0 then Golden
      else if previous \<ge> 0 \<and> sign < 0 then Death else CrossNone)"

definition macd_push :: "macd \<Rightarrow> rstr \<Rightarrow> (statistical_error + macd_point \<times> macd) option" where
  "macd_push m price =
     (case st_parse price of
        Inl e \<Rightarrow> Some (Inl e)
      | Inr input \<Rightarrow>
          Option.bind (ex_next (macd_fast m) input) (\<lambda>fast.
          Option.bind (ex_next (macd_slow m) input) (\<lambda>slow.
          Option.bind (reported (fast - slow)) (\<lambda>dif.
          Option.bind (ex_next (macd_signal m) dif) (\<lambda>signal.
          Option.bind (reported signal) (\<lambda>dea.
          let histogram = dif - dea;
              sign = sgn histogram;
              cross = macd_cross_of (macd_previous_sign m) sign;
              samples = min (macd_samples m + 1) (macd_slow_period m)
          in Some (
             rbind (st_format dif) (\<lambda>dif_text.
             rbind (st_format dea) (\<lambda>dea_text.
             rbind (st_format histogram) (\<lambda>histogram_text.
             Inr (\<lparr>mp_dif = dif_text, mp_dea = dea_text, mp_histogram = histogram_text, mp_cross = cross,
                   mp_ready = (samples = macd_slow_period m)\<rparr>,
                  m\<lparr>macd_fast := ex_accept (macd_fast m) fast, macd_slow := ex_accept (macd_slow m) slow,
                    macd_signal := ex_accept (macd_signal m) signal, macd_previous_sign := sign,
                    macd_samples := samples\<rparr>)))))))))))"

section \<open>OBV (obv.rs)\<close>

datatype obv = ObvFresh | ObvActive int int | ObvMissing

definition obv_push :: "obv \<Rightarrow> rstr option \<Rightarrow> rstr option \<Rightarrow> financial_error + financial_value \<times> obv" where
  "obv_push st close amount =
     rbind (transpose_map fin_coefficient close) (\<lambda>c.
     rbind (volume amount) (\<lambda>a.
     case zip_option c a of
       None \<Rightarrow> Inr (FvMissing, ObvMissing)
     | Some (close1, amount1) \<Rightarrow>
         (case st of
            ObvFresh \<Rightarrow> Inr (fv_from_coefficient 0, ObvActive close1 0)
          | ObvActive previous tot \<Rightarrow>
              let total1 = (if close1 > previous then tot + amount1
                            else if close1 < previous then tot - amount1 else tot)
              in Inr (fv_from_coefficient total1, ObvActive close1 total1)
          | ObvMissing \<Rightarrow> Inr (FvMissing, ObvMissing))))"

section \<open>ROC (roc.rs)\<close>

datatype roc_error = RocInvalidPrice | RocOutOfRange

record roc =
  roc_period :: nat
  roc_prices :: "int option list"

definition roc_new :: "nat \<Rightarrow> roc" where
  "roc_new period = \<lparr>roc_period = period, roc_prices = []\<rparr>"

definition roc_reference :: "roc \<Rightarrow> int option" where
  "roc_reference r =
     (if length (roc_prices r) = roc_period r
      then Option.bind (hd (roc_prices r)) (\<lambda>p. if p = 0 then None else Some p) else None)"

definition roc_push :: "roc \<Rightarrow> rstr option \<Rightarrow> roc_error + rstr option \<times> roc" where
  "roc_push r price =
     rbind (transpose_map (\<lambda>s. case coefficient s of Inl _ \<Rightarrow> Inl RocInvalidPrice | Inr c \<Rightarrow> Inr c) price) (\<lambda>p.
     rbind (case zip_option p (roc_reference r) of
              Some (current, reference) \<Rightarrow>
                (case fractional_change current reference quantum of
                   Some v \<Rightarrow> if \<bar>v\<bar> < 10 ^ 38 then Inr (Some (format_coefficient v)) else Inl RocOutOfRange
                 | None \<Rightarrow> Inl RocOutOfRange)
            | None \<Rightarrow> Inr None) (\<lambda>v.
     Inr (v, r\<lparr>roc_prices := (if length (roc_prices r) = roc_period r then tl (roc_prices r) else roc_prices r) @ [p]\<rparr>)))"

section \<open>Stochastic oscillator (stochastic.rs)\<close>

datatype sample = SmWarmup | SmMissing | SmUndefined | SmReady int

record stochastic =
  so_k_period :: nat
  so_d_period :: nat
  so_bars :: "(int \<times> int) option list"
  so_smoothing :: "(nat \<times> sample list) option"
  so_recent_k :: "sample list"

record stochastic_point =
  sp_k :: financial_value
  sp_d :: financial_value

definition sample_value :: "sample \<Rightarrow> int \<Rightarrow> financial_value option" where
  "sample_value s guard =
     (case s of
        SmWarmup \<Rightarrow> Some FvWarmup
      | SmMissing \<Rightarrow> Some FvMissing
      | SmUndefined \<Rightarrow> Some FvUndefined
      | SmReady v \<Rightarrow> map_option fv_from_coefficient (round_ratio v guard))"

definition stochastic_new :: "nat \<Rightarrow> nat \<Rightarrow> stochastic" where
  "stochastic_new k_period d_period =
     \<lparr>so_k_period = k_period, so_d_period = d_period, so_bars = [], so_smoothing = None, so_recent_k = []\<rparr>"

definition stochastic_slow :: "nat \<Rightarrow> nat \<Rightarrow> nat \<Rightarrow> stochastic" where
  "stochastic_slow k_period smooth_k d_period =
     (stochastic_new k_period d_period)\<lparr>so_smoothing := Some (smooth_k, [])\<rparr>"

fun bar_extremes :: "(int \<times> int) option list \<Rightarrow> int \<Rightarrow> int \<Rightarrow> (int \<times> int) option" where
  "bar_extremes [] high low = Some (high, low)"
| "bar_extremes (None # bars) high low = None"
| "bar_extremes (Some (h, l) # bars) high low = bar_extremes bars (max high h) (min low l)"

definition percent_k :: "(int \<times> int) option list \<Rightarrow> nat \<Rightarrow> int option \<Rightarrow> int \<Rightarrow> sample option" where
  "percent_k bars k_period close guard =
     (case close of
        None \<Rightarrow> Some SmMissing
      | Some c \<Rightarrow>
          (case bar_extremes bars (- (2 ^ 127)) (2 ^ 127 - 1) of
             None \<Rightarrow> Some SmMissing
           | Some (high, low) \<Rightarrow>
               if length bars < k_period then Some SmWarmup
               else if high = low then Some SmUndefined
               else map_option SmReady
                      (Option.bind (round_ratio ((c - low) * (100 * quantum) * guard) (high - low)) to_i128)))"

definition is_missing :: "sample \<Rightarrow> bool" where
  "is_missing s = (case s of SmMissing \<Rightarrow> True | _ \<Rightarrow> False)"

definition is_warmup :: "sample \<Rightarrow> bool" where
  "is_warmup s = (case s of SmWarmup \<Rightarrow> True | _ \<Rightarrow> False)"

fun sum_ready :: "sample list \<Rightarrow> int \<Rightarrow> int option" where
  "sum_ready [] acc = Some acc"
| "sum_ready (SmReady v # ss) acc = sum_ready ss (acc + v)"
| "sum_ready (_ # ss) acc = None"

definition push_average :: "sample list \<Rightarrow> nat \<Rightarrow> sample \<Rightarrow> (sample \<times> sample list) option" where
  "push_average samples period v =
     (let samples1 = (if length samples = period then tl samples else samples) @ [v]
      in if list_ex is_missing samples1 then Some (SmMissing, samples1)
         else if length samples1 < period \<or> list_ex is_warmup samples1 then Some (SmWarmup, samples1)
         else case sum_ready samples1 0 of
                None \<Rightarrow> Some (SmUndefined, samples1)
              | Some tot \<Rightarrow>
                  map_option (\<lambda>r. (SmReady r, samples1)) (Option.bind (round_ratio tot (int period)) to_i128))"

definition stochastic_bar :: "stochastic \<Rightarrow> int option \<Rightarrow> int option \<Rightarrow> int option \<Rightarrow> (int \<times> int) option list" where
  "stochastic_bar s high low close =
     (if length (so_bars s) = so_k_period s then tl (so_bars s) else so_bars s)
     @ [if close \<noteq> None then zip_option high low else None]"

definition stochastic_push ::
  "stochastic \<Rightarrow> rstr option \<Rightarrow> rstr option \<Rightarrow> rstr option \<Rightarrow> (financial_error + stochastic_point \<times> stochastic) option" where
  "stochastic_push s high low close =
     (case rbind (transpose_map fin_coefficient high) (\<lambda>h.
           rbind (transpose_map fin_coefficient low) (\<lambda>l.
           rbind (transpose_map fin_coefficient close) (\<lambda>c.
           rbind (validate_bar h l c) (\<lambda>_. Inr (h, l, c))))) of
        Inl e \<Rightarrow> Some (Inl e)
      | Inr (h, l, c) \<Rightarrow>
          let bars = stochastic_bar s h l c;
              guard = (if so_smoothing s \<noteq> None then guard_factor else 1)
          in Option.bind (percent_k bars (so_k_period s) c guard) (\<lambda>raw.
             Option.bind (case so_smoothing s of
                            None \<Rightarrow> Some (raw, None)
                          | Some (period, samples) \<Rightarrow>
                              map_option (\<lambda>(k, samples1). (k, Some (period, samples1))) (push_average samples period raw))
               (\<lambda>(k, smoothing).
             Option.bind (push_average (so_recent_k s) (so_d_period s) k) (\<lambda>(d, recent).
             Option.bind (sample_value k guard) (\<lambda>kv.
             map_option (\<lambda>dv. Inr (\<lparr>sp_k = kv, sp_d = dv\<rparr>,
                 s\<lparr>so_bars := bars, so_smoothing := smoothing, so_recent_k := recent\<rparr>))
               (sample_value d guard))))))"

section \<open>VWAP (vwap.rs)\<close>

record vwap =
  vw_period :: nat
  vw_window :: "(int \<times> int) option list"
  vw_weighted :: int
  vw_volume :: int
  vw_missing :: nat

definition vwap_new :: "nat \<Rightarrow> vwap" where
  "vwap_new period = \<lparr>vw_period = period, vw_window = [], vw_weighted = 0, vw_volume = 0, vw_missing = 0\<rparr>"

definition vw_evict :: "vwap \<Rightarrow> vwap" where
  "vw_evict w =
     (if length (vw_window w) = vw_period w then
        (case hd (vw_window w) of
           Some (weighted, amount) \<Rightarrow>
             w\<lparr>vw_window := tl (vw_window w), vw_weighted := vw_weighted w - weighted, vw_volume := vw_volume w - amount\<rparr>
         | None \<Rightarrow> w\<lparr>vw_window := tl (vw_window w), vw_missing := vw_missing w - 1\<rparr>)
      else w)"

definition vw_advance :: "vwap \<Rightarrow> (int \<times> int) option \<Rightarrow> vwap" where
  "vw_advance w point =
     (let w1 = vw_evict w;
          w2 = (case point of
                  Some (weighted, amount) \<Rightarrow> w1\<lparr>vw_weighted := vw_weighted w1 + weighted, vw_volume := vw_volume w1 + amount\<rparr>
                | None \<Rightarrow> w1\<lparr>vw_missing := vw_missing w1 + 1\<rparr>)
      in w2\<lparr>vw_window := vw_window w2 @ [point]\<rparr>)"

definition vwap_report :: "vwap \<Rightarrow> financial_value option" where
  "vwap_report w =
     (if vw_missing w > 0 then Some FvMissing
      else if length (vw_window w) < vw_period w then Some FvWarmup
      else if vw_volume w = 0 then Some FvUndefined
      else map_option fv_from_coefficient (round_ratio (vw_weighted w) (vw_volume w)))"

definition vwap_point :: "rstr option \<Rightarrow> rstr option \<Rightarrow> financial_error + (int \<times> int) option" where
  "vwap_point price amount =
     rbind (transpose_map fin_coefficient price) (\<lambda>p.
     rbind (volume amount) (\<lambda>a. Inr (map_option (\<lambda>(x, y). (x * y, y)) (zip_option p a))))"

definition vwap_push :: "vwap \<Rightarrow> rstr option \<Rightarrow> rstr option \<Rightarrow> (financial_error + financial_value \<times> vwap) option" where
  "vwap_push w price amount =
     (case vwap_point price amount of
        Inl e \<Rightarrow> Some (Inl e)
      | Inr point \<Rightarrow>
          let w1 = vw_advance w point in map_option (\<lambda>v. Inr (v, w1)) (vwap_report w1))"

record session_vwap =
  sv_previous_start :: "nat option"
  sv_weighted :: int
  sv_volume :: int

definition session_vwap_new :: session_vwap where
  "session_vwap_new = \<lparr>sv_previous_start = None, sv_weighted = 0, sv_volume = 0\<rparr>"

definition day_ns :: nat where
  "day_ns = 86400000000000"

definition sv_roll :: "session_vwap \<Rightarrow> nat \<Rightarrow> financial_error + session_vwap" where
  "sv_roll v start_ns =
     (case sv_previous_start v of
        None \<Rightarrow> Inr v
      | Some previous \<Rightarrow>
          if start_ns \<le> previous then Inl InvalidTimestampOrder
          else if start_ns div day_ns \<noteq> previous div day_ns then Inr (v\<lparr>sv_weighted := 0, sv_volume := 0\<rparr>)
          else Inr v)"

definition session_vwap_push ::
  "session_vwap \<Rightarrow> nat \<Rightarrow> rstr \<Rightarrow> rstr \<Rightarrow> rstr \<Rightarrow> rstr \<Rightarrow> (financial_error + financial_value \<times> session_vwap) option" where
  "session_vwap_push v start_ns high low close amount =
     (case rbind (fin_coefficient high) (\<lambda>h. rbind (fin_coefficient low) (\<lambda>l.
           rbind (fin_coefficient close) (\<lambda>c.
           rbind (validate_bar (Some h) (Some l) (Some c)) (\<lambda>_.
           rbind (volume (Some amount)) (\<lambda>a.
           rbind (sv_roll v start_ns) (\<lambda>v1. Inr (h, l, c, a, v1))))))) of
        Inl e \<Rightarrow> Some (Inl e)
      | Inr (h, l, c, a, v1) \<Rightarrow>
          (case a of
             None \<Rightarrow> None
           | Some amt \<Rightarrow>
               let v2 = v1\<lparr>sv_previous_start := Some start_ns, sv_weighted := sv_weighted v1 + (h + l + c) * amt,
                           sv_volume := sv_volume v1 + amt\<rparr>
               in if sv_volume v2 = 0 then Some (Inr (FvUndefined, v2))
                  else map_option (\<lambda>r. Inr (fv_from_coefficient r, v2))
                         (round_ratio (sv_weighted v2) (sv_volume v2 * 3))))"

end
