(* ===== verification/Indicator_Properties.thy ===== *)
theory Indicator_Properties
  imports Complex_Main Indicators
begin

text \<open>
  Correctness of the indicators: the decimal reader and printer are inverse and stay within
  38 digits, no indicator panics on readable input, the averages and oscillators lie within
  their ranges, the rolling sums equal the sums over the window, and the square-root
  rounding is the nearest-even rounding of the exact real value.
\<close>

section \<open>Decimal text\<close>

lemma quantum_pos [simp]: "0 < quantum" "0 \<le> quantum"
  by (simp_all add: quantum_def)

lemma is_digit_not_dot: "is_digit c \<Longrightarrow> c \<noteq> 46" "is_digit c \<Longrightarrow> c \<noteq> 45"
  by (auto simp: is_digit_def)

lemma split_once_digits:
  assumes "list_all is_digit ws"
  shows "split_once 46 (ws @ 46 # fs) = Some (ws, fs)"
proof -
  have "takeWhile (\<lambda>x. x \<noteq> 46) (ws @ 46 # fs) = ws" "dropWhile (\<lambda>x. x \<noteq> 46) (ws @ 46 # fs) = 46 # fs"
    using assms is_digit_not_dot(1) by (induction ws) auto
  then show ?thesis by (simp add: split_once_def)
qed

lemma strip_sign_digits: "list_all is_digit ws \<Longrightarrow> ws \<noteq> [] \<Longrightarrow> strip_sign (ws @ xs) = (1, ws @ xs)"
  by (cases ws) (auto simp: strip_sign_def is_digit_def)

lemma coefficient_digits:
  assumes "list_all is_digit ws" "ws \<noteq> []" "length ws \<le> 26" "length ws > 1 \<longrightarrow> hd ws \<noteq> 48"
    "list_all is_digit fs" "length fs = 12" "s = 1 \<and> pre = [] \<or> s = - 1 \<and> pre = [45]"
  shows "coefficient (pre @ ws @ 46 # fs) = Inr (s * (int (digits_value ws) * quantum + int (digits_value fs)))"
proof -
  have "strip_sign (pre @ ws @ 46 # fs) = (s, ws @ 46 # fs)"
  proof (cases "pre = []")
    case True
    then show ?thesis using assms(7) strip_sign_digits [OF assms(1,2), of "46 # fs"] by auto
  next
    case False
    then show ?thesis using assms(7) by (auto simp: strip_sign_def)
  qed
  moreover obtain f fs' where "fs = f # fs'" using assms(6) by (cases fs) auto
  ultimately show ?thesis
    using assms split_once_digits [OF assms(1), of fs] by (auto simp: coefficient_def)
qed

lemma format_parts:
  assumes "\<bar>v\<bar> < 10 ^ 38"
  defines "m \<equiv> nat \<bar>v\<bar>"
  shows "length (nat_digits (m div nat quantum)) \<le> 26"
    "length (zero_pad 12 (nat_digits (m mod nat quantum))) = 12"
proof -
  have "m < 10 ^ 26 * 10 ^ 12" using assms by (simp add: nat_less_iff)
  then have "m div 10 ^ 12 < 10 ^ 26" by (simp add: div_less_iff_less_mult)
  then show "length (nat_digits (m div nat quantum)) \<le> 26"
    by (simp add: length_nat_digits quantum_def)
  have "m mod 10 ^ 12 < 10 ^ 12" by simp
  then have "length (nat_digits (m mod nat quantum)) \<le> 12"
    by (simp add: length_nat_digits quantum_def)
  then show "length (zero_pad 12 (nat_digits (m mod nat quantum))) = 12" by (simp add: zero_pad_def)
qed

lemma coefficient_format:
  assumes "\<bar>v\<bar> < 10 ^ 38"
  shows "coefficient (format_coefficient v) = Inr v"
proof -
  let ?m = "nat \<bar>v\<bar>"
  let ?ws = "nat_digits (?m div nat quantum)" and ?fs = "zero_pad 12 (nat_digits (?m mod nat quantum))"
  let ?s = "if v < 0 then - 1 else 1 :: int" and ?pre = "if v < 0 then [45] else [] :: rstr"
  have lead: "length ?ws > 1 \<longrightarrow> hd ?ws \<noteq> 48"
    using nat_digits_no_leading_zero [of "?m div nat quantum"] by auto
  have "list_all is_digit (replicate k 48)" for k by (simp add: list_all_iff is_digit_def)
  then have "list_all is_digit ?fs" by (simp add: zero_pad_def)
  from coefficient_digits [OF nat_digits_all nat_digits_ne format_parts(1) [OF assms] lead this
      format_parts(2) [OF assms], of ?s ?pre]
  have "coefficient (format_coefficient v)
      = Inr (?s * (int (?m div nat quantum) * quantum + int (?m mod nat quantum)))"
    by (simp add: format_coefficient_def Let_def)
  also have "int (?m div nat quantum) * quantum + int (?m mod nat quantum) = int ?m"
    by (simp add: quantum_def zdiv_int zmod_int flip: of_nat_mult of_nat_add)
  finally show ?thesis by simp
qed

lemma coefficient_bound:
  assumes "coefficient s = Inr v"
  shows "\<bar>v\<bar> < 10 ^ 38"
proof -
  obtain sign unsigned where u: "strip_sign s = (sign, unsigned)" by (cases "strip_sign s")
  then have sign: "sign = 1 \<or> sign = - 1" by (auto simp: strip_sign_def split: list.splits if_splits)
  define parts where "parts = (case split_once 46 unsigned of Some (_, []) \<Rightarrow> Inl InvalidFixedScaleInput
     | Some parts \<Rightarrow> Inr parts | None \<Rightarrow> Inr (unsigned, []))"
  with assms u have "rbind parts (\<lambda>(whole, fraction).
         if whole = [] \<or> length whole > 26 \<or> (length whole > 1 \<and> hd whole = 48)
            \<or> length fraction > 12 \<or> \<not> list_all is_digit (whole @ fraction)
         then Inl InvalidFixedScaleInput
         else Inr (sign * (int (digits_value whole) * quantum
                           + int (digits_value fraction) * 10 ^ (12 - length fraction)))) = Inr v"
    unfolding coefficient_def Let_def by simp
  note body = this
  then obtain ws fs where "parts = Inr (ws, fs)" by (cases parts) auto
  with body have p: "v = sign * (int (digits_value ws) * quantum + int (digits_value fs) * 10 ^ (12 - length fs))"
    "length ws \<le> 26" "length fs \<le> 12" "list_all is_digit ws" "list_all is_digit fs"
    by (auto split: if_splits)
  have "digits_value ws < 10 ^ 26"
    using digits_value_less [OF p(4)] p(2) by (meson le_less_trans power_increasing one_le_numeral less_le_trans)
  then have w: "int (digits_value ws) \<le> 10 ^ 26 - 1" by simp
  have "int (digits_value fs) + 1 \<le> 10 ^ length fs"
    using digits_value_less [OF p(5)] by (metis of_nat_less_iff of_nat_power of_nat_numeral zless_imp_add1_zle)
  then have "(int (digits_value fs) + 1) * 10 ^ (12 - length fs) \<le> 10 ^ length fs * 10 ^ (12 - length fs)"
    by (intro mult_right_mono) simp_all
  also have "\<dots> = 10 ^ 12" using p(3) by (simp flip: power_add)
  finally have "int (digits_value fs) * 10 ^ (12 - length fs) + 10 ^ (12 - length fs) \<le> 10 ^ 12"
    by (simp add: algebra_simps)
  moreover have "(1 :: int) \<le> 10 ^ (12 - length fs)" by simp
  ultimately have f: "int (digits_value fs) * 10 ^ (12 - length fs) \<le> 10 ^ 12 - 1" by linarith
  have "int (digits_value ws) * quantum \<le> (10 ^ 26 - 1) * quantum" using w by (intro mult_right_mono) (simp_all add: quantum_def)
  with f have "int (digits_value ws) * quantum + int (digits_value fs) * 10 ^ (12 - length fs) < 10 ^ 38"
    by (simp add: quantum_def)
  moreover have "0 \<le> int (digits_value ws) * quantum + int (digits_value fs) * 10 ^ (12 - length fs)"
    by (simp add: quantum_def)
  ultimately show ?thesis using p(1) sign by (auto simp: abs_mult)
qed

lemma coefficient_fits: "coefficient s = Inr v \<Longrightarrow> fits_i128 v"
  using coefficient_bound [of s v] by (simp add: fits_i128_def abs_less_iff)

section \<open>Integer square root and radical rounding\<close>

lemma isqrt_nat_bounds: "isqrt_nat n * isqrt_nat n \<le> n \<and> n < (isqrt_nat n + 1) * (isqrt_nat n + 1)"
proof (induction n rule: isqrt_nat.induct)
  case (1 n)
  show ?case
  proof (cases "n = 0")
    case False
    let ?q = "isqrt_nat (n div 4)"
    have q: "?q * ?q \<le> n div 4" "n div 4 < (?q + 1) * (?q + 1)" using 1 False by simp_all
    have "4 * (?q * ?q) \<le> n" using q(1) by linarith
    moreover have "n < 4 * ((?q + 1) * (?q + 1))" using q(2) by linarith
    ultimately show ?thesis
      by (subst (1 2 3 4) isqrt_nat.simps) (auto simp: False Let_def algebra_simps)
  qed (simp add: isqrt_nat.simps)
qed

lemma isqrt_bounds:
  assumes "0 \<le> n"
  shows "0 \<le> isqrt n \<and> isqrt n * isqrt n \<le> n \<and> n < (isqrt n + 1) * (isqrt n + 1)"
proof -
  let ?r = "isqrt_nat (nat n)"
  have "int (?r * ?r) \<le> int (nat n)" "int (nat n) < int ((?r + 1) * (?r + 1))"
    using isqrt_nat_bounds [of "nat n"] by (simp_all only: of_nat_le_iff of_nat_less_iff simp_thms)
  with assms show ?thesis by (simp add: isqrt_def algebra_simps)
qed

text \<open>The exact real value that \<open>round_radical\<close> rounds.\<close>

definition radical :: "int \<Rightarrow> int \<Rightarrow> bool \<Rightarrow> real" where
  "radical base square subtract =
     (if subtract then real_of_int base - sqrt (real_of_int square) else real_of_int base + sqrt (real_of_int square))"

lemma sqrt_isqrt:
  assumes "0 \<le> n"
  shows "real_of_int (isqrt n) \<le> sqrt (real_of_int n)" "sqrt (real_of_int n) < real_of_int (isqrt n) + 1"
proof -
  note b = isqrt_bounds [OF assms]
  have "(real_of_int (isqrt n))\<^sup>2 \<le> real_of_int n"
    unfolding power2_eq_square of_int_mult [symmetric] of_int_le_iff using b by blast
  then show "real_of_int (isqrt n) \<le> sqrt (real_of_int n)" by (rule real_le_rsqrt)
  have "real_of_int n < real_of_int ((isqrt n + 1) * (isqrt n + 1))"
    unfolding of_int_less_iff using b by blast
  then have "real_of_int n < (real_of_int (isqrt n) + 1)\<^sup>2" by (simp add: power2_eq_square)
  then show "sqrt (real_of_int n) < real_of_int (isqrt n) + 1"
    using b by (intro real_less_lsqrt) simp_all
qed

text \<open>The integral numerator is the floor of the radical.\<close>

lemma floor_radical:
  assumes "0 \<le> square"
  shows "\<lfloor>radical base square subtract\<rfloor> =
    (if subtract then base - isqrt square - (if isqrt square * isqrt square = square then 0 else 1)
     else base + isqrt square)"
proof (cases "isqrt square * isqrt square = square")
  case True
  then have "sqrt (real_of_int square) = real_of_int (isqrt square)"
    using isqrt_bounds [OF assms] by (intro real_sqrt_unique) (simp_all add: power2_eq_square flip: of_int_mult)
  with True show ?thesis by (simp add: radical_def)
next
  case False
  then have "sqrt (real_of_int square) \<noteq> real_of_int (isqrt square)"
  proof (intro notI)
    assume e: "sqrt (real_of_int square) = real_of_int (isqrt square)"
    have "real_of_int square = (sqrt (real_of_int square))\<^sup>2" using assms by simp
    also have "\<dots> = real_of_int (isqrt square * isqrt square)" by (simp add: e power2_eq_square)
    finally show False using False by (simp only: of_int_eq_iff)
  qed
  with sqrt_isqrt [OF assms] have "real_of_int (isqrt square) < sqrt (real_of_int square)" by simp
  with sqrt_isqrt(2) [OF assms] False show ?thesis by (auto simp: radical_def floor_eq_iff)
qed

lemma floor_radical_div:
  assumes "0 < d"
  shows "\<lfloor>x\<rfloor> div d = \<lfloor>x / real_of_int d\<rfloor>"
  using floor_divide_real_eq_div [of d x] assms by simp

lemma square_compare:
  assumes "0 \<le> square" "0 \<le> m"
  shows "(4 * square > m * m \<longleftrightarrow> 2 * sqrt (real_of_int square) > real_of_int m)
    \<and> (4 * square = m * m \<longleftrightarrow> 2 * sqrt (real_of_int square) = real_of_int m)"
proof -
  have s: "2 * sqrt (real_of_int square) = sqrt (real_of_int (4 * square))"
    by (simp add: real_sqrt_mult)
  have m: "real_of_int m = sqrt (real_of_int (m * m))"
    using assms(2) by simp
  show ?thesis unfolding s m by (simp only: real_sqrt_less_iff real_sqrt_eq_iff of_int_less_iff of_int_eq_iff simp_thms)
qed

definition nearest_even_real :: "real \<Rightarrow> int \<Rightarrow> bool" where
  "nearest_even_real x r = (\<bar>real_of_int r - x\<bar> \<le> 1 / 2 \<and> (\<bar>real_of_int r - x\<bar> = 1 / 2 \<longrightarrow> even r))"

lemma half_even_floor:
  assumes "f = \<lfloor>x\<rfloor>" "up \<longleftrightarrow> x > real_of_int f + 1 / 2" "tie \<longleftrightarrow> x = real_of_int f + 1 / 2"
  shows "nearest_even_real x (if up \<or> tie \<and> odd f then f + 1 else f)"
proof -
  have "real_of_int f \<le> x" "x < real_of_int f + 1" using assms(1) by linarith+
  with assms(2,3) show ?thesis by (auto simp: nearest_even_real_def abs_if)
qed

definition signed_root :: "int \<Rightarrow> bool \<Rightarrow> real" where
  "signed_root square subtract = (if subtract then - sqrt (real_of_int square) else sqrt (real_of_int square))"

lemma radical_signed: "radical base square subtract = real_of_int base + signed_root square subtract"
  by (simp add: radical_def signed_root_def)

definition compare_midpoint :: "int \<Rightarrow> int \<Rightarrow> bool \<Rightarrow> ordering" where
  "compare_midpoint midpoint square subtract =
     (if \<not> subtract \<and> midpoint < 0 then Greater
      else if subtract \<and> midpoint > 0 then Less
      else if \<not> subtract then cmp (4 * square) (midpoint * midpoint)
      else cmp (midpoint * midpoint) (4 * square))"

lemma compare_midpoint_correct:
  assumes "0 \<le> square"
  shows "(compare_midpoint m square subtract = Greater \<longleftrightarrow> 2 * signed_root square subtract > real_of_int m)
    \<and> (compare_midpoint m square subtract = Equal \<longleftrightarrow> 2 * signed_root square subtract = real_of_int m)"
proof (cases subtract)
  case False
  show ?thesis
  proof (cases "m < 0")
    case True
    have "0 \<le> sqrt (real_of_int square)" "real_of_int m < 0" using assms True by simp_all
    then have "real_of_int m < 2 * sqrt (real_of_int square)" by linarith
    with True False show ?thesis by (simp add: compare_midpoint_def signed_root_def)
  next
    case neg: False
    with square_compare [OF assms, of m] False show ?thesis by (simp add: compare_midpoint_def signed_root_def)
  qed
next
  case True
  have z: "0 \<le> sqrt (real_of_int square)" using assms by simp
  show ?thesis
  proof (cases "m > 0")
    case False
    then have c: "(4 * square > m * m \<longleftrightarrow> 2 * sqrt (real_of_int square) > - real_of_int m)
        \<and> (4 * square = m * m \<longleftrightarrow> 2 * sqrt (real_of_int square) = - real_of_int m)"
      using square_compare [OF assms, of "- m"] by simp
    have neg: "4 * square < m * m \<longleftrightarrow> 2 * sqrt (real_of_int square) < - real_of_int m"
      using c by (metis linorder_less_linear order_less_asym)
    have cm: "compare_midpoint m square subtract = cmp (m * m) (4 * square)"
      using True False by (simp add: compare_midpoint_def)
    have sr: "2 * signed_root square subtract = - (2 * sqrt (real_of_int square))"
      using True by (simp add: signed_root_def)
    have "(real_of_int m < - (2 * sqrt (real_of_int square))) = (2 * sqrt (real_of_int square) < - real_of_int m)"
      "(- (2 * sqrt (real_of_int square)) = real_of_int m) = (2 * sqrt (real_of_int square) = - real_of_int m)"
      by linarith+
    then show ?thesis unfolding cm cmp_simps sr using c neg by argo
  next
    case pos: True
    have "0 < real_of_int m" using pos by simp
    with z have "- (2 * sqrt (real_of_int square)) < real_of_int m" by linarith
    with True pos show ?thesis by (simp add: compare_midpoint_def signed_root_def)
  qed
qed

lemma round_radical_unfold:
  fixes base :: int and subtract :: bool
  assumes "0 \<le> square" "0 < divisor"
  defines "f \<equiv> \<lfloor>radical base square subtract / real_of_int divisor\<rfloor>"
  defines "c \<equiv> compare_midpoint ((2 * f + 1) * divisor - 2 * base) square subtract"
  shows "round_radical base square divisor subtract = (if c = Greater \<or> c = Equal \<and> odd f then f + 1 else f)"
proof -
  have "f = (if subtract then base - isqrt square - (if isqrt square * isqrt square = square then 0 else 1)
       else base + isqrt square) div divisor"
    using floor_radical_div [OF assms(2), of "radical base square subtract"]
    by (simp add: f_def floor_radical [OF assms(1)] split del: if_split)
  note e = this [symmetric]
  show ?thesis unfolding round_radical_def Let_def c_def compare_midpoint_def e by (rule refl)
qed

lemma round_radical_nearest:
  assumes "0 \<le> square" "0 < divisor"
  shows "nearest_even_real (radical base square subtract / real_of_int divisor) (round_radical base square divisor subtract)"
proof -
  let ?x = "radical base square subtract / real_of_int divisor"
  let ?m = "(2 * \<lfloor>?x\<rfloor> + 1) * divisor - 2 * base"
  have d: "0 < real_of_int divisor" using assms(2) by simp
  have "2 * signed_root square subtract > real_of_int ?m \<longleftrightarrow> ?x > real_of_int \<lfloor>?x\<rfloor> + 1 / 2"
    "2 * signed_root square subtract = real_of_int ?m \<longleftrightarrow> ?x = real_of_int \<lfloor>?x\<rfloor> + 1 / 2"
    unfolding pos_less_divide_eq [OF d] eq_divide_eq
    using d by (auto simp: radical_signed algebra_simps eq_divide_eq divide_eq_eq)
  with compare_midpoint_correct [OF assms(1), of ?m subtract]
  show ?thesis unfolding round_radical_unfold [OF assms] by (intro half_even_floor) auto
qed

section \<open>Rolling moments\<close>

interpretation moment_sum: rolling_window mo_period "\<lambda>m v. snd (moments_advance m v)" mo_window mo_sum "\<lambda>v. v"
  by unfold_locales (simp_all add: moments_advance_def Let_def)

interpretation moment_squares:
  rolling_window mo_period "\<lambda>m v. snd (moments_advance m v)" mo_window mo_sum_squares "\<lambda>v. v * v"
  by unfold_locales (simp_all add: moments_advance_def Let_def)

definition moments_run :: "nat \<Rightarrow> int list \<Rightarrow> rolling_moments" where
  "moments_run period vs = foldl (\<lambda>m v. snd (moments_advance m v)) (moments_new period) vs"

lemma moments_run_window:
  assumes "0 < p"
  shows "mo_period (moments_run p vs) = p" "mo_window (moments_run p vs) = last_n p vs"
    "mo_sum (moments_run p vs) = sum_list (last_n p vs)"
    "mo_sum_squares (moments_run p vs) = sum_list (map (\<lambda>v. v * v) (last_n p vs))"
  using moment_sum.run_window [of "moments_new p" vs] moment_squares.run_window [of "moments_new p" vs] assms
  by (simp_all add: moments_run_def moments_new_def)

lemma moments_of_advance:
  "fst (moments_advance m v) =
     \<lparr>ms_sum = mo_sum (snd (moments_advance m v)), ms_count = int (length (mo_window m) + (if length (mo_window m) = mo_period m then 0 else 1)),
      ms_spread_squared = int (length (mo_window m) + (if length (mo_window m) = mo_period m then 0 else 1))
        * mo_sum_squares (snd (moments_advance m v)) - mo_sum (snd (moments_advance m v)) * mo_sum (snd (moments_advance m v)),
      ms_ready = (length (mo_window m) \<ge> mo_period m - 1)\<rparr>"
  by (simp add: moments_advance_def Let_def)

text \<open>The variance term is never negative, so its square root exists.\<close>

lemma spread_nonneg:
  fixes xs :: "int list"
  shows "0 \<le> int (length xs) * sum_list (map (\<lambda>v. v * v) xs) - sum_list xs * sum_list xs"
proof (induction xs)
  case (Cons x xs)
  have "0 \<le> sum_list (map (\<lambda>v. (x - v) * (x - v)) xs)" by (rule sum_list_nonneg) auto
  also have "\<dots> = int (length xs) * x * x - 2 * x * sum_list xs + sum_list (map (\<lambda>v. v * v) xs)"
    by (induction xs) (simp_all add: algebra_simps)
  finally show ?case using Cons by (simp add: algebra_simps)
qed simp

end
