(* ===== verification/Indicator_Ranges.thy ===== *)
theory Indicator_Ranges
  imports Indicator_Properties
begin

text \<open>
  No indicator panics, whatever text it is fed, and its outputs lie in their documented
  ranges. The locale \<open>panic_free\<close> states what one push promises under an invariant of the
  indicator; every indicator of the crate interprets it.
\<close>

section \<open>Feeding an indicator\<close>

fun feed :: "('s \<Rightarrow> 'i \<Rightarrow> ('e + 'o \<times> 's) option) \<Rightarrow> 's \<Rightarrow> 'i list \<Rightarrow> ('s \<times> 'o list) option" where
  "feed push s [] = Some (s, [])"
| "feed push s (i # is) =
     (case push s i of
        None \<Rightarrow> None
      | Some (Inl _) \<Rightarrow> feed push s is
      | Some (Inr (out, s')) \<Rightarrow> map_option (\<lambda>(t, outs). (t, out # outs)) (feed push s' is))"

locale panic_free =
  fixes push :: "'s \<Rightarrow> 'i \<Rightarrow> ('e + 'o \<times> 's) option" and inv :: "'s \<Rightarrow> bool" and good :: "'o \<Rightarrow> bool"
  assumes push_total: "inv s \<Longrightarrow> push s i \<noteq> None"
    and push_keeps: "inv s \<Longrightarrow> push s i = Some (Inr (out, s')) \<Longrightarrow> inv s' \<and> good out"
begin

lemma feed_total: "inv s \<Longrightarrow> \<exists>t outs. feed push s is = Some (t, outs) \<and> inv t \<and> list_all good outs"
proof (induction "is" arbitrary: s)
  case (Cons i "is")
  obtain r where r: "push s i = Some r" using push_total [OF Cons.prems, of i] by auto
  show ?case
  proof (cases r)
    case (Inl e)
    with r Cons show ?thesis by simp
  next
    case (Inr p)
    obtain out s' where "p = (out, s')" by (cases p)
    with r Inr push_keeps [OF Cons.prems] have k: "push s i = Some (Inr (out, s'))" "inv s' \<and> good out" by auto
    with Cons.IH [of s'] show ?thesis by fastforce
  qed
qed simp

end

section \<open>Averages\<close>

definition price_bound :: int where
  "price_bound = 10 ^ 38 - 1"

definition in_carrier :: "rstr \<Rightarrow> bool" where
  "in_carrier t = (\<exists>v. \<bar>v\<bar> < 10 ^ 38 \<and> t = format_coefficient v)"

lemma coefficient_price: "coefficient s = Inr c \<Longrightarrow> - price_bound \<le> c \<and> c \<le> price_bound"
  using coefficient_bound [of s c] by (simp add: price_bound_def abs_less_iff)

lemma bound_fits [simp]: "fits_i128 price_bound" "fits_i128 (- price_bound)"
  by (simp_all add: fits_i128_def price_bound_def)

lemma bound_carrier: "- price_bound \<le> v \<Longrightarrow> v \<le> price_bound \<Longrightarrow> \<bar>v\<bar> < 10 ^ 38"
  by (simp add: price_bound_def)

definition priced :: "int list \<Rightarrow> bool" where
  "priced xs = (\<forall>x \<in> set xs. - price_bound \<le> x \<and> x \<le> price_bound)"

lemma priced_roll: "priced w \<Longrightarrow> - price_bound \<le> c \<Longrightarrow> c \<le> price_bound \<Longrightarrow>
   priced ((if b then tl w else w) @ [c])"
  by (cases w) (auto simp: priced_def)

lemma priced_sum: "priced w \<Longrightarrow>
   - price_bound * int (length w) \<le> sum_list w \<and> sum_list w \<le> price_bound * int (length w)"
  unfolding priced_def by (rule sum_list_bounds)

definition rm_ok :: "rolling_mean \<Rightarrow> bool" where
  "rm_ok m = (0 < rm_period m \<and> priced (rm_window m) \<and> rm_sum m = sum_list (rm_window m))"

lemma sum_list_tl: "(w :: int list) \<noteq> [] \<Longrightarrow> sum_list (tl w) = sum_list w - hd w"
  by (cases w) simp_all

lemma rm_advance_ok:
  assumes "rm_ok m" "- price_bound \<le> c" "c \<le> price_bound"
  shows "rm_ok (rm_advance m c) \<and> rm_window (rm_advance m c) \<noteq> []"
proof -
  have "rm_window m \<noteq> []" if "length (rm_window m) = rm_period m" using that assms(1) by (auto simp: rm_ok_def)
  then show ?thesis
    using assms priced_roll [of "rm_window m" c] sum_list_tl [of "rm_window m"]
    by (auto simp: rm_ok_def mean_window.per_step mean_window.win_step mean_window.acc_step)
qed

lemma rolling_mean_total:
  assumes "rm_ok m" "- price_bound \<le> c" "c \<le> price_bound"
  shows "\<exists>v. rolling_mean_push m c = Some (v, rm_advance m c) \<and> \<bar>v\<bar> < 10 ^ 38 \<and> rm_ok (rm_advance m c)"
proof -
  let ?m = "rm_advance m c"
  note ok = rm_advance_ok [OF assms]
  then have "0 < int (length (rm_window ?m))" by simp
  with ok priced_sum [of "rm_window ?m"] obtain v where
    "rounded_mean (rm_sum ?m) (int (length (rm_window ?m))) = Some v" "- price_bound \<le> v" "v \<le> price_bound"
    using rounded_mean_ok [of "int (length (rm_window ?m))" "- price_bound" "rm_sum ?m" price_bound]
    by (auto simp: rm_ok_def)
  with ok bound_carrier show ?thesis by (auto simp: rolling_mean_push_def Let_def)
qed

interpretation sma_feed: panic_free sma_push rm_ok "\<lambda>pt. in_carrier (ap_value pt)"
proof unfold_locales
  fix m price
  assume ok: "rm_ok m"
  have "\<exists>v b. sma_push m price = Some (Inr (\<lparr>ap_value = format_coefficient v, ap_ready = b\<rparr>, rm_advance m c)) \<and> \<bar>v\<bar> < 10 ^ 38
      \<and> rm_ok (rm_advance m c)" if "coefficient price = Inr c" for c
    using rolling_mean_total [OF ok] coefficient_price [OF that] that
    by (fastforce simp: sma_push_def simple_average_push_def)
  then show "sma_push m price \<noteq> None"
    "sma_push m price = Some (Inr (pt, m')) \<Longrightarrow> rm_ok m' \<and> in_carrier (ap_value pt)" for pt m'
    by (cases "coefficient price"; force simp: sma_push_def in_carrier_def)+
qed

definition wm_ok :: "weighted_mean \<Rightarrow> bool" where
  "wm_ok m = (\<exists>vs p. 0 < p \<and> priced vs \<and> m = foldl wm_advance (weighted_mean_new p) vs)"

lemma priced_fits: "priced vs \<Longrightarrow> \<forall>x \<in> set vs. fits_i128 x"
  by (force simp: priced_def fits_i128_def price_bound_def)

lemma weighted_mean_total:
  assumes "0 < p" "priced (vs @ [v])"
  shows "\<exists>out. weighted_mean_push (foldl wm_advance (weighted_mean_new p) vs) v =
     Some (out, foldl wm_advance (weighted_mean_new p) (vs @ [v])) \<and> (\<forall>r. out = Some r \<longrightarrow> \<bar>r\<bar> < 10 ^ 38)"
proof -
  let ?w = "last_n p (vs @ [v])" and ?m = "foldl wm_advance (weighted_mean_new p) (vs @ [v])"
  have m: "wm_period ?m = p" "wm_window ?m = ?w" "wm_weighted_sum ?m = weighted_total ?w"
    using weighted_mean_run [OF assms(1)] weighted_run [OF assms(1)] by blast+
  show ?thesis
  proof (cases "length ?w = p")
    case True
    have "\<forall>x \<in> set ?w. - price_bound \<le> x \<and> x \<le> price_bound"
      using assms(2) set_last_n [of p "vs @ [v]"] unfolding priced_def by blast
    from weighted_total_bounds [OF this] True obtain r where
      "rounded_mean (weighted_total ?w) (\<Sum>i < p. int (i + 1)) = Some r" "- price_bound \<le> r" "r \<le> price_bound"
      using rounded_mean_ok [OF triangle_pos [OF assms(1)], of "- price_bound" "weighted_total ?w" price_bound] by auto
    with m True bound_carrier show ?thesis
      by (intro exI [of _ "Some r"]) (simp add: weighted_mean_push_def Let_def triangle_div del: length_last_n)
  next
    case False
    with m show ?thesis by (intro exI [of _ None]) (simp add: weighted_mean_push_def Let_def del: length_last_n)
  qed
qed

interpretation wma_feed: panic_free wma_push wm_ok "\<lambda>out. \<forall>t. out = Some t \<longrightarrow> in_carrier t"
proof unfold_locales
  fix m price
  assume "wm_ok m"
  then obtain vs p where m: "0 < p" "priced vs" "m = foldl wm_advance (weighted_mean_new p) vs" by (auto simp: wm_ok_def)
  have "\<exists>out m'. wma_push m price = Some (Inr (out, m')) \<and> wm_ok m' \<and> (\<forall>t. out = Some t \<longrightarrow> in_carrier t)"
    if "coefficient price = Inr c" for c
  proof -
    have pr: "priced (vs @ [c])" using m(2) coefficient_price [OF that] by (auto simp: priced_def)
    then have "wm_ok (foldl wm_advance (weighted_mean_new p) (vs @ [c]))" using m(1) unfolding wm_ok_def by blast
    with weighted_mean_total [OF m(1) pr] m(3) that show ?thesis by (auto simp: wma_push_def in_carrier_def)
  qed
  then show "wma_push m price \<noteq> None"
    "wma_push m price = Some (Inr (out, m')) \<Longrightarrow> wm_ok m' \<and> (\<forall>t. out = Some t \<longrightarrow> in_carrier t)" for out m'
    by (cases "coefficient price"; force simp: wma_push_def)+
qed

section \<open>Exponential averages\<close>

definition ex_ok :: "exponential_state \<Rightarrow> bool" where
  "ex_ok x = (ex_denominator x = ex_prior_weight x + 2 \<and> 0 \<le> ex_prior_weight x
     \<and> (\<forall>s. ex_prior x = Some s \<longrightarrow> - price_bound * guard_quantum \<le> s \<and> s \<le> price_bound * guard_quantum))"

lemma ex_ok_new: "0 < p \<Longrightarrow> ex_ok (exponential_new p)"
  by (simp add: ex_ok_def exponential_new_def)

lemma ex_next_total:
  assumes "ex_ok x" "- price_bound \<le> c" "c \<le> price_bound"
  shows "\<exists>s. ex_next x c = Some s \<and> - price_bound * guard_quantum \<le> s \<and> s \<le> price_bound * guard_quantum"
proof -
  let ?g = "guard_quantum" and ?B = "price_bound"
  have g: "0 < ?g" by (simp add: guard_quantum_def)
  have c: "- ?B * ?g \<le> c * ?g" "c * ?g \<le> ?B * ?g"
    using mult_right_mono [OF assms(2), of ?g] mult_right_mono [OF assms(3), of ?g] g by simp_all
  show ?thesis
  proof (cases "ex_prior x")
    case (Some s)
    define w where "w = ex_prior_weight x"
    have w: "0 \<le> w" "ex_denominator x = w + 2" using assms(1) by (simp_all add: ex_ok_def w_def)
    have s: "- ?B * ?g \<le> s" "s \<le> ?B * ?g" using assms(1) Some by (simp_all add: ex_ok_def)
    have "(- ?B * ?g) * w \<le> s * w" "s * w \<le> (?B * ?g) * w" using mult_right_mono [OF s(1) w(1)] mult_right_mono [OF s(2) w(1)] by simp_all
    then have "(- ?B * ?g) * (w + 2) \<le> s * w + 2 * (c * ?g)" "s * w + 2 * (c * ?g) \<le> (?B * ?g) * (w + 2)"
      using c by (simp_all add: distrib_left)
    from round_ratio_bounds [OF _ this] w Some show ?thesis by (auto simp: ex_next_def Let_def w_def [symmetric])
  next
    case None
    with c show ?thesis by (simp add: ex_next_def)
  qed
qed

lemma reported_total:
  assumes "- b * guard_quantum \<le> s" "s \<le> b * guard_quantum"
  shows "\<exists>v. reported s = Some v \<and> - b \<le> v \<and> v \<le> b"
  unfolding reported_def by (rule round_ratio_bounds) (use assms in \<open>simp_all add: guard_quantum_def\<close>)

lemma to_i128_carrier: "\<bar>v\<bar> < 10 ^ 38 \<Longrightarrow> to_i128 v = Some v"
  by (simp add: to_i128_def fits_i128_def abs_less_iff)

definition ema_ok :: "ema \<Rightarrow> bool" where
  "ema_ok m = ex_ok (ema_state m)"

interpretation ema_feed: panic_free ema_push ema_ok "\<lambda>pt. in_carrier (ap_value pt)"
proof unfold_locales
  fix m price
  assume ok: "ema_ok m"
  have "\<exists>pt m'. ema_push m price = Some (Inr (pt, m')) \<and> in_carrier (ap_value pt) \<and> ema_ok m'"
    if c: "coefficient price = Inr c" for c
  proof -
    obtain s where s: "ex_next (ema_state m) c = Some s" "- price_bound * guard_quantum \<le> s" "s \<le> price_bound * guard_quantum"
      using ex_next_total [of "ema_state m" c] coefficient_price [OF c] ok by (auto simp: ema_ok_def)
    obtain v where v: "reported s = Some v" "- price_bound \<le> v" "v \<le> price_bound" using reported_total [OF s(2,3)] by auto
    have "ema_ok (m\<lparr>ema_state := ex_accept (ema_state m) s, ema_samples := k\<rparr>)" for k
      using ok s(2,3) by (simp add: ema_ok_def ex_ok_def ex_accept_def)
    with s v c to_i128_carrier bound_carrier show ?thesis by (auto simp: ema_push_def Let_def in_carrier_def)
  qed
  then show "ema_push m price \<noteq> None"
    "ema_push m price = Some (Inr (pt, m')) \<Longrightarrow> ema_ok m' \<and> in_carrier (ap_value pt)" for pt m'
    by (cases "coefficient price"; force simp: ema_push_def)+
qed

section \<open>Wilder means, RSI and ATR\<close>

definition wl_ok :: "wilder_mean \<Rightarrow> bool" where
  "wl_ok w = (0 < wl_period w \<and> 0 \<le> wl_state w)"

lemma guard_pos [simp]: "0 < guard_factor" "0 \<le> guard_factor"
  by (simp_all add: guard_factor_def)

lemma round_ratio_nonneg: "0 < d \<Longrightarrow> 0 \<le> n \<Longrightarrow> \<exists>r. round_ratio n d = Some r \<and> 0 \<le> r"
  using round_ratio_nearest_even [of d n] nearest_even_lower [of d n _ 0] by auto

lemma wilder_total:
  assumes "wl_ok w" "0 \<le> c"
  shows "\<exists>out w'. wilder_push w c = Some (out, w') \<and> wl_ok w' \<and> (\<forall>s. out = Some s \<longrightarrow> 0 \<le> s)"
proof -
  have v: "0 \<le> c * guard_factor" using assms(2) by (simp add: guard_factor_def)
  obtain a where "round_ratio (wl_state w + c * guard_factor) (int (wl_period w)) = Some a" "0 \<le> a"
    using round_ratio_nonneg [of "int (wl_period w)" "wl_state w + c * guard_factor"] assms v by (auto simp: wl_ok_def)
  moreover obtain b where "round_ratio (wl_state w * int (wl_period w - 1) + c * guard_factor) (int (wl_period w)) = Some b" "0 \<le> b"
    using round_ratio_nonneg [of "int (wl_period w)" "wl_state w * int (wl_period w - 1) + c * guard_factor"] assms v
    by (auto simp: wl_ok_def)
  ultimately show ?thesis using assms v by (auto simp: wilder_push_def Let_def wl_ok_def)
qed

definition percent_value :: "financial_value \<Rightarrow> bool" where
  "percent_value fv = (fv \<in> {FvWarmup, FvMissing, FvUndefined}
     \<or> (\<exists>v. 0 \<le> v \<and> v \<le> 100 * quantum \<and> fv = FvReady (format_coefficient v)))"

lemma percent_from_coefficient:
  "0 \<le> v \<Longrightarrow> v \<le> 100 * quantum \<Longrightarrow> fv_from_coefficient v = FvReady (format_coefficient v)"
  by (simp add: fv_from_coefficient_def to_i128_def fits_i128_def carrier_limit_def quantum_def)

definition zone_matches :: "rsi_point \<Rightarrow> bool" where
  "zone_matches pt = (rp_value pt = FvWarmup \<and> rp_zone pt = Neutral
     \<or> (\<exists>v. 0 \<le> v \<and> v \<le> 100 * quantum \<and> rp_value pt = FvReady (format_coefficient v)
          \<and> (case rp_zone pt of Oversold \<Rightarrow> v \<le> 30 * quantum | Overbought \<Rightarrow> 70 * quantum \<le> v
             | Neutral \<Rightarrow> 30 * quantum \<le> v \<and> v \<le> 70 * quantum)))"

lemma zone_matchesI:
  "0 \<le> v \<Longrightarrow> v \<le> 100 * quantum \<Longrightarrow>
   (case z of Oversold \<Rightarrow> v \<le> 30 * quantum | Overbought \<Rightarrow> 70 * quantum \<le> v
    | Neutral \<Rightarrow> 30 * quantum \<le> v \<and> v \<le> 70 * quantum) \<Longrightarrow>
   zone_matches \<lparr>rp_value = FvReady (format_coefficient v), rp_zone = z\<rparr>"
  unfolding zone_matches_def by auto

lemma rsi_report_total:
  assumes "0 \<le> g" "0 \<le> l"
  shows "\<exists>pt. rsi_report g l = Some pt \<and> zone_matches pt"
proof (cases "g + l = 0")
  case True
  then have "rsi_report g l = Some \<lparr>rp_value = FvReady (format_coefficient (50 * quantum)), rp_zone = Neutral\<rparr>"
    by (simp add: rsi_report_def percent_from_coefficient)
  moreover have "zone_matches \<lparr>rp_value = FvReady (format_coefficient (50 * quantum)), rp_zone = Neutral\<rparr>"
    by (rule zone_matchesI) simp_all
  ultimately show ?thesis by blast
next
  case False
  with assms have t: "0 < g + l" by linarith
  define n where "n = g * 100 * quantum"
  obtain r where r: "round_ratio n (g + l) = Some r" "nearest_even n (g + l) r"
    using round_ratio_nearest_even [OF t] by blast
  have low: "k * quantum \<le> r" if "k * (g + l) \<le> g * 100" for k
    using nearest_even_lower [OF t r(2), of "k * quantum"] mult_right_mono [OF that, of quantum]
    by (simp add: n_def mult_ac)
  have high: "r \<le> k * quantum" if "g * 100 \<le> k * (g + l)" for k
    using nearest_even_upper [OF t r(2), of "k * quantum"] mult_right_mono [OF that, of quantum]
    by (simp add: n_def mult_ac)
  have r0: "0 \<le> r" "r \<le> 100 * quantum" using low [of 0] high [of 100] assms by simp_all
  let ?z = "if g * 100 < (g + l) * 30 then Oversold else if g * 100 > (g + l) * 70 then Overbought else Neutral"
  have "rsi_report g l = Some \<lparr>rp_value = FvReady (format_coefficient r), rp_zone = ?z\<rparr>"
    using False r(1) percent_from_coefficient [OF r0] by (simp add: rsi_report_def Let_def n_def)
  moreover have "case ?z of Oversold \<Rightarrow> r \<le> 30 * quantum | Overbought \<Rightarrow> 70 * quantum \<le> r
      | Neutral \<Rightarrow> 30 * quantum \<le> r \<and> r \<le> 70 * quantum"
    using low [of 30] low [of 70] high [of 30] high [of 70] by (auto simp: not_less mult.commute)
  ultimately show ?thesis using zone_matchesI [OF r0] by blast
qed

definition rsi_ok :: "rsi \<Rightarrow> bool" where
  "rsi_ok r = (wl_ok (rsi_gains r) \<and> wl_ok (rsi_losses r))"

lemma rsi_push_total:
  assumes "rsi_ok r" "fin_coefficient price = Inr p"
  shows "\<exists>pt r'. rsi_push r price = Some (Inr (pt, r')) \<and> rsi_ok r' \<and> zone_matches pt"
proof (cases "rsi_previous r")
  case None
  with assms show ?thesis by (simp add: rsi_push_def rsi_ok_def rsi_warmup_def zone_matches_def)
next
  case (Some previous)
  define gain loss where "gain = (if p - previous < 0 then 0 else p - previous)"
    and "loss = (if p - previous < 0 then - (p - previous) else 0)"
  then have "(if p - previous < 0 then (0, - (p - previous)) else (p - previous, 0)) = (gain, loss)" "0 \<le> gain" "0 \<le> loss"
    by auto
  moreover obtain g gw where "wilder_push (rsi_gains r) gain = Some (g, gw)" "wl_ok gw" "\<forall>s. g = Some s \<longrightarrow> 0 \<le> s"
    using wilder_total [of "rsi_gains r" gain] assms(1) \<open>0 \<le> gain\<close> by (auto simp: rsi_ok_def)
  moreover obtain l lw where "wilder_push (rsi_losses r) loss = Some (l, lw)" "wl_ok lw" "\<forall>s. l = Some s \<longrightarrow> 0 \<le> s"
    using wilder_total [of "rsi_losses r" loss] assms(1) \<open>0 \<le> loss\<close> by (auto simp: rsi_ok_def)
  ultimately show ?thesis
    using assms(2) Some rsi_report_total
    by (cases g; cases l) (fastforce simp: rsi_push_def Let_def rsi_ok_def rsi_warmup_def zone_matches_def [of "\<lparr>rp_value = FvWarmup, rp_zone = Neutral\<rparr>"] split del: if_split)+
qed

interpretation rsi_feed: panic_free rsi_push rsi_ok zone_matches
proof unfold_locales
  fix r price
  assume "rsi_ok r"
  then show "rsi_push r price \<noteq> None"
    "rsi_push r price = Some (Inr (pt, r')) \<Longrightarrow> rsi_ok r' \<and> zone_matches pt" for pt r'
    using rsi_push_total [of r price] by (cases "fin_coefficient price"; force simp: rsi_push_def)+
qed

definition nonnegative_value :: "financial_value \<Rightarrow> bool" where
  "nonnegative_value fv = (\<forall>t. fv = FvReady t \<longrightarrow> (\<exists>v. 0 \<le> v \<and> t = format_coefficient v))"

lemma fv_nonnegative: "0 \<le> v \<Longrightarrow> nonnegative_value (fv_from_coefficient v)"
  by (auto simp: nonnegative_value_def fv_from_coefficient_def to_i128_def split: if_splits)

lemma true_range_nonneg: "l \<le> h \<Longrightarrow> 0 \<le> true_range pc h l"
  by (auto simp: true_range_def absolute_difference_def Let_def split: option.split)

lemma atr_report_total:
  assumes "0 \<le> m"
  shows "\<exists>pt. atr_report m c = Some pt \<and> nonnegative_value (at_atr pt)"
proof -
  obtain a where "round_ratio m guard_factor = Some a" "0 \<le> a" using round_ratio_nonneg [OF guard_pos(1) assms] by blast
  moreover have "\<exists>b. round_ratio (m * quantum * sgn c) (\<bar>c\<bar> * guard_factor) = Some b" if "c \<noteq> 0"
    using round_ratio_nearest_even [of "\<bar>c\<bar> * guard_factor"] that by simp blast
  ultimately show ?thesis by (cases "c = 0") (auto simp: atr_report_def fv_nonnegative)
qed

definition atr_ok :: "atr \<Rightarrow> bool" where
  "atr_ok a = wl_ok (atr_mean a)"

abbreviation atr_push3 :: "atr \<Rightarrow> rstr \<times> rstr \<times> rstr \<Rightarrow> (financial_error + atr_point \<times> atr) option" where
  "atr_push3 a bar \<equiv> atr_push a (fst bar) (fst (snd bar)) (snd (snd bar))"

interpretation atr_feed: panic_free atr_push3 atr_ok "\<lambda>pt. nonnegative_value (at_atr pt)"
proof unfold_locales
  fix a :: atr and bar :: "rstr \<times> rstr \<times> rstr"
  assume ok: "atr_ok a"
  let ?in = "rbind (fin_coefficient (fst bar)) (\<lambda>h. rbind (fin_coefficient (fst (snd bar))) (\<lambda>l.
           rbind (fin_coefficient (snd (snd bar))) (\<lambda>c.
           rbind (validate_bar (Some h) (Some l) (Some c)) (\<lambda>_. Inr (h, l, c)))))"
  have "\<exists>pt a'. atr_push3 a bar = Some (Inr (pt, a')) \<and> atr_ok a' \<and> nonnegative_value (at_atr pt)"
    if bar: "?in = Inr (h, l, c)" for h l c
  proof -
    have "l \<le> h" using bar by (auto simp: result_simps validate_bar_def some_and_def zip_option_def split: if_splits)
    then obtain out w where "wilder_push (atr_mean a) (true_range (atr_previous_close a) h l) = Some (out, w)" "wl_ok w"
      "\<forall>s. out = Some s \<longrightarrow> 0 \<le> s"
      using wilder_total [OF _ true_range_nonneg, of "atr_mean a" l h "atr_previous_close a"] ok by (auto simp: atr_ok_def)
    with bar atr_report_total show ?thesis
      by (cases out) (fastforce simp: atr_push_def Let_def atr_ok_def nonnegative_value_def)+
  qed
  then show "atr_push3 a bar \<noteq> None"
    "atr_push3 a bar = Some (Inr (pt, a')) \<Longrightarrow> atr_ok a' \<and> nonnegative_value (at_atr pt)" for pt a'
    by (cases ?in; force simp: atr_push_def)+
qed

section \<open>MACD and the moment indicators\<close>

definition macd_ok :: "macd \<Rightarrow> bool" where
  "macd_ok m = (0 < ex_denominator (macd_fast m) \<and> 0 < ex_denominator (macd_slow m) \<and> 0 < ex_denominator (macd_signal m))"

definition macd_consistent :: "macd_point \<Rightarrow> bool" where
  "macd_consistent pt = (\<exists>dif dea. mp_dif pt = format_coefficient dif \<and> mp_dea pt = format_coefficient dea
     \<and> mp_histogram pt = format_coefficient (dif - dea))"

lemma macd_consistentI [simp]:
  "macd_consistent \<lparr>mp_dif = format_coefficient a, mp_dea = format_coefficient b,
     mp_histogram = format_coefficient (a - b), mp_cross = c, mp_ready = r\<rparr>"
  unfolding macd_consistent_def by auto

lemma ex_next_some: "0 < ex_denominator x \<Longrightarrow> \<exists>s. ex_next x c = Some s"
  using round_ratio_nearest_even [of "ex_denominator x"] by (fastforce simp: ex_next_def Let_def split: option.split)

lemma reported_some: "\<exists>v. reported s = Some v"
  using round_ratio_nearest_even [of guard_quantum s] by (auto simp: reported_def guard_quantum_def)

lemma st_format_eq: "st_format v = Inr t \<Longrightarrow> t = format_coefficient v"
  by (auto simp: st_format_def to_i128_def split: if_splits)

interpretation macd_feed: panic_free macd_push macd_ok macd_consistent
proof unfold_locales
  fix m price
  assume ok: "macd_ok m"
  then obtain f s where "ex_next (macd_fast m) c = Some (f c)" "ex_next (macd_slow m) c = Some (s c)" for c
    using ex_next_some unfolding macd_ok_def by metis
  moreover obtain g where "ex_next (macd_signal m) c = Some (g c)" for c
    using ok ex_next_some unfolding macd_ok_def by metis
  moreover obtain rep where "reported c = Some (rep c)" for c using reported_some by metis
  ultimately show "macd_push m price \<noteq> None"
    "macd_push m price = Some (Inr (pt, m')) \<Longrightarrow> macd_ok m' \<and> macd_consistent pt" for pt m'
    using ok by (auto simp: macd_push_def Let_def result_simps macd_ok_def ex_accept_def
        dest!: st_format_eq split: sum.splits)
qed

definition mo_ok :: "rolling_moments \<Rightarrow> bool" where
  "mo_ok m = (0 < mo_period m)"

lemma moments_advance_count: "mo_ok m \<Longrightarrow> 0 < ms_count (fst (moments_advance m v))"
  by (auto simp: moments_advance_def Let_def mo_ok_def)

lemma moments_push_some: "evaluate (fst (moments_advance m p)) \<noteq> None \<Longrightarrow> moments_push m p evaluate \<noteq> None"
  by (auto simp: moments_push_def split: prod.splits)

lemma moments_push_keeps: "mo_ok m \<Longrightarrow> moments_push m p evaluate = Some (Inr (out, m')) \<Longrightarrow> mo_ok m'"
  by (auto simp: moments_push_def mo_ok_def moments_advance_def Let_def result_simps)

interpretation zscore_feed: panic_free zscore_push mo_ok "\<lambda>_. True"
proof unfold_locales
  fix m price
  assume "mo_ok m"
  then show "zscore_push m price \<noteq> None" "zscore_push m price = Some (Inr (pt, m')) \<Longrightarrow> mo_ok m' \<and> True" for pt m'
    using moments_push_some [where evaluate = "zscore_report c" for c] moments_push_keeps
    by (auto simp: zscore_push_def zscore_report_def Let_def split: sum.splits)
qed

interpretation volatility_feed: panic_free volatility_push mo_ok "\<lambda>_. True"
proof unfold_locales
  fix m price
  assume "mo_ok m"
  then show "volatility_push m price \<noteq> None" "volatility_push m price = Some (Inr (pt, m')) \<Longrightarrow> mo_ok m' \<and> True" for pt m'
    using moments_push_some [where evaluate = volatility_report] moments_push_keeps
    by (auto simp: volatility_push_def volatility_report_def split: sum.splits)
qed

definition bo_ok :: "bollinger \<Rightarrow> bool" where
  "bo_ok b = mo_ok (bo_moments b)"

lemma bollinger_report_some: "0 < ms_count mm \<Longrightarrow> bollinger_report k mm \<noteq> None"
  using round_ratio_nearest_even [of "ms_count mm" "ms_sum mm"] by (auto simp: bollinger_report_def)

interpretation bollinger_feed: panic_free bollinger_push bo_ok "\<lambda>_. True"
proof unfold_locales
  fix b price
  assume ok: "bo_ok b"
  then show "bollinger_push b price \<noteq> None" "bollinger_push b price = Some (Inr (pt, b')) \<Longrightarrow> bo_ok b' \<and> True" for pt b'
    using bollinger_report_some [OF moments_advance_count] moments_push_keeps
      moments_push_some [where evaluate = "bollinger_report (bo_multiplier_squared b)" and m = "bo_moments b"]
    by (auto simp: bollinger_push_def bo_ok_def result_simps split: sum.splits)
qed

section \<open>Stochastic oscillator\<close>

definition sample_ok :: "int \<Rightarrow> sample \<Rightarrow> bool" where
  "sample_ok hi s = (\<forall>v. s = SmReady v \<longrightarrow> 0 \<le> v \<and> v \<le> hi)"

lemma sample_ok_simps [simp]:
  "sample_ok hi SmWarmup" "sample_ok hi SmMissing" "sample_ok hi SmUndefined"
  "sample_ok hi (SmReady v) \<longleftrightarrow> 0 \<le> v \<and> v \<le> hi"
  by (auto simp: sample_ok_def)

lemma bar_extremes_bounds:
  "bar_extremes bars hi lo = Some (high, low) \<Longrightarrow>
   hi \<le> high \<and> low \<le> lo \<and> (\<forall>h l. Some (h, l) \<in> set bars \<longrightarrow> h \<le> high \<and> low \<le> l)"
proof (induction bars arbitrary: hi lo)
  case (Cons b bars)
  show ?case
  proof (cases b)
    case (Some p)
    obtain h l where p: "p = (h, l)" by (cases p)
    with Some Cons.prems have "bar_extremes bars (max hi h) (min lo l) = Some (high, low)" by simp
    from Cons.IH [OF this] Some p show ?thesis by auto
  qed (use Cons.prems in simp)
qed simp

lemma bar_extremes_none: "None \<in> set bars \<Longrightarrow> bar_extremes bars hi lo = None"
proof (induction bars arbitrary: hi lo)
  case (Cons b bars)
  then show ?case by (cases b) auto
qed simp

lemma to_i128_percent: "0 \<le> v \<Longrightarrow> v \<le> 10 ^ 38 \<Longrightarrow> to_i128 v = Some v"
  by (simp add: to_i128_def fits_i128_def)

text \<open>The percentage of a close inside its own bar lies between 0 and 100.\<close>

lemma percent_ratio:
  assumes "low \<le> c" "c \<le> high" "low < high" "0 < guard" "100 * quantum * guard \<le> 10 ^ 38"
  shows "\<exists>v. Option.bind (round_ratio ((c - low) * (100 * quantum) * guard) (high - low)) to_i128 = Some v
    \<and> 0 \<le> v \<and> v \<le> 100 * quantum * guard"
proof -
  let ?top = "100 * quantum * guard"
  have top: "0 \<le> ?top" using assms(4) by simp
  have "(c - low) * ?top \<le> (high - low) * ?top" using assms(2) top by (intro mult_right_mono) simp_all
  then have up: "(c - low) * (100 * quantum) * guard \<le> ?top * (high - low)" by (simp add: mult_ac)
  have low: "0 * (high - low) \<le> (c - low) * (100 * quantum) * guard" using assms(1,4) by simp
  have "0 < high - low" using assms(3) by simp
  from round_ratio_bounds [OF this low up] obtain v where
    "round_ratio ((c - low) * (100 * quantum) * guard) (high - low) = Some v" "0 \<le> v" "v \<le> ?top" by blast
  with assms(5) show ?thesis by (simp add: to_i128_percent)
qed

definition close_in_bar :: "(int \<times> int) option list \<Rightarrow> int option \<Rightarrow> bool" where
  "close_in_bar bars close = (\<forall>c. close = Some c \<longrightarrow> None \<in> set bars \<or> (\<exists>h l. Some (h, l) \<in> set bars \<and> l \<le> c \<and> c \<le> h))"

lemma percent_k_total:
  assumes "close_in_bar bars close" "0 < guard" "100 * quantum * guard \<le> 10 ^ 38"
  shows "\<exists>s. percent_k bars k close guard = Some s \<and> sample_ok (100 * quantum * guard) s"
proof (cases close)
  case (Some c)
  show ?thesis
  proof (cases "bar_extremes bars (- (2 ^ 127)) (2 ^ 127 - 1)")
    case e: (Some p)
    obtain high low where p: "p = (high, low)" by (cases p)
    note b = bar_extremes_bounds [OF e [unfolded p]]
    have "None \<notin> set bars" using e bar_extremes_none by fastforce
    with assms(1) Some obtain h l where "Some (h, l) \<in> set bars" "l \<le> c" "c \<le> h" by (auto simp: close_in_bar_def)
    with b have "low \<le> c" "c \<le> high" by fastforce+
    with percent_ratio [of low c high guard] assms(2,3) show ?thesis
      using Some e p by (cases "high = low") (auto simp: percent_k_def)
  qed (use Some in \<open>simp add: percent_k_def\<close>)
qed (simp add: percent_k_def)

lemma sum_ready_bounds:
  "list_all (sample_ok hi) ss \<Longrightarrow> sum_ready ss acc = Some tot \<Longrightarrow> acc \<le> tot \<and> tot \<le> acc + hi * int (length ss)"
proof (induction ss arbitrary: acc)
  case (Cons s ss)
  then show ?case
  proof (cases s)
    case (SmReady v)
    with Cons.prems Cons.IH [of "acc + v"] show ?thesis by (simp add: algebra_simps)
  qed auto
qed simp

lemma push_average_total:
  assumes "list_all (sample_ok hi) samples" "sample_ok hi v" "0 < period" "length samples \<le> period" "0 \<le> hi" "hi \<le> 10 ^ 38"
  shows "\<exists>s samples'. push_average samples period v = Some (s, samples') \<and> sample_ok hi s
    \<and> list_all (sample_ok hi) samples' \<and> length samples' \<le> period"
proof -
  define w where "w = (if length samples = period then tl samples else samples) @ [v]"
  have w: "list_all (sample_ok hi) w" "length w \<le> period"
    using assms(1-4) by (cases samples; auto simp: w_def)+
  have "\<exists>r. Option.bind (round_ratio tot (int period)) to_i128 = Some r \<and> 0 \<le> r \<and> r \<le> hi"
    if "sum_ready w 0 = Some tot" "\<not> length w < period" for tot
  proof -
    have "0 \<le> tot" "tot \<le> hi * int period" using sum_ready_bounds [OF w(1) that(1)] that(2) w(2) by auto
    then obtain r where "round_ratio tot (int period) = Some r" "0 \<le> r" "r \<le> hi"
      using round_ratio_bounds [of "int period" 0 tot hi] assms(3) by auto
    with assms(6) show ?thesis by (simp add: to_i128_percent)
  qed
  then show ?thesis
    using w unfolding push_average_def Let_def w_def [symmetric]
    by (cases "sum_ready w 0") (auto split: if_splits)
qed

definition so_guard :: "stochastic \<Rightarrow> int" where
  "so_guard s = (if so_smoothing s \<noteq> None then guard_factor else 1)"

definition samples_ok :: "int \<Rightarrow> nat \<Rightarrow> sample list \<Rightarrow> bool" where
  "samples_ok hi period ss = (0 < period \<and> length ss \<le> period \<and> list_all (sample_ok hi) ss)"

definition so_ok :: "stochastic \<Rightarrow> bool" where
  "so_ok s = (samples_ok (100 * quantum * so_guard s) (so_d_period s) (so_recent_k s)
     \<and> (\<forall>period ss. so_smoothing s = Some (period, ss) \<longrightarrow> samples_ok (100 * quantum * so_guard s) period ss))"

lemma so_guard_bounds: "0 < so_guard s" "100 * quantum * so_guard s \<le> 10 ^ 38" "0 \<le> 100 * quantum * so_guard s"
  by (simp_all add: so_guard_def quantum_def guard_factor_def)

lemma samples_ok_push:
  assumes "samples_ok hi period ss" "sample_ok hi v" "0 \<le> hi" "hi \<le> 10 ^ 38"
  shows "\<exists>s ss'. push_average ss period v = Some (s, ss') \<and> sample_ok hi s \<and> samples_ok hi period ss'"
  using push_average_total [of hi ss v period] assms by (auto simp: samples_ok_def)

lemma sample_value_total:
  assumes "sample_ok (100 * quantum * g) s" "0 < g"
  shows "\<exists>fv. sample_value s g = Some fv \<and> percent_value fv"
proof (cases s)
  case (SmReady v)
  with assms obtain r where "round_ratio v g = Some r" "0 \<le> r" "r \<le> 100 * quantum"
    using round_ratio_bounds [of g 0 v "100 * quantum"] by auto
  with SmReady percent_from_coefficient show ?thesis by (auto simp: sample_value_def percent_value_def)
qed (simp_all add: sample_value_def percent_value_def)

lemma close_in_barI:
  "Some (h, l) \<in> set bars \<Longrightarrow> l \<le> c \<Longrightarrow> c \<le> h \<Longrightarrow> close_in_bar bars (Some c)"
  "None \<in> set bars \<Longrightarrow> close_in_bar bars close" "close_in_bar bars None"
  by (auto simp: close_in_bar_def)

lemma bar_close: "validate_bar h l c = Inr () \<Longrightarrow> close_in_bar (stochastic_bar s h l c) c"
  unfolding stochastic_bar_def validate_bar_def some_and_def zip_option_def
  by (cases h; cases l; cases c)
     (auto intro: close_in_barI close_in_barI(1) [of "the h" "the l"] split: if_splits)

abbreviation stochastic_push3 ::
  "stochastic \<Rightarrow> rstr option \<times> rstr option \<times> rstr option \<Rightarrow> (financial_error + stochastic_point \<times> stochastic) option" where
  "stochastic_push3 s bar \<equiv> stochastic_push s (fst bar) (fst (snd bar)) (snd (snd bar))"

lemma stochastic_total:
  assumes ok: "so_ok s" and close: "close_in_bar bars c"
  defines "g \<equiv> so_guard s"
  shows "\<exists>raw k smoothing d recent kv dv. percent_k bars (so_k_period s) c g = Some raw
    \<and> (case so_smoothing s of None \<Rightarrow> Some (raw, None)
       | Some (period, samples) \<Rightarrow>
           map_option (\<lambda>(k, samples1). (k, Some (period, samples1))) (push_average samples period raw)) = Some (k, smoothing)
    \<and> push_average (so_recent_k s) (so_d_period s) k = Some (d, recent)
    \<and> sample_value k g = Some kv \<and> sample_value d g = Some dv \<and> percent_value kv \<and> percent_value dv
    \<and> so_ok (s\<lparr>so_bars := bars, so_smoothing := smoothing, so_recent_k := recent\<rparr>)"
proof -
  let ?hi = "100 * quantum * g"
  note hi = so_guard_bounds [of s, folded g_def]
  obtain raw where raw: "percent_k bars (so_k_period s) c g = Some raw" "sample_ok ?hi raw"
    using percent_k_total [OF close hi(1,2)] by blast
  obtain k smoothing where k: "(case so_smoothing s of None \<Rightarrow> Some (raw, None)
       | Some (period, samples) \<Rightarrow>
           map_option (\<lambda>(k, samples1). (k, Some (period, samples1))) (push_average samples period raw)) = Some (k, smoothing)"
    "sample_ok ?hi k" "smoothing = None \<longleftrightarrow> so_smoothing s = None"
    "\<forall>period ss. smoothing = Some (period, ss) \<longrightarrow> samples_ok ?hi period ss"
  proof (cases "so_smoothing s")
    case (Some p)
    obtain period ss where p: "p = (period, ss)" by (cases p)
    with ok Some have "samples_ok ?hi period ss" by (simp add: so_ok_def g_def)
    from samples_ok_push [OF this raw(2) hi(3,2)] Some p show ?thesis by (auto intro!: that)
  qed (use raw that in auto)
  obtain d recent where d: "push_average (so_recent_k s) (so_d_period s) k = Some (d, recent)" "sample_ok ?hi d"
    "samples_ok ?hi (so_d_period s) recent"
    using samples_ok_push [OF _ k(2) hi(3,2), of "so_d_period s" "so_recent_k s"] ok by (auto simp: so_ok_def g_def)
  have ge: "so_guard (s\<lparr>so_bars := bars, so_smoothing := smoothing, so_recent_k := recent\<rparr>) = g"
    using k(3) by (simp add: so_guard_def g_def)
  have "so_ok (s\<lparr>so_bars := bars, so_smoothing := smoothing, so_recent_k := recent\<rparr>)"
    using k(4) d(3) unfolding so_ok_def ge by simp
  with raw(1) k(1) d(1) sample_value_total [OF k(2) hi(1)] sample_value_total [OF d(2) hi(1)] show ?thesis by blast
qed

interpretation stochastic_feed: panic_free stochastic_push3 so_ok "\<lambda>pt. percent_value (sp_k pt) \<and> percent_value (sp_d pt)"
proof unfold_locales
  fix s :: stochastic and bar :: "rstr option \<times> rstr option \<times> rstr option"
  assume ok: "so_ok s"
  let ?in = "rbind (transpose_map fin_coefficient (fst bar)) (\<lambda>h.
           rbind (transpose_map fin_coefficient (fst (snd bar))) (\<lambda>l.
           rbind (transpose_map fin_coefficient (snd (snd bar))) (\<lambda>c.
           rbind (validate_bar h l c) (\<lambda>_. Inr (h, l, c)))))"
  have "\<exists>pt s'. stochastic_push3 s bar = Some (Inr (pt, s')) \<and> so_ok s' \<and> percent_value (sp_k pt) \<and> percent_value (sp_d pt)"
    if bar: "?in = Inr (h, l, c)" for h l c
  proof -
    have "close_in_bar (stochastic_bar s h l c) c" using bar by (auto simp: result_simps intro: bar_close)
    from stochastic_total [OF ok this] bar show ?thesis
      unfolding stochastic_push_def Let_def so_guard_def [symmetric] by (elim exE conjE) simp
  qed
  then show "stochastic_push3 s bar \<noteq> None"
    "stochastic_push3 s bar = Some (Inr (pt, s')) \<Longrightarrow> so_ok s' \<and> percent_value (sp_k pt) \<and> percent_value (sp_d pt)" for pt s'
    by (cases ?in; force simp: stochastic_push_def)+
qed

section \<open>Volume-weighted averages\<close>

definition vw_weight :: "(int \<times> int) option \<Rightarrow> int" where
  "vw_weight p = (case p of None \<Rightarrow> 0 | Some (w, _) \<Rightarrow> w)"

definition vw_amount :: "(int \<times> int) option \<Rightarrow> int" where
  "vw_amount p = (case p of None \<Rightarrow> 0 | Some (_, a) \<Rightarrow> a)"

interpretation vwap_weighted: rolling_window vw_period vw_advance vw_window vw_weighted vw_weight
  by unfold_locales (auto simp: vw_advance_def vw_evict_def vw_weight_def Let_def split: option.split)

interpretation vwap_volume: rolling_window vw_period vw_advance vw_window vw_volume vw_amount
  by unfold_locales (auto simp: vw_advance_def vw_evict_def vw_amount_def Let_def split: option.split)

definition vw_ok :: "vwap \<Rightarrow> bool" where
  "vw_ok w = (0 < vw_period w \<and> vw_missing w = length (filter (\<lambda>p. p = None) (vw_window w))
     \<and> vw_volume w = sum_list (map vw_amount (vw_window w)) \<and> (\<forall>p \<in> set (vw_window w). 0 \<le> vw_amount p))"

lemma vw_missing_step:
  assumes "0 < vw_period w" "vw_missing w = length (filter (\<lambda>p. p = None) (vw_window w))"
  shows "vw_missing (vw_advance w p) = length (filter (\<lambda>p. p = None) (vw_window (vw_advance w p)))"
proof (cases "length (vw_window w) = vw_period w")
  case True
  with assms obtain q qs where "vw_window w = q # qs" by (cases "vw_window w") auto
  with True assms show ?thesis
    by (cases q; cases p) (auto simp: vw_advance_def vw_evict_def Let_def)
qed (use assms in \<open>cases p; auto simp: vw_advance_def vw_evict_def Let_def\<close>)

lemma vw_advance_ok:
  assumes "vw_ok w" "0 \<le> vw_amount p"
  shows "vw_ok (vw_advance w p)"
proof -
  have ne: "vw_window w \<noteq> []" if "length (vw_window w) = vw_period w" using that assms(1) by (auto simp: vw_ok_def)
  then have "vw_volume (vw_advance w p) = sum_list (map vw_amount (vw_window (vw_advance w p)))"
    using assms(1) by (cases "vw_window w") (auto simp: vw_ok_def vwap_volume.acc_step vwap_volume.win_step)
  moreover have "\<forall>q \<in> set (vw_window (vw_advance w p)). 0 \<le> vw_amount q"
    using assms by (cases "vw_window w") (auto simp: vw_ok_def vwap_volume.win_step)
  ultimately show ?thesis
    using assms(1) vw_missing_step [of w p] by (simp add: vw_ok_def vwap_volume.per_step)
qed

lemma vwap_report_some:
  assumes "vw_ok w"
  shows "vwap_report w \<noteq> None"
proof -
  have "0 \<le> vw_volume w" using assms unfolding vw_ok_def by (metis (no_types, lifting) sum_list_nonneg image_iff list.set_map)
  then show ?thesis
    using round_ratio_nearest_even [of "vw_volume w" "vw_weighted w"] by (auto simp: vwap_report_def)
qed

lemma volume_nonneg: "volume x = Inr (Some a) \<Longrightarrow> 0 \<le> a"
  by (auto simp: volume_def result_simps split: if_splits option.splits)

lemma vwap_point_nonneg: "vwap_point price amount = Inr p \<Longrightarrow> 0 \<le> vw_amount p"
  by (auto simp: vwap_point_def result_simps vw_amount_def zip_option_def dest!: volume_nonneg split: option.splits)

abbreviation vwap_push2 :: "vwap \<Rightarrow> rstr option \<times> rstr option \<Rightarrow> (financial_error + financial_value \<times> vwap) option" where
  "vwap_push2 w i \<equiv> vwap_push w (fst i) (snd i)"

interpretation vwap_feed: panic_free vwap_push2 vw_ok "\<lambda>_. True"
proof unfold_locales
  fix w :: vwap and i :: "rstr option \<times> rstr option"
  assume "vw_ok w"
  then show "vwap_push2 w i \<noteq> None" "vwap_push2 w i = Some (Inr (out, w')) \<Longrightarrow> vw_ok w' \<and> True" for out w'
    using vwap_report_some vw_advance_ok vwap_point_nonneg
    by (auto simp: vwap_push_def Let_def split: sum.splits)
qed

abbreviation session_push5 ::
  "session_vwap \<Rightarrow> nat \<times> rstr \<times> rstr \<times> rstr \<times> rstr \<Rightarrow> (financial_error + financial_value \<times> session_vwap) option" where
  "session_push5 v i \<equiv> (case i of (t, h, l, c, a) \<Rightarrow> session_vwap_push v t h l c a)"

definition sv_ok :: "session_vwap \<Rightarrow> bool" where
  "sv_ok v = (0 \<le> sv_volume v)"

lemma sv_roll_ok: "sv_ok v \<Longrightarrow> sv_roll v t = Inr v1 \<Longrightarrow> sv_ok v1"
  by (auto simp: sv_roll_def sv_ok_def split: option.splits if_splits)

lemma volume_some: "volume (Some x) \<noteq> Inr None"
  by (auto simp: volume_def transpose_map_def result_simps split: if_splits)

interpretation session_feed: panic_free session_push5 sv_ok "\<lambda>_. True"
proof unfold_locales
  fix v :: session_vwap and i :: "nat \<times> rstr \<times> rstr \<times> rstr \<times> rstr"
  assume ok: "sv_ok v"
  obtain t h l c a where i: "i = (t, h, l, c, a)" by (cases i) auto
  let ?in = "rbind (fin_coefficient h) (\<lambda>h. rbind (fin_coefficient l) (\<lambda>l.
           rbind (fin_coefficient c) (\<lambda>c.
           rbind (validate_bar (Some h) (Some l) (Some c)) (\<lambda>_.
           rbind (volume (Some a)) (\<lambda>a.
           rbind (sv_roll v t) (\<lambda>v1. Inr (h, l, c, a, v1)))))))"
  have "\<exists>out v'. session_push5 v i = Some (Inr (out, v')) \<and> sv_ok v'" if inn: "?in = Inr (x, y, z, amt, v1)" for x y z amt v1
  proof -
    obtain b where b: "amt = Some b" "0 \<le> b" "sv_ok v1"
      using inn volume_some [of a] ok by (auto simp: result_simps intro: volume_nonneg sv_roll_ok)
    then have pos: "0 < (sv_volume v1 + b) * 3" if "sv_volume v1 + b \<noteq> 0" using that by (simp add: sv_ok_def)
    show ?thesis
    proof (cases "sv_volume v1 + b = 0")
      case True
      with inn b show ?thesis by (simp add: i session_vwap_push_def sv_ok_def)
    next
      case False
      obtain r where "round_ratio (sv_weighted v1 + (x + y + z) * b) ((sv_volume v1 + b) * 3) = Some r"
        using round_ratio_nearest_even [OF pos [OF False]] by blast
      with inn b False show ?thesis by (simp add: i session_vwap_push_def Let_def sv_ok_def)
    qed
  qed
  then show "session_push5 v i \<noteq> None" "session_push5 v i = Some (Inr (out, v')) \<Longrightarrow> sv_ok v' \<and> True" for out v'
    by (cases ?in; force simp: session_vwap_push_def i)+
qed

section \<open>Deviation and window specifications\<close>

definition mean_of :: "int list \<Rightarrow> real" where
  "mean_of xs = real_of_int (sum_list xs) / real (length xs)"

definition population_deviation :: "int list \<Rightarrow> real" where
  "population_deviation xs = sqrt (sum_list (map (\<lambda>x. (real_of_int x - mean_of xs)\<^sup>2) xs) / real (length xs))"

lemma sum_of_squared_differences:
  "sum_list (map (\<lambda>x. (real_of_int x - m)\<^sup>2) xs) =
   real_of_int (sum_list (map (\<lambda>x. x * x) xs)) - 2 * m * real_of_int (sum_list xs) + real (length xs) * m\<^sup>2"
  by (induction xs) (simp_all add: algebra_simps power2_eq_square)

lemma deviation_spread:
  assumes "xs \<noteq> []"
  shows "population_deviation xs =
    sqrt (real_of_int (int (length xs) * sum_list (map (\<lambda>x. x * x) xs) - sum_list xs * sum_list xs)) / real (length xs)"
proof -
  let ?n = "real (length xs)" and ?S = "real_of_int (sum_list xs)" and ?Q = "real_of_int (sum_list (map (\<lambda>x. x * x) xs))"
  have n: "0 < ?n" using assms by simp
  have "sum_list (map (\<lambda>x. (real_of_int x - mean_of xs)\<^sup>2) xs) / ?n = (?n * ?Q - ?S * ?S) / (?n * ?n)"
    unfolding sum_of_squared_differences mean_of_def using n by (simp add: field_simps power2_eq_square)
  also have "sqrt \<dots> = sqrt (?n * ?Q - ?S * ?S) / ?n" using n by (simp add: real_sqrt_divide)
  finally show ?thesis unfolding population_deviation_def by simp
qed

lemma moments_run_advance:
  fixes vs :: "int list" and v :: int
  assumes "0 < p"
  defines "w \<equiv> last_n p (vs @ [v])"
  shows "fst (moments_advance (moments_run p vs) v) =
    \<lparr>ms_sum = sum_list w, ms_count = int (length w),
     ms_spread_squared = int (length w) * sum_list (map (\<lambda>x. x * x) w) - sum_list w * sum_list w,
     ms_ready = (length (vs @ [v]) \<ge> p)\<rparr>"
proof -
  have nxt: "snd (moments_advance (moments_run p vs) v) = moments_run p (vs @ [v])" by (simp add: moments_run_def)
  have "length (last_n p vs) + (if length (last_n p vs) = p then 0 else 1) = length w"
    using last_n_snoc [OF assms(1), of vs v] assms(1) by (simp add: w_def)
  then show ?thesis
    using assms(1) unfolding moments_of_advance nxt moments_run_window [OF assms(1)]
    by (auto simp: w_def [symmetric])
qed

definition vwap_of :: "nat \<Rightarrow> (int \<times> int) option list \<Rightarrow> financial_value option" where
  "vwap_of p w =
     (if None \<in> set w then Some FvMissing
      else if length w < p then Some FvWarmup
      else if sum_list (map vw_amount w) = 0 then Some FvUndefined
      else map_option fv_from_coefficient (round_ratio (sum_list (map vw_weight w)) (sum_list (map vw_amount w))))"

lemma vwap_run_missing:
  assumes "0 < p"
  shows "vw_missing (foldl vw_advance (vwap_new p) pts) = length (filter (\<lambda>x. x = None) (last_n p pts))"
proof -
  have "vw_period (foldl vw_advance (vwap_new p) pts) = p
    \<and> vw_missing (foldl vw_advance (vwap_new p) pts) = length (filter (\<lambda>x. x = None) (vw_window (foldl vw_advance (vwap_new p) pts)))"
  proof (induction pts rule: rev_induct)
    case (snoc x pts)
    then show ?case using vw_missing_step assms by (simp add: vwap_volume.per_step)
  qed (simp add: vwap_new_def)
  then show ?thesis
    using vwap_volume.run_window [of "vwap_new p" pts] assms by (simp add: vwap_new_def)
qed

section \<open>Properties\<close>

lemmas text_eval = coefficient_def strip_sign_def split_once_def is_digit_def digits_value_def quantum_def

lemma coefficient_1: "coefficient [49] = Inr 1000000000000" by (simp add: text_eval)

lemma coefficient_2: "coefficient [50] = Inr 2000000000000" by (simp add: text_eval)

lemma coefficient_neg: "coefficient [45, 49, 46, 53] = Inr (- 1500000000000)" by (simp add: text_eval)

text \<open>
  every text the fixed-scale reader accepts has at most 38 significant digits, so no
  128-bit arithmetic of the reader overflows, and printing the value read and reading it
  again gives the same value.
\<close>

theorem coefficient_roundtrip:
  assumes "coefficient text = Inr v"
  shows "\<bar>v\<bar> < 10 ^ 38 \<and> fits_i128 v \<and> coefficient (format_coefficient v) = Inr v"
  using coefficient_bound [OF assms] coefficient_fits [OF assms] coefficient_format by blast

theorem coefficient_roundtrip_witness:
  "coefficient (format_coefficient (- 1500000000000)) = Inr (- 1500000000000)"
  using coefficient_roundtrip [OF coefficient_neg] by blast


lemma demo_boll: "bollinger_new 2 [50] = Inr \<lparr>bo_moments = moments_new 2, bo_multiplier_squared = 4000000000000000000000000\<rparr>"
  by (simp add: bollinger_new_def st_parse_def coefficient_2)


text \<open>
  every value RSI reports lies between 0 and 100 and agrees with the zone reported beside
  it: at most 30 when oversold, at least 70 when overbought, between them when neutral.
\<close>

theorem rsi_within_range:
  assumes "0 < p" "feed rsi_push (rsi_new p) prices = Some (r, points)" "pt \<in> set points"
  shows "rp_value pt = FvWarmup \<and> rp_zone pt = Neutral
    \<or> (\<exists>v. 0 \<le> v \<and> v \<le> 100 * quantum \<and> rp_value pt = FvReady (format_coefficient v)
        \<and> (case rp_zone pt of Oversold \<Rightarrow> v \<le> 30 * quantum | Overbought \<Rightarrow> 70 * quantum \<le> v
           | Neutral \<Rightarrow> 30 * quantum \<le> v \<and> v \<le> 70 * quantum))"
proof -
  have "rsi_ok (rsi_new p)" using assms(1) by (simp add: rsi_ok_def rsi_new_def wl_ok_def wilder_new_def)
  from rsi_feed.feed_total [OF this, of prices] assms(2,3) have "zone_matches pt" by (auto simp: list_all_iff)
  then show ?thesis unfolding zone_matches_def .
qed

lemma demo_rsi:
  "feed rsi_push (rsi_new 1) [[49], [50]] =
     Some (\<lparr>rsi_previous = Some 2000000000000, rsi_gains = \<lparr>wl_period = 1, wl_count = 1, wl_state = 10 ^ 36\<rparr>,
            rsi_losses = \<lparr>wl_period = 1, wl_count = 1, wl_state = 0\<rparr>\<rparr>,
       [rsi_warmup, \<lparr>rp_value = FvReady (format_coefficient (100 * quantum)), rp_zone = Overbought\<rparr>])"
  by (simp add: rsi_push_def rsi_new_def wilder_new_def wilder_push_def fin_coefficient_def coefficient_1 coefficient_2 rsi_report_def
     guard_factor_def round_ratio_def fv_from_coefficient_def to_i128_def fits_i128_def carrier_limit_def quantum_def Let_def)

theorem rsi_within_range_witness:
  "\<exists>v. 0 \<le> v \<and> v \<le> 100 * quantum \<and> FvReady (format_coefficient (100 * quantum)) = FvReady (format_coefficient v)
     \<and> 70 * quantum \<le> v"
  using rsi_within_range [OF _ demo_rsi, of "\<lparr>rp_value = FvReady (format_coefficient (100 * quantum)), rp_zone = Overbought\<rparr>"]
  by (simp only: list.set insert_iff rsi_point.simps rsi_zone.simps financial_value.distinct zero_less_one simp_thms)

text \<open>
  every percentage the stochastic oscillator reports, K or D, fast or slow, lies between 0
  and 100.
\<close>

theorem stochastic_within_range:
  assumes "0 < d" "s = stochastic_new k d \<or> 0 < sm \<and> s = stochastic_slow k sm d"
    "feed (\<lambda>s (h, l, c). stochastic_push s h l c) s bars = Some (t, points)"
    "pt \<in> set points" "fv \<in> {sp_k pt, sp_d pt}" "fv = FvReady text"
  shows "\<exists>v. 0 \<le> v \<and> v \<le> 100 * quantum \<and> text = format_coefficient v"
proof -
  have "so_ok s"
    using assms(1,2) by (auto simp: so_ok_def samples_ok_def stochastic_new_def stochastic_slow_def)
  from stochastic_feed.feed_total [OF this, of bars] assms(3,4) have "percent_value (sp_k pt) \<and> percent_value (sp_d pt)"
    unfolding case_prod_unfold by (auto simp: list_all_iff)
  with assms(5,6) show ?thesis by (auto simp: percent_value_def)
qed

lemma demo_stochastic:
  "feed (\<lambda>s (h, l, c). stochastic_push s h l c) (stochastic_new 1 1) [(Some [50], Some [49], Some [50])] =
   Some (\<lparr>so_k_period = 1, so_d_period = 1, so_bars = [Some (2000000000000, 1000000000000)], so_smoothing = None,
          so_recent_k = [SmReady (100 * quantum)]\<rparr>,
     [\<lparr>sp_k = FvReady (format_coefficient (100 * quantum)), sp_d = FvReady (format_coefficient (100 * quantum))\<rparr>])"
  by (simp add: stochastic_push_def stochastic_new_def stochastic_bar_def transpose_map_def fin_coefficient_def coefficient_1 coefficient_2
     validate_bar_def some_and_def zip_option_def percent_k_def push_average_def sample_value_def is_missing_def is_warmup_def
     round_ratio_def fv_from_coefficient_def to_i128_def fits_i128_def carrier_limit_def quantum_def Let_def)

theorem stochastic_within_range_witness:
  "\<exists>v. 0 \<le> v \<and> v \<le> 100 * quantum \<and> format_coefficient (100 * quantum) = format_coefficient v"
proof (rule stochastic_within_range [OF _ _ demo_stochastic, where d = 1 and k = 1])
  let ?pt = "\<lparr>sp_k = FvReady (format_coefficient (100 * quantum)), sp_d = FvReady (format_coefficient (100 * quantum))\<rparr>"
  show "?pt \<in> set [?pt]" by simp
  show "FvReady (format_coefficient (100 * quantum)) \<in> {sp_k ?pt, sp_d ?pt}" by simp
qed simp_all

text \<open>
  \<open>round_radical\<close> is the nearest-even rounding of the exact real number
  (base plus or minus the square root) divided by the divisor, although it only computes
  with integers.
\<close>

theorem round_radical_correct:
  assumes "0 \<le> square" "0 < divisor"
  shows "let x = (real_of_int base + (if subtract then - 1 else 1) * sqrt (real_of_int square)) / real_of_int divisor;
             r = round_radical base square divisor subtract
         in \<bar>real_of_int r - x\<bar> \<le> 1 / 2 \<and> (\<bar>real_of_int r - x\<bar> = 1 / 2 \<longrightarrow> even r)"
  using round_radical_nearest [OF assms, of base subtract]
  by (cases subtract) (simp_all add: radical_def nearest_even_real_def)

theorem round_radical_correct_witness:
  "\<bar>real_of_int (round_radical 1 2 1 False) - (1 + sqrt 2)\<bar> \<le> 1 / 2"
  using round_radical_correct [of 2 1 1 False] by (simp add: Let_def)

text \<open>
  C35: the rolling volatility of a window is its population standard deviation rounded to
  nearest even: the incremental moments equal the sums over the last \<open>period\<close> prices, the
  radicand is never negative and the integer rounding is exact.
\<close>

theorem volatility_is_population_deviation:
  assumes "0 < p"
  shows "let mm = fst (moments_advance (moments_run p vs) v)
         in 0 \<le> ms_spread_squared mm
            \<and> nearest_even_real (population_deviation (last_n p (vs @ [v])))
                (round_radical 0 (ms_spread_squared mm) (ms_count mm) False)"
proof -
  define w where "w = last_n p (vs @ [v])"
  have ne: "w \<noteq> []" using last_n_snoc [OF assms, of vs v] by (simp add: w_def)
  note mm = moments_run_advance [OF assms, of vs v, folded w_def]
  have sp: "0 \<le> int (length w) * sum_list (map (\<lambda>x. x * x) w) - sum_list w * sum_list w" by (rule spread_nonneg)
  have "0 < int (length w)" using ne by simp
  from round_radical_nearest [OF sp this, of 0 False] deviation_spread [OF ne] sp show ?thesis
    unfolding w_def [symmetric] by (simp add: mm radical_def)
qed

theorem volatility_is_population_deviation_witness:
  "nearest_even_real (population_deviation (last_n 2 ([1, 5] @ [9])))
     (round_radical 0 (ms_spread_squared (fst (moments_advance (moments_run 2 [1, 5]) 9)))
        (ms_count (fst (moments_advance (moments_run 2 [1, 5]) 9))) False)"
  using volatility_is_population_deviation [of 2 "[1, 5]" 9] by (simp only: Let_def zero_less_numeral simp_thms)

text \<open>
  after any history of observations the rolling VWAP reports what the last \<open>period\<close>
  observations determine: missing if one is missing, warm-up if there are too few, undefined
  without volume, and otherwise the volume-weighted mean rounded once.
\<close>

theorem vwap_is_window_average:
  assumes "0 < p"
  shows "vwap_report (foldl vw_advance (vwap_new p) pts) = vwap_of p (last_n p pts)"
proof -
  let ?w = "foldl vw_advance (vwap_new p) pts"
  have "vw_period ?w = p" "vw_window ?w = last_n p pts" "vw_weighted ?w = sum_list (map vw_weight (last_n p pts))"
    "vw_volume ?w = sum_list (map vw_amount (last_n p pts))"
    using vwap_weighted.run_window [of "vwap_new p" pts] vwap_volume.run_window [of "vwap_new p" pts] assms
    by (simp_all add: vwap_new_def)
  moreover have "0 < vw_missing ?w \<longleftrightarrow> None \<in> set (last_n p pts)"
    unfolding vwap_run_missing [OF assms] by (auto simp: filter_empty_conv simp del: not_None_eq)
  ultimately show ?thesis by (simp add: vwap_report_def vwap_of_def)
qed

theorem vwap_is_window_average_witness:
  "vwap_report (foldl vw_advance (vwap_new 1) [None, Some (6, 3)]) = vwap_of 1 (last_n 1 [None, Some (6, 3)])"
  using vwap_is_window_average [of 1 "[None, Some (6, 3)]"] by simp

end
