(* ===== verification/Predicates.thy ===== *)
theory Predicates
  imports Complex_Main Decimal_Text
begin

text \<open>
  The nullable predicates of \<open>crates/predicates\<close>: Boolean connectives, Boolean and string
  equality, exact integer and decimal comparison on text, each with its resolver and its
  literal variant. A missing operand is \<^const>\<open>None\<close>. Integers and decimals are compared
  without parsing them into numbers; the properties relate the comparison of texts to the
  order of the numbers they spell.
\<close>

section \<open>Boolean connectives (predicate.rs)\<close>

datatype predicate_error = UnknownType | UnknownVersion | InvalidArity | InvalidInteger | PredInvalidDecimal

datatype predicate = PAnd | POr | PNot | PEligibility | PEntrySignal | PExitSignal

definition semantic_version :: string where
  "semantic_version = ''1''"

definition resolve_in :: "(string \<times> 'a) list \<Rightarrow> string \<Rightarrow> string \<Rightarrow> predicate_error + 'a" where
  "resolve_in table type_id version =
     rbind (ok_or (map_of table type_id) UnknownType) (\<lambda>operation.
     if version \<noteq> semantic_version then Inl UnknownVersion else Inr operation)"

definition predicate_resolve :: "string \<Rightarrow> string \<Rightarrow> predicate_error + predicate" where
  "predicate_resolve = resolve_in
     [(''onlyalpha.predicate.internal.boolean.and'', PAnd),
      (''onlyalpha.predicate.internal.boolean.or'', POr),
      (''onlyalpha.predicate.internal.boolean.not'', PNot),
      (''onlyalpha.predicate.internal.terminal.eligibility'', PEligibility),
      (''onlyalpha.predicate.internal.terminal.entry_signal'', PEntrySignal),
      (''onlyalpha.predicate.internal.terminal.exit_signal'', PExitSignal)]"

definition arity :: "predicate \<Rightarrow> nat" where
  "arity p = (case p of PAnd \<Rightarrow> 2 | POr \<Rightarrow> 2 | _ \<Rightarrow> 1)"

definition predicate_evaluate :: "predicate \<Rightarrow> bool option list \<Rightarrow> predicate_error + bool option" where
  "predicate_evaluate p operands =
     (if length operands \<noteq> arity p then Inl InvalidArity
      else
        let left = operands ! 0
        in Inr (case p of
             PAnd \<Rightarrow>
               (let right = operands ! 1
                in if left = Some False \<or> right = Some False then Some False
                   else if left = Some True \<and> right = Some True then Some True else None)
           | POr \<Rightarrow>
               (let right = operands ! 1
                in if left = Some True \<or> right = Some True then Some True
                   else if left = Some False \<and> right = Some False then Some False else None)
           | PNot \<Rightarrow> map_option Not left
           | _ \<Rightarrow> left))"

section \<open>Equality of Booleans and strings\<close>

datatype equality_predicate = EqEq | EqNe

definition boolean_resolve :: "string \<Rightarrow> string \<Rightarrow> predicate_error + equality_predicate" where
  "boolean_resolve = resolve_in
     [(''onlyalpha.predicate.internal.compare.eq.boolean.refs'', EqEq),
      (''onlyalpha.predicate.internal.compare.ne.boolean.refs'', EqNe)]"

definition string_resolve :: "string \<Rightarrow> string \<Rightarrow> predicate_error + equality_predicate" where
  "string_resolve = resolve_in
     [(''onlyalpha.predicate.internal.compare.eq.string.refs'', EqEq),
      (''onlyalpha.predicate.internal.compare.ne.string.refs'', EqNe)]"

definition equality_evaluate :: "equality_predicate \<Rightarrow> 'a option list \<Rightarrow> predicate_error + bool option" where
  "equality_evaluate p operands =
     (if length operands \<noteq> 2 then Inl InvalidArity
      else Inr (case (operands ! 0, operands ! 1) of
                  (Some l, Some r) \<Rightarrow> Some (case p of EqEq \<Rightarrow> l = r | EqNe \<Rightarrow> l \<noteq> r)
                | _ \<Rightarrow> None))"

record 'a equality_literal =
  el_operation :: equality_predicate
  el_literal :: 'a
  el_literal_left :: bool

definition literal_operands :: "bool \<Rightarrow> 'a \<Rightarrow> 'a option \<Rightarrow> 'a option list" where
  "literal_operands literal_left literal input =
     (if literal_left then [Some literal, input] else [input, Some literal])"

definition boolean_literal_resolve ::
  "string \<Rightarrow> string \<Rightarrow> bool \<Rightarrow> bool \<Rightarrow> predicate_error + bool equality_literal" where
  "boolean_literal_resolve type_id version literal literal_left =
     rbind (resolve_in
       [(''onlyalpha.predicate.internal.compare.eq.boolean.literal'', EqEq),
        (''onlyalpha.predicate.internal.compare.ne.boolean.literal'', EqNe)] type_id version) (\<lambda>operation.
     Inr \<lparr>el_operation = operation, el_literal = literal, el_literal_left = literal_left\<rparr>)"

definition string_literal_resolve ::
  "string \<Rightarrow> string \<Rightarrow> rstr \<Rightarrow> bool \<Rightarrow> predicate_error + rstr equality_literal" where
  "string_literal_resolve type_id version literal literal_left =
     rbind (resolve_in
       [(''onlyalpha.predicate.internal.compare.eq.string.literal'', EqEq),
        (''onlyalpha.predicate.internal.compare.ne.string.literal'', EqNe)] type_id version) (\<lambda>operation.
     Inr \<lparr>el_operation = operation, el_literal = literal, el_literal_left = literal_left\<rparr>)"

definition equality_literal_evaluate :: "'a equality_literal \<Rightarrow> 'a option list \<Rightarrow> predicate_error + bool option" where
  "equality_literal_evaluate p inputs =
     (if length inputs \<noteq> 1 then Inl InvalidArity
      else equality_evaluate (el_operation p) (literal_operands (el_literal_left p) (el_literal p) (inputs ! 0)))"

section \<open>Integer comparison (integer_predicate.rs)\<close>

definition strip_minus :: "rstr \<Rightarrow> rstr" where
  "strip_minus s = (case s of c # r \<Rightarrow> if c = 45 then r else s | [] \<Rightarrow> s)"

definition starts_minus :: "rstr \<Rightarrow> bool" where
  "starts_minus s = (case s of c # _ \<Rightarrow> c = 45 | [] \<Rightarrow> False)"

definition starts_nonzero_digit :: "rstr \<Rightarrow> bool" where
  "starts_nonzero_digit s = (case s of c # _ \<Rightarrow> 49 \<le> c \<and> c \<le> 57 | [] \<Rightarrow> False)"

definition integer_parse :: "rstr \<Rightarrow> predicate_error + rstr" where
  "integer_parse v =
     (let digits = strip_minus v
      in if v = [48] \<or> (starts_nonzero_digit digits \<and> list_all is_digit digits)
         then Inr v else Inl InvalidInteger)"

definition integer_compare :: "rstr \<Rightarrow> rstr \<Rightarrow> ordering" where
  "integer_compare a b =
     (let negative = starts_minus a; other_negative = starts_minus b
      in if negative \<noteq> other_negative then (if negative then Less else Greater)
         else
           let left = strip_minus a; right = strip_minus b;
               magnitude = then_with (cmp (length left) (length right)) (cmp left right)
           in if negative then ord_reverse magnitude else magnitude)"

datatype comparison = CEq | CNe | CLt | CLe | CGt | CGe

definition comparison_table :: "string \<Rightarrow> string \<Rightarrow> (string \<times> comparison) list" where
  "comparison_table family form =
     map (\<lambda>(name, op). (''onlyalpha.predicate.internal.compare.'' @ name @ ''.'' @ family @ ''.'' @ form, op))
       [(''eq'', CEq), (''ne'', CNe), (''lt'', CLt), (''le'', CLe), (''gt'', CGt), (''ge'', CGe)]"

definition integer_resolve :: "string \<Rightarrow> string \<Rightarrow> predicate_error + comparison" where
  "integer_resolve = resolve_in (comparison_table ''integer'' ''refs'')"

definition holds_for :: "comparison \<Rightarrow> ordering \<Rightarrow> bool" where
  "holds_for p order =
     (case p of
        CEq \<Rightarrow> order = Equal | CNe \<Rightarrow> order \<noteq> Equal | CLt \<Rightarrow> order = Less
      | CLe \<Rightarrow> order \<noteq> Greater | CGt \<Rightarrow> order = Greater | CGe \<Rightarrow> order \<noteq> Less)"

definition compare_evaluate ::
  "('a \<Rightarrow> 'a \<Rightarrow> ordering) \<Rightarrow> comparison \<Rightarrow> 'a option list \<Rightarrow> predicate_error + bool option" where
  "compare_evaluate compare p operands =
     (if length operands \<noteq> 2 then Inl InvalidArity
      else case (operands ! 0, operands ! 1) of
             (Some l, Some r) \<Rightarrow> Inr (Some (holds_for p (compare l r)))
           | _ \<Rightarrow> Inr None)"

definition integer_evaluate :: "comparison \<Rightarrow> rstr option list \<Rightarrow> predicate_error + bool option" where
  "integer_evaluate = compare_evaluate integer_compare"

record 'a comparison_literal =
  cl_operation :: comparison
  cl_literal :: 'a
  cl_literal_left :: bool

definition integer_literal_resolve ::
  "string \<Rightarrow> string \<Rightarrow> rstr \<Rightarrow> bool \<Rightarrow> predicate_error + rstr comparison_literal" where
  "integer_literal_resolve type_id version literal literal_left =
     rbind (resolve_in (comparison_table ''integer'' ''literal'') type_id version) (\<lambda>operation.
     Inr \<lparr>cl_operation = operation, cl_literal = literal, cl_literal_left = literal_left\<rparr>)"

definition integer_literal_evaluate :: "rstr comparison_literal \<Rightarrow> rstr option list \<Rightarrow> predicate_error + bool option" where
  "integer_literal_evaluate p inputs =
     (if length inputs \<noteq> 1 then Inl InvalidArity
      else integer_evaluate (cl_operation p) (literal_operands (cl_literal_left p) (cl_literal p) (inputs ! 0)))"

section \<open>Decimal comparison (decimal_predicate.rs)\<close>

record decimal_operand =
  do_negative :: bool
  do_integer :: rstr
  do_fraction :: rstr

definition split_dot :: "rstr \<Rightarrow> (rstr \<times> rstr) option" where
  "split_dot s = (if 46 \<in> set s then Some (takeWhile (\<lambda>x. x \<noteq> 46) s, tl (dropWhile (\<lambda>x. x \<noteq> 46) s)) else None)"

definition trim_start_zeros :: "rstr \<Rightarrow> rstr" where
  "trim_start_zeros s = dropWhile (\<lambda>c. c = 48) s"

definition trim_end_zeros :: "rstr \<Rightarrow> rstr" where
  "trim_end_zeros s = rev (dropWhile (\<lambda>c. c = 48) (rev s))"

definition decimal_parse :: "rstr \<Rightarrow> predicate_error + decimal_operand" where
  "decimal_parse v =
     (let magnitude = strip_minus v
      in rbind (case split_dot magnitude of
                  Some (whole, fraction) \<Rightarrow> if fraction \<noteq> [] then Inr (whole, fraction) else Inl PredInvalidDecimal
                | None \<Rightarrow> Inr (magnitude, [])) (\<lambda>(whole, fraction).
         if \<not> (whole = [48] \<or> starts_nonzero_digit whole) \<or> \<not> list_all is_digit whole \<or> \<not> list_all is_digit fraction
         then Inl PredInvalidDecimal
         else
           let int_part = trim_start_zeros whole; frac_part = trim_end_zeros fraction
           in Inr \<lparr>do_negative = (starts_minus v \<and> \<not> (int_part = [] \<and> frac_part = [])),
                   do_integer = int_part, do_fraction = frac_part\<rparr>))"

definition decimal_compare :: "decimal_operand \<Rightarrow> decimal_operand \<Rightarrow> ordering" where
  "decimal_compare a b =
     (if do_negative a \<noteq> do_negative b then (if do_negative a then Less else Greater)
      else
        let magnitude = then_with (then_with (cmp (length (do_integer a)) (length (do_integer b)))
                                             (cmp (do_integer a) (do_integer b)))
                                  (cmp (do_fraction a) (do_fraction b))
        in if do_negative a then ord_reverse magnitude else magnitude)"

definition decimal_resolve :: "string \<Rightarrow> string \<Rightarrow> predicate_error + comparison" where
  "decimal_resolve = resolve_in (comparison_table ''decimal'' ''refs'')"

definition decimal_evaluate :: "comparison \<Rightarrow> decimal_operand option list \<Rightarrow> predicate_error + bool option" where
  "decimal_evaluate = compare_evaluate decimal_compare"

definition decimal_literal_resolve ::
  "string \<Rightarrow> string \<Rightarrow> decimal_operand \<Rightarrow> bool \<Rightarrow> predicate_error + decimal_operand comparison_literal" where
  "decimal_literal_resolve type_id version literal literal_left =
     rbind (resolve_in (comparison_table ''decimal'' ''literal'') type_id version) (\<lambda>operation.
     Inr \<lparr>cl_operation = operation, cl_literal = literal, cl_literal_left = literal_left\<rparr>)"

definition decimal_literal_evaluate ::
  "decimal_operand comparison_literal \<Rightarrow> decimal_operand option list \<Rightarrow> predicate_error + bool option" where
  "decimal_literal_evaluate p inputs =
     (if length inputs \<noteq> 1 then Inl InvalidArity
      else decimal_evaluate (cl_operation p) (literal_operands (cl_literal_left p) (cl_literal p) (inputs ! 0)))"

end
