(* ===== verification/Predicate_Properties.thy ===== *)
theory Predicate_Properties
  imports Predicates
begin

text \<open>
  The predicates compute what their names say: the connectives are the strongest sound
  answers when operands may be missing, and comparing the texts of integers and decimals is
  comparing the numbers. The locale \<open>exact_order\<close> is the contract of a text comparison;
  integers and decimals interpret it.
\<close>

section \<open>Text order and numeric order\<close>

definition no_leading_zero :: "rstr \<Rightarrow> bool" where
  "no_leading_zero ds = (case ds of [] \<Rightarrow> True | d # _ \<Rightarrow> d \<noteq> 48)"

lemma digit_le: "is_digit d \<Longrightarrow> d - 48 \<le> 9"
  by (auto simp: is_digit_def)

lemma is_digit_ge: "is_digit d \<Longrightarrow> 48 \<le> d"
  by (simp add: is_digit_def)

lemma digits_value_mono:
  "list_all is_digit xs \<Longrightarrow> list_all is_digit ys \<Longrightarrow> length xs = length ys \<Longrightarrow>
   xs < ys \<longleftrightarrow> digits_value xs < digits_value ys"
proof (induction xs arbitrary: ys)
  case (Cons x xs)
  then obtain y ys' where y: "ys = y # ys'" by (cases ys) auto
  with Cons.prems have l: "length xs = length ys'" and d: "48 \<le> x" "48 \<le> y"
    and vx: "digits_value xs < 10 ^ length ys'" and vy: "digits_value ys' < 10 ^ length ys'"
    using digits_value_less [of xs] digits_value_less [of ys'] by (auto dest: is_digit_ge)
  have less: "a * 10 ^ k + b < c * 10 ^ k + e" if "a < c" "b < 10 ^ k" for a b c e k :: nat
  proof -
    have "Suc a * 10 ^ k \<le> c * 10 ^ k" using that(1) by (intro mult_right_mono) simp_all
    with that(2) show ?thesis by simp
  qed
  consider "x < y" | "x = y" | "y < x" by linarith
  then show ?case
  proof cases
    case 1
    then have "x - 48 < y - 48" using d by linarith
    from less [OF this vx] 1 show ?thesis using l by (simp add: y digits_value_Cons)
  next
    case 2
    then show ?thesis using Cons l by (simp add: y digits_value_Cons)
  next
    case 3
    then have "y - 48 < x - 48" using d by linarith
    from less [OF this vy, of "digits_value xs"] 3 show ?thesis using l by (simp add: y digits_value_Cons)
  qed
qed simp

lemma digits_value_inj:
  "list_all is_digit xs \<Longrightarrow> list_all is_digit ys \<Longrightarrow> length xs = length ys \<Longrightarrow>
   digits_value xs = digits_value ys \<longleftrightarrow> xs = ys"
  using digits_value_mono [of xs ys] digits_value_mono [of ys xs] by (metis less_irrefl linorder_less_linear)

lemma digits_value_ge:
  assumes "list_all is_digit (d # ds)" "d \<noteq> 48"
  shows "10 ^ length ds \<le> digits_value (d # ds)"
proof -
  have "1 \<le> d - 48" using assms by (auto simp: is_digit_def)
  then have "1 * 10 ^ length ds \<le> (d - 48) * 10 ^ length ds" by (intro mult_right_mono) simp_all
  then show ?thesis unfolding digits_value_Cons mult_1 by (rule trans_le_add1)
qed

lemma digits_value_pos: "list_all is_digit (d # ds) \<Longrightarrow> d \<noteq> 48 \<Longrightarrow> 0 < digits_value (d # ds)"
  using digits_value_ge [of d ds] by (meson less_le_trans zero_less_power zero_less_numeral)

lemma shorter_less:
  assumes "list_all is_digit xs" "list_all is_digit ys" "no_leading_zero ys" "length xs < length ys"
  shows "digits_value xs < digits_value ys"
proof -
  obtain y ys' where y: "ys = y # ys'" using assms(4) by (cases ys) auto
  have "digits_value xs < 10 ^ length xs" by (rule digits_value_less [OF assms(1)])
  also have "\<dots> \<le> 10 ^ length ys'" using assms(4) y by (intro power_increasing) simp_all
  also have "\<dots> \<le> digits_value ys" using digits_value_ge [of y ys'] assms(2,3) by (simp add: y no_leading_zero_def)
  finally show ?thesis .
qed

text \<open>Comparing lengths first and then digits is comparing the numbers.\<close>

lemma magnitude_cmp:
  assumes "list_all is_digit xs" "list_all is_digit ys"
    "length ys < length xs \<Longrightarrow> no_leading_zero xs" "length xs < length ys \<Longrightarrow> no_leading_zero ys"
  shows "then_with (cmp (length xs) (length ys)) (cmp xs ys) = cmp (digits_value xs) (digits_value ys)"
proof -
  consider "length xs < length ys" | "length xs = length ys" | "length ys < length xs" by linarith
  then show ?thesis
  proof cases
    case 1
    then show ?thesis using shorter_less [OF assms(1,2)] assms(4) by (simp add: then_with_def cmp_def)
  next
    case 2
    then have "cmp xs ys = cmp (digits_value xs) (digits_value ys)"
      using digits_value_mono [OF assms(1,2)] digits_value_inj [OF assms(1,2)] by (intro cmp_cong) auto
    with 2 show ?thesis by (simp add: then_with_def)
  next
    case 3
    then show ?thesis using shorter_less [OF assms(2,1)] assms(3) by (simp add: then_with_def cmp_def)
  qed
qed

section \<open>The contract of a text comparison\<close>

fun relation :: "comparison \<Rightarrow> 'v::linorder \<Rightarrow> 'v \<Rightarrow> bool" where
  "relation CEq a b = (a = b)"
| "relation CNe a b = (a \<noteq> b)"
| "relation CLt a b = (a < b)"
| "relation CLe a b = (a \<le> b)"
| "relation CGt a b = (a > b)"
| "relation CGe a b = (a \<ge> b)"

locale exact_order =
  fixes valid :: "'a \<Rightarrow> bool" and compare :: "'a \<Rightarrow> 'a \<Rightarrow> ordering" and num :: "'a \<Rightarrow> 'v::linorder"
  assumes compare_exact: "valid a \<Longrightarrow> valid b \<Longrightarrow> compare a b = cmp (num a) (num b)"
begin

lemma evaluate_exact:
  assumes "valid a" "valid b"
  shows "compare_evaluate compare p [Some a, Some b] = Inr (Some (relation p (num a) (num b)))"
  using compare_exact [OF assms]
  by (cases p) (auto simp: compare_evaluate_def holds_for_def not_less)

lemma evaluate_swap:
  assumes "valid a" "valid b"
  shows "compare_evaluate compare CLt [Some a, Some b] = compare_evaluate compare CGt [Some b, Some a]"
  by (simp add: evaluate_exact assms)

end

section \<open>Integers\<close>

definition int_text :: "int \<Rightarrow> rstr" where
  "int_text i = (if i < 0 then 45 # nat_digits (nat (- i)) else nat_digits (nat i))"

definition int_value :: "rstr \<Rightarrow> int" where
  "int_value s = (if starts_minus s then - int (digits_value (strip_minus s)) else int (digits_value s))"

definition int_valid :: "rstr \<Rightarrow> bool" where
  "int_valid s = (integer_parse s = Inr s)"

lemma strip_minus_digits: "list_all is_digit s \<Longrightarrow> strip_minus s = s \<and> \<not> starts_minus s"
  by (cases s) (auto simp: strip_minus_def starts_minus_def is_digit_def)

lemma int_valid_iff:
  "int_valid s \<longleftrightarrow> s = [48] \<or> list_all is_digit (strip_minus s) \<and> strip_minus s \<noteq> [] \<and> no_leading_zero (strip_minus s)"
  by (cases "strip_minus s")
     (auto simp: int_valid_def integer_parse_def starts_nonzero_digit_def no_leading_zero_def is_digit_def Let_def)

lemma int_valid_text: "int_valid (int_text i)"
proof (cases "i < 0")
  case True
  let ?n = "nat (- i)"
  have "no_leading_zero (nat_digits ?n)"
    using nat_digits_no_leading_zero [of ?n] True by (cases "nat_digits ?n") (auto simp: no_leading_zero_def)
  with True show ?thesis by (simp add: int_valid_iff int_text_def strip_minus_def)
next
  case False
  show ?thesis
  proof (cases "i = 0")
    case True
    then show ?thesis by (simp add: int_text_def int_valid_iff)
  next
    case nz: False
    let ?n = "nat i"
    have "no_leading_zero (nat_digits ?n)"
      using nat_digits_no_leading_zero [of ?n] False nz by (cases "nat_digits ?n") (auto simp: no_leading_zero_def)
    with False show ?thesis
      using strip_minus_digits [OF nat_digits_all, of ?n] by (simp add: int_valid_iff int_text_def)
  qed
qed

lemma int_value_text [simp]: "int_value (int_text i) = i"
  using strip_minus_digits [OF nat_digits_all]
  by (auto simp: int_value_def int_text_def starts_minus_def strip_minus_def)

lemma int_text_value:
  assumes "int_valid s"
  shows "int_text (int_value s) = s"
proof (cases "s = [48]")
  case True
  then show ?thesis by (simp add: int_value_def int_text_def starts_minus_def digits_value_def)
next
  case False
  let ?d = "strip_minus s"
  have d: "list_all is_digit ?d" "?d \<noteq> []" "no_leading_zero ?d" using assms False by (simp_all add: int_valid_iff)
  then have nd: "nat_digits (digits_value ?d) = ?d"
    by (intro nat_digits_digits_value) (auto simp: no_leading_zero_def split: list.splits)
  have pos: "0 < digits_value ?d"
  proof (cases ?d)
    case (Cons a as)
    then show ?thesis using digits_value_pos [of a as] d(1,3) by (simp add: no_leading_zero_def)
  qed (use d in simp)
  show ?thesis
  proof (cases "starts_minus s")
    case True
    then have "s = 45 # ?d" by (auto simp: starts_minus_def strip_minus_def split: list.splits)
    with True nd pos show ?thesis by (simp add: int_value_def int_text_def)
  next
    case False
    then have "s = ?d" by (auto simp: starts_minus_def strip_minus_def split: list.splits)
    with False nd show ?thesis by (simp add: int_value_def int_text_def)
  qed
qed

lemma int_validD:
  assumes "int_valid s"
  shows "list_all is_digit (strip_minus s)" "1 < length (strip_minus s) \<Longrightarrow> no_leading_zero (strip_minus s)"
    "strip_minus s \<noteq> []" "starts_minus s \<Longrightarrow> 0 < digits_value (strip_minus s)"
    "int_value s = (if starts_minus s then - 1 else 1) * int (digits_value (strip_minus s))"
proof -
  have z: "list_all is_digit [48]" by (simp add: is_digit_def)
  show d: "list_all is_digit (strip_minus s)" and "strip_minus s \<noteq> []"
    and "1 < length (strip_minus s) \<Longrightarrow> no_leading_zero (strip_minus s)"
    using assms strip_minus_digits [OF z] z by (auto simp: int_valid_iff)
  show "int_value s = (if starts_minus s then - 1 else 1) * int (digits_value (strip_minus s))"
    by (auto simp: int_value_def strip_minus_def starts_minus_def split: list.splits)
  show "0 < digits_value (strip_minus s)" if "starts_minus s"
  proof -
    have "s \<noteq> [48]" using that by (auto simp: starts_minus_def)
    with assms d obtain x xs where "strip_minus s = x # xs" "x \<noteq> 48"
      by (cases "strip_minus s") (auto simp: int_valid_iff no_leading_zero_def)
    with d digits_value_pos [of x xs] show ?thesis by simp
  qed
qed

lemma integer_compare_exact:
  assumes "int_valid a" "int_valid b"
  shows "integer_compare a b = cmp (int_value a) (int_value b)"
proof -
  let ?x = "digits_value (strip_minus a)" and ?y = "digits_value (strip_minus b)"
  note va = int_validD [OF assms(1)] and vb = int_validD [OF assms(2)]
  have "1 \<le> length (strip_minus a)" "1 \<le> length (strip_minus b)" using va(3) vb(3) by (simp_all add: Suc_le_eq)
  then have m: "then_with (cmp (length (strip_minus a)) (length (strip_minus b))) (cmp (strip_minus a) (strip_minus b)) = cmp ?x ?y"
    using va(1,2) vb(1,2) by (intro magnitude_cmp) auto
  show ?thesis
    unfolding integer_compare_def Let_def m
    using va(4,5) vb(4,5) by (auto simp: cmp_def split: if_splits)
qed

interpretation integers: exact_order int_valid integer_compare int_value
  by unfold_locales (rule integer_compare_exact)

section \<open>Decimals\<close>

definition fraction_value :: "rstr \<Rightarrow> rat" where
  "fraction_value fs = of_nat (digits_value fs) / 10 ^ length fs"

definition dec_value :: "decimal_operand \<Rightarrow> rat" where
  "dec_value d = (if do_negative d then - 1 else 1) * (of_nat (digits_value (do_integer d)) + fraction_value (do_fraction d))"

definition no_trailing_zero :: "rstr \<Rightarrow> bool" where
  "no_trailing_zero fs = (fs \<noteq> [] \<longrightarrow> last fs \<noteq> 48)"

lemma fraction_value_Nil [simp]: "fraction_value [] = 0"
  by (simp add: fraction_value_def)

lemma fraction_value_Cons: "fraction_value (d # ds) = (of_nat (d - 48) + fraction_value ds) / 10"
  by (simp add: fraction_value_def digits_value_Cons field_simps)

lemma fraction_value_bounds: "list_all is_digit fs \<Longrightarrow> 0 \<le> fraction_value fs \<and> fraction_value fs < 1"
proof -
  assume "list_all is_digit fs"
  from digits_value_less [OF this] have "(of_nat (digits_value fs) :: rat) < of_nat (10 ^ length fs)" by (simp only: of_nat_less_iff)
  then show ?thesis by (simp add: fraction_value_def)
qed

lemma fraction_pos: "list_all is_digit fs \<Longrightarrow> no_trailing_zero fs \<Longrightarrow> fs \<noteq> [] \<Longrightarrow> 0 < fraction_value fs"
proof -
  assume fs: "list_all is_digit fs" "no_trailing_zero fs" "fs \<noteq> []"
  then obtain gs d where "fs = gs @ [d]" "is_digit d" "d \<noteq> 48"
    by (cases fs rule: rev_cases) (auto simp: no_trailing_zero_def)
  then have "0 < digits_value fs" by (auto simp: is_digit_def)
  then show ?thesis by (simp add: fraction_value_def)
qed

lemma fraction_order:
  "list_all is_digit xs \<Longrightarrow> list_all is_digit ys \<Longrightarrow> no_trailing_zero xs \<Longrightarrow> no_trailing_zero ys \<Longrightarrow>
   (xs < ys \<longleftrightarrow> fraction_value xs < fraction_value ys) \<and> (xs = ys \<longleftrightarrow> fraction_value xs = fraction_value ys)"
proof (induction xs arbitrary: ys)
  case Nil
  then show ?case using fraction_pos [of ys] by (cases ys) auto
next
  case (Cons x xs)
  show ?case
  proof (cases ys)
    case Nil
    then show ?thesis using fraction_pos [of "x # xs"] Cons.prems by auto
  next
    case (Cons y ys')
    have d: "is_digit x" "is_digit y" "list_all is_digit xs" "list_all is_digit ys'"
      "no_trailing_zero xs" "no_trailing_zero ys'"
      using Cons.prems by (auto simp: Cons no_trailing_zero_def split: if_splits)
    note b = fraction_value_bounds [OF d(3)] fraction_value_bounds [OF d(4)]
    note ih = Cons.IH [OF d(3-6)]
    consider "x < y" | "x = y" | "y < x" by linarith
    then show ?thesis
    proof cases
      case 1
      then have "x - 48 + 1 \<le> y - 48" using d by (auto simp: is_digit_def)
      then have "(of_nat (x - 48) :: rat) + 1 \<le> of_nat (y - 48)" by (metis of_nat_1 of_nat_add of_nat_le_iff)
      with b 1 show ?thesis by (auto simp: Cons fraction_value_Cons)
    next
      case 2
      with ih show ?thesis by (auto simp: Cons fraction_value_Cons)
    next
      case 3
      then have "y - 48 + 1 \<le> x - 48" using d by (auto simp: is_digit_def)
      then have "(of_nat (y - 48) :: rat) + 1 \<le> of_nat (x - 48)" by (metis of_nat_1 of_nat_add of_nat_le_iff)
      with b 3 show ?thesis by (auto simp: Cons fraction_value_Cons)
    qed
  qed
qed

definition dec_wf :: "decimal_operand \<Rightarrow> bool" where
  "dec_wf d = (list_all is_digit (do_integer d) \<and> no_leading_zero (do_integer d)
     \<and> list_all is_digit (do_fraction d) \<and> no_trailing_zero (do_fraction d)
     \<and> (do_negative d \<longrightarrow> do_integer d \<noteq> [] \<or> do_fraction d \<noteq> []))"

lemma list_all_dropWhile: "list_all P xs \<Longrightarrow> list_all P (dropWhile Q xs)"
  by (induction xs) auto

lemma trim_start_props:
  assumes "list_all is_digit s"
  shows "list_all is_digit (trim_start_zeros s)" "no_leading_zero (trim_start_zeros s)"
    "digits_value (trim_start_zeros s) = digits_value s"
proof -
  show "list_all is_digit (trim_start_zeros s)" by (simp add: trim_start_zeros_def list_all_dropWhile assms)
  show "no_leading_zero (trim_start_zeros s)"
    by (induction s) (auto simp: trim_start_zeros_def no_leading_zero_def)
  show "digits_value (trim_start_zeros s) = digits_value s"
    by (induction s) (auto simp: trim_start_zeros_def digits_value_Cons)
qed

lemma fraction_value_snoc_zero: "fraction_value (fs @ [48]) = fraction_value fs"
  by (simp add: fraction_value_def)

lemma trim_end_props:
  assumes "list_all is_digit s"
  shows "list_all is_digit (trim_end_zeros s)" "no_trailing_zero (trim_end_zeros s)"
    "fraction_value (trim_end_zeros s) = fraction_value s"
proof -
  show "list_all is_digit (trim_end_zeros s)"
    using list_all_dropWhile [of is_digit "rev s"] assms by (simp add: trim_end_zeros_def)
  show "no_trailing_zero (trim_end_zeros s)"
    using hd_dropWhile [of "\<lambda>c. c = 48" "rev s"] by (auto simp: trim_end_zeros_def no_trailing_zero_def last_rev)
  show "fraction_value (trim_end_zeros s) = fraction_value s"
    by (induction s rule: rev_induct) (auto simp: trim_end_zeros_def fraction_value_snoc_zero)
qed

definition decimal_parts :: "rstr \<Rightarrow> rstr \<times> rstr" where
  "decimal_parts s = (case split_dot (strip_minus s) of Some p \<Rightarrow> p | None \<Rightarrow> (strip_minus s, []))"

definition text_value :: "rstr \<Rightarrow> rat" where
  "text_value s = (if starts_minus s then - 1 else 1)
     * (of_nat (digits_value (fst (decimal_parts s))) + fraction_value (snd (decimal_parts s)))"

lemma decimal_parse_cases:
  assumes "decimal_parse s = Inr d"
  defines "w \<equiv> fst (decimal_parts s)" and "f \<equiv> snd (decimal_parts s)"
  shows "list_all is_digit w" "list_all is_digit f"
    "d = \<lparr>do_negative = (starts_minus s \<and> \<not> (trim_start_zeros w = [] \<and> trim_end_zeros f = [])),
          do_integer = trim_start_zeros w, do_fraction = trim_end_zeros f\<rparr>"
  using assms(1) unfolding decimal_parse_def w_def f_def decimal_parts_def Let_def
  by (auto simp: result_simps split: option.splits if_splits prod.splits)

lemma decimal_parse_wf:
  assumes "decimal_parse s = Inr d"
  shows "dec_wf d \<and> dec_value d = text_value s"
proof -
  note c = decimal_parse_cases [OF assms]
  note w = trim_start_props [OF c(1)] and f = trim_end_props [OF c(2)]
  have "dec_wf d" using w f by (auto simp: dec_wf_def c(3))
  moreover have "dec_value d = text_value s"
  proof (cases "trim_start_zeros (fst (decimal_parts s)) = [] \<and> trim_end_zeros (snd (decimal_parts s)) = []")
    case True
    then have "digits_value (fst (decimal_parts s)) = 0" "fraction_value (snd (decimal_parts s)) = 0"
      using w(3) f(3) by auto
    with True show ?thesis by (simp add: dec_value_def text_value_def c(3))
  next
    case False
    with w(3) f(3) show ?thesis by (auto simp: dec_value_def text_value_def c(3))
  qed
  ultimately show ?thesis ..
qed

lemma magnitude_decimal_cmp:
  assumes "dec_wf a" "dec_wf b"
  shows "then_with (then_with (cmp (length (do_integer a)) (length (do_integer b))) (cmp (do_integer a) (do_integer b)))
      (cmp (do_fraction a) (do_fraction b)) =
    cmp (of_nat (digits_value (do_integer a)) + fraction_value (do_fraction a))
        (of_nat (digits_value (do_integer b)) + fraction_value (do_fraction b))"
proof -
  let ?i = "digits_value (do_integer a)" and ?j = "digits_value (do_integer b)"
  let ?f = "fraction_value (do_fraction a)" and ?g = "fraction_value (do_fraction b)"
  have m: "then_with (cmp (length (do_integer a)) (length (do_integer b))) (cmp (do_integer a) (do_integer b)) = cmp ?i ?j"
    using assms by (intro magnitude_cmp) (simp_all add: dec_wf_def)
  have f: "cmp (do_fraction a) (do_fraction b) = cmp ?f ?g"
    using assms fraction_order [of "do_fraction a" "do_fraction b"] by (intro cmp_cong) (auto simp: dec_wf_def)
  have b: "0 \<le> ?f" "?f < 1" "0 \<le> ?g" "?g < 1"
    using assms fraction_value_bounds by (auto simp: dec_wf_def)
  consider "?i + 1 \<le> ?j" | "?i = ?j" | "?j + 1 \<le> ?i" by linarith
  then show ?thesis
  proof cases
    case 1
    then have "(of_nat ?i :: rat) + 1 \<le> of_nat ?j" by (metis of_nat_1 of_nat_add of_nat_le_iff)
    with 1 b show ?thesis unfolding m by (auto simp: then_with_def cmp_def)
  next
    case 2
    then show ?thesis unfolding m f by (simp add: then_with_def cmp_def)
  next
    case 3
    then have "(of_nat ?j :: rat) + 1 \<le> of_nat ?i" by (metis of_nat_1 of_nat_add of_nat_le_iff)
    with 3 b show ?thesis unfolding m by (auto simp: then_with_def cmp_def)
  qed
qed

lemma dec_magnitude_sign:
  assumes "dec_wf d"
  shows "0 \<le> of_nat (digits_value (do_integer d)) + fraction_value (do_fraction d)"
    "do_negative d \<Longrightarrow> 0 < of_nat (digits_value (do_integer d)) + fraction_value (do_fraction d)"
proof -
  have f: "0 \<le> fraction_value (do_fraction d)" using assms fraction_value_bounds by (auto simp: dec_wf_def)
  then show "0 \<le> of_nat (digits_value (do_integer d)) + fraction_value (do_fraction d)" by simp
  assume "do_negative d"
  then consider "do_integer d \<noteq> []" | "do_fraction d \<noteq> []" using assms by (auto simp: dec_wf_def)
  then show "0 < of_nat (digits_value (do_integer d)) + fraction_value (do_fraction d)"
  proof cases
    case 1
    then have "0 < digits_value (do_integer d)"
      using assms digits_value_pos by (cases "do_integer d") (auto simp: dec_wf_def no_leading_zero_def)
    then have "(0 :: rat) < of_nat (digits_value (do_integer d))" by simp
    with f show ?thesis by linarith
  next
    case 2
    then have "0 < fraction_value (do_fraction d)" using assms fraction_pos by (auto simp: dec_wf_def)
    then show ?thesis by (simp add: add_nonneg_pos)
  qed
qed

lemma decimal_compare_exact:
  assumes "dec_wf a" "dec_wf b"
  shows "decimal_compare a b = cmp (dec_value a) (dec_value b)"
  unfolding decimal_compare_def Let_def magnitude_decimal_cmp [OF assms]
  using dec_magnitude_sign [OF assms(1)] dec_magnitude_sign [OF assms(2)]
  by (auto simp: dec_value_def cmp_def)

interpretation decimals: exact_order dec_wf decimal_compare dec_value
  by unfold_locales (rule decimal_compare_exact)

section \<open>Properties\<close>

text \<open>
  C36: the integer reader accepts exactly the canonical spellings of integers, and comparing two
  accepted texts with any of the six relations gives the relation between the integers, of
  any size, without converting them.
\<close>

theorem integer_comparison_exact:
  "(integer_parse s = Inr t \<longleftrightarrow> t = s \<and> (\<exists>i. s = int_text i))
   \<and> integer_evaluate p [Some (int_text a), Some (int_text b)] = Inr (Some (relation p a b))"
proof
  have "integer_parse s = Inr t \<longleftrightarrow> t = s \<and> int_valid s"
    by (auto simp: int_valid_def integer_parse_def Let_def)
  also have "int_valid s \<longleftrightarrow> (\<exists>i. s = int_text i)" using int_text_value int_valid_text by metis
  finally show "integer_parse s = Inr t \<longleftrightarrow> t = s \<and> (\<exists>i. s = int_text i)" .
  show "integer_evaluate p [Some (int_text a), Some (int_text b)] = Inr (Some (relation p a b))"
    by (simp add: integer_evaluate_def integers.evaluate_exact int_valid_text)
qed

text \<open>
  comparing two readable decimal texts, however they spell leading integer or trailing
  fractional zeros and negative zero, gives the relation between the rational numbers they
  denote.
\<close>

theorem decimal_comparison_exact:
  assumes "decimal_parse s = Inr a" "decimal_parse t = Inr b"
  shows "decimal_evaluate p [Some a, Some b] = Inr (Some (relation p (text_value s) (text_value t)))"
  using decimals.evaluate_exact [of a b p] decimal_parse_wf [OF assms(1)] decimal_parse_wf [OF assms(2)]
  by (simp add: decimal_evaluate_def)

theorem decimal_comparison_exact_witness:
  "\<exists>a b. decimal_parse [45, 48, 46, 53, 48] = Inr a \<and> decimal_parse [49] = Inr b
     \<and> decimal_evaluate CLt [Some a, Some b] = Inr (Some (text_value [45, 48, 46, 53, 48] < text_value [49]))"
proof -
  have "\<exists>a. decimal_parse [45, 48, 46, 53, 48] = Inr a" "\<exists>b. decimal_parse [49] = Inr b"
    by (simp_all add: decimal_parse_def strip_minus_def split_dot_def is_digit_def starts_nonzero_digit_def Let_def)
  then obtain a b where ab: "decimal_parse [45, 48, 46, 53, 48] = Inr a" "decimal_parse [49] = Inr b" by blast
  from decimal_comparison_exact [OF ab, of CLt] ab show ?thesis by auto
qed

text \<open>
  With the right number of operands, a predicate answers a truth value exactly when every
  way of filling in the missing operands gives that value, and answers unknown otherwise.
\<close>

theorem predicate_strongest_answer:
  assumes "length operands = arity p"
  shows "\<exists>out. predicate_evaluate p operands = Inr out
    \<and> (\<forall>b. out = Some b \<longleftrightarrow>
         (\<forall>filled. list_all2 (\<lambda>x y. x = None \<or> x = Some y) operands filled \<longrightarrow>
            (case p of PAnd \<Rightarrow> filled ! 0 \<and> filled ! 1 | POr \<Rightarrow> filled ! 0 \<or> filled ! 1
             | PNot \<Rightarrow> \<not> filled ! 0 | _ \<Rightarrow> filled ! 0) = b))"
proof -
  have 1: "(\<forall>filled. list_all2 R [x] filled \<longrightarrow> P filled) \<longleftrightarrow> (\<forall>u. R x u \<longrightarrow> P [u])"
    for R and x :: "bool option" and P :: "bool list \<Rightarrow> bool"
    by (auto simp: list_all2_Cons1)
  have 2: "(\<forall>filled. list_all2 R [x, y] filled \<longrightarrow> P filled) \<longleftrightarrow> (\<forall>u v. R x u \<longrightarrow> R y v \<longrightarrow> P [u, v])"
    for R and x y :: "bool option" and P :: "bool list \<Rightarrow> bool"
    by (auto simp: list_all2_Cons1)
  have ex: "(\<forall>u::bool. Q u) \<longleftrightarrow> Q True \<and> Q False" for Q by (metis (full_types))
  consider (binary) x y where "operands = [x, y]" "p = PAnd \<or> p = POr"
    | (unary) x where "operands = [x]" "p \<noteq> PAnd" "p \<noteq> POr"
    using assms by (cases p; force simp: arity_def length_Suc_conv numeral_2_eq_2)
  then show ?thesis
  proof cases
    case binary
    then show ?thesis
      by (cases x; cases y; elim disjE)
         (auto simp: predicate_evaluate_def arity_def 2 ex Let_def)
  next
    case unary
    then show ?thesis
      by (cases x; cases p) (auto simp: predicate_evaluate_def arity_def 1 ex)
  qed
qed

theorem predicate_strongest_answer_witness:
  "\<exists>out. predicate_evaluate PAnd [None, Some False] = Inr out"
  using predicate_strongest_answer [of "[None, Some False]" PAnd] by (auto simp: arity_def)

end
