(* ===== verification/Decimal.thy ===== *)
theory Decimal
  imports Complex_Main Decimal_Text
begin

text \<open>
  Exact decimal arithmetic of \<open>crates/domain/src/numeric.rs\<close> and the dimensional values of
  \<open>value.rs\<close>. A \<open>BigDecimal\<close> is its coefficient and scale, the pair its constructor \<open>new\<close>
  takes and \<open>as_bigint_and_exponent\<close> returns; the arithmetic of the \<open>bigdecimal\<close> crate is the
  record \<open>decimal_lib\<close>, an argument of the definitions that call it, whose documented
  behaviour is the locale \<open>bigdecimal\<close>. Scales are \<^typ>\<open>int\<close> with the checked \<open>i64\<close>
  operations of the source written out. Unicode tables are arguments as well.
\<close>

section \<open>The decimal library\<close>

record bigdec =
  bd_coef :: int
  bd_scale :: int

definition bd_value :: "bigdec \<Rightarrow> rat" where
  "bd_value b = of_int (bd_coef b) * 10 powi (- bd_scale b)"

datatype rounding_mode = HalfEven | HalfUp | HalfDown | RUp | RDown | Ceiling | RFloor | ZeroFiveUp

record decimal_lib =
  lib_add :: "bigdec \<Rightarrow> bigdec \<Rightarrow> bigdec"
  lib_sub :: "bigdec \<Rightarrow> bigdec \<Rightarrow> bigdec"
  lib_mul :: "bigdec \<Rightarrow> bigdec \<Rightarrow> bigdec"
  lib_rem :: "bigdec \<Rightarrow> bigdec \<Rightarrow> bigdec"
  lib_with_scale :: "bigdec \<Rightarrow> int \<Rightarrow> bigdec"
  lib_with_scale_round :: "bigdec \<Rightarrow> int \<Rightarrow> rounding_mode \<Rightarrow> bigdec"
  lib_normalized :: "bigdec \<Rightarrow> bigdec"
  lib_cmp :: "bigdec \<Rightarrow> bigdec \<Rightarrow> ordering"
  lib_parse :: "rstr \<Rightarrow> bigdec option"
  lib_display :: "bigdec \<Rightarrow> rstr"

section \<open>Decimals (numeric.rs)\<close>

datatype domain_error =
    DomValidation string
  | DomCurrencyMismatch string
  | DomStateTransition string
  | DomSerialization string

record decimal =
  d_number :: bigdec
  d_negative_zero :: bool

definition max_emax :: int where
  "max_emax = 999999999999999999"

definition min_etiny :: int where
  "min_etiny = - 1999999999999999997"

definition division_precision :: int where
  "division_precision = 28"

definition i64_range :: "int \<Rightarrow> bool" where
  "i64_range i = (- (2 ^ 63) \<le> i \<and> i < 2 ^ 63)"

definition digit_count :: "int \<Rightarrow> int" where
  "digit_count c = int (length (nat_digits (nat \<bar>c\<bar>)))"

definition canonical :: "decimal_lib \<Rightarrow> decimal \<Rightarrow> decimal" where
  "canonical lib d = \<lparr>d_number = lib_normalized lib (d_number d), d_negative_zero = False\<rparr>"

definition is_negative :: "decimal \<Rightarrow> bool" where
  "is_negative d = (bd_coef (d_number d) < 0 \<or> d_negative_zero d)"

definition is_zero :: "decimal \<Rightarrow> bool" where
  "is_zero d = (bd_coef (d_number d) = 0)"

definition decimal_eq :: "decimal_lib \<Rightarrow> decimal \<Rightarrow> decimal \<Rightarrow> bool" where
  "decimal_eq lib a b = (lib_cmp lib (d_number a) (d_number b) = Equal)"

definition decimal_cmp :: "decimal_lib \<Rightarrow> decimal \<Rightarrow> decimal \<Rightarrow> ordering" where
  "decimal_cmp lib a b = lib_cmp lib (d_number a) (d_number b)"

definition fractional_precision :: "decimal \<Rightarrow> int" where
  "fractional_precision d = max (bd_scale (d_number d)) 0"

definition scale_ok :: "int \<Rightarrow> bool" where
  "scale_ok s = (- max_emax \<le> s \<and> s \<le> - min_etiny)"

definition result :: "bigdec \<Rightarrow> bool \<Rightarrow> domain_error + decimal" where
  "result number negative_zero =
     (let adjusted = digit_count (bd_coef number) - bd_scale number - 1
      in if \<not> scale_ok (bd_scale number) \<or> adjusted > max_emax
         then Inl (DomValidation ''decimal result outside the canonical range'')
         else Inr \<lparr>d_number = number, d_negative_zero = (bd_coef number = 0 \<and> negative_zero)\<rparr>)"

fun strip_tens :: "int \<Rightarrow> int \<Rightarrow> int \<times> int" where
  "strip_tens c s = (if c \<noteq> 0 \<and> 10 dvd c then strip_tens (c div 10) (s - 1) else (c, s))"

declare strip_tens.simps [simp del]

definition hash_key :: "decimal \<Rightarrow> int \<times> int" where
  "hash_key d =
     (let c = bd_coef (d_number d); s = bd_scale (d_number d)
      in if c = 0 then (c, 0) else strip_tens c s)"

record unicode_tables =
  uni_alphanumeric :: "(nat \<times> nat) list"
  uni_uppercase :: "(nat \<times> rstr) list"
  uni_decimal_digits :: "(nat \<times> nat) list"

definition range_at :: "(nat \<times> nat) list \<Rightarrow> nat \<Rightarrow> (nat \<times> nat) option" where
  "range_at ranges c =
     (case dropWhile (\<lambda>(_, stop). stop < c) ranges of
        [] \<Rightarrow> None
      | (start, stop) # _ \<Rightarrow> if start \<le> c \<and> c \<le> stop then Some (start, stop) else None)"

definition alphanumeric :: "unicode_tables \<Rightarrow> nat \<Rightarrow> bool" where
  "alphanumeric uni c = (range_at (uni_alphanumeric uni) c \<noteq> None)"

definition uppercase :: "unicode_tables \<Rightarrow> rstr \<Rightarrow> rstr" where
  "uppercase uni s = concat (map (\<lambda>c. case map_of (uni_uppercase uni) c of Some t \<Rightarrow> t | None \<Rightarrow> [c]) s)"

definition char_from_u32 :: "nat \<Rightarrow> nat option" where
  "char_from_u32 n = (if n < 55296 \<or> 57344 \<le> n \<and> n < 1114112 then Some n else None)"

definition decimal_digit :: "unicode_tables \<Rightarrow> nat \<Rightarrow> nat option" where
  "decimal_digit uni c =
     (case range_at (uni_decimal_digits uni) c of
        None \<Rightarrow> None
      | Some (start, _) \<Rightarrow> char_from_u32 (48 + c - start))"

definition decimal_from_str :: "decimal_lib \<Rightarrow> unicode_tables \<Rightarrow> rstr \<Rightarrow> domain_error + decimal" where
  "decimal_from_str lib uni input =
     (let trimmed = trim_matches whitespace input;
          lexical = map (\<lambda>c. case decimal_digit uni c of Some d \<Rightarrow> d | None \<Rightarrow> c) (filter (\<lambda>c. c \<noteq> 95) trimmed)
      in rbind (ok_or (lib_parse lib lexical) (DomValidation ''invalid finite decimal'')) (\<lambda>number.
         result number (case lexical of c # _ \<Rightarrow> c = 45 | [] \<Rightarrow> False)))"

definition int_display_signed :: "int \<Rightarrow> rstr" where
  "int_display_signed i = (if i < 0 then 45 else 43) # nat_digits (nat \<bar>i\<bar>)"

definition decimal_display :: "decimal \<Rightarrow> rstr" where
  "decimal_display d =
     (let digits = nat_digits (nat \<bar>bd_coef (d_number d)\<bar>); scale = bd_scale (d_number d);
          len = int (length digits); adjusted = len - scale - 1
      in (if is_negative d then [45] else []) @
         (if scale < 0 \<or> adjusted < - 6 then
            take 1 digits @ (if length digits > 1 then 46 # drop 1 digits else []) @ 69 # int_display_signed adjusted
          else if scale = 0 then digits
          else if scale < len then take (nat (len - scale)) digits @ 46 # drop (nat (len - scale)) digits
          else 48 # 46 # replicate (nat (scale - len)) 48 @ digits))"

definition only_add :: "decimal_lib \<Rightarrow> decimal \<Rightarrow> decimal \<Rightarrow> domain_error + decimal" where
  "only_add lib l r =
     (let scale = max (bd_scale (d_number l)) (bd_scale (d_number r))
      in result (lib_with_scale lib (lib_add lib (d_number l) (d_number r)) scale)
                (is_negative l \<and> is_negative r))"

definition only_subtract :: "decimal_lib \<Rightarrow> decimal \<Rightarrow> decimal \<Rightarrow> domain_error + decimal" where
  "only_subtract lib l r =
     (let scale = max (bd_scale (d_number l)) (bd_scale (d_number r))
      in result (lib_with_scale lib (lib_sub lib (d_number l) (d_number r)) scale)
                (is_negative l \<and> \<not> is_negative r))"

definition checked_i64 :: "int \<Rightarrow> domain_error + int" where
  "checked_i64 i = (if i64_range i then Inr i else Inl (DomValidation ''decimal scale overflow''))"

definition only_multiply :: "decimal_lib \<Rightarrow> decimal \<Rightarrow> decimal \<Rightarrow> domain_error + decimal" where
  "only_multiply lib l r =
     rbind (checked_i64 (bd_scale (d_number l) + bd_scale (d_number r))) (\<lambda>scale.
     if \<not> scale_ok scale then Inl (DomValidation ''decimal result outside the canonical range'')
     else result (lib_with_scale lib (lib_mul lib (d_number l) (d_number r)) scale)
                 (is_negative l \<noteq> is_negative r))"

definition only_remainder :: "decimal_lib \<Rightarrow> decimal \<Rightarrow> decimal \<Rightarrow> domain_error + decimal" where
  "only_remainder lib l r =
     (if is_zero r then Inl (DomValidation ''domain remainder by zero'')
      else result (lib_rem lib (d_number l) (d_number r)) (is_negative l))"

definition power10 :: "int \<Rightarrow> domain_error + int" where
  "power10 e =
     (if 0 \<le> e \<and> e < 2 ^ 32 then Inr (10 ^ nat e)
      else Inl (DomValidation ''decimal exponent cannot be materialized''))"

lemma div_dvd_smaller: "1 < p \<Longrightarrow> n \<noteq> 0 \<Longrightarrow> p dvd n \<Longrightarrow> \<bar>n div p\<bar> < \<bar>n\<bar>" for p n :: int
  by (auto simp: dvd_def abs_mult)

function strip_factor :: "int \<Rightarrow> int \<Rightarrow> int \<times> nat" where
  "strip_factor p n =
     (if 1 < p \<and> n \<noteq> 0 \<and> p dvd n then (let (m, k) = strip_factor p (n div p) in (m, Suc k)) else (n, 0))"
  by pat_completeness auto
termination
  by (relation "measure (\<lambda>(_, n). nat \<bar>n\<bar>)") (auto intro: div_dvd_smaller)

declare strip_factor.simps [simp del]

fun strip_zeros :: "nat \<Rightarrow> int \<Rightarrow> int \<times> nat" where
  "strip_zeros 0 n = (n, 0)"
| "strip_zeros (Suc s) n = (if 10 dvd n then strip_zeros s (n div 10) else (n, Suc s))"

definition strip_scale :: "int \<Rightarrow> int \<Rightarrow> int \<times> int" where
  "strip_scale n s = (if s > 0 then (let (m, k) = strip_zeros (nat s) n in (m, int k)) else (n, s))"

definition divide_exact :: "int \<Rightarrow> nat \<Rightarrow> nat \<Rightarrow> int \<Rightarrow> domain_error + decimal" where
  "divide_exact numerator twos fives exponent =
     (let scale = max twos fives;
          n1 = numerator * (2 ^ (scale - twos) * 5 ^ (scale - fives))
      in rbind (checked_i64 (int scale - exponent)) (\<lambda>s.
         let (n2, s2) = strip_scale n1 (if n1 = 0 then 0 else s)
         in result \<lparr>bd_coef = n2, bd_scale = s2\<rparr> False))"

definition below_power :: "int \<Rightarrow> int \<Rightarrow> int \<Rightarrow> domain_error + bool" where
  "below_power n d magnitude =
     (if magnitude \<ge> 0 then rbind (power10 magnitude) (\<lambda>p. Inr (n < d * p))
      else rbind (power10 (- magnitude)) (\<lambda>p. Inr (n * p < d)))"

definition scaled_ratio :: "int \<Rightarrow> int \<Rightarrow> int \<Rightarrow> domain_error + int \<times> int" where
  "scaled_ratio n d scale =
     (if scale \<ge> 0 then rbind (power10 scale) (\<lambda>p. Inr (n * p, d))
      else rbind (power10 (- scale)) (\<lambda>p. Inr (n, d * p)))"

definition round_quotient :: "int \<Rightarrow> int \<Rightarrow> int" where
  "round_quotient n d =
     (let q = n div d; r = n mod d; twice = r * 2
      in if twice > d \<or> twice = d \<and> odd q then q + 1 else q)"

definition divide_rounded :: "int \<Rightarrow> int \<Rightarrow> int \<Rightarrow> domain_error + decimal" where
  "divide_rounded numerator denominator exponent =
     (let negative = numerator < 0; n = \<bar>numerator\<bar>;
          magnitude0 = digit_count n - digit_count denominator
      in rbind (below_power n denominator magnitude0) (\<lambda>below.
         let magnitude = (if below then magnitude0 - 1 else magnitude0);
             scale = division_precision - 1 - magnitude
         in rbind (scaled_ratio n denominator scale) (\<lambda>(n1, d1).
            let q = round_quotient n1 d1;
                (q1, scale1) = (if digit_count q > division_precision then (q div 10, scale - 1) else (q, scale));
                q2 = (if negative then - q1 else q1)
            in rbind (checked_i64 (scale1 - exponent)) (\<lambda>s.
               result \<lparr>bd_coef = q2, bd_scale = s\<rparr> False))))"

definition only_divide :: "decimal \<Rightarrow> decimal \<Rightarrow> domain_error + decimal" where
  "only_divide l r =
     (if is_zero r then Inl (DomValidation ''domain division by zero'')
      else
        let n0 = bd_coef (d_number l); d0 = bd_coef (d_number r)
        in rbind (checked_i64 (bd_scale (d_number r) - bd_scale (d_number l))) (\<lambda>exponent.
           let divisor = gcd n0 d0;
               n1 = n0 div divisor; d1 = d0 div divisor;
               (n, d) = (if d1 < 0 then (- n1, - d1) else (n1, d1));
               (residual2, twos) = strip_factor 2 d;
               (residual, fives) = strip_factor 5 residual2
           in if residual = 1 then divide_exact n twos fives exponent
              else divide_rounded n d exponent))"

definition rounded_integer :: "int \<Rightarrow> int \<Rightarrow> rounding_mode \<Rightarrow> int" where
  "rounded_integer numerator denominator mode =
     (let negative = numerator < 0;
          units = \<bar>numerator\<bar> div denominator; remainder = \<bar>numerator\<bar> mod denominator;
          twice = remainder * 2;
          increase = (case mode of
              RDown \<Rightarrow> False
            | RUp \<Rightarrow> True
            | Ceiling \<Rightarrow> \<not> negative
            | RFloor \<Rightarrow> negative
            | HalfEven \<Rightarrow> twice > denominator \<or> twice = denominator \<and> odd units
            | HalfUp \<Rightarrow> twice \<ge> denominator
            | HalfDown \<Rightarrow> twice > denominator
            | ZeroFiveUp \<Rightarrow> units mod 10 = 0 \<or> units mod 10 = 5);
          units1 = (if remainder \<noteq> 0 \<and> increase then units + 1 else units)
      in if negative then - units1 else units1)"

definition only_quantize_with_rounding ::
  "decimal_lib \<Rightarrow> decimal \<Rightarrow> decimal \<Rightarrow> rounding_mode \<Rightarrow> domain_error + decimal" where
  "only_quantize_with_rounding lib v quantum_d mode =
     (let c = bd_coef (d_number v); scale = bd_scale (d_number v); target = bd_scale (d_number quantum_d)
      in if mode = ZeroFiveUp then
           if target \<ge> scale then result (lib_with_scale lib (d_number v) target) (is_negative v)
           else rbind (checked_i64 (scale - target)) (\<lambda>difference.
                rbind (if difference > digit_count c then Inr (sgn c)
                       else rbind (power10 difference) (\<lambda>p. Inr (rounded_integer c p mode))) (\<lambda>units.
                result \<lparr>bd_coef = units, bd_scale = target\<rparr> (is_negative v)))
         else result (lib_with_scale_round lib (d_number v) target mode) (is_negative v))"

definition only_quantize :: "decimal_lib \<Rightarrow> decimal \<Rightarrow> decimal \<Rightarrow> domain_error + decimal" where
  "only_quantize lib v quantum_d = only_quantize_with_rounding lib v quantum_d HalfEven"

definition only_increment :: "decimal \<Rightarrow> decimal \<Rightarrow> rounding_mode \<Rightarrow> domain_error + decimal" where
  "only_increment v increment mode =
     (if is_negative increment \<or> is_zero increment then Inl (DomValidation ''increment must be positive'')
      else
        let n0 = bd_coef (d_number v); c = bd_coef (d_number increment)
        in rbind (checked_i64 (bd_scale (d_number increment) - bd_scale (d_number v))) (\<lambda>exponent.
           let common = gcd n0 c
           in rbind (scaled_ratio (n0 div common) (c div common) exponent) (\<lambda>(n, d).
              result \<lparr>bd_coef = rounded_integer n d mode * c, bd_scale = bd_scale (d_number increment)\<rparr> False)))"

section \<open>Dimensional values (value.rs)\<close>

definition max_precision :: nat where
  "max_precision = 18"

definition validate_precision :: "decimal \<Rightarrow> nat \<Rightarrow> domain_error + unit" where
  "validate_precision v precision =
     (if precision > max_precision \<or> fractional_precision v > int precision
      then Inl (DomValidation ''value exceeds declared precision'') else Inr ())"

definition validate_quantity :: "decimal \<Rightarrow> nat \<Rightarrow> domain_error + unit" where
  "validate_quantity v precision =
     rbind (validate_precision v precision) (\<lambda>_.
     if is_negative v \<and> \<not> is_zero v then Inl (DomValidation ''quantity cannot be negative'') else Inr ())"

definition validate_multiplier :: "decimal \<Rightarrow> nat \<Rightarrow> domain_error + unit" where
  "validate_multiplier v precision =
     rbind (validate_precision v precision) (\<lambda>_.
     if is_negative v \<or> is_zero v then Inl (DomValidation ''multiplier must be positive'') else Inr ())"

record scalar =
  sc_value :: decimal
  sc_precision :: nat

definition scalar_new :: "(decimal \<Rightarrow> nat \<Rightarrow> domain_error + unit) \<Rightarrow> decimal \<Rightarrow> nat \<Rightarrow> domain_error + scalar" where
  "scalar_new check v precision =
     rbind (check v precision) (\<lambda>_. Inr \<lparr>sc_value = v, sc_precision = precision\<rparr>)"

definition quantity_new :: "decimal \<Rightarrow> nat \<Rightarrow> domain_error + scalar" where
  "quantity_new = scalar_new validate_quantity"

definition quantity_add :: "decimal_lib \<Rightarrow> scalar \<Rightarrow> scalar \<Rightarrow> domain_error + scalar" where
  "quantity_add lib a b =
     rbind (only_add lib (sc_value a) (sc_value b)) (\<lambda>v. quantity_new v (max (sc_precision a) (sc_precision b)))"

definition quantity_subtract :: "decimal_lib \<Rightarrow> scalar \<Rightarrow> scalar \<Rightarrow> domain_error + scalar" where
  "quantity_subtract lib a b =
     rbind (only_subtract lib (sc_value a) (sc_value b)) (\<lambda>v. quantity_new v (max (sc_precision a) (sc_precision b)))"

definition percentage_as_rate :: "decimal_lib \<Rightarrow> unicode_tables \<Rightarrow> scalar \<Rightarrow> domain_error + scalar" where
  "percentage_as_rate lib uni p =
     rbind (decimal_from_str lib uni [49, 48, 48]) (\<lambda>hundred.
     rbind (only_divide (sc_value p) hundred) (\<lambda>v.
     scalar_new validate_precision v (min 18 (sc_precision p + 2))))"

definition validated_currency_code :: "unicode_tables \<Rightarrow> rstr \<Rightarrow> nat \<Rightarrow> domain_error + rstr" where
  "validated_currency_code uni code precision =
     (let c = uppercase uni (trim_matches whitespace code)
      in if c = [] \<or> length c > 12 \<or> \<not> list_all (alphanumeric uni) c \<or> precision > 18
         then Inl (DomValidation ''currency requires 1..12 alphanumeric characters and precision 0..18'')
         else Inr c)"

datatype currency_type = Fiat | Crypto | Commodity

record currency =
  cu_code :: rstr
  cu_precision :: nat
  cu_type :: currency_type

definition currency_new :: "unicode_tables \<Rightarrow> rstr \<Rightarrow> nat \<Rightarrow> currency_type \<Rightarrow> domain_error + currency" where
  "currency_new uni code precision kind =
     rbind (validated_currency_code uni code precision) (\<lambda>c.
     Inr \<lparr>cu_code = c, cu_precision = precision, cu_type = kind\<rparr>)"

record money =
  mo_amount :: decimal
  mo_currency :: currency

definition money_new :: "decimal \<Rightarrow> currency \<Rightarrow> domain_error + money" where
  "money_new amount cur =
     rbind (validate_precision amount (cu_precision cur)) (\<lambda>_. Inr \<lparr>mo_amount = amount, mo_currency = cur\<rparr>)"

definition scalar_eq :: "decimal_lib \<Rightarrow> scalar \<Rightarrow> scalar \<Rightarrow> bool" where
  "scalar_eq lib a b = (decimal_eq lib (sc_value a) (sc_value b) \<and> sc_precision a = sc_precision b)"

definition money_eq :: "decimal_lib \<Rightarrow> money \<Rightarrow> money \<Rightarrow> bool" where
  "money_eq lib a b = (decimal_eq lib (mo_amount a) (mo_amount b) \<and> mo_currency a = mo_currency b)"

definition require_currency :: "money \<Rightarrow> money \<Rightarrow> domain_error + unit" where
  "require_currency a b =
     (if mo_currency a \<noteq> mo_currency b then Inl (DomCurrencyMismatch ''currency conversion required'') else Inr ())"

definition money_add :: "decimal_lib \<Rightarrow> money \<Rightarrow> money \<Rightarrow> domain_error + money" where
  "money_add lib a b =
     rbind (require_currency a b) (\<lambda>_.
     rbind (only_add lib (mo_amount a) (mo_amount b)) (\<lambda>v. money_new v (mo_currency a)))"

definition money_subtract :: "decimal_lib \<Rightarrow> money \<Rightarrow> money \<Rightarrow> domain_error + money" where
  "money_subtract lib a b =
     rbind (require_currency a b) (\<lambda>_.
     rbind (only_subtract lib (mo_amount a) (mo_amount b)) (\<lambda>v. money_new v (mo_currency a)))"

end
