(* ===== verification/Decimal_Properties.thy ===== *)
theory Decimal_Properties
  imports Decimal
begin

text \<open>
  Correctness of the decimal arithmetic: addition, subtraction and multiplication are exact
  given the documented behaviour of the decimal library (locale \<open>bigdecimal\<close>, which the
  reference implementation at the end of this theory meets); division is exact for
  terminating quotients and otherwise correct to 28 significant digits; rounding to an
  increment follows the mode; equal decimals have equal hash keys.
\<close>

section \<open>Powers of ten\<close>

lemma pow10_pos [simp]: "(0 :: rat) < 10 powi k"
  by simp

lemma pow10_add: "(10 :: rat) powi (a + b) = 10 powi a * 10 powi b"
  by (rule power_int_add) simp

lemma pow10_nat: "0 \<le> k \<Longrightarrow> (10 :: rat) powi k = of_int (10 ^ nat k)"
  by (simp add: power_int_def)

lemma pow10_neg: "(10 :: rat) powi (- k) = 1 / 10 powi k"
  by (simp add: power_int_minus inverse_eq_divide)

lemma bd_value_scaled: "bd_value b * 10 powi bd_scale b = of_int (bd_coef b)"
  by (simp add: bd_value_def pow10_neg)

lemma bd_value_eq_0 [simp]: "bd_value b = 0 \<longleftrightarrow> bd_coef b = 0"
  by (simp add: bd_value_def)

lemma value_sign: "0 < bd_value d \<longleftrightarrow> 0 < bd_coef d" "0 \<le> bd_value d \<longleftrightarrow> 0 \<le> bd_coef d"
  using mult_less_cancel_right_pos [OF pow10_pos, of 0 "- bd_scale d" "of_int (bd_coef d)"]
    mult_le_cancel_right_pos [OF pow10_pos, of 0 "- bd_scale d" "of_int (bd_coef d)"]
  by (simp_all add: bd_value_def)

lemma bd_value_scale_up:
  assumes "bd_scale b \<le> s"
  shows "\<exists>c. bd_value b * 10 powi s = of_int c"
proof -
  have "bd_value b * 10 powi s = bd_value b * 10 powi bd_scale b * 10 powi (s - bd_scale b)"
    by (simp add: pow10_add [symmetric])
  also have "\<dots> = of_int (bd_coef b * 10 ^ nat (s - bd_scale b))"
    using assms by (simp add: bd_value_scaled pow10_nat)
  finally show ?thesis by blast
qed

section \<open>The decimal library\<close>

definition truncate_rat :: "rat \<Rightarrow> int" where
  "truncate_rat x = (if 0 \<le> x then \<lfloor>x\<rfloor> else \<lceil>x\<rceil>)"

lemma truncate_of_int [simp]: "truncate_rat (of_int i) = i"
  by (simp add: truncate_rat_def)

locale bigdecimal =
  fixes lib :: decimal_lib
  assumes add_value: "bd_value (lib_add lib a b) = bd_value a + bd_value b"
    and sub_value: "bd_value (lib_sub lib a b) = bd_value a - bd_value b"
    and mul_value: "bd_value (lib_mul lib a b) = bd_value a * bd_value b"
    and cmp_value: "lib_cmp lib a b = cmp (bd_value a) (bd_value b)"
    and with_scale_scale: "bd_scale (lib_with_scale lib a s) = s"
    and with_scale_coef: "bd_coef (lib_with_scale lib a s) = truncate_rat (bd_value a * 10 powi s)"
begin

lemma with_scale_exact:
  assumes "bd_value a * 10 powi s = of_int c"
  shows "bd_value (lib_with_scale lib a s) = bd_value a"
proof -
  have "bd_coef (lib_with_scale lib a s) = c" unfolding with_scale_coef assms by simp
  then have "bd_value (lib_with_scale lib a s) = bd_value a * 10 powi s * 10 powi (- s)"
    by (simp add: bd_value_def [of "lib_with_scale lib a s"] with_scale_scale assms)
  then show ?thesis by (simp add: pow10_neg)
qed

lemma aligned_sum:
  assumes "v = bd_value a + bd_value b \<or> v = bd_value a - bd_value b"
  shows "\<exists>c. v * 10 powi (max (bd_scale a) (bd_scale b)) = of_int c"
proof -
  let ?s = "max (bd_scale a) (bd_scale b)"
  obtain x y where "bd_value a * 10 powi ?s = of_int x" "bd_value b * 10 powi ?s = of_int y"
    using bd_value_scale_up [of a ?s] bd_value_scale_up [of b ?s] by auto
  with assms have "v * 10 powi ?s = of_int (x + y) \<or> v * 10 powi ?s = of_int (x - y)"
    by (elim disjE) (simp_all add: distrib_right left_diff_distrib)
  then show ?thesis by blast
qed

lemma add_exact:
  "bd_value (lib_with_scale lib (lib_add lib a b) (max (bd_scale a) (bd_scale b))) = bd_value a + bd_value b"
  using aligned_sum [of "bd_value a + bd_value b" a b] with_scale_exact [of "lib_add lib a b"] by (auto simp: add_value)

lemma sub_exact:
  "bd_value (lib_with_scale lib (lib_sub lib a b) (max (bd_scale a) (bd_scale b))) = bd_value a - bd_value b"
  using aligned_sum [of "bd_value a - bd_value b" a b] with_scale_exact [of "lib_sub lib a b"] by (auto simp: sub_value)

lemma mul_exact:
  "bd_value (lib_with_scale lib (lib_mul lib a b) (bd_scale a + bd_scale b)) = bd_value a * bd_value b"
proof -
  have "bd_value (lib_mul lib a b) * 10 powi (bd_scale a + bd_scale b)
      = (bd_value a * 10 powi bd_scale a) * (bd_value b * 10 powi bd_scale b)"
    by (simp add: mul_value pow10_add)
  also have "\<dots> = of_int (bd_coef a * bd_coef b)" by (simp add: bd_value_scaled)
  finally show ?thesis using with_scale_exact by (simp only: mul_value)
qed

end

lemma result_ok [result_simps]:
  "result number nz = Inr d \<longleftrightarrow>
     scale_ok (bd_scale number) \<and> digit_count (bd_coef number) - bd_scale number - 1 \<le> max_emax
     \<and> d = \<lparr>d_number = number, d_negative_zero = (bd_coef number = 0 \<and> nz)\<rparr>"
  by (auto simp: result_def Let_def)

section \<open>Rounding modes\<close>

definition away_rat :: "rat \<Rightarrow> int" where
  "away_rat x = (if 0 \<le> x then \<lceil>x\<rceil> else \<lfloor>x\<rfloor>)"

definition round_spec :: "rounding_mode \<Rightarrow> rat \<Rightarrow> int" where
  "round_spec mode x =
     (let t = truncate_rat x; rest = \<bar>x - of_int t\<bar>
      in case mode of
           RDown \<Rightarrow> t
         | RUp \<Rightarrow> away_rat x
         | Ceiling \<Rightarrow> \<lceil>x\<rceil>
         | RFloor \<Rightarrow> \<lfloor>x\<rfloor>
         | HalfEven \<Rightarrow> if rest > 1 / 2 \<or> rest = 1 / 2 \<and> odd t then away_rat x else t
         | HalfUp \<Rightarrow> if rest \<ge> 1 / 2 then away_rat x else t
         | HalfDown \<Rightarrow> if rest > 1 / 2 then away_rat x else t
         | ZeroFiveUp \<Rightarrow> if \<bar>t\<bar> mod 10 = 0 \<or> \<bar>t\<bar> mod 10 = 5 then away_rat x else t)"

lemma div_mod_rat:
  assumes "0 < d"
  shows "(of_int n :: rat) / of_int d = of_int (n div d) + of_int (n mod d) / of_int d"
    "0 \<le> (of_int (n mod d) :: rat) / of_int d" "(of_int (n mod d) :: rat) / of_int d < 1"
proof -
  have "(of_int n :: rat) = of_int (n div d * d + n mod d)" by simp
  then show "(of_int n :: rat) / of_int d = of_int (n div d) + of_int (n mod d) / of_int d"
    using assms by (simp only: of_int_add of_int_mult add_divide_distrib) simp
qed (use assms in simp_all)

lemma nonneg_parts:
  assumes "0 < d" "0 \<le> n"
  defines "x \<equiv> (of_int n :: rat) / of_int d"
  shows "truncate_rat x = n div d" "away_rat x = n div d + (if n mod d = 0 then 0 else 1)"
    "\<lfloor>x\<rfloor> = n div d" "\<lceil>x\<rceil> = n div d + (if n mod d = 0 then 0 else 1)"
    "\<bar>x - of_int (n div d)\<bar> = of_int (n mod d) / of_int d"
proof -
  note p = div_mod_rat [OF assms(1), of n, folded x_def]
  have x0: "0 \<le> x" using assms by simp
  show f: "\<lfloor>x\<rfloor> = n div d" using p by (intro floor_unique) simp_all
  have mz: "(of_int (n mod d) :: rat) / of_int d = 0 \<longleftrightarrow> n mod d = 0" using assms(1) by simp
  show c: "\<lceil>x\<rceil> = n div d + (if n mod d = 0 then 0 else 1)"
    using p mz by (intro ceiling_unique) (auto simp: less_le)
  show "truncate_rat x = n div d" "away_rat x = n div d + (if n mod d = 0 then 0 else 1)"
    using x0 f c by (simp_all add: truncate_rat_def away_rat_def)
  have "x - of_int (n div d) = of_int (n mod d) / of_int d" using p(1) by simp
  then show "\<bar>x - of_int (n div d)\<bar> = of_int (n mod d) / of_int d" using p(2) by (simp only: abs_of_nonneg)
qed

lemma neg_parts:
  "truncate_rat (- x) = - truncate_rat x" "away_rat (- x) = - away_rat x"
  by (auto simp: truncate_rat_def away_rat_def ceiling_minus floor_minus)

lemma half_compare:
  assumes "0 < d"
  shows "((of_int r :: rat) / of_int d > 1 / 2) = (r * 2 > d)" "((of_int r :: rat) / of_int d = 1 / 2) = (r * 2 = d)"
proof -
  have "((of_int r :: rat) / of_int d > 1 / 2) = (of_int d < (of_int (r * 2) :: rat))"
    using assms by (simp add: divide_simps)
  then show "((of_int r :: rat) / of_int d > 1 / 2) = (r * 2 > d)" by (simp only: of_int_less_iff)
  have "((of_int r :: rat) / of_int d = 1 / 2) = (of_int d = (of_int (r * 2) :: rat))"
    using assms by (auto simp: divide_simps)
  then show "((of_int r :: rat) / of_int d = 1 / 2) = (r * 2 = d)" by (simp only: of_int_eq_iff) auto
qed

lemma rounded_integer_nonneg:
  assumes "0 < d" "0 \<le> n"
  shows "rounded_integer n d mode = round_spec mode (of_int n / of_int d)"
proof -
  note p = nonneg_parts [OF assms] and h = half_compare [OF assms(1), of "n mod d"]
  have t: "0 \<le> n div d" using assms by (simp add: pos_imp_zdiv_nonneg_iff)
  have ge: "((of_int (n mod d) :: rat) / of_int d \<ge> 1 / 2) = (n mod d * 2 \<ge> d)"
    using h by (metis dual_order.order_iff_strict)
  have z: "n mod d * 2 \<ge> d \<Longrightarrow> n mod d \<noteq> 0" using assms(1) by auto
  show ?thesis
    unfolding round_spec_def Let_def p(1) p(5) p(2,3,4) rounded_integer_def h ge
    using assms(2) t z by (cases mode) auto
qed

lemma rounded_integer_spec:
  assumes "0 < d"
  shows "rounded_integer n d mode = round_spec mode (of_int n / of_int d)"
proof (cases "0 \<le> n")
  case True
  then show ?thesis by (rule rounded_integer_nonneg [OF assms])
next
  case False
  define mirror where "mirror = (case mode of Ceiling \<Rightarrow> RFloor | RFloor \<Rightarrow> Ceiling | m \<Rightarrow> m)"
  let ?x = "(of_int (- n) :: rat) / of_int d"
  have "rounded_integer n d mode = - rounded_integer (- n) d mirror"
    using False by (cases mode) (auto simp: rounded_integer_def mirror_def Let_def)
  also have "\<dots> = - round_spec mirror ?x" using False by (subst rounded_integer_nonneg [OF assms]) simp_all
  also have "\<dots> = round_spec mode (- ?x)"
  proof -
    have r: "\<bar>- ?x - of_int (- truncate_rat ?x)\<bar> = \<bar>?x - of_int (truncate_rat ?x)\<bar>"
      by (simp add: abs_minus_commute)
    show ?thesis
      unfolding round_spec_def Let_def neg_parts r mirror_def
      by (cases mode) (auto simp: ceiling_minus floor_minus)
  qed
  finally show ?thesis by simp
qed

section \<open>Increments\<close>

lemma power10_ok [result_simps]: "power10 e = Inr p \<longleftrightarrow> 0 \<le> e \<and> e < 2 ^ 32 \<and> p = 10 ^ nat e"
  by (auto simp: power10_def)

lemma scaled_ratio_value:
  assumes "scaled_ratio n d s = Inr (n1, d1)" "0 < d"
  shows "0 < d1 \<and> (of_int n1 :: rat) / of_int d1 = of_int n / of_int d * 10 powi s \<and> (0 < n \<longrightarrow> 0 < n1)"
proof (cases "0 \<le> s")
  case True
  with assms show ?thesis by (auto simp: scaled_ratio_def result_simps pow10_nat)
next
  case False
  then have "(10 :: rat) powi s = 1 / of_int (10 ^ nat (- s))" using pow10_neg [of "- s"] by (simp add: pow10_nat)
  with False assms show ?thesis by (auto simp: scaled_ratio_def result_simps)
qed

lemma gcd_ratio:
  fixes a b :: int
  assumes "b \<noteq> 0"
  shows "(of_int (a div gcd a b) :: rat) / of_int (b div gcd a b) = of_int a / of_int b"
proof -
  have g: "gcd a b \<noteq> 0" using assms by simp
  have "a = a div gcd a b * gcd a b" "b = b div gcd a b * gcd a b" by simp_all
  then have "(of_int a :: rat) / of_int b = (of_int (a div gcd a b) * of_int (gcd a b)) / (of_int (b div gcd a b) * of_int (gcd a b))"
    by (metis of_int_mult)
  with g show ?thesis by simp
qed

lemma gcd_div_pos: "0 < c \<Longrightarrow> 0 < c div gcd n c" for n c :: int
  by (simp add: pos_imp_zdiv_pos_iff zdvd_imp_le)

lemma checked_i64_ok [result_simps]: "checked_i64 i = Inr j \<longleftrightarrow> i64_range i \<and> j = i"
  by (auto simp: checked_i64_def)

lemma ratio_value:
  assumes "bd_coef b \<noteq> 0"
  shows "bd_value a / bd_value b = of_int (bd_coef a) / of_int (bd_coef b) * 10 powi (bd_scale b - bd_scale a)"
  using assms by (simp add: bd_value_def pow10_neg pow10_add power_int_diff)

lemma only_increment_value:
  assumes "only_increment v inc mode = Inr q"
  shows "0 < bd_value (d_number inc) \<and> bd_scale (d_number q) = bd_scale (d_number inc)
    \<and> bd_value (d_number q) = of_int (round_spec mode (bd_value (d_number v) / bd_value (d_number inc))) * bd_value (d_number inc)"
proof -
  let ?n = "bd_coef (d_number v)" and ?c = "bd_coef (d_number inc)"
  have c: "0 < ?c" using assms by (auto simp: only_increment_def is_negative_def is_zero_def split: if_splits)
  obtain n d where nd: "scaled_ratio (?n div gcd ?n ?c) (?c div gcd ?n ?c) (bd_scale (d_number inc) - bd_scale (d_number v)) = Inr (n, d)"
    and q: "d_number q = \<lparr>bd_coef = rounded_integer n d mode * ?c, bd_scale = bd_scale (d_number inc)\<rparr>"
    using assms by (auto simp: only_increment_def result_simps Let_def split: if_splits)
  note pos = gcd_div_pos [OF c, of ?n]
  note s = scaled_ratio_value [OF nd pos]
  have "(of_int n :: rat) / of_int d = bd_value (d_number v) / bd_value (d_number inc)"
    using s c gcd_ratio [of ?c ?n] by (simp add: ratio_value)
  then have "rounded_integer n d mode = round_spec mode (bd_value (d_number v) / bd_value (d_number inc))"
    using rounded_integer_spec [of d n mode] s by simp
  with q c show ?thesis by (simp add: bd_value_def)
qed

section \<open>Division\<close>

lemma strip_factor_spec:
  "strip_factor p n = (m, k) \<Longrightarrow> 1 < p \<Longrightarrow> 0 < n \<Longrightarrow> n = m * p ^ k \<and> \<not> p dvd m \<and> 0 < m"
proof (induction p n arbitrary: m k rule: strip_factor.induct)
  case (1 p n)
  show ?case
  proof (cases "p dvd n")
    case True
    obtain m' k' where s: "strip_factor p (n div p) = (m', k')" by (cases "strip_factor p (n div p)")
    have pos: "0 < n div p" using True 1 by (simp add: pos_imp_zdiv_pos_iff zdvd_imp_le)
    have mk: "m = m'" "k = Suc k'" using 1 True s by (simp_all add: strip_factor.simps [of p n])
    have "n div p = m' * p ^ k' \<and> \<not> p dvd m' \<and> 0 < m'" using 1 True s pos by simp
    moreover have "n = n div p * p" using True by simp
    ultimately show ?thesis unfolding mk by (metis power_Suc2 mult.assoc)
  next
    case False
    then show ?thesis using 1 by (simp add: strip_factor.simps [of p n])
  qed
qed

lemma strip_zeros_value:
  "strip_zeros s n = (m, k) \<Longrightarrow> (of_int m :: rat) * 10 powi (- int k) = of_int n * 10 powi (- int s)"
proof (induction s n rule: strip_zeros.induct)
  case (2 s n)
  show ?case
  proof (cases "10 dvd n")
    case True
    then obtain c where c: "n = 10 * c" by (elim dvdE)
    have "(10 :: rat) powi (- int s) = 10 * 10 powi (- int (Suc s))"
      using pow10_add [of 1 "- int (Suc s)"] by simp
    with 2 c show ?thesis by simp
  qed (use 2 in simp)
qed simp

lemma strip_scale_value:
  "strip_scale n s = (m, k) \<Longrightarrow> (of_int m :: rat) * 10 powi (- k) = of_int n * 10 powi (- s)"
  using strip_zeros_value [of "nat s" n] by (auto simp: strip_scale_def split: if_splits prod.splits)

lemma divide_exact_value:
  assumes "divide_exact n t f e = Inr q"
  shows "bd_value (d_number q) = of_int n / of_int (2 ^ t * 5 ^ f) * 10 powi e"
proof -
  define s where "s = max t f"
  define n1 where "n1 = n * (2 ^ (s - t) * 5 ^ (s - f))"
  obtain n2 s2 where st: "strip_scale n1 (if n1 = 0 then 0 else int s - e) = (n2, s2)"
    by (cases "strip_scale n1 (if n1 = 0 then 0 else int s - e)")
  with assms have q: "d_number q = \<lparr>bd_coef = n2, bd_scale = s2\<rparr>"
    by (auto simp: divide_exact_def result_simps Let_def s_def n1_def split: if_splits)
  have "(2 :: rat) ^ s * 5 ^ s = 2 ^ t * 5 ^ f * (2 ^ (s - t) * 5 ^ (s - f))"
    using power_add [of "2 :: rat" t "s - t"] power_add [of "5 :: rat" f "s - f"] by (simp add: s_def)
  then have ten: "(10 :: rat) powi (- int s) * (2 ^ (s - t) * 5 ^ (s - f)) = 1 / (2 ^ t * 5 ^ f)"
    by (simp add: pow10_neg divide_simps flip: power_mult_distrib)
  have "bd_value (d_number q) = of_int n2 * 10 powi (- s2)" by (simp add: q bd_value_def)
  also have "\<dots> = of_int n1 * 10 powi (e - int s)" using strip_scale_value [OF st] by (cases "n1 = 0") simp_all
  also have "\<dots> = of_int n * ((10 powi (- int s)) * (2 ^ (s - t) * 5 ^ (s - f))) * 10 powi e"
    using pow10_add [of e "- int s"] by (simp add: n1_def)
  finally show ?thesis unfolding ten by simp
qed

lemma digit_count_bounds:
  assumes "0 < n"
  shows "10 powi (digit_count n - 1) \<le> (of_int n :: rat) \<and> (of_int n :: rat) < 10 powi (digit_count n)"
proof -
  define k where "k = length (nat_digits (nat n))"
  have k0: "0 < k" by (simp add: k_def)
  have "nat n < 10 ^ k" using length_nat_digits [OF k0, of "nat n"] by (simp add: k_def)
  then have "n < 10 ^ k" using assms by (simp add: nat_less_iff)
  then have u: "(of_int n :: rat) < of_int (10 ^ k)" by (simp only: of_int_less_iff)
  have "10 ^ (k - 1) \<le> nat n"
  proof (cases "k = 1")
    case True
    then show ?thesis using assms by simp
  next
    case False
    with k0 have "0 < k - 1" by simp
    from length_nat_digits [OF this, of "nat n"] k0 show ?thesis by (simp add: k_def not_less [symmetric])
  qed
  then have "10 ^ (k - 1) \<le> n" using assms by (simp add: le_nat_iff)
  then have l: "(of_int (10 ^ (k - 1)) :: rat) \<le> of_int n" by (simp only: of_int_le_iff)
  have dc: "digit_count n = int k" using assms by (simp add: digit_count_def k_def)
  have "nat (int k - 1) = k - 1" using k0 by simp
  then show ?thesis using u l k0 unfolding dc by (simp add: pow10_nat)
qed

lemma below_power_iff:
  assumes "below_power n d m = Inr b" "0 < d"
  shows "b \<longleftrightarrow> (of_int n :: rat) / of_int d < 10 powi m"
proof (cases "0 \<le> m")
  case True
  have "n < d * 10 ^ nat m \<longleftrightarrow> (of_int n :: rat) < of_int (d * 10 ^ nat m)" by (simp only: of_int_less_iff)
  with assms True show ?thesis by (auto simp: below_power_def result_simps pow10_nat divide_simps mult.commute)
next
  case False
  have "n * 10 ^ nat (- m) < d \<longleftrightarrow> (of_int (n * 10 ^ nat (- m)) :: rat) < of_int d" by (simp only: of_int_less_iff)
  moreover have "(10 :: rat) powi m = 1 / of_int (10 ^ nat (- m))" using False pow10_neg [of "- m"] by (simp add: pow10_nat)
  moreover have "(of_int n :: rat) / of_int d < 1 / of_int (10 ^ nat (- m)) \<longleftrightarrow> (of_int (n * 10 ^ nat (- m)) :: rat) < of_int d"
    using assms(2) by (simp add: pos_divide_less_eq pos_less_divide_eq)
  moreover have "b = (n * 10 ^ nat (- m) < d)" using assms(1) False by (auto simp: below_power_def result_simps)
  ultimately show ?thesis by simp
qed

text \<open>The digit counts of two positive integers bound the magnitude of their quotient.\<close>

lemma quotient_digits:
  assumes "0 < n" "0 < d"
  shows "10 powi (digit_count n - digit_count d - 1) \<le> (of_int n :: rat) / of_int d"
    "(of_int n :: rat) / of_int d < 10 powi (digit_count n - digit_count d + 1)"
proof -
  let ?m0 = "digit_count n - digit_count d"
  note n = digit_count_bounds [OF assms(1)] and d = digit_count_bounds [OF assms(2)]
  have dp: "(0 :: rat) < of_int d" using assms(2) by simp
  have "(10 :: rat) powi (?m0 - 1) * of_int d \<le> 10 powi (?m0 - 1) * 10 powi digit_count d"
    using d by (intro mult_left_mono) simp_all
  also have "\<dots> = 10 powi (digit_count n - 1)" by (simp add: pow10_add [symmetric])
  finally have "(10 :: rat) powi (?m0 - 1) * of_int d \<le> of_int n" using n by (meson order_trans)
  then show "10 powi (?m0 - 1) \<le> (of_int n :: rat) / of_int d" using dp by (simp add: pos_le_divide_eq)
  have "(of_int n :: rat) < 10 powi (?m0 + 1) * 10 powi (digit_count d - 1)"
    using n by (simp add: pow10_add [symmetric])
  also have "\<dots> \<le> 10 powi (?m0 + 1) * of_int d" using d by (intro mult_left_mono) simp_all
  finally show "(of_int n :: rat) / of_int d < 10 powi (?m0 + 1)" using dp by (simp add: pos_divide_less_eq)
qed

lemma quotient_magnitude:
  assumes "0 < n" "0 < d" "below_power n d (digit_count n - digit_count d) = Inr below"
  defines "m \<equiv> (if below then digit_count n - digit_count d - 1 else digit_count n - digit_count d)"
  shows "10 powi m \<le> (of_int n :: rat) / of_int d \<and> (of_int n :: rat) / of_int d < 10 powi (m + 1)"
  using below_power_iff [OF assms(3,2)] quotient_digits [OF assms(1,2)] by (auto simp: m_def)

lemma round_quotient_near:
  assumes "0 < d" "0 \<le> n"
  shows "\<bar>(of_int (round_quotient n d) :: rat) - of_int n / of_int d\<bar> \<le> 1 / 2"
proof -
  note p = div_mod_rat [OF assms(1), of n] and h = half_compare [OF assms(1), of "n mod d"]
  define r where "r = (of_int (n mod d) :: rat) / of_int d"
  have x: "(of_int n :: rat) / of_int d = of_int (n div d) + r" using p(1) by (simp add: r_def)
  have r: "0 \<le> r" "r < 1" using p by (simp_all add: r_def)
  have "round_quotient n d = n div d + (if r > 1 / 2 \<or> r = 1 / 2 \<and> odd (n div d) then 1 else 0)"
    unfolding r_def h by (simp add: round_quotient_def Let_def)
  moreover have "\<bar>1 - r\<bar> \<le> 1 / 2" if "r > 1 / 2 \<or> r = 1 / 2" using that r unfolding abs_le_iff by linarith
  moreover have "\<bar>- r\<bar> \<le> 1 / 2" if "\<not> r > 1 / 2" using that r unfolding abs_le_iff by linarith
  ultimately show ?thesis unfolding x by auto
qed

lemma near_int_bounds:
  fixes y :: rat and a b q :: int
  assumes "\<bar>of_int q - y\<bar> \<le> 1 / 2" "of_int a \<le> y" "y \<le> of_int b"
  shows "a \<le> q \<and> q \<le> b"
proof -
  have "(of_int a :: rat) < of_int q + 1" "(of_int q :: rat) < of_int b + 1" using assms unfolding abs_le_iff by linarith+
  then have "(of_int a :: rat) < of_int (q + 1)" "(of_int q :: rat) < of_int (b + 1)" by simp_all
  then show ?thesis by (simp only: of_int_less_iff) simp
qed

lemma digit_count_28: "0 \<le> q \<Longrightarrow> digit_count q > 28 \<longleftrightarrow> 10 ^ 28 \<le> q"
  using length_nat_digits [of 28 "nat q"] by (auto simp: digit_count_def nat_less_iff not_le)

text \<open>The rounded quotient has 28 digits and is within half a unit of its last place.\<close>

lemma divide_rounded_value:
  assumes "divide_rounded num d e = Inr q" "num \<noteq> 0" "0 < d"
  defines "x \<equiv> (of_int num :: rat) / of_int d * 10 powi e"
  shows "10 ^ 27 \<le> \<bar>bd_coef (d_number q)\<bar> \<and> \<bar>bd_coef (d_number q)\<bar> < 10 ^ 28
    \<and> \<bar>bd_value (d_number q) - x\<bar> \<le> 10 powi (- bd_scale (d_number q)) / 2"
proof -
  define n where "n = \<bar>num\<bar>"
  have n: "0 < n" using assms(2) by (simp add: n_def)
  obtain below where b: "below_power n d (digit_count n - digit_count d) = Inr below"
    using assms(1) by (auto simp: divide_rounded_def Let_def result_simps n_def)
  define m where "m = (if below then digit_count n - digit_count d - 1 else digit_count n - digit_count d)"
  define scale where "scale = division_precision - 1 - m"
  obtain n1 d1 where sr: "scaled_ratio n d scale = Inr (n1, d1)"
    using assms(1) b by (auto simp: divide_rounded_def Let_def result_simps n_def [symmetric] m_def [symmetric] scale_def [symmetric])
  define c where "c = round_quotient n1 d1"
  define c1 s1 where "c1 = (if digit_count c > division_precision then c div 10 else c)"
    and "s1 = (if digit_count c > division_precision then scale - 1 else scale)"
  have q: "d_number q = \<lparr>bd_coef = (if num < 0 then - c1 else c1), bd_scale = s1 - e\<rparr>"
    using assms(1) b sr
    by (auto simp: divide_rounded_def Let_def result_simps n_def [symmetric] m_def [symmetric] scale_def [symmetric]
        c_def c1_def s1_def split: if_splits)
  define y where "y = (of_int n1 :: rat) / of_int d1"
  have y: "0 < d1" "y = of_int n / of_int d * 10 powi scale" "0 < n1"
    using scaled_ratio_value [OF sr assms(3)] n by (simp_all add: y_def)
  have near: "\<bar>of_int c - y\<bar> \<le> 1 / 2" using round_quotient_near [OF y(1)] y(3) by (simp add: c_def y_def)
  note mag = quotient_magnitude [OF n assms(3) b, folded m_def]
  have "10 powi m * 10 powi scale \<le> y" unfolding y(2) using mag by (intro mult_right_mono) (rule conjunct1, simp_all)
  moreover have "y < 10 powi (m + 1) * 10 powi scale" unfolding y(2) using mag by (intro mult_strict_right_mono) (rule conjunct2, simp_all)
  ultimately have "10 powi m * 10 powi scale \<le> y" "y < 10 powi (m + 1) * 10 powi scale" .
  then have yb: "of_int (10 ^ 27) \<le> y" "y \<le> of_int (10 ^ 28)"
    by (simp_all add: pow10_add [symmetric] scale_def division_precision_def)
  note cb = near_int_bounds [OF near yb]
  then have carry: "digit_count c > division_precision \<longleftrightarrow> c = 10 ^ 28"
    using digit_count_28 [of c] by (auto simp: division_precision_def)
  have c1: "10 ^ 27 \<le> c1" "c1 < 10 ^ 28" "(of_int c1 :: rat) * 10 powi (- s1) = of_int c * 10 powi (- scale)" "s1 \<le> scale"
    using cb carry pow10_add [of 1 "- scale"] by (auto simp: c1_def s1_def)
  have "bd_value (d_number q) - x = (if num < 0 then - 1 else 1) * ((of_int c - y) * 10 powi (e - scale))"
  proof -
    have "bd_value (d_number q) = (if num < 0 then - 1 else 1) * (of_int c1 * 10 powi (- s1)) * 10 powi e"
      using pow10_add [of "- s1" e] by (simp add: q bd_value_def)
    moreover have "x = (if num < 0 then - 1 else 1) * (y * 10 powi (- scale)) * 10 powi e"
      by (auto simp: x_def y(2) n_def pow10_neg)
    ultimately show ?thesis unfolding c1(3) using pow10_add [of e "- scale"] by (simp add: algebra_simps)
  qed
  then have "\<bar>bd_value (d_number q) - x\<bar> = \<bar>of_int c - y\<bar> * 10 powi (e - scale)"
    by (simp add: abs_mult)
  also have "\<dots> \<le> (1 / 2) * 10 powi (e - scale)" using near by (intro mult_right_mono) simp_all
  also have "\<dots> \<le> (1 / 2) * 10 powi (e - s1)"
    using c1(4) by (intro mult_left_mono power_int_increasing) simp_all
  finally show ?thesis using c1(1,2) by (simp add: q)
qed

text \<open>A quotient in lowest terms terminates exactly when its denominator is built from 2 and 5.\<close>

definition terminating :: "rat \<Rightarrow> bool" where
  "terminating x \<longleftrightarrow> (\<exists>b. bd_value b = x)"

lemma terminating_scaled: "terminating (x * 10 powi e) \<longleftrightarrow> terminating x"
proof -
  have "terminating (y * 10 powi k)" if t: "terminating y" for y k
  proof -
    obtain b where b: "bd_value b = y" using t unfolding terminating_def by blast
    have "bd_value \<lparr>bd_coef = bd_coef b, bd_scale = bd_scale b - k\<rparr> = y * 10 powi k"
      using pow10_add [of k "- bd_scale b"] by (simp add: bd_value_def flip: b)
    then show ?thesis unfolding terminating_def by blast
  qed
  from this [of x e] this [of "x * 10 powi e" "- e"] show ?thesis by (auto simp: pow10_neg)
qed

lemma terminating_integer:
  assumes "terminating x"
  obtains j c where "x * 10 ^ j = of_int c"
proof -
  obtain b where b: "bd_value b = x" using assms unfolding terminating_def by blast
  have "bd_scale b \<le> int (nat (bd_scale b))" by simp
  from bd_value_scale_up [OF this] obtain c where "x * 10 powi (int (nat (bd_scale b))) = of_int c" unfolding b by blast
  then show thesis using that [of "nat (bd_scale b)" c] by (simp only: power_int_of_nat)
qed

lemma coprime_small:
  fixes m :: int
  shows "\<not> 2 dvd m \<Longrightarrow> coprime 2 m" "\<not> 5 dvd m \<Longrightarrow> coprime 5 m"
proof -
  assume "\<not> 5 dvd m"
  then have "m mod 5 \<in> {1, 2, 3, 4}" by (simp add: dvd_eq_mod_eq_0) presburger
  moreover have "gcd 5 (3 :: int) = 1" "gcd 5 (4 :: int) = 1"
    using gcd_red_int [of 5 3] gcd_red_int [of 3 2] gcd_red_int [of 5 4] by simp_all
  ultimately have "gcd 5 (m mod 5) = 1" by auto
  then show "coprime 5 m" by (simp add: coprime_iff_gcd_eq_1 gcd.commute [of 5] gcd_red_int [of m])
qed (simp add: coprime_left_2_iff_odd)

lemma residual_terminating:
  fixes n d m :: int
  assumes "coprime n d" "d = m * 2 ^ t * 5 ^ f" "0 < m" "\<not> 2 dvd m" "\<not> 5 dvd m"
  shows "terminating (of_int n / of_int d) \<longleftrightarrow> m = 1"
proof
  assume "terminating (of_int n / of_int d)"
  then obtain j c where "(of_int n / of_int d) * (10 :: rat) ^ j = of_int c" by (rule terminating_integer)
  moreover have "d \<noteq> 0" using assms by auto
  ultimately have "(of_int (n * 10 ^ j) :: rat) = of_int (c * d)" by (simp add: field_simps)
  then have "n * 10 ^ j = c * d" by (simp only: of_int_eq_iff)
  then have "m dvd n * 10 ^ j" using assms(2) by simp
  moreover have "coprime m n" using assms(1,2) by (simp add: coprime_commute)
  moreover have "coprime m 10"
  proof -
    have "coprime 2 m" "coprime 5 m" using assms(4,5) by (simp_all add: coprime_small)
    then have "coprime (2 * 5) m" by (simp only: coprime_mult_left_iff)
    then show ?thesis by (simp add: coprime_commute)
  qed
  ultimately have "m dvd 10 ^ j" "coprime m (10 ^ j)" by (simp_all add: coprime_dvd_mult_right_iff)
  then have "is_unit m" by (metis coprime_common_divisor dvd_refl)
  with assms(3) show "m = 1" by simp
next
  assume m: "m = 1"
  define s where "s = max t f"
  have "(2 :: rat) ^ s * 5 ^ s = 2 ^ t * 5 ^ f * (2 ^ (s - t) * 5 ^ (s - f))"
    using power_add [of "2 :: rat" t "s - t"] power_add [of "5 :: rat" f "s - f"] by (simp add: s_def)
  then have "bd_value \<lparr>bd_coef = n * (2 ^ (s - t) * 5 ^ (s - f)), bd_scale = int s\<rparr> = of_int n / of_int d"
    by (simp add: bd_value_def assms(2) m pow10_neg divide_simps flip: power_mult_distrib)
  then show "terminating (of_int n / of_int d)" unfolding terminating_def by blast
qed

text \<open>The reduced fraction of a division: lowest terms, positive denominator.\<close>

definition reduced :: "int \<Rightarrow> int \<Rightarrow> int \<times> int" where
  "reduced n0 d0 =
     (let g = gcd n0 d0; n1 = n0 div g; d1 = d0 div g in if d1 < 0 then (- n1, - d1) else (n1, d1))"

lemma reduced_spec:
  assumes "d0 \<noteq> 0" "reduced n0 d0 = (n, d)"
  shows "0 < d" "coprime n d" "(of_int n :: rat) / of_int d = of_int n0 / of_int d0"
proof -
  have c: "coprime (n0 div gcd n0 d0) (d0 div gcd n0 d0)" using assms(1) by (simp add: div_gcd_coprime)
  have z: "d0 div gcd n0 d0 \<noteq> 0" using assms(1) by (simp add: dvd_div_eq_0_iff)
  have e: "n = n0 div gcd n0 d0 \<and> d = d0 div gcd n0 d0 \<or> n = - (n0 div gcd n0 d0) \<and> d = - (d0 div gcd n0 d0)"
    "0 < d" using assms(2) z by (auto simp: reduced_def Let_def split: if_splits)
  show "0 < d" by (rule e(2))
  show "coprime n d" using e(1) c by auto
  show "(of_int n :: rat) / of_int d = of_int n0 / of_int d0" using e(1) gcd_ratio [OF assms(1), of n0] by auto
qed

lemma only_divide_alt:
  "only_divide l r =
     (if is_zero r then Inl (DomValidation ''domain division by zero'')
      else rbind (checked_i64 (bd_scale (d_number r) - bd_scale (d_number l))) (\<lambda>exponent.
        let (n, d) = reduced (bd_coef (d_number l)) (bd_coef (d_number r));
            (residual2, twos) = strip_factor 2 d;
            (residual, fives) = strip_factor 5 residual2
        in if residual = 1 then divide_exact n twos fives exponent else divide_rounded n d exponent))"
  by (simp add: only_divide_def reduced_def Let_def)

lemma strip_both:
  assumes "strip_factor 2 d = (m2, t)" "strip_factor 5 m2 = (m, f)" "0 < d"
  shows "d = m * 2 ^ t * 5 ^ f" "0 < m" "\<not> 2 dvd m" "\<not> 5 dvd m"
proof -
  have a: "d = m2 * 2 ^ t \<and> \<not> 2 dvd m2 \<and> 0 < m2" using strip_factor_spec [OF assms(1)] assms(3) by simp
  then have b: "m2 = m * 5 ^ f \<and> \<not> 5 dvd m \<and> 0 < m" using strip_factor_spec [OF assms(2)] by simp
  show "d = m * 2 ^ t * 5 ^ f" "0 < m" "\<not> 2 dvd m" "\<not> 5 dvd m" using a b by auto
qed

lemma only_divide_value:
  assumes "only_divide l r = Inr q"
  defines "x \<equiv> bd_value (d_number l) / bd_value (d_number r)"
  shows "bd_value (d_number r) \<noteq> 0"
    "terminating x \<Longrightarrow> bd_value (d_number q) = x"
    "\<not> terminating x \<Longrightarrow> 10 ^ 27 \<le> \<bar>bd_coef (d_number q)\<bar> \<and> \<bar>bd_coef (d_number q)\<bar> < 10 ^ 28
       \<and> \<bar>bd_value (d_number q) - x\<bar> \<le> 10 powi (- bd_scale (d_number q)) / 2"
proof -
  let ?e = "bd_scale (d_number r) - bd_scale (d_number l)"
  obtain n d where nd: "reduced (bd_coef (d_number l)) (bd_coef (d_number r)) = (n, d)" by (cases "reduced (bd_coef (d_number l)) (bd_coef (d_number r))")
  obtain m2 t where m2: "strip_factor 2 d = (m2, t)" by (cases "strip_factor 2 d")
  obtain m f where m: "strip_factor 5 m2 = (m, f)" by (cases "strip_factor 5 m2")
  have r: "bd_coef (d_number r) \<noteq> 0" using assms(1) by (auto simp: only_divide_alt is_zero_def split: if_splits)
  then show "bd_value (d_number r) \<noteq> 0" by simp
  have q: "(if m = 1 then divide_exact n t f ?e else divide_rounded n d ?e) = Inr q"
    using assms(1) by (auto simp: only_divide_alt nd m2 m result_simps split: if_splits)
  note red = reduced_spec [OF r nd]
  note st = strip_both [OF m2 m red(1)]
  have x: "x = of_int n / of_int d * 10 powi ?e" unfolding x_def ratio_value [OF r] red(3) ..
  have ends: "terminating x \<longleftrightarrow> m = 1"
    unfolding x terminating_scaled by (rule residual_terminating [OF red(2) st(1,2,3,4)])
  show "bd_value (d_number q) = x" if "terminating x"
  proof -
    have "m = 1" using that by (simp add: ends)
    with q divide_exact_value [of n t f ?e q] show ?thesis unfolding x st(1) by simp
  qed
  show "10 ^ 27 \<le> \<bar>bd_coef (d_number q)\<bar> \<and> \<bar>bd_coef (d_number q)\<bar> < 10 ^ 28
       \<and> \<bar>bd_value (d_number q) - x\<bar> \<le> 10 powi (- bd_scale (d_number q)) / 2" if nt: "\<not> terminating x"
  proof -
    have "n \<noteq> 0"
    proof
      assume "n = 0"
      then have "bd_value \<lparr>bd_coef = 0, bd_scale = 0\<rparr> = x" by (simp add: x bd_value_def)
      with nt show False unfolding terminating_def by blast
    qed
    moreover have "m \<noteq> 1" using nt by (simp add: ends)
    ultimately show ?thesis using q divide_rounded_value [of n d ?e q] red(1) unfolding x by simp
  qed
qed

section \<open>Hash keys\<close>

lemma strip_tens_spec:
  "c \<noteq> 0 \<Longrightarrow> strip_tens c s = (m, k) \<Longrightarrow>
     \<not> 10 dvd m \<and> (of_int m :: rat) * 10 powi (- k) = of_int c * 10 powi (- s)"
proof (induction c s rule: strip_tens.induct)
  case (1 c s)
  show ?case
  proof (cases "10 dvd c")
    case True
    then obtain c' where c: "c = 10 * c'" by (elim dvdE)
    have "(10 :: rat) powi (- (s - 1)) = 10 * 10 powi (- s)" using pow10_add [of 1 "- s"] by simp
    with 1 c show ?thesis by (simp add: strip_tens.simps [of "10 * c'"])
  next
    case False
    with 1 show ?thesis by (simp add: strip_tens.simps [of c])
  qed
qed

lemma unscaled_unique:
  fixes m m' k k' :: int
  assumes "\<not> 10 dvd m" "\<not> 10 dvd m'" "(of_int m :: rat) * 10 powi (- k) = of_int m' * 10 powi (- k')"
  shows "m = m' \<and> k = k'"
proof -
  have key: "a = b \<and> i = j" if "i \<le> j" "\<not> 10 dvd b" "(of_int a :: rat) * 10 powi (- i) = of_int b * 10 powi (- j)" for a b i j :: int
  proof -
    have "(of_int a :: rat) * 10 powi (- i) * 10 powi j = of_int b * 10 powi (- j) * 10 powi j" using that(3) by simp
    then have "(of_int a :: rat) * 10 powi (j - i) = of_int b" using pow10_add [of "- i" j] by (simp add: pow10_neg)
    then have "(of_int (a * 10 ^ nat (j - i)) :: rat) = of_int b" using that(1) by (simp add: pow10_nat)
    then have e: "a * 10 ^ nat (j - i) = b" by (simp only: of_int_eq_iff)
    have "i = j"
    proof (rule ccontr)
      assume "i \<noteq> j"
      then have "nat (j - i) = Suc (nat (j - i - 1))" using that(1) by simp
      with e that(2) show False by auto
    qed
    with e show ?thesis by simp
  qed
  show ?thesis
  proof (cases "k \<le> k'")
    case True
    then show ?thesis using key [of k k' m' m] assms by simp
  next
    case False
    then show ?thesis using key [of k' k m m'] assms by simp
  qed
qed

lemma hash_key_value:
  "hash_key a = hash_key b \<longleftrightarrow> bd_value (d_number a) = bd_value (d_number b)"
proof (cases "bd_coef (d_number a) = 0 \<or> bd_coef (d_number b) = 0")
  case True
  have z: "strip_tens c s \<noteq> (0, 0)" "(0, 0) \<noteq> strip_tens c s" if "c \<noteq> 0" for c s
    using strip_tens_spec [OF that, of s 0 0] by auto
  from True show ?thesis by (auto simp: hash_key_def Let_def bd_value_def z)
next
  case False
  obtain m k where a: "strip_tens (bd_coef (d_number a)) (bd_scale (d_number a)) = (m, k)" by fastforce
  obtain m' k' where b: "strip_tens (bd_coef (d_number b)) (bd_scale (d_number b)) = (m', k')" by fastforce
  note sa = strip_tens_spec [OF _ a] and sb = strip_tens_spec [OF _ b]
  show ?thesis using False sa sb unscaled_unique [of m m' k k'] by (auto simp: hash_key_def Let_def a b bd_value_def)
qed

section \<open>The canonical range\<close>

text \<open>Every decimal is built by \<open>result\<close>, so it meets \<open>decimal_ok\<close>.\<close>

definition decimal_ok :: "decimal \<Rightarrow> bool" where
  "decimal_ok d \<longleftrightarrow> scale_ok (bd_scale (d_number d))
     \<and> digit_count (bd_coef (d_number d)) - bd_scale (d_number d) - 1 \<le> max_emax
     \<and> (d_negative_zero d \<longrightarrow> bd_coef (d_number d) = 0)"

definition overflows :: "rat \<Rightarrow> bool" where
  "overflows x \<longleftrightarrow> 10 powi (max_emax + 1) \<le> \<bar>x\<bar>"

lemma result_in_range: "result number nz = Inr d \<Longrightarrow> decimal_ok d"
  by (auto simp: result_simps decimal_ok_def)

lemma digit_count_abs [simp]: "digit_count \<bar>c\<bar> = digit_count c" "digit_count (- c) = digit_count c"
  by (simp_all add: digit_count_def)

lemma adjusted_overflow:
  assumes "scale_ok (bd_scale b)"
  shows "digit_count (bd_coef b) - bd_scale b - 1 > max_emax \<longleftrightarrow> overflows (bd_value b)"
proof (cases "bd_coef b = 0")
  case True
  have "digit_count 0 = 1" by (simp add: digit_count_def nat_digits.simps)
  with True assms show ?thesis by (simp add: overflows_def bd_value_def scale_ok_def not_le)
next
  case False
  let ?n = "digit_count (bd_coef b)" and ?k = "max_emax + 1 + bd_scale b"
  have c: "10 powi (?n - 1) \<le> (of_int \<bar>bd_coef b\<bar> :: rat)" "(of_int \<bar>bd_coef b\<bar> :: rat) < 10 powi ?n"
    using digit_count_bounds [of "\<bar>bd_coef b\<bar>"] False by simp_all
  have "\<bar>bd_value b\<bar> * 10 powi bd_scale b = of_int \<bar>bd_coef b\<bar>"
    using bd_value_scaled [of b] by (metis abs_mult abs_of_pos of_int_abs pow10_pos)
  then have "overflows (bd_value b) \<longleftrightarrow> 10 powi ?k \<le> (of_int \<bar>bd_coef b\<bar> :: rat)"
    unfolding overflows_def pow10_add [of "max_emax + 1"] by (metis mult_le_cancel_right_pos pow10_pos)
  also have "\<dots> \<longleftrightarrow> ?k \<le> ?n - 1"
  proof
    assume "?k \<le> ?n - 1"
    then have "(10 :: rat) powi ?k \<le> 10 powi (?n - 1)" by (intro power_int_increasing) simp_all
    with c show "10 powi ?k \<le> (of_int \<bar>bd_coef b\<bar> :: rat)" by linarith
  next
    assume "10 powi ?k \<le> (of_int \<bar>bd_coef b\<bar> :: rat)"
    with c have "(10 :: rat) powi ?k < 10 powi ?n" by linarith
    then show "?k \<le> ?n - 1" by (metis power_int_increasing one_le_numeral not_le zle_diff1_eq)
  qed
  finally show ?thesis by linarith
qed

lemma result_cases:
  assumes "scale_ok (bd_scale b)"
  obtains (ok) d where "result b nz = Inr d" "d_number d = b" "decimal_ok d" "\<not> overflows (bd_value b)"
  | (overflow) e where "result b nz = Inl e" "overflows (bd_value b)"
proof (cases "result b nz")
  case (Inl e)
  then have "overflows (bd_value b)" using assms adjusted_overflow [OF assms] by (auto simp: result_def Let_def split: if_splits)
  from overflow [OF Inl this] show thesis .
next
  case (Inr d)
  then have "\<not> overflows (bd_value b)" "d_number d = b" using adjusted_overflow [OF assms] by (auto simp: result_simps)
  with Inr ok result_in_range show thesis by blast
qed

lemma decimal_ok_bounded: "decimal_ok d \<Longrightarrow> \<not> overflows (bd_value (d_number d))"
  using adjusted_overflow [of "d_number d"] by (auto simp: decimal_ok_def)

context bigdecimal
begin

lemma only_add_cases:
  assumes "decimal_ok l" "decimal_ok r"
  defines "x \<equiv> bd_value (d_number l) + bd_value (d_number r)"
  obtains (ok) q where "only_add lib l r = Inr q" "decimal_ok q" "bd_value (d_number q) = x"
      "bd_scale (d_number q) = max (bd_scale (d_number l)) (bd_scale (d_number r))"
  | (overflow) e where "only_add lib l r = Inl e" "overflows x"
proof -
  let ?b = "lib_with_scale lib (lib_add lib (d_number l) (d_number r)) (max (bd_scale (d_number l)) (bd_scale (d_number r)))"
  have s: "scale_ok (bd_scale ?b)" using assms(1,2) by (auto simp: with_scale_scale decimal_ok_def max_def)
  show thesis
    by (rule result_cases [OF s, of "is_negative l \<and> is_negative r"])
      (use ok overflow in \<open>auto simp: only_add_def Let_def with_scale_scale add_exact x_def\<close>)
qed

lemma only_subtract_cases:
  assumes "decimal_ok l" "decimal_ok r"
  defines "x \<equiv> bd_value (d_number l) - bd_value (d_number r)"
  obtains (ok) q where "only_subtract lib l r = Inr q" "decimal_ok q" "bd_value (d_number q) = x"
      "bd_scale (d_number q) = max (bd_scale (d_number l)) (bd_scale (d_number r))"
  | (overflow) e where "only_subtract lib l r = Inl e" "overflows x"
proof -
  let ?b = "lib_with_scale lib (lib_sub lib (d_number l) (d_number r)) (max (bd_scale (d_number l)) (bd_scale (d_number r)))"
  have s: "scale_ok (bd_scale ?b)" using assms(1,2) by (auto simp: with_scale_scale decimal_ok_def max_def)
  show thesis
    by (rule result_cases [OF s, of "is_negative l \<and> \<not> is_negative r"])
      (use ok overflow in \<open>auto simp: only_subtract_def Let_def with_scale_scale sub_exact x_def\<close>)
qed

lemma only_multiply_cases:
  assumes "decimal_ok l" "decimal_ok r"
  defines "x \<equiv> bd_value (d_number l) * bd_value (d_number r)"
    and "s \<equiv> bd_scale (d_number l) + bd_scale (d_number r)"
  obtains (ok) q where "only_multiply lib l r = Inr q" "decimal_ok q" "bd_value (d_number q) = x" "bd_scale (d_number q) = s"
  | (overflow) e where "only_multiply lib l r = Inl e" "overflows x \<or> \<not> scale_ok s"
proof (cases "scale_ok s")
  case True
  have i: "i64_range s" using True by (simp add: scale_ok_def i64_range_def max_emax_def min_etiny_def)
  let ?b = "lib_with_scale lib (lib_mul lib (d_number l) (d_number r)) s"
  have sb: "scale_ok (bd_scale ?b)" using True by (simp add: with_scale_scale)
  show thesis
    by (rule result_cases [OF sb, of "is_negative l \<noteq> is_negative r"])
      (use ok overflow True i in \<open>auto simp: only_multiply_def checked_i64_def with_scale_scale mul_exact x_def s_def\<close>)
next
  case False
  then have "\<exists>e. only_multiply lib l r = Inl e" by (auto simp: only_multiply_def checked_i64_def s_def)
  with False overflow show thesis by blast
qed

end

section \<open>Division always returns on numbers of moderate size\<close>

definition moderate :: "bigdec \<Rightarrow> bool" where
  "moderate b \<longleftrightarrow> digit_count (bd_coef b) \<le> 10 ^ 6 \<and> \<bar>bd_scale b\<bar> \<le> 10 ^ 6"

lemma digit_count_pos: "1 \<le> digit_count c"
proof -
  have "nat_digits n \<noteq> []" for n by (subst nat_digits.simps) simp
  then show ?thesis by (simp add: digit_count_def Suc_le_eq)
qed

lemma digit_count_le_iff:
  assumes "0 < k"
  shows "digit_count c \<le> int k \<longleftrightarrow> \<bar>c\<bar> < 10 ^ k"
proof -
  have "digit_count c \<le> int k \<longleftrightarrow> nat \<bar>c\<bar> < 10 ^ k"
    using length_nat_digits [OF assms, of "nat \<bar>c\<bar>"] by (auto simp: digit_count_def)
  then show ?thesis by (simp add: nat_less_iff)
qed

lemma result_moderate:
  assumes "\<bar>c\<bar> < 10 ^ k" "0 < k" "k \<le> 10 ^ 8" "\<bar>s\<bar> \<le> 10 ^ 8"
  shows "is_ok (result \<lparr>bd_coef = c, bd_scale = s\<rparr> z)"
proof -
  have "digit_count c \<le> int k" using assms(1,2) by (simp add: digit_count_le_iff)
  moreover have "int k \<le> 10 ^ 8" using assms(3) by simp
  ultimately show ?thesis using assms(4)
    by (simp add: result_def Let_def scale_ok_def max_emax_def min_etiny_def abs_le_iff)
qed

lemma strip_zeros_bounds: "strip_zeros s n = (m, k) \<Longrightarrow> k \<le> s \<and> \<bar>m\<bar> \<le> \<bar>n\<bar>"
proof (induction s n rule: strip_zeros.induct)
  case (2 s n)
  have "\<bar>n div 10\<bar> \<le> \<bar>n\<bar>" if "10 dvd n" using that by (auto elim!: dvdE simp: abs_mult)
  with 2 show ?case by (force split: if_splits)
qed simp

lemma strip_scale_bounds: "strip_scale n s = (m, k) \<Longrightarrow> \<bar>k\<bar> \<le> \<bar>s\<bar> \<and> \<bar>m\<bar> \<le> \<bar>n\<bar>"
  using strip_zeros_bounds [of "nat s" n] by (auto simp: strip_scale_def split: if_splits prod.splits)

lemma small_exponents:
  fixes d m :: int
  assumes "d = m * 2 ^ t * 5 ^ f" "0 < m" "d < 10 ^ k"
  shows "t \<le> 4 * k" "f \<le> 4 * k"
proof -
  have up: "(10 :: int) ^ k \<le> 2 ^ (4 * k)" "(10 :: int) ^ k \<le> 5 ^ (4 * k)"
    by (simp_all add: power_mult power_mono)
  have "2 ^ t \<le> d" "5 ^ f \<le> d"
  proof -
    have "2 ^ t dvd d" "5 ^ f dvd d" "0 < d" using assms(1,2) by simp_all
    then show "2 ^ t \<le> d" "5 ^ f \<le> d" by (simp_all add: zdvd_imp_le)
  qed
  with up assms(3) have "(2 :: int) ^ t < 2 ^ (4 * k)" "(5 :: int) ^ f < 5 ^ (4 * k)" by linarith+
  then show "t \<le> 4 * k" "f \<le> 4 * k" by (simp_all add: power_strict_increasing_iff)
qed

lemma divide_exact_returns:
  assumes "\<bar>n\<bar> < 10 ^ k" "t \<le> 4 * k" "f \<le> 4 * k" "0 < k" "k \<le> 10 ^ 6" "\<bar>e\<bar> \<le> 2 * 10 ^ 6"
  shows "is_ok (divide_exact n t f e)"
proof -
  define s where "s = max t f"
  define n1 where "n1 = n * (2 ^ (s - t) * 5 ^ (s - f))"
  have s: "s \<le> 4 * k" using assms(2,3) by (simp add: s_def)
  obtain n2 s2 where st: "strip_scale n1 (if n1 = 0 then 0 else int s - e) = (n2, s2)"
    by (cases "strip_scale n1 (if n1 = 0 then 0 else int s - e)")
  have i: "\<bar>int s - e\<bar> \<le> 10 ^ 8" using s assms(5,6) by simp
  have "(2 :: int) ^ (s - t) * 5 ^ (s - f) \<le> 2 ^ (4 * k) * 5 ^ (4 * k)"
    using s by (intro mult_mono power_increasing) simp_all
  also have "\<dots> = 10 ^ (4 * k)" by (simp flip: power_mult_distrib)
  finally have "\<bar>n1\<bar> \<le> \<bar>n\<bar> * 10 ^ (4 * k)" by (simp add: n1_def abs_mult mult_left_mono)
  also have "\<dots> < 10 ^ k * 10 ^ (4 * k)" using assms(1) by simp
  also have "\<dots> = 10 ^ (5 * k)" by (simp flip: power_add)
  finally have n1: "\<bar>n1\<bar> < 10 ^ (5 * k)" .
  note b = strip_scale_bounds [OF st]
  have "is_ok (result \<lparr>bd_coef = n2, bd_scale = s2\<rparr> False)"
    using b n1 i assms(4,5) by (intro result_moderate [of _ "5 * k"]) (auto split: if_splits)
  moreover have "i64_range (int s - e)" using i by (auto simp: i64_range_def)
  ultimately show ?thesis
    unfolding divide_exact_def Let_def s_def [symmetric] n1_def [symmetric] by (simp add: checked_i64_def st)
qed

lemma round_quotient_le: "0 < d \<Longrightarrow> 0 \<le> n \<Longrightarrow> 0 \<le> round_quotient n d \<and> round_quotient n d \<le> n + 1"
proof -
  assume "0 < d" "0 \<le> n"
  then have "0 \<le> n div d" "n div d \<le> n" using zdiv_mono2 [of n 1 d] by (simp_all add: pos_imp_zdiv_nonneg_iff)
  then show ?thesis by (simp add: round_quotient_def Let_def)
qed

lemma power10_returns: "0 \<le> e \<Longrightarrow> e \<le> 10 ^ 8 \<Longrightarrow> power10 e = Inr (10 ^ nat e)"
  by (simp add: power10_def)

lemma scaled_ratio_returns:
  assumes "\<bar>s\<bar> \<le> int k" "k \<le> 10 ^ 8" "0 < d" "0 < n" "n < 10 ^ j"
  obtains n1 d1 where "scaled_ratio n d s = Inr (n1, d1)" "0 < d1" "0 \<le> n1" "n1 < 10 ^ (j + k)"
proof (cases "0 \<le> s")
  case True
  then have s: "nat s \<le> k" "s \<le> 10 ^ 8" using assms(1,2) by simp_all
  have "n * 10 ^ nat s < 10 ^ j * 10 ^ k"
    using assms(4,5) s by (intro mult_less_le_imp_less power_increasing) simp_all
  then show thesis using that [of "n * 10 ^ nat s" d] True s assms
    by (simp add: scaled_ratio_def power10_returns power_add)
next
  case False
  then have s: "0 \<le> - s" "- s \<le> 10 ^ 8" using assms(1,2) by simp_all
  have "n * 1 < 10 ^ j * 10 ^ k" using assms(4,5) by (intro mult_less_le_imp_less) simp_all
  then show thesis using that [of n "d * 10 ^ nat (- s)"] False s assms
    by (simp add: scaled_ratio_def power10_returns power_add)
qed

lemma divide_rounded_returns:
  assumes "num \<noteq> 0" "\<bar>num\<bar> < 10 ^ k" "0 < d" "d < 10 ^ k" "0 < k" "k \<le> 10 ^ 6" "\<bar>e\<bar> \<le> 2 * 10 ^ 6"
  shows "is_ok (divide_rounded num d e)"
proof -
  define n where "n = \<bar>num\<bar>"
  define m0 where "m0 = digit_count n - digit_count d"
  have n: "0 < n" "n < 10 ^ k" using assms(1,2) by (simp_all add: n_def)
  have dc: "digit_count n \<le> int k" "digit_count d \<le> int k" using n assms(3,4,5) by (simp_all add: digit_count_le_iff)
  have m0: "\<bar>m0\<bar> \<le> int k" using dc digit_count_pos [of n] digit_count_pos [of d] by (simp add: m0_def)
  have k: "int k \<le> 10 ^ 6" using assms(6) by simp
  obtain below where b: "below_power n d m0 = Inr below"
    using m0 k by (cases "0 \<le> m0") (auto simp: below_power_def power10_returns)
  define scale where "scale = division_precision - 1 - (if below then m0 - 1 else m0)"
  have sc: "\<bar>scale\<bar> \<le> int (k + 28)" using m0 by (auto simp: scale_def division_precision_def)
  have k28: "k + 28 \<le> 10 ^ 8" using assms(6) by simp
  obtain n1 d1 where sr: "scaled_ratio n d scale = Inr (n1, d1)" "0 < d1" "0 \<le> n1" "n1 < 10 ^ (k + (k + 28))"
    by (rule scaled_ratio_returns [OF sc k28 assms(3) n])
  define c where "c = round_quotient n1 d1"
  have c: "0 \<le> c" "c \<le> n1 + 1" using round_quotient_le [OF sr(2,3)] by (simp_all add: c_def)
  define j where "j = k + (k + 28) + 1"
  have "c \<le> 10 ^ (k + (k + 28))" using c sr(4) by simp
  also have "\<dots> < (10 :: int) ^ j" by (simp add: j_def)
  finally have cj: "c < 10 ^ j" .
  have j: "0 < j" "j \<le> 10 ^ 8" using assms(6) by (simp_all add: j_def)
  have s: "\<bar>scale - e\<bar> \<le> 10 ^ 8" "\<bar>scale - 1 - e\<bar> \<le> 10 ^ 8" using sc k assms(7) by simp_all
  have i: "i64_range (scale - e)" "i64_range (scale - 1 - e)" using s by (auto simp: i64_range_def)
  have ok: "is_ok (result \<lparr>bd_coef = x, bd_scale = y\<rparr> False)" if "\<bar>x\<bar> \<le> c" "\<bar>y\<bar> \<le> 10 ^ 8" for x y
    using that cj by (intro result_moderate [OF _ j]) simp_all
  have q: "\<bar>c div 10\<bar> \<le> c" "\<bar>- (c div 10)\<bar> \<le> c" "\<bar>c\<bar> \<le> c" "\<bar>- c\<bar> \<le> c" using c by simp_all
  show ?thesis
    unfolding divide_rounded_def Let_def n_def [symmetric] m0_def [symmetric] b
    using ok [OF q(1) s(2)] ok [OF q(2) s(2)] ok [OF q(3) s(1)] ok [OF q(4) s(1)]
    by (simp add: scale_def [symmetric] sr(1) c_def [symmetric] checked_i64_def i)
qed

lemma moderate_power:
  assumes "moderate b" "int k = 10 ^ 6"
  shows "\<bar>bd_coef b\<bar> < 10 ^ k"
proof -
  have "0 < k" "digit_count (bd_coef b) \<le> int k" using assms unfolding moderate_def by simp_all
  then show ?thesis by (simp only: digit_count_le_iff)
qed

lemma only_divide_returns:
  assumes "moderate (d_number l)" "moderate (d_number r)" "\<not> is_zero r"
  shows "is_ok (only_divide l r)"
proof -
  obtain k where k: "int k = 10 ^ 6" by (metis of_nat_numeral of_nat_power)
  let ?n0 = "bd_coef (d_number l)" and ?d0 = "bd_coef (d_number r)"
  let ?e = "bd_scale (d_number r) - bd_scale (d_number l)"
  obtain n d where nd: "reduced ?n0 ?d0 = (n, d)" by (cases "reduced ?n0 ?d0")
  obtain m2 t where m2: "strip_factor 2 d = (m2, t)" by (cases "strip_factor 2 d")
  obtain m f where m: "strip_factor 5 m2 = (m, f)" by (cases "strip_factor 5 m2")
  have r: "?d0 \<noteq> 0" using assms(3) by (simp add: is_zero_def)
  note red = reduced_spec [OF r nd] and st = strip_both [OF m2 m]
  have g: "\<bar>x div gcd ?n0 ?d0\<bar> \<le> \<bar>x\<bar>" if "gcd ?n0 ?d0 dvd x" for x
  proof -
    have "1 \<le> gcd ?n0 ?d0" using r by (simp add: int_one_le_iff_zero_less)
    from mult_right_mono [OF this, of "\<bar>x div gcd ?n0 ?d0\<bar>"] that
    show ?thesis by (metis abs_ge_zero abs_gcd_int abs_mult dvd_mult_div_cancel mult_1)
  qed
  have small: "\<bar>n\<bar> < 10 ^ k" "d < 10 ^ k"
  proof -
    have "\<bar>n\<bar> = \<bar>?n0 div gcd ?n0 ?d0\<bar>" "\<bar>d\<bar> = \<bar>?d0 div gcd ?n0 ?d0\<bar>"
      using nd by (auto simp: reduced_def Let_def split: if_splits)
    then show "\<bar>n\<bar> < 10 ^ k" "d < 10 ^ k"
      using g [OF gcd_dvd1] g [OF gcd_dvd2] moderate_power [OF assms(1) k] moderate_power [OF assms(2) k] by linarith+
  qed
  have kk: "0 < k" "k \<le> 10 ^ 6" using k by simp_all
  have e: "\<bar>?e\<bar> \<le> 2 * 10 ^ 6" using assms(1,2) unfolding moderate_def by linarith
  have i: "i64_range ?e" using e by (auto simp: i64_range_def)
  have exact: "is_ok (divide_exact n t f ?e)"
    using st(1) [OF red(1)] st(2) [OF red(1)] small kk e small_exponents [of d m t f k] by (intro divide_exact_returns) simp_all
  have "is_ok (divide_rounded n d ?e)" if "m \<noteq> 1"
  proof -
    have "n \<noteq> 0"
    proof
      assume "n = 0"
      then have "d = 1" using red(1,2) by simp
      with st [OF red(1)] that show False by (metis dvd_mult2 dvd_triv_left mult.assoc zdvd1_eq abs_of_pos)
    qed
    with small red(1) kk e show ?thesis by (intro divide_rounded_returns) simp_all
  qed
  with exact i assms(3) show ?thesis by (simp add: only_divide_alt nd m2 m checked_i64_def)
qed

end
