(* ===== verification/Decimal_Roundtrip.thy ===== *)
theory Decimal_Roundtrip
  imports Decimal_Properties
begin

text \<open>
  The text of a decimal: \<open>decimal_grammar\<close> is the documented syntax the decimal library
  parses (sign, digits with an optional point, optional exponent). The text \<open>decimal_display\<close>
  writes is in that syntax and denotes the same coefficient and scale, so reading it back
  through \<open>decimal_from_str\<close> gives the decimal itself, signed zero and scale included.
\<close>

definition exponent_parse :: "rstr \<Rightarrow> int option" where
  "exponent_parse s = int_parse (if s \<noteq> [] \<and> hd s = 43 then tl s else s)"

definition decimal_grammar :: "rstr \<Rightarrow> bigdec option" where
  "decimal_grammar s =
     (let neg = (s \<noteq> [] \<and> hd s = 45);
          body = (if s \<noteq> [] \<and> (hd s = 45 \<or> hd s = 43) then tl s else s);
          mant = takeWhile (\<lambda>c. c \<noteq> 69 \<and> c \<noteq> 101) body; rest = drop (length mant) body;
          whole = takeWhile (\<lambda>c. c \<noteq> 46) mant; fpart = drop (length whole + 1) mant;
          digits = whole @ fpart; e = (if rest = [] then Some 0 else exponent_parse (tl rest))
      in if digits = [] \<or> \<not> list_all is_digit digits then None
         else map_option (\<lambda>k. \<lparr>bd_coef = (if neg then - int (digits_value digits) else int (digits_value digits)),
                             bd_scale = int (length fpart) - k\<rparr>) e)"

definition decimal_char :: "nat \<Rightarrow> bool" where
  "decimal_char c = (is_digit c \<or> c = 43 \<or> c = 45 \<or> c = 46 \<or> c = 69 \<or> c = 101)"

lemma digit_not_special:
  assumes "list_all is_digit ds" "c \<in> set ds"
  shows "c \<noteq> 43 \<and> c \<noteq> 45 \<and> c \<noteq> 46 \<and> c \<noteq> 69 \<and> c \<noteq> 101"
  using assms by (auto simp: list_all_iff is_digit_def)

lemma exponent_parse_display [simp]: "exponent_parse (int_display_signed k) = Some k"
proof -
  have "hd (nat_digits n) \<noteq> 45" for n
    using digit_not_special [OF nat_digits_all hd_in_set [OF nat_digits_ne], of n] by simp
  then show ?thesis by (simp add: exponent_parse_def int_display_signed_def int_parse_def Let_def)
qed

text \<open>A sign, a mantissa without exponent letters and an exponent split back into themselves.\<close>

lemma grammar_split:
  assumes "list_all is_digit (whole @ fpart)" "whole \<noteq> []"
    "mant = (if point then whole @ 46 # fpart else whole)" "\<not> point \<longrightarrow> fpart = []"
  shows "decimal_grammar ((if neg then [45] else []) @ mant @ (case e of None \<Rightarrow> [] | Some k \<Rightarrow> 69 # int_display_signed k))
    = Some \<lparr>bd_coef = (if neg then - int (digits_value (whole @ fpart)) else int (digits_value (whole @ fpart))),
            bd_scale = int (length fpart) - (case e of None \<Rightarrow> 0 | Some k \<Rightarrow> k)\<rparr>"
proof -
  let ?rest = "case e of None \<Rightarrow> [] | Some k \<Rightarrow> 69 # int_display_signed k"
  note w = digit_not_special [OF assms(1)]
  have whole_hd: "hd whole \<noteq> 45" "hd whole \<noteq> 43" using assms(2) w [of "hd whole"] by (auto simp: hd_in_set)
  have mant: "mant \<noteq> []" "hd mant = hd whole" using assms(2,3) by auto
  let ?s = "(if neg then [45] else []) @ mant @ ?rest"
  have neg: "(?s \<noteq> [] \<and> hd ?s = 45) = neg" and
    body: "(if ?s \<noteq> [] \<and> (hd ?s = 45 \<or> hd ?s = 43) then tl ?s else ?s) = mant @ ?rest"
    using mant whole_hd by auto
  have tw: "takeWhile (\<lambda>c. c \<noteq> 69 \<and> c \<noteq> 101) (mant @ ?rest) = mant"
    using w assms(3) by (subst takeWhile_append2) (auto split: option.splits if_splits)
  have wh: "takeWhile (\<lambda>c. c \<noteq> 46) mant = whole"
  proof (cases point)
    case True
    then show ?thesis using w assms(3) by (subst assms(3)) (simp add: takeWhile_append2)
  next
    case False
    then show ?thesis using w assms(3) by (simp add: takeWhile_eq_all_conv)
  qed
  have fp: "drop (length whole + 1) mant = fpart" using assms(3,4) by auto
  have rest: "drop (length mant) (mant @ ?rest) = ?rest" by simp
  show ?thesis
    unfolding decimal_grammar_def Let_def neg body tw rest wh fp using assms(1,2) by (cases e) auto
qed

lemma grammar_display:
  assumes "d_negative_zero d \<longrightarrow> bd_coef (d_number d) = 0"
  shows "decimal_grammar (decimal_display d) = Some (d_number d)"
proof -
  define ds where "ds = nat_digits (nat \<bar>bd_coef (d_number d)\<bar>)"
  define sc where "sc = bd_scale (d_number d)"
  define adj where "adj = int (length ds) - sc - 1"
  have ds: "list_all is_digit ds" "ds \<noteq> []" "digits_value ds = nat \<bar>bd_coef (d_number d)\<bar>" by (simp_all add: ds_def)
  have sign: "(if is_negative d then - int (digits_value ds) else int (digits_value ds)) = bd_coef (d_number d)"
    using assms by (auto simp: ds(3) is_negative_def)
  have whole: "d_number d = \<lparr>bd_coef = bd_coef (d_number d), bd_scale = sc\<rparr>" by (simp add: sc_def)
  consider (sci) "sc < 0 \<or> adj < - 6" | (int) "\<not> (sc < 0 \<or> adj < - 6)" "sc = 0"
    | (cut) "\<not> (sc < 0 \<or> adj < - 6)" "sc \<noteq> 0" "sc < int (length ds)"
    | (small) "\<not> (sc < 0 \<or> adj < - 6)" "sc \<noteq> 0" "\<not> sc < int (length ds)" by blast
  then show ?thesis
  proof cases
    case sci
    have t: "decimal_display d = (if is_negative d then [45] else []) @ (if length ds > 1 then take 1 ds @ 46 # drop 1 ds else take 1 ds)
        @ (case Some adj of None \<Rightarrow> [] | Some k \<Rightarrow> 69 # int_display_signed k)"
      using sci unfolding decimal_display_def Let_def ds_def [symmetric] sc_def [symmetric] adj_def [symmetric] by simp
    have s: "int (length (drop 1 ds)) - adj = sc" using ds(2) by (cases ds) (simp_all add: adj_def)
    show ?thesis
      unfolding t by (subst grammar_split [where whole = "take 1 ds" and fpart = "drop 1 ds" and point = "length ds > 1"])
        (use ds(1,2) sign s whole in \<open>auto simp del: drop_0\<close>)
  next
    case int
    have t: "decimal_display d = (if is_negative d then [45] else []) @ ds @ (case None of None \<Rightarrow> [] | Some k \<Rightarrow> 69 # int_display_signed k)"
      using int unfolding decimal_display_def Let_def ds_def [symmetric] sc_def [symmetric] adj_def [symmetric] by simp
    show ?thesis
      unfolding t by (subst grammar_split [where whole = ds and fpart = "[]" and point = False]) (use ds(1,2) sign int whole in auto)
  next
    case cut
    define k where "k = nat (int (length ds) - sc)"
    have t: "decimal_display d = (if is_negative d then [45] else []) @ (take k ds @ 46 # drop k ds)
        @ (case None of None \<Rightarrow> [] | Some k \<Rightarrow> 69 # int_display_signed k)"
      using cut unfolding decimal_display_def Let_def ds_def [symmetric] sc_def [symmetric] adj_def [symmetric] k_def [symmetric] by simp
    have k: "0 < k" "int (length (drop k ds)) = sc" using cut by (auto simp: k_def)
    show ?thesis
      unfolding t by (subst grammar_split [where whole = "take k ds" and fpart = "drop k ds" and point = True])
        (use ds(1,2) sign k whole in auto)
  next
    case small
    define z where "z = replicate (nat (sc - int (length ds))) (48 :: nat)"
    have t: "decimal_display d = (if is_negative d then [45] else []) @ ([48] @ 46 # (z @ ds))
        @ (case None of None \<Rightarrow> [] | Some k \<Rightarrow> 69 # int_display_signed k)"
      using small unfolding decimal_display_def Let_def ds_def [symmetric] sc_def [symmetric] adj_def [symmetric] z_def by simp
    have v: "digits_value ([48] @ z @ ds) = digits_value ds"
      by (simp add: z_def digits_value_append digits_value_Cons)
    have z: "list_all is_digit z" "int (length (z @ ds)) = sc"
      using small by (auto simp: z_def list_all_iff is_digit_def)
    show ?thesis
      unfolding t by (subst grammar_split [where whole = "[48]" and fpart = "z @ ds" and point = True])
        (use ds(1,2) sign v z whole in \<open>auto simp: is_digit_def\<close>)
  qed
qed

lemma display_chars: "list_all decimal_char (decimal_display d)"
proof -
  have d: "list_all decimal_char (nat_digits n)" "list_all decimal_char (take k (nat_digits n))"
    "list_all decimal_char (drop k (nat_digits n))" for n k
    using nat_digits_all [of n] by (auto simp: list_all_iff decimal_char_def dest: in_set_takeD in_set_dropD)
  have z: "list_all decimal_char (replicate k 48)" for k by (auto simp: list_all_iff decimal_char_def is_digit_def)
  have c: "decimal_char 43" "decimal_char 45" "decimal_char 46" "decimal_char 48" "decimal_char 69"
    by (simp_all add: decimal_char_def is_digit_def)
  show ?thesis
    unfolding decimal_display_def Let_def int_display_signed_def using d z c by simp
qed

lemma hd_display: "(case decimal_display d of c # _ \<Rightarrow> c = 45 | [] \<Rightarrow> False) = is_negative d"
proof -
  let ?ds = "nat_digits (nat \<bar>bd_coef (d_number d)\<bar>)"
  have h: "hd ?ds \<noteq> 45" using digit_not_special [OF nat_digits_all hd_in_set [OF nat_digits_ne]] by blast
  obtain c cs where ds: "?ds = c # cs" by (cases ?ds) simp_all
  have c: "c \<noteq> 45" using h ds by simp
  have t: "take k (c # cs) @ 46 # rest \<noteq> 45 # more" for k rest more using c by (cases k) simp_all
  show ?thesis
    using c t unfolding decimal_display_def Let_def ds by (cases "is_negative d") (auto split: list.splits)
qed

section \<open>Reading decimals back\<close>

locale decimal_text = bigdecimal lib for lib +
  fixes uni :: unicode_tables
  assumes parse_grammar: "decimal_grammar s = Some b \<Longrightarrow> lib_parse lib s = Some b"
    and display_parse: "0 < bd_coef b \<Longrightarrow> 0 \<le> bd_scale b \<Longrightarrow> bd_scale b \<le> 18 \<Longrightarrow>
      lib_parse lib (lib_display lib b) = Some b \<and> list_all decimal_char (lib_display lib b)"
    and ascii_digits: "c < 128 \<Longrightarrow> decimal_digit uni c = (if is_digit c then Some c else None)"
begin

lemma parse_display: "decimal_ok d \<Longrightarrow> lib_parse lib (decimal_display d) = Some (d_number d)"
  by (rule parse_grammar, rule grammar_display) (simp add: decimal_ok_def)

lemma from_str_text:
  assumes "list_all decimal_char s" "lib_parse lib s = Some b"
  shows "decimal_from_str lib uni s = result b (case s of c # _ \<Rightarrow> c = 45 | [] \<Rightarrow> False)"
proof -
  have sp: "\<not> whitespace c" "c \<noteq> 95" "c < 128" if "c \<in> set s" for c
    using assms(1) that by (auto simp: list_all_iff decimal_char_def is_digit_def whitespace_def unicode_white_space_def)
  have drop: "dropWhile whitespace xs = xs" if "set xs \<subseteq> set s" for xs
    using that sp(1) by (cases xs) auto
  have trim: "trim_matches whitespace s = s" by (simp add: trim_matches_def drop)
  have filt: "filter (\<lambda>c. c \<noteq> 95) s = s" using sp(2) by (simp add: filter_id_conv)
  have lex: "map (\<lambda>c. case decimal_digit uni c of Some d \<Rightarrow> d | None \<Rightarrow> c) s = s"
    using sp(3) by (auto simp: ascii_digits intro: map_idI)
  show ?thesis unfolding decimal_from_str_def Let_def trim filt lex using assms(2) by simp
qed

lemma from_str_display:
  assumes "decimal_ok d"
  shows "decimal_from_str lib uni (decimal_display d) = Inr d"
  using assms unfolding from_str_text [OF display_chars parse_display [OF assms]] hd_display
  by (auto simp: result_simps decimal_ok_def is_negative_def)

lemma from_str_lib_display:
  assumes "0 < bd_coef b" "0 \<le> bd_scale b" "bd_scale b \<le> 18"
  shows "\<exists>nz. decimal_from_str lib uni (lib_display lib b) = result b nz"
  using from_str_text [of "lib_display lib b" b] display_parse [OF assms] by blast

end

end
