(* ===== verification/Decimal_Values.thy ===== *)
theory Decimal_Values
  imports Decimal_Roundtrip
begin

text \<open>
  Quantities and money over the decimal arithmetic, a reference implementation of the decimal
  library that meets the locale \<open>bigdecimal\<close>, and the properties of the domain arithmetic.
\<close>

section \<open>A reference decimal library\<close>

definition ref_align :: "bigdec \<Rightarrow> int \<Rightarrow> int" where
  "ref_align a s =
     (if bd_scale a \<le> s then bd_coef a * 10 ^ nat (s - bd_scale a)
      else sgn (bd_coef a) * (\<bar>bd_coef a\<bar> div 10 ^ nat (bd_scale a - s)))"

definition ref_lib :: decimal_lib where
  "ref_lib =
     (let top = (\<lambda>a b. max (bd_scale a) (bd_scale b)) in
     \<lparr>lib_add = (\<lambda>a b. \<lparr>bd_coef = ref_align a (top a b) + ref_align b (top a b), bd_scale = top a b\<rparr>),
      lib_sub = (\<lambda>a b. \<lparr>bd_coef = ref_align a (top a b) - ref_align b (top a b), bd_scale = top a b\<rparr>),
      lib_mul = (\<lambda>a b. \<lparr>bd_coef = bd_coef a * bd_coef b, bd_scale = bd_scale a + bd_scale b\<rparr>),
      lib_rem = (\<lambda>a b. \<lparr>bd_coef = sgn (bd_coef a) * (\<bar>ref_align a (top a b)\<bar> mod \<bar>ref_align b (top a b)\<bar>),
                        bd_scale = top a b\<rparr>),
      lib_with_scale = (\<lambda>a s. \<lparr>bd_coef = ref_align a s, bd_scale = s\<rparr>),
      lib_with_scale_round = (\<lambda>a s m. \<lparr>bd_coef = (if bd_scale a \<le> s then ref_align a s
                                               else rounded_integer (bd_coef a) (10 ^ nat (bd_scale a - s)) m), bd_scale = s\<rparr>),
      lib_normalized = (\<lambda>a. if bd_coef a = 0 then \<lparr>bd_coef = 0, bd_scale = 0\<rparr>
                            else let (c, s) = strip_tens (bd_coef a) (bd_scale a) in \<lparr>bd_coef = c, bd_scale = s\<rparr>),
      lib_cmp = (\<lambda>a b. cmp (ref_align a (top a b)) (ref_align b (top a b))),
      lib_parse = decimal_grammar,
      lib_display = (\<lambda>b. decimal_display \<lparr>d_number = b, d_negative_zero = False\<rparr>)\<rparr>)"

definition ascii_uni :: unicode_tables where
  "ascii_uni =
     \<lparr>uni_alphanumeric = [(48, 57), (65, 90), (97, 122)], uni_uppercase = map (\<lambda>c. (c, [c - 32])) [97..<123],
      uni_decimal_digits = [(48, 57)]\<rparr>"

lemma ref_align_up: "bd_scale a \<le> s \<Longrightarrow> (of_int (ref_align a s) :: rat) = bd_value a * 10 powi s"
  using pow10_add [of "- bd_scale a" s] pow10_nat [of "s - bd_scale a"] by (simp add: ref_align_def bd_value_def)

lemma truncate_ratio:
  assumes "0 < d"
  shows "truncate_rat (of_int n / of_int d) = sgn n * (\<bar>n\<bar> div d)"
proof (cases "0 \<le> n")
  case True
  then show ?thesis using nonneg_parts(1) [OF assms True] by (cases "n = 0") simp_all
next
  case False
  then have "truncate_rat (of_int n / of_int d) = - truncate_rat (of_int (- n) / of_int d)"
    using neg_parts(1) [of "of_int (- n) / of_int d"] by simp
  with False show ?thesis using nonneg_parts(1) [OF assms, of "- n"] by simp
qed

lemma ref_align_truncates: "ref_align a s = truncate_rat (bd_value a * 10 powi s)"
proof (cases "bd_scale a \<le> s")
  case True
  show ?thesis by (simp add: ref_align_up [OF True, symmetric])
next
  case False
  then have "bd_value a * 10 powi s = of_int (bd_coef a) / of_int (10 ^ nat (bd_scale a - s))"
    using pow10_add [of "- bd_scale a" s] pow10_neg [of "bd_scale a - s"] pow10_nat [of "bd_scale a - s"] by (simp add: bd_value_def mult.assoc)
  with False truncate_ratio [of "10 ^ nat (bd_scale a - s)" "bd_coef a"] show ?thesis by (simp add: ref_align_def)
qed

lemma rescaled: "(of_int c :: rat) * 10 powi (- s) = x" if "(of_int c :: rat) = x * 10 powi s"
  using that by (simp add: pow10_neg)

interpretation ref: bigdecimal ref_lib
proof unfold_locales
  fix a b :: bigdec
  let ?s = "max (bd_scale a) (bd_scale b)"
  have al: "(of_int (ref_align a ?s) :: rat) = bd_value a * 10 powi ?s" "(of_int (ref_align b ?s) :: rat) = bd_value b * 10 powi ?s"
    by (simp_all add: ref_align_up)
  show "bd_value (lib_add ref_lib a b) = bd_value a + bd_value b"
    using rescaled [of "ref_align a ?s + ref_align b ?s" "bd_value a + bd_value b" ?s] al
    by (simp add: ref_lib_def bd_value_def [of "\<lparr>bd_coef = _, bd_scale = _\<rparr>"] Let_def distrib_right)
  show "bd_value (lib_sub ref_lib a b) = bd_value a - bd_value b"
    using rescaled [of "ref_align a ?s - ref_align b ?s" "bd_value a - bd_value b" ?s] al
    by (simp add: ref_lib_def bd_value_def [of "\<lparr>bd_coef = _, bd_scale = _\<rparr>"] Let_def left_diff_distrib)
  show "bd_value (lib_mul ref_lib a b) = bd_value a * bd_value b"
    using pow10_add [of "- bd_scale a" "- bd_scale b"] by (simp add: ref_lib_def bd_value_def Let_def)
  have "(of_int (ref_align a ?s) :: rat) < of_int (ref_align b ?s) \<longleftrightarrow> bd_value a < bd_value b"
    "(of_int (ref_align a ?s) :: rat) = of_int (ref_align b ?s) \<longleftrightarrow> bd_value a = bd_value b"
    unfolding al by simp_all
  then show "lib_cmp ref_lib a b = cmp (bd_value a) (bd_value b)"
    by (simp add: ref_lib_def Let_def cmp_def)
qed (simp_all add: ref_lib_def Let_def ref_align_truncates)

interpretation ref_text: decimal_text ref_lib ascii_uni
proof unfold_locales
  show "lib_parse ref_lib s = Some b" if "decimal_grammar s = Some b" for s b
    using that by (simp add: ref_lib_def Let_def)
  show "lib_parse ref_lib (lib_display ref_lib b) = Some b \<and> list_all decimal_char (lib_display ref_lib b)" for b
    by (simp add: ref_lib_def Let_def grammar_display display_chars)
  show "decimal_digit ascii_uni c = (if is_digit c then Some c else None)" if "c < 128" for c
    using that by (auto simp: decimal_digit_def ascii_uni_def range_at_def char_from_u32_def is_digit_def)
qed

section \<open>Quantities and money\<close>

definition quantity_ok :: "scalar \<Rightarrow> bool" where
  "quantity_ok a \<longleftrightarrow> decimal_ok (sc_value a) \<and> sc_precision a \<le> max_precision
     \<and> fractional_precision (sc_value a) \<le> int (sc_precision a) \<and> 0 \<le> bd_value (d_number (sc_value a))"

definition money_ok :: "money \<Rightarrow> bool" where
  "money_ok m \<longleftrightarrow> decimal_ok (mo_amount m) \<and> cu_precision (mo_currency m) \<le> max_precision
     \<and> fractional_precision (mo_amount m) \<le> int (cu_precision (mo_currency m))"

abbreviation quantity_value :: "scalar \<Rightarrow> rat" where
  "quantity_value a \<equiv> bd_value (d_number (sc_value a))"

lemma quantity_new_iff:
  "quantity_new v p = Inr c \<longleftrightarrow> p \<le> max_precision \<and> fractional_precision v \<le> int p
     \<and> (is_zero v \<or> \<not> is_negative v) \<and> c = \<lparr>sc_value = v, sc_precision = p\<rparr>"
  by (auto simp: quantity_new_def scalar_new_def validate_quantity_def validate_precision_def result_simps split: if_splits)

lemma negative_sign: "decimal_ok v \<Longrightarrow> (is_zero v \<or> \<not> is_negative v) \<longleftrightarrow> 0 \<le> bd_value (d_number v)"
  by (auto simp: is_zero_def is_negative_def value_sign decimal_ok_def)

lemma quantity_new_total:
  assumes "decimal_ok v" "p \<le> max_precision" "fractional_precision v \<le> int p"
  shows "quantity_new v p =
     (if 0 \<le> bd_value (d_number v) then Inr \<lparr>sc_value = v, sc_precision = p\<rparr>
      else Inl (DomValidation ''quantity cannot be negative''))"
  using assms negative_sign [OF assms(1)]
  by (auto simp: quantity_new_def scalar_new_def validate_quantity_def validate_precision_def)

lemma fractional_max:
  "bd_scale (d_number q) = max (bd_scale (d_number l)) (bd_scale (d_number r)) \<Longrightarrow>
     fractional_precision l \<le> int p \<Longrightarrow> fractional_precision r \<le> int p' \<Longrightarrow>
     fractional_precision q \<le> int (max p p')"
  by (auto simp: fractional_precision_def)

lemma difference_bounded:
  "0 \<le> a \<Longrightarrow> 0 \<le> b \<Longrightarrow> \<not> overflows a \<Longrightarrow> \<not> overflows b \<Longrightarrow> \<not> overflows (a - b)"
  by (auto simp: overflows_def abs_le_iff)

lemma validate_precision_ok: "p \<le> max_precision \<Longrightarrow> fractional_precision v \<le> int p \<Longrightarrow> validate_precision v p = Inr ()"
  by (simp add: validate_precision_def)

context bigdecimal
begin

lemma quantity_add_cases:
  assumes "quantity_ok a" "quantity_ok b"
  shows "case quantity_add lib a b of
      Inr c \<Rightarrow> quantity_ok c \<and> quantity_value c = quantity_value a + quantity_value b
    | Inl _ \<Rightarrow> overflows (quantity_value a + quantity_value b)"
proof (rule only_add_cases [of "sc_value a" "sc_value b"])
  fix q assume q: "only_add lib (sc_value a) (sc_value b) = Inr q" "decimal_ok q"
    "bd_value (d_number q) = quantity_value a + quantity_value b"
    "bd_scale (d_number q) = max (bd_scale (d_number (sc_value a))) (bd_scale (d_number (sc_value b)))"
  let ?p = "max (sc_precision a) (sc_precision b)"
  have "fractional_precision q \<le> int ?p" "?p \<le> max_precision"
    using fractional_max [OF q(4)] assms by (auto simp: quantity_ok_def)
  with q assms show ?thesis by (simp add: quantity_add_def quantity_new_total quantity_ok_def)
qed (use assms in \<open>auto simp: quantity_ok_def quantity_add_def\<close>)

lemma quantity_subtract_cases:
  assumes "quantity_ok a" "quantity_ok b"
  shows "case quantity_subtract lib a b of
      Inr c \<Rightarrow> quantity_ok c \<and> quantity_value c = quantity_value a - quantity_value b
    | Inl e \<Rightarrow> quantity_value a < quantity_value b \<and> e = DomValidation ''quantity cannot be negative''"
proof (rule only_subtract_cases [of "sc_value a" "sc_value b"])
  fix q assume q: "only_subtract lib (sc_value a) (sc_value b) = Inr q" "decimal_ok q"
    "bd_value (d_number q) = quantity_value a - quantity_value b"
    "bd_scale (d_number q) = max (bd_scale (d_number (sc_value a))) (bd_scale (d_number (sc_value b)))"
  let ?p = "max (sc_precision a) (sc_precision b)"
  have "fractional_precision q \<le> int ?p" "?p \<le> max_precision"
    using fractional_max [OF q(4)] assms by (auto simp: quantity_ok_def)
  with q show ?thesis by (simp add: quantity_subtract_def quantity_new_total quantity_ok_def)
next
  fix e assume "overflows (quantity_value a - quantity_value b)"
  then show ?thesis using difference_bounded assms decimal_ok_bounded by (auto simp: quantity_ok_def)
qed (use assms in \<open>auto simp: quantity_ok_def\<close>)

lemma money_add_cases:
  assumes "money_ok a" "money_ok b"
  shows "case money_add lib a b of
      Inr c \<Rightarrow> mo_currency a = mo_currency b \<and> money_ok c \<and> mo_currency c = mo_currency a
          \<and> bd_value (d_number (mo_amount c)) = bd_value (d_number (mo_amount a)) + bd_value (d_number (mo_amount b))
    | Inl e \<Rightarrow> (if mo_currency a \<noteq> mo_currency b then e = DomCurrencyMismatch ''currency conversion required''
          else overflows (bd_value (d_number (mo_amount a)) + bd_value (d_number (mo_amount b))))"
proof (rule only_add_cases [of "mo_amount a" "mo_amount b"])
  fix q assume q: "only_add lib (mo_amount a) (mo_amount b) = Inr q" "decimal_ok q"
    "bd_value (d_number q) = bd_value (d_number (mo_amount a)) + bd_value (d_number (mo_amount b))"
    "bd_scale (d_number q) = max (bd_scale (d_number (mo_amount a))) (bd_scale (d_number (mo_amount b)))"
  show ?thesis
    using q assms fractional_max [OF q(4), of "cu_precision (mo_currency a)" "cu_precision (mo_currency a)"]
    by (auto simp: money_add_def require_currency_def money_new_def money_ok_def validate_precision_ok)
qed (use assms in \<open>auto simp: money_ok_def money_add_def require_currency_def\<close>)

lemma money_subtract_cases:
  assumes "money_ok a" "money_ok b"
  shows "case money_subtract lib a b of
      Inr c \<Rightarrow> mo_currency a = mo_currency b \<and> money_ok c \<and> mo_currency c = mo_currency a
          \<and> bd_value (d_number (mo_amount c)) = bd_value (d_number (mo_amount a)) - bd_value (d_number (mo_amount b))
    | Inl e \<Rightarrow> (if mo_currency a \<noteq> mo_currency b then e = DomCurrencyMismatch ''currency conversion required''
          else overflows (bd_value (d_number (mo_amount a)) - bd_value (d_number (mo_amount b))))"
proof (rule only_subtract_cases [of "mo_amount a" "mo_amount b"])
  fix q assume q: "only_subtract lib (mo_amount a) (mo_amount b) = Inr q" "decimal_ok q"
    "bd_value (d_number q) = bd_value (d_number (mo_amount a)) - bd_value (d_number (mo_amount b))"
    "bd_scale (d_number q) = max (bd_scale (d_number (mo_amount a))) (bd_scale (d_number (mo_amount b)))"
  show ?thesis
    using q assms fractional_max [OF q(4), of "cu_precision (mo_currency a)" "cu_precision (mo_currency a)"]
    by (auto simp: money_subtract_def require_currency_def money_new_def money_ok_def validate_precision_ok)
qed (use assms in \<open>auto simp: money_ok_def money_subtract_def require_currency_def\<close>)

end

section \<open>Properties\<close>

definition dec :: "int \<Rightarrow> int \<Rightarrow> decimal" where
  "dec c s = \<lparr>d_number = \<lparr>bd_coef = c, bd_scale = s\<rparr>, d_negative_zero = False\<rparr>"

text \<open>
  C37: Addition, subtraction and multiplication of decimals in the canonical range are exact:
  they return a decimal in the range whose value is the exact sum, difference or product, with
  the larger of the two scales (their sum, for a product), and they fail only when the exact
  result is too large for the range or, for a product, the scale leaves it.
\<close>
theorem decimal_arithmetic_exact:
  assumes "bigdecimal lib" "decimal_ok l" "decimal_ok r"
  shows "(case only_add lib l r of
            Inr q \<Rightarrow> decimal_ok q \<and> bd_value (d_number q) = bd_value (d_number l) + bd_value (d_number r)
              \<and> bd_scale (d_number q) = max (bd_scale (d_number l)) (bd_scale (d_number r))
          | Inl _ \<Rightarrow> overflows (bd_value (d_number l) + bd_value (d_number r)))
       \<and> (case only_subtract lib l r of
            Inr q \<Rightarrow> decimal_ok q \<and> bd_value (d_number q) = bd_value (d_number l) - bd_value (d_number r)
              \<and> bd_scale (d_number q) = max (bd_scale (d_number l)) (bd_scale (d_number r))
          | Inl _ \<Rightarrow> overflows (bd_value (d_number l) - bd_value (d_number r)))
       \<and> (case only_multiply lib l r of
            Inr q \<Rightarrow> decimal_ok q \<and> bd_value (d_number q) = bd_value (d_number l) * bd_value (d_number r)
              \<and> bd_scale (d_number q) = bd_scale (d_number l) + bd_scale (d_number r)
          | Inl _ \<Rightarrow> overflows (bd_value (d_number l) * bd_value (d_number r))
              \<or> \<not> scale_ok (bd_scale (d_number l) + bd_scale (d_number r)))"
  apply (intro conjI)
    apply (rule bigdecimal.only_add_cases [OF assms]; simp)
   apply (rule bigdecimal.only_subtract_cases [OF assms]; simp)
  apply (rule bigdecimal.only_multiply_cases [OF assms]; simp)
  done

theorem decimal_arithmetic_exact_witness:
  "case only_subtract ref_lib (dec 125 2) (dec 5 1) of
      Inr q \<Rightarrow> decimal_ok q \<and> bd_value (d_number q) = 3 / 4 \<and> bd_scale (d_number q) = 2
    | Inl _ \<Rightarrow> overflows (3 / 4)"
proof -
  have v: "bd_value (d_number (dec 125 2)) = 5 / 4" "bd_value (d_number (dec 5 1)) = 1 / 2"
    by (simp_all add: dec_def bd_value_def power_int_def eval_nat_numeral)
  have ok: "decimal_ok (dec 125 2)" "decimal_ok (dec 5 1)"
    by (simp_all add: dec_def decimal_ok_def scale_ok_def digit_count_def max_emax_def min_etiny_def nat_digits.simps)
  have s: "bd_scale (d_number (dec c k)) = k" for c k by (simp add: dec_def)
  have n: "5 / 4 - 1 / 2 = (3 / 4 :: rat)" "max 2 1 = (2 :: int)" by simp_all
  show ?thesis using decimal_arithmetic_exact [OF ref.bigdecimal_axioms ok] unfolding v s n by (elim conjE) assumption
qed



text \<open>
  C39: Division fails on a zero divisor; on any other numbers of up to a million digits and
  scales it returns. The quotient is exact when it is a finite decimal, and otherwise has 28
  significant digits and lies within half a unit of its last digit from the exact quotient.
\<close>
theorem only_divide_correct:
  "(is_zero r \<longrightarrow> only_divide l r = Inl (DomValidation ''domain division by zero''))
   \<and> (\<not> is_zero r \<and> moderate (d_number l) \<and> moderate (d_number r) \<longrightarrow> is_ok (only_divide l r))
   \<and> (\<forall>q. only_divide l r = Inr q \<longrightarrow>
        (if terminating (bd_value (d_number l) / bd_value (d_number r))
         then bd_value (d_number q) = bd_value (d_number l) / bd_value (d_number r)
         else 10 ^ 27 \<le> \<bar>bd_coef (d_number q)\<bar> \<and> \<bar>bd_coef (d_number q)\<bar> < 10 ^ 28
           \<and> \<bar>bd_value (d_number q) - bd_value (d_number l) / bd_value (d_number r)\<bar>
             \<le> 10 powi (- bd_scale (d_number q)) / 2))"
proof (intro conjI allI impI)
  fix q assume "only_divide l r = Inr q"
  from only_divide_value(2,3) [OF this]
  show "if terminating (bd_value (d_number l) / bd_value (d_number r))
      then bd_value (d_number q) = bd_value (d_number l) / bd_value (d_number r)
      else 10 ^ 27 \<le> \<bar>bd_coef (d_number q)\<bar> \<and> \<bar>bd_coef (d_number q)\<bar> < 10 ^ 28
        \<and> \<bar>bd_value (d_number q) - bd_value (d_number l) / bd_value (d_number r)\<bar>
          \<le> 10 powi (- bd_scale (d_number q)) / 2" by argo
next
  assume "is_zero r"
  then show "only_divide l r = Inl (DomValidation ''domain division by zero'')" by (simp add: only_divide_alt)
qed (simp add: only_divide_returns)

theorem only_divide_correct_witness:
  "is_ok (only_divide (dec 1 0) (dec 3 0)) \<and> is_ok (only_divide (dec 1 0) (dec 8 0))
   \<and> (case only_divide (dec 1 0) (dec 8 0) of Inr q \<Rightarrow> bd_value (d_number q) = 1 / 8 | Inl _ \<Rightarrow> False)"
proof -
  have m: "moderate (d_number (dec 1 0))" "moderate (d_number (dec 3 0))" "moderate (d_number (dec 8 0))"
    by (simp_all add: dec_def moderate_def digit_count_def nat_digits.simps)
  have z: "\<not> is_zero (dec 3 0)" "\<not> is_zero (dec 8 0)" by (simp_all add: dec_def is_zero_def)
  have v: "bd_value (d_number (dec 1 0)) / bd_value (d_number (dec 8 0)) = 1 / 8" by (simp add: dec_def bd_value_def)
  have "bd_value \<lparr>bd_coef = 125, bd_scale = 3\<rparr> = 1 / 8" by (simp add: bd_value_def power_int_def eval_nat_numeral)
  then have t: "terminating (1 / 8)" unfolding terminating_def by blast
  show ?thesis
    using only_divide_correct [of "dec 3 0" "dec 1 0"] only_divide_correct [of "dec 8 0" "dec 1 0"] m z t v
    by (cases "only_divide (dec 1 0) (dec 8 0)") simp_all
qed

text \<open>
  Rounding a value to a positive increment gives the multiple of the increment that the
  rounding mode selects for the exact ratio, written with the increment's scale; the increment
  must be positive.
\<close>
theorem only_increment_correct:
  "case only_increment v inc mode of
     Inr q \<Rightarrow> 0 < bd_value (d_number inc) \<and> bd_scale (d_number q) = bd_scale (d_number inc)
       \<and> bd_value (d_number q) =
         of_int (round_spec mode (bd_value (d_number v) / bd_value (d_number inc))) * bd_value (d_number inc)
   | Inl e \<Rightarrow> is_negative inc \<or> is_zero inc \<longrightarrow> e = DomValidation ''increment must be positive''"
proof (cases "only_increment v inc mode")
  case (Inl e)
  then show ?thesis by (auto simp: only_increment_def)
next
  case (Inr q)
  from only_increment_value [OF this] show ?thesis by (simp add: Inr)
qed

theorem only_increment_correct_witness:
  "case only_increment (dec (- 125) 2) (dec 5 1) HalfEven of
     Inr q \<Rightarrow> bd_scale (d_number q) = 1 | Inl e \<Rightarrow> False"
proof -
  have "is_ok (only_increment (dec (- 125) 2) (dec 5 1) HalfEven)"
    by code_simp
  with only_increment_correct [where v = "dec (- 125) 2" and inc = "dec 5 1" and mode = HalfEven] show ?thesis
    by (cases "only_increment (dec (- 125) 2) (dec 5 1) HalfEven") (simp_all add: dec_def)
qed

text \<open>
  Two decimals have the same hash key exactly when they have the same value, whatever
  their scales and zero signs.
\<close>
theorem hash_key_equality:
  "hash_key a = hash_key b \<longleftrightarrow> bd_value (d_number a) = bd_value (d_number b)"
  by (rule hash_key_value)

text \<open>
  Quantity arithmetic is exact and keeps quantities non-negative within their precision: a
  subtraction fails exactly when it would go below zero, an addition only when the sum leaves
  the decimal range.
\<close>
theorem quantity_arithmetic_sound:
  assumes "bigdecimal lib" "quantity_ok a" "quantity_ok b"
  shows "(case quantity_add lib a b of
            Inr c \<Rightarrow> quantity_ok c \<and> quantity_value c = quantity_value a + quantity_value b
          | Inl _ \<Rightarrow> overflows (quantity_value a + quantity_value b))
       \<and> (case quantity_subtract lib a b of
            Inr c \<Rightarrow> quantity_ok c \<and> quantity_value c = quantity_value a - quantity_value b
          | Inl e \<Rightarrow> quantity_value a < quantity_value b \<and> e = DomValidation ''quantity cannot be negative'')"
  using assms by (intro conjI bigdecimal.quantity_add_cases bigdecimal.quantity_subtract_cases)

theorem quantity_arithmetic_sound_witness:
  "case quantity_subtract ref_lib \<lparr>sc_value = dec 5 1, sc_precision = 2\<rparr> \<lparr>sc_value = dec 125 2, sc_precision = 2\<rparr> of
     Inr c \<Rightarrow> False | Inl e \<Rightarrow> e = DomValidation ''quantity cannot be negative''"
proof -
  let ?a = "\<lparr>sc_value = dec 5 1, sc_precision = 2\<rparr>" and ?b = "\<lparr>sc_value = dec 125 2, sc_precision = 2\<rparr>"
  have v: "quantity_value ?b = 5 / 4" "quantity_value ?a = 1 / 2"
    by (simp_all add: dec_def bd_value_def power_int_def eval_nat_numeral)
  have ok: "quantity_ok ?a" "quantity_ok ?b" using v
    by (simp_all add: quantity_ok_def) (simp_all add: dec_def decimal_ok_def scale_ok_def digit_count_def max_emax_def min_etiny_def
      nat_digits.simps fractional_precision_def max_precision_def)
  show ?thesis using quantity_arithmetic_sound [OF ref.bigdecimal_axioms ok] v
    by (auto simp: quantity_ok_def split: sum.splits)
qed

text \<open>
  C40: Money of different currencies never mixes: addition and subtraction of two amounts
  return exactly the sum or difference in their common currency, and refuse two currencies
  with the mismatch error.
\<close>
theorem money_arithmetic_sound:
  assumes "bigdecimal lib" "money_ok a" "money_ok b"
  shows "(case money_add lib a b of
      Inr c \<Rightarrow> mo_currency a = mo_currency b \<and> money_ok c \<and> mo_currency c = mo_currency a
          \<and> bd_value (d_number (mo_amount c)) = bd_value (d_number (mo_amount a)) + bd_value (d_number (mo_amount b))
    | Inl e \<Rightarrow> (if mo_currency a \<noteq> mo_currency b then e = DomCurrencyMismatch ''currency conversion required''
          else overflows (bd_value (d_number (mo_amount a)) + bd_value (d_number (mo_amount b)))))
   \<and> (case money_subtract lib a b of
      Inr c \<Rightarrow> mo_currency a = mo_currency b \<and> money_ok c \<and> mo_currency c = mo_currency a
          \<and> bd_value (d_number (mo_amount c)) = bd_value (d_number (mo_amount a)) - bd_value (d_number (mo_amount b))
    | Inl e \<Rightarrow> (if mo_currency a \<noteq> mo_currency b then e = DomCurrencyMismatch ''currency conversion required''
          else overflows (bd_value (d_number (mo_amount a)) - bd_value (d_number (mo_amount b)))))"
  using assms by (intro conjI bigdecimal.money_add_cases bigdecimal.money_subtract_cases)

theorem money_arithmetic_sound_witness:
  "let usd = \<lparr>cu_code = [85, 83, 68], cu_precision = 2, cu_type = Fiat\<rparr>
   in case money_subtract ref_lib \<lparr>mo_amount = dec 5 1, mo_currency = usd\<rparr> \<lparr>mo_amount = dec 125 2, mo_currency = usd\<rparr> of
        Inr c \<Rightarrow> bd_value (d_number (mo_amount c)) = - (3 / 4) \<and> mo_currency c = usd
      | Inl e \<Rightarrow> overflows (- (3 / 4))"
proof -
  let ?u = "\<lparr>cu_code = [85, 83, 68], cu_precision = 2, cu_type = Fiat\<rparr>"
  let ?a = "\<lparr>mo_amount = dec 5 1, mo_currency = ?u\<rparr>" and ?b = "\<lparr>mo_amount = dec 125 2, mo_currency = ?u\<rparr>"
  have v: "bd_value (d_number (dec 125 2)) = 5 / 4" "bd_value (d_number (dec 5 1)) = 1 / 2"
    by (simp_all add: dec_def bd_value_def power_int_def eval_nat_numeral)
  have ok: "money_ok ?a" "money_ok ?b"
    by (simp_all add: money_ok_def dec_def decimal_ok_def scale_ok_def digit_count_def max_emax_def min_etiny_def
      nat_digits.simps fractional_precision_def max_precision_def)
  have n: "1 / 2 - 5 / 4 = (- (3 / 4) :: rat)" by simp
  show ?thesis using money_arithmetic_sound [OF ref.bigdecimal_axioms ok, THEN conjunct2]
    unfolding money.simps v n Let_def by (cases "money_subtract ref_lib ?a ?b") simp_all
qed

end
