(* ===== verification/Domain_Record.thy ===== *)
theory Domain_Record
  imports Decimal Json
begin

text \<open>
  The strict record mechanics of \<open>crates/domain/src/base.rs\<close>: versioned JSON objects with an
  exact field set, and the codec of every kind of field as a pair of functions; the laws of the
  codecs are in \<open>Domain_Codec\<close>. Identifiers, instruments, timestamps, currencies, scalars and
  money follow with their records.
\<close>

section \<open>Platform\<close>

text \<open>
  What the domain takes from outside the repository: the decimal library, the Unicode tables,
  SHA-256, and the text of JSON values with its parser (\<open>serde_json\<close>).
\<close>

record platform =
  pf_lib :: decimal_lib
  pf_uni :: unicode_tables
  pf_sha256 :: "nat list \<Rightarrow> nat list"
  pf_json_text :: "json \<Rightarrow> rstr"
  pf_json_parse :: "nat list \<Rightarrow> json option"

definition utf8 :: "nat \<Rightarrow> nat list" where
  "utf8 c =
     (if c < 128 then [c]
      else if c < 2048 then [192 + c div 64, 128 + c mod 64]
      else if c < 65536 then [224 + c div 4096, 128 + c div 64 mod 64, 128 + c mod 64]
      else [240 + c div 262144, 128 + c div 4096 mod 64, 128 + c div 64 mod 64, 128 + c mod 64])"

definition str_bytes :: "rstr \<Rightarrow> nat list" where
  "str_bytes s = concat (map utf8 s)"

definition str_len :: "rstr \<Rightarrow> nat" where
  "str_len s = length (str_bytes s)"

definition hex_nibble :: "nat \<Rightarrow> nat" where
  "hex_nibble d = (if d < 10 then 48 + d else 87 + d)"

definition hex_bytes :: "nat list \<Rightarrow> rstr" where
  "hex_bytes bs = concat (map (\<lambda>b. [hex_nibble (b div 16), hex_nibble (b mod 16)]) bs)"

definition json_bytes :: "platform \<Rightarrow> json \<Rightarrow> nat list" where
  "json_bytes pf v = str_bytes (pf_json_text pf v)"

section \<open>JSON access\<close>

definition as_object :: "json \<Rightarrow> (rstr \<times> json) list option" where
  "as_object v = (case v of JObject ms \<Rightarrow> Some ms | _ \<Rightarrow> None)"

definition as_str :: "json \<Rightarrow> rstr option" where
  "as_str v = (case v of JString s \<Rightarrow> Some s | _ \<Rightarrow> None)"

definition as_array :: "json \<Rightarrow> json list option" where
  "as_array v = (case v of JArray vs \<Rightarrow> Some vs | _ \<Rightarrow> None)"

definition as_bool :: "json \<Rightarrow> bool option" where
  "as_bool v = (case v of JBool b \<Rightarrow> Some b | _ \<Rightarrow> None)"

definition as_number :: "json \<Rightarrow> rstr option" where
  "as_number v = (case v of JNumber t \<Rightarrow> Some t | _ \<Rightarrow> None)"

definition u64_token :: "rstr \<Rightarrow> nat option" where
  "u64_token t =
     (if t \<noteq> [] \<and> list_all is_digit t \<and> digits_value t < 2 ^ 64 then Some (digits_value t) else None)"

definition as_u64 :: "json \<Rightarrow> nat option" where
  "as_u64 v = (case v of JNumber t \<Rightarrow> u64_token t | _ \<Rightarrow> None)"

definition jfield :: "(rstr \<times> json) list \<Rightarrow> string \<Rightarrow> json" where
  "jfield row name = (case map_of row (str_lit name) of Some v \<Rightarrow> v | None \<Rightarrow> JNull)"

definition jindex :: "json \<Rightarrow> string \<Rightarrow> json" where
  "jindex v name = (case v of JObject ms \<Rightarrow> jfield ms name | _ \<Rightarrow> JNull)"

definition jobject :: "(string \<times> json) list \<Rightarrow> json" where
  "jobject members = JObject (bt_from_list (map (\<lambda>(k, v). (str_lit k, v)) members))"

definition jint :: "int \<Rightarrow> json" where
  "jint i = JNumber (int_text i)"

section \<open>Records (base.rs)\<close>

definition domain_error_text :: "domain_error \<Rightarrow> string" where
  "domain_error_text e = (case e of
      DomValidation m \<Rightarrow> m | DomCurrencyMismatch m \<Rightarrow> m | DomStateTransition m \<Rightarrow> m | DomSerialization m \<Rightarrow> m)"

definition serialization :: "domain_error + 'a \<Rightarrow> domain_error + 'a" where
  "serialization r = (case r of Inl e \<Rightarrow> Inl (DomSerialization (domain_error_text e)) | Inr x \<Rightarrow> Inr x)"

definition record_row :: "json \<Rightarrow> nat \<Rightarrow> string list \<Rightarrow> domain_error + (rstr \<times> json) list" where
  "record_row value version names =
     rbind (ok_or (as_object value) (DomValidation ''domain record must be an object'')) (\<lambda>object.
     if (case map_of object (str_lit ''schema_version'') of Some v \<Rightarrow> as_u64 v | None \<Rightarrow> None) \<noteq> Some version
        \<or> length object \<noteq> length names + 1
        \<or> list_ex (\<lambda>name. \<not> bt_contains object (str_lit name)) names
     then Inl (DomValidation ''unexpected fields or domain schema version'')
     else Inr object)"

definition dom_text :: "json \<Rightarrow> string \<Rightarrow> domain_error + rstr" where
  "dom_text value name = ok_or (as_str value) (DomValidation (name @ '' must be a string''))"

definition dom_precision :: "json \<Rightarrow> domain_error + nat" where
  "dom_precision value =
     ok_or (case as_u64 value of Some n \<Rightarrow> if n \<le> 18 then Some n else None | None \<Rightarrow> None)
       (DomValidation ''precision must be an integer in 0..18'')"

section \<open>Fields (base.rs)\<close>

definition decode_text :: "json \<Rightarrow> domain_error + rstr" where
  "decode_text value = dom_text value ''string field''"

definition decode_bool :: "json \<Rightarrow> domain_error + bool" where
  "decode_bool value = ok_or (as_bool value) (DomValidation ''boolean field required'')"

definition decode_int :: "json \<Rightarrow> domain_error + int" where
  "decode_int value =
     rbind (ok_or (as_number value) (DomValidation ''integer field required'')) (\<lambda>token.
     ok_or (int_parse token) (DomValidation ''integer field required''))"

definition encode_decimal :: "decimal \<Rightarrow> json" where
  "encode_decimal d = JString (decimal_display d)"

definition decode_decimal :: "platform \<Rightarrow> json \<Rightarrow> domain_error + decimal" where
  "decode_decimal pf value = rbind (dom_text value ''financial decimal'') (decimal_from_str (pf_lib pf) (pf_uni pf))"

definition encode_option :: "('a \<Rightarrow> json) \<Rightarrow> 'a option \<Rightarrow> json" where
  "encode_option enc x = (case x of None \<Rightarrow> JNull | Some v \<Rightarrow> enc v)"

definition decode_option :: "(json \<Rightarrow> domain_error + 'a) \<Rightarrow> json \<Rightarrow> domain_error + 'a option" where
  "decode_option dec value = (if value = JNull then Inr None else rbind (dec value) (\<lambda>v. Inr (Some v)))"

fun collect :: "('a \<Rightarrow> 'e + 'b) \<Rightarrow> 'a list \<Rightarrow> 'e + 'b list" where
  "collect f [] = Inr []"
| "collect f (x # xs) = rbind (f x) (\<lambda>y. rbind (collect f xs) (\<lambda>ys. Inr (y # ys)))"

definition encode_list :: "('a \<Rightarrow> json) \<Rightarrow> 'a list \<Rightarrow> json" where
  "encode_list enc xs = JArray (map enc xs)"

definition decode_list :: "(json \<Rightarrow> domain_error + 'a) \<Rightarrow> json \<Rightarrow> domain_error + 'a list" where
  "decode_list dec value = rbind (ok_or (as_array value) (DomValidation ''array field required'')) (collect dec)"

definition encode_map :: "('a \<Rightarrow> json) \<Rightarrow> (rstr, 'a) btree \<Rightarrow> json" where
  "encode_map enc m = JObject (map (\<lambda>(k, v). (k, enc v)) m)"

definition decode_map :: "(json \<Rightarrow> domain_error + 'a) \<Rightarrow> json \<Rightarrow> domain_error + (rstr, 'a) btree" where
  "decode_map dec value =
     rbind (ok_or (as_object value) (DomValidation ''object field required'')) (\<lambda>ms.
     rbind (collect (\<lambda>(k, v). rbind (dec v) (\<lambda>x. Inr (k, x))) ms) (\<lambda>entries. Inr (bt_from_list entries)))"

section \<open>Enumerations (enums.rs)\<close>

definition enum_parse :: "string \<Rightarrow> ('a \<times> string) list \<Rightarrow> rstr \<Rightarrow> domain_error + 'a" where
  "enum_parse name table s =
     ok_or (map_option fst (find (\<lambda>(_, t). str_lit t = s) table)) (DomValidation (''unknown '' @ name @ '' value''))"

definition enum_text :: "('a \<times> string) list \<Rightarrow> 'a \<Rightarrow> rstr" where
  "enum_text table v = (case map_of table v of Some t \<Rightarrow> str_lit t | None \<Rightarrow> [])"

definition encode_enum :: "('a \<times> string) list \<Rightarrow> 'a \<Rightarrow> json" where
  "encode_enum table v = JString (enum_text table v)"

definition decode_enum :: "string \<Rightarrow> ('a \<times> string) list \<Rightarrow> json \<Rightarrow> domain_error + 'a" where
  "decode_enum name table value = rbind (dom_text value ''enum'') (enum_parse name table)"

section \<open>Identifiers (identifiers.rs)\<close>

definition identifier_new :: "string \<Rightarrow> rstr \<Rightarrow> domain_error + rstr" where
  "identifier_new name value =
     (let v = trim_matches whitespace value
      in if v = [] \<or> length v > 128 \<or> list_ex whitespace v \<or> name = ''OnlyVenueId'' \<and> 46 \<in> set v
         then Inl (DomValidation (''invalid '' @ name)) else Inr v)"

definition identifier_to_record :: "rstr \<Rightarrow> json" where
  "identifier_to_record v = jobject [(''schema_version'', jint 1), (''value'', JString v)]"

definition identifier_from_record :: "string \<Rightarrow> json \<Rightarrow> domain_error + rstr" where
  "identifier_from_record name value =
     serialization (
       rbind (record_row value 1 [''value'']) (\<lambda>row.
       rbind (dom_text (jfield row ''value'') ''value'') (identifier_new name)))"

record instrument_id =
  ii_symbol :: rstr
  ii_venue :: rstr

definition instrument_to_record :: "instrument_id \<Rightarrow> json" where
  "instrument_to_record i =
     jobject [(''schema_version'', jint 1), (''symbol'', identifier_to_record (ii_symbol i)),
              (''venue'', identifier_to_record (ii_venue i))]"

definition instrument_from_record :: "json \<Rightarrow> domain_error + instrument_id" where
  "instrument_from_record value =
     serialization (
       rbind (record_row value 1 [''symbol'', ''venue'']) (\<lambda>row.
       rbind (identifier_from_record ''OnlySymbol'' (jfield row ''symbol'')) (\<lambda>s.
       rbind (identifier_from_record ''OnlyVenueId'' (jfield row ''venue'')) (\<lambda>v.
       Inr \<lparr>ii_symbol = s, ii_venue = v\<rparr>))))"

definition instrument_display :: "instrument_id \<Rightarrow> rstr" where
  "instrument_display i = ii_symbol i @ 46 # ii_venue i"

section \<open>Timestamps and values (time.rs, value.rs)\<close>

type_synonym timestamp = int

definition timestamp_to_record :: "timestamp \<Rightarrow> json" where
  "timestamp_to_record t = jobject [(''schema_version'', jint 1), (''unix_nanos'', jint t)]"

definition timestamp_from_record :: "json \<Rightarrow> domain_error + timestamp" where
  "timestamp_from_record value =
     serialization (
       rbind (record_row value 1 [''unix_nanos'']) (\<lambda>row.
       rbind (ok_or (as_number (jfield row ''unix_nanos'')) (DomValidation ''unix_nanos must be an integer'')) (\<lambda>token.
       ok_or (int_parse token) (DomValidation ''unix_nanos must be an integer''))))"

definition currency_types :: "(currency_type \<times> string) list" where
  "currency_types = [(Fiat, ''FIAT''), (Crypto, ''CRYPTO''), (Commodity, ''COMMODITY'')]"

definition currency_to_record :: "currency \<Rightarrow> json" where
  "currency_to_record c =
     jobject [(''schema_version'', jint 1), (''code'', JString (cu_code c)), (''precision'', jint (int (cu_precision c))),
              (''currency_type'', JString (enum_text currency_types (cu_type c)))]"

definition currency_from_record :: "platform \<Rightarrow> json \<Rightarrow> domain_error + currency" where
  "currency_from_record pf value =
     serialization (
       rbind (record_row value 1 [''code'', ''precision'', ''currency_type'']) (\<lambda>row.
       rbind (dom_text (jfield row ''code'') ''code'') (\<lambda>code.
       rbind (dom_precision (jfield row ''precision'')) (\<lambda>p.
       rbind (rbind (dom_text (jfield row ''currency_type'') ''currency_type'')
                (enum_parse ''OnlyCurrencyType'' currency_types)) (\<lambda>k.
       currency_new (pf_uni pf) code p k)))))"

definition scalar_to_record :: "scalar \<Rightarrow> json" where
  "scalar_to_record s =
     jobject [(''schema_version'', jint 1), (''value'', JString (decimal_display (sc_value s))),
              (''precision'', jint (int (sc_precision s)))]"

definition scalar_from_record ::
  "platform \<Rightarrow> (decimal \<Rightarrow> nat \<Rightarrow> domain_error + unit) \<Rightarrow> json \<Rightarrow> domain_error + scalar" where
  "scalar_from_record pf check value =
     serialization (
       rbind (record_row value 1 [''value'', ''precision'']) (\<lambda>row.
       rbind (rbind (dom_text (jfield row ''value'') ''value'') (decimal_from_str (pf_lib pf) (pf_uni pf))) (\<lambda>v.
       rbind (dom_precision (jfield row ''precision'')) (\<lambda>p.
       scalar_new check v p))))"

definition price_from_record :: "platform \<Rightarrow> json \<Rightarrow> domain_error + scalar" where
  "price_from_record pf = scalar_from_record pf validate_precision"

definition quantity_from_record :: "platform \<Rightarrow> json \<Rightarrow> domain_error + scalar" where
  "quantity_from_record pf = scalar_from_record pf validate_quantity"

definition money_to_record :: "money \<Rightarrow> json" where
  "money_to_record m =
     jobject [(''schema_version'', jint 1), (''amount'', JString (decimal_display (mo_amount m))),
              (''currency'', currency_to_record (mo_currency m))]"

definition money_from_record :: "platform \<Rightarrow> json \<Rightarrow> domain_error + money" where
  "money_from_record pf value =
     serialization (
       rbind (record_row value 1 [''amount'', ''currency'']) (\<lambda>row.
       rbind (rbind (dom_text (jfield row ''amount'') ''amount'') (decimal_from_str (pf_lib pf) (pf_uni pf))) (\<lambda>v.
       rbind (currency_from_record pf (jfield row ''currency'')) (\<lambda>c.
       money_new v c))))"

section \<open>Hexadecimal digests\<close>

lemma hex_nibble_range: "d < 16 \<Longrightarrow> is_digit (hex_nibble d) \<or> 97 \<le> hex_nibble d \<and> hex_nibble d \<le> 102"
  by (auto simp: hex_nibble_def is_digit_def)

lemma hex_bytes_shape:
  assumes "length bs = 32" "\<forall>b \<in> set bs. b < 256"
  shows "str_len (hex_bytes bs) = 64" "hex_bytes bs \<noteq> []"
    "list_all (\<lambda>b. is_digit b \<or> 97 \<le> b \<and> b \<le> 102) (str_bytes (hex_bytes bs))"
proof -
  let ?s = "hex_bytes bs"
  have ok: "\<forall>c \<in> set ?s. is_digit c \<or> 97 \<le> c \<and> c \<le> 102"
  proof
    fix c
    assume "c \<in> set ?s"
    then obtain b where b: "b \<in> set bs" "c = hex_nibble (b div 16) \<or> c = hex_nibble (b mod 16)" by (auto simp: hex_bytes_def)
    then have "b div 16 < 16" "b mod 16 < 16" using assms(2) by auto
    with b show "is_digit c \<or> 97 \<le> c \<and> c \<le> 102" using hex_nibble_range by blast
  qed
  then have "utf8 c = [c]" if "c \<in> set ?s" for c using that by (auto simp: utf8_def is_digit_def)
  then have bytes: "str_bytes ?s = ?s" by (simp add: str_bytes_def map_concat cong: map_cong)
  have "length (hex_bytes bs) = 2 * length bs" by (simp add: hex_bytes_def length_concat comp_def sum_list_triv)
  then show "str_len ?s = 64" "?s \<noteq> []" "list_all (\<lambda>b. is_digit b \<or> 97 \<le> b \<and> b \<le> 102) (str_bytes ?s)"
    using ok assms(1) bytes by (auto simp: str_len_def list_all_iff)
qed

section \<open>Literals\<close>

lemma str_lit_inject: "str_lit a = str_lit b \<longleftrightarrow> a = b"
  by (auto simp: str_lit_def inj_map_eq_map inj_def)

end
