(* ===== verification/Domain_Fee.thy ===== *)
theory Domain_Fee
  imports Domain_Record
begin

text \<open>
  The fee vocabulary of \<open>crates/domain/src/fee.rs\<close>: identities of schedules, packs and
  contracts, the sealed applicability scope and policy binding, assessments with their totals,
  estimates and funding plans. Every type has the constructor \<open>_new\<close> (the \<open>validate\<close> of the
  source) and its record codec. Equality that reaches a decimal compares values, as the source's
  derived \<open>PartialEq\<close> does through \<open>OnlyDecimal\<close>; these are the \<open>_eq\<close> functions.
\<close>

section \<open>Models\<close>

text \<open>
  The \<open>domain_model!\<close> macro: a record is written with its schema version and read back field
  by field, in order, through the field codecs and the constructor.
\<close>

definition model_to_record :: "int \<Rightarrow> (string \<times> json) list \<Rightarrow> json" where
  "model_to_record version members = jobject ((''schema_version'', jint version) # members)"

definition model_from_record ::
  "json \<Rightarrow> nat \<Rightarrow> string list \<Rightarrow> ((string \<Rightarrow> json) \<Rightarrow> domain_error + 'a) \<Rightarrow> domain_error + 'a" where
  "model_from_record value version names build =
     serialization (rbind (record_row value version names) (\<lambda>row. build (jfield row)))"

section \<open>Enumerations\<close>

datatype fee_authority = AuthMarket | AuthVenue | AuthRegulator | AuthClearing | AuthBroker | AuthPlatform

definition fee_authorities :: "(fee_authority \<times> string) list" where
  "fee_authorities = [(AuthMarket, ''MARKET''), (AuthVenue, ''VENUE''), (AuthRegulator, ''REGULATOR''),
     (AuthClearing, ''CLEARING''), (AuthBroker, ''BROKER''), (AuthPlatform, ''PLATFORM'')]"

datatype fee_type = FeeStampDuty | FeeTransferFee | FeeExchangeFee | FeeClearingFee | FeeRegulatoryFee | FeeBrokerCommission | FeePlatformFee | FeeContractFee | FeeOpenFee | FeeCloseFee | FeeCloseTodayFee | FeeMakerFee | FeeTakerFee

definition fee_types :: "(fee_type \<times> string) list" where
  "fee_types = [(FeeStampDuty, ''STAMP_DUTY''), (FeeTransferFee, ''TRANSFER_FEE''),
     (FeeExchangeFee, ''EXCHANGE_FEE''), (FeeClearingFee, ''CLEARING_FEE''),
     (FeeRegulatoryFee, ''REGULATORY_FEE''), (FeeBrokerCommission, ''BROKER_COMMISSION''),
     (FeePlatformFee, ''PLATFORM_FEE''), (FeeContractFee, ''CONTRACT_FEE''), (FeeOpenFee, ''OPEN_FEE''),
     (FeeCloseFee, ''CLOSE_FEE''), (FeeCloseTodayFee, ''CLOSE_TODAY_FEE''), (FeeMakerFee, ''MAKER_FEE''),
     (FeeTakerFee, ''TAKER_FEE'')]"

datatype fee_basis = BasisNotional | BasisQuantity | BasisContracts

definition fee_bases :: "(fee_basis \<times> string) list" where
  "fee_bases = [(BasisNotional, ''NOTIONAL''), (BasisQuantity, ''QUANTITY''), (BasisContracts, ''CONTRACTS'')]"

datatype fee_direction = EconCharge | EconRebate

definition fee_directions :: "(fee_direction \<times> string) list" where
  "fee_directions = [(EconCharge, ''CHARGE''), (EconRebate, ''REBATE'')]"

datatype fee_calculation_scope = CalcFill | CalcOrderCumulative

definition fee_calculation_scopes :: "(fee_calculation_scope \<times> string) list" where
  "fee_calculation_scopes = [(CalcFill, ''FILL''), (CalcOrderCumulative, ''ORDER_CUMULATIVE'')]"

datatype fee_resolution = ResFillEffective | ResOrderFixed

definition fee_resolutions :: "(fee_resolution \<times> string) list" where
  "fee_resolutions = [(ResFillEffective, ''FILL_EFFECTIVE''), (ResOrderFixed, ''ORDER_FIXED'')]"

datatype schedule_authority = SchedMarket | SchedBroker

definition schedule_authorities :: "(schedule_authority \<times> string) list" where
  "schedule_authorities = [(SchedMarket, ''MARKET''), (SchedBroker, ''BROKER'')]"

datatype broker_scope_type = ScopeAllAccounts | ScopeExactAccount

definition broker_scope_types :: "(broker_scope_type \<times> string) list" where
  "broker_scope_types = [(ScopeAllAccounts, ''ALL_ACCOUNTS''), (ScopeExactAccount, ''EXACT_ACCOUNT'')]"

datatype fee_rounding = RoundHalfEven | RoundHalfUp | RoundCeiling | RoundFloor

definition fee_roundings :: "(fee_rounding \<times> string) list" where
  "fee_roundings = [(RoundHalfEven, ''HALF_EVEN''), (RoundHalfUp, ''HALF_UP''), (RoundCeiling, ''CEILING''),
     (RoundFloor, ''FLOOR'')]"

datatype fee_pipeline = PipeBoundsThenRound | PipeRoundThenBounds

definition fee_pipelines :: "(fee_pipeline \<times> string) list" where
  "fee_pipelines = [(PipeBoundsThenRound, ''BOUNDS_THEN_ROUND''), (PipeRoundThenBounds, ''ROUND_THEN_BOUNDS'')]"

datatype local_finality = LocalEstimated | LocalModelProvisional | LocalModelConfirmed

definition local_finalities :: "(local_finality \<times> string) list" where
  "local_finalities = [(LocalEstimated, ''ESTIMATED''), (LocalModelProvisional, ''MODEL_PROVISIONAL''),
     (LocalModelConfirmed, ''MODEL_CONFIRMED'')]"

section \<open>Shared checks\<close>

definition require_digest :: "rstr \<Rightarrow> domain_error + unit" where
  "require_digest value =
     (if str_len value \<noteq> 64 \<or> \<not> list_all (\<lambda>b. is_digit b \<or> 97 \<le> b \<and> b \<le> 102) (str_bytes value)
      then Inl (DomValidation ''fingerprint requires a lowercase SHA-256 digest'') else Inr ())"

definition nonempty :: "rstr list \<Rightarrow> domain_error + unit" where
  "nonempty values =
     (if list_ex (\<lambda>v. trim_matches whitespace v = []) values then Inl (DomValidation ''fee identity cannot be empty'')
      else Inr ())"

definition fee_fingerprint :: "platform \<Rightarrow> json \<Rightarrow> rstr" where
  "fee_fingerprint pf payload = hex_bytes (pf_sha256 pf (json_bytes pf payload))"

definition nonnegative :: "decimal \<Rightarrow> bool" where
  "nonnegative v = (\<not> is_negative v \<or> is_zero v)"

fun one_currency :: "money list \<Rightarrow> bool" where
  "one_currency (a # b # rest) = (mo_currency a = mo_currency b \<and> one_currency (b # rest))"
| "one_currency _ = True"

section \<open>Fee models\<close>

record fee_subject =
  fs_runtime_id :: rstr
  fs_account_id :: rstr
  fs_cluster_id :: rstr
  fs_order_id :: rstr
  fs_instrument_id :: instrument_id

definition fee_subject_to_record :: "fee_subject \<Rightarrow> json" where
  "fee_subject_to_record x =
     model_to_record 1
      [(''runtime_id'', identifier_to_record (fs_runtime_id x)),
       (''account_id'', identifier_to_record (fs_account_id x)),
       (''cluster_id'', identifier_to_record (fs_cluster_id x)),
       (''order_id'', identifier_to_record (fs_order_id x)),
       (''instrument_id'', instrument_to_record (fs_instrument_id x))]"

definition fee_subject_new :: "platform \<Rightarrow> fee_subject \<Rightarrow> domain_error + fee_subject" where
  "fee_subject_new pf x = Inr x"

definition fee_subject_from_record :: "platform \<Rightarrow> json \<Rightarrow> domain_error + fee_subject" where
  "fee_subject_from_record pf value =
     model_from_record value 1
      [''runtime_id'', ''account_id'', ''cluster_id'', ''order_id'', ''instrument_id''] (\<lambda>f.
     rbind (identifier_from_record ''OnlyRuntimeId'' (f ''runtime_id'')) (\<lambda>v1.
     rbind (identifier_from_record ''OnlyAccountId'' (f ''account_id'')) (\<lambda>v2.
     rbind (identifier_from_record ''OnlyClusterId'' (f ''cluster_id'')) (\<lambda>v3.
     rbind (identifier_from_record ''OnlyOrderId'' (f ''order_id'')) (\<lambda>v4.
     rbind (instrument_from_record (f ''instrument_id'')) (\<lambda>v5.
     fee_subject_new pf \<lparr>
       fs_runtime_id = v1, fs_account_id = v2, fs_cluster_id = v3, fs_order_id = v4, fs_instrument_id = v5\<rparr>))))))"

record broker_account_scope =
  ba_scope_type :: broker_scope_type
  ba_account_id :: "rstr option"

definition broker_account_scope_to_record :: "broker_account_scope \<Rightarrow> json" where
  "broker_account_scope_to_record x =
     model_to_record 1
      [(''scope_type'', encode_enum broker_scope_types (ba_scope_type x)),
       (''account_id'', encode_option identifier_to_record (ba_account_id x))]"

definition broker_account_scope_new :: "platform \<Rightarrow> broker_account_scope \<Rightarrow> domain_error + broker_account_scope" where
  "broker_account_scope_new pf x =
     (if (ba_scope_type x = ScopeExactAccount) \<noteq> (ba_account_id x \<noteq> None)
      then Inl (DomValidation ''broker account scope conflicts with account identity'') else Inr x)"

definition broker_account_scope_from_record :: "platform \<Rightarrow> json \<Rightarrow> domain_error + broker_account_scope" where
  "broker_account_scope_from_record pf value =
     model_from_record value 1
      [''scope_type'', ''account_id''] (\<lambda>f.
     rbind (decode_enum ''OnlyBrokerFeeAccountScopeType'' broker_scope_types (f ''scope_type'')) (\<lambda>v1.
     rbind (decode_option (identifier_from_record ''OnlyAccountId'') (f ''account_id'')) (\<lambda>v2.
     broker_account_scope_new pf \<lparr>
       ba_scope_type = v1, ba_account_id = v2\<rparr>)))"

record schedule_identity =
  si_authority :: schedule_authority
  si_schedule_id :: rstr
  si_version :: rstr
  si_fingerprint :: rstr

definition schedule_identity_to_record :: "schedule_identity \<Rightarrow> json" where
  "schedule_identity_to_record x =
     model_to_record 1
      [(''authority'', encode_enum schedule_authorities (si_authority x)),
       (''schedule_id'', JString (si_schedule_id x)), (''version'', JString (si_version x)),
       (''fingerprint'', JString (si_fingerprint x))]"

definition schedule_identity_new :: "platform \<Rightarrow> schedule_identity \<Rightarrow> domain_error + schedule_identity" where
  "schedule_identity_new pf x =
     rbind (nonempty [si_schedule_id x, si_version x]) (\<lambda>_.
     rbind (require_digest (si_fingerprint x)) (\<lambda>_. Inr x))"

definition schedule_identity_from_record :: "platform \<Rightarrow> json \<Rightarrow> domain_error + schedule_identity" where
  "schedule_identity_from_record pf value =
     model_from_record value 1
      [''authority'', ''schedule_id'', ''version'', ''fingerprint''] (\<lambda>f.
     rbind (decode_enum ''OnlyFeeScheduleAuthority'' schedule_authorities (f ''authority'')) (\<lambda>v1.
     rbind (decode_text (f ''schedule_id'')) (\<lambda>v2.
     rbind (decode_text (f ''version'')) (\<lambda>v3.
     rbind (decode_text (f ''fingerprint'')) (\<lambda>v4.
     schedule_identity_new pf \<lparr>
       si_authority = v1, si_schedule_id = v2, si_version = v3, si_fingerprint = v4\<rparr>)))))"

record schedule_family =
  sf_authority :: schedule_authority
  sf_schedule_id :: rstr
  sf_scope_fingerprint :: rstr

definition schedule_family_to_record :: "schedule_family \<Rightarrow> json" where
  "schedule_family_to_record x =
     model_to_record 1
      [(''authority'', encode_enum schedule_authorities (sf_authority x)),
       (''schedule_id'', JString (sf_schedule_id x)), (''scope_fingerprint'', JString (sf_scope_fingerprint x))]"

definition schedule_family_new :: "platform \<Rightarrow> schedule_family \<Rightarrow> domain_error + schedule_family" where
  "schedule_family_new pf x =
     rbind (nonempty [sf_schedule_id x]) (\<lambda>_.
     rbind (require_digest (sf_scope_fingerprint x)) (\<lambda>_. Inr x))"

definition schedule_family_from_record :: "platform \<Rightarrow> json \<Rightarrow> domain_error + schedule_family" where
  "schedule_family_from_record pf value =
     model_from_record value 1
      [''authority'', ''schedule_id'', ''scope_fingerprint''] (\<lambda>f.
     rbind (decode_enum ''OnlyFeeScheduleAuthority'' schedule_authorities (f ''authority'')) (\<lambda>v1.
     rbind (decode_text (f ''schedule_id'')) (\<lambda>v2.
     rbind (decode_text (f ''scope_fingerprint'')) (\<lambda>v3.
     schedule_family_new pf \<lparr>
       sf_authority = v1, sf_schedule_id = v2, sf_scope_fingerprint = v3\<rparr>))))"

record market_fee_pack =
  mp_pack_id :: rstr
  mp_pack_version :: rstr
  mp_fingerprint :: rstr

definition market_fee_pack_to_record :: "market_fee_pack \<Rightarrow> json" where
  "market_fee_pack_to_record x =
     model_to_record 1
      [(''pack_id'', JString (mp_pack_id x)), (''pack_version'', JString (mp_pack_version x)),
       (''fingerprint'', JString (mp_fingerprint x))]"

definition market_fee_pack_new :: "platform \<Rightarrow> market_fee_pack \<Rightarrow> domain_error + market_fee_pack" where
  "market_fee_pack_new pf x =
     rbind (nonempty [mp_pack_id x, mp_pack_version x]) (\<lambda>_.
     rbind (require_digest (mp_fingerprint x)) (\<lambda>_. Inr x))"

definition market_fee_pack_canonical_identity :: "market_fee_pack \<Rightarrow> json" where
  "market_fee_pack_canonical_identity x =
     jobject [(''fingerprint'', JString (mp_fingerprint x)), (''pack_id'', JString (mp_pack_id x)),
              (''pack_version'', JString (mp_pack_version x))]"

definition market_fee_pack_from_record :: "platform \<Rightarrow> json \<Rightarrow> domain_error + market_fee_pack" where
  "market_fee_pack_from_record pf value =
     model_from_record value 1
      [''pack_id'', ''pack_version'', ''fingerprint''] (\<lambda>f.
     rbind (decode_text (f ''pack_id'')) (\<lambda>v1.
     rbind (decode_text (f ''pack_version'')) (\<lambda>v2.
     rbind (decode_text (f ''fingerprint'')) (\<lambda>v3.
     market_fee_pack_new pf \<lparr>
       mp_pack_id = v1, mp_pack_version = v2, mp_fingerprint = v3\<rparr>))))"

record broker_fee_contract =
  bc_contract_id :: rstr
  bc_contract_version :: rstr
  bc_broker_id :: rstr
  bc_account_scope :: broker_account_scope
  bc_fingerprint :: rstr

definition broker_fee_contract_to_record :: "broker_fee_contract \<Rightarrow> json" where
  "broker_fee_contract_to_record x =
     model_to_record 1
      [(''contract_id'', JString (bc_contract_id x)), (''contract_version'', JString (bc_contract_version x)),
       (''broker_id'', JString (bc_broker_id x)),
       (''account_scope'', broker_account_scope_to_record (bc_account_scope x)),
       (''fingerprint'', JString (bc_fingerprint x))]"

definition broker_fee_contract_new :: "platform \<Rightarrow> broker_fee_contract \<Rightarrow> domain_error + broker_fee_contract" where
  "broker_fee_contract_new pf x =
     rbind (nonempty [bc_contract_id x, bc_contract_version x, bc_broker_id x]) (\<lambda>_.
     rbind (require_digest (bc_fingerprint x)) (\<lambda>_. Inr x))"

definition broker_fee_contract_from_record :: "platform \<Rightarrow> json \<Rightarrow> domain_error + broker_fee_contract" where
  "broker_fee_contract_from_record pf value =
     model_from_record value 1
      [''contract_id'', ''contract_version'', ''broker_id'', ''account_scope'', ''fingerprint''] (\<lambda>f.
     rbind (decode_text (f ''contract_id'')) (\<lambda>v1.
     rbind (decode_text (f ''contract_version'')) (\<lambda>v2.
     rbind (decode_text (f ''broker_id'')) (\<lambda>v3.
     rbind (broker_account_scope_from_record pf (f ''account_scope'')) (\<lambda>v4.
     rbind (decode_text (f ''fingerprint'')) (\<lambda>v5.
     broker_fee_contract_new pf \<lparr>
       bc_contract_id = v1, bc_contract_version = v2, bc_broker_id = v3, bc_account_scope = v4, bc_fingerprint = v5\<rparr>))))))"

record fee_component_identity =
  ci_fee_type :: fee_type
  ci_authority :: fee_authority
  ci_source_id :: rstr
  ci_schedule_id :: rstr
  ci_schedule_version :: rstr
  ci_schedule_fingerprint :: rstr
  ci_rule_id :: rstr
  ci_rule_fingerprint :: rstr
  ci_calculation_scope :: fee_calculation_scope
  ci_resolution_policy :: fee_resolution
  ci_economic_direction :: fee_direction

definition fee_component_identity_to_record :: "fee_component_identity \<Rightarrow> json" where
  "fee_component_identity_to_record x =
     model_to_record 1
      [(''fee_type'', encode_enum fee_types (ci_fee_type x)),
       (''authority'', encode_enum fee_authorities (ci_authority x)), (''source_id'', JString (ci_source_id x)),
       (''schedule_id'', JString (ci_schedule_id x)), (''schedule_version'', JString (ci_schedule_version x)),
       (''schedule_fingerprint'', JString (ci_schedule_fingerprint x)), (''rule_id'', JString (ci_rule_id x)),
       (''rule_fingerprint'', JString (ci_rule_fingerprint x)),
       (''calculation_scope'', encode_enum fee_calculation_scopes (ci_calculation_scope x)),
       (''resolution_policy'', encode_enum fee_resolutions (ci_resolution_policy x)),
       (''economic_direction'', encode_enum fee_directions (ci_economic_direction x))]"

definition fee_component_identity_new :: "platform \<Rightarrow> fee_component_identity \<Rightarrow> domain_error + fee_component_identity" where
  "fee_component_identity_new pf x =
     rbind (nonempty [ci_source_id x, ci_schedule_id x, ci_schedule_version x, ci_rule_id x]) (\<lambda>_.
     rbind (require_digest (ci_schedule_fingerprint x)) (\<lambda>_.
     rbind (require_digest (ci_rule_fingerprint x)) (\<lambda>_. Inr x)))"

definition fee_component_sort_key :: "fee_component_identity \<Rightarrow> rstr list" where
  "fee_component_sort_key x =
     [enum_text fee_types (ci_fee_type x), enum_text fee_authorities (ci_authority x), ci_source_id x, ci_schedule_id x,
      ci_schedule_version x, ci_rule_id x, enum_text fee_calculation_scopes (ci_calculation_scope x),
      enum_text fee_resolutions (ci_resolution_policy x), enum_text fee_directions (ci_economic_direction x)]"

definition fee_component_identity_from_record :: "platform \<Rightarrow> json \<Rightarrow> domain_error + fee_component_identity" where
  "fee_component_identity_from_record pf value =
     model_from_record value 1
      [''fee_type'', ''authority'', ''source_id'', ''schedule_id'', ''schedule_version'', ''schedule_fingerprint'',
       ''rule_id'', ''rule_fingerprint'', ''calculation_scope'', ''resolution_policy'', ''economic_direction''] (\<lambda>f.
     rbind (decode_enum ''OnlyFeeType'' fee_types (f ''fee_type'')) (\<lambda>v1.
     rbind (decode_enum ''OnlyFeeAuthority'' fee_authorities (f ''authority'')) (\<lambda>v2.
     rbind (decode_text (f ''source_id'')) (\<lambda>v3.
     rbind (decode_text (f ''schedule_id'')) (\<lambda>v4.
     rbind (decode_text (f ''schedule_version'')) (\<lambda>v5.
     rbind (decode_text (f ''schedule_fingerprint'')) (\<lambda>v6.
     rbind (decode_text (f ''rule_id'')) (\<lambda>v7.
     rbind (decode_text (f ''rule_fingerprint'')) (\<lambda>v8.
     rbind (decode_enum ''OnlyFeeCalculationScope'' fee_calculation_scopes (f ''calculation_scope'')) (\<lambda>v9.
     rbind (decode_enum ''OnlyFeeResolutionPolicy'' fee_resolutions (f ''resolution_policy'')) (\<lambda>v10.
     rbind (decode_enum ''OnlyFeeEconomicDirection'' fee_directions (f ''economic_direction'')) (\<lambda>v11.
     fee_component_identity_new pf \<lparr>
       ci_fee_type = v1, ci_authority = v2, ci_source_id = v3, ci_schedule_id = v4, ci_schedule_version = v5,
       ci_schedule_fingerprint = v6, ci_rule_id = v7, ci_rule_fingerprint = v8, ci_calculation_scope = v9,
       ci_resolution_policy = v10, ci_economic_direction = v11\<rparr>))))))))))))"

record fee_basis_values =
  fb_notional :: money
  fb_quantity :: decimal
  fb_contracts :: decimal

definition fee_basis_values_to_record :: "fee_basis_values \<Rightarrow> json" where
  "fee_basis_values_to_record x =
     model_to_record 1
      [(''notional'', money_to_record (fb_notional x)), (''quantity'', encode_decimal (fb_quantity x)),
       (''contracts'', encode_decimal (fb_contracts x))]"

definition fee_basis_values_new :: "platform \<Rightarrow> fee_basis_values \<Rightarrow> domain_error + fee_basis_values" where
  "fee_basis_values_new pf x =
     (if list_all nonnegative [mo_amount (fb_notional x), fb_quantity x, fb_contracts x] then Inr x
      else Inl (DomValidation ''fee basis values cannot be negative''))"

definition fee_basis_value :: "fee_basis_values \<Rightarrow> fee_basis \<Rightarrow> decimal" where
  "fee_basis_value x basis = (case basis of
      BasisNotional \<Rightarrow> mo_amount (fb_notional x)
    | BasisQuantity \<Rightarrow> fb_quantity x
    | BasisContracts \<Rightarrow> fb_contracts x)"

definition fee_basis_values_from_record :: "platform \<Rightarrow> json \<Rightarrow> domain_error + fee_basis_values" where
  "fee_basis_values_from_record pf value =
     model_from_record value 1
      [''notional'', ''quantity'', ''contracts''] (\<lambda>f.
     rbind (money_from_record pf (f ''notional'')) (\<lambda>v1.
     rbind (decode_decimal pf (f ''quantity'')) (\<lambda>v2.
     rbind (decode_decimal pf (f ''contracts'')) (\<lambda>v3.
     fee_basis_values_new pf \<lparr>
       fb_notional = v1, fb_quantity = v2, fb_contracts = v3\<rparr>))))"

record applicability_scope =
  ap_market_product_id :: rstr
  ap_market :: rstr
  ap_venue :: rstr
  ap_instrument_class :: rstr
  ap_broker_id :: rstr
  ap_account_id :: rstr
  ap_instrument_id :: instrument_id
  ap_charge_currency :: currency
  ap_fingerprint :: rstr

definition applicability_scope_to_record :: "applicability_scope \<Rightarrow> json" where
  "applicability_scope_to_record x =
     model_to_record 2
      [(''market_product_id'', JString (ap_market_product_id x)), (''market'', JString (ap_market x)),
       (''venue'', JString (ap_venue x)), (''instrument_class'', JString (ap_instrument_class x)),
       (''broker_id'', JString (ap_broker_id x)), (''account_id'', identifier_to_record (ap_account_id x)),
       (''instrument_id'', instrument_to_record (ap_instrument_id x)),
       (''charge_currency'', currency_to_record (ap_charge_currency x)),
       (''fingerprint'', JString (ap_fingerprint x))]"

definition applicability_payload :: "applicability_scope \<Rightarrow> json" where
  "applicability_payload x =
     JArray [JString (ap_market_product_id x), JString (ap_market x), JString (ap_venue x), JString (ap_instrument_class x),
       JString (ap_broker_id x), JString (ap_account_id x), JString (instrument_display (ap_instrument_id x)),
       currency_to_record (ap_charge_currency x)]"

definition applicability_scope_new :: "platform \<Rightarrow> applicability_scope \<Rightarrow> domain_error + applicability_scope" where
  "applicability_scope_new pf x =
     rbind (nonempty [ap_market_product_id x, ap_market x, ap_venue x, ap_instrument_class x, ap_broker_id x]) (\<lambda>_.
     rbind (require_digest (ap_fingerprint x)) (\<lambda>_.
     if ap_fingerprint x \<noteq> fee_fingerprint pf (applicability_payload x)
     then Inl (DomValidation ''ORDER_FEE_SCOPE_AUTHORITY_CHANGED'') else Inr x))"

definition applicability_scope_create :: "platform \<Rightarrow> applicability_scope \<Rightarrow> domain_error + applicability_scope" where
  "applicability_scope_create pf x =
     (if ap_fingerprint x \<noteq> [] then Inl (DomValidation ''new fee scope input must be unsealed'')
      else applicability_scope_new pf (x\<lparr>ap_fingerprint := fee_fingerprint pf (applicability_payload x)\<rparr>))"

definition applicability_scope_from_record :: "platform \<Rightarrow> json \<Rightarrow> domain_error + applicability_scope" where
  "applicability_scope_from_record pf value =
     model_from_record value 2
      [''market_product_id'', ''market'', ''venue'', ''instrument_class'', ''broker_id'', ''account_id'',
       ''instrument_id'', ''charge_currency'', ''fingerprint''] (\<lambda>f.
     rbind (decode_text (f ''market_product_id'')) (\<lambda>v1.
     rbind (decode_text (f ''market'')) (\<lambda>v2.
     rbind (decode_text (f ''venue'')) (\<lambda>v3.
     rbind (decode_text (f ''instrument_class'')) (\<lambda>v4.
     rbind (decode_text (f ''broker_id'')) (\<lambda>v5.
     rbind (identifier_from_record ''OnlyAccountId'' (f ''account_id'')) (\<lambda>v6.
     rbind (instrument_from_record (f ''instrument_id'')) (\<lambda>v7.
     rbind (currency_from_record pf (f ''charge_currency'')) (\<lambda>v8.
     rbind (decode_text (f ''fingerprint'')) (\<lambda>v9.
     applicability_scope_new pf \<lparr>
       ap_market_product_id = v1, ap_market = v2, ap_venue = v3, ap_instrument_class = v4, ap_broker_id = v5,
       ap_account_id = v6, ap_instrument_id = v7, ap_charge_currency = v8, ap_fingerprint = v9\<rparr>))))))))))"

record fee_binding =
  bi_runtime_id :: rstr
  bi_account_id :: rstr
  bi_cluster_id :: rstr
  bi_order_id :: rstr
  bi_instrument_id :: instrument_id
  bi_market_product_id :: rstr
  bi_market_product_version :: rstr
  bi_market_fee_pack :: market_fee_pack
  bi_broker_fee_contract :: broker_fee_contract
  bi_applicability_scope :: applicability_scope
  bi_order_fixed_schedules :: "schedule_identity list"
  bi_fill_effective_families :: "schedule_family list"
  bi_charge_currency :: currency
  bi_bound_at :: timestamp
  bi_fingerprint :: rstr

definition fee_binding_to_record :: "fee_binding \<Rightarrow> json" where
  "fee_binding_to_record x =
     model_to_record 3
      [(''runtime_id'', identifier_to_record (bi_runtime_id x)),
       (''account_id'', identifier_to_record (bi_account_id x)),
       (''cluster_id'', identifier_to_record (bi_cluster_id x)),
       (''order_id'', identifier_to_record (bi_order_id x)),
       (''instrument_id'', instrument_to_record (bi_instrument_id x)),
       (''market_product_id'', JString (bi_market_product_id x)),
       (''market_product_version'', JString (bi_market_product_version x)),
       (''market_fee_pack'', market_fee_pack_to_record (bi_market_fee_pack x)),
       (''broker_fee_contract'', broker_fee_contract_to_record (bi_broker_fee_contract x)),
       (''applicability_scope'', applicability_scope_to_record (bi_applicability_scope x)),
       (''order_fixed_schedules'', encode_list schedule_identity_to_record (bi_order_fixed_schedules x)),
       (''fill_effective_families'', encode_list schedule_family_to_record (bi_fill_effective_families x)),
       (''charge_currency'', currency_to_record (bi_charge_currency x)),
       (''bound_at'', timestamp_to_record (bi_bound_at x)), (''fingerprint'', JString (bi_fingerprint x))]"

definition fee_binding_payload :: "fee_binding \<Rightarrow> json" where
  "fee_binding_payload x =
     JArray [JString (bi_runtime_id x), JString (bi_account_id x), JString (bi_cluster_id x), JString (bi_order_id x),
       JString (instrument_display (bi_instrument_id x)), JString (bi_market_product_id x),
       JString (bi_market_product_version x), market_fee_pack_to_record (bi_market_fee_pack x),
       broker_fee_contract_to_record (bi_broker_fee_contract x), applicability_scope_to_record (bi_applicability_scope x),
       JArray (map schedule_identity_to_record (bi_order_fixed_schedules x)),
       JArray (map schedule_family_to_record (bi_fill_effective_families x)),
       currency_to_record (bi_charge_currency x), timestamp_to_record (bi_bound_at x)]"

definition fee_binding_new :: "platform \<Rightarrow> fee_binding \<Rightarrow> domain_error + fee_binding" where
  "fee_binding_new pf x =
     (let scope = bi_applicability_scope x; contract = bi_broker_fee_contract x in
     rbind (nonempty [bi_market_product_id x, bi_market_product_version x]) (\<lambda>_.
     if \<not> distinct (map (\<lambda>i. (si_authority i, si_schedule_id i, si_version i)) (bi_order_fixed_schedules x))
     then Inl (DomValidation ''duplicate order-fixed schedule identity'')
     else if \<not> distinct (map (\<lambda>i. (sf_authority i, sf_schedule_id i)) (bi_fill_effective_families x))
     then Inl (DomValidation ''duplicate fill-effective schedule family'')
     else if ap_account_id scope \<noteq> bi_account_id x \<or> ap_instrument_id scope \<noteq> bi_instrument_id x
        \<or> ap_market_product_id scope \<noteq> bi_market_product_id x \<or> ap_charge_currency scope \<noteq> bi_charge_currency x
     then Inl (DomValidation ''order fee applicability conflicts with binding'')
     else if bc_broker_id contract \<noteq> ap_broker_id scope
     then Inl (DomValidation ''order fee Broker conflicts with applicability scope'')
     else if ba_scope_type (bc_account_scope contract) = ScopeExactAccount
        \<and> ba_account_id (bc_account_scope contract) \<noteq> Some (bi_account_id x)
     then Inl (DomValidation ''order fee Broker account scope conflicts with binding'')
     else rbind (require_digest (bi_fingerprint x)) (\<lambda>_.
     if bi_fingerprint x \<noteq> fee_fingerprint pf (fee_binding_payload x)
     then Inl (DomValidation ''ORDER_FEE_BINDING_CONFLICT'') else Inr x)))"

definition fee_binding_create :: "platform \<Rightarrow> fee_binding \<Rightarrow> domain_error + fee_binding" where
  "fee_binding_create pf x =
     (if bi_fingerprint x \<noteq> [] then Inl (DomValidation ''new fee binding input must be unsealed'')
      else fee_binding_new pf (x\<lparr>bi_fingerprint := fee_fingerprint pf (fee_binding_payload x)\<rparr>))"

definition fee_binding_from_record :: "platform \<Rightarrow> json \<Rightarrow> domain_error + fee_binding" where
  "fee_binding_from_record pf value =
     model_from_record value 3
      [''runtime_id'', ''account_id'', ''cluster_id'', ''order_id'', ''instrument_id'', ''market_product_id'',
       ''market_product_version'', ''market_fee_pack'', ''broker_fee_contract'', ''applicability_scope'',
       ''order_fixed_schedules'', ''fill_effective_families'', ''charge_currency'', ''bound_at'', ''fingerprint''] (\<lambda>f.
     rbind (identifier_from_record ''OnlyRuntimeId'' (f ''runtime_id'')) (\<lambda>v1.
     rbind (identifier_from_record ''OnlyAccountId'' (f ''account_id'')) (\<lambda>v2.
     rbind (identifier_from_record ''OnlyClusterId'' (f ''cluster_id'')) (\<lambda>v3.
     rbind (identifier_from_record ''OnlyOrderId'' (f ''order_id'')) (\<lambda>v4.
     rbind (instrument_from_record (f ''instrument_id'')) (\<lambda>v5.
     rbind (decode_text (f ''market_product_id'')) (\<lambda>v6.
     rbind (decode_text (f ''market_product_version'')) (\<lambda>v7.
     rbind (market_fee_pack_from_record pf (f ''market_fee_pack'')) (\<lambda>v8.
     rbind (broker_fee_contract_from_record pf (f ''broker_fee_contract'')) (\<lambda>v9.
     rbind (applicability_scope_from_record pf (f ''applicability_scope'')) (\<lambda>v10.
     rbind (decode_list (schedule_identity_from_record pf) (f ''order_fixed_schedules'')) (\<lambda>v11.
     rbind (decode_list (schedule_family_from_record pf) (f ''fill_effective_families'')) (\<lambda>v12.
     rbind (currency_from_record pf (f ''charge_currency'')) (\<lambda>v13.
     rbind (timestamp_from_record (f ''bound_at'')) (\<lambda>v14.
     rbind (decode_text (f ''fingerprint'')) (\<lambda>v15.
     fee_binding_new pf \<lparr>
       bi_runtime_id = v1, bi_account_id = v2, bi_cluster_id = v3, bi_order_id = v4, bi_instrument_id = v5,
       bi_market_product_id = v6, bi_market_product_version = v7, bi_market_fee_pack = v8,
       bi_broker_fee_contract = v9, bi_applicability_scope = v10, bi_order_fixed_schedules = v11,
       bi_fill_effective_families = v12, bi_charge_currency = v13, bi_bound_at = v14, bi_fingerprint = v15\<rparr>))))))))))))))))"

record fee_component =
  tc_identity :: fee_component_identity
  tc_raw_amount :: money
  tc_bounded_amount :: money
  tc_target_amount :: money
  tc_local_finality :: local_finality

definition fee_component_to_record :: "fee_component \<Rightarrow> json" where
  "fee_component_to_record x =
     model_to_record 1
      [(''identity'', fee_component_identity_to_record (tc_identity x)),
       (''raw_amount'', money_to_record (tc_raw_amount x)),
       (''bounded_amount'', money_to_record (tc_bounded_amount x)),
       (''target_amount'', money_to_record (tc_target_amount x)),
       (''local_finality'', encode_enum local_finalities (tc_local_finality x))]"

definition fee_component_new :: "platform \<Rightarrow> fee_component \<Rightarrow> domain_error + fee_component" where
  "fee_component_new pf x =
     (let values = [tc_raw_amount x, tc_bounded_amount x, tc_target_amount x]
      in if \<not> one_currency values \<or> list_ex (\<lambda>m. \<not> nonnegative (mo_amount m)) values
         then Inl (DomValidation ''fee target component currency or amount invalid'') else Inr x)"

definition fee_component_eq :: "decimal_lib \<Rightarrow> fee_component \<Rightarrow> fee_component \<Rightarrow> bool" where
  "fee_component_eq lib a b =
     (tc_identity a = tc_identity b \<and> money_eq lib (tc_raw_amount a) (tc_raw_amount b)
      \<and> money_eq lib (tc_bounded_amount a) (tc_bounded_amount b) \<and> money_eq lib (tc_target_amount a) (tc_target_amount b)
      \<and> tc_local_finality a = tc_local_finality b)"

definition fee_component_from_record :: "platform \<Rightarrow> json \<Rightarrow> domain_error + fee_component" where
  "fee_component_from_record pf value =
     model_from_record value 1
      [''identity'', ''raw_amount'', ''bounded_amount'', ''target_amount'', ''local_finality''] (\<lambda>f.
     rbind (fee_component_identity_from_record pf (f ''identity'')) (\<lambda>v1.
     rbind (money_from_record pf (f ''raw_amount'')) (\<lambda>v2.
     rbind (money_from_record pf (f ''bounded_amount'')) (\<lambda>v3.
     rbind (money_from_record pf (f ''target_amount'')) (\<lambda>v4.
     rbind (decode_enum ''OnlyLocalFeeFinality'' local_finalities (f ''local_finality'')) (\<lambda>v5.
     fee_component_new pf \<lparr>
       tc_identity = v1, tc_raw_amount = v2, tc_bounded_amount = v3, tc_target_amount = v4, tc_local_finality = v5\<rparr>))))))"

record fee_assessment =
  fa_assessment_id :: rstr
  fa_subject :: fee_subject
  fa_trade_id :: "rstr option"
  fa_components :: "fee_component list"
  fa_total_charges :: money
  fa_total_rebates :: money
  fa_policy_fingerprint :: rstr
  fa_resolution_fingerprint :: rstr
  fa_local_finality :: local_finality
  fa_binding :: fee_binding

definition fee_assessment_to_record :: "fee_assessment \<Rightarrow> json" where
  "fee_assessment_to_record x =
     model_to_record 2
      [(''assessment_id'', JString (fa_assessment_id x)), (''subject'', fee_subject_to_record (fa_subject x)),
       (''trade_id'', encode_option identifier_to_record (fa_trade_id x)),
       (''components'', encode_list fee_component_to_record (fa_components x)),
       (''total_charges'', money_to_record (fa_total_charges x)),
       (''total_rebates'', money_to_record (fa_total_rebates x)),
       (''policy_fingerprint'', JString (fa_policy_fingerprint x)),
       (''resolution_fingerprint'', JString (fa_resolution_fingerprint x)),
       (''local_finality'', encode_enum local_finalities (fa_local_finality x)),
       (''binding'', fee_binding_to_record (fa_binding x))]"

fun assessment_totals ::
  "platform \<Rightarrow> currency \<Rightarrow> fee_component_identity list \<Rightarrow> decimal \<Rightarrow> decimal \<Rightarrow> fee_component list
   \<Rightarrow> domain_error + decimal \<times> decimal" where
  "assessment_totals pf cur prior charges rebates [] = Inr (charges, rebates)"
| "assessment_totals pf cur prior charges rebates (item # items) =
     (if tc_identity item \<in> set prior then Inl (DomValidation ''duplicate fee component identity'')
      else if mo_currency (tc_target_amount item) \<noteq> cur
      then Inl (DomValidation ''fee assessment component currency mismatch'')
      else case ci_economic_direction (tc_identity item) of
        EconCharge \<Rightarrow> rbind (only_add (pf_lib pf) charges (mo_amount (tc_target_amount item))) (\<lambda>c.
          assessment_totals pf cur (tc_identity item # prior) c rebates items)
      | EconRebate \<Rightarrow> rbind (only_add (pf_lib pf) rebates (mo_amount (tc_target_amount item))) (\<lambda>r.
          assessment_totals pf cur (tc_identity item # prior) charges r items))"

definition fee_assessment_new :: "platform \<Rightarrow> fee_assessment \<Rightarrow> domain_error + fee_assessment" where
  "fee_assessment_new pf x =
     rbind (nonempty [fa_assessment_id x]) (\<lambda>_.
     rbind (require_digest (fa_policy_fingerprint x)) (\<lambda>_.
     rbind (require_digest (fa_resolution_fingerprint x)) (\<lambda>_.
     if \<not> one_currency [fa_total_charges x, fa_total_rebates x] \<or> \<not> nonnegative (mo_amount (fa_total_charges x))
        \<or> \<not> nonnegative (mo_amount (fa_total_rebates x))
     then Inl (DomValidation ''fee assessment currency or totals invalid'')
     else let cur = mo_currency (fa_total_charges x); bound = fa_binding x; subject = fa_subject x in
     rbind (decimal_from_str (pf_lib pf) (pf_uni pf) [48]) (\<lambda>charges0.
     rbind (decimal_from_str (pf_lib pf) (pf_uni pf) [48]) (\<lambda>rebates0.
     rbind (assessment_totals pf cur [] charges0 rebates0 (fa_components x)) (\<lambda>(charges, rebates).
     if \<not> decimal_eq (pf_lib pf) charges (mo_amount (fa_total_charges x))
        \<or> \<not> decimal_eq (pf_lib pf) rebates (mo_amount (fa_total_rebates x))
     then Inl (DomValidation ''fee assessment totals disagree with components'')
     else if (bi_runtime_id bound, bi_account_id bound, bi_cluster_id bound, bi_order_id bound, bi_instrument_id bound)
        \<noteq> (fs_runtime_id subject, fs_account_id subject, fs_cluster_id subject, fs_order_id subject, fs_instrument_id subject)
     then Inl (DomValidation ''fee assessment binding scope mismatch'')
     else if cur \<noteq> bi_charge_currency bound
     then Inl (DomValidation ''fee assessment currency conflicts with binding'') else Inr x))))))"

definition fee_assessment_eq :: "decimal_lib \<Rightarrow> fee_assessment \<Rightarrow> fee_assessment \<Rightarrow> bool" where
  "fee_assessment_eq lib a b =
     (fa_assessment_id a = fa_assessment_id b \<and> fa_subject a = fa_subject b \<and> fa_trade_id a = fa_trade_id b
      \<and> list_all2 (fee_component_eq lib) (fa_components a) (fa_components b)
      \<and> money_eq lib (fa_total_charges a) (fa_total_charges b) \<and> money_eq lib (fa_total_rebates a) (fa_total_rebates b)
      \<and> fa_policy_fingerprint a = fa_policy_fingerprint b \<and> fa_resolution_fingerprint a = fa_resolution_fingerprint b
      \<and> fa_local_finality a = fa_local_finality b \<and> fa_binding a = fa_binding b)"

definition fee_assessment_from_record :: "platform \<Rightarrow> json \<Rightarrow> domain_error + fee_assessment" where
  "fee_assessment_from_record pf value =
     model_from_record value 2
      [''assessment_id'', ''subject'', ''trade_id'', ''components'', ''total_charges'', ''total_rebates'',
       ''policy_fingerprint'', ''resolution_fingerprint'', ''local_finality'', ''binding''] (\<lambda>f.
     rbind (decode_text (f ''assessment_id'')) (\<lambda>v1.
     rbind (fee_subject_from_record pf (f ''subject'')) (\<lambda>v2.
     rbind (decode_option (identifier_from_record ''OnlyTradeId'') (f ''trade_id'')) (\<lambda>v3.
     rbind (decode_list (fee_component_from_record pf) (f ''components'')) (\<lambda>v4.
     rbind (money_from_record pf (f ''total_charges'')) (\<lambda>v5.
     rbind (money_from_record pf (f ''total_rebates'')) (\<lambda>v6.
     rbind (decode_text (f ''policy_fingerprint'')) (\<lambda>v7.
     rbind (decode_text (f ''resolution_fingerprint'')) (\<lambda>v8.
     rbind (decode_enum ''OnlyLocalFeeFinality'' local_finalities (f ''local_finality'')) (\<lambda>v9.
     rbind (fee_binding_from_record pf (f ''binding'')) (\<lambda>v10.
     fee_assessment_new pf \<lparr>
       fa_assessment_id = v1, fa_subject = v2, fa_trade_id = v3, fa_components = v4, fa_total_charges = v5,
       fa_total_rebates = v6, fa_policy_fingerprint = v7, fa_resolution_fingerprint = v8, fa_local_finality = v9,
       fa_binding = v10\<rparr>)))))))))))"

record fee_estimate =
  fe_expected :: fee_assessment
  fe_maximum :: fee_assessment
  fe_reservation_charge :: money
  fe_estimated_rebate :: money
  fe_assumptions_fingerprint :: rstr

definition fee_estimate_to_record :: "fee_estimate \<Rightarrow> json" where
  "fee_estimate_to_record x =
     model_to_record 2
      [(''expected'', fee_assessment_to_record (fe_expected x)),
       (''maximum'', fee_assessment_to_record (fe_maximum x)),
       (''reservation_charge'', money_to_record (fe_reservation_charge x)),
       (''estimated_rebate'', money_to_record (fe_estimated_rebate x)),
       (''assumptions_fingerprint'', JString (fe_assumptions_fingerprint x))]"

definition fee_estimate_new :: "platform \<Rightarrow> fee_estimate \<Rightarrow> domain_error + fee_estimate" where
  "fee_estimate_new pf x =
     (let ex = fe_expected x; mx = fe_maximum x
      in if \<not> one_currency [fa_total_charges ex, fa_total_rebates ex, fa_total_charges mx, fa_total_rebates mx,
                            fe_reservation_charge x, fe_estimated_rebate x]
         then Inl (DomValidation ''fee estimate currency mismatch'')
         else if fa_subject ex \<noteq> fa_subject mx \<or> fa_binding ex \<noteq> fa_binding mx
         then Inl (DomValidation ''fee estimate assessments require one subject and binding'')
         else if \<not> money_eq (pf_lib pf) (fe_reservation_charge x) (fa_total_charges mx)
         then Inl (DomValidation ''fee reservation must equal maximum charges'') else Inr x)"

definition fee_estimate_eq :: "decimal_lib \<Rightarrow> fee_estimate \<Rightarrow> fee_estimate \<Rightarrow> bool" where
  "fee_estimate_eq lib a b =
     (fee_assessment_eq lib (fe_expected a) (fe_expected b) \<and> fee_assessment_eq lib (fe_maximum a) (fe_maximum b)
      \<and> money_eq lib (fe_reservation_charge a) (fe_reservation_charge b)
      \<and> money_eq lib (fe_estimated_rebate a) (fe_estimated_rebate b)
      \<and> fe_assumptions_fingerprint a = fe_assumptions_fingerprint b)"

definition fee_estimate_from_record :: "platform \<Rightarrow> json \<Rightarrow> domain_error + fee_estimate" where
  "fee_estimate_from_record pf value =
     model_from_record value 2
      [''expected'', ''maximum'', ''reservation_charge'', ''estimated_rebate'', ''assumptions_fingerprint''] (\<lambda>f.
     rbind (fee_assessment_from_record pf (f ''expected'')) (\<lambda>v1.
     rbind (fee_assessment_from_record pf (f ''maximum'')) (\<lambda>v2.
     rbind (money_from_record pf (f ''reservation_charge'')) (\<lambda>v3.
     rbind (money_from_record pf (f ''estimated_rebate'')) (\<lambda>v4.
     rbind (decode_text (f ''assumptions_fingerprint'')) (\<lambda>v5.
     fee_estimate_new pf \<lparr>
       fe_expected = v1, fe_maximum = v2, fe_reservation_charge = v3, fe_estimated_rebate = v4,
       fe_assumptions_fingerprint = v5\<rparr>))))))"

record funding_plan =
  fp_order_id :: rstr
  fp_principal_reservation :: money
  fp_fee_reservation :: money
  fp_total_reservation :: money
  fp_binding_fingerprint :: rstr
  fp_estimate_fingerprint :: rstr

definition funding_plan_to_record :: "funding_plan \<Rightarrow> json" where
  "funding_plan_to_record x =
     model_to_record 1
      [(''order_id'', identifier_to_record (fp_order_id x)),
       (''principal_reservation'', money_to_record (fp_principal_reservation x)),
       (''fee_reservation'', money_to_record (fp_fee_reservation x)),
       (''total_reservation'', money_to_record (fp_total_reservation x)),
       (''binding_fingerprint'', JString (fp_binding_fingerprint x)),
       (''estimate_fingerprint'', JString (fp_estimate_fingerprint x))]"

definition funding_plan_new :: "platform \<Rightarrow> funding_plan \<Rightarrow> domain_error + funding_plan" where
  "funding_plan_new pf x =
     (if \<not> one_currency [fp_principal_reservation x, fp_fee_reservation x]
      then Inl (DomValidation ''funding plan currency mismatch'')
      else rbind (money_add (pf_lib pf) (fp_principal_reservation x) (fp_fee_reservation x)) (\<lambda>total.
      if \<not> money_eq (pf_lib pf) total (fp_total_reservation x)
      then Inl (DomValidation ''funding plan total does not conserve principal and fee'') else Inr x))"

definition funding_plan_eq :: "decimal_lib \<Rightarrow> funding_plan \<Rightarrow> funding_plan \<Rightarrow> bool" where
  "funding_plan_eq lib a b =
     (fp_order_id a = fp_order_id b \<and> money_eq lib (fp_principal_reservation a) (fp_principal_reservation b)
      \<and> money_eq lib (fp_fee_reservation a) (fp_fee_reservation b)
      \<and> money_eq lib (fp_total_reservation a) (fp_total_reservation b)
      \<and> fp_binding_fingerprint a = fp_binding_fingerprint b \<and> fp_estimate_fingerprint a = fp_estimate_fingerprint b)"

definition funding_plan_from_record :: "platform \<Rightarrow> json \<Rightarrow> domain_error + funding_plan" where
  "funding_plan_from_record pf value =
     model_from_record value 1
      [''order_id'', ''principal_reservation'', ''fee_reservation'', ''total_reservation'', ''binding_fingerprint'',
       ''estimate_fingerprint''] (\<lambda>f.
     rbind (identifier_from_record ''OnlyOrderId'' (f ''order_id'')) (\<lambda>v1.
     rbind (money_from_record pf (f ''principal_reservation'')) (\<lambda>v2.
     rbind (money_from_record pf (f ''fee_reservation'')) (\<lambda>v3.
     rbind (money_from_record pf (f ''total_reservation'')) (\<lambda>v4.
     rbind (decode_text (f ''binding_fingerprint'')) (\<lambda>v5.
     rbind (decode_text (f ''estimate_fingerprint'')) (\<lambda>v6.
     funding_plan_new pf \<lparr>
       fp_order_id = v1, fp_principal_reservation = v2, fp_fee_reservation = v3, fp_total_reservation = v4,
       fp_binding_fingerprint = v5, fp_estimate_fingerprint = v6\<rparr>)))))))"

end
