(* ===== verification/Domain_Execution.thy ===== *)
theory Domain_Execution
  imports Domain_Fee
begin

text \<open>
  Execution inputs and order snapshots of \<open>crates/domain/src/execution.rs\<close> and the normalized
  execution intent of \<open>trading.rs\<close>, with their constructors and record codecs. A model and
  its \<open>Input\<close> struct are one record here; the constructor returns the record it accepts.
\<close>

section \<open>Enumerations\<close>

datatype order_side = SideBuy | SideSell

definition order_sides :: "(order_side \<times> string) list" where
  "order_sides = [(SideBuy, ''BUY''), (SideSell, ''SELL'')]"

datatype order_offset = OffsetNone | OffsetOpen | OffsetClose | OffsetCloseToday | OffsetCloseYesterday

definition order_offsets :: "(order_offset \<times> string) list" where
  "order_offsets = [(OffsetNone, ''NONE''), (OffsetOpen, ''OPEN''), (OffsetClose, ''CLOSE''),
     (OffsetCloseToday, ''CLOSE_TODAY''), (OffsetCloseYesterday, ''CLOSE_YESTERDAY'')]"

datatype order_type = TypeMarket | TypeLimit | TypeStopMarket | TypeStopLimit | TypeMarketIfTouched | TypeLimitIfTouched | TypeTrailingStopMarket | TypeTrailingStopLimit

definition order_types :: "(order_type \<times> string) list" where
  "order_types = [(TypeMarket, ''MARKET''), (TypeLimit, ''LIMIT''), (TypeStopMarket, ''STOP_MARKET''),
     (TypeStopLimit, ''STOP_LIMIT''), (TypeMarketIfTouched, ''MARKET_IF_TOUCHED''),
     (TypeLimitIfTouched, ''LIMIT_IF_TOUCHED''), (TypeTrailingStopMarket, ''TRAILING_STOP_MARKET''),
     (TypeTrailingStopLimit, ''TRAILING_STOP_LIMIT'')]"

datatype order_status = Created | Submitted | Accepted | PartiallyFilled | PendingCancel | Cancelled | Expired | Filled | Rejected | Failed

definition order_statuses :: "(order_status \<times> string) list" where
  "order_statuses = [(Created, ''CREATED''), (Submitted, ''SUBMITTED''), (Accepted, ''ACCEPTED''),
     (PartiallyFilled, ''PARTIALLY_FILLED''), (PendingCancel, ''PENDING_CANCEL''), (Cancelled, ''CANCELLED''),
     (Expired, ''EXPIRED''), (Filled, ''FILLED''), (Rejected, ''REJECTED''), (Failed, ''FAILED'')]"

datatype time_in_force = TifGtc | TifIoc | TifFok | TifGtd | TifDay

definition time_in_forces :: "(time_in_force \<times> string) list" where
  "time_in_forces = [(TifGtc, ''GTC''), (TifIoc, ''IOC''), (TifFok, ''FOK''), (TifGtd, ''GTD''), (TifDay, ''DAY'')]"

datatype liquidity_side = LiqMaker | LiqTaker | LiqUnknown

definition liquidity_sides :: "(liquidity_side \<times> string) list" where
  "liquidity_sides = [(LiqMaker, ''MAKER''), (LiqTaker, ''TAKER''), (LiqUnknown, ''UNKNOWN'')]"

datatype position_side = PosLong | PosShort | PosFlat

definition position_sides :: "(position_side \<times> string) list" where
  "position_sides = [(PosLong, ''LONG''), (PosShort, ''SHORT''), (PosFlat, ''FLAT'')]"

datatype position_mode = ModeNetting | ModeHedging

definition position_modes :: "(position_mode \<times> string) list" where
  "position_modes = [(ModeNetting, ''NETTING''), (ModeHedging, ''HEDGING'')]"

datatype position_effect = EffectOpen | EffectClose | EffectAuto | EffectCloseToday | EffectCloseYesterday | EffectReduceOnly

definition position_effects :: "(position_effect \<times> string) list" where
  "position_effects = [(EffectOpen, ''OPEN''), (EffectClose, ''CLOSE''), (EffectAuto, ''AUTO''),
     (EffectCloseToday, ''CLOSE_TODAY''), (EffectCloseYesterday, ''CLOSE_YESTERDAY''),
     (EffectReduceOnly, ''REDUCE_ONLY'')]"

datatype close_scope = CloseScopeAny | CloseScopeToday | CloseScopeYesterday

definition close_scopes :: "(close_scope \<times> string) list" where
  "close_scopes = [(CloseScopeAny, ''ANY''), (CloseScopeToday, ''TODAY''), (CloseScopeYesterday, ''YESTERDAY'')]"

datatype exposure_constraint = ExposureNone | ExposureReduceOnly

definition exposure_constraints :: "(exposure_constraint \<times> string) list" where
  "exposure_constraints = [(ExposureNone, ''NONE''), (ExposureReduceOnly, ''REDUCE_ONLY'')]"

section \<open>Execution intent (trading.rs)\<close>

record execution_intent =
  xi_side :: order_side
  xi_position_side :: position_side
  xi_position_effect :: position_effect
  xi_close_scope :: close_scope
  xi_exposure_constraint :: exposure_constraint
  xi_position_mode :: position_mode

definition execution_intent_new :: "platform \<Rightarrow> execution_intent \<Rightarrow> domain_error + execution_intent" where
  "execution_intent_new pf x =
     (if xi_position_side x = PosFlat then Inl (DomValidation ''EXECUTION_INTENT_POSITION_SIDE_REQUIRED'')
      else if xi_position_effect x \<notin> {EffectOpen, EffectClose}
      then Inl (DomValidation ''EXECUTION_INTENT_EFFECT_NOT_NORMALIZED'')
      else if (xi_side x = SideBuy) \<noteq> ((xi_position_side x = PosLong) = (xi_position_effect x = EffectOpen))
      then Inl (DomValidation ''EXECUTION_INTENT_SIDE_EFFECT_CONFLICT'')
      else if xi_position_effect x = EffectOpen \<and> xi_close_scope x \<noteq> CloseScopeAny
      then Inl (DomValidation ''EXECUTION_INTENT_OPEN_CLOSE_SCOPE_CONFLICT'')
      else if xi_position_effect x = EffectOpen \<and> xi_exposure_constraint x = ExposureReduceOnly
      then Inl (DomValidation ''EXECUTION_INTENT_REDUCE_ONLY_OPEN_CONFLICT'')
      else Inr x)"

definition intent_from_offset ::
  "platform \<Rightarrow> order_side \<Rightarrow> order_offset \<Rightarrow> position_side option \<Rightarrow> domain_error + execution_intent" where
  "intent_from_offset pf side off pos =
     (let opening = (off = OffsetOpen \<or> off = OffsetNone \<and> side = SideBuy);
          resolved = (case pos of Some p \<Rightarrow> p
            | None \<Rightarrow> if off = OffsetNone \<or> (side = SideBuy) = opening then PosLong else PosShort)
      in execution_intent_new pf \<lparr>
           xi_side = side, xi_position_side = resolved,
           xi_position_effect = (if opening then EffectOpen else EffectClose),
           xi_close_scope = (case off of OffsetCloseToday \<Rightarrow> CloseScopeToday
             | OffsetCloseYesterday \<Rightarrow> CloseScopeYesterday | _ \<Rightarrow> CloseScopeAny),
           xi_exposure_constraint = ExposureNone, xi_position_mode = ModeNetting\<rparr>)"

definition reduces_exposure :: "execution_intent \<Rightarrow> bool" where
  "reduces_exposure x = (xi_position_effect x = EffectClose)"

definition execution_intent_to_record :: "execution_intent \<Rightarrow> json" where
  "execution_intent_to_record x =
     model_to_record 2
      [(''side'', encode_enum order_sides (xi_side x)),
       (''position_side'', encode_enum position_sides (xi_position_side x)),
       (''position_effect'', encode_enum position_effects (xi_position_effect x)),
       (''close_scope'', encode_enum close_scopes (xi_close_scope x)),
       (''exposure_constraint'', encode_enum exposure_constraints (xi_exposure_constraint x)),
       (''position_mode'', encode_enum position_modes (xi_position_mode x))]"

definition execution_intent_from_record :: "platform \<Rightarrow> json \<Rightarrow> domain_error + execution_intent" where
  "execution_intent_from_record pf value =
     model_from_record value 2
      [''side'', ''position_side'', ''position_effect'', ''close_scope'', ''exposure_constraint'', ''position_mode''] (\<lambda>f.
     rbind (rbind (dom_text (f ''side'') ''side'') (enum_parse ''OnlyOrderSide'' order_sides)) (\<lambda>v1.
     rbind (rbind (dom_text (f ''position_side'') ''position_side'') (enum_parse ''OnlyPositionSide'' position_sides)) (\<lambda>v2.
     rbind (rbind (dom_text (f ''position_effect'') ''position_effect'') (enum_parse ''OnlyPositionEffect'' position_effects)) (\<lambda>v3.
     rbind (rbind (dom_text (f ''close_scope'') ''close_scope'') (enum_parse ''OnlyCloseScope'' close_scopes)) (\<lambda>v4.
     rbind (rbind (dom_text (f ''exposure_constraint'') ''exposure_constraint'') (enum_parse ''OnlyExposureConstraint'' exposure_constraints)) (\<lambda>v5.
     rbind (rbind (dom_text (f ''position_mode'') ''position_mode'') (enum_parse ''OnlyPositionMode'' position_modes)) (\<lambda>v6.
     execution_intent_new pf \<lparr>
       xi_side = v1, xi_position_side = v2, xi_position_effect = v3, xi_close_scope = v4,
       xi_exposure_constraint = v5, xi_position_mode = v6\<rparr>)))))))"

section \<open>Requests (execution.rs)\<close>

definition normalize_intent ::
  "platform \<Rightarrow> execution_intent option \<Rightarrow> order_side \<Rightarrow> order_offset \<Rightarrow> domain_error + execution_intent" where
  "normalize_intent pf intent side off =
     rbind (case intent of Some i \<Rightarrow> Inr i | None \<Rightarrow> intent_from_offset pf side off None) (\<lambda>i.
     if xi_side i \<noteq> side then Inl (DomValidation ''order side conflicts with canonical execution intent'') else Inr i)"

record order_request =
  rq_request_id :: rstr
  rq_instrument_id :: instrument_id
  rq_side :: order_side
  rq_order_type :: order_type
  rq_quantity :: scalar
  rq_time_in_force :: time_in_force
  rq_account_id :: "rstr option"
  rq_offset :: order_offset
  rq_price :: "scalar option"
  rq_stop_price :: "scalar option"
  rq_expire_time :: "timestamp option"
  rq_tags :: "rstr list"
  rq_metadata :: "(rstr, rstr) btree"
  rq_execution_intent :: "execution_intent option"

definition order_request_to_record :: "order_request \<Rightarrow> json" where
  "order_request_to_record x =
     model_to_record 1
      [(''request_id'', identifier_to_record (rq_request_id x)),
       (''instrument_id'', instrument_to_record (rq_instrument_id x)),
       (''side'', encode_enum order_sides (rq_side x)), (''order_type'', encode_enum order_types (rq_order_type x)),
       (''quantity'', scalar_to_record (rq_quantity x)),
       (''time_in_force'', encode_enum time_in_forces (rq_time_in_force x)),
       (''account_id'', encode_option identifier_to_record (rq_account_id x)),
       (''offset'', encode_enum order_offsets (rq_offset x)),
       (''price'', encode_option scalar_to_record (rq_price x)),
       (''stop_price'', encode_option scalar_to_record (rq_stop_price x)),
       (''expire_time'', encode_option timestamp_to_record (rq_expire_time x)),
       (''tags'', encode_list JString (rq_tags x)), (''metadata'', encode_map JString (rq_metadata x)),
       (''execution_intent'', encode_option execution_intent_to_record (rq_execution_intent x))]"

definition order_request_new :: "platform \<Rightarrow> order_request \<Rightarrow> domain_error + order_request" where
  "order_request_new pf x0 =
     rbind (normalize_intent pf (rq_execution_intent x0) (rq_side x0) (rq_offset x0)) (\<lambda>intent.
     let x = x0\<lparr>rq_execution_intent := Some intent\<rparr> in
     if is_zero (sc_value (rq_quantity x)) then Inl (DomValidation ''order quantity must be positive'')
     else rbind (case rq_order_type x of
         TypeLimit \<Rightarrow> (case rq_price x of
             None \<Rightarrow> Inl (DomValidation ''LIMIT order requires a positive price'')
           | Some p \<Rightarrow> if is_zero (sc_value p) \<or> is_negative (sc_value p)
               then Inl (DomValidation ''LIMIT order requires a positive price'') else Inr ())
       | TypeMarket \<Rightarrow> if rq_price x \<noteq> None then Inl (DomValidation ''MARKET order cannot contain a price'') else Inr ()
       | _ \<Rightarrow> Inl (DomValidation ''unsupported first-phase order type'')) (\<lambda>_.
     if rq_stop_price x \<noteq> None then Inl (DomValidation ''stop orders are not implemented in the first Order phase'')
     else if rq_time_in_force x = TifGtd \<and> rq_expire_time x = None then Inl (DomValidation ''GTD order requires expire_time'')
     else Inr x))"

definition order_request_from_record :: "platform \<Rightarrow> json \<Rightarrow> domain_error + order_request" where
  "order_request_from_record pf value =
     model_from_record value 1
      [''request_id'', ''instrument_id'', ''side'', ''order_type'', ''quantity'', ''time_in_force'', ''account_id'',
       ''offset'', ''price'', ''stop_price'', ''expire_time'', ''tags'', ''metadata'', ''execution_intent''] (\<lambda>f.
     rbind (identifier_from_record ''OnlyOrderRequestId'' (f ''request_id'')) (\<lambda>v1.
     rbind (instrument_from_record (f ''instrument_id'')) (\<lambda>v2.
     rbind (decode_enum ''OnlyOrderSide'' order_sides (f ''side'')) (\<lambda>v3.
     rbind (decode_enum ''OnlyOrderType'' order_types (f ''order_type'')) (\<lambda>v4.
     rbind (quantity_from_record pf (f ''quantity'')) (\<lambda>v5.
     rbind (decode_enum ''OnlyTimeInForce'' time_in_forces (f ''time_in_force'')) (\<lambda>v6.
     rbind (decode_option (identifier_from_record ''OnlyAccountId'') (f ''account_id'')) (\<lambda>v7.
     rbind (decode_enum ''OnlyOffset'' order_offsets (f ''offset'')) (\<lambda>v8.
     rbind (decode_option (price_from_record pf) (f ''price'')) (\<lambda>v9.
     rbind (decode_option (price_from_record pf) (f ''stop_price'')) (\<lambda>v10.
     rbind (decode_option timestamp_from_record (f ''expire_time'')) (\<lambda>v11.
     rbind (decode_list decode_text (f ''tags'')) (\<lambda>v12.
     rbind (decode_map decode_text (f ''metadata'')) (\<lambda>v13.
     rbind (decode_option (execution_intent_from_record pf) (f ''execution_intent'')) (\<lambda>v14.
     order_request_new pf \<lparr>
       rq_request_id = v1, rq_instrument_id = v2, rq_side = v3, rq_order_type = v4, rq_quantity = v5,
       rq_time_in_force = v6, rq_account_id = v7, rq_offset = v8, rq_price = v9, rq_stop_price = v10,
       rq_expire_time = v11, rq_tags = v12, rq_metadata = v13, rq_execution_intent = v14\<rparr>)))))))))))))))"

record cancel_request =
  cr_request_id :: rstr
  cr_order_id :: rstr
  cr_reason :: rstr
  cr_metadata :: "(rstr, rstr) btree"

definition cancel_request_to_record :: "cancel_request \<Rightarrow> json" where
  "cancel_request_to_record x =
     model_to_record 1
      [(''request_id'', identifier_to_record (cr_request_id x)),
       (''order_id'', identifier_to_record (cr_order_id x)), (''reason'', JString (cr_reason x)),
       (''metadata'', encode_map JString (cr_metadata x))]"

definition cancel_request_new :: "platform \<Rightarrow> cancel_request \<Rightarrow> domain_error + cancel_request" where
  "cancel_request_new pf x = Inr (x\<lparr>cr_reason := trim_matches whitespace (cr_reason x)\<rparr>)"

definition cancel_request_from_record :: "platform \<Rightarrow> json \<Rightarrow> domain_error + cancel_request" where
  "cancel_request_from_record pf value =
     model_from_record value 1
      [''request_id'', ''order_id'', ''reason'', ''metadata''] (\<lambda>f.
     rbind (identifier_from_record ''OnlyOrderRequestId'' (f ''request_id'')) (\<lambda>v1.
     rbind (identifier_from_record ''OnlyOrderId'' (f ''order_id'')) (\<lambda>v2.
     rbind (decode_text (f ''reason'')) (\<lambda>v3.
     rbind (decode_map decode_text (f ''metadata'')) (\<lambda>v4.
     cancel_request_new pf \<lparr>
       cr_request_id = v1, cr_order_id = v2, cr_reason = v3, cr_metadata = v4\<rparr>)))))"

record order_rejection =
  rj_code :: rstr
  rj_message :: rstr

definition order_rejection_to_record :: "order_rejection \<Rightarrow> json" where
  "order_rejection_to_record x =
     model_to_record 1
      [(''code'', JString (rj_code x)), (''message'', JString (rj_message x))]"

definition order_rejection_new :: "platform \<Rightarrow> order_rejection \<Rightarrow> domain_error + order_rejection" where
  "order_rejection_new pf x = Inr x"

definition order_rejection_from_record :: "platform \<Rightarrow> json \<Rightarrow> domain_error + order_rejection" where
  "order_rejection_from_record pf value =
     model_from_record value 1
      [''code'', ''message''] (\<lambda>f.
     rbind (decode_text (f ''code'')) (\<lambda>v1.
     rbind (decode_text (f ''message'')) (\<lambda>v2.
     order_rejection_new pf \<lparr>
       rj_code = v1, rj_message = v2\<rparr>)))"

record order_failure =
  fl_code :: rstr
  fl_message :: rstr

definition order_failure_to_record :: "order_failure \<Rightarrow> json" where
  "order_failure_to_record x =
     model_to_record 1
      [(''code'', JString (fl_code x)), (''message'', JString (fl_message x))]"

definition order_failure_new :: "platform \<Rightarrow> order_failure \<Rightarrow> domain_error + order_failure" where
  "order_failure_new pf x = Inr x"

definition order_failure_from_record :: "platform \<Rightarrow> json \<Rightarrow> domain_error + order_failure" where
  "order_failure_from_record pf value =
     model_from_record value 1
      [''code'', ''message''] (\<lambda>f.
     rbind (decode_text (f ''code'')) (\<lambda>v1.
     rbind (decode_text (f ''message'')) (\<lambda>v2.
     order_failure_new pf \<lparr>
       fl_code = v1, fl_message = v2\<rparr>)))"

record order_ref =
  rf_runtime_id :: rstr
  rf_order_id :: rstr

definition order_ref_to_record :: "order_ref \<Rightarrow> json" where
  "order_ref_to_record x =
     model_to_record 1
      [(''runtime_id'', identifier_to_record (rf_runtime_id x)),
       (''order_id'', identifier_to_record (rf_order_id x))]"

definition order_ref_new :: "platform \<Rightarrow> order_ref \<Rightarrow> domain_error + order_ref" where
  "order_ref_new pf x = Inr x"

definition order_ref_from_record :: "platform \<Rightarrow> json \<Rightarrow> domain_error + order_ref" where
  "order_ref_from_record pf value =
     model_from_record value 1
      [''runtime_id'', ''order_id''] (\<lambda>f.
     rbind (identifier_from_record ''OnlyRuntimeId'' (f ''runtime_id'')) (\<lambda>v1.
     rbind (identifier_from_record ''OnlyOrderId'' (f ''order_id'')) (\<lambda>v2.
     order_ref_new pf \<lparr>
       rf_runtime_id = v1, rf_order_id = v2\<rparr>)))"

section \<open>Fills and snapshots (execution.rs)\<close>

record order_fill =
  fi_trade_id :: rstr
  fi_order_id :: rstr
  fi_price :: scalar
  fi_quantity :: scalar
  fi_ts_event :: timestamp
  fi_ts_init :: timestamp
  fi_venue_trade_id :: "rstr option"
  fi_venue_order_id :: "rstr option"
  fi_liquidity_side :: liquidity_side
  fi_external_sequence :: "int option"
  fi_external_event_id :: "rstr option"
  fi_metadata :: "(rstr, rstr) btree"
  fi_reference_price :: "scalar option"

definition order_fill_to_record :: "order_fill \<Rightarrow> json" where
  "order_fill_to_record x =
     model_to_record 1
      [(''trade_id'', identifier_to_record (fi_trade_id x)), (''order_id'', identifier_to_record (fi_order_id x)),
       (''price'', scalar_to_record (fi_price x)), (''quantity'', scalar_to_record (fi_quantity x)),
       (''ts_event'', timestamp_to_record (fi_ts_event x)), (''ts_init'', timestamp_to_record (fi_ts_init x)),
       (''venue_trade_id'', encode_option identifier_to_record (fi_venue_trade_id x)),
       (''venue_order_id'', encode_option identifier_to_record (fi_venue_order_id x)),
       (''liquidity_side'', encode_enum liquidity_sides (fi_liquidity_side x)),
       (''external_sequence'', encode_option jint (fi_external_sequence x)),
       (''external_event_id'', encode_option JString (fi_external_event_id x)),
       (''metadata'', encode_map JString (fi_metadata x)),
       (''reference_price'', encode_option scalar_to_record (fi_reference_price x))]"

definition order_fill_new :: "platform \<Rightarrow> order_fill \<Rightarrow> domain_error + order_fill" where
  "order_fill_new pf x =
     (if is_zero (sc_value (fi_quantity x)) \<or> is_zero (sc_value (fi_price x)) \<or> is_negative (sc_value (fi_price x))
      then Inl (DomValidation ''fill quantity and price must be positive'')
      else if fi_ts_init x < fi_ts_event x \<or> (case fi_external_sequence x of Some s \<Rightarrow> s < 0 | None \<Rightarrow> False)
      then Inl (DomValidation ''fill time or external sequence is invalid'') else Inr x)"

definition order_fill_from_record :: "platform \<Rightarrow> json \<Rightarrow> domain_error + order_fill" where
  "order_fill_from_record pf value =
     model_from_record value 1
      [''trade_id'', ''order_id'', ''price'', ''quantity'', ''ts_event'', ''ts_init'', ''venue_trade_id'',
       ''venue_order_id'', ''liquidity_side'', ''external_sequence'', ''external_event_id'', ''metadata'',
       ''reference_price''] (\<lambda>f.
     rbind (identifier_from_record ''OnlyTradeId'' (f ''trade_id'')) (\<lambda>v1.
     rbind (identifier_from_record ''OnlyOrderId'' (f ''order_id'')) (\<lambda>v2.
     rbind (price_from_record pf (f ''price'')) (\<lambda>v3.
     rbind (quantity_from_record pf (f ''quantity'')) (\<lambda>v4.
     rbind (timestamp_from_record (f ''ts_event'')) (\<lambda>v5.
     rbind (timestamp_from_record (f ''ts_init'')) (\<lambda>v6.
     rbind (decode_option (identifier_from_record ''OnlyVenueTradeId'') (f ''venue_trade_id'')) (\<lambda>v7.
     rbind (decode_option (identifier_from_record ''OnlyVenueOrderId'') (f ''venue_order_id'')) (\<lambda>v8.
     rbind (decode_enum ''OnlyLiquiditySide'' liquidity_sides (f ''liquidity_side'')) (\<lambda>v9.
     rbind (decode_option decode_int (f ''external_sequence'')) (\<lambda>v10.
     rbind (decode_option decode_text (f ''external_event_id'')) (\<lambda>v11.
     rbind (decode_map decode_text (f ''metadata'')) (\<lambda>v12.
     rbind (decode_option (price_from_record pf) (f ''reference_price'')) (\<lambda>v13.
     order_fill_new pf \<lparr>
       fi_trade_id = v1, fi_order_id = v2, fi_price = v3, fi_quantity = v4, fi_ts_event = v5, fi_ts_init = v6,
       fi_venue_trade_id = v7, fi_venue_order_id = v8, fi_liquidity_side = v9, fi_external_sequence = v10,
       fi_external_event_id = v11, fi_metadata = v12, fi_reference_price = v13\<rparr>))))))))))))))"

record order_snapshot =
  os_order_id :: rstr
  os_request_id :: rstr
  os_client_order_id :: rstr
  os_venue_order_id :: "rstr option"
  os_runtime_id :: rstr
  os_cluster_id :: rstr
  os_account_id :: rstr
  os_instrument_id :: instrument_id
  os_side :: order_side
  os_offset :: order_offset
  os_order_type :: order_type
  os_time_in_force :: time_in_force
  os_quantity :: scalar
  os_price :: "scalar option"
  os_stop_price :: "scalar option"
  os_expire_time :: "timestamp option"
  os_status :: order_status
  os_filled_quantity :: scalar
  os_remaining_quantity :: scalar
  os_average_fill_price :: "scalar option"
  os_created_at :: timestamp
  os_updated_at :: timestamp
  os_submitted_at :: "timestamp option"
  os_accepted_at :: "timestamp option"
  os_cancel_requested_at :: "timestamp option"
  os_cancelled_at :: "timestamp option"
  os_filled_at :: "timestamp option"
  os_rejected_at :: "timestamp option"
  os_expired_at :: "timestamp option"
  os_failed_at :: "timestamp option"
  os_version :: int
  os_last_external_sequence :: "int option"
  os_rejection :: "order_rejection option"
  os_failure :: "order_failure option"
  os_tags :: "rstr list"
  os_metadata :: "(rstr, rstr) btree"
  os_fill_count :: int
  os_cumulative_price_quantity :: decimal
  os_last_trade_id :: "rstr option"
  os_historical_fill_identity_missing :: bool
  os_fee_policy_binding :: "fee_binding option"
  os_fee_estimate :: "fee_estimate option"
  os_funding_plan :: "funding_plan option"
  os_execution_intent :: "execution_intent option"

definition order_snapshot_to_record :: "order_snapshot \<Rightarrow> json" where
  "order_snapshot_to_record x =
     model_to_record 4
      [(''order_id'', identifier_to_record (os_order_id x)),
       (''request_id'', identifier_to_record (os_request_id x)),
       (''client_order_id'', identifier_to_record (os_client_order_id x)),
       (''venue_order_id'', encode_option identifier_to_record (os_venue_order_id x)),
       (''runtime_id'', identifier_to_record (os_runtime_id x)),
       (''cluster_id'', identifier_to_record (os_cluster_id x)),
       (''account_id'', identifier_to_record (os_account_id x)),
       (''instrument_id'', instrument_to_record (os_instrument_id x)),
       (''side'', encode_enum order_sides (os_side x)), (''offset'', encode_enum order_offsets (os_offset x)),
       (''order_type'', encode_enum order_types (os_order_type x)),
       (''time_in_force'', encode_enum time_in_forces (os_time_in_force x)),
       (''quantity'', scalar_to_record (os_quantity x)), (''price'', encode_option scalar_to_record (os_price x)),
       (''stop_price'', encode_option scalar_to_record (os_stop_price x)),
       (''expire_time'', encode_option timestamp_to_record (os_expire_time x)),
       (''status'', encode_enum order_statuses (os_status x)),
       (''filled_quantity'', scalar_to_record (os_filled_quantity x)),
       (''remaining_quantity'', scalar_to_record (os_remaining_quantity x)),
       (''average_fill_price'', encode_option scalar_to_record (os_average_fill_price x)),
       (''created_at'', timestamp_to_record (os_created_at x)),
       (''updated_at'', timestamp_to_record (os_updated_at x)),
       (''submitted_at'', encode_option timestamp_to_record (os_submitted_at x)),
       (''accepted_at'', encode_option timestamp_to_record (os_accepted_at x)),
       (''cancel_requested_at'', encode_option timestamp_to_record (os_cancel_requested_at x)),
       (''cancelled_at'', encode_option timestamp_to_record (os_cancelled_at x)),
       (''filled_at'', encode_option timestamp_to_record (os_filled_at x)),
       (''rejected_at'', encode_option timestamp_to_record (os_rejected_at x)),
       (''expired_at'', encode_option timestamp_to_record (os_expired_at x)),
       (''failed_at'', encode_option timestamp_to_record (os_failed_at x)), (''version'', jint (os_version x)),
       (''last_external_sequence'', encode_option jint (os_last_external_sequence x)),
       (''rejection'', encode_option order_rejection_to_record (os_rejection x)),
       (''failure'', encode_option order_failure_to_record (os_failure x)),
       (''tags'', encode_list JString (os_tags x)), (''metadata'', encode_map JString (os_metadata x)),
       (''fill_count'', jint (os_fill_count x)),
       (''cumulative_price_quantity'', encode_decimal (os_cumulative_price_quantity x)),
       (''last_trade_id'', encode_option identifier_to_record (os_last_trade_id x)),
       (''historical_fill_identity_missing'', JBool (os_historical_fill_identity_missing x)),
       (''fee_policy_binding'', encode_option fee_binding_to_record (os_fee_policy_binding x)),
       (''fee_estimate'', encode_option fee_estimate_to_record (os_fee_estimate x)),
       (''funding_plan'', encode_option funding_plan_to_record (os_funding_plan x)),
       (''execution_intent'', encode_option execution_intent_to_record (os_execution_intent x))]"

definition fee_contract_scope_ok :: "order_snapshot \<Rightarrow> fee_binding \<Rightarrow> funding_plan \<Rightarrow> bool" where
  "fee_contract_scope_ok x binding funding =
     (bi_runtime_id binding = os_runtime_id x \<and> bi_account_id binding = os_account_id x
      \<and> bi_cluster_id binding = os_cluster_id x \<and> bi_order_id binding = os_order_id x
      \<and> bi_instrument_id binding = os_instrument_id x \<and> fp_order_id funding = os_order_id x)"

definition snapshot_fee_check :: "order_snapshot \<Rightarrow> domain_error + unit" where
  "snapshot_fee_check x =
     (case (os_fee_policy_binding x, os_fee_estimate x, os_funding_plan x) of
        (None, None, None) \<Rightarrow> Inr ()
      | (Some binding, Some estimate, Some funding) \<Rightarrow>
          if \<not> fee_contract_scope_ok x binding funding then Inl (DomValidation ''Order fee contract scope mismatch'')
          else if fa_binding (fe_expected estimate) \<noteq> binding \<or> fp_binding_fingerprint funding \<noteq> bi_fingerprint binding
             \<or> fp_estimate_fingerprint funding \<noteq> fe_assumptions_fingerprint estimate
          then Inl (DomValidation ''Order fee artifacts do not match the installed binding'') else Inr ()
      | _ \<Rightarrow> Inl (DomValidation ''Order fee contract must be installed atomically''))"

definition snapshot_fill_check :: "platform \<Rightarrow> order_snapshot \<Rightarrow> domain_error + unit" where
  "snapshot_fill_check pf x =
     (let filled = sc_value (os_filled_quantity x); whole = sc_value (os_quantity x); cum = os_cumulative_price_quantity x in
      if os_fill_count x < 0 then Inl (DomValidation ''fill_count cannot be negative'')
      else if is_zero filled \<and> os_fill_count x \<noteq> 0 then Inl (DomValidation ''unfilled order cannot have fills'')
      else if \<not> is_zero filled \<and> (os_fill_count x = 0 \<or> os_average_fill_price x = None \<or> is_zero cum \<or> is_negative cum)
      then Inl (DomValidation ''filled quantity requires complete cumulative fill authority'')
      else if os_fill_count x = 0 \<and> (os_average_fill_price x \<noteq> None \<or> \<not> is_zero cum)
      then Inl (DomValidation ''zero fills require empty price authority'')
      else if os_status x = PartiallyFilled \<and> (is_zero filled \<or> decimal_cmp (pf_lib pf) filled whole \<noteq> Less)
      then Inl (DomValidation ''PARTIALLY_FILLED order requires a partial quantity'')
      else if os_status x = Filled \<and> (\<not> scalar_eq (pf_lib pf) (os_filled_quantity x) (os_quantity x)
         \<or> \<not> is_zero (sc_value (os_remaining_quantity x)) \<or> os_filled_at x = None)
      then Inl (DomValidation ''FILLED order requires complete quantity and filled_at'')
      else if os_historical_fill_identity_missing x then
        (if os_last_trade_id x \<noteq> None \<or> os_fill_count x \<noteq> 1 \<or> os_status x \<noteq> Filled
         then Inl (DomValidation ''historical missing fill identity requires one completed whole fill'') else Inr ())
      else if (os_last_trade_id x = None) \<noteq> (os_fill_count x = 0)
      then Inl (DomValidation ''last_trade_id presence must agree with fill_count'') else Inr ())"

definition order_snapshot_new :: "platform \<Rightarrow> order_snapshot \<Rightarrow> domain_error + order_snapshot" where
  "order_snapshot_new pf x0 =
     rbind (normalize_intent pf (os_execution_intent x0) (os_side x0) (os_offset x0)) (\<lambda>intent.
     let x = x0\<lparr>os_execution_intent := Some intent\<rparr> in
     if is_zero (sc_value (os_quantity x)) then Inl (DomValidation ''order snapshot quantity must be positive'')
     else if os_version x < 1 then Inl (DomValidation ''order snapshot version must be positive'')
     else rbind (only_add (pf_lib pf) (sc_value (os_filled_quantity x)) (sc_value (os_remaining_quantity x))) (\<lambda>total.
     if \<not> decimal_eq (pf_lib pf) (sc_value (os_quantity x)) total
     then Inl (DomValidation ''order quantity authority is not conserved'')
     else rbind (snapshot_fill_check pf x) (\<lambda>_.
     rbind (snapshot_fee_check x) (\<lambda>_. Inr x))))"

definition order_snapshot_from_record :: "platform \<Rightarrow> json \<Rightarrow> domain_error + order_snapshot" where
  "order_snapshot_from_record pf value =
     model_from_record value 4
      [''order_id'', ''request_id'', ''client_order_id'', ''venue_order_id'', ''runtime_id'', ''cluster_id'',
       ''account_id'', ''instrument_id'', ''side'', ''offset'', ''order_type'', ''time_in_force'', ''quantity'',
       ''price'', ''stop_price'', ''expire_time'', ''status'', ''filled_quantity'', ''remaining_quantity'',
       ''average_fill_price'', ''created_at'', ''updated_at'', ''submitted_at'', ''accepted_at'',
       ''cancel_requested_at'', ''cancelled_at'', ''filled_at'', ''rejected_at'', ''expired_at'', ''failed_at'',
       ''version'', ''last_external_sequence'', ''rejection'', ''failure'', ''tags'', ''metadata'', ''fill_count'',
       ''cumulative_price_quantity'', ''last_trade_id'', ''historical_fill_identity_missing'',
       ''fee_policy_binding'', ''fee_estimate'', ''funding_plan'', ''execution_intent''] (\<lambda>f.
     rbind (identifier_from_record ''OnlyOrderId'' (f ''order_id'')) (\<lambda>v1.
     rbind (identifier_from_record ''OnlyOrderRequestId'' (f ''request_id'')) (\<lambda>v2.
     rbind (identifier_from_record ''OnlyClientOrderId'' (f ''client_order_id'')) (\<lambda>v3.
     rbind (decode_option (identifier_from_record ''OnlyVenueOrderId'') (f ''venue_order_id'')) (\<lambda>v4.
     rbind (identifier_from_record ''OnlyRuntimeId'' (f ''runtime_id'')) (\<lambda>v5.
     rbind (identifier_from_record ''OnlyClusterId'' (f ''cluster_id'')) (\<lambda>v6.
     rbind (identifier_from_record ''OnlyAccountId'' (f ''account_id'')) (\<lambda>v7.
     rbind (instrument_from_record (f ''instrument_id'')) (\<lambda>v8.
     rbind (decode_enum ''OnlyOrderSide'' order_sides (f ''side'')) (\<lambda>v9.
     rbind (decode_enum ''OnlyOffset'' order_offsets (f ''offset'')) (\<lambda>v10.
     rbind (decode_enum ''OnlyOrderType'' order_types (f ''order_type'')) (\<lambda>v11.
     rbind (decode_enum ''OnlyTimeInForce'' time_in_forces (f ''time_in_force'')) (\<lambda>v12.
     rbind (quantity_from_record pf (f ''quantity'')) (\<lambda>v13.
     rbind (decode_option (price_from_record pf) (f ''price'')) (\<lambda>v14.
     rbind (decode_option (price_from_record pf) (f ''stop_price'')) (\<lambda>v15.
     rbind (decode_option timestamp_from_record (f ''expire_time'')) (\<lambda>v16.
     rbind (decode_enum ''OnlyOrderStatus'' order_statuses (f ''status'')) (\<lambda>v17.
     rbind (quantity_from_record pf (f ''filled_quantity'')) (\<lambda>v18.
     rbind (quantity_from_record pf (f ''remaining_quantity'')) (\<lambda>v19.
     rbind (decode_option (price_from_record pf) (f ''average_fill_price'')) (\<lambda>v20.
     rbind (timestamp_from_record (f ''created_at'')) (\<lambda>v21.
     rbind (timestamp_from_record (f ''updated_at'')) (\<lambda>v22.
     rbind (decode_option timestamp_from_record (f ''submitted_at'')) (\<lambda>v23.
     rbind (decode_option timestamp_from_record (f ''accepted_at'')) (\<lambda>v24.
     rbind (decode_option timestamp_from_record (f ''cancel_requested_at'')) (\<lambda>v25.
     rbind (decode_option timestamp_from_record (f ''cancelled_at'')) (\<lambda>v26.
     rbind (decode_option timestamp_from_record (f ''filled_at'')) (\<lambda>v27.
     rbind (decode_option timestamp_from_record (f ''rejected_at'')) (\<lambda>v28.
     rbind (decode_option timestamp_from_record (f ''expired_at'')) (\<lambda>v29.
     rbind (decode_option timestamp_from_record (f ''failed_at'')) (\<lambda>v30.
     rbind (decode_int (f ''version'')) (\<lambda>v31.
     rbind (decode_option decode_int (f ''last_external_sequence'')) (\<lambda>v32.
     rbind (decode_option (order_rejection_from_record pf) (f ''rejection'')) (\<lambda>v33.
     rbind (decode_option (order_failure_from_record pf) (f ''failure'')) (\<lambda>v34.
     rbind (decode_list decode_text (f ''tags'')) (\<lambda>v35.
     rbind (decode_map decode_text (f ''metadata'')) (\<lambda>v36.
     rbind (decode_int (f ''fill_count'')) (\<lambda>v37.
     rbind (decode_decimal pf (f ''cumulative_price_quantity'')) (\<lambda>v38.
     rbind (decode_option (identifier_from_record ''OnlyTradeId'') (f ''last_trade_id'')) (\<lambda>v39.
     rbind (decode_bool (f ''historical_fill_identity_missing'')) (\<lambda>v40.
     rbind (decode_option (fee_binding_from_record pf) (f ''fee_policy_binding'')) (\<lambda>v41.
     rbind (decode_option (fee_estimate_from_record pf) (f ''fee_estimate'')) (\<lambda>v42.
     rbind (decode_option (funding_plan_from_record pf) (f ''funding_plan'')) (\<lambda>v43.
     rbind (decode_option (execution_intent_from_record pf) (f ''execution_intent'')) (\<lambda>v44.
     order_snapshot_new pf \<lparr>
       os_order_id = v1, os_request_id = v2, os_client_order_id = v3, os_venue_order_id = v4, os_runtime_id = v5,
       os_cluster_id = v6, os_account_id = v7, os_instrument_id = v8, os_side = v9, os_offset = v10,
       os_order_type = v11, os_time_in_force = v12, os_quantity = v13, os_price = v14, os_stop_price = v15,
       os_expire_time = v16, os_status = v17, os_filled_quantity = v18, os_remaining_quantity = v19,
       os_average_fill_price = v20, os_created_at = v21, os_updated_at = v22, os_submitted_at = v23,
       os_accepted_at = v24, os_cancel_requested_at = v25, os_cancelled_at = v26, os_filled_at = v27,
       os_rejected_at = v28, os_expired_at = v29, os_failed_at = v30, os_version = v31,
       os_last_external_sequence = v32, os_rejection = v33, os_failure = v34, os_tags = v35, os_metadata = v36,
       os_fill_count = v37, os_cumulative_price_quantity = v38, os_last_trade_id = v39,
       os_historical_fill_identity_missing = v40, os_fee_policy_binding = v41, os_fee_estimate = v42,
       os_funding_plan = v43, os_execution_intent = v44\<rparr>)))))))))))))))))))))))))))))))))))))))))))))"

end
