(* ===== verification/Order_Manager.thy ===== *)
theory Order_Manager
  imports Domain_Execution
begin

text \<open>
  The order manager of \<open>crates/order\<close>: the bounded readers of \<open>model.rs\<close>, the manager of
  \<open>manager.rs\<close> with every command, and checkpoint and restore of \<open>recovery.rs\<close>. A command is
  a JSON value; \<open>apply_command\<close> returns the new manager and the outcome, or the error with the
  manager unchanged. Indexing a map at a missing key is the error \<open>OrderPanic\<close>. The lazily
  filled checkpoint cache holds a function of the other fields and is not part of the state.
\<close>

section \<open>Readers (model.rs)\<close>

datatype order_error = OrderError string | OrderJsonError | OrderPanic

definition from_domain :: "domain_error + 'a \<Rightarrow> order_error + 'a" where
  "from_domain r = (case r of Inl e \<Rightarrow> Inl (OrderError (domain_error_text e)) | Inr x \<Rightarrow> Inr x)"

definition max_command_bytes :: nat where "max_command_bytes = 32768"
definition max_orders :: nat where "max_orders = 64"
definition max_journal_bytes :: nat where "max_journal_bytes = 4 * 1024 * 1024"
definition max_journal :: nat where "max_journal = 4096"
definition max_checkpoint :: nat where "max_checkpoint = 16 * 1024 * 1024"

definition digest :: "platform \<Rightarrow> nat list \<Rightarrow> rstr" where
  "digest pf bytes = hex_bytes (pf_sha256 pf bytes)"

definition json_hash :: "platform \<Rightarrow> json \<Rightarrow> rstr" where
  "json_hash pf value = digest pf (json_bytes pf value)"

definition order_row :: "json \<Rightarrow> string list \<Rightarrow> order_error + (rstr \<times> json) list" where
  "order_row value names =
     rbind (ok_or (as_object value) (OrderError ''ORDER_RECORD_REQUIRED'')) (\<lambda>r.
     if (case map_of r (str_lit ''schema_version'') of Some v \<Rightarrow> as_u64 v | None \<Rightarrow> None) \<noteq> Some 1
        \<or> length r \<noteq> length names + 1
        \<or> list_ex (\<lambda>f. \<not> bt_contains r (str_lit f)) names
     then Inl (OrderError ''ORDER_SCHEMA_OR_FIELDS_INVALID'') else Inr r)"

definition order_text :: "(rstr \<times> json) list \<Rightarrow> string \<Rightarrow> order_error + rstr" where
  "order_text r name =
     ok_or (case as_str (jfield r name) of
              Some s \<Rightarrow> if s \<noteq> [] \<and> str_len s \<le> 256 then Some s else None
            | None \<Rightarrow> None) (OrderError ''ORDER_TEXT_REQUIRED'')"

definition check_fingerprint :: "rstr \<Rightarrow> order_error + unit" where
  "check_fingerprint value =
     (if str_len value \<noteq> 64 \<or> \<not> list_all (\<lambda>b. is_digit b \<or> 97 \<le> b \<and> b \<le> 102) (str_bytes value)
      then Inl (OrderError ''ORDER_FINGERPRINT_INVALID'') else Inr ())"

definition order_integer :: "json \<Rightarrow> order_error + int" where
  "order_integer value =
     rbind (ok_or (as_number value) (OrderError ''ORDER_INTEGER_REQUIRED'')) (\<lambda>token.
     if str_len token > 64 then Inl (OrderError ''ORDER_INTEGER_BOUND'')
     else ok_or (int_parse token) (OrderError ''ORDER_INTEGER_REQUIRED''))"

definition order_time :: "(rstr \<times> json) list \<Rightarrow> string \<Rightarrow> order_error + timestamp" where
  "order_time r name = order_integer (jfield r name)"

definition decimal_bound :: "platform \<Rightarrow> decimal \<Rightarrow> order_error + unit" where
  "decimal_bound pf v =
     rbind (ok_or (lib_parse (pf_lib pf) (decimal_display v)) (OrderError ''ORDER_DECIMAL_INVALID'')) (\<lambda>b.
     if length (int_text (bd_coef b)) > 1024 \<or> bd_scale b < - 256 \<or> bd_scale b > 256
     then Inl (OrderError ''ORDER_ARITHMETIC_BOUND'') else Inr ())"

definition fee_amount_check :: "platform \<Rightarrow> (rstr \<times> json) list \<Rightarrow> order_error + unit" where
  "fee_amount_check pf row =
     (case (map_of row (str_lit ''currency''), map_of row (str_lit ''amount'')) of
        (Some _, Some amount) \<Rightarrow>
          rbind (ok_or (as_str amount) (OrderError ''ORDER_FEE_AMOUNT_INVALID'')) (\<lambda>token.
          rbind (from_domain (decimal_from_str (pf_lib pf) (pf_uni pf) token)) (decimal_bound pf))
      | _ \<Rightarrow> Inr ())"

function fee_amount_walk :: "platform \<Rightarrow> json list \<Rightarrow> order_error + unit" where
  "fee_amount_walk pf [] = Inr ()"
| "fee_amount_walk pf (v # pending) =
     (case v of
        JObject row \<Rightarrow> rbind (fee_amount_check pf row) (\<lambda>_. fee_amount_walk pf (rev (map snd row) @ pending))
      | JArray vs \<Rightarrow> fee_amount_walk pf (rev vs @ pending)
      | _ \<Rightarrow> fee_amount_walk pf pending)"
  by pat_completeness auto
termination
  by (relation "measure (\<lambda>(_, vs). sum_list (map json_weight vs))")
     (auto simp: comp_def rev_map [symmetric] sum_list_rev simp del: rev_map)

declare fee_amount_walk.simps(2) [simp del]

definition fee_amount_bounds :: "platform \<Rightarrow> json \<Rightarrow> order_error + unit" where
  "fee_amount_bounds pf value = fee_amount_walk pf [value]"

definition round_half_even :: "int \<Rightarrow> int \<Rightarrow> int" where
  "round_half_even n d =
     (let q = n div d; r = n mod d; twice = r * 2
      in if twice > d \<or> twice = d \<and> q mod 2 \<noteq> 0 then q + 1 else q)"

definition average :: "platform \<Rightarrow> decimal \<Rightarrow> decimal \<Rightarrow> nat \<Rightarrow> order_error + scalar" where
  "average pf amount quantity precision =
     rbind (decimal_bound pf amount) (\<lambda>_.
     rbind (decimal_bound pf quantity) (\<lambda>_.
     rbind (ok_or (lib_parse (pf_lib pf) (decimal_display amount)) (OrderError ''ORDER_DECIMAL_INVALID'')) (\<lambda>t.
     rbind (ok_or (lib_parse (pf_lib pf) (decimal_display quantity)) (OrderError ''ORDER_DECIMAL_INVALID'')) (\<lambda>q.
     if bd_coef t \<le> 0 \<or> bd_coef q \<le> 0 then Inl (OrderError ''ORDER_AVERAGE_INPUT_INVALID'')
     else let scale = int precision + bd_scale q - bd_scale t;
              n = (if scale \<ge> 0 then bd_coef t * 10 ^ nat scale else bd_coef t);
              d = (if scale \<ge> 0 then bd_coef q else bd_coef q * 10 ^ nat (- scale));
              units = round_half_even n d
          in rbind (from_domain (decimal_from_str (pf_lib pf) (pf_uni pf)
                     (lib_display (pf_lib pf) \<lparr>bd_coef = units, bd_scale = int precision\<rparr>))) (\<lambda>v.
             from_domain (scalar_new validate_precision v precision))))))"

datatype apply_result = Applied | Duplicate | Stale | Conflict | Invalid

record outcome =
  oc_result :: apply_result
  oc_snapshot :: "order_snapshot option"
  oc_fact :: "json option"

definition unchanged :: "apply_result \<Rightarrow> order_snapshot option \<Rightarrow> outcome" where
  "unchanged res snap = \<lparr>oc_result = res, oc_snapshot = snap, oc_fact = None\<rparr>"

section \<open>State (manager.rs)\<close>

datatype submission = NotDispatched | Dispatching | KnownResult | Unknown | Suppressed | Reconciling | Resolved

definition submissions :: "(submission \<times> string) list" where
  "submissions = [(NotDispatched, ''NOT_DISPATCHED''), (Dispatching, ''DISPATCHING''), (KnownResult, ''KNOWN_RESULT''),
     (Unknown, ''UNKNOWN''), (Suppressed, ''SUPPRESSED''), (Reconciling, ''RECONCILING''), (Resolved, ''RESOLVED'')]"

record entity =
  en_snapshot :: order_snapshot
  en_creation :: json
  en_outcome :: submission

record manager =
  mg_config :: json
  mg_orders :: "(rstr, entity) btree"
  mg_creation :: "rstr list"
  mg_requests :: "(rstr, rstr) btree"
  mg_cancels :: "(rstr, json) btree"
  mg_receipts :: "(rstr \<times> rstr, rstr) btree"
  mg_venues :: "(rstr \<times> rstr, rstr) btree"
  mg_journal :: "json list"
  mg_journal_bytes :: nat
  mg_sequence :: nat

definition canonical_config_id :: "(rstr \<times> json) list \<Rightarrow> string \<Rightarrow> order_error + unit" where
  "canonical_config_id r key =
     rbind (rbind (order_text r key) (\<lambda>t. from_domain (identifier_new ''OnlyIdentifier'' t))) (\<lambda>v.
     rbind (order_text r key) (\<lambda>t.
     if v \<noteq> t then Inl (OrderError ''ORDER_NONCANONICAL_CONFIG_ID'') else Inr ()))"

definition manager_new :: "json \<Rightarrow> order_error + manager" where
  "manager_new config =
     rbind (order_row config [''engine_id'', ''runtime_id'', ''gateway_id'', ''generation'']) (\<lambda>r.
     rbind (rbind (order_text r ''engine_id'') (\<lambda>t. from_domain (identifier_new ''OnlyEngineId'' t))) (\<lambda>_.
     rbind (rbind (order_text r ''runtime_id'') (\<lambda>t. from_domain (identifier_new ''OnlyRuntimeId'' t))) (\<lambda>_.
     rbind (rbind (order_text r ''gateway_id'') (\<lambda>t. from_domain (identifier_new ''OnlyIdentifier'' t))) (\<lambda>_.
     rbind (collect (canonical_config_id r) [''engine_id'', ''runtime_id'', ''gateway_id'']) (\<lambda>_.
     rbind (rbind (order_text r ''generation'') check_fingerprint) (\<lambda>_.
     Inr \<lparr>mg_config = config, mg_orders = [], mg_creation = [], mg_requests = [], mg_cancels = [], mg_receipts = [],
          mg_venues = [], mg_journal = [], mg_journal_bytes = 2, mg_sequence = 0\<rparr>))))))"

definition is_open :: "order_status \<Rightarrow> bool" where
  "is_open st = (st \<in> {Created, Submitted, Accepted, PartiallyFilled, PendingCancel})"

definition get_entity :: "manager \<Rightarrow> rstr \<Rightarrow> rstr \<Rightarrow> order_error + entity" where
  "get_entity m cluster order =
     rbind (ok_or (map_of (mg_orders m) order) (OrderError ''ORDER_NOT_FOUND'')) (\<lambda>e.
     if os_cluster_id (en_snapshot e) \<noteq> cluster then Inl (OrderError ''ORDER_SCOPE_MISMATCH'') else Inr e)"

definition order_get :: "manager \<Rightarrow> rstr \<Rightarrow> rstr \<Rightarrow> order_error + order_snapshot" where
  "order_get m cluster order = rbind (get_entity m cluster order) (\<lambda>e. Inr (en_snapshot e))"

definition order_submission :: "manager \<Rightarrow> rstr \<Rightarrow> rstr \<Rightarrow> order_error + submission" where
  "order_submission m cluster order = rbind (get_entity m cluster order) (\<lambda>e. Inr (en_outcome e))"

definition snapshots :: "manager \<Rightarrow> order_snapshot list" where
  "snapshots m = map en_snapshot (bt_values (mg_orders m))"

definition entities_in_creation_order :: "manager \<Rightarrow> entity list" where
  "entities_in_creation_order m = List.map_filter (map_of (mg_orders m)) (mg_creation m)"

definition open_orders :: "manager \<Rightarrow> rstr \<Rightarrow> order_snapshot list" where
  "open_orders m cluster =
     filter (\<lambda>s. os_cluster_id s = cluster \<and> is_open (os_status s)) (map en_snapshot (entities_in_creation_order m))"

definition recent_orders :: "manager \<Rightarrow> rstr \<Rightarrow> nat \<Rightarrow> order_error + order_snapshot list" where
  "recent_orders m cluster limit =
     (if limit = 0 \<or> limit > max_orders then Inl (OrderError ''ORDER_QUERY_BOUND'')
      else Inr (take limit (filter (\<lambda>s. os_cluster_id s = cluster)
             (map en_snapshot (List.map_filter (map_of (mg_orders m)) (rev (mg_creation m)))))))"

definition find_by_client :: "manager \<Rightarrow> rstr \<Rightarrow> rstr \<Rightarrow> order_error + order_snapshot option" where
  "find_by_client m cluster client =
     (case find (\<lambda>s. os_client_order_id s = client) (snapshots m) of
        Some s \<Rightarrow> rbind (order_get m cluster (os_order_id s)) (\<lambda>x. Inr (Some x))
      | None \<Rightarrow> Inr None)"

definition executable_remaining :: "platform \<Rightarrow> manager \<Rightarrow> rstr \<Rightarrow> rstr \<Rightarrow> order_error + scalar" where
  "executable_remaining pf m cluster order =
     rbind (order_get m cluster order) (\<lambda>s.
     if is_open (os_status s) then Inr (os_remaining_quantity s)
     else rbind (from_domain (decimal_from_str (pf_lib pf) (pf_uni pf) [48])) (\<lambda>zero.
          from_domain (quantity_new zero (sc_precision (os_quantity s)))))"

definition state_record :: "manager \<Rightarrow> order_error + json" where
  "state_record m =
     rbind (collect (\<lambda>ident. rbind (ok_or (map_of (mg_orders m) ident) OrderPanic) (\<lambda>e.
        Inr (jobject [(''snapshot'', order_snapshot_to_record (en_snapshot e)),
                      (''submission'', encode_enum submissions (en_outcome e)), (''creation'', en_creation e)])))
        (mg_creation m)) (\<lambda>orders.
     Inr (jobject [(''sequence'', jint (int (mg_sequence m))),
       (''receipts'', JArray (map (\<lambda>((acc, k), fp). JArray [JString acc, JString k, JString fp]) (mg_receipts m))),
       (''venues'', JArray (map (\<lambda>((acc, v), k). JArray [JString acc, JString v, JString k]) (mg_venues m))),
       (''cancels'', JObject (mg_cancels m)),
       (''orders'', JArray orders)]))"

definition checkpoint_record :: "manager \<Rightarrow> order_error + json" where
  "checkpoint_record m =
     rbind (state_record m) (\<lambda>st.
     Inr (jobject [(''schema_version'', jint 1), (''config'', mg_config m), (''journal'', JArray (mg_journal m)), (''state'', st)]))"

definition checkpoint :: "platform \<Rightarrow> manager \<Rightarrow> order_error + nat list \<times> rstr" where
  "checkpoint pf m =
     rbind (checkpoint_record m) (\<lambda>rec. let bytes = json_bytes pf rec in Inr (bytes, digest pf bytes))"

section \<open>Committing (manager.rs)\<close>

definition capacity :: "platform \<Rightarrow> manager \<Rightarrow> nat \<Rightarrow> order_snapshot \<Rightarrow> bool \<Rightarrow> order_error + unit" where
  "capacity pf m sz snap increasing =
     rbind (if \<not> increasing then Inr False
            else if length (mg_journal m) \<ge> max_journal then Inr True
            else if mg_journal_bytes m + sz + 1 > max_journal_bytes then Inr True
            else rbind (checkpoint pf m) (\<lambda>(bytes, _). Inr (length bytes + sz > max_checkpoint))) (\<lambda>full.
     if full \<or> str_len (pf_json_text pf (order_snapshot_to_record snap)) > 65536
     then Inl (OrderError ''ORDER_CAPACITY_EXHAUSTED'') else Inr ())"

definition commit :: "json \<Rightarrow> nat \<Rightarrow> manager \<Rightarrow> manager" where
  "commit value sz m =
     m\<lparr>mg_journal := mg_journal m @ [value], mg_journal_bytes := mg_journal_bytes m + (sz + 1),
       mg_sequence := mg_sequence m + 1\<rparr>"

definition prepare_result ::
  "platform \<Rightarrow> manager \<Rightarrow> rstr \<Rightarrow> order_snapshot \<Rightarrow> json \<Rightarrow> json \<Rightarrow> submission \<Rightarrow> order_error + outcome" where
  "prepare_result pf m op snap input creation sub =
     (if mg_sequence m + 1 \<ge> 2 ^ 64 then Inl (OrderError ''ORDER_SEQUENCE_EXHAUSTED'')
      else Inr \<lparr>oc_result = Applied, oc_snapshot = Some snap,
             oc_fact = Some (jobject [(''schema_version'', jint 1), (''sequence'', jint (int (mg_sequence m + 1))),
               (''op'', JString op), (''config'', mg_config m), (''input_fingerprint'', JString (json_hash pf input)),
               (''cause'', jindex creation ''cause''), (''submission_outcome'', encode_enum submissions sub),
               (''snapshot'', order_snapshot_to_record snap)])\<rparr>)"

section \<open>Creation (manager.rs)\<close>

definition pad6 :: "nat \<Rightarrow> rstr" where
  "pad6 n = zero_pad 6 (nat_digits n)"

definition remove_member :: "json \<Rightarrow> string \<Rightarrow> order_error + json" where
  "remove_member v name = (case v of
      JObject ms \<Rightarrow> Inr (JObject (bt_remove (str_lit name) ms))
    | _ \<Rightarrow> Inl (OrderError ''ORDER_RECORD_REQUIRED''))"

definition opens_position :: "order_request \<Rightarrow> bool" where
  "opens_position rq =
     (jindex (jindex (order_request_to_record rq) ''execution_intent'') ''position_effect'' \<noteq> JString (str_lit ''CLOSE''))"

definition initial_snapshot ::
  "rstr \<Rightarrow> rstr \<Rightarrow> rstr \<Rightarrow> rstr \<Rightarrow> rstr \<Rightarrow> order_request \<Rightarrow> timestamp \<Rightarrow> scalar \<Rightarrow> decimal \<Rightarrow> order_snapshot" where
  "initial_snapshot order client runtime cluster account rq now zero cumulative =
     \<lparr>os_order_id = order, os_request_id = rq_request_id rq, os_client_order_id = client, os_venue_order_id = None,
      os_runtime_id = runtime, os_cluster_id = cluster, os_account_id = account, os_instrument_id = rq_instrument_id rq,
      os_side = rq_side rq, os_offset = rq_offset rq, os_order_type = rq_order_type rq,
      os_time_in_force = rq_time_in_force rq, os_quantity = rq_quantity rq, os_price = rq_price rq,
      os_stop_price = rq_stop_price rq, os_expire_time = rq_expire_time rq, os_status = Created,
      os_filled_quantity = zero, os_remaining_quantity = rq_quantity rq, os_average_fill_price = None,
      os_created_at = now, os_updated_at = now, os_submitted_at = None, os_accepted_at = None,
      os_cancel_requested_at = None, os_cancelled_at = None, os_filled_at = None, os_rejected_at = None,
      os_expired_at = None, os_failed_at = None, os_version = 1, os_last_external_sequence = None,
      os_rejection = None, os_failure = None, os_tags = rq_tags rq, os_metadata = rq_metadata rq, os_fill_count = 0,
      os_cumulative_price_quantity = cumulative, os_last_trade_id = None, os_historical_fill_identity_missing = False,
      os_fee_policy_binding = None, os_fee_estimate = None, os_funding_plan = None,
      os_execution_intent = rq_execution_intent rq\<rparr>"

definition create_check ::
  "platform \<Rightarrow> json \<Rightarrow> order_error + rstr \<times> rstr \<times> order_request \<times> timestamp" where
  "create_check pf value =
     rbind (order_row value [''op'', ''cluster_id'', ''account_id'', ''request'', ''cause'', ''at'']) (\<lambda>r.
     rbind (order_text r ''cluster_id'') (\<lambda>ct.
     rbind (from_domain (identifier_new ''OnlyClusterId'' ct)) (\<lambda>cluster.
     rbind (order_text r ''account_id'') (\<lambda>at0.
     rbind (from_domain (identifier_new ''OnlyAccountId'' at0)) (\<lambda>account.
     rbind (rbind (order_text r ''cause'') check_fingerprint) (\<lambda>_.
     if cluster \<noteq> ct \<or> account \<noteq> at0 then Inl (OrderError ''ORDER_NONCANONICAL_SCOPE_ID'')
     else rbind (from_domain (order_request_from_record pf (jfield r ''request''))) (\<lambda>rq.
     if order_request_to_record rq \<noteq> jfield r ''request''
        \<or> (case rq_account_id rq of Some a \<Rightarrow> a \<noteq> account | None \<Rightarrow> False)
     then Inl (OrderError ''ORDER_REQUEST_SCOPE_OR_RECORD_INVALID'')
     else rbind (decimal_bound pf (sc_value (rq_quantity rq))) (\<lambda>_.
     rbind (case rq_price rq of Some p \<Rightarrow> decimal_bound pf (sc_value p) | None \<Rightarrow> Inr ()) (\<lambda>_.
     rbind (order_time r ''at'') (\<lambda>now.
     Inr (cluster, account, rq, now)))))))))))"

definition create_order :: "platform \<Rightarrow> manager \<Rightarrow> json \<Rightarrow> nat \<Rightarrow> order_error + manager \<times> outcome" where
  "create_order pf m value sz =
     rbind (create_check pf value) (\<lambda>(cluster, account, rq, now).
     rbind (remove_member value ''at'') (\<lambda>identity.
     case map_of (mg_requests m) (rq_request_id rq) of
       Some ident \<Rightarrow>
         rbind (ok_or (map_of (mg_orders m) ident) OrderPanic) (\<lambda>e.
         Inr (m, unchanged (if en_creation e = identity then Duplicate else Conflict) (Some (en_snapshot e))))
     | None \<Rightarrow>
         if (case rq_expire_time rq of Some t \<Rightarrow> t \<le> now | None \<Rightarrow> False) then Inl (OrderError ''ORDER_EXPIRY_INVALID'')
         else if length (mg_creation m) \<ge> max_orders \<and> opens_position rq
         then Inl (OrderError ''ORDER_CAPACITY_EXHAUSTED'')
         else
         rbind (ok_or (as_str (jindex (mg_config m) ''runtime_id'')) (OrderError ''ORDER_CONFIG_INVALID'')) (\<lambda>rt.
         rbind (from_domain (identifier_new ''OnlyRuntimeId'' rt)) (\<lambda>runtime.
         let next = length (mg_creation m) + 1 in
         rbind (from_domain (identifier_new ''OnlyOrderId'' (runtime @ str_lit ''-ORDER-'' @ pad6 next))) (\<lambda>order.
         rbind (from_domain (identifier_new ''OnlyClientOrderId'' (runtime @ str_lit ''-CLIENT-'' @ pad6 next))) (\<lambda>client.
         rbind (from_domain (decimal_from_str (pf_lib pf) (pf_uni pf) [48])) (\<lambda>zero.
         rbind (from_domain (quantity_new zero (sc_precision (rq_quantity rq)))) (\<lambda>q.
         rbind (from_domain (decimal_from_str (pf_lib pf) (pf_uni pf) [48])) (\<lambda>cumulative.
         rbind (from_domain (order_snapshot_new pf (initial_snapshot order client runtime cluster account rq now q cumulative))) (\<lambda>s.
         rbind (capacity pf m sz s (opens_position rq)) (\<lambda>_.
         rbind (prepare_result pf m (str_lit ''CREATE'') s value identity NotDispatched) (\<lambda>res.
         Inr (commit value sz (m\<lparr>
               mg_requests := bt_insert (rq_request_id rq) order (mg_requests m),
               mg_creation := mg_creation m @ [order],
               mg_orders := bt_insert order \<lparr>en_snapshot = s, en_creation = identity, en_outcome = NotDispatched\<rparr> (mg_orders m)\<rparr>),
              res)))))))))))))"

section \<open>Commands (manager.rs)\<close>

datatype order_op = OpFee | OpBeginSubmit | OpSubmitResult | OpReconcile | OpCancel | OpFail
  | OpAccept | OpFill | OpCancelled | OpRejected | OpExpired | OpFailed

definition order_ops :: "(order_op \<times> string) list" where
  "order_ops = [(OpFee, ''FEE''), (OpBeginSubmit, ''BEGIN_SUBMIT''), (OpSubmitResult, ''SUBMIT_RESULT''),
     (OpReconcile, ''RECONCILE''), (OpCancel, ''CANCEL''), (OpFail, ''FAIL''), (OpAccept, ''ACCEPT''), (OpFill, ''FILL''),
     (OpCancelled, ''CANCELLED''), (OpRejected, ''REJECTED''), (OpExpired, ''EXPIRED''), (OpFailed, ''FAILED'')]"

definition op_parse :: "rstr \<Rightarrow> order_op option" where
  "op_parse s = map_option fst (find (\<lambda>(_, t). str_lit t = s) order_ops)"

definition external_op :: "order_op \<Rightarrow> bool" where
  "external_op op = (op \<in> {OpAccept, OpFill, OpCancelled, OpRejected, OpExpired, OpFailed})"

definition external_names :: "string list" where
  "external_names = [''runtime_id'', ''gateway_id'', ''generation'', ''account_id'', ''event_at'', ''event_id'', ''sequence'']"

definition extra_names :: "order_op \<Rightarrow> string list" where
  "extra_names op = (case op of
      OpFee \<Rightarrow> [''contract'']
    | OpBeginSubmit \<Rightarrow> []
    | OpReconcile \<Rightarrow> []
    | OpSubmitResult \<Rightarrow> [''outcome'']
    | OpCancel \<Rightarrow> [''request'']
    | OpFail \<Rightarrow> [''failure'']
    | OpAccept \<Rightarrow> external_names @ [''venue_order_id'']
    | OpFill \<Rightarrow> external_names @ [''fill'']
    | OpCancelled \<Rightarrow> external_names
    | OpExpired \<Rightarrow> external_names
    | OpRejected \<Rightarrow> external_names @ [''rejection'']
    | OpFailed \<Rightarrow> external_names @ [''failure''])"

record external_facts =
  xf_venue :: "rstr option"
  xf_keys :: "(rstr \<times> rstr) list"
  xf_sequence :: "int option"

definition external_sequence :: "json \<Rightarrow> order_error + int option" where
  "external_sequence v =
     (if v = JNull then Inr None
      else rbind (order_integer v) (\<lambda>q. if q < 0 then Inl (OrderError ''ORDER_SEQUENCE_INVALID'') else Inr (Some q)))"

definition fill_envelope ::
  "platform \<Rightarrow> (rstr \<times> json) list \<Rightarrow> order_snapshot \<Rightarrow> timestamp \<Rightarrow> timestamp \<Rightarrow> rstr \<Rightarrow> int option \<Rightarrow> order_error + order_fill" where
  "fill_envelope pf r s now event_time event q =
     rbind (from_domain (order_fill_from_record pf (jfield r ''fill''))) (\<lambda>f.
     if order_fill_to_record f \<noteq> jfield r ''fill'' \<or> fi_order_id f \<noteq> os_order_id s \<or> fi_ts_event f \<noteq> event_time
        \<or> fi_ts_init f \<noteq> now \<or> fi_external_sequence f \<noteq> q \<or> fi_external_event_id f \<noteq> Some event
     then Inl (OrderError ''ORDER_FILL_ENVELOPE_MISMATCH'')
     else rbind (decimal_bound pf (sc_value (fi_price f))) (\<lambda>_.
     rbind (decimal_bound pf (sc_value (fi_quantity f))) (\<lambda>_. Inr f)))"

definition fill_keys :: "rstr \<Rightarrow> order_fill \<Rightarrow> (rstr \<times> rstr) list" where
  "fill_keys account f =
     (account, str_lit ''TRADE:'' @ fi_trade_id f)
     # (case fi_venue_trade_id f of Some t \<Rightarrow> [(account, str_lit ''VENUE_TRADE:'' @ t)] | None \<Rightarrow> [])"

definition external_envelope ::
  "platform \<Rightarrow> manager \<Rightarrow> (rstr \<times> json) list \<Rightarrow> order_op \<Rightarrow> order_snapshot \<Rightarrow> timestamp \<Rightarrow> order_error + external_facts" where
  "external_envelope pf m r op s now =
     (if list_ex (\<lambda>key. jfield r key \<noteq> jindex (mg_config m) key) [''runtime_id'', ''gateway_id'', ''generation'']
      then Inl (OrderError ''ORDER_EXTERNAL_CONTEXT_MISMATCH'')
      else rbind (order_text r ''account_id'') (\<lambda>account.
      if account \<noteq> os_account_id s then Inl (OrderError ''ORDER_ACCOUNT_SCOPE_MISMATCH'')
      else rbind (order_time r ''event_at'') (\<lambda>event_time.
      if now < event_time \<or> event_time < os_created_at s then Inl (OrderError ''ORDER_EXTERNAL_TIME_INVALID'')
      else rbind (order_text r ''event_id'') (\<lambda>event.
      rbind (from_domain (identifier_new ''OnlyIdentifier'' event)) (\<lambda>ident.
      if ident \<noteq> event then Inl (OrderError ''ORDER_NONCANONICAL_EVENT_ID'')
      else rbind (external_sequence (jfield r ''sequence'')) (\<lambda>q.
      let base = \<lparr>xf_venue = None, xf_keys = [(os_account_id s, str_lit ''EVENT:'' @ event)], xf_sequence = q\<rparr> in
      if op = OpAccept then
        rbind (rbind (order_text r ''venue_order_id'') (\<lambda>t. from_domain (identifier_new ''OnlyVenueOrderId'' t))) (\<lambda>v.
        Inr (base\<lparr>xf_venue := Some v\<rparr>))
      else if op = OpFill then
        rbind (fill_envelope pf r s now event_time event q) (\<lambda>f.
        Inr (base\<lparr>xf_venue := fi_venue_order_id f, xf_keys := xf_keys base @ fill_keys (os_account_id s) f\<rparr>))
      else Inr base))))))"

definition external_gate ::
  "platform \<Rightarrow> manager \<Rightarrow> json \<Rightarrow> rstr \<Rightarrow> order_snapshot \<Rightarrow> submission \<Rightarrow> external_facts \<Rightarrow> apply_result option" where
  "external_gate pf m value ident s sub x =
     (let fp = json_hash pf value; seen = List.map_filter (map_of (mg_receipts m)) (xf_keys x) in
      if list_ex (\<lambda>old. old \<noteq> fp) seen then Some Conflict
      else if seen \<noteq> [] then Some Duplicate
      else if (case xf_venue x of
          Some v \<Rightarrow> (case os_venue_order_id s of Some old \<Rightarrow> old \<noteq> v | None \<Rightarrow> False)
            \<or> (case map_of (mg_venues m) (os_account_id s, v) of Some owner \<Rightarrow> owner \<noteq> ident | None \<Rightarrow> False)
        | None \<Rightarrow> False) then Some Conflict
      else case (os_last_external_sequence s, xf_sequence x) of
          (Some previous, Some incoming) \<Rightarrow>
            if incoming < previous then Some Stale
            else if incoming = previous then Some Conflict
            else if sub \<in> {NotDispatched, Suppressed} then Some Invalid else None
        | _ \<Rightarrow> if sub \<in> {NotDispatched, Suppressed} then Some Invalid else None)"

text \<open>What a command's own transition does: an early result, or the changed order.\<close>

type_synonym flow = "order_error + apply_result + order_snapshot \<times> submission \<times> (rstr \<times> json) option"

definition early :: "apply_result \<Rightarrow> flow" where
  "early res = Inr (Inl res)"

definition proceed :: "order_snapshot \<Rightarrow> submission \<Rightarrow> flow" where
  "proceed s sub = Inr (Inr (s, sub, None))"

definition do_fee ::
  "platform \<Rightarrow> (rstr \<times> json) list \<Rightarrow> order_snapshot \<Rightarrow> submission \<Rightarrow> timestamp \<Rightarrow> flow" where
  "do_fee pf r s sub now =
     rbind (order_row (jfield r ''contract'') [''binding'', ''estimate'', ''funding'']) (\<lambda>c.
     rbind (fee_amount_bounds pf (jfield r ''contract'')) (\<lambda>_.
     rbind (from_domain (fee_binding_from_record pf (jfield c ''binding''))) (\<lambda>binding.
     rbind (from_domain (fee_estimate_from_record pf (jfield c ''estimate''))) (\<lambda>estimate.
     rbind (from_domain (funding_plan_from_record pf (jfield c ''funding''))) (\<lambda>funding.
     if os_status s \<noteq> Created \<or> sub \<noteq> NotDispatched then early Invalid
     else if os_fee_policy_binding s \<noteq> None then
       early (if os_fee_policy_binding s = Some binding
            \<and> (case os_fee_estimate s of Some e \<Rightarrow> fee_estimate_eq (pf_lib pf) e estimate | None \<Rightarrow> False)
            \<and> (case os_funding_plan s of Some p \<Rightarrow> funding_plan_eq (pf_lib pf) p funding | None \<Rightarrow> False)
          then Duplicate else Conflict)
     else if bi_bound_at binding < os_created_at s \<or> bi_bound_at binding > now then Inl (OrderError ''ORDER_FEE_TIME_INVALID'')
     else proceed (s\<lparr>os_fee_policy_binding := Some binding, os_fee_estimate := Some estimate, os_funding_plan := Some funding\<rparr>) sub)))))"

definition do_begin_submit :: "order_snapshot \<Rightarrow> submission \<Rightarrow> timestamp \<Rightarrow> flow" where
  "do_begin_submit s sub now =
     (if os_status s \<noteq> Created \<or> sub \<noteq> NotDispatched \<or> os_fee_policy_binding s = None then early Invalid
      else if (case os_expire_time s of Some t \<Rightarrow> t \<le> now | None \<Rightarrow> False) then early Invalid
      else proceed (s\<lparr>os_status := Submitted, os_submitted_at := Some now\<rparr>) Dispatching)"

definition suppressed_failure :: "platform \<Rightarrow> domain_error + order_failure" where
  "suppressed_failure pf =
     order_failure_from_record pf (jobject [(''schema_version'', jint 1),
       (''code'', JString (str_lit ''SUBMISSION_SUPPRESSED'')), (''message'', JString (str_lit ''explicitly not dispatched''))])"

definition submission_parse :: "rstr \<Rightarrow> submission option" where
  "submission_parse t = map_option fst (find (\<lambda>(_, x). str_lit x = t) submissions)"

definition do_submit_result ::
  "platform \<Rightarrow> (rstr \<times> json) list \<Rightarrow> order_snapshot \<Rightarrow> submission \<Rightarrow> timestamp \<Rightarrow> flow" where
  "do_submit_result pf r s sub now =
     rbind (order_text r ''outcome'') (\<lambda>t.
     case submission_parse t of
       None \<Rightarrow> Inl (OrderError ''ORDER_SUBMIT_OUTCOME_INVALID'')
     | Some next \<Rightarrow>
         if next \<notin> {KnownResult, Unknown, Suppressed} then Inl (OrderError ''ORDER_SUBMIT_OUTCOME_INVALID'')
         else if next = sub then early Duplicate
         else if \<not> (sub = Dispatching \<and> next \<in> {KnownResult, Unknown} \<or> sub = NotDispatched \<and> next = Suppressed)
         then early Invalid
         else if next = Suppressed then
           rbind (from_domain (suppressed_failure pf)) (\<lambda>f.
           proceed (s\<lparr>os_status := Failed, os_failed_at := Some now, os_failure := Some f\<rparr>) next)
         else proceed s next)"

definition do_reconcile :: "order_snapshot \<Rightarrow> submission \<Rightarrow> flow" where
  "do_reconcile s sub =
     (if sub = Reconciling then early Duplicate else if sub \<noteq> Unknown then early Invalid else proceed s Reconciling)"

definition do_cancel ::
  "platform \<Rightarrow> manager \<Rightarrow> (rstr \<times> json) list \<Rightarrow> rstr \<Rightarrow> order_snapshot \<Rightarrow> submission \<Rightarrow> timestamp \<Rightarrow> flow" where
  "do_cancel pf m r cluster s sub now =
     rbind (from_domain (cancel_request_from_record pf (jfield r ''request''))) (\<lambda>rq.
     if cancel_request_to_record rq \<noteq> jfield r ''request'' \<or> cr_order_id rq \<noteq> os_order_id s
     then Inl (OrderError ''ORDER_CANCEL_SCOPE_MISMATCH'')
     else let identity = jobject [(''cluster_id'', JString cluster), (''request'', cancel_request_to_record rq)] in
     case map_of (mg_cancels m) (cr_request_id rq) of
       Some previous \<Rightarrow> early (if previous = identity then Duplicate else Conflict)
     | None \<Rightarrow>
         if os_status s = PendingCancel then early Invalid
         else if os_status s \<notin> {Submitted, Accepted, PartiallyFilled} then early Invalid
         else Inr (Inr (s\<lparr>os_status := PendingCancel, os_cancel_requested_at := Some now\<rparr>, sub, Some (cr_request_id rq, identity))))"

definition do_fail ::
  "platform \<Rightarrow> (rstr \<times> json) list \<Rightarrow> order_snapshot \<Rightarrow> submission \<Rightarrow> timestamp \<Rightarrow> flow" where
  "do_fail pf r s sub now =
     rbind (from_domain (order_failure_from_record pf (jfield r ''failure''))) (\<lambda>f.
     if os_status s \<noteq> Created \<or> sub \<noteq> NotDispatched then early Invalid
     else proceed (s\<lparr>os_status := Failed, os_failed_at := Some now, os_failure := Some f\<rparr>) Suppressed)"

definition do_accept :: "order_snapshot \<Rightarrow> submission \<Rightarrow> timestamp \<Rightarrow> rstr option \<Rightarrow> flow" where
  "do_accept s sub now venue =
     (if os_status s \<notin> {Submitted, Accepted, PartiallyFilled, PendingCancel, Filled, Cancelled} then early Invalid
      else if os_status s \<noteq> Submitted \<and> os_venue_order_id s = venue then early Duplicate
      else if os_status s = Submitted then proceed (s\<lparr>os_status := Accepted, os_accepted_at := Some now\<rparr>) sub
      else proceed s sub)"

definition opt_precision :: "scalar option \<Rightarrow> nat" where
  "opt_precision p = (case p of Some x \<Rightarrow> sc_precision x | None \<Rightarrow> 0)"

definition filled_order :: "order_snapshot \<Rightarrow> order_fill \<Rightarrow> scalar \<Rightarrow> decimal \<Rightarrow> scalar \<Rightarrow> scalar \<Rightarrow> order_snapshot" where
  "filled_order s f avg amount filled remaining =
     s\<lparr>os_average_fill_price := Some avg, os_cumulative_price_quantity := amount, os_filled_quantity := filled,
       os_remaining_quantity := remaining, os_fill_count := os_fill_count s + 1, os_last_trade_id := Some (fi_trade_id f)\<rparr>"

definition fill_effect ::
  "platform \<Rightarrow> order_snapshot \<Rightarrow> order_fill \<Rightarrow> order_error + (scalar \<times> decimal \<times> scalar \<times> scalar) option" where
  "fill_effect pf s f =
     (if sc_precision (fi_quantity f) \<noteq> sc_precision (os_quantity s) then Inr None
      else rbind (from_domain (quantity_add (pf_lib pf) (os_filled_quantity s) (fi_quantity f))) (\<lambda>filled.
      if decimal_cmp (pf_lib pf) (sc_value filled) (sc_value (os_quantity s)) = Greater then Inr None
      else rbind (from_domain (only_multiply (pf_lib pf) (sc_value (fi_price f)) (sc_value (fi_quantity f)))) (\<lambda>product.
      rbind (from_domain (only_add (pf_lib pf) (os_cumulative_price_quantity s) product)) (\<lambda>amount.
      rbind (decimal_bound pf amount) (\<lambda>_.
      rbind (average pf amount (sc_value filled)
        (max (max (sc_precision (fi_price f)) (opt_precision (os_price s))) (opt_precision (os_average_fill_price s)))) (\<lambda>avg.
      rbind (from_domain (quantity_subtract (pf_lib pf) (os_quantity s) filled)) (\<lambda>remaining.
      Inr (Some (filled, amount, avg, remaining)))))))))"

definition do_fill :: "platform \<Rightarrow> (rstr \<times> json) list \<Rightarrow> order_snapshot \<Rightarrow> submission \<Rightarrow> flow" where
  "do_fill pf r s sub =
     (if os_status s \<notin> {Submitted, Accepted, PartiallyFilled, PendingCancel} then early Invalid
      else rbind (from_domain (order_fill_from_record pf (jfield r ''fill''))) (\<lambda>f.
      rbind (fill_effect pf s f) (\<lambda>effect. case effect of
        None \<Rightarrow> early Invalid
      | Some (filled, amount, avg, remaining) \<Rightarrow>
          let s1 = filled_order s f avg amount filled remaining in
          if is_zero (sc_value remaining) then
            rbind (order_time r ''event_at'') (\<lambda>t. proceed (s1\<lparr>os_status := Filled, os_filled_at := Some t\<rparr>) sub)
          else if os_status s \<noteq> PendingCancel then proceed (s1\<lparr>os_status := PartiallyFilled\<rparr>) sub
          else proceed s1 sub)))"

definition close_target :: "order_op \<Rightarrow> order_status" where
  "close_target op = (case op of
      OpCancelled \<Rightarrow> Cancelled | OpRejected \<Rightarrow> Rejected | OpExpired \<Rightarrow> Expired | _ \<Rightarrow> Failed)"

definition do_close ::
  "platform \<Rightarrow> (rstr \<times> json) list \<Rightarrow> order_op \<Rightarrow> order_snapshot \<Rightarrow> submission \<Rightarrow> timestamp \<Rightarrow> flow" where
  "do_close pf r op s sub now =
     (let target = close_target op in
      rbind (if op = OpRejected then rbind (from_domain (order_rejection_from_record pf (jfield r ''rejection''))) (\<lambda>x. Inr (Some x))
             else Inr None) (\<lambda>rejection.
      rbind (if op = OpFailed then rbind (from_domain (order_failure_from_record pf (jfield r ''failure''))) (\<lambda>x. Inr (Some x))
             else Inr None) (\<lambda>failure.
      if os_status s = target then
        early (if op = OpRejected \<and> os_rejection s \<noteq> rejection \<or> op = OpFailed \<and> os_failure s \<noteq> failure
               then Conflict else Duplicate)
      else if os_status s \<notin> {Submitted, Accepted, PartiallyFilled, PendingCancel} \<or> op = OpExpired \<and> os_status s = Submitted
      then early Invalid
      else case target of
          Cancelled \<Rightarrow> proceed (s\<lparr>os_status := target, os_cancelled_at := Some now\<rparr>) sub
        | Rejected \<Rightarrow> proceed (s\<lparr>os_status := target, os_rejected_at := Some now, os_rejection := rejection\<rparr>) sub
        | Expired \<Rightarrow> proceed (s\<lparr>os_status := target, os_expired_at := Some now\<rparr>) sub
        | _ \<Rightarrow> proceed (s\<lparr>os_status := target, os_failed_at := Some now, os_failure := failure\<rparr>) sub)))"

definition transition ::
  "platform \<Rightarrow> manager \<Rightarrow> (rstr \<times> json) list \<Rightarrow> order_op \<Rightarrow> rstr \<Rightarrow> order_snapshot \<Rightarrow> submission \<Rightarrow> timestamp \<Rightarrow> rstr option \<Rightarrow> flow" where
  "transition pf m r op cluster s sub now venue = (case op of
      OpFee \<Rightarrow> do_fee pf r s sub now
    | OpBeginSubmit \<Rightarrow> do_begin_submit s sub now
    | OpSubmitResult \<Rightarrow> do_submit_result pf r s sub now
    | OpReconcile \<Rightarrow> do_reconcile s sub
    | OpCancel \<Rightarrow> do_cancel pf m r cluster s sub now
    | OpFail \<Rightarrow> do_fail pf r s sub now
    | OpAccept \<Rightarrow> do_accept s sub now venue
    | OpFill \<Rightarrow> do_fill pf r s sub
    | _ \<Rightarrow> do_close pf r op s sub now)"

definition no_facts :: external_facts where
  "no_facts = \<lparr>xf_venue = None, xf_keys = [], xf_sequence = None\<rparr>"

text \<open>The tail of \<open>apply\<close>: stamp the order, validate it, and commit every map at once.\<close>

definition stamp :: "order_op \<Rightarrow> timestamp \<Rightarrow> external_facts \<Rightarrow> order_snapshot \<Rightarrow> order_snapshot" where
  "stamp op now x s =
     (let s1 = (case xf_venue x of Some v \<Rightarrow> s\<lparr>os_venue_order_id := Some v\<rparr> | None \<Rightarrow> s);
          s2 = (if external_op op \<and> xf_sequence x \<noteq> None then s1\<lparr>os_last_external_sequence := xf_sequence x\<rparr> else s1)
      in s2\<lparr>os_updated_at := max (os_updated_at s2) now, os_version := os_version s2 + 1\<rparr>)"

definition install_order ::
  "platform \<Rightarrow> json \<Rightarrow> rstr \<Rightarrow> entity \<Rightarrow> external_facts \<Rightarrow> (rstr \<times> json) option \<Rightarrow> manager \<Rightarrow> manager" where
  "install_order pf value ident e x cancel m =
     m\<lparr>mg_venues := (case xf_venue x of Some v \<Rightarrow> bt_insert (os_account_id (en_snapshot e), v) ident (mg_venues m) | None \<Rightarrow> mg_venues m),
       mg_cancels := (case cancel of Some (k, identity) \<Rightarrow> bt_insert k identity (mg_cancels m) | None \<Rightarrow> mg_cancels m),
       mg_receipts := fold (\<lambda>k rs. bt_insert k (json_hash pf value) rs) (xf_keys x) (mg_receipts m),
       mg_orders := bt_insert ident e (mg_orders m)\<rparr>"

definition finish ::
  "platform \<Rightarrow> manager \<Rightarrow> json \<Rightarrow> nat \<Rightarrow> order_op \<Rightarrow> rstr \<Rightarrow> rstr \<Rightarrow> entity \<Rightarrow> timestamp \<Rightarrow> external_facts
   \<Rightarrow> order_snapshot \<times> submission \<times> (rstr \<times> json) option \<Rightarrow> order_error + manager \<times> outcome" where
  "finish pf m value sz op opt ident e now x changed =
     (case changed of (s, sub, cancel) \<Rightarrow>
      if \<not> external_op op \<and> now < os_updated_at s then Inr (m, unchanged Stale (Some (en_snapshot e)))
      else rbind (from_domain (order_snapshot_new pf (stamp op now x s))) (\<lambda>snap.
      let sub1 = (if external_op op then Resolved else sub);
          e1 = \<lparr>en_snapshot = snap, en_creation = en_creation e, en_outcome = sub1\<rparr> in
      rbind (prepare_result pf m opt snap value (en_creation e) sub1) (\<lambda>res.
      rbind (capacity pf m sz snap False) (\<lambda>_.
      Inr (commit value sz (install_order pf value ident e1 x cancel m), res)))))"

definition apply_update :: "platform \<Rightarrow> manager \<Rightarrow> json \<Rightarrow> nat \<Rightarrow> rstr \<Rightarrow> order_op \<Rightarrow> order_error + manager \<times> outcome" where
  "apply_update pf m value sz opt op =
     rbind (order_row value ([''op'', ''cluster_id'', ''order_id'', ''at''] @ extra_names op)) (\<lambda>r.
     rbind (order_text r ''cluster_id'') (\<lambda>cluster.
     rbind (order_text r ''order_id'') (\<lambda>ident.
     rbind (get_entity m cluster ident) (\<lambda>e.
     rbind (order_time r ''at'') (\<lambda>now.
     let s = en_snapshot e; sub = en_outcome e in
     rbind (if external_op op then external_envelope pf m r op s now else Inr no_facts) (\<lambda>x.
     case (if external_op op then external_gate pf m value ident s sub x else None) of
       Some res \<Rightarrow> Inr (m, unchanged res (Some s))
     | None \<Rightarrow>
         rbind (transition pf m r op cluster s sub now (xf_venue x)) (\<lambda>flow.
         case flow of
           Inl res \<Rightarrow> Inr (m, unchanged res (Some s))
         | Inr changed \<Rightarrow> finish pf m value sz op opt ident e now x changed)))))))"

definition apply_command :: "platform \<Rightarrow> manager \<Rightarrow> json \<Rightarrow> order_error + manager \<times> outcome" where
  "apply_command pf m value =
     (let sz = str_len (pf_json_text pf value) in
      if sz > max_command_bytes then Inl (OrderError ''ORDER_COMMAND_BOUND'')
      else rbind (ok_or (as_object value) (OrderError ''ORDER_RECORD_REQUIRED'')) (\<lambda>object.
      rbind (order_text object ''op'') (\<lambda>opt.
      if opt = str_lit ''CREATE'' then create_order pf m value sz
      else rbind (ok_or (op_parse opt) (OrderError ''ORDER_OPERATION_UNKNOWN'')) (apply_update pf m value sz opt))))"

section \<open>Recovery (recovery.rs)\<close>

fun replay :: "platform \<Rightarrow> manager \<Rightarrow> json list \<Rightarrow> order_error + manager" where
  "replay pf m [] = Inr m"
| "replay pf m (item # items) =
     rbind (apply_command pf m item) (\<lambda>(m1, oc).
     if oc_result oc \<noteq> Applied then Inl (OrderError ''ORDER_CHECKPOINT_REPLAY_NOT_APPLIED'') else replay pf m1 items)"

definition restore_manager :: "platform \<Rightarrow> manager \<Rightarrow> nat list \<Rightarrow> rstr \<Rightarrow> order_error + manager" where
  "restore_manager pf m bytes expected =
     rbind (check_fingerprint expected) (\<lambda>_.
     if digest pf bytes \<noteq> expected then Inl (OrderError ''ORDER_CHECKPOINT_DIGEST_OR_BOUND'')
     else rbind (ok_or (pf_json_parse pf bytes) OrderJsonError) (\<lambda>value.
     rbind (order_row value [''config'', ''journal'', ''state'']) (\<lambda>r.
     if json_bytes pf value \<noteq> bytes \<or> jfield r ''config'' \<noteq> mg_config m
     then Inl (OrderError ''ORDER_CHECKPOINT_NONCANONICAL_OR_CONTEXT'')
     else rbind (ok_or (as_array (jfield r ''journal'')) (OrderError ''ORDER_CHECKPOINT_JOURNAL_INVALID'')) (\<lambda>journal.
     rbind (manager_new (mg_config m)) (\<lambda>fresh.
     rbind (replay pf fresh journal) (\<lambda>candidate.
     rbind (state_record candidate) (\<lambda>st.
     if st \<noteq> jfield r ''state'' then Inl (OrderError ''ORDER_CHECKPOINT_STATE_MISMATCH'') else Inr candidate)))))))"

end
