(* ===== verification/Order_Steps.thy ===== *)
theory Order_Steps
  imports Order_Manager Decimal_Values
begin

text \<open>
  What the commands of the order manager change. \<open>order_step\<close> is the step relation of applied
  commands: a creation or an update of one order; every applied command is such a step, and
  every other result leaves the manager as it was. For each command the lemmas say which parts
  of the order it keeps and how it moves status, submission outcome and fills.
\<close>

section \<open>Applied commands as a step relation\<close>

abbreviation command_size :: "platform \<Rightarrow> json \<Rightarrow> nat" where
  "command_size pf v \<equiv> str_len (pf_json_text pf v)"

inductive order_step :: "platform \<Rightarrow> manager \<Rightarrow> json \<Rightarrow> manager \<Rightarrow> bool" for pf m v where
  step_create: "order_step pf m v (commit v (command_size pf v) (m\<lparr>
      mg_requests := bt_insert (rq_request_id rq) order (mg_requests m),
      mg_creation := mg_creation m @ [order],
      mg_orders := bt_insert order \<lparr>en_snapshot = s, en_creation = identity, en_outcome = NotDispatched\<rparr> (mg_orders m)\<rparr>))"
  if "as_object v = Some object" "order_text object ''op'' = Inr (str_lit ''CREATE'')"
    "create_check pf v = Inr (cluster, account, rq, now)" "remove_member v ''at'' = Inr identity"
    "map_of (mg_requests m) (rq_request_id rq) = None"
    "as_str (jindex (mg_config m) ''runtime_id'') = Some rt" "identifier_new ''OnlyRuntimeId'' rt = Inr runtime"
    "identifier_new ''OnlyOrderId'' (runtime @ str_lit ''-ORDER-'' @ pad6 (length (mg_creation m) + 1)) = Inr order"
    "decimal_from_str (pf_lib pf) (pf_uni pf) [48] = Inr zero" "quantity_new zero (sc_precision (rq_quantity rq)) = Inr q"
    "order_snapshot_new pf (initial_snapshot order client runtime cluster account rq now q zero) = Inr s"
| step_update: "order_step pf m v (commit v (command_size pf v) (install_order pf v ident
      \<lparr>en_snapshot = snap, en_creation = en_creation e, en_outcome = (if external_op op then Resolved else sub)\<rparr> x cancel m))"
  if "as_object v = Some r" "order_text r ''op'' = Inr opt" "opt \<noteq> str_lit ''CREATE''" "op_parse opt = Some op"
    "order_text r ''cluster_id'' = Inr cluster" "order_text r ''order_id'' = Inr ident"
    "get_entity m cluster ident = Inr e" "order_time r ''at'' = Inr now"
    "(if external_op op then external_envelope pf m r op (en_snapshot e) now else Inr no_facts) = Inr x"
    "external_op op \<Longrightarrow> external_gate pf m v ident (en_snapshot e) (en_outcome e) x = None"
    "transition pf m r op cluster (en_snapshot e) (en_outcome e) now (xf_venue x) = Inr (Inr (s, sub, cancel))"
    "external_op op \<or> os_updated_at s \<le> now"
    "order_snapshot_new pf (stamp op now x s) = Inr snap"

inductive_cases order_stepE: "order_step pf m v m'"

lemma from_domain_ok [result_simps]: "from_domain r = Inr x \<longleftrightarrow> r = Inr x"
  by (cases r) (auto simp: from_domain_def)

lemma from_domain_simps [simp]: "from_domain (Inr x) = Inr x" "from_domain (Inl e) = Inl (OrderError (domain_error_text e))"
  by (simp_all add: from_domain_def)

lemma order_row_object: "order_row v names = Inr r \<Longrightarrow> as_object v = Some r"
  by (auto simp: order_row_def result_simps split: if_splits)

lemma prepare_applied: "prepare_result pf m op s v c sub = Inr oc \<Longrightarrow> oc_result oc = Applied"
  by (auto simp: prepare_result_def split: if_splits)

lemma create_order_step:
  assumes "create_order pf m v (command_size pf v) = Inr (m', oc)"
    "as_object v = Some object" "order_text object ''op'' = Inr (str_lit ''CREATE'')"
  shows "m' = m \<and> oc_result oc \<in> {Duplicate, Conflict} \<or> oc_result oc = Applied \<and> order_step pf m v m'"
proof -
  obtain cluster account rq now identity where c: "create_check pf v = Inr (cluster, account, rq, now)"
    and i: "remove_member v ''at'' = Inr identity"
    using assms(1) by (auto simp: create_order_def result_simps split: prod.splits)
  show ?thesis
  proof (cases "map_of (mg_requests m) (rq_request_id rq)")
    case (Some ident)
    then show ?thesis using assms(1) c i by (auto simp: create_order_def result_simps unchanged_def split: if_splits)
  next
    case None
    then obtain rt runtime order client zero q s where
      "as_str (jindex (mg_config m) ''runtime_id'') = Some rt" "identifier_new ''OnlyRuntimeId'' rt = Inr runtime"
      "identifier_new ''OnlyOrderId'' (runtime @ str_lit ''-ORDER-'' @ pad6 (length (mg_creation m) + 1)) = Inr order"
      "decimal_from_str (pf_lib pf) (pf_uni pf) [48] = Inr zero" "quantity_new zero (sc_precision (rq_quantity rq)) = Inr q"
      "order_snapshot_new pf (initial_snapshot order client runtime cluster account rq now q zero) = Inr s"
      and pr: "prepare_result pf m (str_lit ''CREATE'') s v identity NotDispatched = Inr oc"
      and m': "m' = commit v (command_size pf v) (m\<lparr>
        mg_requests := bt_insert (rq_request_id rq) order (mg_requests m), mg_creation := mg_creation m @ [order],
        mg_orders := bt_insert order \<lparr>en_snapshot = s, en_creation = identity, en_outcome = NotDispatched\<rparr> (mg_orders m)\<rparr>)"
      using assms(1) c i by (auto simp: create_order_def result_simps Let_def split: if_splits)
    then show ?thesis using assms(2,3) c i None prepare_applied [OF pr] order_step.step_create by blast
  qed
qed

lemma finish_cases:
  assumes "finish pf m v sz op opt ident e now x (s, sub, cancel) = Inr (m', oc)"
  shows "m' = m \<and> oc_result oc = Stale
    \<or> oc_result oc = Applied \<and> (external_op op \<or> os_updated_at s \<le> now)
      \<and> (\<exists>snap. order_snapshot_new pf (stamp op now x s) = Inr snap
        \<and> m' = commit v sz (install_order pf v ident \<lparr>en_snapshot = snap, en_creation = en_creation e,
            en_outcome = (if external_op op then Resolved else sub)\<rparr> x cancel m))"
  using assms prepare_applied by (auto simp: finish_def result_simps unchanged_def Let_def split: if_splits)

lemma early_not_applied:
  "external_gate pf m v ident s sub x = Some res \<Longrightarrow> res \<noteq> Applied"
  by (auto simp: external_gate_def Let_def split: if_splits option.splits)

lemmas flow_defs = early_def proceed_def

section \<open>What each command does\<close>

lemma do_fee_flow:
  assumes "do_fee pf r s sub now = Inr (Inr (s', sub', cancel))"
  shows "os_status s = Created \<and> sub = NotDispatched \<and> os_fee_policy_binding s = None \<and> sub' = sub \<and> cancel = None
    \<and> (\<exists>c b e f. order_row (jfield r ''contract'') [''binding'', ''estimate'', ''funding''] = Inr c
      \<and> fee_amount_bounds pf (jfield r ''contract'') = Inr ()
      \<and> fee_binding_from_record pf (jfield c ''binding'') = Inr b \<and> fee_estimate_from_record pf (jfield c ''estimate'') = Inr e
      \<and> funding_plan_from_record pf (jfield c ''funding'') = Inr f
      \<and> s' = s\<lparr>os_fee_policy_binding := Some b, os_fee_estimate := Some e, os_funding_plan := Some f\<rparr>)"
  using assms unfolding do_fee_def by (auto simp: result_simps flow_defs split: if_splits)

lemma do_begin_submit_flow:
  "do_begin_submit s sub now = Inr (Inr (s', sub', cancel)) \<longleftrightarrow>
     os_status s = Created \<and> sub = NotDispatched \<and> os_fee_policy_binding s \<noteq> None
     \<and> (case os_expire_time s of Some t \<Rightarrow> now < t | None \<Rightarrow> True)
     \<and> s' = s\<lparr>os_status := Submitted, os_submitted_at := Some now\<rparr> \<and> sub' = Dispatching \<and> cancel = None"
  unfolding do_begin_submit_def by (auto simp: flow_defs split: option.splits)

lemma do_submit_result_flow:
  assumes "do_submit_result pf r s sub now = Inr (Inr (s', sub', cancel))"
  shows "cancel = None \<and> (\<exists>t. order_text r ''outcome'' = Inr t \<and> submission_parse t = Some sub')
    \<and> (sub = Dispatching \<and> sub' \<in> {KnownResult, Unknown} \<and> s' = s
      \<or> sub = NotDispatched \<and> sub' = Suppressed
        \<and> (\<exists>f. suppressed_failure pf = Inr f \<and> s' = s\<lparr>os_status := Failed, os_failed_at := Some now, os_failure := Some f\<rparr>))"
proof -
  obtain t where t: "order_text r ''outcome'' = Inr t" using assms by (auto simp: do_submit_result_def result_simps)
  obtain n where n: "submission_parse t = Some n"
    using assms t by (auto simp: do_submit_result_def split: option.splits)
  show ?thesis using assms unfolding do_submit_result_def t rbind_simps n option.case
    by (auto simp: flow_defs result_simps t n split: if_splits)
qed

lemma do_submit_early: "do_submit_result pf r s sub now = Inr (Inl res) \<Longrightarrow> res \<noteq> Applied"
proof -
  assume a: "do_submit_result pf r s sub now = Inr (Inl res)"
  obtain t where t: "order_text r ''outcome'' = Inr t" using a by (auto simp: do_submit_result_def result_simps)
  obtain n where n: "submission_parse t = Some n" using a t by (auto simp: do_submit_result_def split: option.splits)
  show ?thesis using a unfolding do_submit_result_def t rbind_simps n option.case
    by (auto simp: flow_defs result_simps split: if_splits)
qed

lemma do_reconcile_flow:
  "do_reconcile s sub = Inr (Inr (s', sub', cancel)) \<longleftrightarrow> sub = Unknown \<and> sub' = Reconciling \<and> s' = s \<and> cancel = None"
  by (auto simp: do_reconcile_def flow_defs)

lemma do_cancel_flow:
  assumes "do_cancel pf m r cluster s sub now = Inr (Inr (s', sub', cancel))"
  shows "sub' = sub \<and> os_status s \<in> {Submitted, Accepted, PartiallyFilled}
    \<and> s' = s\<lparr>os_status := PendingCancel, os_cancel_requested_at := Some now\<rparr>
    \<and> (\<exists>rq. cancel_request_from_record pf (jfield r ''request'') = Inr rq \<and> cancel_request_to_record rq = jfield r ''request''
      \<and> cr_order_id rq = os_order_id s \<and> map_of (mg_cancels m) (cr_request_id rq) = None
      \<and> cancel = Some (cr_request_id rq, jobject [(''cluster_id'', JString cluster), (''request'', cancel_request_to_record rq)]))"
  using assms unfolding do_cancel_def by (auto simp: flow_defs result_simps Let_def split: if_splits option.splits)

lemma do_fail_flow:
  assumes "do_fail pf r s sub now = Inr (Inr (s', sub', cancel))"
  shows "os_status s = Created \<and> sub = NotDispatched \<and> sub' = Suppressed \<and> cancel = None
    \<and> (\<exists>f. order_failure_from_record pf (jfield r ''failure'') = Inr f
      \<and> s' = s\<lparr>os_status := Failed, os_failed_at := Some now, os_failure := Some f\<rparr>)"
  using assms unfolding do_fail_def by (auto simp: flow_defs result_simps split: if_splits)

lemma do_accept_flow:
  assumes "do_accept s sub now venue = Inr (Inr (s', sub', cancel))"
  shows "sub' = sub \<and> cancel = None \<and> (os_status s = Submitted \<and> s' = s\<lparr>os_status := Accepted, os_accepted_at := Some now\<rparr>
    \<or> os_status s \<in> {Accepted, PartiallyFilled, PendingCancel, Filled, Cancelled} \<and> os_venue_order_id s \<noteq> venue \<and> s' = s)"
  using assms unfolding do_accept_def by (auto simp: flow_defs split: if_splits)

lemma fill_effect_ok:
  "fill_effect pf s f = Inr (Some (filled, amount, avg, remaining)) \<longleftrightarrow>
     sc_precision (fi_quantity f) = sc_precision (os_quantity s)
     \<and> quantity_add (pf_lib pf) (os_filled_quantity s) (fi_quantity f) = Inr filled
     \<and> decimal_cmp (pf_lib pf) (sc_value filled) (sc_value (os_quantity s)) \<noteq> Greater
     \<and> (\<exists>product. only_multiply (pf_lib pf) (sc_value (fi_price f)) (sc_value (fi_quantity f)) = Inr product
       \<and> only_add (pf_lib pf) (os_cumulative_price_quantity s) product = Inr amount)
     \<and> decimal_bound pf amount = Inr ()
     \<and> average pf amount (sc_value filled)
         (max (max (sc_precision (fi_price f)) (opt_precision (os_price s))) (opt_precision (os_average_fill_price s))) = Inr avg
     \<and> quantity_subtract (pf_lib pf) (os_quantity s) filled = Inr remaining"
  unfolding fill_effect_def by (auto simp: result_simps)

lemma do_fill_flow:
  assumes "do_fill pf r s sub = Inr (Inr (s', sub', cancel))"
  obtains f filled amount avg remaining t where
    "os_status s \<in> {Submitted, Accepted, PartiallyFilled, PendingCancel}" "sub' = sub" "cancel = None"
    "order_fill_from_record pf (jfield r ''fill'') = Inr f"
    "fill_effect pf s f = Inr (Some (filled, amount, avg, remaining))"
    "s' = (let s1 = filled_order s f avg amount filled remaining in
       if is_zero (sc_value remaining) then s1\<lparr>os_status := Filled, os_filled_at := Some t\<rparr>
       else if os_status s \<noteq> PendingCancel then s1\<lparr>os_status := PartiallyFilled\<rparr> else s1)"
proof -
  have st: "os_status s \<in> {Submitted, Accepted, PartiallyFilled, PendingCancel}"
    using assms unfolding do_fill_def flow_defs by (cases "os_status s \<in> {Submitted, Accepted, PartiallyFilled, PendingCancel}") simp_all
  obtain f eff where f: "order_fill_from_record pf (jfield r ''fill'') = Inr f" "fill_effect pf s f = Inr eff"
    using assms st unfolding do_fill_def by (auto simp: result_simps)
  obtain filled amount avg remaining where eff: "eff = Some (filled, amount, avg, remaining)"
    using assms st f unfolding do_fill_def flow_defs by (cases eff) auto
  have nst: "\<not> os_status s \<notin> {Submitted, Accepted, PartiallyFilled, PendingCancel}" using st by blast
  let ?s1 = "filled_order s f avg amount filled remaining"
  have "(if is_zero (sc_value remaining) then
          rbind (order_time r ''event_at'') (\<lambda>t. proceed (?s1\<lparr>os_status := Filled, os_filled_at := Some t\<rparr>) sub)
        else if os_status s \<noteq> PendingCancel then proceed (?s1\<lparr>os_status := PartiallyFilled\<rparr>) sub
        else proceed ?s1 sub) = Inr (Inr (s', sub', cancel))"
    using assms unfolding do_fill_def if_not_P [OF nst] f from_domain_simps rbind_simps eff option.case prod.case Let_def .
  then obtain t where "sub' = sub \<and> cancel = None \<and> s' = (if is_zero (sc_value remaining) then ?s1\<lparr>os_status := Filled, os_filled_at := Some t\<rparr>
       else if os_status s \<noteq> PendingCancel then ?s1\<lparr>os_status := PartiallyFilled\<rparr> else ?s1)"
    by (cases "is_zero (sc_value remaining)"; cases "os_status s = PendingCancel") (auto simp: result_simps flow_defs)
  then show thesis using that st f eff unfolding Let_def by blast
qed

definition do_close_tail ::
  "order_op \<Rightarrow> order_snapshot \<Rightarrow> submission \<Rightarrow> timestamp \<Rightarrow> order_rejection option \<Rightarrow> order_failure option \<Rightarrow> flow" where
  "do_close_tail op s sub now rj fl = (if os_status s = close_target op then
        early (if op = OpRejected \<and> os_rejection s \<noteq> rj \<or> op = OpFailed \<and> os_failure s \<noteq> fl then Conflict else Duplicate)
      else if os_status s \<notin> {Submitted, Accepted, PartiallyFilled, PendingCancel} \<or> op = OpExpired \<and> os_status s = Submitted
      then early Invalid
      else case close_target op of
          Cancelled \<Rightarrow> proceed (s\<lparr>os_status := close_target op, os_cancelled_at := Some now\<rparr>) sub
        | Rejected \<Rightarrow> proceed (s\<lparr>os_status := close_target op, os_rejected_at := Some now, os_rejection := rj\<rparr>) sub
        | Expired \<Rightarrow> proceed (s\<lparr>os_status := close_target op, os_expired_at := Some now\<rparr>) sub
        | _ \<Rightarrow> proceed (s\<lparr>os_status := close_target op, os_failed_at := Some now, os_failure := fl\<rparr>) sub)"

lemma do_close_split:
  assumes "do_close pf r op s sub now = Inr flow"
  obtains rj fl where "do_close_tail op s sub now rj fl = Inr flow"
  using assms unfolding do_close_def do_close_tail_def Let_def by (auto simp only: rbind_eq_Inr)

lemma do_close_early: "do_close pf r op s sub now = Inr (Inl res) \<Longrightarrow> res \<noteq> Applied"
proof (elim do_close_split)
  fix rj fl
  assume "do_close_tail op s sub now rj fl = Inr (Inl res)"
  then show ?thesis
    unfolding do_close_tail_def flow_defs by (cases "close_target op") (simp_all split: if_splits)
qed

lemma do_close_flow:
  assumes "do_close pf r op s sub now = Inr (Inr (s', sub', cancel))"
  shows "sub' = sub \<and> cancel = None \<and> os_status s \<in> {Submitted, Accepted, PartiallyFilled, PendingCancel}
    \<and> \<not> (op = OpExpired \<and> os_status s = Submitted)
    \<and> (\<exists>rj fl. s' = s\<lparr>os_status := Cancelled, os_cancelled_at := Some now\<rparr> \<and> op = OpCancelled
      \<or> s' = s\<lparr>os_status := Rejected, os_rejected_at := Some now, os_rejection := rj\<rparr> \<and> op = OpRejected
      \<or> s' = s\<lparr>os_status := Expired, os_expired_at := Some now\<rparr> \<and> op = OpExpired
      \<or> s' = s\<lparr>os_status := Failed, os_failed_at := Some now, os_failure := fl\<rparr>)"
proof -
  obtain rj fl where e: "do_close_tail op s sub now rj fl = Inr (Inr (s', sub', cancel))"
    using assms by (rule do_close_split)
  note e = e [unfolded do_close_tail_def]
  have st: "os_status s \<in> {Submitted, Accepted, PartiallyFilled, PendingCancel} \<and> \<not> (op = OpExpired \<and> os_status s = Submitted)"
    using e by (auto simp: flow_defs split: if_splits)
  then have cond: "\<not> (os_status s \<notin> {Submitted, Accepted, PartiallyFilled, PendingCancel} \<or> op = OpExpired \<and> os_status s = Submitted)"
    by blast
  have ne: "os_status s \<noteq> close_target op" using e by (auto simp: flow_defs)
  note e1 = e [unfolded if_not_P [OF ne] if_not_P [OF cond] flow_defs]
  have "sub' = sub \<and> cancel = None
    \<and> (\<exists>rj fl. s' = s\<lparr>os_status := Cancelled, os_cancelled_at := Some now\<rparr> \<and> op = OpCancelled
      \<or> s' = s\<lparr>os_status := Rejected, os_rejected_at := Some now, os_rejection := rj\<rparr> \<and> op = OpRejected
      \<or> s' = s\<lparr>os_status := Expired, os_expired_at := Some now\<rparr> \<and> op = OpExpired
      \<or> s' = s\<lparr>os_status := Failed, os_failed_at := Some now, os_failure := fl\<rparr>)"
    using e1 by (cases op) (auto simp: close_target_def)
  with st show ?thesis by blast
qed

lemma transition_early: "transition pf m r op cluster s sub now venue = Inr (Inl res) \<Longrightarrow> res \<noteq> Applied"
  apply (cases op; simp add: transition_def)
  subgoal unfolding do_fee_def by (auto simp: flow_defs result_simps split: if_splits)
  subgoal unfolding do_begin_submit_def by (auto simp: flow_defs split: if_splits)
  subgoal by (rule do_submit_early)
  subgoal unfolding do_reconcile_def by (auto simp: flow_defs split: if_splits)
  subgoal unfolding do_cancel_def by (auto simp: flow_defs result_simps Let_def split: if_splits option.splits)
  subgoal unfolding do_fail_def by (auto simp: flow_defs result_simps split: if_splits)
  subgoal unfolding do_accept_def by (auto simp: flow_defs split: if_splits)
  subgoal unfolding do_fill_def by (auto simp: flow_defs result_simps Let_def split: if_splits option.splits)
  by (auto dest: do_close_early)

lemma apply_update_step:
  assumes "apply_update pf m v (command_size pf v) opt op = Inr (m', oc)"
    "as_object v = Some object" "order_text object ''op'' = Inr opt" "opt \<noteq> str_lit ''CREATE''" "op_parse opt = Some op"
  shows "m' = m \<and> oc_result oc \<noteq> Applied \<or> oc_result oc = Applied \<and> order_step pf m v m'"
proof -
  obtain r cluster ident e now x where pre: "as_object v = Some r" "order_text r ''cluster_id'' = Inr cluster"
    "order_text r ''order_id'' = Inr ident" "get_entity m cluster ident = Inr e" "order_time r ''at'' = Inr now"
    "(if external_op op then external_envelope pf m r op (en_snapshot e) now else Inr no_facts) = Inr x"
    and rest: "(case (if external_op op then external_gate pf m v ident (en_snapshot e) (en_outcome e) x else None) of
       Some res \<Rightarrow> Inr (m, unchanged res (Some (en_snapshot e)))
     | None \<Rightarrow>
         rbind (transition pf m r op cluster (en_snapshot e) (en_outcome e) now (xf_venue x)) (\<lambda>flow.
         case flow of
           Inl res \<Rightarrow> Inr (m, unchanged res (Some (en_snapshot e)))
         | Inr changed \<Rightarrow> finish pf m v (command_size pf v) op opt ident e now x changed)) = Inr (m', oc)"
    using assms(1) order_row_object by (fastforce simp: apply_update_def result_simps Let_def)
  have r: "r = object" using pre(1) assms(2) by simp
  show ?thesis
  proof (cases "if external_op op then external_gate pf m v ident (en_snapshot e) (en_outcome e) x else None")
    case (Some res)
    then show ?thesis using rest early_not_applied by (fastforce simp: unchanged_def split: if_splits)
  next
    case None
    then obtain flow where fl: "transition pf m r op cluster (en_snapshot e) (en_outcome e) now (xf_venue x) = Inr flow"
      "(case flow of Inl res \<Rightarrow> Inr (m, unchanged res (Some (en_snapshot e)))
         | Inr changed \<Rightarrow> finish pf m v (command_size pf v) op opt ident e now x changed) = Inr (m', oc)"
      using rest by (auto simp: result_simps)
    show ?thesis
    proof (cases flow)
      case (Inl res)
      then show ?thesis using fl transition_early by (fastforce simp: unchanged_def)
    next
      case (Inr changed)
      obtain s sub cancel where ch: "changed = (s, sub, cancel)" by (cases changed)
      have gate: "external_op op \<Longrightarrow> external_gate pf m v ident (en_snapshot e) (en_outcome e) x = None" using None by simp
      note fin = finish_cases [of pf m v "command_size pf v" op opt ident e now x s sub cancel m' oc]
      show ?thesis
        using fin fl Inr ch assms(3,4,5) r pre
          order_step.step_update [OF pre(1) _ assms(4,5) pre(2,3,4,5,6) gate, of s sub cancel] by auto
    qed
  qed
qed

lemma apply_command_cases:
  assumes "apply_command pf m v = Inr (m', oc)"
  obtains (same) "m' = m" "oc_result oc \<noteq> Applied" | (step) "order_step pf m v m'" "oc_result oc = Applied"
proof -
  obtain object opt where o: "as_object v = Some object" "order_text object ''op'' = Inr opt"
    and rest: "(if opt = str_lit ''CREATE'' then create_order pf m v (command_size pf v)
      else rbind (ok_or (op_parse opt) (OrderError ''ORDER_OPERATION_UNKNOWN'')) (apply_update pf m v (command_size pf v) opt)) = Inr (m', oc)"
    using assms by (auto simp: apply_command_def Let_def result_simps split: if_splits)
  show thesis
  proof (cases "opt = str_lit ''CREATE''")
    case True
    then show thesis using create_order_step [of pf m v m' oc object] rest o same step by auto
  next
    case False
    then obtain op where "op_parse opt = Some op" "apply_update pf m v (command_size pf v) opt op = Inr (m', oc)"
      using rest by (auto simp: result_simps)
    then show thesis using apply_update_step [of pf m v opt op m' oc object] o False same step by auto
  qed
qed

end
