(* ===== verification/Order_Invariant.thy ===== *)
theory Order_Invariant
  imports Order_Steps
begin

text \<open>
  The invariant of the order manager. Every order keeps its identity and quantity and moves
  along the status graph; filled and remaining quantity add up to the order quantity; the fill
  totals of an order are those of the fills in the journal; request and venue identities
  belong to one order each; order names are consecutive and fresh.
\<close>

section \<open>What an update keeps\<close>

definition kept :: "order_snapshot \<Rightarrow> order_snapshot \<Rightarrow> bool" where
  "kept s s' \<longleftrightarrow> os_order_id s' = os_order_id s \<and> os_request_id s' = os_request_id s
     \<and> os_client_order_id s' = os_client_order_id s \<and> os_runtime_id s' = os_runtime_id s
     \<and> os_cluster_id s' = os_cluster_id s \<and> os_account_id s' = os_account_id s
     \<and> os_instrument_id s' = os_instrument_id s \<and> os_side s' = os_side s \<and> os_quantity s' = os_quantity s
     \<and> os_price s' = os_price s \<and> os_created_at s' = os_created_at s"

definition fills_kept :: "order_snapshot \<Rightarrow> order_snapshot \<Rightarrow> bool" where
  "fills_kept s s' \<longleftrightarrow> os_filled_quantity s' = os_filled_quantity s \<and> os_remaining_quantity s' = os_remaining_quantity s
     \<and> os_average_fill_price s' = os_average_fill_price s
     \<and> os_cumulative_price_quantity s' = os_cumulative_price_quantity s \<and> os_fill_count s' = os_fill_count s
     \<and> os_last_trade_id s' = os_last_trade_id s"

definition stamps_kept :: "order_snapshot \<Rightarrow> order_snapshot \<Rightarrow> bool" where
  "stamps_kept s s' \<longleftrightarrow> os_updated_at s' = os_updated_at s \<and> os_version s' = os_version s
     \<and> os_venue_order_id s' = os_venue_order_id s \<and> os_last_external_sequence s' = os_last_external_sequence s"

text \<open>The status graph: the edges of the order life cycle besides staying put.\<close>

definition next_statuses :: "order_status \<Rightarrow> order_status set" where
  "next_statuses st = (case st of
      Created \<Rightarrow> {Submitted, Failed}
    | Submitted \<Rightarrow> {Accepted, PartiallyFilled, PendingCancel, Cancelled, Filled, Rejected, Failed}
    | Accepted \<Rightarrow> {PartiallyFilled, PendingCancel, Cancelled, Expired, Filled, Rejected, Failed}
    | PartiallyFilled \<Rightarrow> {PendingCancel, Cancelled, Expired, Filled, Rejected, Failed}
    | PendingCancel \<Rightarrow> {Cancelled, Expired, Filled, Rejected, Failed}
    | _ \<Rightarrow> {})"

definition status_step :: "order_status \<Rightarrow> order_status \<Rightarrow> bool" where
  "status_step a b \<longleftrightarrow> b = a \<or> b \<in> next_statuses a"

lemma terminal_next: "\<not> is_open st \<Longrightarrow> next_statuses st = {}"
  by (cases st) (simp_all add: is_open_def next_statuses_def)

text \<open>Submission outcome and status agree: undispatched orders are exactly the created ones.\<close>

definition submission_ok :: "submission \<Rightarrow> order_status \<Rightarrow> bool" where
  "submission_ok sub st \<longleftrightarrow> (sub = NotDispatched \<longleftrightarrow> st = Created) \<and> (sub = Suppressed \<longrightarrow> st = Failed)"

lemmas kept_defs = kept_def fills_kept_def stamps_kept_def

lemma filled_order_fields:
  "kept s (filled_order s f avg amount filled remaining)" "stamps_kept s (filled_order s f avg amount filled remaining)"
  "os_status (filled_order s f avg amount filled remaining) = os_status s"
  "os_filled_quantity (filled_order s f avg amount filled remaining) = filled"
  "os_remaining_quantity (filled_order s f avg amount filled remaining) = remaining"
  "os_cumulative_price_quantity (filled_order s f avg amount filled remaining) = amount"
  "os_average_fill_price (filled_order s f avg amount filled remaining) = Some avg"
  "os_fill_count (filled_order s f avg amount filled remaining) = os_fill_count s + 1"
  "os_last_trade_id (filled_order s f avg amount filled remaining) = Some (fi_trade_id f)"
  by (simp_all add: filled_order_def kept_defs)

lemma kept_status [simp]:
  "kept s (t\<lparr>os_status := a\<rparr>) = kept s t" "stamps_kept s (t\<lparr>os_status := a\<rparr>) = stamps_kept s t"
  "kept s (t\<lparr>os_filled_at := b\<rparr>) = kept s t" "stamps_kept s (t\<lparr>os_filled_at := b\<rparr>) = stamps_kept s t"
  by (simp_all add: kept_defs)

lemma do_close_effect:
  assumes "do_close pf r op s sub now = Inr (Inr (s', sub', cancel))"
  shows "kept s s' \<and> stamps_kept s s' \<and> fills_kept s s'" "status_step (os_status s) (os_status s')" "os_status s' \<noteq> Created"
proof -
  from do_close_flow [OF assms] obtain rj fl where st: "os_status s \<in> {Submitted, Accepted, PartiallyFilled, PendingCancel}"
    "\<not> (op = OpExpired \<and> os_status s = Submitted)"
    and s': "s' = s\<lparr>os_status := Cancelled, os_cancelled_at := Some now\<rparr> \<and> op = OpCancelled
      \<or> s' = s\<lparr>os_status := Rejected, os_rejected_at := Some now, os_rejection := rj\<rparr> \<and> op = OpRejected
      \<or> s' = s\<lparr>os_status := Expired, os_expired_at := Some now\<rparr> \<and> op = OpExpired
      \<or> s' = s\<lparr>os_status := Failed, os_failed_at := Some now, os_failure := fl\<rparr>" by blast
  from s' show "kept s s' \<and> stamps_kept s s' \<and> fills_kept s s'" by (elim disjE) (simp_all add: kept_defs)
  from s' have "os_status s' \<in> {Cancelled, Rejected, Expired, Failed} \<and> (os_status s' = Expired \<longrightarrow> op = OpExpired)"
    by (elim disjE) simp_all
  with st show "status_step (os_status s) (os_status s')" "os_status s' \<noteq> Created"
    by (auto simp: status_step_def next_statuses_def)
qed

lemma transition_effect:
  assumes "transition pf m r op cluster s sub now venue = Inr (Inr (s', sub', cancel))" and sub: "submission_ok sub (os_status s)"
  shows "kept s s'" "stamps_kept s s'" "status_step (os_status s) (os_status s')" "op \<noteq> OpFill \<longrightarrow> fills_kept s s'"
    "submission_ok (if external_op op then Resolved else sub') (os_status s')"
proof -
  have "kept s s' \<and> stamps_kept s s' \<and> status_step (os_status s) (os_status s') \<and> (op \<noteq> OpFill \<longrightarrow> fills_kept s s')
    \<and> submission_ok (if external_op op then Resolved else sub') (os_status s')"
  proof (cases op)
    case OpFee
    with assms(1) sub do_fee_flow [of pf r s sub now s' sub' cancel] show ?thesis
      by (auto simp: transition_def kept_defs status_step_def submission_ok_def external_op_def)
  next
    case OpBeginSubmit
    with assms(1) sub show ?thesis
      by (auto simp: transition_def do_begin_submit_flow kept_defs status_step_def next_statuses_def submission_ok_def external_op_def)
  next
    case OpSubmitResult
    with assms(1) sub do_submit_result_flow [of pf r s sub now s' sub' cancel] show ?thesis
      by (auto simp: transition_def kept_defs status_step_def next_statuses_def submission_ok_def external_op_def)
  next
    case OpReconcile
    with assms(1) sub show ?thesis
      by (auto simp: transition_def do_reconcile_flow kept_defs status_step_def submission_ok_def external_op_def)
  next
    case OpCancel
    with assms(1) sub do_cancel_flow [of pf m r cluster s sub now s' sub' cancel] show ?thesis
      by (auto simp: transition_def kept_defs status_step_def next_statuses_def submission_ok_def external_op_def)
  next
    case OpFail
    with assms(1) sub do_fail_flow [of pf r s sub now s' sub' cancel] show ?thesis
      by (auto simp: transition_def kept_defs status_step_def next_statuses_def submission_ok_def external_op_def)
  next
    case OpAccept
    with assms(1) sub do_accept_flow [of s sub now venue s' sub' cancel] show ?thesis
      by (auto simp: transition_def kept_defs status_step_def next_statuses_def submission_ok_def external_op_def)
  next
    case OpFill
    with assms(1) sub have "do_fill pf r s sub = Inr (Inr (s', sub', cancel))" by (simp add: transition_def)
    then show ?thesis
    proof (rule do_fill_flow)
      fix f filled amount avg remaining t
      let ?s1 = "filled_order s f avg amount filled remaining"
      assume st: "os_status s \<in> {Submitted, Accepted, PartiallyFilled, PendingCancel}" and "sub' = sub"
        and s': "s' = (let s1 = ?s1 in if is_zero (sc_value remaining) then s1\<lparr>os_status := Filled, os_filled_at := Some t\<rparr>
          else if os_status s \<noteq> PendingCancel then s1\<lparr>os_status := PartiallyFilled\<rparr> else s1)"
      have "kept s s'" "stamps_kept s s'" using s' filled_order_fields(1,2) [of s f avg amount filled remaining] by (auto simp: Let_def)
      moreover have "os_status s' \<in> {Filled, PartiallyFilled, PendingCancel} \<and> (os_status s = PendingCancel \<longrightarrow> os_status s' \<noteq> PartiallyFilled)
        \<and> (os_status s' = PendingCancel \<longrightarrow> os_status s = PendingCancel)"
        using s' by (auto simp: Let_def filled_order_fields)
      ultimately show ?thesis using st OpFill
        by (auto simp: status_step_def next_statuses_def submission_ok_def external_op_def)
    qed
  next
    case OpCancelled
    with assms(1) do_close_effect [of pf r op s sub now s' sub' cancel] show ?thesis
      by (simp add: transition_def submission_ok_def external_op_def)
  next
    case OpRejected
    with assms(1) do_close_effect [of pf r op s sub now s' sub' cancel] show ?thesis
      by (simp add: transition_def submission_ok_def external_op_def)
  next
    case OpExpired
    with assms(1) do_close_effect [of pf r op s sub now s' sub' cancel] show ?thesis
      by (simp add: transition_def submission_ok_def external_op_def)
  next
    case OpFailed
    with assms(1) do_close_effect [of pf r op s sub now s' sub' cancel] show ?thesis
      by (simp add: transition_def submission_ok_def external_op_def)
  qed
  then show "kept s s'" "stamps_kept s s'" "status_step (os_status s) (os_status s')" "op \<noteq> OpFill \<longrightarrow> fills_kept s s'"
    "submission_ok (if external_op op then Resolved else sub') (os_status s')" by blast+
qed

section \<open>Validated snapshots\<close>

lemma stamp_fields:
  "kept s (stamp op now x s)" "fills_kept s (stamp op now x s)" "os_status (stamp op now x s) = os_status s"
  "os_version (stamp op now x s) = os_version s + 1" "os_updated_at (stamp op now x s) = max (os_updated_at s) now"
  "os_venue_order_id (stamp op now x s) = (case xf_venue x of Some v \<Rightarrow> Some v | None \<Rightarrow> os_venue_order_id s)"
  "os_fee_policy_binding (stamp op now x s) = os_fee_policy_binding s" "os_fee_estimate (stamp op now x s) = os_fee_estimate s"
  "os_funding_plan (stamp op now x s) = os_funding_plan s" "os_failure (stamp op now x s) = os_failure s"
  "os_last_external_sequence (stamp op now x s) =
     (if external_op op \<and> xf_sequence x \<noteq> None then xf_sequence x else os_last_external_sequence s)"
  by (auto simp: stamp_def kept_defs Let_def split: option.splits)

lemma snapshot_new_intent:
  assumes "order_snapshot_new pf x0 = Inr x"
  obtains i where "x = x0\<lparr>os_execution_intent := Some i\<rparr>"
  using assms unfolding order_snapshot_new_def Let_def by (auto simp only: rbind_eq_Inr sum.inject split: if_splits)

lemma snapshot_new_fields:
  assumes "order_snapshot_new pf x0 = Inr x"
  shows "kept x0 x" "fills_kept x0 x" "stamps_kept x0 x" "os_status x = os_status x0" "os_fee_policy_binding x = os_fee_policy_binding x0"
    "os_fee_estimate x = os_fee_estimate x0" "os_funding_plan x = os_funding_plan x0" "os_failure x = os_failure x0"
proof -
  obtain i where x: "x = x0\<lparr>os_execution_intent := Some i\<rparr>" using snapshot_new_intent [OF assms] .
  show "kept x0 x" "fills_kept x0 x" "stamps_kept x0 x" "os_status x = os_status x0" "os_fee_policy_binding x = os_fee_policy_binding x0"
    "os_fee_estimate x = os_fee_estimate x0" "os_funding_plan x = os_funding_plan x0" "os_failure x = os_failure x0"
    unfolding x by (simp_all add: kept_defs)
qed

definition snapshot_ok :: "order_snapshot \<Rightarrow> bool" where
  "snapshot_ok s \<longleftrightarrow> quantity_ok (os_quantity s) \<and> quantity_ok (os_filled_quantity s) \<and> quantity_ok (os_remaining_quantity s)
     \<and> decimal_ok (os_cumulative_price_quantity s) \<and> 0 < quantity_value (os_quantity s) \<and> 1 \<le> os_version s
     \<and> quantity_value (os_filled_quantity s) + quantity_value (os_remaining_quantity s) = quantity_value (os_quantity s)
     \<and> (os_status s = PartiallyFilled \<longrightarrow>
          0 < quantity_value (os_filled_quantity s) \<and> quantity_value (os_filled_quantity s) < quantity_value (os_quantity s))
     \<and> (os_status s = Filled \<longrightarrow> quantity_value (os_remaining_quantity s) = 0)"

lemma zero_value: "is_zero v \<longleftrightarrow> bd_value (d_number v) = 0"
  by (simp add: is_zero_def)

context bigdecimal
begin

lemma decimal_eq_value: "decimal_eq lib a b \<longleftrightarrow> bd_value (d_number a) = bd_value (d_number b)"
  by (simp add: decimal_eq_def cmp_value)

lemma snapshot_new_ok:
  assumes "order_snapshot_new pf x0 = Inr x" "pf_lib pf = lib"
    "quantity_ok (os_quantity x0)" "quantity_ok (os_filled_quantity x0)" "quantity_ok (os_remaining_quantity x0)"
    "decimal_ok (os_cumulative_price_quantity x0)"
  shows "snapshot_ok x"
proof -
  obtain i where x: "x = x0\<lparr>os_execution_intent := Some i\<rparr>" using snapshot_new_intent [OF assms(1)] .
  obtain t where t: "only_add lib (sc_value (os_filled_quantity x)) (sc_value (os_remaining_quantity x)) = Inr t"
    and c: "\<not> is_zero (sc_value (os_quantity x))" "\<not> os_version x < 1" "decimal_eq lib (sc_value (os_quantity x)) t"
      "snapshot_fill_check pf x = Inr ()"
    using assms(1) x by (auto simp: order_snapshot_new_def result_simps Let_def assms(2) split: if_splits)
  have fields: "quantity_ok (os_quantity x)" "quantity_ok (os_filled_quantity x)" "quantity_ok (os_remaining_quantity x)"
    "decimal_ok (os_cumulative_price_quantity x)" using x assms(3-) by simp_all
  have ok: "decimal_ok (sc_value (os_filled_quantity x))" "decimal_ok (sc_value (os_remaining_quantity x))"
    using fields by (simp_all add: quantity_ok_def)
  have sum: "bd_value (d_number t) = quantity_value (os_filled_quantity x) + quantity_value (os_remaining_quantity x)"
    using only_add_cases [OF ok, of "bd_value (d_number t) = quantity_value (os_filled_quantity x) + quantity_value (os_remaining_quantity x)"] t by auto
  have part: "os_status x = PartiallyFilled \<Longrightarrow> \<not> is_zero (sc_value (os_filled_quantity x)) \<and>
      decimal_cmp lib (sc_value (os_filled_quantity x)) (sc_value (os_quantity x)) = Less"
    using c(4) by (auto simp: snapshot_fill_check_def Let_def assms(2) split: if_splits)
  have full: "os_status x = Filled \<Longrightarrow> is_zero (sc_value (os_remaining_quantity x))"
    using c(4) by (auto simp: snapshot_fill_check_def Let_def assms(2) split: if_splits)
  show ?thesis
    using fields c(1,2,3) sum part full
    by (auto simp: snapshot_ok_def decimal_eq_value zero_value decimal_cmp_def cmp_value quantity_ok_def less_le)
qed

end

section \<open>Decoded quantities\<close>

lemma serialization_ok [result_simps]: "serialization r = Inr x \<longleftrightarrow> r = Inr x"
  by (cases r) (auto simp: serialization_def)

lemma decimal_from_str_ok: "decimal_from_str lib uni s = Inr d \<Longrightarrow> decimal_ok d"
  by (auto simp: decimal_from_str_def Let_def result_simps decimal_ok_def)

lemma quantity_new_ok: "decimal_ok v \<Longrightarrow> quantity_new v p = Inr q \<Longrightarrow> quantity_ok q \<and> sc_value q = v \<and> sc_precision q = p"
  using negative_sign by (auto simp: quantity_new_iff quantity_ok_def)

lemma quantity_from_record_ok: "quantity_from_record pf v = Inr q \<Longrightarrow> quantity_ok q"
  by (auto simp: quantity_from_record_def scalar_from_record_def result_simps quantity_new_def [symmetric]
      dest!: decimal_from_str_ok dest: quantity_new_ok)

lemma price_from_record_ok: "price_from_record pf v = Inr p \<Longrightarrow> decimal_ok (sc_value p)"
  using decimal_from_str_ok by (auto simp: price_from_record_def scalar_from_record_def scalar_new_def result_simps)

lemma order_request_quantity: "order_request_from_record pf v = Inr rq \<Longrightarrow> quantity_ok (rq_quantity rq)"
  unfolding order_request_from_record_def model_from_record_def
  by (auto simp: result_simps order_request_new_def Let_def dest!: quantity_from_record_ok split: if_splits)

lemma order_fill_parts:
  assumes "order_fill_from_record pf v = Inr f"
  shows "quantity_ok (fi_quantity f)" "decimal_ok (sc_value (fi_price f))"
    "0 < quantity_value (fi_quantity f)" "0 < bd_value (d_number (sc_value (fi_price f)))"
proof -
  have f: "quantity_ok (fi_quantity f) \<and> decimal_ok (sc_value (fi_price f)) \<and> \<not> is_zero (sc_value (fi_quantity f))
    \<and> \<not> is_zero (sc_value (fi_price f)) \<and> \<not> is_negative (sc_value (fi_price f))"
    using assms unfolding order_fill_from_record_def model_from_record_def
    by (auto simp: result_simps order_fill_new_def dest!: quantity_from_record_ok price_from_record_ok split: if_splits)
  then show "quantity_ok (fi_quantity f)" "decimal_ok (sc_value (fi_price f))" by auto
  show "0 < quantity_value (fi_quantity f)" using f by (auto simp: zero_value quantity_ok_def less_le)
  show "0 < bd_value (d_number (sc_value (fi_price f)))" using f negative_sign [of "sc_value (fi_price f)"] by (auto simp: zero_value less_le)
qed

section \<open>Fills in the journal\<close>

definition command_fill :: "platform \<Rightarrow> rstr \<Rightarrow> json \<Rightarrow> order_fill option" where
  "command_fill pf ident v =
     (case as_object v of
        None \<Rightarrow> None
      | Some r \<Rightarrow>
          if order_text r ''op'' = Inr (str_lit ''FILL'') \<and> order_text r ''order_id'' = Inr ident
          then (case order_fill_from_record pf (jfield r ''fill'') of Inr f \<Rightarrow> Some f | Inl _ \<Rightarrow> None) else None)"

definition journal_fills :: "platform \<Rightarrow> json list \<Rightarrow> rstr \<Rightarrow> order_fill list" where
  "journal_fills pf journal ident = List.map_filter (command_fill pf ident) journal"

definition fills_agree :: "order_fill list \<Rightarrow> order_snapshot \<Rightarrow> bool" where
  "fills_agree fs s \<longleftrightarrow> os_fill_count s = int (length fs)
     \<and> quantity_value (os_filled_quantity s) = (\<Sum>f\<leftarrow>fs. quantity_value (fi_quantity f))
     \<and> bd_value (d_number (os_cumulative_price_quantity s))
         = (\<Sum>f\<leftarrow>fs. bd_value (d_number (sc_value (fi_price f))) * quantity_value (fi_quantity f))
     \<and> os_last_trade_id s = (if fs = [] then None else Some (fi_trade_id (last fs)))"

lemma journal_fills_snoc:
  "journal_fills pf (journal @ [v]) ident
     = journal_fills pf journal ident @ (case command_fill pf ident v of Some f \<Rightarrow> [f] | None \<Rightarrow> [])"
  by (simp add: journal_fills_def List.map_filter_def split: option.splits)

lemma fills_agree_kept: "fills_kept s s' \<Longrightarrow> fills_agree fs s' = fills_agree fs s"
  by (simp add: fills_agree_def fills_kept_def)

lemma op_parse_fill: "op_parse opt = Some OpFill \<longleftrightarrow> opt = str_lit ''FILL''"
proof
  assume "op_parse opt = Some OpFill"
  then obtain t where "find (\<lambda>(_, t). str_lit t = opt) order_ops = Some (OpFill, t)" by (auto simp: op_parse_def)
  then have "(OpFill, t) \<in> set order_ops \<and> str_lit t = opt" by (auto simp: find_Some_iff in_set_conv_nth)
  then show "opt = str_lit ''FILL''" by (auto simp: order_ops_def)
next
  have "op_parse (str_lit ''FILL'') = Some OpFill" by code_simp
  moreover assume "opt = str_lit ''FILL''"
  ultimately show "op_parse opt = Some OpFill" by simp
qed

context bigdecimal
begin

lemma fill_effect_values:
  assumes "fill_effect pf s f = Inr (Some (filled, amount, avg, remaining))" "pf_lib pf = lib"
    "snapshot_ok s" "quantity_ok (fi_quantity f)" "decimal_ok (sc_value (fi_price f))"
  shows "quantity_ok filled" "quantity_value filled = quantity_value (os_filled_quantity s) + quantity_value (fi_quantity f)"
    "quantity_ok remaining" "decimal_ok amount"
    "bd_value (d_number amount) = bd_value (d_number (os_cumulative_price_quantity s))
       + bd_value (d_number (sc_value (fi_price f))) * quantity_value (fi_quantity f)"
proof -
  obtain product where e: "quantity_add lib (os_filled_quantity s) (fi_quantity f) = Inr filled"
    "only_multiply lib (sc_value (fi_price f)) (sc_value (fi_quantity f)) = Inr product"
    "only_add lib (os_cumulative_price_quantity s) product = Inr amount"
    "quantity_subtract lib (os_quantity s) filled = Inr remaining"
    using assms(1) unfolding fill_effect_ok assms(2) by blast
  have ok: "quantity_ok (os_filled_quantity s)" "quantity_ok (os_quantity s)" "decimal_ok (os_cumulative_price_quantity s)"
    "decimal_ok (sc_value (fi_quantity f))" using assms(3,4) by (simp_all add: snapshot_ok_def quantity_ok_def)
  show filled: "quantity_ok filled" "quantity_value filled = quantity_value (os_filled_quantity s) + quantity_value (fi_quantity f)"
    using quantity_add_cases [OF ok(1) assms(4)] e(1) by simp_all
  show "quantity_ok remaining" using quantity_subtract_cases [OF ok(2) filled(1)] e(4) by simp
  have p: "decimal_ok product \<and> bd_value (d_number product) = bd_value (d_number (sc_value (fi_price f))) * quantity_value (fi_quantity f)"
    by (rule only_multiply_cases [OF assms(5) ok(4)]) (use e(2) in auto)
  have "decimal_ok amount \<and> bd_value (d_number amount) = bd_value (d_number (os_cumulative_price_quantity s)) + bd_value (d_number product)"
    by (rule only_add_cases [OF ok(3) conjunct1 [OF p]]) (use e(3) in auto)
  with p show "decimal_ok amount" "bd_value (d_number amount) = bd_value (d_number (os_cumulative_price_quantity s))
       + bd_value (d_number (sc_value (fi_price f))) * quantity_value (fi_quantity f)" by simp_all
qed

lemma do_fill_values:
  assumes "do_fill pf r s sub = Inr (Inr (s', sub', cancel))" "pf_lib pf = lib" "snapshot_ok s" "fills_agree fs s"
  obtains f where "order_fill_from_record pf (jfield r ''fill'') = Inr f" "fills_agree (fs @ [f]) s'"
    "quantity_ok (os_filled_quantity s')" "quantity_ok (os_remaining_quantity s')" "decimal_ok (os_cumulative_price_quantity s')"
proof (rule do_fill_flow [OF assms(1)])
  fix f filled amount avg remaining t
  let ?s1 = "filled_order s f avg amount filled remaining"
  assume f: "order_fill_from_record pf (jfield r ''fill'') = Inr f"
    and eff: "fill_effect pf s f = Inr (Some (filled, amount, avg, remaining))"
    and s': "s' = (let s1 = ?s1 in if is_zero (sc_value remaining) then s1\<lparr>os_status := Filled, os_filled_at := Some t\<rparr>
      else if os_status s \<noteq> PendingCancel then s1\<lparr>os_status := PartiallyFilled\<rparr> else s1)"
  note v = fill_effect_values [OF eff assms(2,3) order_fill_parts(1,2) [OF f]]
  have k: "fills_kept ?s1 s'" using s' by (auto simp: Let_def fills_kept_def)
  have "fills_agree (fs @ [f]) ?s1" using assms(4) v(2,5) by (simp add: fills_agree_def filled_order_fields)
  then have "fills_agree (fs @ [f]) s'" using fills_agree_kept [OF k] by simp
  moreover have "os_filled_quantity s' = filled" "os_remaining_quantity s' = remaining" "os_cumulative_price_quantity s' = amount"
    using k by (simp_all add: fills_kept_def filled_order_fields)
  ultimately show thesis using that f v by simp
qed

end

section \<open>One update\<close>

lemma command_fill_other:
  assumes "as_object v = Some r" "order_text r ''order_id'' = Inr ident" "i \<noteq> ident"
  shows "command_fill pf i v = None"
  using assms by (simp add: command_fill_def)

lemma command_fill_op:
  assumes "as_object v = Some r" "order_text r ''op'' = Inr opt" "op_parse opt = Some op" "order_text r ''order_id'' = Inr ident"
  shows "command_fill pf ident v = (if op = OpFill then
      (case order_fill_from_record pf (jfield r ''fill'') of Inr f \<Rightarrow> Some f | Inl _ \<Rightarrow> None) else None)"
proof -
  have "op = OpFill \<longleftrightarrow> opt = str_lit ''FILL''" using op_parse_fill [of opt] assms(3) by auto
  then show ?thesis using assms(1,2,4) by (auto simp: command_fill_def)
qed

lemma kept_trans: "kept a b \<Longrightarrow> kept b c \<Longrightarrow> kept a c"
  by (simp add: kept_def)

lemma fills_kept_trans: "fills_kept a b \<Longrightarrow> fills_kept b c \<Longrightarrow> fills_kept a c"
  by (simp add: fills_kept_def)

text \<open>Everything an update does to the order it addresses.\<close>

definition order_advances :: "entity \<Rightarrow> entity \<Rightarrow> external_facts \<Rightarrow> bool" where
  "order_advances e e' x \<longleftrightarrow> kept (en_snapshot e) (en_snapshot e') \<and> en_creation e' = en_creation e
     \<and> status_step (os_status (en_snapshot e)) (os_status (en_snapshot e'))
     \<and> submission_ok (en_outcome e') (os_status (en_snapshot e'))
     \<and> os_version (en_snapshot e') = os_version (en_snapshot e) + 1
     \<and> os_venue_order_id (en_snapshot e')
         = (case xf_venue x of Some w \<Rightarrow> Some w | None \<Rightarrow> os_venue_order_id (en_snapshot e))"

lemma update_advances:
  assumes "transition pf m r op cluster (en_snapshot e) (en_outcome e) now venue = Inr (Inr (s, sub, cancel))"
    "order_snapshot_new pf (stamp op now x s) = Inr snap" "submission_ok (en_outcome e) (os_status (en_snapshot e))"
  shows "order_advances e \<lparr>en_snapshot = snap, en_creation = en_creation e, en_outcome = (if external_op op then Resolved else sub)\<rparr> x"
proof -
  note t = transition_effect [OF assms(1,3)] and n = snapshot_new_fields [OF assms(2)]
  have "kept (en_snapshot e) snap" using kept_trans [OF kept_trans [OF t(1) stamp_fields(1)] n(1)] .
  moreover have "os_status snap = os_status s" using n(4) by (simp add: stamp_fields)
  moreover have "os_version snap = os_version (en_snapshot e) + 1"
    "os_venue_order_id snap = (case xf_venue x of Some w \<Rightarrow> Some w | None \<Rightarrow> os_venue_order_id (en_snapshot e))"
    using n(3) t(2) by (simp_all add: stamps_kept_def stamp_fields split: option.splits)
  ultimately show ?thesis using t(3,5) by (simp add: order_advances_def)
qed

context bigdecimal
begin

lemma update_fills:
  assumes "transition pf m r op cluster (en_snapshot e) (en_outcome e) now venue = Inr (Inr (s, sub, cancel))"
    "order_snapshot_new pf (stamp op now x s) = Inr snap" "submission_ok (en_outcome e) (os_status (en_snapshot e))"
    "as_object v = Some r" "order_text r ''op'' = Inr opt" "op_parse opt = Some op" "order_text r ''order_id'' = Inr ident"
    "pf_lib pf = lib" "snapshot_ok (en_snapshot e)" "fills_agree (journal_fills pf journal ident) (en_snapshot e)"
  shows "snapshot_ok snap" "fills_agree (journal_fills pf (journal @ [v]) ident) snap"
proof -
  note t = transition_effect [OF assms(1,3)] and n = snapshot_new_fields [OF assms(2)]
  have f: "fills_kept s snap" using fills_kept_trans [OF stamp_fields(2) n(2)] .
  have q: "os_quantity (stamp op now x s) = os_quantity (en_snapshot e)" using t(1) stamp_fields(1) by (simp add: kept_def)
  have "snapshot_ok snap \<and> fills_agree (journal_fills pf (journal @ [v]) ident) snap"
  proof (cases "op = OpFill")
    case True
    with assms(1) have "do_fill pf r (en_snapshot e) (en_outcome e) = Inr (Inr (s, sub, cancel))" by (simp add: transition_def)
    then show ?thesis
    proof (rule do_fill_values [OF _ assms(8,9,10)])
      fix fi
      assume d: "order_fill_from_record pf (jfield r ''fill'') = Inr fi" "fills_agree (journal_fills pf journal ident @ [fi]) s"
        "quantity_ok (os_filled_quantity s)" "quantity_ok (os_remaining_quantity s)" "decimal_ok (os_cumulative_price_quantity s)"
      have "snapshot_ok snap"
        using d assms(9) stamp_fields(2) q
        by (intro snapshot_new_ok [OF assms(2,8)]) (simp_all add: snapshot_ok_def fills_kept_def)
      moreover have "command_fill pf ident v = Some fi" using command_fill_op [OF assms(4,5,6,7)] True d(1) by simp
      ultimately show ?thesis using d(2) fills_agree_kept [OF f] by (simp add: journal_fills_snoc)
    qed
  next
    case False
    then have k: "fills_kept (en_snapshot e) s" using t(4) by blast
    have "snapshot_ok snap"
      using k assms(9) stamp_fields(2) q
      by (intro snapshot_new_ok [OF assms(2,8)]) (simp_all add: snapshot_ok_def fills_kept_def)
    moreover have "command_fill pf ident v = None" using command_fill_op [OF assms(4,5,6,7)] False by simp
    ultimately show ?thesis
      using assms(10) fills_agree_kept [OF fills_kept_trans [OF k f]] by (simp add: journal_fills_snoc)
  qed
  then show "snapshot_ok snap" "fills_agree (journal_fills pf (journal @ [v]) ident) snap" by blast+
qed

end

section \<open>Order names\<close>

definition order_name :: "json \<Rightarrow> nat \<Rightarrow> rstr" where
  "order_name config k =
     (case as_str (jindex config ''runtime_id'') of Some t \<Rightarrow> trim_matches whitespace t | None \<Rightarrow> [])
     @ str_lit ''-ORDER-'' @ pad6 k"

lemma order_name_inject: "order_name config j = order_name config k \<Longrightarrow> j = k"
proof -
  assume "order_name config j = order_name config k"
  then have "pad6 j = pad6 k" by (simp add: order_name_def)
  then have "digits_value (pad6 j) = digits_value (pad6 k)" by simp
  then show ?thesis by (simp add: pad6_def)
qed

lemma trim_no_space: "\<not> list_ex P s \<Longrightarrow> trim_matches P s = s"
proof -
  assume a: "\<not> list_ex P s"
  have "dropWhile P xs = xs" if "set xs \<subseteq> set s" for xs using a that by (cases xs) (auto simp: list_ex_iff)
  then show ?thesis by (simp add: trim_matches_def)
qed

lemma identifier_new_ok: "identifier_new n t = Inr v \<Longrightarrow> v = trim_matches whitespace t \<and> \<not> list_ex whitespace v"
  by (auto simp: identifier_new_def Let_def split: if_splits)

lemma pad6_no_space: "\<not> list_ex whitespace (pad6 k)"
proof -
  have "list_all is_digit (pad6 k)" using nat_digits_all [of k] by (auto simp: pad6_def zero_pad_def list_all_iff is_digit_def)
  then show ?thesis by (auto simp: list_all_iff list_ex_iff is_digit_def whitespace_def unicode_white_space_def)
qed

lemma new_order_name:
  assumes "as_str (jindex config ''runtime_id'') = Some rt" "identifier_new ''OnlyRuntimeId'' rt = Inr runtime"
    "identifier_new ''OnlyOrderId'' (runtime @ str_lit ''-ORDER-'' @ pad6 k) = Inr order"
  shows "order = order_name config k"
proof -
  have r: "runtime = trim_matches whitespace rt" "\<not> list_ex whitespace runtime" using identifier_new_ok [OF assms(2)] by blast+
  have "\<not> list_ex whitespace (str_lit ''-ORDER-'')"
    by (simp add: str_lit_def whitespace_def unicode_white_space_def)
  then have "\<not> list_ex whitespace (runtime @ str_lit ''-ORDER-'' @ pad6 k)" using r(2) pad6_no_space by simp
  then show ?thesis
    using identifier_new_ok [OF assms(3)] trim_no_space [of whitespace] r(1) assms(1) by (simp add: order_name_def)
qed

section \<open>The invariant\<close>

definition order_ok :: "platform \<Rightarrow> manager \<Rightarrow> rstr \<Rightarrow> entity \<Rightarrow> bool" where
  "order_ok pf m ident e \<longleftrightarrow> os_order_id (en_snapshot e) = ident \<and> snapshot_ok (en_snapshot e)
     \<and> submission_ok (en_outcome e) (os_status (en_snapshot e))
     \<and> fills_agree (journal_fills pf (mg_journal m) ident) (en_snapshot e)
     \<and> map_of (mg_requests m) (os_request_id (en_snapshot e)) = Some ident
     \<and> (\<forall>w. os_venue_order_id (en_snapshot e) = Some w \<longrightarrow>
          map_of (mg_venues m) (os_account_id (en_snapshot e), w) = Some ident)"

definition requests_ok :: "manager \<Rightarrow> bool" where
  "requests_ok m \<longleftrightarrow> (\<forall>rid ident. map_of (mg_requests m) rid = Some ident \<longrightarrow>
     (\<exists>e. map_of (mg_orders m) ident = Some e \<and> os_request_id (en_snapshot e) = rid))"

definition venues_ok :: "manager \<Rightarrow> bool" where
  "venues_ok m \<longleftrightarrow> (\<forall>a w ident. map_of (mg_venues m) (a, w) = Some ident \<longrightarrow>
     (\<exists>e. map_of (mg_orders m) ident = Some e \<and> os_account_id (en_snapshot e) = a \<and> os_venue_order_id (en_snapshot e) = Some w))"

definition manager_ok :: "platform \<Rightarrow> manager \<Rightarrow> bool" where
  "manager_ok pf m \<longleftrightarrow> bt_ok (mg_orders m)
     \<and> mg_creation m = map (order_name (mg_config m)) [1..<Suc (length (mg_creation m))]
     \<and> dom (map_of (mg_orders m)) = set (mg_creation m)
     \<and> (\<forall>ident e. map_of (mg_orders m) ident = Some e \<longrightarrow> order_ok pf m ident e)
     \<and> requests_ok m \<and> venues_ok m
     \<and> (\<forall>ident. ident \<notin> set (mg_creation m) \<longrightarrow> journal_fills pf (mg_journal m) ident = [])
     \<and> mg_sequence m = length (mg_journal m)
     \<and> mg_journal_bytes m = 2 + (\<Sum>v\<leftarrow>mg_journal m. command_size pf v + 1)"

lemma manager_new_ok: "manager_new config = Inr m \<Longrightarrow> manager_ok pf m \<and> mg_config m = config \<and> mg_journal m = []"
  by (auto simp: manager_new_def result_simps manager_ok_def requests_ok_def venues_ok_def journal_fills_def List.map_filter_def)

lemma commit_fields [simp]:
  "mg_orders (commit v sz m) = mg_orders m" "mg_creation (commit v sz m) = mg_creation m" "mg_config (commit v sz m) = mg_config m"
  "mg_requests (commit v sz m) = mg_requests m" "mg_venues (commit v sz m) = mg_venues m" "mg_cancels (commit v sz m) = mg_cancels m"
  "mg_receipts (commit v sz m) = mg_receipts m" "mg_journal (commit v sz m) = mg_journal m @ [v]"
  "mg_sequence (commit v sz m) = mg_sequence m + 1" "mg_journal_bytes (commit v sz m) = mg_journal_bytes m + (sz + 1)"
  by (simp_all add: commit_def)

lemma install_fields [simp]:
  "mg_orders (install_order pf v ident e x c m) = bt_insert ident e (mg_orders m)" "mg_creation (install_order pf v ident e x c m) = mg_creation m"
  "mg_config (install_order pf v ident e x c m) = mg_config m" "mg_requests (install_order pf v ident e x c m) = mg_requests m"
  "mg_journal (install_order pf v ident e x c m) = mg_journal m" "mg_sequence (install_order pf v ident e x c m) = mg_sequence m"
  "mg_journal_bytes (install_order pf v ident e x c m) = mg_journal_bytes m"
  "map_of (mg_venues (install_order pf v ident e x c m)) =
     (case xf_venue x of Some w \<Rightarrow> (map_of (mg_venues m))((os_account_id (en_snapshot e), w) \<mapsto> ident) | None \<Rightarrow> map_of (mg_venues m))"
  by (simp_all add: install_order_def split: option.splits)

lemma gate_venue:
  assumes "external_gate pf m v ident s sub x = None" "xf_venue x = Some w"
  shows "os_venue_order_id s \<in> {None, Some w}" "map_of (mg_venues m) (os_account_id s, w) \<in> {None, Some ident}"
  using assms by (auto simp: external_gate_def Let_def split: if_splits option.splits)

section \<open>Preservation\<close>

lemma create_check_request:
  assumes "create_check pf v = Inr (cluster, account, rq, now)"
  obtains w where "order_request_from_record pf w = Inr rq"
  using assms unfolding create_check_def by (auto simp: result_simps split: if_splits)

lemma create_no_fill:
  assumes "as_object v = Some object" "order_text object ''op'' = Inr (str_lit ''CREATE'')"
  shows "command_fill pf ident v = None"
proof -
  have "str_lit ''CREATE'' \<noteq> str_lit ''FILL''" by code_simp
  then show ?thesis using assms by (simp add: command_fill_def)
qed

context bigdecimal
begin

lemma initial_ok:
  assumes "order_snapshot_new pf (initial_snapshot order client runtime cluster account rq now q zero) = Inr s"
    "pf_lib pf = lib" "quantity_ok (rq_quantity rq)" "decimal_from_str lib uni [48] = Inr zero"
    "quantity_new zero p = Inr q"
  shows "os_order_id s = order" "os_request_id s = rq_request_id rq" "os_venue_order_id s = None" "os_status s = Created"
    "os_account_id s = account" "os_cluster_id s = cluster" "snapshot_ok s" "fills_agree [] s"
proof -
  let ?i = "initial_snapshot order client runtime cluster account rq now q zero"
  note n = snapshot_new_fields [OF assms(1)]
  have z: "decimal_ok zero" using decimal_from_str_ok [OF assms(4)] .
  have q: "quantity_ok q" using quantity_new_ok [OF z assms(5)] by simp
  show "os_order_id s = order" "os_request_id s = rq_request_id rq" "os_venue_order_id s = None" "os_status s = Created"
    "os_account_id s = account" "os_cluster_id s = cluster"
    using n by (simp_all add: kept_def stamps_kept_def initial_snapshot_def)
  show ok: "snapshot_ok s"
    using q z assms(3) by (intro snapshot_new_ok [OF assms(1,2)]) (simp_all add: initial_snapshot_def)
  have f: "os_fill_count s = 0" "os_last_trade_id s = None" "os_remaining_quantity s = os_quantity s"
    using n(1,2) by (simp_all add: fills_kept_def kept_def initial_snapshot_def)
  have "is_zero (os_cumulative_price_quantity s)"
  proof -
    obtain i where s: "s = ?i\<lparr>os_execution_intent := Some i\<rparr>" using snapshot_new_intent [OF assms(1)] .
    have "snapshot_fill_check pf s = Inr ()"
      using assms(1) s by (auto simp: order_snapshot_new_def result_simps Let_def split: if_splits)
    then show ?thesis using f(1) by (auto simp: snapshot_fill_check_def Let_def split: if_splits)
  qed
  then show "fills_agree [] s" using f ok by (simp add: fills_agree_def zero_value snapshot_ok_def)
qed

lemma create_preserves:
  fixes identity :: json
  assumes ok: "manager_ok pf m" and lib: "pf_lib pf = lib"
    and v: "as_object v = Some object" "order_text object ''op'' = Inr (str_lit ''CREATE'')"
    and c: "create_check pf v = Inr (cluster, account, rq, now)" "map_of (mg_requests m) (rq_request_id rq) = None"
    and n: "as_str (jindex (mg_config m) ''runtime_id'') = Some rt" "identifier_new ''OnlyRuntimeId'' rt = Inr runtime"
      "identifier_new ''OnlyOrderId'' (runtime @ str_lit ''-ORDER-'' @ pad6 (length (mg_creation m) + 1)) = Inr order"
    and z: "decimal_from_str (pf_lib pf) (pf_uni pf) [48] = Inr zero" "quantity_new zero (sc_precision (rq_quantity rq)) = Inr q"
    and s: "order_snapshot_new pf (initial_snapshot order client runtime cluster account rq now q zero) = Inr s"
  defines "m' \<equiv> commit v (command_size pf v) (m\<lparr>
      mg_requests := bt_insert (rq_request_id rq) order (mg_requests m), mg_creation := mg_creation m @ [order],
      mg_orders := bt_insert order \<lparr>en_snapshot = s, en_creation = identity, en_outcome = NotDispatched\<rparr> (mg_orders m)\<rparr>)"
  shows "order \<notin> set (mg_creation m)" "manager_ok pf m'"
proof -
  let ?n = "length (mg_creation m)"
  have name: "order = order_name (mg_config m) (Suc ?n)" using new_order_name [OF n] by simp
  have names: "mg_creation m = map (order_name (mg_config m)) [1..<Suc ?n]"
    and dom: "dom (map_of (mg_orders m)) = set (mg_creation m)"
    and orders: "\<And>ident e. map_of (mg_orders m) ident = Some e \<Longrightarrow> order_ok pf m ident e"
    and reqs: "requests_ok m" and vens: "venues_ok m"
    and rest: "bt_ok (mg_orders m)" "\<And>ident. ident \<notin> set (mg_creation m) \<Longrightarrow> journal_fills pf (mg_journal m) ident = []"
      "mg_sequence m = length (mg_journal m)" "mg_journal_bytes m = 2 + (\<Sum>v\<leftarrow>mg_journal m. command_size pf v + 1)"
    using ok by (simp_all add: manager_ok_def del: upt_Suc)
  show fresh: "order \<notin> set (mg_creation m)"
  proof
    assume "order \<in> set (mg_creation m)"
    moreover have "set (mg_creation m) = order_name (mg_config m) ` {1..<Suc ?n}" by (metis names set_map set_upt)
    ultimately obtain k where "k \<le> ?n" "order = order_name (mg_config m) k" by (auto simp: less_Suc_eq_le)
    with name order_name_inject show False by (metis Suc_n_not_le_n)
  qed
  obtain w where "order_request_from_record pf w = Inr rq" using create_check_request [OF c(1)] .
  note i = initial_ok [OF s lib order_request_quantity [OF this] z(1) [unfolded lib] z(2)]
  note nof = create_no_fill [OF v, of pf]
  have none: "map_of (mg_orders m) order = None" using fresh dom by (metis domIff)
  have "order_ok pf m' ident e" if "map_of (mg_orders m') ident = Some e" for ident e
  proof (cases "ident = order")
    case True
    then have "e = \<lparr>en_snapshot = s, en_creation = identity, en_outcome = NotDispatched\<rparr>" using that by (simp add: m'_def)
    then show ?thesis using i rest(2) [OF fresh] True nof
      by (simp add: order_ok_def m'_def submission_ok_def journal_fills_snoc)
  next
    case False
    then have e: "map_of (mg_orders m) ident = Some e" using that by (simp add: m'_def)
    note o = orders [OF e]
    have "os_request_id (en_snapshot e) \<noteq> rq_request_id rq" using o c(2) by (auto simp: order_ok_def)
    then show ?thesis using o nof by (simp add: order_ok_def m'_def journal_fills_snoc)
  qed
  moreover have "requests_ok m'"
    unfolding requests_ok_def
  proof (intro allI impI)
    fix rid ident
    assume a: "map_of (mg_requests m') rid = Some ident"
    show "\<exists>e. map_of (mg_orders m') ident = Some e \<and> os_request_id (en_snapshot e) = rid"
    proof (cases "rid = rq_request_id rq")
      case True
      then show ?thesis using a i(2) by (simp add: m'_def)
    next
      case False
      then have "map_of (mg_requests m) rid = Some ident" using a by (simp add: m'_def)
      with reqs obtain e where "map_of (mg_orders m) ident = Some e" "os_request_id (en_snapshot e) = rid"
        unfolding requests_ok_def by blast
      with none show ?thesis by (auto simp: m'_def)
    qed
  qed
  moreover have "venues_ok m'" using vens none unfolding venues_ok_def m'_def by fastforce
  moreover have "mg_creation m' = map (order_name (mg_config m')) [1..<Suc (length (mg_creation m'))]"
    using names name by (simp add: m'_def)
  moreover have "dom (map_of (mg_orders m')) = set (mg_creation m')" using dom by (simp add: m'_def)
  moreover have "journal_fills pf (mg_journal m') ident = []" if "ident \<notin> set (mg_creation m')" for ident
    using that rest(2) [of ident] nof by (simp add: m'_def journal_fills_snoc)
  ultimately show "manager_ok pf m'" unfolding manager_ok_def using rest by (simp add: m'_def del: upt_Suc)
qed

lemma update_preserves:
  fixes sub :: submission and s :: order_snapshot and cancel :: "(rstr \<times> json) option"
  assumes ok: "manager_ok pf m" and lib: "pf_lib pf = lib"
    and v: "as_object v = Some r" "order_text r ''op'' = Inr opt" "op_parse opt = Some op" "order_text r ''order_id'' = Inr ident"
    and g: "get_entity m cluster ident = Inr e"
    and x: "(if external_op op then external_envelope pf m r op (en_snapshot e) now else Inr no_facts) = Inr x"
      "external_op op \<Longrightarrow> external_gate pf m v ident (en_snapshot e) (en_outcome e) x = None"
    and t: "transition pf m r op cluster (en_snapshot e) (en_outcome e) now (xf_venue x) = Inr (Inr (s, sub, cancel))"
    and n: "order_snapshot_new pf (stamp op now x s) = Inr snap"
  defines "e' \<equiv> \<lparr>en_snapshot = snap, en_creation = en_creation e, en_outcome = (if external_op op then Resolved else sub)\<rparr>"
  defines "m' \<equiv> commit v (command_size pf v) (install_order pf v ident e' x cancel m)"
  shows "order_advances e e' x" "manager_ok pf m'"
proof -
  have e: "map_of (mg_orders m) ident = Some e" using g by (auto simp: get_entity_def result_simps split: if_splits)
  have dom: "dom (map_of (mg_orders m)) = set (mg_creation m)"
    and orders: "\<And>ident e. map_of (mg_orders m) ident = Some e \<Longrightarrow> order_ok pf m ident e"
    and reqs: "requests_ok m" and vens: "venues_ok m"
    and rest: "bt_ok (mg_orders m)" "mg_creation m = map (order_name (mg_config m)) [1..<Suc (length (mg_creation m))]"
      "\<And>ident. ident \<notin> set (mg_creation m) \<Longrightarrow> journal_fills pf (mg_journal m) ident = []"
      "mg_sequence m = length (mg_journal m)" "mg_journal_bytes m = 2 + (\<Sum>v\<leftarrow>mg_journal m. command_size pf v + 1)"
    using ok by (simp_all add: manager_ok_def del: upt_Suc)
  note o = orders [OF e, unfolded order_ok_def]
  show adv: "order_advances e e' x" unfolding e'_def using o by (intro update_advances [OF t n]) simp
  have fills: "snapshot_ok snap" "fills_agree (journal_fills pf (mg_journal m @ [v]) ident) snap"
    using update_fills [OF t n _ v lib, of "mg_journal m"] o by blast+
  have k: "os_order_id snap = ident" "os_request_id snap = os_request_id (en_snapshot e)"
    "os_account_id snap = os_account_id (en_snapshot e)" "submission_ok (en_outcome e') (os_status snap)"
    "os_venue_order_id snap = (case xf_venue x of Some w \<Rightarrow> Some w | None \<Rightarrow> os_venue_order_id (en_snapshot e))"
    using adv o by (simp_all add: order_advances_def kept_def e'_def)
  have ven: "map_of (mg_venues m') = (case xf_venue x of
      Some w \<Rightarrow> (map_of (mg_venues m))((os_account_id (en_snapshot e), w) \<mapsto> ident) | None \<Rightarrow> map_of (mg_venues m))"
    using k(3) by (cases "xf_venue x") (simp_all add: m'_def e'_def)
  have gate: "os_venue_order_id (en_snapshot e) \<in> {None, Some w} \<and> map_of (mg_venues m) (os_account_id (en_snapshot e), w) \<in> {None, Some ident}"
    if "xf_venue x = Some w" for w
  proof (cases "external_op op")
    case True
    then show ?thesis using gate_venue [OF x(2) that] by blast
  next
    case False
    then show ?thesis using x(1) that by (auto simp: no_facts_def)
  qed
  have "order_ok pf m' i d" if d: "map_of (mg_orders m') i = Some d" for i d
  proof (cases "i = ident")
    case True
    then have "d = e'" using d by (simp add: m'_def)
    moreover have "map_of (mg_venues m') (os_account_id snap, w) = Some ident" if "os_venue_order_id snap = Some w" for w
      using that k(3,5) o ven by (auto split: option.splits)
    ultimately show ?thesis using True fills k o by (simp add: order_ok_def m'_def e'_def)
  next
    case False
    then have di: "map_of (mg_orders m) i = Some d" using d by (simp add: m'_def)
    note od = orders [OF di, unfolded order_ok_def]
    have "map_of (mg_venues m') (os_account_id (en_snapshot d), w) = Some i" if w: "os_venue_order_id (en_snapshot d) = Some w" for w
      using od w gate False ven by (auto split: option.splits)
    then show ?thesis using od command_fill_other [OF v(1,4) False] by (simp add: order_ok_def m'_def journal_fills_snoc)
  qed
  moreover have "requests_ok m'"
    using reqs e k(2) unfolding requests_ok_def m'_def e'_def by fastforce
  moreover have "venues_ok m'"
    unfolding venues_ok_def
  proof (intro allI impI)
    fix a w i
    assume a: "map_of (mg_venues m') (a, w) = Some i"
    show "\<exists>d. map_of (mg_orders m') i = Some d \<and> os_account_id (en_snapshot d) = a \<and> os_venue_order_id (en_snapshot d) = Some w"
    proof (cases "xf_venue x = Some w \<and> a = os_account_id (en_snapshot e)")
      case True
      then show ?thesis using a ven k by (simp add: m'_def e'_def)
    next
      case False
      then have old: "map_of (mg_venues m) (a, w) = Some i" using a ven by (auto split: option.splits if_splits)
      with vens obtain d where d: "map_of (mg_orders m) i = Some d" "os_account_id (en_snapshot d) = a" "os_venue_order_id (en_snapshot d) = Some w"
        unfolding venues_ok_def by blast
      show ?thesis
      proof (cases "i = ident")
        case True
        then have "d = e" using d(1) e by simp
        then show ?thesis using d True gate False k by (auto simp: m'_def e'_def split: option.splits)
      next
        case False
        then show ?thesis using d by (simp add: m'_def)
      qed
    qed
  qed
  moreover have "dom (map_of (mg_orders m')) = set (mg_creation m')" using dom e by (auto simp: m'_def)
  moreover have "journal_fills pf (mg_journal m') i = []" if "i \<notin> set (mg_creation m')" for i
  proof -
    have "i \<noteq> ident" using that dom e by (auto simp: m'_def)
    then show ?thesis using that rest(3) [of i] command_fill_other [OF v(1,4)] by (simp add: m'_def journal_fills_snoc)
  qed
  ultimately show "manager_ok pf m'" unfolding manager_ok_def using rest by (simp add: m'_def del: upt_Suc)
qed

lemma step_preserves:
  assumes "order_step pf m v m'" "manager_ok pf m" "pf_lib pf = lib"
  shows "manager_ok pf m'"
  using assms(1)
proof cases
  case step_create
  then show ?thesis using create_preserves(2) [OF assms(2,3)] by blast
next
  case step_update
  then show ?thesis using update_preserves(2) [OF assms(2,3)] by blast
qed

end

end
