(* ===== verification/Order_Safety.thy ===== *)
theory Order_Safety
  imports Order_Invariant
begin

text \<open>
  Reachable order managers: the interpretation of the transition system on the manager's
  commands, and that no operation panics in a state that satisfies the invariant.
\<close>

section \<open>Reachable managers\<close>

definition order_command :: "platform \<Rightarrow> manager \<Rightarrow> manager \<Rightarrow> bool" where
  "order_command pf m m' \<longleftrightarrow> (\<exists>v oc. apply_command pf m v = Inr (m', oc))"

abbreviation orders_reachable :: "platform \<Rightarrow> json \<Rightarrow> manager \<Rightarrow> bool" where
  "orders_reachable pf config \<equiv> reachable (\<lambda>m. manager_new config = Inr m) (order_command pf)"

lemma command_preserves:
  assumes "bigdecimal (pf_lib pf)" "apply_command pf m v = Inr (m', oc)" "manager_ok pf m"
  shows "manager_ok pf m'"
  using assms(2) by (rule apply_command_cases) (use assms bigdecimal.step_preserves in blast)+

interpretation orders: invariant_system "\<lambda>m. manager_new config = Inr m" "order_command pf"
  "\<lambda>m. bigdecimal (pf_lib pf) \<longrightarrow> manager_ok pf m" for config pf
  by unfold_locales (auto simp: manager_new_ok order_command_def intro: command_preserves)

section \<open>Absence of panics\<close>

definition no_panic :: "order_error + 'a \<Rightarrow> bool" where
  "no_panic r \<longleftrightarrow> r \<noteq> Inl OrderPanic"

named_theorems no_panics \<open>operations that never panic\<close>

lemma no_panic_rbind: "no_panic m \<Longrightarrow> (\<And>x. m = Inr x \<Longrightarrow> no_panic (f x)) \<Longrightarrow> no_panic (rbind m f)"
  by (cases m) (auto simp: no_panic_def)

lemma no_panic_base [simp]:
  "no_panic (Inr x)" "no_panic (Inl (OrderError e))" "no_panic (Inl OrderJsonError)" "no_panic (from_domain r)" "no_panic (ok_or y (OrderError e))"
  by (auto simp: no_panic_def from_domain_def ok_or_def split: sum.splits option.splits)

lemma no_panic_readers [no_panics]:
  "no_panic (order_row v names)" "no_panic (order_text r k)" "no_panic (check_fingerprint s)" "no_panic (order_integer w)"
  "no_panic (order_time r k)" "no_panic (decimal_bound pf d)"
  by (auto simp: order_row_def order_text_def check_fingerprint_def order_integer_def order_time_def decimal_bound_def intro!: no_panic_rbind)

lemma no_panic_walk [no_panics]: "no_panic (fee_amount_walk pf vs)"
proof (induction pf vs rule: fee_amount_walk.induct)
  case (2 pf v vs)
  have "no_panic (fee_amount_check pf row)" for row
    unfolding fee_amount_check_def by (auto intro!: no_panic_rbind no_panics split: option.splits)
  with 2 show ?case by (cases v) (auto simp: fee_amount_walk.simps(2) intro!: no_panic_rbind)
qed simp

lemma no_panic_average [no_panics]: "no_panic (average pf a q p)"
  by (auto simp: average_def Let_def intro!: no_panic_rbind no_panics)

lemma no_panic_create_check [no_panics]: "no_panic (create_check pf v)"
  unfolding create_check_def by (intro no_panic_rbind no_panics) (auto intro!: no_panic_rbind no_panics split: option.splits)

lemma no_panic_envelope [no_panics]: "no_panic (external_envelope pf m r op s now)"
  unfolding external_envelope_def fill_envelope_def external_sequence_def Let_def
  by (auto intro!: no_panic_rbind no_panics)

lemma no_panic_fill [no_panics]: "no_panic (do_fill pf r s sub)"
proof -
  have "no_panic (fill_effect pf s f)" for f unfolding fill_effect_def by (auto intro!: no_panic_rbind no_panics)
  then show ?thesis
    unfolding do_fill_def flow_defs Let_def by (auto intro!: no_panic_rbind no_panics split: option.splits)
qed

lemma no_panic_close [no_panics]: "no_panic (do_close pf r op s sub now)"
  unfolding do_close_def flow_defs Let_def by (auto intro!: no_panic_rbind no_panics split: order_status.splits)

lemma no_panic_transition [no_panics]: "no_panic (transition pf m r op cluster s sub now venue)"
proof -
  have "no_panic (do_fee pf r s sub now)"
    unfolding do_fee_def fee_amount_bounds_def flow_defs by (auto intro!: no_panic_rbind no_panics)
  moreover have "no_panic (do_submit_result pf r s sub now)"
    unfolding do_submit_result_def flow_defs by (auto intro!: no_panic_rbind no_panics split: option.splits)
  moreover have "no_panic (do_cancel pf m r cluster s sub now)"
    unfolding do_cancel_def flow_defs Let_def by (auto intro!: no_panic_rbind split: option.splits)
  moreover have "no_panic (do_fail pf r s sub now)" unfolding do_fail_def flow_defs by (auto intro!: no_panic_rbind)
  ultimately show ?thesis
    by (cases op) (simp_all add: transition_def no_panics, simp_all add: do_begin_submit_def do_reconcile_def do_accept_def flow_defs)
qed

lemma no_panic_collect: "(\<And>x. x \<in> set xs \<Longrightarrow> no_panic (f x)) \<Longrightarrow> no_panic (collect f xs)"
  by (induction xs) (auto intro!: no_panic_rbind)

lemma no_panic_checkpoint:
  assumes "dom (map_of (mg_orders m)) = set (mg_creation m)"
  shows "no_panic (checkpoint pf m)"
proof -
  have "map_of (mg_orders m) ident \<noteq> None" if "ident \<in> set (mg_creation m)" for ident
    using assms that by (metis domIff)
  then have "no_panic (ok_or (map_of (mg_orders m) ident) OrderPanic)" if "ident \<in> set (mg_creation m)" for ident
    using that by (auto simp: no_panic_def ok_or_def split: option.splits)
  then have "no_panic (state_record m)"
    unfolding state_record_def by (intro no_panic_rbind no_panic_collect) auto
  then show ?thesis unfolding checkpoint_def checkpoint_record_def Let_def by (auto intro!: no_panic_rbind)
qed

lemma no_panic_capacity:
  assumes "dom (map_of (mg_orders m)) = set (mg_creation m)"
  shows "no_panic (capacity pf m sz s increasing)"
  unfolding capacity_def using no_panic_checkpoint [OF assms, of pf] by (auto intro!: no_panic_rbind)

lemma no_panic_prepare [no_panics]: "no_panic (prepare_result pf m op s v c sub)"
  by (simp add: prepare_result_def)

lemma no_panic_apply:
  assumes "manager_ok pf m"
  shows "no_panic (apply_command pf m v)"
proof -
  have dom: "dom (map_of (mg_orders m)) = set (mg_creation m)" and reqs: "requests_ok m"
    using assms by (simp_all add: manager_ok_def)
  note cap = no_panic_capacity [OF dom]
  have "no_panic (create_order pf m v sz)" for sz
  proof -
    have "no_panic (remove_member v ''at'')" by (simp add: remove_member_def split: json.splits)
    moreover have "no_panic (ok_or (map_of (mg_orders m) ident) OrderPanic)" if "map_of (mg_requests m) rid = Some ident" for rid ident
      using reqs that by (fastforce simp: requests_ok_def no_panic_def)
    ultimately show ?thesis
      unfolding create_order_def Let_def using cap
      by (auto intro!: no_panic_rbind no_panics split: option.splits)
  qed
  moreover have "no_panic (apply_update pf m v sz opt op)" for sz opt op
  proof -
    have g: "no_panic (get_entity m c i)" for c i by (auto simp: get_entity_def intro!: no_panic_rbind)
    have "no_panic (finish pf m v sz op opt i e now x ch)" for i e now x ch
      unfolding finish_def Let_def using cap by (auto intro!: no_panic_rbind no_panics split: prod.splits)
    with g show ?thesis
      unfolding apply_update_def Let_def by (auto intro!: no_panic_rbind no_panics split: option.splits sum.splits)
  qed
  ultimately show ?thesis unfolding apply_command_def Let_def by (auto intro!: no_panic_rbind no_panics)
qed

end
