(* ===== verification/Order_Example.thy ===== *)
theory Order_Example
  imports Order_Steps "HOL-Library.Code_Target_Nat"
begin

text \<open>
  A concrete run of the order manager: a market order is created and then failed before it was
  dispatched. The platform of the run has the reference decimal library and constant text and
  digest functions; its parser returns the checkpoint of the state after the creation.
\<close>

definition ex_config :: json where
  "ex_config = jobject [(''schema_version'', jint 1), (''engine_id'', JString (str_lit ''E'')), (''runtime_id'', JString (str_lit ''R'')),
     (''gateway_id'', JString (str_lit ''G'')), (''generation'', JString (replicate 64 48))]"

definition ex_rq :: order_request where
  "ex_rq = \<lparr>rq_request_id = str_lit ''Q'', rq_instrument_id = \<lparr>ii_symbol = str_lit ''S'', ii_venue = str_lit ''V''\<rparr>,
     rq_side = SideBuy, rq_order_type = TypeMarket, rq_quantity = \<lparr>sc_value = dec 3 0, sc_precision = 0\<rparr>, rq_time_in_force = TifDay,
     rq_account_id = None, rq_offset = OffsetNone, rq_price = None, rq_stop_price = None, rq_expire_time = None, rq_tags = [],
     rq_metadata = [], rq_execution_intent = Some \<lparr>xi_side = SideBuy, xi_position_side = PosLong,
       xi_position_effect = EffectOpen, xi_close_scope = CloseScopeAny, xi_exposure_constraint = ExposureNone,
       xi_position_mode = ModeNetting\<rparr>\<rparr>"

definition ex_identity :: "(string \<times> json) list" where
  "ex_identity = [(''schema_version'', jint 1), (''op'', JString (str_lit ''CREATE'')), (''cluster_id'', JString (str_lit ''C'')),
     (''account_id'', JString (str_lit ''A'')), (''request'', order_request_to_record ex_rq), (''cause'', JString (replicate 64 48))]"

definition ex_create :: json where
  "ex_create = jobject (ex_identity @ [(''at'', jint 1)])"

definition ex_order :: rstr where
  "ex_order = str_lit ''R-ORDER-000001''"

definition ex_failure :: order_failure where
  "ex_failure = \<lparr>fl_code = str_lit ''X'', fl_message = str_lit ''Y''\<rparr>"

definition ex_fail :: json where
  "ex_fail = jobject [(''schema_version'', jint 1), (''op'', JString (str_lit ''FAIL'')), (''cluster_id'', JString (str_lit ''C'')),
     (''order_id'', JString ex_order), (''at'', jint 2), (''failure'', order_failure_to_record ex_failure)]"

definition ex_start :: manager where
  "ex_start = \<lparr>mg_config = ex_config, mg_orders = [], mg_creation = [], mg_requests = [], mg_cancels = [], mg_receipts = [],
     mg_venues = [], mg_journal = [], mg_journal_bytes = 2, mg_sequence = 0\<rparr>"

definition ex_snapshot :: order_snapshot where
  "ex_snapshot = initial_snapshot ex_order (str_lit ''R-CLIENT-000001'') (str_lit ''R'') (str_lit ''C'') (str_lit ''A'') ex_rq 1
     \<lparr>sc_value = dec 0 0, sc_precision = 0\<rparr> (dec 0 0)"

definition ex_entity :: entity where
  "ex_entity = \<lparr>en_snapshot = ex_snapshot, en_creation = jobject ex_identity, en_outcome = NotDispatched\<rparr>"

definition ex_created :: manager where
  "ex_created = ex_start\<lparr>mg_orders := [(ex_order, ex_entity)], mg_creation := [ex_order], mg_requests := [(str_lit ''Q'', ex_order)],
     mg_journal := [ex_create], mg_journal_bytes := 5, mg_sequence := 1\<rparr>"

definition ex_parse :: "nat list \<Rightarrow> json option" where
  "ex_parse bs = (case checkpoint_record ex_created of Inr rec \<Rightarrow> Some rec | Inl _ \<Rightarrow> None)"

definition ex_platform :: platform where
  "ex_platform = \<lparr>pf_lib = ref_lib, pf_uni = ascii_uni, pf_sha256 = (\<lambda>_. replicate 32 0),
     pf_json_text = (\<lambda>_. str_lit ''{}''), pf_json_parse = ex_parse\<rparr>"

definition ex_row :: "(rstr \<times> json) list" where
  "ex_row = (case ex_fail of JObject r \<Rightarrow> r | _ \<Rightarrow> [])"

definition ex_failed_snapshot :: order_snapshot where
  "ex_failed_snapshot = ex_snapshot\<lparr>os_status := Failed, os_failed_at := Some 2, os_failure := Some ex_failure,
     os_updated_at := 2, os_version := 2\<rparr>"

definition ex_failed :: manager where
  "ex_failed = ex_created\<lparr>mg_orders := [(ex_order, \<lparr>en_snapshot = ex_failed_snapshot, en_creation = jobject ex_identity, en_outcome = Suppressed\<rparr>)],
     mg_journal := [ex_create, ex_fail], mg_journal_bytes := 8, mg_sequence := 2\<rparr>"

definition ex_fill :: order_fill where
  "ex_fill = \<lparr>fi_trade_id = str_lit ''T'', fi_order_id = ex_order, fi_price = \<lparr>sc_value = dec 25 1, sc_precision = 1\<rparr>,
     fi_quantity = \<lparr>sc_value = dec 2 0, sc_precision = 0\<rparr>, fi_ts_event = 3, fi_ts_init = 4, fi_venue_trade_id = None,
     fi_venue_order_id = Some (str_lit ''V1''), fi_liquidity_side = LiqTaker, fi_external_sequence = Some 7,
     fi_external_event_id = Some (str_lit ''E1''), fi_metadata = [(str_lit ''k'', str_lit ''v'')], fi_reference_price = None\<rparr>"

lemma ex_new: "manager_new ex_config = Inr ex_start"
  by code_simp

lemma ex_create_read:
  "as_object ex_create \<noteq> None" "rbind (ok_or (as_object ex_create) OrderPanic) (\<lambda>r. order_text r ''op'') = Inr (str_lit ''CREATE'')"
  "remove_member ex_create ''at'' = Inr (jobject ex_identity)"
  by code_simp+

lemma ex_check: "create_check ex_platform ex_create = Inr (str_lit ''C'', str_lit ''A'', ex_rq, 1)"
  by code_simp

lemma ex_snapshot_new: "order_snapshot_new ex_platform ex_snapshot = Inr ex_snapshot"
  by code_simp

lemma ex_sizes: "str_len (pf_json_text ex_platform v) = 2" "length (json_bytes ex_platform v) = 2"
  by (simp_all add: ex_platform_def str_len_def json_bytes_def str_bytes_def str_lit_def utf8_def)

lemma ex_capacity: "capacity ex_platform ex_start 2 s b = Inr ()"
  by (simp add: capacity_def checkpoint_def checkpoint_record_def state_record_def ex_start_def max_journal_def max_journal_bytes_def
      max_checkpoint_def ex_sizes Let_def)

lemma ex_names:
  "as_str (jindex ex_config ''runtime_id'') = Some (str_lit ''R'')" "identifier_new ''OnlyRuntimeId'' (str_lit ''R'') = Inr (str_lit ''R'')"
  "identifier_new ''OnlyOrderId'' (str_lit ''R'' @ str_lit ''-ORDER-'' @ pad6 1) = Inr ex_order"
  "identifier_new ''OnlyClientOrderId'' (str_lit ''R'' @ str_lit ''-CLIENT-'' @ pad6 1) = Inr (str_lit ''R-CLIENT-000001'')"
  "decimal_from_str (pf_lib ex_platform) (pf_uni ex_platform) [48] = Inr (dec 0 0)"
  "quantity_new (dec 0 0) (sc_precision (rq_quantity ex_rq)) = Inr \<lparr>sc_value = dec 0 0, sc_precision = 0\<rparr>"
  "rq_request_id ex_rq = str_lit ''Q''" "rq_expire_time ex_rq = None"
  by code_simp+

lemma ex_create_order: "\<exists>oc. create_order ex_platform ex_start ex_create 2 = Inr (ex_created, oc) \<and> oc_result oc = Applied"
proof -
  have st: "mg_requests ex_start = []" "mg_creation ex_start = []" "mg_config ex_start = ex_config" "mg_orders ex_start = []" "mg_sequence ex_start = 0"
    by (simp_all add: ex_start_def)
  show ?thesis
    unfolding create_order_def ex_check ex_create_read(3) rbind_simps prod.case st
    by (simp add: ex_names [simplified] max_orders_def ex_snapshot_new [unfolded ex_snapshot_def] ex_capacity prepare_result_def st)
      (simp add: commit_def ex_created_def ex_start_def ex_entity_def ex_snapshot_def)
qed

lemma ex_created_step: "\<exists>oc. apply_command ex_platform ex_start ex_create = Inr (ex_created, oc) \<and> oc_result oc = Applied"
proof -
  obtain r where "as_object ex_create = Some r" "order_text r ''op'' = Inr (str_lit ''CREATE'')"
    using ex_create_read(1,2) by (auto simp: result_simps)
  then show ?thesis using ex_create_order by (simp add: apply_command_def ex_sizes max_command_bytes_def)
qed

lemma ex_fail_read:
  "as_object ex_fail = Some ex_row" "order_row ex_fail [''op'', ''cluster_id'', ''order_id'', ''at'', ''failure''] = Inr ex_row"
  "order_text ex_row ''op'' = Inr (str_lit ''FAIL'')" "order_text ex_row ''cluster_id'' = Inr (str_lit ''C'')"
  "order_text ex_row ''order_id'' = Inr ex_order" "order_time ex_row ''at'' = Inr 2" "op_parse (str_lit ''FAIL'') = Some OpFail"
  "order_failure_from_record ex_platform (jfield ex_row ''failure'') = Inr ex_failure" "str_lit ''FAIL'' \<noteq> str_lit ''CREATE''"
  by code_simp+

lemma ex_failed_new: "order_snapshot_new ex_platform ex_failed_snapshot = Inr ex_failed_snapshot"
  by code_simp

lemma ex_fields:
  "os_cluster_id ex_snapshot = str_lit ''C''" "os_status ex_snapshot = Created" "os_updated_at ex_snapshot = 1" "os_version ex_snapshot = 1"
  by (simp_all add: ex_snapshot_def initial_snapshot_def)

lemma ex_stamp:
  "stamp OpFail 2 no_facts (ex_snapshot\<lparr>os_status := Failed, os_failed_at := Some 2, os_failure := Some ex_failure\<rparr>) = ex_failed_snapshot"
  by (simp add: stamp_def no_facts_def external_op_def ex_failed_snapshot_def ex_fields)

lemma ex_failed_step: "\<exists>oc. apply_command ex_platform ex_created ex_fail = Inr (ex_failed, oc) \<and> oc_result oc = Applied"
proof -
  have st: "mg_orders ex_created = [(ex_order, ex_entity)]" "mg_sequence ex_created = 1" by (simp_all add: ex_created_def)
  have tr: "transition ex_platform ex_created ex_row OpFail (str_lit ''C'') ex_snapshot NotDispatched 2 venue
      = Inr (Inr (ex_snapshot\<lparr>os_status := Failed, os_failed_at := Some 2, os_failure := Some ex_failure\<rparr>, Suppressed, None))" for venue
    by (simp add: transition_def do_fail_def ex_fail_read ex_fields flow_defs)
  have cap: "capacity ex_platform ex_created 2 s False = Inr ()" for s by (simp add: capacity_def ex_sizes)
  have get: "get_entity ex_created (str_lit ''C'') ex_order = Inr ex_entity"
    by (simp add: get_entity_def st ex_entity_def ex_fields)
  have fin: "commit ex_fail 2 (install_order ex_platform ex_fail ex_order
      \<lparr>en_snapshot = ex_failed_snapshot, en_creation = jobject ex_identity, en_outcome = Suppressed\<rparr> no_facts None ex_created) = ex_failed"
    by (simp add: commit_def install_order_def no_facts_def ex_failed_def ex_created_def ex_start_def)
  show ?thesis
    unfolding apply_command_def Let_def ex_sizes
    using ex_fail_read(9) fin
    by (simp add: max_command_bytes_def ex_fail_read apply_update_def extra_names_def get ex_entity_def external_op_def tr finish_def
        ex_stamp [simplified external_op_def] ex_failed_new prepare_result_def st cap ex_fields Let_def)
qed

end
