(* ===== verification/Domain_Codec.thy ===== *)
theory Domain_Codec
  imports Domain_Execution Decimal_Values
begin

text \<open>
  The contract of record codecs. Reading is not injective (identifiers are trimmed, decimals
  have several spellings), so the law of a codec is that it is stable: writing what was read
  and reading it again gives the same value. The locales \<open>stable_codec\<close> and \<open>field_codec\<close>
  state the law, their lemmas lift it to options, lists and maps, and every field type of the
  domain is an interpretation (those over decimals inside the locale of platforms whose decimal
  library reads what the domain prints).
\<close>

section \<open>Codecs\<close>

locale stable_codec =
  fixes enc :: "'a \<Rightarrow> json" and dec :: "json \<Rightarrow> domain_error + 'a"
  assumes stable: "dec v = Inr x \<Longrightarrow> dec (enc x) = Inr x"
begin

lemma collect_stable: "collect dec vs = Inr xs \<Longrightarrow> collect dec (map enc xs) = Inr xs"
  by (induction vs arbitrary: xs) (auto simp: result_simps stable)

lemma list_stable: "decode_list dec v = Inr xs \<Longrightarrow> decode_list dec (encode_list enc xs) = Inr xs"
  by (auto simp: decode_list_def encode_list_def as_array_def result_simps intro: collect_stable)

lemma entries_stable:
  "collect (\<lambda>(k, v). rbind (dec v) (\<lambda>x. Inr (k, x))) ms = Inr es \<Longrightarrow>
     \<forall>(k, x) \<in> set es. dec (enc x) = Inr x"
  by (induction ms arbitrary: es) (auto simp: result_simps stable)

lemma entries_again:
  "\<forall>(k, x) \<in> set es. dec (enc x) = Inr x \<Longrightarrow>
     collect (\<lambda>(k, v). rbind (dec v) (\<lambda>x. Inr (k, x))) (map (\<lambda>(k, v). (k, enc v)) es) = Inr es"
  by (induction es) auto

end

locale field_codec = stable_codec +
  assumes not_null: "dec v = Inr x \<Longrightarrow> enc x \<noteq> JNull"
begin

lemma option_stable: "decode_option dec v = Inr x \<Longrightarrow> decode_option dec (encode_option enc x) = Inr x"
  using stable not_null by (auto simp: decode_option_def encode_option_def result_simps split: if_splits)

end

lemma bt_from_list_id: "bt_ok m \<Longrightarrow> bt_from_list m = m"
proof -
  have "bt_ok (n @ m) \<Longrightarrow> fold (\<lambda>p m. bt_insert (fst p) (snd p) m) m n = n @ m" for n :: "('a, 'b) btree"
  proof (induction m arbitrary: n)
    case (Cons p m)
    have "bt_insert (fst p) (snd p) n = n @ [p]"
      using Cons.prems by (induction n) (auto simp: bt_ok_def)
    then show ?case using Cons.IH [of "n @ [p]"] Cons.prems by simp
  qed simp
  from this [of "[]"] show "bt_ok m \<Longrightarrow> bt_from_list m = m" by (simp add: bt_from_list_def)
qed

lemma set_bt_insert: "set (bt_insert k v m) \<subseteq> insert (k, v) (set m)"
  by (induction m) auto

lemma set_bt_from_list: "set (bt_from_list es) \<subseteq> set es"
proof -
  have "set (fold (\<lambda>p m. bt_insert (fst p) (snd p) m) es m) \<subseteq> set es \<union> set m" for m :: "('a, 'b) btree"
    using set_bt_insert by (induction es arbitrary: m) fastforce+
  from this [of "[]"] show ?thesis by (simp add: bt_from_list_def)
qed


context stable_codec
begin

lemma map_stable: "decode_map dec v = Inr m \<Longrightarrow> decode_map dec (encode_map enc m) = Inr m"
proof -
  assume "decode_map dec v = Inr m"
  then obtain ms es where e: "collect (\<lambda>(k, v). rbind (dec v) (\<lambda>x. Inr (k, x))) ms = Inr es" "m = bt_from_list es"
    by (auto simp: decode_map_def result_simps)
  have "\<forall>(k, x) \<in> set m. dec (enc x) = Inr x" using entries_stable [OF e(1)] set_bt_from_list [of es] e(2) by blast
  then have "collect (\<lambda>(k, v). rbind (dec v) (\<lambda>x. Inr (k, x))) (map (\<lambda>(k, v). (k, enc v)) m) = Inr m"
    by (rule entries_again)
  moreover have "bt_from_list m = m" using e(2) by (simp add: bt_from_list_id)
  ultimately show ?thesis by (simp add: decode_map_def encode_map_def as_object_def)
qed

end

section \<open>Records\<close>

declare str_lit_inject [simp]

lemma serialization_simps [simp]: "serialization (Inr x) = Inr x"
  by (simp add: serialization_def)

lemma bt_fold_map_of:
  "distinct (map fst es) \<Longrightarrow> map_of (fold (\<lambda>p m. bt_insert (fst p) (snd p) m) es m) = map_of m ++ map_of es"
proof (induction es arbitrary: m)
  case (Cons p es)
  have "fst p \<notin> dom (map_of es)" using Cons.prems by (auto simp: dom_map_of_conv_image_fst)
  then show ?case using Cons by (cases p) (auto simp: fun_eq_iff map_add_def dom_def split: option.splits)
qed simp

lemma bt_fold_length:
  "distinct (map fst es) \<Longrightarrow> bt_ok m \<Longrightarrow> fst ` set es \<inter> fst ` set m = {} \<Longrightarrow>
     length (fold (\<lambda>p m. bt_insert (fst p) (snd p) m) es m) = length es + length m"
proof (induction es arbitrary: m)
  case (Cons p es)
  have "map_of m (fst p) = None" using Cons.prems by (auto simp: map_of_eq_None_iff)
  then show ?case
    using Cons.IH [of "bt_insert (fst p) (snd p) m"] Cons.prems length_bt_insert [of m "fst p" "snd p"]
    by (auto simp: set_bt_insert_keys)
qed simp

lemma map_of_str_lit: "map_of (map (\<lambda>(k, v). (str_lit k, v)) ms) (str_lit n) = map_of ms n"
  by (induction ms) auto

text \<open>Reading the record that a model writes gives back the fields by name.\<close>

definition member :: "(string \<times> json) list \<Rightarrow> string \<Rightarrow> json" where
  "member ms n = (case map_of ms n of Some v \<Rightarrow> v | None \<Rightarrow> JNull)"

lemma model_reads:
  assumes "distinct (map fst ms)" "''schema_version'' \<notin> set (map fst ms)" "version < 2 ^ 64" "names = map fst ms"
  shows "model_from_record (model_to_record (int version) ms) version names build
    = serialization (build (member ((''schema_version'', jint (int version)) # ms)))"
proof -
  let ?es = "map (\<lambda>(k, v). (str_lit k, v)) ((''schema_version'', jint (int version)) # ms)"
  let ?row = "bt_from_list ?es"
  have keys: "map fst ?es = map str_lit (''schema_version'' # map fst ms)" by (auto simp: case_prod_beta)
  have d: "distinct (map fst ?es)" unfolding keys by (subst distinct_map) (use assms(1,2) in \<open>simp add: inj_on_def\<close>)
  have m: "map_of ?row = map_of ?es" using bt_fold_map_of [OF d, of "[]"] by (simp add: bt_from_list_def)
  have l: "length ?row = length ms + 1" using bt_fold_length [OF d, of "[]"] by (simp add: bt_from_list_def)
  have look: "map_of ?row (str_lit n) = map_of ((''schema_version'', jint (int version)) # ms) n" for n
    unfolding m by (rule map_of_str_lit)
  have v: "as_u64 (jint (int version)) = Some version"
    using assms(3) by (simp add: jint_def as_u64_def u64_token_def int_text_def)
  have c: "bt_contains ?row (str_lit n)" if "n \<in> set (map fst ms)" for n
    using that look [of n] by (auto simp: bt_contains_def map_of_eq_None_iff dest: weak_map_of_SomeI)
  have "record_row (JObject ?row) version names = Inr ?row"
    using c look [of "''schema_version''"] l v assms(4)
    by (auto simp: record_row_def as_object_def list_ex_iff)
  moreover have "jfield ?row = member ((''schema_version'', jint (int version)) # ms)"
    unfolding fun_eq_iff jfield_def member_def look by simp
  ultimately show ?thesis by (simp add: model_from_record_def model_to_record_def jobject_def)
qed

section \<open>Field codecs\<close>

lemma enum_stable:
  assumes "\<And>x. enum_parse n table (enum_text table x) = Inr x"
  shows "field_codec (encode_enum table) (decode_enum n table)"
  by unfold_locales (auto simp: decode_enum_def encode_enum_def dom_text_def as_str_def assms)

lemma trim_identifier: "identifier_new n t = Inr v \<Longrightarrow> identifier_new n v = Inr v"
  by (auto simp: identifier_new_def Let_def split: if_splits)

interpretation text_codec: field_codec JString decode_text
  by unfold_locales (simp_all add: decode_text_def dom_text_def as_str_def)

interpretation bool_codec: field_codec JBool decode_bool
  by unfold_locales (simp_all add: decode_bool_def as_bool_def)

interpretation int_codec: field_codec jint decode_int
  by unfold_locales (simp_all add: decode_int_def jint_def as_number_def)

lemma identifier_as_model:
  "identifier_from_record n v = model_from_record v 1 [''value''] (\<lambda>f. rbind (dom_text (f ''value'') ''value'') (identifier_new n))"
  "identifier_to_record t = model_to_record 1 [(''value'', JString t)]"
  by (simp_all add: identifier_from_record_def model_from_record_def identifier_to_record_def model_to_record_def)

lemma record_not_null [simp]: "model_to_record k ms \<noteq> JNull" "jobject ms \<noteq> JNull"
  by (simp_all add: model_to_record_def jobject_def)

lemma model_reads_1:
  assumes "distinct (map fst ms)" "''schema_version'' \<notin> set (map fst ms)" "names = map fst ms"
  shows "model_from_record (model_to_record 1 ms) 1 names build = serialization (build (member ((''schema_version'', jint 1) # ms)))"
  using model_reads [of ms 1 names build] assms by simp

lemma model_reads_2:
  assumes "distinct (map fst ms)" "''schema_version'' \<notin> set (map fst ms)" "names = map fst ms"
  shows "model_from_record (model_to_record 2 ms) 2 names build = serialization (build (member ((''schema_version'', jint 2) # ms)))"
  using model_reads [of ms 2 names build] assms by simp

lemmas model_reads_one = model_reads_1 [unfolded One_nat_def]

interpretation identifier_codec: field_codec identifier_to_record "identifier_from_record n" for n
proof
  fix v x
  assume a: "identifier_from_record n v = Inr x"
  then obtain t where "identifier_new n t = Inr x"
    by (auto simp: identifier_from_record_def serialization_def result_simps split: sum.splits)
  then have "identifier_new n x = Inr x" by (rule trim_identifier)
  then show "identifier_from_record n (identifier_to_record x) = Inr x"
    unfolding identifier_as_model by (subst model_reads_1) (auto simp: member_def dom_text_def as_str_def)
  show "identifier_to_record x \<noteq> JNull" by (simp add: identifier_to_record_def)
qed

lemma serialization_inverse: "serialization r = Inr x \<Longrightarrow> r = Inr x"
  by (cases r) (auto simp: serialization_def)

interpretation instrument_codec: field_codec instrument_to_record instrument_from_record
proof
  fix v x
  assume "instrument_from_record v = Inr x"
  then obtain a b where "identifier_from_record ''OnlySymbol'' a = Inr (ii_symbol x)" "identifier_from_record ''OnlyVenueId'' b = Inr (ii_venue x)"
    by (auto simp: instrument_from_record_def result_simps dest!: serialization_inverse)
  note r = this [THEN identifier_codec.stable]
  have "instrument_from_record w = model_from_record w 1 [''symbol'', ''venue''] (\<lambda>f.
      rbind (identifier_from_record ''OnlySymbol'' (f ''symbol'')) (\<lambda>s.
      rbind (identifier_from_record ''OnlyVenueId'' (f ''venue'')) (\<lambda>v. Inr \<lparr>ii_symbol = s, ii_venue = v\<rparr>)))" for w
    by (simp add: instrument_from_record_def model_from_record_def)
  moreover have "instrument_to_record x = model_to_record 1 [(''symbol'', identifier_to_record (ii_symbol x)), (''venue'', identifier_to_record (ii_venue x))]"
    by (simp add: instrument_to_record_def model_to_record_def)
  ultimately show "instrument_from_record (instrument_to_record x) = Inr x"
    using r by (simp add: model_reads_one member_def)
  show "instrument_to_record x \<noteq> JNull" by (simp add: instrument_to_record_def)
qed

interpretation timestamp_codec: field_codec timestamp_to_record timestamp_from_record
proof
  fix v x
  have "timestamp_from_record w = model_from_record w 1 [''unix_nanos''] (\<lambda>f.
      rbind (ok_or (as_number (f ''unix_nanos'')) (DomValidation ''unix_nanos must be an integer'')) (\<lambda>token.
      ok_or (int_parse token) (DomValidation ''unix_nanos must be an integer'')))" for w
    by (simp add: timestamp_from_record_def model_from_record_def)
  moreover have "timestamp_to_record x = model_to_record 1 [(''unix_nanos'', jint x)]"
    by (simp add: timestamp_to_record_def model_to_record_def)
  ultimately show "timestamp_from_record (timestamp_to_record x) = Inr x"
    by (simp add: model_reads_one member_def jint_def as_number_def)
  show "timestamp_to_record x \<noteq> JNull" by (simp add: timestamp_to_record_def)
qed

named_theorems enum_tables \<open>every value of an enumeration parses from its text\<close>

lemma order_sides_codes [enum_tables]: "enum_parse n order_sides (enum_text order_sides x) = Inr x"
  by (cases x) (simp_all add: enum_parse_def enum_text_def order_sides_def)

lemma order_offsets_codes [enum_tables]: "enum_parse n order_offsets (enum_text order_offsets x) = Inr x"
  by (cases x) (simp_all add: enum_parse_def enum_text_def order_offsets_def)

lemma order_types_codes [enum_tables]: "enum_parse n order_types (enum_text order_types x) = Inr x"
  by (cases x) (simp_all add: enum_parse_def enum_text_def order_types_def)

lemma time_in_forces_codes [enum_tables]: "enum_parse n time_in_forces (enum_text time_in_forces x) = Inr x"
  by (cases x) (simp_all add: enum_parse_def enum_text_def time_in_forces_def)

lemma liquidity_sides_codes [enum_tables]: "enum_parse n liquidity_sides (enum_text liquidity_sides x) = Inr x"
  by (cases x) (simp_all add: enum_parse_def enum_text_def liquidity_sides_def)

lemma position_sides_codes [enum_tables]: "enum_parse n position_sides (enum_text position_sides x) = Inr x"
  by (cases x) (simp_all add: enum_parse_def enum_text_def position_sides_def)

lemma position_modes_codes [enum_tables]: "enum_parse n position_modes (enum_text position_modes x) = Inr x"
  by (cases x) (simp_all add: enum_parse_def enum_text_def position_modes_def)

lemma position_effects_codes [enum_tables]: "enum_parse n position_effects (enum_text position_effects x) = Inr x"
  by (cases x) (simp_all add: enum_parse_def enum_text_def position_effects_def)

lemma close_scopes_codes [enum_tables]: "enum_parse n close_scopes (enum_text close_scopes x) = Inr x"
  by (cases x) (simp_all add: enum_parse_def enum_text_def close_scopes_def)

lemma exposure_constraints_codes [enum_tables]: "enum_parse n exposure_constraints (enum_text exposure_constraints x) = Inr x"
  by (cases x) (simp_all add: enum_parse_def enum_text_def exposure_constraints_def)

lemmas enum_codec_stable = enum_tables [THEN enum_stable, THEN field_codec.axioms(1), THEN stable_codec.stable]

section \<open>Codecs over decimals\<close>

lemma scalar_record_not_null [simp]: "scalar_to_record x \<noteq> JNull"
  by (simp add: scalar_to_record_def)

locale text_platform =
  fixes pf :: platform
  assumes text_laws: "decimal_text (pf_lib pf) (pf_uni pf)"
begin

lemma decimal_reads: "decimal_ok d \<Longrightarrow> decimal_from_str (pf_lib pf) (pf_uni pf) (decimal_display d) = Inr d"
  by (rule decimal_text.from_str_display [OF text_laws])

lemma scalar_stable:
  assumes "scalar_from_record pf check v = Inr x"
  shows "scalar_from_record pf check (scalar_to_record x) = Inr x"
proof -
  obtain t w where d: "decimal_from_str (pf_lib pf) (pf_uni pf) t = Inr (sc_value x)" and p: "dom_precision w = Inr (sc_precision x)"
    and c: "check (sc_value x) (sc_precision x) = Inr ()"
    using assms by (auto simp: scalar_from_record_def scalar_new_def result_simps dest!: serialization_inverse)
  have "decimal_ok (sc_value x)" using d by (auto simp: decimal_from_str_def Let_def result_simps decimal_ok_def)
  note d' = decimal_reads [OF this]
  have "sc_precision x \<le> 18" using p by (auto simp: dom_precision_def result_simps split: option.splits if_splits)
  then have p': "dom_precision (jint (int (sc_precision x))) = Inr (sc_precision x)"
    by (simp add: dom_precision_def jint_def as_u64_def u64_token_def int_text_def)
  have "scalar_from_record pf check w = model_from_record w 1 [''value'', ''precision''] (\<lambda>f.
      rbind (rbind (dom_text (f ''value'') ''value'') (decimal_from_str (pf_lib pf) (pf_uni pf))) (\<lambda>v.
      rbind (dom_precision (f ''precision'')) (\<lambda>p. scalar_new check v p)))" for w
    by (simp add: scalar_from_record_def model_from_record_def)
  moreover have "scalar_to_record x = model_to_record 1 [(''value'', JString (decimal_display (sc_value x))), (''precision'', jint (int (sc_precision x)))]"
    by (simp add: scalar_to_record_def model_to_record_def)
  ultimately show ?thesis
    using d' p' c by (simp add: model_reads_one member_def dom_text_def as_str_def scalar_new_def)
qed

end

sublocale text_platform \<subseteq> price_codec: field_codec scalar_to_record "price_from_record pf"
  by unfold_locales (auto simp: price_from_record_def intro: scalar_stable)

sublocale text_platform \<subseteq> quantity_codec: field_codec scalar_to_record "quantity_from_record pf"
  by unfold_locales (auto simp: quantity_from_record_def intro: scalar_stable)

lemmas stable_fields =
  identifier_codec.stable identifier_codec.option_stable timestamp_codec.stable timestamp_codec.option_stable
  instrument_codec.stable text_codec.option_stable text_codec.list_stable text_codec.map_stable int_codec.option_stable
  enum_codec_stable

section \<open>Order records\<close>

context text_platform
begin

lemmas platform_stable = stable_fields price_codec.stable price_codec.option_stable quantity_codec.stable

lemma fill_stable:
  assumes "order_fill_from_record pf v = Inr f"
  shows "order_fill_from_record pf (order_fill_to_record f) = Inr f"
proof -
  have r: "order_fill_new pf f = Inr f"
    "identifier_from_record ''OnlyTradeId'' (identifier_to_record (fi_trade_id f)) = Inr (fi_trade_id f)"
    "identifier_from_record ''OnlyOrderId'' (identifier_to_record (fi_order_id f)) = Inr (fi_order_id f)"
    "price_from_record pf (scalar_to_record (fi_price f)) = Inr (fi_price f)"
    "quantity_from_record pf (scalar_to_record (fi_quantity f)) = Inr (fi_quantity f)"
    "timestamp_from_record (timestamp_to_record (fi_ts_event f)) = Inr (fi_ts_event f)"
    "timestamp_from_record (timestamp_to_record (fi_ts_init f)) = Inr (fi_ts_init f)"
    "decode_option (identifier_from_record ''OnlyVenueTradeId'') (encode_option identifier_to_record (fi_venue_trade_id f)) = Inr (fi_venue_trade_id f)"
    "decode_option (identifier_from_record ''OnlyVenueOrderId'') (encode_option identifier_to_record (fi_venue_order_id f)) = Inr (fi_venue_order_id f)"
    "decode_enum ''OnlyLiquiditySide'' liquidity_sides (encode_enum liquidity_sides (fi_liquidity_side f)) = Inr (fi_liquidity_side f)"
    "decode_option decode_int (encode_option jint (fi_external_sequence f)) = Inr (fi_external_sequence f)"
    "decode_option decode_text (encode_option JString (fi_external_event_id f)) = Inr (fi_external_event_id f)"
    "decode_map decode_text (encode_map JString (fi_metadata f)) = Inr (fi_metadata f)"
    "decode_option (price_from_record pf) (encode_option scalar_to_record (fi_reference_price f)) = Inr (fi_reference_price f)"
    using assms unfolding order_fill_from_record_def model_from_record_def order_fill_new_def
    by (auto simp: result_simps dest!: serialization_inverse split: if_splits) (erule platform_stable)+
  show ?thesis
    unfolding order_fill_from_record_def order_fill_to_record_def
    by (subst model_reads_1, simp, simp, simp) (use r in \<open>cases f; simp add: member_def\<close>)
qed

lemma intent_new_same: "execution_intent_new pf z = Inr x \<Longrightarrow> z = x"
  unfolding execution_intent_new_def by (simp split: if_split_asm)

lemma intent_valid:
  assumes "execution_intent_new pf x = Inr x"
  shows "execution_intent_from_record pf (execution_intent_to_record x) = Inr x"
  unfolding execution_intent_from_record_def execution_intent_to_record_def
  by (subst model_reads_2, simp, simp, simp)
    (use assms in \<open>cases x; simp add: member_def encode_enum_def dom_text_def as_str_def enum_tables\<close>)

lemma intent_read:
  assumes "execution_intent_from_record pf v = Inr x"
  shows "execution_intent_new pf x = Inr x"
proof -
  obtain z where z: "execution_intent_new pf z = Inr x"
    using assms unfolding execution_intent_from_record_def model_from_record_def
    by (auto simp: result_simps dest!: serialization_inverse)
  then show ?thesis using intent_new_same [OF z] by simp
qed

lemma normalized_valid:
  assumes "normalize_intent pf io side off = Inr i" "decode_option (execution_intent_from_record pf) u = Inr io"
  shows "execution_intent_new pf i = Inr i"
proof (cases io)
  case None
  then obtain z where "execution_intent_new pf z = Inr i"
    using assms(1) by (auto simp: normalize_intent_def intent_from_offset_def Let_def result_simps split: if_splits)
  then show ?thesis using intent_new_same by metis
next
  case (Some a)
  then have "a = i" using assms(1) by (auto simp: normalize_intent_def split: if_splits)
  then show ?thesis using assms(2) Some intent_read by (auto simp: decode_option_def result_simps split: if_splits)
qed

lemma request_new_again:
  assumes "order_request_new pf x0 = Inr x"
  shows "order_request_new pf x = Inr x" "\<exists>i. x = x0\<lparr>rq_execution_intent := Some i\<rparr> \<and> normalize_intent pf (rq_execution_intent x0) (rq_side x0) (rq_offset x0) = Inr i"
proof -
  obtain i where i: "normalize_intent pf (rq_execution_intent x0) (rq_side x0) (rq_offset x0) = Inr i" "x = x0\<lparr>rq_execution_intent := Some i\<rparr>"
    using assms unfolding order_request_new_def by (auto simp: result_simps Let_def split: if_splits)
  then show "\<exists>i. x = x0\<lparr>rq_execution_intent := Some i\<rparr> \<and> normalize_intent pf (rq_execution_intent x0) (rq_side x0) (rq_offset x0) = Inr i" by blast
  have "normalize_intent pf (Some i) (rq_side x0) (rq_offset x0) = Inr i"
    using i(1) by (auto simp: normalize_intent_def result_simps split: option.splits if_splits)
  then show "order_request_new pf x = Inr x" using assms i unfolding order_request_new_def by (simp add: Let_def)
qed

lemma request_stable:
  assumes "order_request_from_record pf v = Inr x"
  shows "order_request_from_record pf (order_request_to_record x) = Inr x"
proof -
  have r: "identifier_from_record ''OnlyOrderRequestId'' (identifier_to_record (rq_request_id x)) = Inr (rq_request_id x)"
    "instrument_from_record (instrument_to_record (rq_instrument_id x)) = Inr (rq_instrument_id x)"
    "decode_enum ''OnlyOrderSide'' order_sides (encode_enum order_sides (rq_side x)) = Inr (rq_side x)"
    "decode_enum ''OnlyOrderType'' order_types (encode_enum order_types (rq_order_type x)) = Inr (rq_order_type x)"
    "quantity_from_record pf (scalar_to_record (rq_quantity x)) = Inr (rq_quantity x)"
    "decode_enum ''OnlyTimeInForce'' time_in_forces (encode_enum time_in_forces (rq_time_in_force x)) = Inr (rq_time_in_force x)"
    "decode_option (identifier_from_record ''OnlyAccountId'') (encode_option identifier_to_record (rq_account_id x)) = Inr (rq_account_id x)"
    "decode_enum ''OnlyOffset'' order_offsets (encode_enum order_offsets (rq_offset x)) = Inr (rq_offset x)"
    "decode_option (price_from_record pf) (encode_option scalar_to_record (rq_price x)) = Inr (rq_price x)"
    "decode_option (price_from_record pf) (encode_option scalar_to_record (rq_stop_price x)) = Inr (rq_stop_price x)"
    "decode_option timestamp_from_record (encode_option timestamp_to_record (rq_expire_time x)) = Inr (rq_expire_time x)"
    "decode_list decode_text (encode_list JString (rq_tags x)) = Inr (rq_tags x)"
    "decode_map decode_text (encode_map JString (rq_metadata x)) = Inr (rq_metadata x)"
    using assms unfolding order_request_from_record_def model_from_record_def
    by (auto simp: result_simps dest!: serialization_inverse request_new_again(2)) (erule platform_stable)+
  have n: "order_request_new pf x = Inr x"
  proof -
    obtain x0 where "order_request_new pf x0 = Inr x"
      using assms unfolding order_request_from_record_def model_from_record_def by (auto simp: result_simps dest!: serialization_inverse)
    then show ?thesis by (rule request_new_again)
  qed
  have "\<exists>i. rq_execution_intent x = Some i \<and> execution_intent_new pf i = Inr i"
    using assms unfolding order_request_from_record_def model_from_record_def
    by (auto simp: result_simps dest!: serialization_inverse request_new_again(2)) (erule (1) normalized_valid)
  then obtain i where i: "rq_execution_intent x = Some i" "execution_intent_new pf i = Inr i" by blast
  have o: "decode_option (execution_intent_from_record pf) (encode_option execution_intent_to_record (rq_execution_intent x)) = Inr (rq_execution_intent x)"
    using i intent_valid [OF i(2)] by (simp add: decode_option_def encode_option_def execution_intent_to_record_def)
  show ?thesis
    unfolding order_request_from_record_def order_request_to_record_def
    by (subst model_reads_1, simp, simp, simp) (use r n o in \<open>cases x; simp add: member_def\<close>)
qed

end

end
