(* ===== verification/Journal.thy ===== *)
theory Journal
  imports Json
begin

text \<open>
  The interface of a journaled owner, a component whose state is the replay of its journal.
  The order manager and the position manager interpret it.
\<close>

text \<open>
  An owner starts empty, and a command either leaves it unchanged or is recorded. Replaying the
  journal of a reachable owner on a new one rebuilds it.
\<close>

fun replay_journal ::
  "('m \<Rightarrow> json \<Rightarrow> 'e + 'm \<times> 'o) \<Rightarrow> ('m \<Rightarrow> 'm \<Rightarrow> 'o \<Rightarrow> bool) \<Rightarrow> 'e \<Rightarrow> 'm \<Rightarrow> json list \<Rightarrow> 'e + 'm" where
  "replay_journal app accepted err m [] = Inr m"
| "replay_journal app accepted err m (item # items) =
     rbind (app m item) (\<lambda>(m', oc). if accepted m m' oc then replay_journal app accepted err m' items else Inl err)"

lemma replay_journal_snoc:
  "replay_journal app accepted err m0 xs = Inr m \<Longrightarrow> app m v = Inr (m', oc) \<Longrightarrow> accepted m m' oc \<Longrightarrow>
     replay_journal app accepted err m0 (xs @ [v]) = Inr m'"
  by (induction xs arbitrary: m0) (auto simp: rbind_eq_Inr split: if_splits)

locale journaled_owner =
  fixes fresh :: "json \<Rightarrow> 'e + 'm" and app :: "'m \<Rightarrow> json \<Rightarrow> 'e + 'm \<times> 'o" and accepted :: "'m \<Rightarrow> 'm \<Rightarrow> 'o \<Rightarrow> bool"
    and config :: "'m \<Rightarrow> json" and journal :: "'m \<Rightarrow> json list" and err :: 'e
  assumes fresh_empty: "fresh c = Inr m \<Longrightarrow> config m = c \<and> journal m = []"
    and app_records: "app m v = Inr (m', oc) \<Longrightarrow>
      m' = m \<or> accepted m m' oc \<and> config m' = config m \<and> journal m' = journal m @ [v]"
begin

definition determined :: "json \<Rightarrow> 'm \<Rightarrow> bool" where
  "determined c m \<longleftrightarrow> config m = c \<and> (\<exists>m0. fresh c = Inr m0 \<and> replay_journal app accepted err m0 (journal m) = Inr m)"

lemma determined_init: "fresh c = Inr m \<Longrightarrow> determined c m"
  using fresh_empty [of c m] by (simp add: determined_def)

lemma determined_command: "determined c m \<Longrightarrow> app m v = Inr (m', oc) \<Longrightarrow> determined c m'"
  using app_records [of m v m' oc] replay_journal_snoc [of app accepted err _ "journal m" m v m' oc]
  by (auto simp: determined_def)

lemma reachable_determined:
  "reachable (\<lambda>m. fresh c = Inr m) (\<lambda>m m'. \<exists>v oc. app m v = Inr (m', oc)) m \<Longrightarrow> determined c m"
  by (induction rule: reachable.induct) (auto intro: determined_init determined_command)

end

end
