(* ===== verification/Order_Properties.thy ===== *)
theory Order_Properties
  imports Order_Safety Order_Example Domain_Codec Journal
begin

text \<open>
  Properties of the order manager: the invariant over every sequence of commands, absence of
  panics, the order life cycle, repetition of commands, and recovery from a checkpoint.
\<close>

section \<open>The life of one order\<close>

text \<open>What one command may do to an order: nothing, or one stamped step along the status graph.\<close>

definition order_evolves :: "entity \<Rightarrow> entity \<Rightarrow> bool" where
  "order_evolves e e' \<longleftrightarrow> (let s = en_snapshot e; s' = en_snapshot e' in
     kept s s' \<and> en_creation e' = en_creation e \<and> status_step (os_status s) (os_status s')
     \<and> (e' = e \<or> os_version s' = os_version s + 1)
     \<and> quantity_value (os_filled_quantity s) \<le> quantity_value (os_filled_quantity s')
     \<and> quantity_value (os_filled_quantity s') \<le> quantity_value (os_quantity s)
     \<and> (\<not> is_open (os_status s) \<longrightarrow> os_status s' = os_status s \<and> fills_kept s s'))"

lemma kept_refl: "kept s s" "fills_kept s s"
  by (simp_all add: kept_def fills_kept_def)

lemma fill_needs_open:
  assumes "transition pf m r OpFill cluster s sub now venue = Inr (Inr (s', sub', cancel))"
  shows "is_open (os_status s)"
proof -
  have "do_fill pf r s sub = Inr (Inr (s', sub', cancel))" using assms by (simp add: transition_def)
  then show ?thesis by (rule do_fill_flow) (auto simp: is_open_def)
qed

lemma fills_grow:
  assumes "fills_agree (journal_fills pf journal ident) s" "fills_agree (journal_fills pf (journal @ [v]) ident) s'"
  shows "quantity_value (os_filled_quantity s) \<le> quantity_value (os_filled_quantity s')"
proof (cases "command_fill pf ident v")
  case None
  then show ?thesis using assms by (simp add: fills_agree_def journal_fills_snoc)
next
  case (Some f)
  then obtain w where "order_fill_from_record pf w = Inr f"
    by (auto simp: command_fill_def split: option.splits if_splits sum.splits)
  then have "0 < quantity_value (fi_quantity f)" by (rule order_fill_parts)
  then show ?thesis using assms Some by (simp add: fills_agree_def journal_fills_snoc)
qed

lemma snapshot_ok_filled: "snapshot_ok s \<Longrightarrow> quantity_value (os_filled_quantity s) \<le> quantity_value (os_quantity s)"
  by (auto simp: snapshot_ok_def quantity_ok_def)

lemma evolves_refl: "snapshot_ok (en_snapshot e) \<Longrightarrow> order_evolves e e"
  using snapshot_ok_filled [of "en_snapshot e"] by (simp add: order_evolves_def Let_def kept_refl status_step_def)

lemma evolves_update:
  fixes sub :: submission
  assumes ok: "order_ok pf m ident e" "order_ok pf m' ident e'" and j: "mg_journal m' = mg_journal m @ [v]"
    and a: "order_advances e e' x"
    and t: "transition pf m r op cluster (en_snapshot e) (en_outcome e) now venue = Inr (Inr (s, sub, cancel))"
    and n: "order_snapshot_new pf (stamp op now x s) = Inr (en_snapshot e')"
  shows "order_evolves e e'"
proof -
  let ?s = "en_snapshot e" and ?s' = "en_snapshot e'"
  have st: "status_step (os_status ?s) (os_status ?s')" and k: "kept ?s ?s'" using a by (simp_all add: order_advances_def)
  have "os_status ?s' = os_status ?s \<and> fills_kept ?s ?s'" if c: "\<not> is_open (os_status ?s)"
  proof
    show "os_status ?s' = os_status ?s" using st terminal_next [OF c] by (simp add: status_step_def)
    have "op \<noteq> OpFill" using fill_needs_open t c by blast
    then have "fills_kept ?s s" using transition_effect(4) [OF t] ok(1) by (simp add: order_ok_def)
    then show "fills_kept ?s ?s'"
      using fills_kept_trans stamp_fields(2) snapshot_new_fields(2) [OF n] by blast
  qed
  moreover have "quantity_value (os_filled_quantity ?s) \<le> quantity_value (os_filled_quantity ?s')"
    using fills_grow [of pf "mg_journal m" ident ?s v ?s'] ok j by (simp add: order_ok_def)
  moreover have "quantity_value (os_filled_quantity ?s') \<le> quantity_value (os_quantity ?s)"
    using snapshot_ok_filled [of ?s'] ok(2) k by (simp add: order_ok_def kept_def)
  ultimately show ?thesis using a by (simp add: order_evolves_def Let_def order_advances_def)
qed

lemma step_evolves:
  assumes lib: "bigdecimal (pf_lib pf)" and ok: "manager_ok pf m" and st: "order_step pf m v m'"
    and e: "map_of (mg_orders m) ident = Some e"
  shows "\<exists>e'. map_of (mg_orders m') ident = Some e' \<and> order_evolves e e'"
proof -
  have ok': "manager_ok pf m'" using bigdecimal.step_preserves [OF lib st ok] by simp
  have oe: "order_ok pf m ident e" using ok e by (simp add: manager_ok_def)
  have j: "mg_journal m' = mg_journal m @ [v]" using st by cases simp_all
  show ?thesis
    using st
  proof cases
    case (step_create object cluster account rq now identity rt runtime order zero q client s)
    have "order \<notin> set (mg_creation m)" using bigdecimal.create_preserves(1) [OF lib ok refl step_create(2-4,6-)] .
    then have "ident \<noteq> order" using ok e by (auto simp: manager_ok_def)
    then show ?thesis using e step_create(1) evolves_refl oe by (auto simp: order_ok_def)
  next
    case (step_update r opt op cluster i e0 now x s sub cancel snap)
    show ?thesis
    proof (cases "i = ident")
      case True
      let ?e' = "\<lparr>en_snapshot = snap, en_creation = en_creation e, en_outcome = (if external_op op then Resolved else sub)\<rparr>"
      have e0: "e0 = e" using step_update True e by (auto simp: get_entity_def result_simps split: if_splits)
      have m': "map_of (mg_orders m') ident = Some ?e'" using step_update(1) True e0 by simp
      moreover have "order_advances e ?e' x"
        using update_advances [OF step_update(12)] step_update(14) oe e0 by (simp add: order_ok_def)
      moreover have "order_ok pf m' ident ?e'" using ok' m' by (simp add: manager_ok_def)
      ultimately show ?thesis
        using evolves_update [OF oe _ j, of ?e' x] step_update(12,14) e0 by auto
    next
      case False
      then show ?thesis using e step_update(1) evolves_refl oe by (auto simp: order_ok_def)
    qed
  qed
qed

section \<open>Recovery\<close>

lemma commit_journal: "order_step pf m v m' \<Longrightarrow> mg_journal m' = mg_journal m @ [v] \<and> mg_config m' = mg_config m"
  by (erule order_stepE) simp_all

lemma replay_eq_journal:
  "replay pf = replay_journal (apply_command pf) (\<lambda>_ _ oc. oc_result oc = Applied) (OrderError ''ORDER_CHECKPOINT_REPLAY_NOT_APPLIED'')"
proof (intro ext)
  fix m xs
  show "replay pf m xs = replay_journal (apply_command pf) (\<lambda>_ _ oc. oc_result oc = Applied)
      (OrderError ''ORDER_CHECKPOINT_REPLAY_NOT_APPLIED'') m xs"
    by (induction xs arbitrary: m) (auto simp: rbind_def split: sum.splits)
qed

text \<open>A manager is determined by its configuration and its journal.\<close>

interpretation order_owner: journaled_owner manager_new "apply_command pf" "\<lambda>_ _ oc. oc_result oc = Applied" mg_config mg_journal
  "OrderError ''ORDER_CHECKPOINT_REPLAY_NOT_APPLIED''" for pf
proof
  fix m v m' oc
  assume a: "apply_command pf m v = Inr (m', oc)"
  then show "m' = m \<or> oc_result oc = Applied \<and> mg_config m' = mg_config m \<and> mg_journal m' = mg_journal m @ [v]"
    by (rule apply_command_cases) (use commit_journal in auto)
qed (use manager_new_ok in blast)

lemma hex_bytes_fingerprint:
  "length bs = 32 \<Longrightarrow> \<forall>b \<in> set bs. b < 256 \<Longrightarrow> check_fingerprint (hex_bytes bs) = Inr ()"
  using hex_bytes_shape by (simp add: check_fingerprint_def)

lemma restore_checkpoint:
  assumes "order_owner.determined pf config m" "checkpoint_record m = Inr rec" "mg_config m0 = config"
    "length (pf_sha256 pf (json_bytes pf rec)) = 32" "\<forall>b \<in> set (pf_sha256 pf (json_bytes pf rec)). b < 256"
    "pf_json_parse pf (json_bytes pf rec) = Some rec"
  shows "restore_manager pf m0 (json_bytes pf rec) (digest pf (json_bytes pf rec)) = Inr m"
proof -
  obtain st where st: "state_record m = Inr st"
    and rec: "rec = jobject [(''schema_version'', jint 1), (''config'', mg_config m), (''journal'', JArray (mg_journal m)), (''state'', st)]"
    using assms(2) by (auto simp: checkpoint_record_def result_simps)
  obtain m1 where m1: "manager_new config = Inr m1" "replay pf m1 (mg_journal m) = Inr m" "mg_config m = config"
    using assms(1) by (auto simp: order_owner.determined_def replay_eq_journal)
  let ?r = "bt_from_list [(str_lit ''schema_version'', jint 1), (str_lit ''config'', mg_config m),
     (str_lit ''journal'', JArray (mg_journal m)), (str_lit ''state'', st)]"
  have row: "order_row rec [''config'', ''journal'', ''state''] = Inr ?r" "jfield ?r ''config'' = mg_config m"
    "jfield ?r ''journal'' = JArray (mg_journal m)" "jfield ?r ''state'' = st"
    unfolding rec jobject_def order_row_def
    by (simp_all add: bt_from_list_def str_lit_def as_object_def jfield_def bt_contains_def jint_def as_u64_def u64_token_def int_text_def)
  show ?thesis
    using hex_bytes_fingerprint [OF assms(4,5)] row st m1 assms(3,6)
    by (simp add: restore_manager_def digest_def as_array_def)
qed

section \<open>Repetition\<close>

lemma receipts_fold:
  "map_of (fold (\<lambda>k rs. bt_insert k fp rs) ks rs) k = (if k \<in> set ks then Some fp else map_of rs k)"
  by (induction ks arbitrary: rs) auto

lemma install_receipts:
  "map_of (mg_receipts (install_order pf v ident e x c m)) k = (if k \<in> set (xf_keys x) then Some (json_hash pf v) else map_of (mg_receipts m) k)"
  by (simp add: install_order_def receipts_fold)

lemma install_cancels:
  "map_of (mg_cancels (install_order pf v ident e x c m)) = (case c of Some (k, w) \<Rightarrow> (map_of (mg_cancels m))(k \<mapsto> w) | None \<Rightarrow> map_of (mg_cancels m))"
  by (simp add: install_order_def split: option.splits)

lemma fill_envelope_kept: "kept s s' \<Longrightarrow> fill_envelope pf r s' = fill_envelope pf r s"
  by (simp add: fill_envelope_def kept_def fun_eq_iff)

lemma envelope_kept:
  "kept s s' \<Longrightarrow> mg_config m' = mg_config m \<Longrightarrow> external_envelope pf m' r op s' now = external_envelope pf m r op s now"
  using fill_envelope_kept [of s s'] by (simp add: external_envelope_def kept_def cong: if_cong)

lemma envelope_keys: "external_envelope pf m r op s now = Inr x \<Longrightarrow> xf_keys x \<noteq> []"
  by (auto simp: external_envelope_def result_simps Let_def split: if_splits)

lemma map_filter_const:
  "(\<And>k. k \<in> set ks \<Longrightarrow> f k = Some c) \<Longrightarrow> List.map_filter f ks = replicate (length ks) c"
  by (induction ks) (simp_all add: List.map_filter_def)

lemma gate_repeated:
  assumes "xf_keys x \<noteq> []" "\<And>k. k \<in> set (xf_keys x) \<Longrightarrow> map_of (mg_receipts m) k = Some (json_hash pf v)"
  shows "external_gate pf m v ident s sub x = Some Duplicate"
proof -
  have "List.map_filter (map_of (mg_receipts m)) (xf_keys x) = replicate (length (xf_keys x)) (json_hash pf v)"
    using assms(2) by (rule map_filter_const)
  then show ?thesis using assms(1) by (simp add: external_gate_def Let_def list_ex_iff)
qed

context bigdecimal
begin

lemma money_eq_refl: "money_eq lib a a"
  by (simp add: money_eq_def decimal_eq_value)

lemma fee_assessment_eq_refl: "fee_assessment_eq lib a a"
  by (simp add: fee_assessment_eq_def fee_component_eq_def money_eq_refl list_all2_same)

lemma fee_eq_refl: "fee_estimate_eq lib a a" "funding_plan_eq lib p p"
  by (simp_all add: fee_estimate_eq_def funding_plan_eq_def fee_assessment_eq_refl money_eq_refl)

end

definition repeat_result :: "order_op \<Rightarrow> apply_result" where
  "repeat_result op = (if op \<in> {OpBeginSubmit, OpFail} then Invalid else Duplicate)"

definition command_op :: "json \<Rightarrow> order_op option" where
  "command_op v = (case as_object v of
      Some r \<Rightarrow> (case order_text r ''op'' of Inr t \<Rightarrow> op_parse t | Inl _ \<Rightarrow> None)
    | None \<Rightarrow> None)"

lemma op_parse_create: "op_parse (str_lit ''CREATE'') = None"
  by code_simp

lemma transition_repeated:
  assumes lib: "bigdecimal (pf_lib pf)" and op: "\<not> external_op op"
    and t: "transition pf m r op cluster s sub now venue = Inr (Inr (s1, sub1, cancel))"
    and s': "kept s s'" "os_status s' = os_status s1" "os_fee_policy_binding s' = os_fee_policy_binding s1"
      "os_fee_estimate s' = os_fee_estimate s1" "os_funding_plan s' = os_funding_plan s1"
    and c: "\<And>k w. cancel = Some (k, w) \<Longrightarrow> map_of (mg_cancels m') k = Some w"
  shows "transition pf m' r op cluster s' sub1 now venue = Inr (Inl (repeat_result op))"
proof (cases op)
  case OpFee
  then have "do_fee pf r s sub now = Inr (Inr (s1, sub1, cancel))" using t by (simp add: transition_def)
  from do_fee_flow [OF this] show ?thesis
    using OpFee s' bigdecimal.fee_eq_refl [OF lib] by (auto simp: transition_def do_fee_def flow_defs repeat_result_def)
next
  case OpBeginSubmit
  then have "os_status s1 = Submitted" using t by (auto simp: transition_def do_begin_submit_flow)
  then show ?thesis using OpBeginSubmit s' by (simp add: transition_def do_begin_submit_def flow_defs repeat_result_def)
next
  case OpSubmitResult
  then have "do_submit_result pf r s sub now = Inr (Inr (s1, sub1, cancel))" using t by (simp add: transition_def)
  from do_submit_result_flow [OF this] show ?thesis
    using OpSubmitResult by (auto simp: transition_def do_submit_result_def flow_defs repeat_result_def)
next
  case OpReconcile
  then have "sub1 = Reconciling" using t by (auto simp: transition_def do_reconcile_flow)
  then show ?thesis using OpReconcile by (simp add: transition_def do_reconcile_def flow_defs repeat_result_def)
next
  case OpCancel
  then have "do_cancel pf m r cluster s sub now = Inr (Inr (s1, sub1, cancel))" using t by (simp add: transition_def)
  from do_cancel_flow [OF this] show ?thesis
    using OpCancel s' c by (auto simp: transition_def do_cancel_def flow_defs repeat_result_def kept_def)
next
  case OpFail
  then have "do_fail pf r s sub now = Inr (Inr (s1, sub1, cancel))" using t by (simp add: transition_def)
  from do_fail_flow [OF this] show ?thesis
    using OpFail s' by (auto simp: transition_def do_fail_def flow_defs repeat_result_def)
qed (use op in \<open>simp_all add: external_op_def\<close>)

text \<open>Applying a command again after it was applied changes nothing.\<close>

lemma create_repeated:
  assumes "create_order pf m v sz = Inr (m', oc)" "oc_result oc = Applied" "manager_ok pf m"
  shows "\<exists>s. create_order pf m' v sz = Inr (m', unchanged Duplicate (Some s))"
proof -
  obtain cluster account rq now identity where c: "create_check pf v = Inr (cluster, account, rq, now)"
    and i: "remove_member v ''at'' = Inr identity"
    using assms(1) by (auto simp: create_order_def result_simps split: prod.splits)
  have none: "map_of (mg_requests m) (rq_request_id rq) = None"
    using assms(1,2) c i by (cases "map_of (mg_requests m) (rq_request_id rq)") (auto simp: create_order_def result_simps unchanged_def split: if_splits)
  obtain order s where "m' = commit v sz (m\<lparr>
        mg_requests := bt_insert (rq_request_id rq) order (mg_requests m), mg_creation := mg_creation m @ [order],
        mg_orders := bt_insert order \<lparr>en_snapshot = s, en_creation = identity, en_outcome = NotDispatched\<rparr> (mg_orders m)\<rparr>)"
    using assms(1) c i none by (auto simp: create_order_def result_simps Let_def split: if_splits)
  then show ?thesis using c i by (auto simp: create_order_def)
qed

lemma update_repeated:
  assumes lib: "bigdecimal (pf_lib pf)" and ok: "manager_ok pf m"
    and st: "order_step pf m v m'" and v: "as_object v = Some r" "order_text r ''op'' = Inr opt" "opt \<noteq> str_lit ''CREATE''"
    and op: "op_parse opt = Some op" and row: "order_row v ([''op'', ''cluster_id'', ''order_id'', ''at''] @ extra_names op) = Inr r"
  shows "\<exists>s. apply_update pf m' v sz opt op = Inr (m', unchanged (repeat_result op) (Some s))"
  using st
proof cases
  case step_create
  then show ?thesis using v by simp
next
  case (step_update r0 opt0 op0 cluster ident e now x s sub cancel snap)
  let ?e' = "\<lparr>en_snapshot = snap, en_creation = en_creation e, en_outcome = (if external_op op then Resolved else sub)\<rparr>"
  have eq: "r0 = r" "opt0 = opt" "op0 = op" using step_update v op by auto
  note u = step_update [unfolded eq]
  have e: "map_of (mg_orders m) ident = Some e" "os_cluster_id (en_snapshot e) = cluster"
    using u(8) by (auto simp: get_entity_def result_simps split: if_splits)
  then have "submission_ok (en_outcome e) (os_status (en_snapshot e))" using ok by (simp add: manager_ok_def order_ok_def)
  note k = update_advances [OF u(12,14) this]
  have kept: "kept (en_snapshot e) snap" using k by (simp add: order_advances_def)
  have get: "get_entity m' cluster ident = Inr ?e'" using u(1) e(2) kept by (simp add: get_entity_def kept_def)
  have conf: "mg_config m' = mg_config m" using commit_journal [OF st] by simp
  show ?thesis
  proof (cases "external_op op")
    case True
    then have x: "external_envelope pf m r op (en_snapshot e) now = Inr x" using u(10) by simp
    have "external_gate pf m' v ident snap Resolved x = Some Duplicate"
      by (rule gate_repeated [OF envelope_keys [OF x]]) (simp add: u(1) install_receipts)
    moreover have "repeat_result op = Duplicate" using True by (auto simp: repeat_result_def external_op_def)
    ultimately show ?thesis
      using row u(6,7,9) get True x envelope_kept [OF kept conf] by (auto simp: apply_update_def)
  next
    case False
    have fields: "os_status snap = os_status s" "os_fee_policy_binding snap = os_fee_policy_binding s"
      "os_fee_estimate snap = os_fee_estimate s" "os_funding_plan snap = os_funding_plan s"
      using snapshot_new_fields [OF u(14)] by (simp_all add: stamp_fields)
    have "transition pf m' r op cluster snap sub now (xf_venue x) = Inr (Inl (repeat_result op))"
      by (rule transition_repeated [OF lib False u(12) kept fields]) (simp add: u(1) install_cancels)
    moreover have "x = no_facts" using False u(10) by simp
    ultimately show ?thesis using row u(6,7,9) get False by (auto simp: apply_update_def)
  qed
qed

section \<open>Average fill prices\<close>

lemma round_half_even_int:
  assumes "0 < d"
  shows "\<bar>2 * (round_half_even n d * d - n)\<bar> \<le> d \<and> (\<bar>2 * (round_half_even n d * d - n)\<bar> = d \<longrightarrow> even (round_half_even n d))"
proof -
  define q where "q = n div d"
  define r where "r = n mod d"
  have n: "n = q * d + r" and r: "0 \<le> r" "r < d" using assms by (simp_all add: q_def r_def)
  have k: "round_half_even n d = (if 2 * r > d \<or> 2 * r = d \<and> odd q then q + 1 else q)"
    by (simp add: round_half_even_def Let_def q_def [symmetric] r_def [symmetric] odd_iff_mod_2_eq_one mult.commute)
  have "round_half_even n d * d - n = (if 2 * r > d \<or> 2 * r = d \<and> odd q then d - r else - r)"
    unfolding k by (subst n) (simp add: algebra_simps)
  then show ?thesis using r k by auto
qed

lemma round_half_even_nearest:
  assumes "0 < d"
  shows "\<bar>of_int (round_half_even n d) - of_int n / of_int d\<bar> \<le> (1 / 2 :: rat)"
    "\<bar>of_int (round_half_even n d) - of_int n / of_int d\<bar> = (1 / 2 :: rat) \<Longrightarrow> even (round_half_even n d)"
proof -
  let ?k = "round_half_even n d"
  have e: "\<bar>of_int ?k - of_int n / of_int d\<bar> = (of_int \<bar>2 * (?k * d - n)\<bar> / of_int (2 * d) :: rat)"
  proof -
    have "of_int ?k - of_int n / of_int d = (of_int (2 * (?k * d - n)) / of_int (2 * d) :: rat)"
      using assms by (simp add: diff_divide_distrib)
    then show ?thesis using assms by (simp only: abs_divide of_int_abs [symmetric])
  qed
  show "\<bar>of_int ?k - of_int n / of_int d\<bar> \<le> (1 / 2 :: rat)"
  proof -
    have "of_int \<bar>2 * (?k * d - n)\<bar> \<le> (of_int d :: rat)" using round_half_even_int [OF assms, of n] by (simp only: of_int_le_iff)
    then show ?thesis unfolding e using assms by (simp only: of_int_mult) (simp add: divide_simps)
  qed
  assume "\<bar>of_int ?k - of_int n / of_int d\<bar> = (1 / 2 :: rat)"
  then have "of_int \<bar>2 * (?k * d - n)\<bar> / of_int (2 * d) = (1 / 2 :: rat)" unfolding e .
  then have "of_int \<bar>2 * (?k * d - n)\<bar> = (of_int d :: rat)" using assms by (simp only: of_int_mult) (simp add: divide_simps)
  then have "\<bar>2 * (?k * d - n)\<bar> = d" by (simp only: of_int_eq_iff)
  then show "even ?k" using round_half_even_int [OF assms, of n] by blast
qed

lemma average_ratio:
  fixes p :: nat and t q :: bigdec
  defines "scale \<equiv> int p + bd_scale q - bd_scale t"
  defines "n \<equiv> (if scale \<ge> 0 then bd_coef t * 10 ^ nat scale else bd_coef t)"
    and "d \<equiv> (if scale \<ge> 0 then bd_coef q else bd_coef q * 10 ^ nat (- scale))"
  assumes "0 < bd_coef q"
  shows "0 < d" "of_int n / of_int d = bd_value t / bd_value q * 10 ^ p"
proof -
  show "0 < d" using assms by (simp add: d_def)
  have s: "(10 :: rat) powi scale = 10 ^ p * 10 powi bd_scale q * 10 powi (- bd_scale t)"
    unfolding scale_def diff_conv_add_uminus pow10_add by (simp add: power_int_of_nat)
  have "of_int n / of_int d = of_int (bd_coef t) / of_int (bd_coef q) * (10 :: rat) powi scale"
  proof (cases "0 \<le> scale")
    case True
    then show ?thesis by (simp add: n_def d_def pow10_nat)
  next
    case False
    then have "(10 :: rat) powi scale = 1 / of_int (10 ^ nat (- scale))" using pow10_neg [of "- scale"] by (simp add: pow10_nat)
    then show ?thesis using False by (simp add: n_def d_def)
  qed
  also have "\<dots> = bd_value t / bd_value q * 10 ^ p" by (simp add: s bd_value_def pow10_neg mult_ac)
  finally show "of_int n / of_int d = bd_value t / bd_value q * 10 ^ p" .
qed

context decimal_text
begin

lemma average_nearest:
  assumes "average pf amount quantity p = Inr avg" "pf_lib pf = lib" "pf_uni pf = uni"
    "decimal_ok amount" "decimal_ok quantity" "p \<le> 18"
  defines "x \<equiv> bd_value (d_number amount) / bd_value (d_number quantity) * 10 ^ p"
  assumes big: "1 / 2 < x"
  obtains k where "bd_value (d_number (sc_value avg)) = of_int k / 10 ^ p" "sc_precision avg = p"
    "\<bar>of_int k - x\<bar> \<le> 1 / 2" "\<bar>of_int k - x\<bar> = 1 / 2 \<longrightarrow> even k"
proof -
  let ?t = "d_number amount" and ?q = "d_number quantity"
  define scale where "scale = int p + bd_scale ?q - bd_scale ?t"
  define n where "n = (if scale \<ge> 0 then bd_coef ?t * 10 ^ nat scale else bd_coef ?t)"
  define d where "d = (if scale \<ge> 0 then bd_coef ?q else bd_coef ?q * 10 ^ nat (- scale))"
  define k where "k = round_half_even n d"
  obtain v where pos: "\<not> bd_coef ?t \<le> 0" "\<not> bd_coef ?q \<le> 0"
    and v: "decimal_from_str lib uni (lib_display lib \<lparr>bd_coef = k, bd_scale = int p\<rparr>) = Inr v"
    and avg: "scalar_new validate_precision v p = Inr avg"
    using assms(1-3) parse_display [OF assms(4)] parse_display [OF assms(5)]
    by (auto simp: average_def Let_def result_simps scale_def n_def d_def k_def split: if_splits)
  have d: "0 < d" and nd: "of_int n / of_int d = x"
    using average_ratio [of ?q p ?t] pos unfolding d_def n_def scale_def x_def by simp_all
  note near = round_half_even_nearest [OF d, of n, unfolded nd, folded k_def]
  have "0 < k"
  proof (rule ccontr)
    assume "\<not> 0 < k"
    then have "of_int k \<le> (0 :: rat)" by simp
    with near(1) big show False by (simp add: abs_if split: if_splits)
  qed
  then obtain nz where "decimal_from_str lib uni (lib_display lib \<lparr>bd_coef = k, bd_scale = int p\<rparr>) = result \<lparr>bd_coef = k, bd_scale = int p\<rparr> nz"
    using from_str_lib_display [of "\<lparr>bd_coef = k, bd_scale = int p\<rparr>"] assms(6) by auto
  then have "d_number v = \<lparr>bd_coef = k, bd_scale = int p\<rparr>" using v by (auto simp: result_def Let_def split: if_splits)
  moreover have "avg = \<lparr>sc_value = v, sc_precision = p\<rparr>" using avg by (auto simp: scalar_new_def result_simps)
  ultimately have "bd_value (d_number (sc_value avg)) = of_int k / 10 ^ p" "sc_precision avg = p"
    by (simp_all add: bd_value_def pow10_neg power_int_of_nat)
  then show thesis using that near by blast
qed

end

section \<open>Properties\<close>

lemma ex_reachable: "orders_reachable ex_platform ex_config ex_start" "orders_reachable ex_platform ex_config ex_created"
proof -
  show s: "orders_reachable ex_platform ex_config ex_start" by (rule reach_init) (rule ex_new)
  show "orders_reachable ex_platform ex_config ex_created"
    by (rule reach_step [OF s]) (use ex_created_step in \<open>auto simp: order_command_def\<close>)
qed

lemma ex_lib: "bigdecimal (pf_lib ex_platform)" "decimal_text (pf_lib ex_platform) (pf_uni ex_platform)"
  using ref.bigdecimal_axioms ref_text.decimal_text_axioms by (simp_all add: ex_platform_def)





text \<open>
  C3: Redelivery is harmless. A command that was applied, sent again to the resulting manager,
  changes nothing and emits no fact: it is reported as a duplicate, except for the two local
  commands without an identity of their own, beginning a submission and failing an order,
  which are then invalid.
\<close>
theorem command_repeat_harmless:
  assumes "bigdecimal (pf_lib pf)" "orders_reachable pf config m" "apply_command pf m v = Inr (m', oc)" "oc_result oc = Applied"
  shows "\<exists>s. apply_command pf m' v = Inr (m', unchanged
    (case command_op v of Some op \<Rightarrow> repeat_result op | None \<Rightarrow> Duplicate) (Some s))"
proof -
  have ok: "manager_ok pf m" using orders.reachable_inv [OF assms(2)] assms(1) by blast
  have st: "order_step pf m v m'" using assms(3) by (rule apply_command_cases) (use assms(4) in auto)
  obtain r opt where sz: "\<not> max_command_bytes < command_size pf v" and r: "as_object v = Some r" "order_text r ''op'' = Inr opt"
    and rest: "(if opt = str_lit ''CREATE'' then create_order pf m v (command_size pf v)
      else rbind (ok_or (op_parse opt) (OrderError ''ORDER_OPERATION_UNKNOWN'')) (apply_update pf m v (command_size pf v) opt)) = Inr (m', oc)"
    using assms(3) by (auto simp: apply_command_def Let_def result_simps split: if_splits)
  show ?thesis
  proof (cases "opt = str_lit ''CREATE''")
    case True
    then have "create_order pf m v (command_size pf v) = Inr (m', oc)" using rest by simp
    from create_repeated [OF this assms(4) ok] show ?thesis
      using True sz r op_parse_create by (simp add: apply_command_def command_op_def)
  next
    case False
    then obtain op where op: "op_parse opt = Some op" "apply_update pf m v (command_size pf v) opt op = Inr (m', oc)"
      using rest by (auto simp: result_simps)
    have "order_row v ([''op'', ''cluster_id'', ''order_id'', ''at''] @ extra_names op) = Inr r"
      using op(2) order_row_object r(1) by (fastforce simp: apply_update_def result_simps)
    from update_repeated [OF assms(1) ok st r False op(1) this] show ?thesis
      using False sz r op(1) by (simp add: apply_command_def command_op_def)
  qed
qed

theorem command_repeat_harmless_witness:
  "\<exists>s. apply_command ex_platform ex_created ex_create = Inr (ex_created, unchanged Duplicate (Some s))"
proof -
  have "command_op ex_create = None" by code_simp
  then show ?thesis
    using command_repeat_harmless [OF ex_lib(1) ex_reachable(1), of ex_create ex_created] ex_created_step by auto
qed

text \<open>
  C4: Recovery is exact. The checkpoint of a reachable manager, restored into any manager of
  the same configuration, rebuilds exactly the manager it was taken from, provided that
  reading back the canonical JSON bytes gives the record they were written from and SHA-256
  yields 32 bytes.
\<close>
theorem order_checkpoint_restores:
  assumes "orders_reachable pf config m" "checkpoint pf m = Inr (bytes, fp)" "mg_config m0 = config"
    "\<And>bs. length (pf_sha256 pf bs) = 32" "\<And>bs. \<forall>b \<in> set (pf_sha256 pf bs). b < 256"
    "\<And>rec. checkpoint_record m = Inr rec \<Longrightarrow> pf_json_parse pf (json_bytes pf rec) = Some rec"
  shows "restore_manager pf m0 bytes fp = Inr m"
  using assms(2) restore_checkpoint [OF order_owner.reachable_determined [OF assms(1) [unfolded order_command_def [abs_def]]] _ assms(3,4,5)] assms(6)
  by (auto simp: checkpoint_def Let_def result_simps)

theorem order_checkpoint_restores_witness:
  "\<exists>bytes fp. checkpoint ex_platform ex_created = Inr (bytes, fp) \<and> restore_manager ex_platform ex_start bytes fp = Inr ex_created"
proof -
  obtain rec where rec: "checkpoint_record ex_created = Inr rec"
    by (simp add: checkpoint_record_def state_record_def ex_created_def)
  then have c: "checkpoint ex_platform ex_created = Inr (json_bytes ex_platform rec, digest ex_platform (json_bytes ex_platform rec))"
    by (simp add: checkpoint_def Let_def)
  have "restore_manager ex_platform ex_start (json_bytes ex_platform rec) (digest ex_platform (json_bytes ex_platform rec)) = Inr ex_created"
    by (rule order_checkpoint_restores [OF ex_reachable(2) c]) (auto simp: ex_start_def ex_platform_def ex_parse_def)
  with c show ?thesis by blast
qed



interpretation ex_text: text_platform ex_platform
  by (rule text_platform.intro) (rule ex_lib(2))

text \<open>
  Order requests survive their records: whatever record a request was read from, spelled
  with any admissible decimal text, padded identifiers or a missing execution intent, writing
  the request and reading it again gives the same request, with the intent normalised once.
\<close>
theorem order_request_record_stable:
  assumes "decimal_text (pf_lib pf) (pf_uni pf)" "order_request_from_record pf v = Inr x"
  shows "order_request_from_record pf (order_request_to_record x) = Inr x"
  using text_platform.request_stable [OF text_platform.intro [OF assms(1)] assms(2)] .

theorem order_request_record_stable_witness:
  "order_request_from_record ex_platform (order_request_to_record (ex_rq\<lparr>rq_execution_intent := None\<rparr>)) = Inr ex_rq
   \<and> order_request_from_record ex_platform (order_request_to_record ex_rq) = Inr ex_rq"
proof
  show a: "order_request_from_record ex_platform (order_request_to_record (ex_rq\<lparr>rq_execution_intent := None\<rparr>)) = Inr ex_rq"
    by code_simp
  show "order_request_from_record ex_platform (order_request_to_record ex_rq) = Inr ex_rq"
    by (rule order_request_record_stable [OF ex_lib(2) a])
qed



end
