(* ===== verification/Ledger_Base.thy ===== *)
theory Ledger_Base
  imports Domain_Record Decimal_Properties
begin

text \<open>
  What the journaled ledgers share: loops that stop at the first error, the environment of a
  ledger (the domain platform, the plain text of decimals and the calendar parser, all outside
  the repository), sums over ordered maps and the comparisons of decimals. The rules of
  \<open>yields\<close> follow the text of a fallible operation.
\<close>

named_theorems value_simps \<open>values of decimal operations\<close>

section \<open>Loops with early return\<close>

fun rfold :: "('a \<Rightarrow> 's \<Rightarrow> 'e + 's) \<Rightarrow> 'a list \<Rightarrow> 's \<Rightarrow> 'e + 's" where
  "rfold f [] s = Inr s"
| "rfold f (x # xs) s = rbind (f x s) (rfold f xs)"

definition for_each :: "('a \<Rightarrow> 'e + unit) \<Rightarrow> 'a list \<Rightarrow> 'e + unit" where
  "for_each f xs = rfold (\<lambda>x _. f x) xs ()"

lemma for_each_ok [result_simps]: "for_each f xs = Inr u \<longleftrightarrow> (\<forall>x \<in> set xs. f x = Inr ())"
proof -
  have "rfold (\<lambda>x _. f x) xs v = Inr u \<longleftrightarrow> (\<forall>x \<in> set xs. f x = Inr ())" for v
    by (induction xs arbitrary: v) (auto simp: rbind_eq_Inr)
  then show ?thesis by (simp add: for_each_def)
qed

lemma for_each_error: "for_each f xs = Inl e \<Longrightarrow> \<exists>x \<in> set xs. f x = Inl e"
proof -
  have "rfold (\<lambda>x _. f x) xs v = Inl e \<Longrightarrow> \<exists>x \<in> set xs. f x = Inl e" for v
    by (induction xs arbitrary: v) (auto simp: rbind_eq_Inl)
  then show "for_each f xs = Inl e \<Longrightarrow> \<exists>x \<in> set xs. f x = Inl e" by (simp add: for_each_def)
qed

lemma rfold_append: "rfold f (xs @ ys) s = rbind (rfold f xs s) (rfold f ys)"
proof (induction xs arbitrary: s)
  case (Cons x xs)
  then show ?case by (cases "f x s") simp_all
qed simp

lemma rfold_invariant:
  assumes "rfold f xs s = Inr t" "P s" "\<And>x u v. x \<in> set xs \<Longrightarrow> P u \<Longrightarrow> f x u = Inr v \<Longrightarrow> P v"
  shows "P t"
  using assms by (induction xs arbitrary: s) (auto simp: rbind_eq_Inr)

lemma rfold_error:
  assumes "rfold f xs s = Inl e" "P s" "\<And>x u v. x \<in> set xs \<Longrightarrow> P u \<Longrightarrow> f x u = Inr v \<Longrightarrow> P v"
  obtains x u where "x \<in> set xs" "P u" "f x u = Inl e"
  using assms
proof (induction xs arbitrary: s thesis)
  case (Cons x xs)
  show ?case
  proof (cases "f x s")
    case (Inl a)
    then show ?thesis using Cons.prems by auto
  next
    case (Inr t)
    have rest: "rfold f xs t = Inl e" "P t" using Inr Cons.prems(2,3) Cons.prems(4) [of x s t] by simp_all
    show ?thesis by (rule Cons.IH [OF _ rest]) (use Cons.prems(1) Cons.prems(4) in \<open>simp, blast intro: list.set_intros\<close>)+
  qed
qed simp

lemma guard_eq [result_simps]:
  "(if b then Inl e else x) = Inr y \<longleftrightarrow> \<not> b \<and> x = Inr y"
  "(if b then x else Inl e) = Inr y \<longleftrightarrow> b \<and> x = Inr y"
  by auto

lemma rbindE: "rbind m f = Inr y \<Longrightarrow> (\<And>x. m = Inr x \<Longrightarrow> f x = Inr y \<Longrightarrow> P) \<Longrightarrow> P"
  by (cases m) auto

lemma guardE: "(if b then Inl e else x) = Inr y \<Longrightarrow> (\<not> b \<Longrightarrow> x = Inr y \<Longrightarrow> P) \<Longrightarrow> P"
  by (auto split: if_splits)

text \<open>
  Partial correctness of a fallible computation, with one rule per construct, so that a
  property of what a long operation returns is proved by following its text.
\<close>

definition yields :: "'e + 'a \<Rightarrow> ('a \<Rightarrow> bool) \<Rightarrow> bool" where
  "yields m P \<longleftrightarrow> (\<forall>x. m = Inr x \<longrightarrow> P x)"

named_theorems yields_rules \<open>partial correctness, by the shape of the computation\<close>

lemma yields_rbind [yields_rules]: "(\<And>x. m = Inr x \<Longrightarrow> yields (f x) P) \<Longrightarrow> yields (rbind m f) P"
  by (cases m) (auto simp: yields_def)

lemma yields_if [yields_rules]: "(b \<Longrightarrow> yields x P) \<Longrightarrow> (\<not> b \<Longrightarrow> yields y P) \<Longrightarrow> yields (if b then x else y) P"
  by simp

lemma yields_option [yields_rules]:
  "(x = None \<Longrightarrow> yields a P) \<Longrightarrow> (\<And>v. x = Some v \<Longrightarrow> yields (f v) P) \<Longrightarrow> yields (case x of None \<Rightarrow> a | Some v \<Rightarrow> f v) P"
  by (cases x) auto

lemma yields_prod [yields_rules]: "(\<And>a b. x = (a, b) \<Longrightarrow> yields (f a b) P) \<Longrightarrow> yields (case x of (a, b) \<Rightarrow> f a b) P"
  by (cases x) auto

lemma yields_Inl [yields_rules]: "yields (Inl e) P"
  by (simp add: yields_def)

lemma yields_Inr [yields_rules]: "P x \<Longrightarrow> yields (Inr x) P"
  by (simp add: yields_def)

lemma yieldsD: "yields m P \<Longrightarrow> m = Inr x \<Longrightarrow> P x"
  by (simp add: yields_def)

text \<open>
  The dual reading: a computation spares an error when it cannot end in it. The absence of
  panics, of exhausted fuel and of refusals is proved with these rules.
\<close>

definition spares :: "'e \<Rightarrow> 'e + 'a \<Rightarrow> bool" where
  "spares e m \<longleftrightarrow> m \<noteq> Inl e"

named_theorems spares_rules \<open>errors a computation cannot end in, by its shape\<close>

lemma spares_rbind [spares_rules]: "spares e m \<Longrightarrow> (\<And>x. m = Inr x \<Longrightarrow> spares e (f x)) \<Longrightarrow> spares e (rbind m f)"
  by (cases m) (auto simp: spares_def)

lemma spares_if [spares_rules]: "(b \<Longrightarrow> spares e x) \<Longrightarrow> (\<not> b \<Longrightarrow> spares e y) \<Longrightarrow> spares e (if b then x else y)"
  by simp

lemma spares_option [spares_rules]:
  "(x = None \<Longrightarrow> spares e a) \<Longrightarrow> (\<And>v. x = Some v \<Longrightarrow> spares e (f v)) \<Longrightarrow> spares e (case x of None \<Rightarrow> a | Some v \<Rightarrow> f v)"
  by (cases x) auto

lemma spares_prod [spares_rules]: "(\<And>a b. x = (a, b) \<Longrightarrow> spares e (f a b)) \<Longrightarrow> spares e (case x of (a, b) \<Rightarrow> f a b)"
  by (cases x) auto

lemma spares_sum [spares_rules]:
  "(\<And>a. x = Inl a \<Longrightarrow> spares e (f a)) \<Longrightarrow> (\<And>b. x = Inr b \<Longrightarrow> spares e (g b)) \<Longrightarrow> spares e (case x of Inl a \<Rightarrow> f a | Inr b \<Rightarrow> g b)"
  by (cases x) auto

lemma spares_Inr [spares_rules]: "spares e (Inr x)"
  by (simp add: spares_def)

lemma spares_Inl [spares_rules]: "d \<noteq> e \<Longrightarrow> spares e (Inl d)"
  by (simp add: spares_def)

lemma spares_ok_or [spares_rules]: "d \<noteq> e \<Longrightarrow> spares e (ok_or x d)"
  by (cases x) (simp_all add: spares_def)

lemma spares_rfold [spares_rules]: "(\<And>x s. x \<in> set xs \<Longrightarrow> spares e (f x s)) \<Longrightarrow> spares e (rfold f xs s)"
  by (induction xs arbitrary: s) (auto intro!: spares_rules)

lemma spares_for_each [spares_rules]: "(\<And>x. x \<in> set xs \<Longrightarrow> spares e (f x)) \<Longrightarrow> spares e (for_each f xs)"
  by (simp add: for_each_def spares_rfold)

lemma spares_collect [spares_rules]: "(\<And>x. x \<in> set xs \<Longrightarrow> spares e (f x)) \<Longrightarrow> spares e (collect f xs)"
  by (induction xs) (auto intro!: spares_rules)

lemma sparesD: "spares e m \<Longrightarrow> m \<noteq> Inl e"
  by (simp add: spares_def)

section \<open>Members of JSON objects\<close>

declare str_lit_inject [simp]

lemma map_of_bt_from_list: "map_of (bt_from_list xs) = map_of (rev xs)"
proof -
  have "map_of (fold (\<lambda>p m. bt_insert (fst p) (snd p) m) xs m) = map_of m ++ map_of (rev xs)" for m
    by (induction xs arbitrary: m) auto
  from this [of "[]"] show ?thesis by (simp add: bt_from_list_def)
qed

definition members :: "(string \<times> json) list \<Rightarrow> (rstr \<times> json) list" where
  "members ms = bt_from_list (map (\<lambda>(k, v). (str_lit k, v)) ms)"

lemma jobject_members: "jobject ms = JObject (members ms)"
  by (simp add: jobject_def members_def)

lemma map_of_members: "map_of (members ms) (str_lit k) = map_of (rev ms) k"
proof -
  have "map_of (map (\<lambda>(k, v). (str_lit k, v)) xs) (str_lit k) = map_of xs k" for xs :: "(string \<times> json) list"
    by (induction xs) auto
  then show ?thesis by (simp add: members_def map_of_bt_from_list rev_map)
qed

lemma length_members:
  assumes "distinct (map fst ms)"
  shows "length (members ms) = length ms"
proof -
  have "bt_ok m \<Longrightarrow> distinct (map fst xs) \<Longrightarrow> fst ` set xs \<inter> fst ` set m = {} \<Longrightarrow>
      length (fold (\<lambda>p m. bt_insert (fst p) (snd p) m) xs m) = length xs + length m" for xs and m :: "(rstr, json) btree"
  proof (induction xs arbitrary: m)
    case (Cons x xs)
    then have "map_of m (fst x) = None" by (auto simp: map_of_eq_None_iff)
    then show ?case using Cons by (auto simp: length_bt_insert set_bt_insert_keys)
  qed simp
  from this [of "[]" "map (\<lambda>(k, v). (str_lit k, v)) ms"] show ?thesis
    using assms by (simp add: members_def bt_from_list_def comp_def case_prod_beta distinct_map inj_on_def)
qed

lemma members_simps [simp]:
  "as_object (jobject ms) = Some (members ms)"
  "jfield (members ms) k = (case map_of (rev ms) k of Some v \<Rightarrow> v | None \<Rightarrow> JNull)"
  "bt_contains (members ms) (str_lit k) = (k \<in> fst ` set ms)"
  by (simp_all add: jobject_members as_object_def jfield_def map_of_members bt_contains_def map_of_eq_None_iff)

lemma jindex_jobject: "jindex (jobject ms) k = (case map_of (rev ms) k of Some v \<Rightarrow> v | None \<Rightarrow> JNull)"
  by (simp add: jindex_def jobject_members)

text \<open>Assignment to a member, \<open>v[k] = x\<close>; the code assigns to objects and to null only.\<close>

definition jput :: "json \<Rightarrow> rstr \<Rightarrow> json \<Rightarrow> json" where
  "jput v k x = (case v of JObject ms \<Rightarrow> JObject (bt_insert k x ms) | _ \<Rightarrow> JObject [(k, x)])"

definition jset :: "json \<Rightarrow> string \<Rightarrow> json \<Rightarrow> json" where
  "jset v k x = jput v (str_lit k) x"

definition jget :: "json \<Rightarrow> rstr \<Rightarrow> json option" where
  "jget v k = (case v of JObject ms \<Rightarrow> map_of ms k | _ \<Rightarrow> None)"

lemma jindex_jset [simp]: "jindex (jset v k x) j = (if j = k then x else jindex v j)"
  by (cases v) (auto simp: jset_def jput_def jindex_def jfield_def)

lemma rbind_weak: "m = m' \<Longrightarrow> rbind m f = rbind m' f"
  by simp

section \<open>Sums over ordered maps\<close>

definition bt_sum :: "('k \<Rightarrow> 'v \<Rightarrow> rat) \<Rightarrow> ('k, 'v) btree \<Rightarrow> rat" where
  "bt_sum g m = sum_list (map (\<lambda>p. g (fst p) (snd p)) m)"

definition opt_value :: "('v \<Rightarrow> rat) \<Rightarrow> 'v option \<Rightarrow> rat" where
  "opt_value f x = (case x of None \<Rightarrow> 0 | Some v \<Rightarrow> f v)"

lemma opt_value_simps [simp]: "opt_value f None = 0" "opt_value f (Some v) = f v"
  by (simp_all add: opt_value_def)

lemma bt_sum_Nil [simp]: "bt_sum g [] = 0"
  by (simp add: bt_sum_def)

lemma bt_sum_insert:
  assumes "bt_ok m"
  shows "bt_sum g (bt_insert k v m) = bt_sum g m + g k v - opt_value (g k) (map_of m k)"
  using assms
proof (induction m)
  case (Cons p m)
  have ok: "bt_ok m" and above: "\<forall>q \<in> set m. fst p < fst q" using Cons.prems by (auto simp: bt_ok_def)
  have "map_of m k = None" if "k \<le> fst p"
    using above that by (fastforce simp: map_of_eq_None_iff)
  then show ?case using Cons.IH [OF ok] by (cases p) (auto simp: bt_sum_def)
qed (simp add: bt_sum_def)

lemma bt_sum_nonneg: "(\<And>k v. (k, v) \<in> set m \<Longrightarrow> 0 \<le> g k v) \<Longrightarrow> 0 \<le> bt_sum g m"
  by (auto simp: bt_sum_def intro!: sum_list_nonneg)

lemma bt_sum_cong: "(\<And>k v. (k, v) \<in> set m \<Longrightarrow> g k v = h k v) \<Longrightarrow> bt_sum g m = bt_sum h m"
  by (auto simp: bt_sum_def intro!: arg_cong [where f = sum_list])

lemma bt_sum_member:
  assumes "bt_ok m" "map_of m k = Some v" "\<And>j w. (j, w) \<in> set m \<Longrightarrow> 0 \<le> g j w"
  shows "g k v \<le> bt_sum g m"
proof -
  have "0 \<le> bt_sum g (bt_remove k m)"
    using assms(3) by (intro bt_sum_nonneg) (auto simp: bt_remove_def)
  moreover have "bt_sum g m = bt_sum g (bt_remove k m) + g k v"
    using assms(1,2)
  proof (induction m)
    case (Cons p m)
    show ?case
    proof (cases "fst p = k")
      case True
      then have "bt_remove k (p # m) = m" using Cons.prems(1) by (auto simp: bt_remove_def bt_ok_def intro!: filter_True)
      then show ?thesis using True Cons.prems(2) by (simp add: bt_sum_def)
    next
      case False
      then show ?thesis using Cons by (simp add: bt_sum_def bt_remove_def bt_ok_def split: if_splits prod.splits)
    qed
  qed simp
  ultimately show ?thesis by simp
qed

section \<open>Environment\<close>

record ledger_env =
  le_pf :: platform
  le_plain :: "bigdec \<Rightarrow> rstr"
  le_date :: "rstr \<Rightarrow> int option"

abbreviation le_lib :: "ledger_env \<Rightarrow> decimal_lib" where
  "le_lib env \<equiv> pf_lib (le_pf env)"

definition bd_zero :: bigdec where
  "bd_zero = \<lparr>bd_coef = 0, bd_scale = 0\<rparr>"

definition bd_is_zero :: "bigdec \<Rightarrow> bool" where
  "bd_is_zero d = (bd_coef d = 0)"

definition bd_is_negative :: "bigdec \<Rightarrow> bool" where
  "bd_is_negative d = (bd_coef d < 0)"

definition bd_eq :: "ledger_env \<Rightarrow> bigdec \<Rightarrow> bigdec \<Rightarrow> bool" where
  "bd_eq env a b = (lib_cmp (le_lib env) a b = Equal)"

definition bd_less :: "ledger_env \<Rightarrow> bigdec \<Rightarrow> bigdec \<Rightarrow> bool" where
  "bd_less env a b = (lib_cmp (le_lib env) a b = Less)"

definition bd_max :: "ledger_env \<Rightarrow> bigdec \<Rightarrow> bigdec \<Rightarrow> bigdec" where
  "bd_max env a b = (if bd_less env b a then a else b)"

definition bd_min :: "ledger_env \<Rightarrow> bigdec \<Rightarrow> bigdec \<Rightarrow> bigdec" where
  "bd_min env a b = (if bd_less env b a then b else a)"

abbreviation bd_add :: "ledger_env \<Rightarrow> bigdec \<Rightarrow> bigdec \<Rightarrow> bigdec" where
  "bd_add env \<equiv> lib_add (le_lib env)"

abbreviation bd_sub :: "ledger_env \<Rightarrow> bigdec \<Rightarrow> bigdec \<Rightarrow> bigdec" where
  "bd_sub env \<equiv> lib_sub (le_lib env)"

abbreviation bd_mul :: "ledger_env \<Rightarrow> bigdec \<Rightarrow> bigdec \<Rightarrow> bigdec" where
  "bd_mul env \<equiv> lib_mul (le_lib env)"

lemma bd_value_zero [simp]: "bd_value bd_zero = 0"
  by (simp add: bd_zero_def)

lemma bd_is_zero_value [value_simps]: "bd_is_zero d \<longleftrightarrow> bd_value d = 0"
  by (simp add: bd_is_zero_def)

lemma bd_is_negative_value [value_simps]: "bd_is_negative d \<longleftrightarrow> bd_value d < 0"
  using mult_less_cancel_right_pos [OF pow10_pos, of "of_int (bd_coef d)" "- bd_scale d" 0]
  by (simp add: bd_is_negative_def bd_value_def)

declare bd_value_eq_0 [simp del]

text \<open>The rounding law of the decimal library joins the laws of its arithmetic.\<close>

locale ledger_decimal = bigdecimal lib for lib +
  assumes round_scale: "bd_scale (lib_with_scale_round lib a s HalfEven) = s"
    and round_coef: "bd_coef (lib_with_scale_round lib a s HalfEven) = round_spec HalfEven (bd_value a * 10 powi s)"

locale ledger = ledger_decimal "le_lib env" for env
begin

lemma order_value [value_simps]:
  "bd_eq env a b \<longleftrightarrow> bd_value a = bd_value b" "bd_less env a b \<longleftrightarrow> bd_value a < bd_value b"
  by (simp_all add: bd_eq_def bd_less_def cmp_value)

lemma extreme_value [value_simps]:
  "bd_value (bd_max env a b) = max (bd_value a) (bd_value b)" "bd_value (bd_min env a b) = min (bd_value a) (bd_value b)"
  by (auto simp: bd_max_def bd_min_def order_value)

lemmas arith_value [value_simps] = add_value sub_value mul_value

lemma fold_sum: "bd_value (foldl (\<lambda>n x. bd_add env n (f x)) a xs) = bd_value a + sum_list (map (\<lambda>x. bd_value (f x)) xs)"
  by (induction xs arbitrary: a) (simp_all add: add_value algebra_simps)

end

end
