(* ===== verification/Position_Model.thy ===== *)
theory Position_Model
  imports Ledger_Base
begin

text \<open>
  The readers, the bounded arithmetic and the data of \<open>crates/position/src/model.rs\<close>. Amounts
  are bare \<open>BigDecimal\<close> values; the counters \<open>u64\<close> are natural numbers. A failed
  \<open>expect\<close> or a missing key of an indexed map is the error \<open>PosPanic\<close>.
\<close>

datatype pos_error = PosError string | PosJson | PosPanic

definition pos_domain :: "domain_error + 'a \<Rightarrow> pos_error + 'a" where
  "pos_domain r = (case r of Inl e \<Rightarrow> Inl (PosError (domain_error_text e)) | Inr x \<Rightarrow> Inr x)"

definition pos_digest :: "ledger_env \<Rightarrow> nat list \<Rightarrow> rstr" where
  "pos_digest env bytes = hex_bytes (pf_sha256 (le_pf env) bytes)"

definition pos_hash :: "ledger_env \<Rightarrow> json \<Rightarrow> rstr" where
  "pos_hash env v = pos_digest env (json_bytes (le_pf env) v)"

section \<open>Readers\<close>

definition row_version :: "json \<Rightarrow> string list \<Rightarrow> nat \<Rightarrow> pos_error + (rstr \<times> json) list" where
  "row_version v names version =
     rbind (ok_or (as_object v) (PosError ''POSITION_RECORD_REQUIRED'')) (\<lambda>r.
     if (case map_of r (str_lit ''schema_version'') of Some n \<Rightarrow> as_u64 n | None \<Rightarrow> None) \<noteq> Some version
        \<or> length r \<noteq> length names + 1
        \<or> list_ex (\<lambda>f. \<not> bt_contains r (str_lit f)) names
     then Inl (PosError ''POSITION_FIELDS_INVALID'') else Inr r)"

definition pos_row :: "json \<Rightarrow> string list \<Rightarrow> pos_error + (rstr \<times> json) list" where
  "pos_row v names = row_version v names 1"

definition checkpoint_row :: "json \<Rightarrow> string list \<Rightarrow> pos_error + (rstr \<times> json) list" where
  "checkpoint_row v names =
     rbind (ok_or (as_object v) (PosError ''COMPONENT_CHECKPOINT_RECORD'')) (\<lambda>r.
     if (case map_of r (str_lit ''schema_version'') of Some n \<Rightarrow> as_u64 n | None \<Rightarrow> None) \<noteq> Some 2
        \<or> length r \<noteq> length names + 1
        \<or> list_ex (\<lambda>f. \<not> bt_contains r (str_lit f)) names
     then Inl (PosError ''COMPONENT_CHECKPOINT_SCHEMA'') else Inr r)"

definition pos_text :: "json \<Rightarrow> pos_error + rstr" where
  "pos_text v =
     ok_or (case as_str v of Some s \<Rightarrow> if s \<noteq> [] \<and> str_len s \<le> 256 then Some s else None | None \<Rightarrow> None)
       (PosError ''POSITION_TEXT_REQUIRED'')"

definition pos_id :: "json \<Rightarrow> pos_error + rstr" where
  "pos_id v =
     rbind (pos_text v) (\<lambda>s.
     rbind (pos_domain (identifier_new ''OnlyIdentifier'' s)) (\<lambda>i.
     if i \<noteq> s then Inl (PosError ''POSITION_NONCANONICAL_ID'') else Inr s))"

definition pos_fingerprint :: "json \<Rightarrow> pos_error + unit" where
  "pos_fingerprint v =
     rbind (pos_text v) (\<lambda>s.
     if str_len s \<noteq> 64 \<or> \<not> list_all (\<lambda>b. is_digit b \<or> 97 \<le> b \<and> b \<le> 102) (str_bytes s)
     then Inl (PosError ''POSITION_FINGERPRINT_INVALID'') else Inr ())"

definition pos_uint :: "json \<Rightarrow> pos_error + nat" where
  "pos_uint v = ok_or (as_u64 v) (PosError ''POSITION_UNSIGNED_INTEGER_REQUIRED'')"

definition pos_boolean :: "json \<Rightarrow> pos_error + bool" where
  "pos_boolean v = ok_or (as_bool v) (PosError ''POSITION_BOOL_REQUIRED'')"

definition pos_time :: "json \<Rightarrow> pos_error + int" where
  "pos_time v =
     rbind (ok_or (as_number v) (PosError ''POSITION_TIME_INVALID'')) (\<lambda>s.
     if str_len s > 40 then Inl (PosError ''POSITION_TIME_INVALID'')
     else ok_or (int_parse s) (PosError ''POSITION_TIME_INVALID''))"

section \<open>Bounded arithmetic\<close>

definition bounded :: "bigdec \<Rightarrow> bool \<Rightarrow> pos_error + unit" where
  "bounded d input =
     (let digits = (if input then 128 else 1024); scale = (if input then 64 else 512) in
      if length (int_text (bd_coef d)) > digits \<or> \<not> (- scale \<le> bd_scale d \<and> bd_scale d \<le> scale)
      then Inl (PosError ''POSITION_ARITHMETIC_BOUND'') else Inr ())"

definition pos_decimal :: "ledger_env \<Rightarrow> json \<Rightarrow> pos_error + bigdec" where
  "pos_decimal env v =
     rbind (pos_text v) (\<lambda>s.
     rbind (pos_domain (decimal_from_str (le_lib env) (pf_uni (le_pf env)) s)) (\<lambda>c.
     rbind (ok_or (lib_parse (le_lib env) (decimal_display c)) (PosError ''POSITION_DECIMAL_INVALID'')) (\<lambda>d.
     rbind (bounded d True) (\<lambda>_. Inr d))))"

definition pos_positive :: "ledger_env \<Rightarrow> json \<Rightarrow> pos_error + bigdec" where
  "pos_positive env v =
     rbind (pos_decimal env v) (\<lambda>d.
     if \<not> bd_less env bd_zero d then Inl (PosError ''POSITION_POSITIVE_REQUIRED'') else Inr d)"

definition pos_nonnegative :: "ledger_env \<Rightarrow> json \<Rightarrow> pos_error + bigdec" where
  "pos_nonnegative env v =
     rbind (pos_decimal env v) (\<lambda>d.
     if bd_less env d bd_zero then Inl (PosError ''POSITION_NONNEGATIVE_REQUIRED'') else Inr d)"

definition number :: "ledger_env \<Rightarrow> bigdec \<Rightarrow> json" where
  "number env d = JString (lib_display (le_lib env) (lib_normalized (le_lib env) d))"

definition rounded :: "ledger_env \<Rightarrow> bigdec \<Rightarrow> nat \<Rightarrow> json" where
  "rounded env d p = JString (le_plain env (lib_with_scale_round (le_lib env) d (int p) HalfEven))"

definition ratio :: "ledger_env \<Rightarrow> bigdec \<Rightarrow> bigdec \<Rightarrow> int \<Rightarrow> pos_error + bigdec" where
  "ratio env n d scale =
     rbind (bounded n False) (\<lambda>_.
     rbind (bounded d False) (\<lambda>_.
     if bd_is_negative n \<or> \<not> bd_less env bd_zero d then Inl (PosError ''POSITION_RATIO_INVALID'')
     else let shift = scale + bd_scale d - bd_scale n in
       if \<not> (- 2048 \<le> shift \<and> shift \<le> 2048) then Inl (PosError ''POSITION_RATIO_BOUND'')
       else let a = (if shift \<ge> 0 then bd_coef n * 10 ^ nat shift else bd_coef n);
                b = (if shift \<ge> 0 then bd_coef d else bd_coef d * 10 ^ nat (- shift));
                q = a div b; r = a mod b
            in Inr \<lparr>bd_coef = (if r * 2 > b \<or> r * 2 = b \<and> q mod 2 \<noteq> 0 then q + 1 else q), bd_scale = scale\<rparr>))"

definition release_cost :: "ledger_env \<Rightarrow> bigdec \<Rightarrow> bigdec \<Rightarrow> bigdec \<Rightarrow> nat \<Rightarrow> pos_error + bigdec" where
  "release_cost env cost qty filled qp =
     (if bd_eq env filled qty then Inr cost
      else let numerator = bd_mul env cost filled;
               e0 = int (length (int_text (bd_coef numerator))) - bd_scale numerator
                    - int (length (int_text (bd_coef qty))) + bd_scale qty;
               power = \<lparr>bd_coef = 1, bd_scale = - e0\<rparr>;
               e = (if bd_less env numerator (bd_mul env qty power) then e0 - 1 else e0);
               digits = int (length (int_text (bd_coef cost)));
               precision = max (max 36 (digits + 12)) (2 * int qp + 18)
           in ratio env numerator qty (precision - 1 - e))"

section \<open>Instruments and currency\<close>

definition rsplit_once :: "nat \<Rightarrow> rstr \<Rightarrow> (rstr \<times> rstr) option" where
  "rsplit_once c s =
     (let tail = takeWhile (\<lambda>x. x \<noteq> c) (rev s)
      in if c \<in> set s then Some (rev (drop (Suc (length tail)) (rev s)), rev tail) else None)"

definition instrument_id_from_str :: "rstr \<Rightarrow> domain_error + instrument_id" where
  "instrument_id_from_str value =
     rbind (ok_or (rsplit_once 46 value) (DomValidation ''instrument id must use SYMBOL.VENUE'')) (\<lambda>(symbol, venue).
     rbind (identifier_new ''OnlySymbol'' symbol) (\<lambda>s.
     rbind (identifier_new ''OnlyVenueId'' venue) (\<lambda>v.
     Inr \<lparr>ii_symbol = s, ii_venue = v\<rparr>)))"

record instrument =
  in_pp :: nat
  in_qp :: nat
  in_multiplier :: bigdec

definition reparse :: "ledger_env \<Rightarrow> bigdec \<Rightarrow> pos_error + decimal" where
  "reparse env d = pos_domain (decimal_from_str (le_lib env) (pf_uni (le_pf env)) (lib_display (le_lib env) d))"

definition instrument_price :: "ledger_env \<Rightarrow> instrument \<Rightarrow> json \<Rightarrow> pos_error + bigdec" where
  "instrument_price env spec v =
     rbind (pos_positive env v) (\<lambda>d.
     rbind (reparse env d) (\<lambda>x.
     rbind (pos_domain (scalar_new validate_precision x (in_pp spec))) (\<lambda>_. Inr d)))"

definition instrument_quantity :: "ledger_env \<Rightarrow> instrument \<Rightarrow> json \<Rightarrow> pos_error + bigdec" where
  "instrument_quantity env spec v =
     rbind (pos_positive env v) (\<lambda>d.
     rbind (reparse env d) (\<lambda>x.
     rbind (pos_domain (quantity_new x (in_qp spec))) (\<lambda>_. Inr d)))"

definition u8_precision :: "json \<Rightarrow> pos_error + nat" where
  "u8_precision v =
     rbind (pos_uint v) (\<lambda>n. if n < 256 then Inr n else Inl (PosError ''POSITION_PRECISION''))"

definition instrument_parse :: "ledger_env \<Rightarrow> json \<Rightarrow> pos_error + rstr \<times> instrument" where
  "instrument_parse env v =
     rbind (pos_row v [''id'', ''price_precision'', ''quantity_precision'', ''multiplier'']) (\<lambda>r.
     rbind (pos_id (jfield r ''id'')) (\<lambda>name.
     rbind (pos_domain (instrument_id_from_str name)) (\<lambda>parsed.
     if instrument_display parsed \<noteq> name then Inl (PosError ''POSITION_INSTRUMENT_NONCANONICAL'')
     else rbind (u8_precision (jfield r ''price_precision'')) (\<lambda>pp.
     rbind (u8_precision (jfield r ''quantity_precision'')) (\<lambda>qp.
     if pp > 18 \<or> qp > 18 then Inl (PosError ''POSITION_PRECISION'')
     else rbind (pos_positive env (jfield r ''multiplier'')) (\<lambda>multiplier.
     rbind (reparse env multiplier) (\<lambda>x.
     rbind (pos_domain (scalar_new validate_multiplier x 18)) (\<lambda>_.
     Inr (name, \<lparr>in_pp = pp, in_qp = qp, in_multiplier = multiplier\<rparr>)))))))))"

definition pos_currency :: "ledger_env \<Rightarrow> json \<Rightarrow> pos_error + currency" where
  "pos_currency env v =
     rbind (pos_domain (currency_from_record (le_pf env) v)) (\<lambda>c.
     if currency_to_record c \<noteq> v then Inl (PosError ''POSITION_CURRENCY_NONCANONICAL'') else Inr c)"

section \<open>Books, reservations and the state\<close>

datatype pos_status = PApplied | PDuplicate | PConflict | PStale

record pos_outcome =
  po_status :: pos_status
  po_fact :: "json option"

record book =
  bk_id :: rstr
  bk_qty :: bigdec
  bk_settled :: bigdec
  bk_cost :: bigdec
  bk_realized :: bigdec
  bk_realized_exact :: bigdec
  bk_fees :: bigdec
  bk_cycle :: nat
  bk_version :: nat
  bk_opened :: int
  bk_updated :: int
  bk_closed :: "int option"

definition book_new :: "ledger_env \<Rightarrow> json \<Rightarrow> nat \<Rightarrow> int \<Rightarrow> book" where
  "book_new env key cycle t =
     \<lparr>bk_id = str_lit ''POS-'' @ pos_hash env (JArray [key, jint (int cycle)]), bk_qty = bd_zero, bk_settled = bd_zero,
      bk_cost = bd_zero, bk_realized = bd_zero, bk_realized_exact = bd_zero, bk_fees = bd_zero, bk_cycle = cycle,
      bk_version = 0, bk_opened = t, bk_updated = t, bk_closed = None\<rparr>"

definition book_record :: "ledger_env \<Rightarrow> instrument \<Rightarrow> bigdec \<Rightarrow> bool \<Rightarrow> book \<Rightarrow> pos_error + json" where
  "book_record env spec available blocked b =
     rbind (if bd_is_zero (bk_qty b) then Inr JNull
            else rbind (ratio env (bk_cost b) (bk_qty b) (int (in_pp spec))) (\<lambda>a. Inr (JString (le_plain env a)))) (\<lambda>average.
     Inr (jobject [(''id'', JString (bk_id b)), (''quantity'', number env (bk_qty b)), (''settled'', number env (bk_settled b)),
       (''unsettled'', number env (bd_sub env (bk_qty b) (bk_settled b))), (''cost'', number env (bk_cost b)),
       (''average'', average), (''realized_pnl'', number env (bk_realized b)),
       (''realized_exact'', number env (bk_realized_exact b)), (''fees'', number env (bk_fees b)),
       (''cycle'', jint (int (bk_cycle b))), (''version'', jint (int (bk_version b))),
       (''opened'', JString (int_text (bk_opened b))), (''updated'', JString (int_text (bk_updated b))),
       (''closed'', encode_option (\<lambda>t. JString (int_text t)) (bk_closed b)),
       (''status'', JString (str_lit (if bd_is_zero (bk_qty b) then ''CLOSED'' else if blocked then ''RECONCILING'' else ''OPEN''))),
       (''available'', number env available)]))"

record reservation =
  rv_instrument :: rstr
  rv_cluster :: rstr
  rv_order :: rstr
  rv_quantity :: bigdec
  rv_remaining :: bigdec
  rv_consumed :: bigdec
  rv_released :: bigdec
  rv_stage :: rstr
  rv_acknowledged :: bool
  rv_state :: rstr
  rv_version :: nat

definition reservation_record :: "ledger_env \<Rightarrow> reservation \<Rightarrow> json" where
  "reservation_record env r =
     jobject [(''instrument'', JString (rv_instrument r)), (''cluster'', JString (rv_cluster r)), (''order'', JString (rv_order r)),
       (''quantity'', number env (rv_quantity r)), (''remaining'', number env (rv_remaining r)),
       (''consumed'', number env (rv_consumed r)), (''released'', number env (rv_released r)), (''stage'', JString (rv_stage r)),
       (''acknowledged'', JBool (rv_acknowledged r)), (''state'', JString (rv_state r)), (''version'', jint (int (rv_version r)))]"

record pos_state =
  ps_accounts :: "(rstr, book) btree"
  ps_allocations :: "(rstr \<times> rstr, book) btree"
  ps_history :: "json list"
  ps_reservations :: "(rstr, reservation) btree"
  ps_restrictions :: "(rstr, json) btree"
  ps_brokers :: "(rstr, json) btree"
  ps_stale :: "(rstr, json) btree"
  ps_watermarks :: "(rstr, nat \<times> int \<times> rstr) btree"
  ps_receipts :: "(rstr, rstr) btree"
  ps_commands :: "(rstr, rstr) btree"
  ps_journal :: "json list"
  ps_sequence :: nat
  ps_now :: int

definition pos_state_default :: pos_state where
  "pos_state_default =
     \<lparr>ps_accounts = [], ps_allocations = [], ps_history = [], ps_reservations = [], ps_restrictions = [], ps_brokers = [],
      ps_stale = [], ps_watermarks = [], ps_receipts = [], ps_commands = [], ps_journal = [], ps_sequence = 0, ps_now = 0\<rparr>"

end
