(* ===== verification/Position_Manager.thy ===== *)
theory Position_Manager
  imports Position_Model
begin

text \<open>
  The position manager of \<open>crates/position/src\<close>: \<open>manager.rs\<close> with its views, trades,
  administration and validation, \<open>reservation.rs\<close>, \<open>reconciliation.rs\<close>, \<open>recovery.rs\<close> and
  \<open>valuation.rs\<close>. An operation of the candidate returns the new state with status and details.
  The lazily filled checkpoint cache holds a function of the other fields and is not part of
  the state.
\<close>

record pos_manager =
  pm_config :: json
  pm_instruments :: "(rstr, instrument) btree"
  pm_currency :: currency
  pm_clusters :: "rstr list"
  pm_state :: pos_state

definition pos_max_journal :: nat where "pos_max_journal = 4096"
definition pos_max_journal_bytes :: nat where "pos_max_journal_bytes = 4 * 1024 * 1024"
definition pos_max_checkpoint :: nat where "pos_max_checkpoint = 16 * 1024 * 1024"

definition pos_context :: "string list" where
  "pos_context = [''engine'', ''runtime'', ''account'', ''gateway'', ''generation'']"

definition pos_new :: "ledger_env \<Rightarrow> json \<Rightarrow> pos_error + pos_manager" where
  "pos_new env config =
     (if length (json_bytes (le_pf env) config) > 16384 then Inl (PosError ''POSITION_CONFIG_BOUND'')
      else rbind (pos_row config (pos_context @ [''currency'', ''clusters'', ''instruments''])) (\<lambda>r.
      rbind (for_each (\<lambda>k. rbind (pos_id (jfield r k)) (\<lambda>_. Inr ())) pos_context) (\<lambda>_.
      rbind (pos_currency env (jfield r ''currency'')) (\<lambda>cur.
      rbind (ok_or (case as_array (jfield r ''clusters'') of Some a \<Rightarrow> if a \<noteq> [] \<and> length a \<le> 32 then Some a else None | None \<Rightarrow> None)
               (PosError ''POSITION_CLUSTERS_BOUND'')) (\<lambda>cs.
      rbind (rfold (\<lambda>v clusters. rbind (pos_id v) (\<lambda>c.
               if c \<in> set clusters then Inl (PosError ''POSITION_DUPLICATE_CLUSTER'') else Inr (bs_insert c clusters))) cs []) (\<lambda>clusters.
      rbind (ok_or (case as_array (jfield r ''instruments'') of Some a \<Rightarrow> if a \<noteq> [] \<and> length a \<le> 32 then Some a else None | None \<Rightarrow> None)
               (PosError ''POSITION_INSTRUMENTS_BOUND'')) (\<lambda>is.
      rbind (rfold (\<lambda>v instruments. rbind (instrument_parse env v) (\<lambda>(key, spec).
               if bt_contains instruments key then Inl (PosError ''POSITION_DUPLICATE_INSTRUMENT'')
               else Inr (bt_insert key spec instruments))) is []) (\<lambda>instruments.
      Inr \<lparr>pm_config = config, pm_instruments = instruments, pm_currency = cur, pm_clusters = clusters,
           pm_state = pos_state_default\<rparr>))))))))"

section \<open>Views (manager.rs)\<close>

definition pos_spec :: "pos_manager \<Rightarrow> rstr \<Rightarrow> pos_error + instrument" where
  "pos_spec m i = ok_or (map_of (pm_instruments m) i) (PosError ''POSITION_UNKNOWN_INSTRUMENT'')"

definition cluster_id :: "pos_manager \<Rightarrow> json \<Rightarrow> pos_error + rstr" where
  "cluster_id m v =
     rbind (pos_id v) (\<lambda>c.
     if c \<notin> set (pm_clusters m) then Inl (PosError ''POSITION_CLUSTER_SCOPE'') else Inr c)"

definition blocked :: "pos_state \<Rightarrow> rstr \<Rightarrow> bool" where
  "blocked s i =
     (bt_contains (ps_stale s) i
      \<or> (case map_of (ps_brokers s) i of Some v \<Rightarrow> jindex v ''blocking'' = JBool True | None \<Rightarrow> False))"

definition held_by :: "rstr \<Rightarrow> rstr option \<Rightarrow> bool \<Rightarrow> reservation \<Rightarrow> bool" where
  "held_by i c local r =
     (rv_instrument r = i \<and> (case c of None \<Rightarrow> True | Some c \<Rightarrow> rv_cluster r = c) \<and> (\<not> local \<or> \<not> rv_acknowledged r))"

definition holds :: "ledger_env \<Rightarrow> pos_state \<Rightarrow> rstr \<Rightarrow> rstr option \<Rightarrow> bool \<Rightarrow> bigdec" where
  "holds env s i c local =
     foldl (\<lambda>n r. bd_add env n (rv_remaining r)) bd_zero (filter (held_by i c local) (bt_values (ps_reservations s)))"

definition restriction_until :: "json \<Rightarrow> pos_error + int option" where
  "restriction_until v = (if v = JNull then Inr None else rbind (pos_time v) (\<lambda>t. Inr (Some t)))"

definition restrictions :: "ledger_env \<Rightarrow> pos_state \<Rightarrow> rstr \<Rightarrow> pos_error + bigdec" where
  "restrictions env s i =
     rfold (\<lambda>r q.
       rbind (pos_time (jindex r ''from'')) (\<lambda>from.
       rbind (restriction_until (jindex r ''until'')) (\<lambda>until.
       if from \<le> ps_now s \<and> (case until of None \<Rightarrow> True | Some t \<Rightarrow> ps_now s < t)
       then rbind (pos_nonnegative env (jindex r ''quantity'')) (\<lambda>d. Inr (bd_add env q d))
       else Inr q)))
     (filter (\<lambda>r. jindex r ''instrument'' = JString i) (bt_values (ps_restrictions s))) bd_zero"

definition account_available :: "ledger_env \<Rightarrow> pos_state \<Rightarrow> rstr \<Rightarrow> pos_error + bigdec" where
  "account_available env s i =
     (if blocked s i then Inr bd_zero
      else case map_of (ps_accounts s) i of
        None \<Rightarrow> Inr bd_zero
      | Some b \<Rightarrow>
          rbind (restrictions env s i) (\<lambda>res.
          let value = bd_max env (bd_sub env (bd_sub env (bk_settled b) res) (holds env s i None False)) bd_zero in
          case map_of (ps_brokers s) i of
            None \<Rightarrow> Inr value
          | Some broker \<Rightarrow>
              rbind (pos_nonnegative env (jindex (jindex broker ''snapshot'') ''available'')) (\<lambda>avail.
              Inr (bd_min env value (bd_max env (bd_sub env avail (holds env s i None True)) bd_zero)))))"

definition cluster_available :: "ledger_env \<Rightarrow> pos_state \<Rightarrow> rstr \<Rightarrow> rstr \<Rightarrow> pos_error + bigdec" where
  "cluster_available env s c i =
     (case map_of (ps_allocations s) (c, i) of
        None \<Rightarrow> Inr bd_zero
      | Some b \<Rightarrow>
          rbind (account_available env s i) (\<lambda>avail.
          Inr (bd_min env (bd_max env (bd_sub env (bk_settled b) (holds env s i (Some c) False)) bd_zero) avail)))"

definition pos_account :: "ledger_env \<Rightarrow> pos_manager \<Rightarrow> rstr \<Rightarrow> pos_error + json" where
  "pos_account env m i =
     rbind (pos_spec m i) (\<lambda>spec.
     rbind (ok_or (map_of (ps_accounts (pm_state m)) i) (PosError ''POSITION_NOT_FOUND'')) (\<lambda>b.
     rbind (account_available env (pm_state m) i) (\<lambda>avail.
     book_record env spec avail (blocked (pm_state m) i) b)))"

definition pos_cluster :: "ledger_env \<Rightarrow> pos_manager \<Rightarrow> rstr \<Rightarrow> rstr \<Rightarrow> pos_error + json" where
  "pos_cluster env m c i =
     (if c \<notin> set (pm_clusters m) then Inl (PosError ''POSITION_CLUSTER_SCOPE'')
      else rbind (pos_spec m i) (\<lambda>spec.
      rbind (ok_or (map_of (ps_allocations (pm_state m)) (c, i)) (PosError ''POSITION_ALLOCATION_NOT_FOUND'')) (\<lambda>b.
      rbind (cluster_available env (pm_state m) c i) (\<lambda>avail.
      book_record env spec avail (blocked (pm_state m) i) b))))"

definition unallocated :: "ledger_env \<Rightarrow> pos_manager \<Rightarrow> rstr \<Rightarrow> pos_error + json option" where
  "unallocated env m i =
     rbind (pos_spec m i) (\<lambda>spec.
     case map_of (ps_allocations (pm_state m)) ([], i) of
       None \<Rightarrow> Inr None
     | Some b \<Rightarrow> rbind (book_record env spec bd_zero (blocked (pm_state m) i) b) (\<lambda>v. Inr (Some v)))"

definition pos_reservation :: "ledger_env \<Rightarrow> pos_manager \<Rightarrow> rstr \<Rightarrow> pos_error + json" where
  "pos_reservation env m o' =
     ok_or (map_option (reservation_record env) (map_of (ps_reservations (pm_state m)) o'))
       (PosError ''POSITION_RESERVATION_NOT_FOUND'')"

definition pos_expect :: "pos_error + 'a \<Rightarrow> pos_error + 'a" where
  "pos_expect r = (case r of Inl _ \<Rightarrow> Inl PosPanic | Inr x \<Rightarrow> Inr x)"

definition owner_json :: "rstr \<Rightarrow> json" where
  "owner_json c = (if c = [] then JNull else JString c)"

definition account_row :: "ledger_env \<Rightarrow> pos_manager \<Rightarrow> rstr \<Rightarrow> pos_error + json" where
  "account_row env m i =
     rbind (pos_expect (pos_account env m i)) (\<lambda>snap.
     Inr (jobject [(''instrument'', JString i), (''snapshot'', snap)]))"

definition allocation_row :: "ledger_env \<Rightarrow> pos_manager \<Rightarrow> (rstr \<times> rstr) \<times> book \<Rightarrow> pos_error + json" where
  "allocation_row env m = (\<lambda>((c, i), b).
     rbind (ok_or (map_of (pm_instruments m) i) PosPanic) (\<lambda>spec.
     rbind (if c = [] then Inr bd_zero else pos_expect (cluster_available env (pm_state m) c i)) (\<lambda>avail.
     rbind (pos_expect (book_record env spec avail (blocked (pm_state m) i) b)) (\<lambda>snap.
     Inr (jobject [(''cluster'', owner_json c), (''instrument'', JString i), (''snapshot'', snap)])))))"

definition current_exposure_rows :: "ledger_env \<Rightarrow> pos_manager \<Rightarrow> pos_error + json list \<times> json list" where
  "current_exposure_rows env m =
     rbind (collect (account_row env m) (bt_keys (ps_accounts (pm_state m)))) (\<lambda>accounts.
     rbind (collect (allocation_row env m) (ps_allocations (pm_state m))) (\<lambda>allocations.
     Inr (accounts, allocations)))"

definition current_exposure :: "ledger_env \<Rightarrow> pos_manager \<Rightarrow> pos_error + json" where
  "current_exposure env m =
     rbind (current_exposure_rows env m) (\<lambda>(accounts, allocations).
     Inr (jobject [(''accounts'', JArray accounts), (''allocations'', JArray allocations)]))"

definition watermark_row :: "rstr \<times> nat \<times> int \<times> rstr \<Rightarrow> json" where
  "watermark_row = (\<lambda>(i, s, t, trade). JArray [JString i, jint (int s), JString (int_text t), JString trade])"

definition pos_state_record :: "ledger_env \<Rightarrow> pos_manager \<Rightarrow> pos_error + json" where
  "pos_state_record env m =
     (let s = pm_state m in
      rbind (current_exposure_rows env m) (\<lambda>(accounts, allocations).
      Inr (jobject [(''sequence'', jint (int (ps_sequence s))),
        (''now'', if ps_journal s = [] then JNull else JString (int_text (ps_now s))),
        (''accounts'', JArray accounts), (''allocations'', JArray allocations), (''history'', JArray (ps_history s)),
        (''reservations'', JArray (map (reservation_record env) (bt_values (ps_reservations s)))),
        (''restrictions'', JObject (ps_restrictions s)), (''brokers'', JObject (ps_brokers s)), (''stale'', JObject (ps_stale s)),
        (''watermarks'', JArray (map watermark_row (ps_watermarks s))),
        (''receipts'', encode_map JString (ps_receipts s)), (''commands'', encode_map JString (ps_commands s))])))"

section \<open>Trades (manager.rs)\<close>

definition book_owner :: "pos_manager \<Rightarrow> string \<Rightarrow> rstr \<Rightarrow> json list \<Rightarrow> json" where
  "book_owner m kind i suffix =
     JArray ([JString (str_lit kind), jindex (pm_config m) ''runtime'', jindex (pm_config m) ''account'', JString i] @ suffix)"

definition buy_book ::
  "ledger_env \<Rightarrow> instrument \<Rightarrow> int \<Rightarrow> bigdec \<Rightarrow> bigdec \<Rightarrow> bool \<Rightarrow> json \<Rightarrow> book option \<Rightarrow> json list \<Rightarrow> pos_error + book \<times> json list" where
  "buy_book env spec t price quantity settled owner b history =
     rbind (case b of
              None \<Rightarrow> Inr (book_new env owner 1 t, history)
            | Some p \<Rightarrow>
                if bd_is_zero (bk_qty p)
                then rbind (book_record env spec bd_zero False p) (\<lambda>snap.
                     Inr (book_new env owner (bk_cycle p + 1) t, history @ [jobject [(''owner'', owner), (''snapshot'', snap)]]))
                else Inr (p, history)) (\<lambda>(b, history).
     Inr (b\<lparr>bk_qty := bd_add env (bk_qty b) quantity,
            bk_cost := bd_add env (bk_cost b) (bd_mul env price quantity),
            bk_settled := (if settled then bd_add env (bk_settled b) quantity else bk_settled b)\<rparr>, history))"

definition sell_book :: "ledger_env \<Rightarrow> int \<Rightarrow> bigdec \<Rightarrow> bigdec \<Rightarrow> bigdec \<Rightarrow> bigdec \<Rightarrow> book \<Rightarrow> pos_error + book" where
  "sell_book env t exact quantity released realized b =
     (let b1 = b\<lparr>bk_realized_exact := bd_add env (bk_realized_exact b) exact, bk_qty := bd_sub env (bk_qty b) quantity,
                 bk_settled := bd_sub env (bk_settled b) quantity, bk_cost := bd_sub env (bk_cost b) released,
                 bk_realized := bd_add env (bk_realized b) realized\<rparr>
      in if bd_is_zero (bk_qty b1)
         then if \<not> bd_is_zero (bk_cost b1) then Inl (PosError ''POSITION_FINAL_COST_NONZERO'')
              else Inr (b1\<lparr>bk_closed := Some t\<rparr>)
         else Inr b1)"

definition consume_reservation :: "ledger_env \<Rightarrow> bigdec \<Rightarrow> bool \<Rightarrow> reservation \<Rightarrow> pos_error + reservation" where
  "consume_reservation env quantity terminal r =
     (let r1 = r\<lparr>rv_remaining := bd_sub env (rv_remaining r) quantity, rv_consumed := bd_add env (rv_consumed r) quantity,
                 rv_version := rv_version r + 1\<rparr>
      in if terminal
         then let released = bd_add env (rv_released r1) (rv_remaining r1);
                  r2 = r1\<lparr>rv_released := released, rv_remaining := bd_zero,
                          rv_state := str_lit (if bd_is_zero released then ''CONSUMED'' else ''RELEASED'')\<rparr>
              in Inr (if bd_is_zero released then r2 else r2\<lparr>rv_stage := str_lit ''RELEASED''\<rparr>)
         else if bd_is_zero (rv_remaining r1) then Inl (PosError ''POSITION_NONTERMINAL_FILL_EXHAUSTS_RESERVATION'')
         else Inr (r1\<lparr>rv_state := str_lit ''PARTIALLY_CONSUMED''\<rparr>))"

definition touch_book :: "ledger_env \<Rightarrow> bigdec \<Rightarrow> int \<Rightarrow> book \<Rightarrow> book" where
  "touch_book env fee t b =
     b\<lparr>bk_fees := bd_add env (bk_fees b) fee, bk_updated := t, bk_version := bk_version b + 1\<rparr>"

record trade_input =
  ti_instrument :: rstr
  ti_spec :: instrument
  ti_cluster :: rstr
  ti_order :: rstr
  ti_trade :: rstr
  ti_buy :: bool
  ti_price :: bigdec
  ti_quantity :: bigdec
  ti_fee :: bigdec
  ti_terminal :: bool
  ti_settled :: bool
  ti_sequence :: nat
  ti_aliases :: "rstr list"

definition trade_fields :: "string list" where
  "trade_fields = [''instrument'', ''cluster'', ''order'', ''trade'', ''venue_trade'', ''execution'', ''sequence'', ''side'',
     ''position_side'', ''position_mode'', ''price'', ''quantity'', ''fee'', ''bucket'', ''terminal_fill'']"

definition trade_alias :: "(rstr \<times> json) list \<Rightarrow> string \<Rightarrow> pos_error + rstr list" where
  "trade_alias r field =
     (if jfield r field = JNull then Inr []
      else rbind (pos_id (jfield r field)) (\<lambda>x. Inr [str_lit field @ 58 # x]))"

definition trade_price :: "ledger_env \<Rightarrow> instrument \<Rightarrow> nat \<Rightarrow> (rstr \<times> json) list \<Rightarrow> pos_error + bigdec" where
  "trade_price env spec version r =
     (if version = 2 then
        rbind (pos_positive env (jfield r ''price'')) (\<lambda>price.
        rbind (u8_precision (jfield r ''price_precision'')) (\<lambda>precision.
        rbind (reparse env price) (\<lambda>x.
        rbind (pos_domain (scalar_new validate_precision x precision)) (\<lambda>_. Inr price))))
      else instrument_price env spec (jfield r ''price''))"

definition trade_read :: "ledger_env \<Rightarrow> pos_manager \<Rightarrow> json \<Rightarrow> pos_error + trade_input" where
  "trade_read env m v =
     rbind (pos_uint (jindex v ''schema_version'')) (\<lambda>version.
     rbind (if version = 1 then Inr trade_fields
            else if version = 2 then Inr (trade_fields @ [''price_precision''])
            else Inl (PosError ''POSITION_TRADE_SCHEMA'')) (\<lambda>fields.
     rbind (row_version v fields version) (\<lambda>r.
     rbind (pos_id (jfield r ''instrument'')) (\<lambda>i.
     rbind (pos_spec m i) (\<lambda>spec.
     rbind (if jfield r ''cluster'' = JNull then Inr [] else cluster_id m (jfield r ''cluster'')) (\<lambda>c.
     rbind (pos_id (jfield r ''order'')) (\<lambda>order.
     rbind (pos_id (jfield r ''trade'')) (\<lambda>trade.
     if jfield r ''position_side'' \<noteq> JString (str_lit ''LONG'') \<or> jfield r ''position_mode'' \<noteq> JString (str_lit ''NETTING'')
     then Inl (PosError ''POSITION_UNSUPPORTED_MODE'')
     else rbind (pos_text (jfield r ''side'')) (\<lambda>side.
     if side \<noteq> str_lit ''BUY'' \<and> side \<noteq> str_lit ''SELL'' then Inl (PosError ''POSITION_SIDE'')
     else rbind (trade_price env spec version r) (\<lambda>price.
     rbind (instrument_quantity env spec (jfield r ''quantity'')) (\<lambda>quantity.
     rbind (pos_nonnegative env (jfield r ''fee'')) (\<lambda>fee.
     rbind (rbind (reparse env fee) (\<lambda>x. pos_domain (money_new x (pm_currency m)))) (\<lambda>_.
     rbind (pos_boolean (jfield r ''terminal_fill'')) (\<lambda>terminal.
     rbind (rbind (pos_text (jfield r ''bucket'')) (\<lambda>b.
              if b = str_lit ''SETTLED'' then Inr True else if b = str_lit ''UNSETTLED'' then Inr False
              else Inl (PosError ''POSITION_BUCKET''))) (\<lambda>settled.
     rbind (pos_uint (jfield r ''sequence'')) (\<lambda>seq.
     rbind (trade_alias r ''venue_trade'') (\<lambda>venue.
     rbind (trade_alias r ''execution'') (\<lambda>execution.
     Inr \<lparr>ti_instrument = i, ti_spec = spec, ti_cluster = c, ti_order = order, ti_trade = trade,
          ti_buy = (side = str_lit ''BUY''), ti_price = price, ti_quantity = quantity, ti_fee = fee, ti_terminal = terminal,
          ti_settled = settled, ti_sequence = seq,
          ti_aliases = (str_lit ''trade:'' @ trade) # venue @ execution\<rparr>))))))))))))))))))"

definition bind_receipts :: "rstr list \<Rightarrow> rstr \<Rightarrow> (rstr, rstr) btree \<Rightarrow> (rstr, rstr) btree" where
  "bind_receipts aliases signature receipts = fold (\<lambda>a rs. bt_insert a signature rs) aliases receipts"

definition known_alias :: "pos_state \<Rightarrow> rstr list \<Rightarrow> rstr option" where
  "known_alias s aliases =
     (case dropWhile (\<lambda>a. map_of (ps_receipts s) a = None) aliases of
        [] \<Rightarrow> None | a # _ \<Rightarrow> map_of (ps_receipts s) a)"

definition trade_buy :: "ledger_env \<Rightarrow> pos_manager \<Rightarrow> trade_input \<Rightarrow> int \<Rightarrow> pos_error + pos_state \<times> book \<times> book" where
  "trade_buy env m ti t =
     (let s = pm_state m; i = ti_instrument ti; c = ti_cluster ti in
      rbind (buy_book env (ti_spec ti) t (ti_price ti) (ti_quantity ti) (ti_settled ti) (book_owner m ''ACCOUNT'' i [])
               (map_of (ps_accounts s) i) (ps_history s)) (\<lambda>(account, h1).
      rbind (buy_book env (ti_spec ti) t (ti_price ti) (ti_quantity ti) (ti_settled ti)
               (if c = [] then book_owner m ''UNALLOCATED'' i [] else book_owner m ''CLUSTER'' i [JString c])
               (map_of (ps_allocations s) (c, i)) h1) (\<lambda>(allocation, h2).
      Inr (s\<lparr>ps_history := h2\<rparr>, account, allocation))))"

definition trade_sell ::
  "ledger_env \<Rightarrow> pos_manager \<Rightarrow> trade_input \<Rightarrow> int \<Rightarrow> pos_error + pos_state \<times> book \<times> book \<times> bigdec \<times> bigdec" where
  "trade_sell env m ti t =
     (let s = pm_state m; i = ti_instrument ti; c = ti_cluster ti; quantity = ti_quantity ti in
      if c = [] \<or> (case map_of (ps_allocations s) ([], i) of Some u \<Rightarrow> \<not> bd_is_zero (bk_qty u) | None \<Rightarrow> False)
      then Inl (PosError ''POSITION_UNALLOCATED_CLOSE_UNSUPPORTED'')
      else rbind (ok_or (map_of (ps_allocations s) (c, i)) (PosError ''POSITION_ALLOCATION_REQUIRED'')) (\<lambda>a.
      rbind (ok_or (map_of (ps_accounts s) i) (PosError ''POSITION_REQUIRED'')) (\<lambda>b.
      rbind (ok_or (map_of (ps_reservations s) (ti_order ti)) (PosError ''POSITION_CLOSE_RESERVATION_REQUIRED'')) (\<lambda>r.
      if rv_cluster r \<noteq> c \<or> rv_instrument r \<noteq> i \<or> bd_less env (rv_remaining r) quantity
         \<or> bd_less env (bk_settled a) quantity \<or> bd_less env (bk_settled b) quantity
      then Inl (PosError ''POSITION_CLOSE_SCOPE_OR_QUANTITY'')
      else rbind (release_cost env (bk_cost a) (bk_qty a) quantity (in_qp (ti_spec ti))) (\<lambda>released.
      let exact = bd_mul env (bd_sub env (bd_mul env (ti_price ti) quantity) released) (in_multiplier (ti_spec ti));
          target = lib_with_scale_round (le_lib env) (bd_add env (bk_realized_exact a) exact)
                     (int (cu_precision (pm_currency m))) HalfEven;
          realized = bd_sub env target (bk_realized a) in
      rbind (sell_book env t exact quantity released realized a) (\<lambda>a1.
      rbind (sell_book env t exact quantity released realized b) (\<lambda>b1.
      rbind (consume_reservation env quantity (ti_terminal ti) r) (\<lambda>r1.
      Inr (s\<lparr>ps_reservations := bt_insert (ti_order ti) r1 (ps_reservations s)\<rparr>, b1, a1, released, realized)))))))))"

definition trade_commit :: "ledger_env \<Rightarrow> trade_input \<Rightarrow> int \<Rightarrow> rstr \<Rightarrow> book \<Rightarrow> book \<Rightarrow> pos_state \<Rightarrow> pos_state" where
  "trade_commit env ti t signature account allocation s =
     (let i = ti_instrument ti in
      s\<lparr>ps_accounts := bt_insert i (touch_book env (ti_fee ti) t account) (ps_accounts s),
        ps_allocations := bt_insert (ti_cluster ti, i) (touch_book env (ti_fee ti) t allocation) (ps_allocations s),
        ps_watermarks := bt_insert i (ti_sequence ti, t, ti_trade ti) (ps_watermarks s),
        ps_receipts := bind_receipts (ti_aliases ti) signature (ps_receipts s)\<rparr>)"

definition trade :: "ledger_env \<Rightarrow> pos_manager \<Rightarrow> json \<Rightarrow> int \<Rightarrow> pos_error + pos_state \<times> pos_status \<times> json" where
  "trade env m v t =
     rbind (trade_read env m v) (\<lambda>ti.
     let s = pm_state m; i = ti_instrument ti; signature = pos_hash env (JArray [v, JString (int_text t)]) in
     case known_alias s (ti_aliases ti) of
       Some old \<Rightarrow> Inr (s, (if old = signature then PDuplicate else PConflict), JNull)
     | None \<Rightarrow>
         if (case map_of (ps_watermarks s) i of Some w \<Rightarrow> (ti_sequence ti, t, ti_trade ti) \<le> w | None \<Rightarrow> False)
         then Inr (s\<lparr>ps_stale := bt_insert i (jobject [(''input'', v), (''at'', JString (int_text t)),
                                  (''reason'', JString (str_lit ''UNAPPLIED_STALE_TRADE''))]) (ps_stale s),
                     ps_receipts := bind_receipts (ti_aliases ti) signature (ps_receipts s)\<rparr>,
                   PStale, jobject [(''instrument'', JString i), (''reason'', JString (str_lit ''UNAPPLIED_STALE_TRADE''))])
         else
           rbind (if ti_buy ti
                  then rbind (trade_buy env m ti t) (\<lambda>(s1, account, allocation). Inr (s1, account, allocation, bd_zero, bd_zero))
                  else trade_sell env m ti t) (\<lambda>(s1, account, allocation, released, realized).
           let s2 = trade_commit env ti t signature account allocation s1 in
           rbind (pos_account env (m\<lparr>pm_state := s2\<rparr>) i) (\<lambda>view.
           Inr (s2, PApplied, jobject [(''instrument'', JString i), (''cluster'', owner_json (ti_cluster ti)),
             (''order'', JString (ti_order ti)), (''released_cost'', number env released),
             (''realized_pnl'', rounded env realized (cu_precision (pm_currency m))), (''account'', view)]))))"

section \<open>Administration (manager.rs)\<close>

definition date_spelling :: "rstr \<Rightarrow> bool" where
  "date_spelling s =
     (let bs = str_bytes s in
      length bs = 10 \<and> list_all (\<lambda>k. if k = 4 \<or> k = 7 then bs ! k = 45 else is_digit (bs ! k)) [0..<length bs])"

definition decode_date :: "ledger_env \<Rightarrow> json \<Rightarrow> domain_error + int" where
  "decode_date env value =
     rbind (dom_text value ''date'') (\<lambda>input.
     if \<not> date_spelling input then Inl (DomValidation ''date requires YYYY-MM-DD text'')
     else rbind (ok_or (le_date env input) (DomValidation ''date'')) (\<lambda>year.
     if year < 1 then Inl (DomValidation ''date requires year 1..9999'') else Inr year))"

definition trading_day_from_record :: "ledger_env \<Rightarrow> json \<Rightarrow> domain_error + int" where
  "trading_day_from_record env value =
     serialization (
       rbind (record_row value 1 [''value'']) (\<lambda>row.
       rbind (decode_date env (jfield row ''value'')) (\<lambda>year.
       if year < 1 then Inl (DomValidation ''date requires year 1..9999'') else Inr year)))"

definition settle_bucket ::
  "ledger_env \<Rightarrow> pos_manager \<Rightarrow> rstr \<Rightarrow> int \<Rightarrow> json \<Rightarrow> rstr list \<times> bigdec \<times> (rstr \<times> rstr, book) btree
   \<Rightarrow> pos_error + rstr list \<times> bigdec \<times> (rstr \<times> rstr, book) btree" where
  "settle_bucket env m i t value = (\<lambda>(seen, total, allocations).
     rbind (pos_row value [''cluster'', ''quantity'']) (\<lambda>b.
     rbind (if jfield b ''cluster'' = JNull then Inr [] else cluster_id m (jfield b ''cluster'')) (\<lambda>c.
     if c \<in> set seen then Inl (PosError ''POSITION_SETTLEMENT_DUPLICATE_OWNER'')
     else rbind (pos_spec m i) (\<lambda>spec.
     rbind (instrument_quantity env spec (jfield b ''quantity'')) (\<lambda>q.
     rbind (ok_or (map_of allocations (c, i)) (PosError ''POSITION_SETTLEMENT_ALLOCATION'')) (\<lambda>a.
     if bd_less env (bd_sub env (bk_qty a) (bk_settled a)) q then Inl (PosError ''POSITION_SETTLEMENT_EXCESS'')
     else Inr (bs_insert c seen, bd_add env total q,
       bt_insert (c, i) (a\<lparr>bk_settled := bd_add env (bk_settled a) q, bk_version := bk_version a + 1, bk_updated := t\<rparr>) allocations)))))))"

definition pos_settle :: "ledger_env \<Rightarrow> pos_manager \<Rightarrow> json \<Rightarrow> int \<Rightarrow> pos_error + pos_state \<times> pos_status \<times> json" where
  "pos_settle env m v t =
     (let s = pm_state m in
      rbind (pos_row v [''instrument'', ''trading_day'', ''source'', ''buckets'']) (\<lambda>r.
      rbind (pos_id (jfield r ''instrument'')) (\<lambda>i.
      rbind (pos_spec m i) (\<lambda>_.
      rbind (pos_id (jfield r ''source'')) (\<lambda>_.
      rbind (pos_text (jfield r ''trading_day'')) (\<lambda>day.
      rbind (pos_domain (trading_day_from_record env (jobject [(''schema_version'', jint 1), (''value'', JString day)]))) (\<lambda>_.
      let source_key = str_lit ''settlement:'' @ pos_hash env (JArray [JString i, jfield r ''source'', JString day]);
          source_signature = pos_hash env v in
      case map_of (ps_receipts s) source_key of
        Some previous \<Rightarrow> Inr (s, (if previous = source_signature then PDuplicate else PConflict), JNull)
      | None \<Rightarrow>
          rbind (ok_or (case as_array (jfield r ''buckets'') of Some b \<Rightarrow> if b \<noteq> [] then Some b else None | None \<Rightarrow> None)
                   (PosError ''POSITION_SETTLEMENT_BUCKETS'')) (\<lambda>buckets.
          rbind (rfold (settle_bucket env m i t) buckets ([], bd_zero, ps_allocations s)) (\<lambda>(_, total, allocations).
          rbind (ok_or (map_of (ps_accounts s) i) (PosError ''POSITION_REQUIRED'')) (\<lambda>a.
          Inr (s\<lparr>ps_allocations := allocations,
                 ps_accounts := bt_insert i (a\<lparr>bk_settled := bd_add env (bk_settled a) total, bk_updated := t,
                                               bk_version := bk_version a + 1\<rparr>) (ps_accounts s),
                 ps_receipts := bt_insert source_key source_signature (ps_receipts s)\<rparr>,
               PApplied, jobject [(''operation'', JString (str_lit ''SETTLE''))])))))))))))"

definition add_restriction :: "ledger_env \<Rightarrow> pos_manager \<Rightarrow> json \<Rightarrow> pos_error + pos_state \<times> pos_status \<times> json" where
  "add_restriction env m v =
     (let s = pm_state m in
      rbind (pos_row v [''instrument'', ''id'', ''quantity'', ''kind'', ''source'', ''from'', ''until'', ''reason'']) (\<lambda>r.
      rbind (pos_id (jfield r ''instrument'')) (\<lambda>i.
      rbind (pos_spec m i) (\<lambda>spec.
      rbind (instrument_quantity env spec (jfield r ''quantity'')) (\<lambda>_.
      rbind (pos_id (jfield r ''id'')) (\<lambda>rid.
      rbind (pos_id (jfield r ''kind'')) (\<lambda>_.
      rbind (pos_id (jfield r ''source'')) (\<lambda>_.
      rbind (pos_text (jfield r ''reason'')) (\<lambda>_.
      rbind (pos_time (jfield r ''from'')) (\<lambda>from.
      rbind (if jfield r ''until'' = JNull then Inr ()
             else rbind (pos_time (jfield r ''until'')) (\<lambda>u.
                  if u \<le> from then Inl (PosError ''POSITION_RESTRICTION_INTERVAL'') else Inr ())) (\<lambda>_.
      case map_of (ps_restrictions s) rid of
        Some old \<Rightarrow> Inr (s, (if old = v then PDuplicate else PConflict), JNull)
      | None \<Rightarrow> Inr (s\<lparr>ps_restrictions := bt_insert rid v (ps_restrictions s)\<rparr>, PApplied,
                    jobject [(''operation'', JString (str_lit ''RESTRICTION''))]))))))))))))"

definition remove_restriction :: "pos_manager \<Rightarrow> json \<Rightarrow> pos_error + pos_state \<times> pos_status \<times> json" where
  "remove_restriction m v =
     (let s = pm_state m in
      rbind (pos_row v [''instrument'', ''id'']) (\<lambda>r.
      rbind (pos_id (jfield r ''instrument'')) (\<lambda>i.
      rbind (pos_spec m i) (\<lambda>_.
      rbind (pos_id (jfield r ''id'')) (\<lambda>rid.
      rbind (ok_or (map_of (ps_restrictions s) rid) (PosError ''POSITION_RESTRICTION_MISSING'')) (\<lambda>old.
      if jindex old ''instrument'' \<noteq> JString i then Inl (PosError ''POSITION_RESTRICTION_SCOPE'')
      else Inr (s\<lparr>ps_restrictions := bt_remove rid (ps_restrictions s)\<rparr>, PApplied,
                jobject [(''operation'', JString (str_lit ''REMOVE_RESTRICTION''))])))))))"

definition administration ::
  "ledger_env \<Rightarrow> pos_manager \<Rightarrow> rstr \<Rightarrow> json \<Rightarrow> int \<Rightarrow> pos_error + pos_state \<times> pos_status \<times> json" where
  "administration env m op v t =
     (if op = str_lit ''TICK''
      then rbind (pos_row v []) (\<lambda>_. Inr (pm_state m, PApplied, jobject [(''operation'', JString op)]))
      else if op = str_lit ''RESTRICTION'' then add_restriction env m v
      else if op = str_lit ''REMOVE_RESTRICTION'' then remove_restriction m v
      else if op = str_lit ''SETTLE'' then pos_settle env m v t
      else Inl (PosError ''POSITION_OPERATION''))"

section \<open>Reservations (reservation.rs)\<close>

definition reserve :: "ledger_env \<Rightarrow> pos_manager \<Rightarrow> json \<Rightarrow> pos_error + pos_state \<times> pos_status \<times> json" where
  "reserve env m v =
     (let s = pm_state m in
      rbind (pos_row v [''instrument'', ''cluster'', ''order'', ''quantity'']) (\<lambda>r.
      rbind (pos_id (jfield r ''instrument'')) (\<lambda>i.
      rbind (cluster_id m (jfield r ''cluster'')) (\<lambda>c.
      rbind (pos_id (jfield r ''order'')) (\<lambda>order.
      rbind (rbind (pos_spec m i) (\<lambda>spec. instrument_quantity env spec (jfield r ''quantity''))) (\<lambda>quantity.
      case map_of (ps_reservations s) order of
        Some p \<Rightarrow> Inr (s, (if rv_instrument p = i \<and> rv_cluster p = c \<and> bd_eq env (rv_quantity p) quantity
                          then PDuplicate else PConflict), JNull)
      | None \<Rightarrow>
          rbind (cluster_available env s c i) (\<lambda>avail.
          if bd_less env avail quantity then Inl (PosError ''POSITION_RESERVATION_UNAVAILABLE'')
          else let x = \<lparr>rv_instrument = i, rv_cluster = c, rv_order = order, rv_quantity = quantity, rv_remaining = quantity,
                        rv_consumed = bd_zero, rv_released = bd_zero, rv_stage = str_lit ''LOCAL_ONLY'', rv_acknowledged = False,
                        rv_state = str_lit ''ACTIVE'', rv_version = 1\<rparr>
               in Inr (s\<lparr>ps_reservations := bt_insert order x (ps_reservations s)\<rparr>, PApplied, reservation_record env x))))))))"

definition stage_reservation :: "rstr \<Rightarrow> reservation \<Rightarrow> pos_error + reservation" where
  "stage_reservation next' r =
     (let late_ack = rv_stage r = str_lit ''RELEASE_PENDING'' \<and> \<not> rv_acknowledged r \<and> next' = str_lit ''BROKER_ACKNOWLEDGED'';
          allowed = late_ack
            \<or> rv_stage r = str_lit ''LOCAL_ONLY'' \<and> next' = str_lit ''SENT_TO_BROKER''
            \<or> rv_stage r = str_lit ''SENT_TO_BROKER'' \<and> next' = str_lit ''BROKER_ACKNOWLEDGED''
      in if \<not> allowed then Inl (PosError ''POSITION_STAGE_TRANSITION'')
         else let r1 = (if next' = str_lit ''BROKER_ACKNOWLEDGED'' then r\<lparr>rv_acknowledged := True\<rparr> else r)
              in Inr (if late_ack then r1 else r1\<lparr>rv_stage := next'\<rparr>))"

definition release_reservation :: "ledger_env \<Rightarrow> bool \<Rightarrow> reservation \<Rightarrow> pos_error + reservation" where
  "release_reservation env confirmed r =
     (if \<not> confirmed \<and> rv_stage r \<noteq> str_lit ''LOCAL_ONLY''
      then if rv_stage r = str_lit ''RELEASE_PENDING'' then Inl (PosError ''POSITION_RELEASE_ALREADY_PENDING'')
           else Inr (r\<lparr>rv_stage := str_lit ''RELEASE_PENDING''\<rparr>)
      else Inr (r\<lparr>rv_released := bd_add env (rv_released r) (rv_remaining r), rv_remaining := bd_zero,
                  rv_stage := str_lit ''RELEASED'', rv_state := str_lit ''RELEASED''\<rparr>))"

definition change_reservation :: "ledger_env \<Rightarrow> pos_manager \<Rightarrow> rstr \<Rightarrow> json \<Rightarrow> pos_error + pos_state \<times> pos_status \<times> json" where
  "change_reservation env m op v =
     (let s = pm_state m; stage = (op = str_lit ''STAGE'') in
      rbind (pos_row v (if stage then [''order'', ''cluster'', ''stage''] else [''order'', ''cluster'', ''broker_confirmed''])) (\<lambda>r.
      rbind (pos_id (jfield r ''order'')) (\<lambda>order.
      rbind (cluster_id m (jfield r ''cluster'')) (\<lambda>cluster.
      rbind (ok_or (map_of (ps_reservations s) order) (PosError ''POSITION_RESERVATION_REQUIRED'')) (\<lambda>x.
      if rv_cluster x \<noteq> cluster then Inl (PosError ''POSITION_RESERVATION_OWNER'')
      else if bd_is_zero (rv_remaining x) then Inl (PosError ''POSITION_RESERVATION_TERMINAL'')
      else rbind (if stage then rbind (pos_text (jfield r ''stage'')) (\<lambda>next'. stage_reservation next' x)
                  else rbind (pos_boolean (jfield r ''broker_confirmed'')) (\<lambda>confirmed. release_reservation env confirmed x)) (\<lambda>x1.
      let x2 = x1\<lparr>rv_version := rv_version x1 + 1\<rparr> in
      Inr (s\<lparr>ps_reservations := bt_insert order x2 (ps_reservations s)\<rparr>, PApplied,
           jobject [(''reservation'', reservation_record env x2)])))))))"

definition reserve_command ::
  "ledger_env \<Rightarrow> pos_manager \<Rightarrow> rstr \<Rightarrow> json \<Rightarrow> pos_error + pos_state \<times> pos_status \<times> json" where
  "reserve_command env m op v =
     (if op = str_lit ''RESERVE'' then reserve env m v else change_reservation env m op v)"

end
