(* ===== verification/Position_Commands.thy ===== *)
theory Position_Commands
  imports Position_Manager
begin

text \<open>
  The commands of the position manager as a whole: reconciliation with the broker, validation
  of the candidate, the dispatcher \<open>apply\<close>, checkpoint and restore, and mark valuation.
\<close>

section \<open>Reconciliation (reconciliation.rs)\<close>

record broker_values =
  bv_total :: bigdec
  bv_settled :: bigdec
  bv_unsettled :: bigdec
  bv_available :: bigdec
  bv_frozen :: bigdec

definition broker_amount :: "ledger_env \<Rightarrow> instrument \<Rightarrow> json \<Rightarrow> pos_error + bigdec" where
  "broker_amount env spec v =
     rbind (pos_nonnegative env v) (\<lambda>d.
     rbind (reparse env d) (\<lambda>x.
     rbind (pos_domain (quantity_new x (in_qp spec))) (\<lambda>_. Inr d)))"

definition broker_read :: "ledger_env \<Rightarrow> instrument \<Rightarrow> (rstr \<times> json) list \<Rightarrow> pos_error + broker_values" where
  "broker_read env spec r =
     rbind (broker_amount env spec (jfield r ''total'')) (\<lambda>total.
     rbind (broker_amount env spec (jfield r ''settled'')) (\<lambda>settled.
     rbind (broker_amount env spec (jfield r ''unsettled'')) (\<lambda>unsettled.
     rbind (broker_amount env spec (jfield r ''available'')) (\<lambda>available.
     rbind (broker_amount env spec (jfield r ''frozen'')) (\<lambda>frozen.
     if \<not> bd_eq env (bd_add env settled unsettled) total \<or> bd_less env total available \<or> bd_less env total frozen
        \<or> bd_less env total (bd_add env available frozen)
     then Inl (PosError ''POSITION_BROKER_BUCKETS'')
     else Inr \<lparr>bv_total = total, bv_settled = settled, bv_unsettled = unsettled, bv_available = available, bv_frozen = frozen\<rparr>)))))"

definition quantity_difference :: "ledger_env \<Rightarrow> string \<Rightarrow> bigdec \<Rightarrow> bigdec \<Rightarrow> json list" where
  "quantity_difference env k actual broker =
     (if bd_eq env actual broker then []
      else [jobject [(''field'', JString (str_lit k)),
              (''authority'', JString (str_lit (if k = ''total'' then ''BROKER'' else ''RECONCILED''))),
              (''local'', number env actual), (''broker'', number env broker),
              (''severity'', JString (str_lit ''BLOCK_INSTRUMENT''))]])"

definition plain_difference :: "string \<Rightarrow> string \<Rightarrow> string \<Rightarrow> json" where
  "plain_difference field authority severity =
     jobject [(''field'', JString (str_lit field)), (''authority'', JString (str_lit authority)),
       (''severity'', JString (str_lit severity))]"

definition broker_compare ::
  "ledger_env \<Rightarrow> pos_state \<Rightarrow> instrument \<Rightarrow> rstr \<Rightarrow> broker_values \<Rightarrow> bool \<Rightarrow> bigdec option \<Rightarrow> pos_error + bool \<times> json list" where
  "broker_compare env s spec i bv long avg =
     (let local = map_of (ps_accounts s) i;
          total = (case local of Some b \<Rightarrow> bk_qty b | None \<Rightarrow> bd_zero);
          settled = (case local of Some b \<Rightarrow> bk_settled b | None \<Rightarrow> bd_zero);
          unsettled = bd_sub env total settled;
          quantities = quantity_difference env ''total'' total (bv_total bv)
            @ quantity_difference env ''settled'' settled (bv_settled bv)
            @ quantity_difference env ''unsettled'' unsettled (bv_unsettled bv);
          side = (if bd_less env bd_zero total \<and> \<not> long
                  then [plain_difference ''position_side'' ''BROKER'' ''BLOCK_INSTRUMENT''] else []) in
      rbind (account_available env s i) (\<lambda>avail.
      let available = (if bd_eq env avail (bv_available bv) then [] else [plain_difference ''available'' ''RECONCILED'' ''WARNING'']);
          acknowledged = bd_sub env (holds env s i None False) (holds env s i None True);
          frozen = (if bd_eq env acknowledged (bv_frozen bv) then [] else [plain_difference ''frozen'' ''RECONCILED'' ''WARNING'']) in
      rbind (case (local, avg) of
               (Some b, Some average) \<Rightarrow>
                 if bd_is_zero (bk_qty b) then Inr []
                 else rbind (ratio env (bk_cost b) (bk_qty b) (int (in_pp spec))) (\<lambda>x.
                      Inr (if bd_eq env x average then [] else [plain_difference ''average'' ''LOCAL_AND_BROKER_SEPARATE'' ''INFO'']))
             | _ \<Rightarrow> Inr []) (\<lambda>averages.
      Inr (quantities @ side \<noteq> [], quantities @ side @ available @ frozen @ averages))))"

definition broker_stale :: "pos_state \<Rightarrow> rstr \<Rightarrow> nat \<Rightarrow> int \<Rightarrow> pos_error + bool" where
  "broker_stale s i seq t =
     (case map_of (ps_brokers s) i of
        None \<Rightarrow> Inr False
      | Some old \<Rightarrow>
          rbind (pos_uint (jindex (jindex old ''snapshot'') ''sequence'')) (\<lambda>n.
          if seq \<le> n then Inr True else rbind (pos_time (jindex old ''time'')) (\<lambda>u. Inr (t < u))))"

definition reconcile :: "ledger_env \<Rightarrow> pos_manager \<Rightarrow> json \<Rightarrow> int \<Rightarrow> pos_error + pos_state \<times> pos_status \<times> json" where
  "reconcile env m v t =
     (let s = pm_state m in
      rbind (pos_row v [''instrument'', ''snapshot_id'', ''sequence'', ''position_side'', ''total'', ''settled'', ''unsettled'',
                        ''available'', ''frozen'', ''average'', ''quality'']) (\<lambda>r.
      rbind (pos_id (jfield r ''instrument'')) (\<lambda>i.
      rbind (pos_spec m i) (\<lambda>spec.
      rbind (pos_id (jfield r ''snapshot_id'')) (\<lambda>sid.
      rbind (pos_uint (jfield r ''sequence'')) (\<lambda>seq.
      rbind (pos_text (jfield r ''position_side'')) (\<lambda>side.
      if side \<notin> {str_lit ''LONG'', str_lit ''SHORT'', str_lit ''FLAT''} then Inl (PosError ''POSITION_BROKER_SIDE'')
      else if jfield r ''quality'' \<noteq> JString (str_lit ''VERIFIED'') then Inl (PosError ''POSITION_BROKER_PROOF_UNAVAILABLE'')
      else rbind (broker_read env spec r) (\<lambda>bv.
      rbind (if jfield r ''average'' = JNull then Inr None
             else rbind (instrument_price env spec (jfield r ''average'')) (\<lambda>d. Inr (Some d))) (\<lambda>avg.
      if bd_less env bd_zero (bv_total bv) \<and> (avg = None \<or> side = str_lit ''FLAT'')
      then Inl (PosError ''POSITION_BROKER_INCOMPLETE'')
      else let sig = pos_hash env (JArray [v, JString (int_text t)]); receipt = str_lit ''broker:'' @ sid;
               s1 = s\<lparr>ps_receipts := bt_insert receipt sig (ps_receipts s)\<rparr> in
      case map_of (ps_receipts s) receipt of
        Some old \<Rightarrow> Inr (s, (if old = sig then PDuplicate else PConflict), JNull)
      | None \<Rightarrow>
          rbind (broker_stale s i seq t) (\<lambda>stale.
          if stale then Inr (s1, PStale, jobject [(''instrument'', JString i), (''reason'', JString (str_lit ''STALE_BROKER_OBSERVATION''))])
          else if (case map_of (ps_accounts s) i of Some b \<Rightarrow> t < bk_updated b | None \<Rightarrow> False)
          then Inr (s1, PStale, jobject [(''instrument'', JString i), (''reason'', JString (str_lit ''BROKER_PRECEDES_LOCAL_ECONOMICS''))])
          else rbind (broker_compare env s spec i bv (side = str_lit ''LONG'') avg) (\<lambda>(blocking, differences).
          rbind (ok_or (pf_json_parse (le_pf env) (str_bytes (int_text t))) PosJson) (\<lambda>time.
          let result = jobject [(''instrument'', JString i), (''snapshot'', v), (''time'', time), (''blocking'', JBool blocking),
                (''differences'', JArray differences),
                (''actions'', JArray (map (\<lambda>a. JString (str_lit a))
                   (if blocking then [''RECORD_DIFFERENCE'', ''QUERY_ORDERS_AND_TRADES'', ''BLOCK_INSTRUMENT''] else [''RECORD_COMPARISON''])))]
          in Inr (s1\<lparr>ps_brokers := bt_insert i result (ps_brokers s)\<rparr>, PApplied, result)))))))))))))"

section \<open>Validation (manager.rs)\<close>

definition book_bounded :: "book \<Rightarrow> pos_error + unit" where
  "book_bounded b =
     for_each (\<lambda>d. bounded d False) [bk_qty b, bk_settled b, bk_cost b, bk_realized b, bk_realized_exact b, bk_fees b]"

definition allocation_invalid :: "ledger_env \<Rightarrow> book \<Rightarrow> bool" where
  "allocation_invalid env b =
     (bd_less env (bk_qty b) bd_zero \<or> bd_less env (bk_settled b) bd_zero \<or> bd_less env (bk_qty b) (bk_settled b)
      \<or> bd_less env (bk_cost b) bd_zero \<or> bd_is_zero (bk_qty b) \<and> \<not> bd_is_zero (bk_cost b))"

definition sum_allocation ::
  "ledger_env \<Rightarrow> rstr \<Rightarrow> (rstr \<times> rstr) \<times> book \<Rightarrow> bigdec \<times> bigdec \<times> bigdec \<Rightarrow> pos_error + bigdec \<times> bigdec \<times> bigdec" where
  "sum_allocation env i = (\<lambda>((_, instrument), b) (quantity, settled, cost).
     if instrument \<noteq> i then Inr (quantity, settled, cost)
     else rbind (book_bounded b) (\<lambda>_.
     if allocation_invalid env b then Inl (PosError ''POSITION_ALLOCATION_INVARIANT'')
     else Inr (bd_add env quantity (bk_qty b), bd_add env settled (bk_settled b), bd_add env cost (bk_cost b))))"

definition validate_account :: "ledger_env \<Rightarrow> pos_manager \<Rightarrow> rstr \<times> book \<Rightarrow> pos_error + unit" where
  "validate_account env m = (\<lambda>(i, a).
     rbind (rfold (sum_allocation env i) (ps_allocations (pm_state m)) (bd_zero, bd_zero, bd_zero)) (\<lambda>(quantity, settled, cost).
     if \<not> bd_eq env quantity (bk_qty a) \<or> \<not> bd_eq env settled (bk_settled a) \<or> \<not> bd_eq env cost (bk_cost a)
     then Inl (PosError ''POSITION_CONSERVATION'')
     else rbind (book_bounded a) (\<lambda>_. rbind (pos_account env m i) (\<lambda>_. Inr ()))))"

definition validate_reservation :: "ledger_env \<Rightarrow> reservation \<Rightarrow> pos_error + unit" where
  "validate_reservation env r =
     (if \<not> bd_eq env (bd_add env (bd_add env (rv_remaining r) (rv_consumed r)) (rv_released r)) (rv_quantity r)
         \<or> bd_less env (rv_remaining r) bd_zero
      then Inl (PosError ''POSITION_RESERVATION_CONSERVATION'') else Inr ())"

definition validate_holds :: "ledger_env \<Rightarrow> pos_state \<Rightarrow> (rstr \<times> rstr) \<times> book \<Rightarrow> pos_error + unit" where
  "validate_holds env s = (\<lambda>((c, i), b).
     if bd_less env (bk_settled b) (holds env s i (Some c) False) then Inl (PosError ''POSITION_HOLD_EXCEEDS_SETTLED'') else Inr ())"

definition pos_validate :: "ledger_env \<Rightarrow> pos_manager \<Rightarrow> pos_error + unit" where
  "pos_validate env m =
     (let s = pm_state m in
      rbind (for_each (validate_account env m) (ps_accounts s)) (\<lambda>_.
      rbind (for_each (validate_reservation env) (bt_values (ps_reservations s))) (\<lambda>_.
      for_each (validate_holds env s) (ps_allocations s))))"

section \<open>Commands (manager.rs)\<close>

definition pos_dispatch ::
  "ledger_env \<Rightarrow> pos_manager \<Rightarrow> rstr \<Rightarrow> json \<Rightarrow> int \<Rightarrow> pos_error + pos_state \<times> pos_status \<times> json" where
  "pos_dispatch env m op v t =
     (if op = str_lit ''TRADE'' then trade env m v t
      else if op \<in> {str_lit ''RESERVE'', str_lit ''STAGE'', str_lit ''RELEASE''} then reserve_command env m op v
      else if op = str_lit ''BROKER'' then reconcile env m v t
      else if op \<in> {str_lit ''RESTRICTION'', str_lit ''REMOVE_RESTRICTION'', str_lit ''SETTLE'', str_lit ''TICK''}
      then administration env m op v t
      else Inl (PosError ''POSITION_OPERATION_INVALID''))"

definition pos_record :: "json \<Rightarrow> rstr \<Rightarrow> rstr \<Rightarrow> pos_state \<Rightarrow> pos_state" where
  "pos_record command ident signature s =
     s\<lparr>ps_sequence := ps_sequence s + 1, ps_commands := bt_insert ident signature (ps_commands s),
       ps_journal := ps_journal s @ [command]\<rparr>"

definition pos_fact :: "pos_manager \<Rightarrow> (rstr \<times> json) list \<Rightarrow> rstr \<Rightarrow> rstr \<Rightarrow> nat \<Rightarrow> pos_status \<Rightarrow> json \<Rightarrow> json" where
  "pos_fact m r ident signature sequence status details =
     jobject [(''schema_version'', jint 1), (''config'', pm_config m), (''sequence'', jint (int sequence)),
       (''command_id'', JString ident), (''cause'', jfield r ''cause''), (''input_fingerprint'', JString signature),
       (''outcome'', JString (str_lit (if status = PStale then ''STALE_OBSERVED'' else ''APPLIED''))),
       (''details'', details), (''realized_pnl'', jindex details ''realized_pnl'')]"

definition pos_begin :: "pos_state \<Rightarrow> int \<Rightarrow> pos_state" where
  "pos_begin s t = s\<lparr>ps_now := (if ps_journal s = [] then t else max (ps_now s) t)\<rparr>"

definition pos_apply :: "ledger_env \<Rightarrow> pos_manager \<Rightarrow> json \<Rightarrow> pos_error + pos_manager \<times> pos_outcome" where
  "pos_apply env m command =
     (let s = pm_state m in
      if length (json_bytes (le_pf env) command) > 16384 then Inl (PosError ''POSITION_COMMAND_BOUND'')
      else rbind (pos_row command (pos_context @ [''command_id'', ''cause'', ''time'', ''op'', ''payload''])) (\<lambda>r.
      if list_ex (\<lambda>k. jfield r k \<noteq> jindex (pm_config m) k) pos_context then Inl (PosError ''POSITION_CONTEXT_MISMATCH'')
      else rbind (pos_id (jfield r ''command_id'')) (\<lambda>ident.
      rbind (pos_fingerprint (jfield r ''cause'')) (\<lambda>_.
      rbind (pos_time (jfield r ''time'')) (\<lambda>t.
      rbind (pos_text (jfield r ''op'')) (\<lambda>op.
      let signature = pos_hash env command in
      case map_of (ps_commands s) ident of
        Some previous \<Rightarrow> Inr (m, \<lparr>po_status = (if previous = signature then PDuplicate else PConflict), po_fact = None\<rparr>)
      | None \<Rightarrow>
          if ps_journal s \<noteq> [] \<and> op \<notin> {str_lit ''TRADE'', str_lit ''BROKER''} \<and> t < ps_now s
          then Inl (PosError ''POSITION_LOCAL_TIME_REGRESSION'')
          else rbind (pos_dispatch env (m\<lparr>pm_state := pos_begin s t\<rparr>) op (jfield r ''payload'') t) (\<lambda>(s1, status, details).
          if status = PConflict then Inr (m, \<lparr>po_status = status, po_fact = None\<rparr>)
          else let s2 = pos_record command ident signature (if status = PDuplicate then s else s1);
                   m2 = m\<lparr>pm_state := s2\<rparr> in
          rbind (pos_validate env m2) (\<lambda>_.
          Inr (m2, \<lparr>po_status = status,
            po_fact = (if status = PDuplicate then None
                       else Some (pos_fact m r ident signature (ps_sequence s2) status details))\<rparr>)))))))))"

section \<open>Recovery (recovery.rs)\<close>

definition pos_checkpoint_record :: "ledger_env \<Rightarrow> pos_manager \<Rightarrow> pos_error + json" where
  "pos_checkpoint_record env m =
     rbind (pos_state_record env m) (\<lambda>st.
     Inr (jobject [(''schema_version'', jint 2), (''config'', pm_config m), (''journal'', JArray (ps_journal (pm_state m))), (''state'', st)]))"

definition pos_checkpoint :: "ledger_env \<Rightarrow> pos_manager \<Rightarrow> pos_error + nat list \<times> rstr" where
  "pos_checkpoint env m =
     rbind (pos_checkpoint_record env m) (\<lambda>rec.
     let bytes = json_bytes (le_pf env) rec in Inr (bytes, pos_digest env bytes))"

fun pos_replay :: "ledger_env \<Rightarrow> pos_manager \<Rightarrow> json list \<Rightarrow> pos_error + pos_manager" where
  "pos_replay env m [] = Inr m"
| "pos_replay env m (item # items) =
     rbind (pos_apply env m item) (\<lambda>(m1, oc).
     if po_status oc \<notin> {PApplied, PStale, PDuplicate} \<or> length (ps_journal (pm_state m1)) \<noteq> length (ps_journal (pm_state m)) + 1
     then Inl (PosError ''POSITION_CHECKPOINT_REPLAY'') else pos_replay env m1 items)"

definition pos_restore :: "ledger_env \<Rightarrow> pos_manager \<Rightarrow> nat list \<Rightarrow> rstr \<Rightarrow> pos_error + pos_manager" where
  "pos_restore env m bytes expected =
     rbind (pos_fingerprint (JString expected)) (\<lambda>_.
     if pos_digest env bytes \<noteq> expected then Inl (PosError ''POSITION_CHECKPOINT_DIGEST'')
     else rbind (ok_or (pf_json_parse (le_pf env) bytes) PosJson) (\<lambda>value.
     rbind (checkpoint_row value [''config'', ''journal'', ''state'']) (\<lambda>r.
     if json_bytes (le_pf env) value \<noteq> bytes \<or> jfield r ''config'' \<noteq> pm_config m
     then Inl (PosError ''POSITION_CHECKPOINT_CANONICAL_OR_CONTEXT'')
     else rbind (ok_or (as_array (jfield r ''journal'')) (PosError ''POSITION_CHECKPOINT_JOURNAL'')) (\<lambda>journal.
     rbind (pos_new env (pm_config m)) (\<lambda>fresh.
     rbind (pos_replay env fresh journal) (\<lambda>candidate.
     rbind (pos_state_record env candidate) (\<lambda>st.
     if st \<noteq> jfield r ''state'' then Inl (PosError ''POSITION_CHECKPOINT_STATE'') else Inr candidate)))))))"

definition admit_new_risk :: "ledger_env \<Rightarrow> pos_manager \<Rightarrow> pos_error + unit" where
  "admit_new_risk env m =
     (let s = pm_state m; full = Inl (PosError ''POSITION_CAPACITY'') in
      if length (ps_journal s) \<ge> pos_max_journal \<or> length (json_bytes (le_pf env) (JArray (ps_journal s))) > pos_max_journal_bytes
         \<or> length (ps_allocations s) + length (ps_history s) > 256 \<or> length (ps_reservations s) > 512
      then full
      else rbind (pos_state_record env m) (\<lambda>st.
      if length (json_bytes (le_pf env) st) > 8 * 1024 * 1024 then full
      else rbind (pos_checkpoint env m) (\<lambda>(bytes, _). if length bytes > pos_max_checkpoint then full else Inr ())))"

section \<open>Valuation (valuation.rs)\<close>

record valuation_effect =
  ve_input :: json
  ve_result :: json

definition read_mark ::
  "ledger_env \<Rightarrow> pos_manager \<Rightarrow> int \<Rightarrow> json \<Rightarrow> (rstr, json) btree \<Rightarrow> pos_error + (rstr, json) btree" where
  "read_mark env m t mark marks =
     rbind (pos_row mark [''instrument'', ''mark'', ''source_ref'', ''family'', ''version'', ''time'', ''as_of_sequence'']) (\<lambda>_.
     rbind (pos_id (jindex mark ''instrument'')) (\<lambda>i.
     rbind (pos_spec m i) (\<lambda>spec.
     rbind (instrument_price env spec (jindex mark ''mark'')) (\<lambda>_.
     rbind (pos_id (jindex mark ''source_ref'')) (\<lambda>_.
     rbind (if jindex mark ''family'' \<noteq> JString (str_lit ''CLOSED_BAR'') then Inr True
            else rbind (pos_uint (jindex mark ''version'')) (\<lambda>version.
                 if version = 0 then Inr True
                 else rbind (pos_uint (jindex mark ''as_of_sequence'')) (\<lambda>seq.
                 if seq = 0 then Inr True
                 else rbind (pos_time (jindex mark ''time'')) (\<lambda>u. Inr (u > t))))) (\<lambda>unproved.
     if unproved then Inl (PosError ''POSITION_VALUATION_MARK_PROOF'')
     else if bt_contains marks i then Inl (PosError ''POSITION_VALUATION_DUPLICATE_MARK'')
     else Inr (bt_insert i mark marks)))))))"

definition value_book ::
  "ledger_env \<Rightarrow> pos_manager \<Rightarrow> (rstr, json) btree \<Rightarrow> rstr \<times> book \<Rightarrow> bigdec \<times> bigdec \<Rightarrow> pos_error + bigdec \<times> bigdec" where
  "value_book env m marks = (\<lambda>(i, b) (market, cost).
     rbind (ok_or (map_of marks i) PosPanic) (\<lambda>mark.
     rbind (pos_time (jindex mark ''time'')) (\<lambda>u.
     if u < bk_updated b then Inl (PosError ''POSITION_VALUATION_STALE_MARK'')
     else rbind (ok_or (map_of (pm_instruments m) i) PosPanic) (\<lambda>spec.
     rbind (pos_decimal env (jindex mark ''mark'')) (\<lambda>price.
     Inr (bd_add env market (lib_with_scale_round (le_lib env) (bd_mul env (bd_mul env (bk_qty b) price) (in_multiplier spec))
                               (int (cu_precision (pm_currency m))) HalfEven),
          bd_add env cost (bd_mul env (bk_cost b) (in_multiplier spec))))))))"

fun replay_trades :: "ledger_env \<Rightarrow> pos_manager \<Rightarrow> json list \<Rightarrow> (rstr, json) btree \<Rightarrow> pos_error + (rstr, json) btree" where
  "replay_trades env m [] trades = Inr trades"
| "replay_trades env m (command # rest) trades =
     rbind (pos_apply env m command) (\<lambda>(m1, oc).
     rbind (if jindex command ''op'' = JString (str_lit ''TRADE'') \<and> po_status oc = PApplied
            then let p = jindex command ''payload'' in
                 rbind (ok_or (po_fact oc) (PosError ''POSITION_VALUATION_TRADE_FACT'')) (\<lambda>fact.
                 rbind (pos_id (jindex p ''trade'')) (\<lambda>ident.
                 Inr (bt_insert ident (jobject
                   [(''position_evidence'', JString (pos_hash env (jindex (jindex fact ''details'') ''account''))),
                    (''cause'', jindex command ''cause''), (''time'', jindex command ''time''), (''order'', jindex p ''order''),
                    (''execution'', jindex p ''execution''), (''venue_trade'', jindex p ''venue_trade''),
                    (''sequence'', jindex p ''sequence'')]) trades)))
            else Inr trades) (\<lambda>trades1.
     replay_trades env m1 rest trades1))"

definition pos_value :: "ledger_env \<Rightarrow> pos_manager \<Rightarrow> json \<Rightarrow> pos_error + valuation_effect" where
  "pos_value env m intent =
     (let s = pm_state m in
      rbind (pos_row intent [''valuation'', ''version'', ''economic_version'', ''position_evidence'', ''time'', ''marks'']) (\<lambda>_.
      rbind (pos_id (jindex intent ''valuation'')) (\<lambda>_.
      rbind (pos_uint (jindex intent ''economic_version'')) (\<lambda>_.
      rbind (pos_uint (jindex intent ''version'')) (\<lambda>version.
      if version = 0 then Inl (PosError ''POSITION_VALUATION_VERSION'')
      else rbind (pos_time (jindex intent ''time'')) (\<lambda>t.
      rbind (pos_checkpoint env m) (\<lambda>(bytes, evidence).
      if jindex intent ''position_evidence'' \<noteq> JString evidence then Inl (PosError ''POSITION_VALUATION_SOURCE'')
      else if ps_journal s \<noteq> [] \<and> t < ps_now s then Inl (PosError ''POSITION_VALUATION_TIME'')
      else rbind (ok_or (case as_array (jindex intent ''marks'') of Some a \<Rightarrow> if length a \<le> 32 then Some a else None | None \<Rightarrow> None)
                    (PosError ''POSITION_VALUATION_MARKS'')) (\<lambda>rows.
      rbind (rfold (read_mark env m t) rows []) (\<lambda>marks.
      if length marks \<noteq> length (ps_accounts s) \<or> list_ex (\<lambda>i. \<not> bt_contains marks i) (bt_keys (ps_accounts s))
      then Inl (PosError ''POSITION_VALUATION_INCOMPLETE'')
      else rbind (rfold (value_book env m marks) (ps_accounts s) (bd_zero, bd_zero)) (\<lambda>(market, cost).
      rbind (pos_new env (pm_config m)) (\<lambda>fresh.
      rbind (replay_trades env fresh (ps_journal s) []) (\<lambda>trades.
      rbind (ok_or (pf_json_parse (le_pf env) bytes) PosJson) (\<lambda>position.
      Inr \<lparr>ve_input = jobject [(''schema_version'', jint 1), (''position'', position), (''intent'', intent)],
           ve_result = jobject [(''schema_version'', jint 1), (''scope'', pm_config m),
             (''configuration'', JString (pos_hash env (pm_config m))), (''trades'', JObject trades), (''intent'', intent),
             (''market_value'', rounded env market (cu_precision (pm_currency m))),
             (''unrealized_pnl'', JString (le_plain env (lib_normalized (le_lib env) (bd_sub env market cost))))]\<rparr>)))))))))))))"

definition rederive :: "ledger_env \<Rightarrow> json \<Rightarrow> pos_error + valuation_effect" where
  "rederive env proof' =
     rbind (pos_row proof' [''position'', ''intent'']) (\<lambda>_.
     let cp = jindex proof' ''position'' in
     rbind (pos_new env (jindex cp ''config'')) (\<lambda>owner.
     let bytes = json_bytes (le_pf env) cp in
     rbind (pos_restore env owner bytes (pos_digest env bytes)) (\<lambda>owner1.
     pos_value env owner1 (jindex proof' ''intent''))))"

end
