(* ===== verification/Position_Arithmetic.thy ===== *)
theory Position_Arithmetic
  imports Position_Model
begin

text \<open>
  What the bounded arithmetic of the position ledger computes: \<open>ratio\<close> is the exact quotient
  rounded once to the nearest multiple of the unit, and the cost released by a partial close is
  the pro-rata share to at least 36 significant digits, never more than the cost of the book.
\<close>

lemma bounded_error: "bounded d b = Inl e \<Longrightarrow> e = PosError ''POSITION_ARITHMETIC_BOUND''"
  by (auto simp: bounded_def Let_def split: if_splits)

lemma round_half_even_near: "\<bar>of_int (round_spec HalfEven y) - y\<bar> \<le> 1 / 2"
proof -
  have pos: "\<bar>of_int (round_spec HalfEven z) - z\<bar> \<le> 1 / 2" if "0 \<le> z" for z
  proof -
    define r where "r = z - of_int \<lfloor>z\<rfloor>"
    have r: "0 \<le> r" "r < 1" unfolding r_def by linarith+
    have c: "r \<noteq> 0 \<Longrightarrow> \<lceil>z\<rceil> = \<lfloor>z\<rfloor> + 1" unfolding r_def by (simp add: ceiling_altdef)
    have spec: "round_spec HalfEven z = (if r > 1 / 2 \<or> r = 1 / 2 \<and> odd \<lfloor>z\<rfloor> then \<lceil>z\<rceil> else \<lfloor>z\<rfloor>)"
      using that r by (simp add: round_spec_def truncate_rat_def away_rat_def Let_def r_def)
    show ?thesis
    proof (cases "r > 1 / 2 \<or> r = 1 / 2 \<and> odd \<lfloor>z\<rfloor>")
      case True
      then have "of_int (round_spec HalfEven z) - z = 1 - r" using c by (auto simp: spec r_def)
      then show ?thesis using True r by auto
    next
      case False
      then have "of_int (round_spec HalfEven z) - z = - r" by (auto simp: spec r_def)
      moreover have "r \<le> 1 / 2" using False by auto
      ultimately show ?thesis using r by simp
    qed
  qed
  show ?thesis
  proof (cases "0 \<le> y")
    case False
    have "round_spec HalfEven (- y) = - round_spec HalfEven y"
      using abs_minus_commute [of y "of_int (truncate_rat y)"]
      by (simp add: round_spec_def Let_def neg_parts)
    with pos [of "- y"] False show ?thesis by (simp add: abs_minus_commute)
  qed (rule pos)
qed

lemma round_half_even_between:
  "of_int a \<le> y \<Longrightarrow> y \<le> of_int b \<Longrightarrow> a \<le> round_spec HalfEven y \<and> round_spec HalfEven y \<le> b"
  using near_int_bounds [OF round_half_even_near] .

lemma int_text_digits: "0 \<le> c \<Longrightarrow> int (length (int_text c)) = digit_count c"
  by (simp add: int_text_def digit_count_def)

context ledger
begin

lemma ratio_result:
  assumes "ratio env n d s = Inr q"
  shows "0 \<le> bd_value n" "0 < bd_value d" "bd_scale q = s"
    "bd_coef q = round_spec HalfEven (bd_value n / bd_value d * 10 powi s)"
proof -
  define shift where "shift = s + bd_scale d - bd_scale n"
  define a where "a = (if shift \<ge> 0 then bd_coef n * 10 ^ nat shift else bd_coef n)"
  define b where "b = (if shift \<ge> 0 then bd_coef d else bd_coef d * 10 ^ nat (- shift))"
  have q: "q = \<lparr>bd_coef = (if a mod b * 2 > b \<or> a mod b * 2 = b \<and> a div b mod 2 \<noteq> 0 then a div b + 1 else a div b), bd_scale = s\<rparr>"
    and v: "0 \<le> bd_value n" "0 < bd_value d"
    using assms unfolding ratio_def Let_def shift_def [symmetric] a_def [symmetric] b_def [symmetric]
    by (auto simp: result_simps value_simps split: if_splits)
  show "0 \<le> bd_value n" "0 < bd_value d" "bd_scale q = s" using v q by simp_all
  have nz: "bd_coef n \<ge> 0" "bd_coef d > 0"
    using v by (simp_all add: value_sign)
  then have ab: "0 \<le> a" "0 < b" by (simp_all add: a_def b_def)
  have "bd_coef q = rounded_integer a b HalfEven"
    using ab unfolding q by (auto simp: rounded_integer_def Let_def odd_iff_mod_2_eq_one)
  also have "\<dots> = round_spec HalfEven (of_int a / of_int b)" by (rule rounded_integer_spec [OF ab(2)])
  also have "(of_int a :: rat) / of_int b = of_int (bd_coef n) / of_int (bd_coef d) * 10 powi shift"
    using pow10_neg [of "- shift"] by (auto simp: a_def b_def pow10_nat)
  also have "\<dots> = bd_value n / bd_value d * 10 powi s"
    using nz by (simp add: ratio_value shift_def pow10_add [symmetric] algebra_simps)
  finally show "bd_coef q = round_spec HalfEven (bd_value n / bd_value d * 10 powi s)" .
qed

lemma positive_coef: "0 < bd_value d \<Longrightarrow> 0 < bd_coef d"
  by (simp add: value_sign)

text \<open>The exponent the release computes is that of the leading digit of the quotient.\<close>

lemma leading_exponent:
  assumes "0 < bd_value n" "0 < bd_value q"
    "e0 = int (length (int_text (bd_coef n))) - bd_scale n - int (length (int_text (bd_coef q))) + bd_scale q"
    "e = (if bd_less env n (bd_mul env q \<lparr>bd_coef = 1, bd_scale = - e0\<rparr>) then e0 - 1 else e0)"
  shows "10 powi e \<le> bd_value n / bd_value q" "bd_value n / bd_value q < 10 powi (e + 1)"
proof -
  have c: "0 < bd_coef n" "0 < bd_coef q" using assms(1,2) by (simp_all add: positive_coef)
  define m where "m = digit_count (bd_coef n) - digit_count (bd_coef q)"
  define y where "y = bd_value n / bd_value q"
  have e0: "e0 = m + (bd_scale q - bd_scale n)" using assms(3) c by (simp add: int_text_digits m_def)
  have y: "y = of_int (bd_coef n) / of_int (bd_coef q) * 10 powi (bd_scale q - bd_scale n)"
    using c by (simp add: y_def ratio_value)
  have "10 powi (m - 1) * 10 powi (bd_scale q - bd_scale n) \<le> y" "y < 10 powi (m + 1) * 10 powi (bd_scale q - bd_scale n)"
    unfolding y m_def using quotient_digits [OF c] by (intro mult_right_mono mult_strict_right_mono; simp)+
  then have lo: "10 powi (e0 - 1) \<le> y" and hi: "y < 10 powi (e0 + 1)" by (simp_all add: e0 pow10_add [symmetric] algebra_simps)
  have "bd_less env n (bd_mul env q \<lparr>bd_coef = 1, bd_scale = - e0\<rparr>) \<longleftrightarrow> y < 10 powi e0"
    using assms(2) by (simp add: value_simps y_def pos_divide_less_eq mult.commute) (simp add: bd_value_def)
  with assms(4) lo hi show "10 powi e \<le> bd_value n / bd_value q" "bd_value n / bd_value q < 10 powi (e + 1)"
    by (auto simp: y_def)
qed

lemma release_cost_whole: "bd_value filled = bd_value qty \<Longrightarrow> release_cost env cost qty filled qp = Inr cost"
  by (simp add: release_cost_def value_simps)

lemma release_cost_part:
  assumes "release_cost env cost qty filled qp = Inr r" "0 < bd_value filled" "bd_value filled < bd_value qty" "0 \<le> bd_value cost"
  defines "x \<equiv> bd_value cost * bd_value filled / bd_value qty"
  shows "0 \<le> bd_value r" "bd_value r \<le> bd_value cost" "\<bar>bd_value r - x\<bar> \<le> x / 2 * 10 powi (- 35)"
proof -
  define n where "n = bd_mul env cost filled"
  define e0 where "e0 = int (length (int_text (bd_coef n))) - bd_scale n - int (length (int_text (bd_coef qty))) + bd_scale qty"
  define e where "e = (if bd_less env n (bd_mul env qty \<lparr>bd_coef = 1, bd_scale = - e0\<rparr>) then e0 - 1 else e0)"
  define digits where "digits = int (length (int_text (bd_coef cost)))"
  define s where "s = max (max 36 (digits + 12)) (2 * int qp + 18) - 1 - e"
  have qty: "0 < bd_value qty" using assms(2,3) by simp
  have r: "ratio env n qty s = Inr r"
    using assms(1,3) unfolding release_cost_def Let_def n_def [symmetric] e0_def [symmetric] e_def [symmetric]
      digits_def [symmetric] s_def [symmetric] by (simp add: value_simps)
  have n: "bd_value n = bd_value cost * bd_value filled" by (simp add: n_def value_simps)
  have x: "bd_value n / bd_value qty = x" by (simp add: n x_def)
  define y where "y = x * 10 powi s"
  have rv: "bd_value r = of_int (round_spec HalfEven y) * 10 powi (- s)"
    using ratio_result(3,4) [OF r] unfolding x y_def by (simp add: bd_value_def [of r])
  have x0: "0 \<le> x" using assms(2,4) qty by (simp add: x_def)
  have y0: "0 \<le> y" using x0 by (simp add: y_def)
  show r0: "0 \<le> bd_value r" unfolding rv using round_half_even_between [of 0 y "\<lceil>y\<rceil>"] y0 by simp
  have unscale: "y * 10 powi (- s) = x" by (simp add: y_def pow10_neg)
  have near: "\<bar>bd_value r - x\<bar> \<le> 10 powi (- s) / 2"
  proof -
    have "bd_value r - x = (of_int (round_spec HalfEven y) - y) * 10 powi (- s)" by (simp add: rv unscale [symmetric] left_diff_distrib)
    then have "\<bar>bd_value r - x\<bar> = \<bar>of_int (round_spec HalfEven y) - y\<bar> * 10 powi (- s)" by (simp add: abs_mult)
    also have "\<dots> \<le> 1 / 2 * 10 powi (- s)" by (intro mult_right_mono round_half_even_near) simp
    finally show ?thesis by simp
  qed
  have "bd_value r \<le> bd_value cost \<and> \<bar>bd_value r - x\<bar> \<le> x / 2 * 10 powi (- 35)"
  proof (cases "bd_value cost = 0")
    case True
    then have "x = 0" "y = 0" by (simp_all add: x_def y_def)
    then show ?thesis using True assms(4) by (simp add: rv round_spec_def truncate_rat_def)
  next
    case False
    with assms(4) have cost: "0 < bd_value cost" by (simp only: less_le) simp
    have "0 < bd_value n" using cost assms(2) by (simp add: n)
    note lead = leading_exponent [OF this qty e0_def e_def, unfolded x]
    have "x < bd_value cost" using cost assms(3) qty by (simp add: x_def pos_divide_less_eq)
    moreover have "bd_value cost < 10 powi digits * 10 powi (- bd_scale cost)"
      unfolding bd_value_def [of cost] digits_def
      using digit_count_bounds [OF positive_coef [OF cost]] int_text_digits [of "bd_coef cost"] positive_coef [OF cost]
      by (intro mult_strict_right_mono) simp_all
    then have "bd_value cost < 10 powi (digits - bd_scale cost)" by (simp add: pow10_add [symmetric])
    ultimately have "(10 :: rat) powi e < 10 powi (digits - bd_scale cost)" using lead(1) by linarith
    then have "e < digits - bd_scale cost"
      using power_int_increasing [of "digits - bd_scale cost" e "10 :: rat"] by (auto simp: not_le [symmetric])
    then have "bd_scale cost \<le> s" by (simp add: s_def)
    then obtain k where k: "bd_value cost * 10 powi s = of_int k" using bd_value_scale_up by blast
    have "y \<le> of_int k" using \<open>x < bd_value cost\<close> by (simp add: y_def k [symmetric])
    then have "round_spec HalfEven y \<le> k" using round_half_even_between [of 0 y k] y0 by simp
    then have "bd_value r \<le> of_int k * 10 powi (- s)" unfolding rv by (intro mult_right_mono) simp_all
    also have "\<dots> = bd_value cost" by (simp add: k [symmetric] pow10_neg)
    finally have "bd_value r \<le> bd_value cost" .
    moreover have "(10 :: rat) powi (- s) \<le> 10 powi e * 10 powi (- 35)"
      unfolding pow10_add [symmetric] by (rule power_int_increasing) (simp_all add: s_def)
    then have "(10 :: rat) powi (- s) \<le> x * 10 powi (- 35)" using lead(1) by (meson mult_right_mono order_trans pow10_pos less_imp_le)
    ultimately show ?thesis using near by simp
  qed
  then show "bd_value r \<le> bd_value cost" "\<bar>bd_value r - x\<bar> \<le> x / 2 * 10 powi (- 35)" by simp_all
qed

end

end
