(* ===== verification/Position_Steps.thy ===== *)
theory Position_Steps
  imports Position_Commands Position_Arithmetic
begin

text \<open>
  The commands of the position manager as a step relation on its books and reservations: a
  command is quiet, buys, sells, settles, reserves or changes a reservation. The premises of a
  rule are the guards and the equations of the code; later proofs go by cases on these rules.
\<close>

lemma row_object: "row_version v names n = Inr r \<Longrightarrow> v = JObject r"
  by (auto simp: row_version_def as_object_def rbind_eq_Inr ok_or_eq split: json.splits if_splits)

lemma row_index: "pos_row v names = Inr r \<Longrightarrow> jindex v k = jfield r k"
  using row_object by (fastforce simp: pos_row_def jindex_def)

definition same_books :: "pos_state \<Rightarrow> pos_state \<Rightarrow> bool" where
  "same_books s s' \<longleftrightarrow> ps_accounts s' = ps_accounts s \<and> ps_allocations s' = ps_allocations s
     \<and> ps_reservations s' = ps_reservations s"

inductive pos_trade :: "ledger_env \<Rightarrow> pos_manager \<Rightarrow> pos_state \<Rightarrow> pos_state \<Rightarrow> bool"
  for env :: ledger_env and m :: pos_manager and s :: pos_state and s' :: pos_state where
  bought:
    "\<lbrakk>map_of (pm_instruments m) i = Some spec; c = [] \<or> c \<in> set (pm_clusters m); 0 < bd_value p; 0 < bd_value q; 0 \<le> bd_value fee;
      buy_book env spec t p q st ow1 (map_of (ps_accounts s) i) h0 = Inr (a, h1);
      buy_book env spec t p q st ow2 (map_of (ps_allocations s) (c, i)) h1 = Inr (b, h2);
      ps_accounts s' = bt_insert i (touch_book env fee t a) (ps_accounts s);
      ps_allocations s' = bt_insert (c, i) (touch_book env fee t b) (ps_allocations s);
      ps_reservations s' = ps_reservations s\<rbrakk> \<Longrightarrow> pos_trade env m s s'"
| sold:
    "\<lbrakk>map_of (pm_instruments m) i = Some spec; c \<in> set (pm_clusters m); c \<noteq> []; 0 < bd_value p; 0 < bd_value q; 0 \<le> bd_value fee;
      map_of (ps_allocations s) (c, i) = Some b; map_of (ps_accounts s) i = Some a; map_of (ps_reservations s) order = Some r;
      rv_cluster r = c; rv_instrument r = i; \<not> bd_less env (rv_remaining r) q; \<not> bd_less env (bk_settled b) q;
      \<not> bd_less env (bk_settled a) q;
      release_cost env (bk_cost b) (bk_qty b) q (in_qp spec) = Inr released;
      exact = bd_mul env (bd_sub env (bd_mul env p q) released) (in_multiplier spec);
      realized = bd_sub env (lib_with_scale_round (le_lib env) (bd_add env (bk_realized_exact b) exact)
                               (int (cu_precision (pm_currency m))) HalfEven) (bk_realized b);
      sell_book env t exact q released realized b = Inr b1; sell_book env t exact q released realized a = Inr a1;
      consume_reservation env q terminal r = Inr r1;
      ps_accounts s' = bt_insert i (touch_book env fee t a1) (ps_accounts s);
      ps_allocations s' = bt_insert (c, i) (touch_book env fee t b1) (ps_allocations s);
      ps_reservations s' = bt_insert order r1 (ps_reservations s)\<rbrakk> \<Longrightarrow> pos_trade env m s s'"

inductive pos_hold :: "ledger_env \<Rightarrow> pos_manager \<Rightarrow> pos_state \<Rightarrow> pos_state \<Rightarrow> bool"
  for env :: ledger_env and m :: pos_manager and s :: pos_state and s' :: pos_state where
  reserved:
    "\<lbrakk>c \<in> set (pm_clusters m); pos_id (JString order) = Inr order; 0 < bd_value q; map_of (ps_reservations s) order = None; cluster_available env s c i = Inr avail;
      \<not> bd_less env avail q;
      ps_reservations s' = bt_insert order \<lparr>rv_instrument = i, rv_cluster = c, rv_order = order, rv_quantity = q, rv_remaining = q,
                        rv_consumed = bd_zero, rv_released = bd_zero, rv_stage = str_lit ''LOCAL_ONLY'', rv_acknowledged = False,
                        rv_state = str_lit ''ACTIVE'', rv_version = 1\<rparr> (ps_reservations s);
      ps_accounts s' = ps_accounts s; ps_allocations s' = ps_allocations s\<rbrakk> \<Longrightarrow> pos_hold env m s s'"
| changed:
    "\<lbrakk>map_of (ps_reservations s) order = Some r; \<not> bd_is_zero (rv_remaining r);
      stage_reservation nxt r = Inr r1 \<or> release_reservation env confirmed r = Inr r1;
      ps_reservations s' = bt_insert order (r1\<lparr>rv_version := rv_version r1 + 1\<rparr>) (ps_reservations s);
      ps_accounts s' = ps_accounts s; ps_allocations s' = ps_allocations s\<rbrakk> \<Longrightarrow> pos_hold env m s s'"

inductive pos_change :: "ledger_env \<Rightarrow> pos_manager \<Rightarrow> pos_state \<Rightarrow> pos_state \<Rightarrow> bool"
  for env :: ledger_env and m :: pos_manager and s :: pos_state and s' :: pos_state where
  quiet: "same_books s s' \<Longrightarrow> pos_change env m s s'"
| traded: "pos_trade env m s s' \<Longrightarrow> pos_change env m s s'"
| held: "pos_hold env m s s' \<Longrightarrow> pos_change env m s s'"
| settled:
    "\<lbrakk>map_of (pm_instruments m) i = Some spec;
      rfold (settle_bucket env m i t) buckets ([], bd_zero, ps_allocations s) = Inr (seen, tot, allocations);
      map_of (ps_accounts s) i = Some a; ps_allocations s' = allocations;
      ps_accounts s' = bt_insert i (a\<lparr>bk_settled := bd_add env (bk_settled a) tot, bk_updated := t,
                                       bk_version := bk_version a + 1\<rparr>) (ps_accounts s);
      ps_reservations s' = ps_reservations s\<rbrakk> \<Longrightarrow> pos_change env m s s'"

lemma pos_id_named: "pos_id v = Inr x \<Longrightarrow> v = JString x \<and> pos_id (JString x) = Inr x"
  by (auto simp: pos_id_def pos_text_def as_str_def rbind_eq_Inr guard_eq ok_or_eq split: json.splits if_splits)

lemma pos_id_self: "pos_id v = Inr x \<Longrightarrow> pos_id (JString x) = Inr x"
  using pos_id_named by blast

context ledger
begin

lemma positive_value: "pos_positive env v = Inr d \<Longrightarrow> 0 < bd_value d"
  by (auto simp: pos_positive_def result_simps value_simps split: if_splits)

lemma nonnegative_value: "pos_nonnegative env v = Inr d \<Longrightarrow> 0 \<le> bd_value d"
  by (auto simp: pos_nonnegative_def result_simps value_simps split: if_splits)

lemma price_value: "instrument_price env spec v = Inr d \<Longrightarrow> 0 < bd_value d"
  by (auto simp: instrument_price_def result_simps positive_value)

lemma quantity_value: "instrument_quantity env spec v = Inr d \<Longrightarrow> 0 < bd_value d"
  by (auto simp: instrument_quantity_def result_simps positive_value)

lemma cluster_id_member: "cluster_id m v = Inr c \<Longrightarrow> c \<in> set (pm_clusters m)"
  by (auto simp: cluster_id_def result_simps split: if_splits)

lemma spec_member: "pos_spec m i = Inr spec \<Longrightarrow> map_of (pm_instruments m) i = Some spec"
  by (simp add: pos_spec_def result_simps)

lemma trade_read_ok:
  assumes "trade_read env m v = Inr ti"
  shows "map_of (pm_instruments m) (ti_instrument ti) = Some (ti_spec ti)"
    "ti_cluster ti = [] \<or> ti_cluster ti \<in> set (pm_clusters m)"
    "0 < bd_value (ti_price ti)" "0 < bd_value (ti_quantity ti)" "0 \<le> bd_value (ti_fee ti)"
proof -
  have p: "trade_price env spec version r = Inr p \<Longrightarrow> 0 < bd_value p" for spec version r p
    by (auto simp: trade_price_def result_simps positive_value price_value split: if_splits)
  have "trade_read env m v = Inr ti \<Longrightarrow>
    map_of (pm_instruments m) (ti_instrument ti) = Some (ti_spec ti) \<and> (ti_cluster ti = [] \<or> ti_cluster ti \<in> set (pm_clusters m))
    \<and> 0 < bd_value (ti_price ti) \<and> 0 < bd_value (ti_quantity ti) \<and> 0 \<le> bd_value (ti_fee ti)"
    unfolding trade_read_def
    by (elim rbindE guardE, drule Inr_inject, hypsubst, simp only: trade_input.simps)
       (auto dest: p quantity_value nonnegative_value spec_member cluster_id_member split: if_splits)
  with assms show "map_of (pm_instruments m) (ti_instrument ti) = Some (ti_spec ti)"
    "ti_cluster ti = [] \<or> ti_cluster ti \<in> set (pm_clusters m)"
    "0 < bd_value (ti_price ti)" "0 < bd_value (ti_quantity ti)" "0 \<le> bd_value (ti_fee ti)" by simp_all
qed

lemma trade_change:
  assumes "trade env m v t = Inr (s', status, details)"
  shows "pos_change env m (pm_state m) s'"
proof -
  obtain ti where ti: "trade_read env m v = Inr ti" using assms by (auto simp: trade_def rbind_eq_Inr)
  note ok = trade_read_ok [OF ti]
  let ?sig = "pos_hash env (JArray [v, JString (int_text t)])"
  consider (quiet) "same_books (pm_state m) s'"
    | (buy) s1 a b where "trade_buy env m ti t = Inr (s1, a, b)" "s' = trade_commit env ti t ?sig a b s1"
    | (sell) s1 a b rel rlz where "trade_sell env m ti t = Inr (s1, a, b, rel, rlz)" "s' = trade_commit env ti t ?sig a b s1"
    using assms unfolding trade_def ti rbind_simps Let_def
    by (auto simp: rbind_eq_Inr same_books_def split: option.splits if_splits prod.splits)
  then show ?thesis
  proof cases
    case buy
    then show ?thesis using ok
      by (auto simp: trade_buy_def rbind_eq_Inr Let_def trade_commit_def intro!: traded bought [of m "ti_instrument ti" "ti_spec ti" "ti_cluster ti" "ti_price ti" "ti_quantity ti" "ti_fee ti"] split: prod.splits)
  next
    case sell
    then show ?thesis using ok
      by (auto simp: trade_sell_def rbind_eq_Inr Let_def trade_commit_def result_simps split: if_splits
          intro!: traded sold [of m "ti_instrument ti" "ti_spec ti" "ti_cluster ti" "ti_price ti" "ti_quantity ti" "ti_fee ti"])
  qed (rule pos_change.quiet)
qed

lemma settle_change: "yields (pos_settle env m v t) (\<lambda>(s', _, _). pos_change env m (pm_state m) s')"
  unfolding pos_settle_def Let_def
  by (intro yields_rules; simp add: ok_or_eq)
     (auto intro: quiet settled dest: spec_member simp: same_books_def)

lemma administration_change: "yields (administration env m op v t) (\<lambda>(s', _, _). pos_change env m (pm_state m) s')"
proof -
  have "yields (add_restriction env m v) (\<lambda>(s', _, _). same_books (pm_state m) s')"
    unfolding add_restriction_def Let_def by (intro yields_rules) (simp_all add: same_books_def)
  moreover have "yields (remove_restriction m v) (\<lambda>(s', _, _). same_books (pm_state m) s')"
    unfolding remove_restriction_def Let_def by (intro yields_rules) (simp_all add: same_books_def)
  moreover have "same_books (pm_state m) (pm_state m)" by (simp add: same_books_def)
  ultimately show ?thesis
    unfolding administration_def using settle_change [of m v t]
    by (intro yields_if yields_rbind) (auto simp: yields_def intro: quiet)
qed

lemma reserve_command_change: "yields (reserve_command env m op v) (\<lambda>(s', _, _). pos_change env m (pm_state m) s')"
proof -
  have "yields (reserve env m v) (\<lambda>(s', _, _). pos_change env m (pm_state m) s')"
    unfolding reserve_def Let_def
    by (intro yields_rules; simp add: rbind_eq_Inr; (rule quiet, simp add: same_books_def; fail)?)
       (elim exE conjE, rule held, rule reserved, erule cluster_id_member, erule pos_id_self, erule quantity_value, auto)
  moreover have "yields (change_reservation env m op v) (\<lambda>(s', _, _). pos_change env m (pm_state m) s')"
    unfolding change_reservation_def Let_def
    by (intro yields_rules; simp add: rbind_eq_Inr ok_or_eq split: if_splits)
       (auto intro: held [OF changed])
  ultimately show ?thesis by (simp add: reserve_command_def)
qed

lemma reconcile_quiet: "yields (reconcile env m v t) (\<lambda>(s', _, _). same_books (pm_state m) s')"
  unfolding reconcile_def Let_def by (intro yields_rules) (simp_all add: same_books_def)

lemma dispatch_change:
  assumes "pos_dispatch env m op v t = Inr (s', status, details)"
  shows "pos_change env m (pm_state m) s'"
proof -
  have "yields (reconcile env m v t) (\<lambda>(s', _, _). pos_change env m (pm_state m) s')"
    using reconcile_quiet [of m v t] by (auto simp: yields_def intro: quiet)
  moreover have "yields (trade env m v t) (\<lambda>(s', _, _). pos_change env m (pm_state m) s')"
    by (auto simp: yields_def intro: trade_change)
  ultimately have "yields (pos_dispatch env m op v t) (\<lambda>(s', _, _). pos_change env m (pm_state m) s')"
    unfolding pos_dispatch_def
    using administration_change [of m op v t] reserve_command_change [of m op v] by (intro yields_if yields_Inl)
  then show ?thesis using assms by (auto simp: yields_def)
qed

end

section \<open>The command as a whole\<close>

text \<open>
  A command leaves the manager as it is, or it appends itself to the journal after a change of
  the books of the state at the new time, and the result is valid.
\<close>

definition pos_header :: "ledger_env \<Rightarrow> pos_manager \<Rightarrow> json \<Rightarrow> rstr \<Rightarrow> int \<Rightarrow> rstr \<Rightarrow> json \<Rightarrow> bool" where
  "pos_header env m v ident t op payload \<longleftrightarrow> length (json_bytes (le_pf env) v) \<le> 16384
     \<and> (\<exists>r. pos_row v (pos_context @ [''command_id'', ''cause'', ''time'', ''op'', ''payload'']) = Inr r
          \<and> \<not> list_ex (\<lambda>k. jfield r k \<noteq> jindex (pm_config m) k) pos_context
          \<and> pos_id (jfield r ''command_id'') = Inr ident \<and> pos_fingerprint (jfield r ''cause'') = Inr ()
          \<and> pos_time (jfield r ''time'') = Inr t \<and> pos_text (jfield r ''op'') = Inr op \<and> payload = jfield r ''payload'')"

inductive pos_recorded :: "ledger_env \<Rightarrow> pos_manager \<Rightarrow> json \<Rightarrow> pos_manager \<Rightarrow> pos_outcome \<Rightarrow> bool"
  for env :: ledger_env and m :: pos_manager and v :: json where
  recorded:
    "\<lbrakk>pos_header env m v ident t op payload; map_of (ps_commands (pm_state m)) ident = None;
      pos_dispatch env (m\<lparr>pm_state := pos_begin (pm_state m) t\<rparr>) op payload t = Inr (s1, status, details);
      status \<noteq> PConflict;
      pos_validate env (m\<lparr>pm_state := pos_record v ident (pos_hash env v) (if status = PDuplicate then pm_state m else s1)\<rparr>) = Inr u\<rbrakk>
     \<Longrightarrow> pos_recorded env m v (m\<lparr>pm_state := pos_record v ident (pos_hash env v) (if status = PDuplicate then pm_state m else s1)\<rparr>)
           \<lparr>po_status = status, po_fact = f\<rparr>"

lemma pos_headerI:
  "\<lbrakk>\<not> 16384 < length (json_bytes (le_pf env) v); pos_row v (pos_context @ [''command_id'', ''cause'', ''time'', ''op'', ''payload'']) = Inr r;
    \<not> list_ex (\<lambda>k. jfield r k \<noteq> jindex (pm_config m) k) pos_context; pos_id (jfield r ''command_id'') = Inr ident;
    pos_fingerprint (jfield r ''cause'') = Inr u; pos_time (jfield r ''time'') = Inr t; pos_text (jfield r ''op'') = Inr op\<rbrakk>
   \<Longrightarrow> pos_header env m v ident t op (jfield r ''payload'')"
  by (auto simp: pos_header_def)

lemma pos_apply_yields:
  "yields (pos_apply env m v) (\<lambda>(m', oc).
     m' = m \<and> (po_status oc = PConflict \<or> po_status oc = PDuplicate
        \<and> (\<exists>ident t op payload. pos_header env m v ident t op payload \<and> map_of (ps_commands (pm_state m)) ident = Some (pos_hash env v)))
     \<or> pos_recorded env m v m' oc)"
  unfolding pos_apply_def Let_def
  by (intro yields_rules; (simp; fail)?; simp only: prod.case;
      (rule disjI2, rule recorded, rule pos_headerI, assumption+; fail)?)
     (rule disjI1, simp, intro impI exI conjI, rule pos_headerI, assumption+, simp)

lemma pos_apply_cases:
  assumes "pos_apply env m v = Inr (m', oc)"
  obtains (conflict) "m' = m" "po_status oc = PConflict"
  | (repeated) ident t op payload where "m' = m" "po_status oc = PDuplicate" "pos_header env m v ident t op payload"
      "map_of (ps_commands (pm_state m)) ident = Some (pos_hash env v)"
  | (recorded) "pos_recorded env m v m' oc"
  using yieldsD [OF pos_apply_yields assms] by auto

lemma pos_apply_repeat:
  assumes "pos_header env m v ident t op payload" "map_of (ps_commands (pm_state m)) ident = Some (pos_hash env v)"
  shows "pos_apply env m v = Inr (m, \<lparr>po_status = PDuplicate, po_fact = None\<rparr>)"
  using assms by (auto simp: pos_header_def pos_apply_def Let_def)

definition pos_command :: "ledger_env \<Rightarrow> pos_manager \<Rightarrow> pos_manager \<Rightarrow> bool" where
  "pos_command env m m' \<longleftrightarrow> (\<exists>v oc. pos_apply env m v = Inr (m', oc))"

abbreviation positions_reachable :: "ledger_env \<Rightarrow> json \<Rightarrow> pos_manager \<Rightarrow> bool" where
  "positions_reachable env config \<equiv> reachable (\<lambda>m. pos_new env config = Inr m) (pos_command env)"

end
