(* ===== verification/Position_Invariant.thy ===== *)
theory Position_Invariant
  imports Position_Steps
begin

text \<open>
  Conservation of the position ledger: every allocation is a sound book, every account is the
  sum of its allocations, every reservation accounts for its quantity, and what is held for
  orders never exceeds what is settled. Every change of the step relation keeps this.
\<close>

abbreviation qty_of :: "book \<Rightarrow> rat" where "qty_of b \<equiv> bd_value (bk_qty b)"
abbreviation settled_of :: "book \<Rightarrow> rat" where "settled_of b \<equiv> bd_value (bk_settled b)"
abbreviation cost_of :: "book \<Rightarrow> rat" where "cost_of b \<equiv> bd_value (bk_cost b)"
abbreviation remaining_of :: "reservation \<Rightarrow> rat" where "remaining_of r \<equiv> bd_value (rv_remaining r)"

definition book_sound :: "book \<Rightarrow> bool" where
  "book_sound b \<longleftrightarrow> 0 \<le> settled_of b \<and> settled_of b \<le> qty_of b \<and> 0 \<le> cost_of b \<and> (qty_of b = 0 \<longrightarrow> cost_of b = 0)"

definition alloc_total :: "(book \<Rightarrow> rat) \<Rightarrow> rstr \<Rightarrow> (rstr \<times> rstr, book) btree \<Rightarrow> rat" where
  "alloc_total f i m = bt_sum (\<lambda>k b. if snd k = i then f b else 0) m"

definition account_matches :: "(rstr \<times> rstr, book) btree \<Rightarrow> rstr \<Rightarrow> book \<Rightarrow> bool" where
  "account_matches m i a \<longleftrightarrow> qty_of a = alloc_total qty_of i m \<and> settled_of a = alloc_total settled_of i m
     \<and> cost_of a = alloc_total cost_of i m"

definition held_total :: "rstr \<times> rstr \<Rightarrow> (rstr, reservation) btree \<Rightarrow> rat" where
  "held_total k rs = bt_sum (\<lambda>_ r. if (rv_cluster r, rv_instrument r) = k then remaining_of r else 0) rs"

definition reservation_sound :: "reservation \<Rightarrow> bool" where
  "reservation_sound r \<longleftrightarrow> 0 \<le> remaining_of r \<and> 0 \<le> bd_value (rv_consumed r) \<and> 0 \<le> bd_value (rv_released r)
     \<and> remaining_of r + bd_value (rv_consumed r) + bd_value (rv_released r) = bd_value (rv_quantity r)"

definition pos_conserved :: "pos_state \<Rightarrow> bool" where
  "pos_conserved s \<longleftrightarrow> bt_ok (ps_accounts s) \<and> bt_ok (ps_allocations s) \<and> bt_ok (ps_reservations s)
     \<and> (\<forall>k b. map_of (ps_allocations s) k = Some b \<longrightarrow> book_sound b \<and> map_of (ps_accounts s) (snd k) \<noteq> None)
     \<and> (\<forall>i a. map_of (ps_accounts s) i = Some a \<longrightarrow> account_matches (ps_allocations s) i a)
     \<and> (\<forall>o' r. map_of (ps_reservations s) o' = Some r \<longrightarrow> reservation_sound r)
     \<and> (\<forall>k. held_total k (ps_reservations s) \<le> opt_value settled_of (map_of (ps_allocations s) k))"

section \<open>Sums\<close>

lemma alloc_total_insert:
  "bt_ok m \<Longrightarrow> alloc_total f i (bt_insert (c, j) b m) =
     alloc_total f i m + (if j = i then f b - opt_value f (map_of m (c, j)) else 0)"
  unfolding alloc_total_def by (subst bt_sum_insert) (auto simp: opt_value_def split: option.splits)

lemma held_total_insert:
  "bt_ok rs \<Longrightarrow> held_total k (bt_insert o' r rs) =
     held_total k rs + (if (rv_cluster r, rv_instrument r) = k then remaining_of r else 0)
     - opt_value (\<lambda>r. if (rv_cluster r, rv_instrument r) = k then remaining_of r else 0) (map_of rs o')"
  unfolding held_total_def by (subst bt_sum_insert) auto

lemma held_total_member:
  assumes "bt_ok rs" "\<forall>o' r. map_of rs o' = Some r \<longrightarrow> 0 \<le> remaining_of r" "map_of rs o' = Some r"
  shows "remaining_of r \<le> held_total (rv_cluster r, rv_instrument r) rs"
proof -
  let ?g = "\<lambda>_ x. if (rv_cluster x, rv_instrument x) = (rv_cluster r, rv_instrument r) then remaining_of x else 0"
  have "?g o' r \<le> bt_sum ?g rs"
    using assms by (intro bt_sum_member) (auto simp: bt_member_iff)
  then show ?thesis by (simp add: held_total_def)
qed

lemma held_total_nonneg:
  "bt_ok rs \<Longrightarrow> \<forall>o' r. map_of rs o' = Some r \<longrightarrow> 0 \<le> remaining_of r \<Longrightarrow> 0 \<le> held_total k rs"
  unfolding held_total_def by (intro bt_sum_nonneg) (auto simp: bt_member_iff)

lemma alloc_total_mono:
  assumes "bt_ok m" "\<And>k b. map_of m k = Some b \<Longrightarrow> f b \<le> g b"
  shows "alloc_total f i m \<le> alloc_total g i m"
  using assms(2) unfolding alloc_total_def bt_sum_def
  by (intro sum_list_mono) (auto simp: bt_member_iff [OF assms(1)])

lemma alloc_total_member:
  assumes "bt_ok m" "\<And>k b. map_of m k = Some b \<Longrightarrow> 0 \<le> f b" "map_of m (c, i) = Some b"
  shows "f b \<le> alloc_total f i m"
proof -
  have "(if snd (c, i) = i then f b else 0) \<le> alloc_total f i m"
    unfolding alloc_total_def using assms by (intro bt_sum_member [where k = "(c, i)"]) (auto simp: bt_member_iff)
  then show ?thesis by simp
qed

text \<open>An account that is the sum of sound allocations is itself a sound book.\<close>

lemma account_sound:
  assumes "bt_ok m" "\<And>k b. map_of m k = Some b \<Longrightarrow> book_sound b" "account_matches m i a"
  shows "book_sound a"
proof -
  have s: "0 \<le> settled_of b" "settled_of b \<le> qty_of b" "0 \<le> cost_of b" "qty_of b = 0 \<Longrightarrow> cost_of b = 0"
    if "map_of m k = Some b" for k b
    using assms(2) [OF that] by (simp_all add: book_sound_def)
  have z: "alloc_total (\<lambda>_. 0) i m = 0" by (simp add: alloc_total_def bt_sum_def)
  have "alloc_total cost_of i m = 0" if "alloc_total qty_of i m = 0"
  proof -
    have "cost_of b = 0" if b: "map_of m (c, i) = Some b" for c b
    proof -
      have "qty_of b \<le> alloc_total qty_of i m" using s b by (intro alloc_total_member [OF assms(1) _ b]) (meson order_trans)
      then show ?thesis using s [OF b] \<open>alloc_total qty_of i m = 0\<close> by simp
    qed
    then have "alloc_total cost_of i m = bt_sum (\<lambda>_ _. 0) m"
      unfolding alloc_total_def using assms(1) by (intro bt_sum_cong) (auto simp: bt_member_iff)
    then show ?thesis by (simp add: bt_sum_def)
  qed
  moreover have "0 \<le> alloc_total settled_of i m" "0 \<le> alloc_total cost_of i m" "alloc_total settled_of i m \<le> alloc_total qty_of i m"
    using alloc_total_mono [OF assms(1), of "\<lambda>_. 0" settled_of i] alloc_total_mono [OF assms(1), of "\<lambda>_. 0" cost_of i]
      alloc_total_mono [OF assms(1), of settled_of qty_of i] s by (simp_all add: z)
  ultimately show ?thesis using assms(3) by (simp add: book_sound_def account_matches_def)
qed

lemma conserved_account_sound: "pos_conserved s \<Longrightarrow> map_of (ps_accounts s) i = Some a \<Longrightarrow> book_sound a"
  by (rule account_sound [of "ps_allocations s" i]) (auto simp: pos_conserved_def)

lemma conserved_alloc_sound: "pos_conserved s \<Longrightarrow> map_of (ps_allocations s) k = Some b \<Longrightarrow> book_sound b"
  unfolding pos_conserved_def by blast

lemma same_books_conserved: "same_books s s' \<Longrightarrow> pos_conserved s' = pos_conserved s"
  by (simp add: same_books_def pos_conserved_def)

lemma pos_conserved_default: "pos_conserved pos_state_default"
  by (simp add: pos_conserved_def pos_state_default_def held_total_def)

section \<open>Operations on books and reservations\<close>

lemma touch_book_values [simp]:
  "bk_qty (touch_book env fee t b) = bk_qty b" "bk_settled (touch_book env fee t b) = bk_settled b"
  "bk_cost (touch_book env fee t b) = bk_cost b" "bk_realized (touch_book env fee t b) = bk_realized b"
  "bk_realized_exact (touch_book env fee t b) = bk_realized_exact b"
  by (simp_all add: touch_book_def)

context ledger
begin

lemma buy_book_values:
  assumes "buy_book env spec t p q st owner old h = Inr (b, h')" "\<And>x. old = Some x \<Longrightarrow> book_sound x"
  shows "qty_of b = opt_value qty_of old + bd_value q" "settled_of b = opt_value settled_of old + (if st then bd_value q else 0)"
    "cost_of b = opt_value cost_of old + bd_value p * bd_value q"
proof -
  have new: "bk_qty (book_new env owner n t) = bd_zero" "bk_settled (book_new env owner n t) = bd_zero"
    "bk_cost (book_new env owner n t) = bd_zero" for n by (simp_all add: book_new_def)
  have "settled_of x = 0" "cost_of x = 0" if "old = Some x" "qty_of x = 0" for x
    using assms(2) [OF that(1)] that(2) by (simp_all add: book_sound_def)
  then show "qty_of b = opt_value qty_of old + bd_value q" "settled_of b = opt_value settled_of old + (if st then bd_value q else 0)"
    "cost_of b = opt_value cost_of old + bd_value p * bd_value q"
    using assms(1) by (cases st; auto simp: buy_book_def rbind_eq_Inr new value_simps split: option.splits if_splits)+
qed

lemma sell_book_values:
  assumes "sell_book env t exact q released realized b = Inr b1"
  shows "qty_of b1 = qty_of b - bd_value q" "settled_of b1 = settled_of b - bd_value q" "cost_of b1 = cost_of b - bd_value released"
    "bd_value (bk_realized_exact b1) = bd_value (bk_realized_exact b) + bd_value exact"
    "bd_value (bk_realized b1) = bd_value (bk_realized b) + bd_value realized"
    "qty_of b1 = 0 \<Longrightarrow> cost_of b1 = 0"
  using assms by (auto simp: sell_book_def Let_def value_simps split: if_splits)

lemma consume_values:
  assumes "consume_reservation env q terminal r = Inr r1" "reservation_sound r" "0 < bd_value q" "bd_value q \<le> remaining_of r"
  shows "reservation_sound r1" "remaining_of r1 \<le> remaining_of r - bd_value q" "rv_cluster r1 = rv_cluster r"
    "rv_instrument r1 = rv_instrument r"
  using assms by (auto simp: consume_reservation_def Let_def value_simps reservation_sound_def split: if_splits)

lemma stage_values:
  assumes "stage_reservation nxt r = Inr r1"
  shows "rv_remaining r1 = rv_remaining r \<and> rv_consumed r1 = rv_consumed r \<and> rv_released r1 = rv_released r
    \<and> rv_quantity r1 = rv_quantity r \<and> rv_cluster r1 = rv_cluster r \<and> rv_instrument r1 = rv_instrument r"
  using assms by (auto simp: stage_reservation_def Let_def split: if_splits)

lemma release_values:
  assumes "release_reservation env confirmed r = Inr r1" "reservation_sound r"
  shows "reservation_sound r1 \<and> remaining_of r1 \<le> remaining_of r \<and> rv_cluster r1 = rv_cluster r \<and> rv_instrument r1 = rv_instrument r"
  using assms by (auto simp: release_reservation_def value_simps reservation_sound_def split: if_splits)

lemma change_values:
  assumes "stage_reservation nxt r = Inr r1 \<or> release_reservation env confirmed r = Inr r1" "reservation_sound r"
  shows "reservation_sound r1 \<and> remaining_of r1 \<le> remaining_of r \<and> rv_cluster r1 = rv_cluster r \<and> rv_instrument r1 = rv_instrument r"
  using assms(1)
proof
  assume "stage_reservation nxt r = Inr r1"
  then show ?thesis using assms(2) stage_values [of nxt r r1] by (simp add: reservation_sound_def)
qed (use release_values assms(2) in blast)

lemma holds_value:
  "bd_value (holds env s i (Some c) False) = held_total (c, i) (ps_reservations s)"
proof -
  have "sum_list (map remaining_of (filter P rs)) = sum_list (map (\<lambda>r. if P r then remaining_of r else 0) rs)" for P rs
    by (induction rs) auto
  then show ?thesis
    by (auto simp: holds_def fold_sum held_total_def bt_sum_def bt_values_def held_by_def comp_def intro!: arg_cong [where f = sum_list])
qed

lemma released_bounds:
  assumes "release_cost env cost qty q qp = Inr r" "0 < bd_value q" "bd_value q \<le> bd_value qty" "0 \<le> bd_value cost"
  shows "0 \<le> bd_value r" "bd_value r \<le> bd_value cost" "bd_value q = bd_value qty \<Longrightarrow> bd_value r = bd_value cost"
proof -
  have "0 \<le> bd_value r \<and> bd_value r \<le> bd_value cost \<and> (bd_value q = bd_value qty \<longrightarrow> bd_value r = bd_value cost)"
  proof (cases "bd_value q = bd_value qty")
    case True
    then show ?thesis using assms release_cost_whole [of q qty cost qp] by simp
  next
    case False
    then show ?thesis using assms release_cost_part [OF assms(1)] by simp
  qed
  then show "0 \<le> bd_value r" "bd_value r \<le> bd_value cost" "bd_value q = bd_value qty \<Longrightarrow> bd_value r = bd_value cost" by auto
qed

end

section \<open>Preservation\<close>

lemma conserved_account_value:
  assumes "pos_conserved s"
  shows "opt_value qty_of (map_of (ps_accounts s) i) = alloc_total qty_of i (ps_allocations s)"
    "opt_value settled_of (map_of (ps_accounts s) i) = alloc_total settled_of i (ps_allocations s)"
    "opt_value cost_of (map_of (ps_accounts s) i) = alloc_total cost_of i (ps_allocations s)"
proof -
  have "alloc_total f i (ps_allocations s) = 0" if "map_of (ps_accounts s) i = None" for f
  proof -
    have "map_of (ps_allocations s) (c, i) = None" for c
      using assms that unfolding pos_conserved_def by (metis not_None_eq snd_conv)
    then have "alloc_total f i (ps_allocations s) = bt_sum (\<lambda>_ _. 0) (ps_allocations s)"
      unfolding alloc_total_def using assms by (intro bt_sum_cong) (auto simp: bt_member_iff pos_conserved_def)
    then show ?thesis by (simp add: bt_sum_def)
  qed
  moreover have "map_of (ps_accounts s) i = Some a \<Longrightarrow> account_matches (ps_allocations s) i a" for a
    using assms unfolding pos_conserved_def by blast
  ultimately show "opt_value qty_of (map_of (ps_accounts s) i) = alloc_total qty_of i (ps_allocations s)"
    "opt_value settled_of (map_of (ps_accounts s) i) = alloc_total settled_of i (ps_allocations s)"
    "opt_value cost_of (map_of (ps_accounts s) i) = alloc_total cost_of i (ps_allocations s)"
    by (cases "map_of (ps_accounts s) i"; simp add: account_matches_def)+
qed

text \<open>An account and one of its allocations moved by the same amounts.\<close>

lemma conserved_pair:
  assumes s: "pos_conserved s"
    and new: "ps_accounts s' = bt_insert i a (ps_accounts s)" "ps_allocations s' = bt_insert (c, i) b (ps_allocations s)"
    and moved: "\<And>f. f \<in> {qty_of, settled_of, cost_of} \<Longrightarrow>
      f a - opt_value f (map_of (ps_accounts s) i) = f b - opt_value f (map_of (ps_allocations s) (c, i))"
    and sound: "book_sound b"
    and rs: "bt_ok (ps_reservations s')" "\<And>o' r. map_of (ps_reservations s') o' = Some r \<Longrightarrow> reservation_sound r"
    and held: "\<And>k. held_total k (ps_reservations s') \<le> opt_value settled_of (map_of (ps_allocations s') k)"
  shows "pos_conserved s'"
proof -
  have ok: "bt_ok (ps_accounts s)" "bt_ok (ps_allocations s)" using s by (simp_all add: pos_conserved_def)
  note v = conserved_account_value [OF s, of i]
  have "account_matches (ps_allocations s') i a"
    using v moved [of qty_of] moved [of settled_of] moved [of cost_of]
    by (simp add: account_matches_def new alloc_total_insert ok)
  moreover have "account_matches (ps_allocations s') j x" if "j \<noteq> i" "map_of (ps_accounts s) j = Some x" for j x
    using s that by (simp add: pos_conserved_def account_matches_def new alloc_total_insert ok)
  moreover have "book_sound x \<and> map_of (ps_accounts s) (snd k) \<noteq> None" if "map_of (ps_allocations s) k = Some x" for k x
    using s that unfolding pos_conserved_def by blast
  ultimately show ?thesis
    using ok sound rs held unfolding pos_conserved_def new by auto
qed

text \<open>Settlement moves only the settled amounts of one instrument, by the total of its buckets.\<close>

definition settle_moved :: "book \<Rightarrow> book \<Rightarrow> bool" where
  "settle_moved b b' \<longleftrightarrow> qty_of b' = qty_of b \<and> cost_of b' = cost_of b \<and> settled_of b \<le> settled_of b' \<and> settled_of b' \<le> qty_of b"

definition settles :: "rstr \<Rightarrow> rat \<Rightarrow> (rstr \<times> rstr, book) btree \<Rightarrow> (rstr \<times> rstr, book) btree \<Rightarrow> bool" where
  "settles i tot m m' \<longleftrightarrow> bt_ok m'
     \<and> (\<forall>k. rel_option settle_moved (map_of m k) (map_of m' k))
     \<and> (\<forall>j. alloc_total qty_of j m' = alloc_total qty_of j m \<and> alloc_total cost_of j m' = alloc_total cost_of j m
           \<and> alloc_total settled_of j m' = alloc_total settled_of j m + (if j = i then tot else 0))"

lemma settlesD: "settles i tot m m' \<Longrightarrow> rel_option settle_moved (map_of m k) (map_of m' k)"
  unfolding settles_def by blast

lemma settles_conserved:
  assumes s: "pos_conserved s" and m: "settles i tot (ps_allocations s) (ps_allocations s')"
    and a: "map_of (ps_accounts s) i = Some a" "ps_accounts s' = bt_insert i a' (ps_accounts s)"
      "qty_of a' = qty_of a" "cost_of a' = cost_of a" "settled_of a' = settled_of a + tot"
    and rs: "ps_reservations s' = ps_reservations s"
  shows "pos_conserved s'"
proof -
  have al: "book_sound b' \<and> map_of (ps_accounts s') (snd k) \<noteq> None" if k: "map_of (ps_allocations s') k = Some b'" for k b'
  proof -
    obtain b where b: "map_of (ps_allocations s) k = Some b" and mv: "settle_moved b b'"
      using settlesD [OF m, of k] k by (auto simp: option_rel_Some2)
    then have "book_sound b \<and> map_of (ps_accounts s) (snd k) \<noteq> None" using s unfolding pos_conserved_def by blast
    then show ?thesis using mv by (auto simp: book_sound_def a(2) settle_moved_def)
  qed
  have ac: "account_matches (ps_allocations s') j x" if "map_of (ps_accounts s') j = Some x" for j x
    using s m that a unfolding pos_conserved_def settles_def account_matches_def by (cases "j = i") auto
  have hd: "held_total k (ps_reservations s') \<le> opt_value settled_of (map_of (ps_allocations s') k)" for k
  proof -
    have "held_total k (ps_reservations s) \<le> opt_value settled_of (map_of (ps_allocations s) k)"
      using s unfolding pos_conserved_def by blast
    also have "\<dots> \<le> opt_value settled_of (map_of (ps_allocations s') k)"
      using settlesD [OF m, of k] by (cases "map_of (ps_allocations s) k") (auto simp: option_rel_Some1 settle_moved_def)
    finally show ?thesis by (simp add: rs)
  qed
  show ?thesis using s m al ac hd unfolding pos_conserved_def settles_def a(2) rs by auto
qed

context ledger
begin

lemma settle_bucket_inserts:
  "yields (settle_bucket env m i t v (seen, tot, al)) (\<lambda>(seen', tot', al').
     \<exists>c q a. tot' = bd_add env tot q \<and> 0 < bd_value q \<and> map_of al (c, i) = Some a \<and> bd_value q \<le> qty_of a - settled_of a
       \<and> al' = bt_insert (c, i) (a\<lparr>bk_settled := bd_add env (bk_settled a) q, bk_version := bk_version a + 1, bk_updated := t\<rparr>) al)"
  unfolding settle_bucket_def prod.case
  by (intro yields_rules; simp only: prod.case ok_or_eq order_value not_less sub_value)
     (intro exI conjI; (rule refl | assumption | erule quantity_value)+)

lemma settles_insert:
  assumes "settles i t0 al0 al" "map_of al (c, i) = Some a" "0 \<le> q" "q \<le> qty_of a - settled_of a"
    "qty_of a' = qty_of a" "cost_of a' = cost_of a" "settled_of a' = settled_of a + q"
  shows "settles i (t0 + q) al0 (bt_insert (c, i) a' al)"
proof -
  have ok: "bt_ok al" using assms(1) by (simp add: settles_def)
  have "rel_option settle_moved (map_of al0 k) (map_of (bt_insert (c, i) a' al) k)" for k
    using settlesD [OF assms(1), of k] assms(2-7)
    by (cases "k = (c, i)") (auto simp: option_rel_Some2 settle_moved_def)
  moreover have "alloc_total qty_of j (bt_insert (c, i) a' al) = alloc_total qty_of j al"
    "alloc_total cost_of j (bt_insert (c, i) a' al) = alloc_total cost_of j al"
    "alloc_total settled_of j (bt_insert (c, i) a' al) = alloc_total settled_of j al + (if j = i then q else 0)" for j
    using assms(2,5-7) by (auto simp: alloc_total_insert ok)
  ultimately show ?thesis using assms(1) ok unfolding settles_def by (auto simp del: map_of_bt_insert)
qed

lemma settle_buckets_settles:
  assumes "rfold (settle_bucket env m i t) buckets ([], bd_zero, al0) = Inr (seen, tot, al)" "bt_ok al0"
    "\<And>k b. map_of al0 k = Some b \<Longrightarrow> book_sound b"
  shows "settles i (bd_value tot) al0 al"
proof -
  have "case (seen, tot, al) of (_, t', al') \<Rightarrow> settles i (bd_value t') al0 al'"
  proof (rule rfold_invariant [OF assms(1)])
    show "case ([], bd_zero, al0) of (_, t', al') \<Rightarrow> settles i (bd_value t') al0 al'"
      using assms(2,3) by (fastforce simp: settles_def settle_moved_def book_sound_def intro!: option.rel_refl_strong)
    fix x u v
    assume "case u of (_, t', al') \<Rightarrow> settles i (bd_value t') al0 al'" "settle_bucket env m i t x u = Inr v"
    moreover obtain seen1 tot1 al1 where u: "u = (seen1, tot1, al1)" by (cases u)
    ultimately show "case v of (_, t', al') \<Rightarrow> settles i (bd_value t') al0 al'"
      using yieldsD [OF settle_bucket_inserts [of m i t x seen1 tot1 al1], of v]
      by (auto simp: value_simps intro!: settles_insert)
  qed
  then show ?thesis by simp
qed

lemma cluster_available_bound:
  assumes "cluster_available env s c i = Inr avail" "0 < bd_value avail"
  shows "bd_value avail + held_total (c, i) (ps_reservations s) \<le> opt_value settled_of (map_of (ps_allocations s) (c, i))"
  using assms by (auto simp: cluster_available_def rbind_eq_Inr value_simps holds_value split: option.splits)

lemma sold_allocation:
  assumes "sell_book env t exact q released realized b = Inr b1" "book_sound b" "0 < bd_value q" "bd_value q \<le> settled_of b"
    "release_cost env (bk_cost b) (bk_qty b) q qp = Inr released"
  shows "book_sound b1"
proof -
  have q: "bd_value q \<le> qty_of b" "0 \<le> cost_of b" using assms(2,4) by (auto simp: book_sound_def)
  note r = released_bounds [OF assms(5,3) q]
  show ?thesis using sell_book_values [OF assms(1)] r assms(2,4) by (auto simp: book_sound_def)
qed

lemma conserved_parts:
  assumes "pos_conserved s"
  shows "bt_ok (ps_accounts s)" "bt_ok (ps_allocations s)" "bt_ok (ps_reservations s)"
    "\<And>o' r. map_of (ps_reservations s) o' = Some r \<Longrightarrow> reservation_sound r"
    "\<And>k. held_total k (ps_reservations s) \<le> opt_value settled_of (map_of (ps_allocations s) k)"
  using assms unfolding pos_conserved_def by blast+

lemma trade_preserves:
  assumes "pos_trade env m s s'" "pos_conserved s"
  shows "pos_conserved s'"
proof -
  note acc = conserved_account_sound [OF assms(2)] and al = conserved_alloc_sound [OF assms(2)]
  note ok = conserved_parts(3) [OF assms(2)] and rs = conserved_parts(4) [OF assms(2)] and held = conserved_parts(5) [OF assms(2)]
  from assms(1) show ?thesis
  proof cases
    case (bought i spec c p q fee t st ow1 h0 a h1 ow2 b h2)
    note a = buy_book_values [OF bought(6), OF acc] and b = buy_book_values [OF bought(7), OF al]
    show ?thesis
    proof (rule conserved_pair [OF assms(2) bought(8,9)])
      show "f (touch_book env fee t a) - opt_value f (map_of (ps_accounts s) i)
          = f (touch_book env fee t b) - opt_value f (map_of (ps_allocations s) (c, i))" if "f \<in> {qty_of, settled_of, cost_of}" for f
        using that a b by auto
      have "opt_value settled_of (map_of (ps_allocations s) (c, i)) \<le> opt_value qty_of (map_of (ps_allocations s) (c, i))"
        "0 \<le> opt_value settled_of (map_of (ps_allocations s) (c, i))" "0 \<le> opt_value cost_of (map_of (ps_allocations s) (c, i))"
        using al by (auto simp: opt_value_def book_sound_def split: option.splits)
      moreover have "0 < bd_value p * bd_value q" using bought(3,4) by simp
      ultimately show "book_sound (touch_book env fee t b)" using b bought(4) by (auto simp: book_sound_def)
      show "held_total k (ps_reservations s') \<le> opt_value settled_of (map_of (ps_allocations s') k)" for k
        using held [of k] b bought(4) by (auto simp: bought(9,10) opt_value_def split: if_splits)
    qed (use bought(10) ok rs in auto)
  next
    case (sold i spec c p q fee b a order r released exact realized t b1 a1 terminal r1)
    have v: "bd_value q \<le> remaining_of r" "bd_value q \<le> settled_of b" "bd_value q \<le> settled_of a"
      using sold(12-14) by (simp_all add: value_simps)
    note c1 = consume_values [OF sold(20) rs [OF sold(9)] sold(5) v(1)]
    show ?thesis
    proof (rule conserved_pair [OF assms(2) sold(21,22)])
      show "f (touch_book env fee t a1) - opt_value f (map_of (ps_accounts s) i)
          = f (touch_book env fee t b1) - opt_value f (map_of (ps_allocations s) (c, i))" if "f \<in> {qty_of, settled_of, cost_of}" for f
        using that sell_book_values [OF sold(18)] sell_book_values [OF sold(19)] sold(7,8) by auto
      show "book_sound (touch_book env fee t b1)"
        using sold_allocation [OF sold(18) al [OF sold(7)] sold(5) v(2) sold(15)] by (simp add: book_sound_def)
      show "reservation_sound x" if "map_of (ps_reservations s') o' = Some x" for o' x
        using that rs c1(1) by (auto simp: sold(23) split: if_splits)
      show "held_total k (ps_reservations s') \<le> opt_value settled_of (map_of (ps_allocations s') k)" for k
        using held [of k] c1 sell_book_values(2) [OF sold(18)] sold(7,9,10,11)
        by (auto simp: sold(22,23) held_total_insert ok)
    qed (simp add: sold(23) ok)
  qed
qed

lemma hold_preserves:
  assumes "pos_hold env m s s'" "pos_conserved s"
  shows "pos_conserved s'"
proof -
  note ok = conserved_parts(3) [OF assms(2)] and rs = conserved_parts(4) [OF assms(2)] and held = conserved_parts(5) [OF assms(2)]
  from assms(1) show ?thesis
  proof cases
    case (reserved c order q i avail)
    let ?x = "\<lparr>rv_instrument = i, rv_cluster = c, rv_order = order, rv_quantity = q, rv_remaining = q, rv_consumed = bd_zero,
      rv_released = bd_zero, rv_stage = str_lit ''LOCAL_ONLY'', rv_acknowledged = False, rv_state = str_lit ''ACTIVE'', rv_version = 1\<rparr>"
    have "bd_value q \<le> bd_value avail" "0 < bd_value q" using reserved(3,6) by (simp_all add: value_simps)
    then have "bd_value q + held_total (c, i) (ps_reservations s) \<le> opt_value settled_of (map_of (ps_allocations s) (c, i))"
      using cluster_available_bound [OF reserved(5)] by simp
    then have "held_total k (ps_reservations s') \<le> opt_value settled_of (map_of (ps_allocations s') k)" for k
      using held [of k] by (auto simp: reserved held_total_insert ok)
    moreover have "reservation_sound ?x" using reserved(3) by (simp add: reservation_sound_def)
    then have "reservation_sound y" if "map_of (ps_reservations s') o' = Some y" for o' y
      using that rs by (auto simp: reserved(7) split: if_splits)
    moreover have "bt_ok (ps_reservations s')" by (simp add: reserved(7) ok)
    ultimately show ?thesis using assms(2) unfolding pos_conserved_def reserved(8,9) by blast
  next
    case (changed order r nxt r1 confirmed)
    note c1 = change_values [OF changed(3) rs [OF changed(1)]]
    have "held_total k (ps_reservations s') \<le> opt_value settled_of (map_of (ps_allocations s') k)" for k
      using held [of k] c1 changed(1) by (auto simp: changed(4,6) held_total_insert ok)
    moreover have "reservation_sound y" if "map_of (ps_reservations s') o' = Some y" for o' y
      using that rs c1 by (auto simp: changed(4) reservation_sound_def split: if_splits)
    moreover have "bt_ok (ps_reservations s')" by (simp add: changed(4) ok)
    ultimately show ?thesis using assms(2) unfolding pos_conserved_def changed(5,6) by blast
  qed
qed

lemma change_preserves:
  assumes "pos_change env m s s'" "pos_conserved s"
  shows "pos_conserved s'"
  using assms(1)
proof cases
  case quiet
  then show ?thesis using assms(2) same_books_conserved by blast
next
  case (settled i spec t buckets seen tot allocations a)
  have "settles i (bd_value tot) (ps_allocations s) (ps_allocations s')"
    using settle_buckets_settles [OF settled(2)] conserved_alloc_sound [OF assms(2)] assms(2)
    by (simp add: settled(4) pos_conserved_def)
  then show ?thesis
    by (rule settles_conserved [OF assms(2) _ settled(3,5) _ _ _ settled(6)]) (simp_all add: value_simps)
qed (use assms(2) trade_preserves hold_preserves in blast)+

end

end
