(* ===== verification/Position_Safety.thy ===== *)
theory Position_Safety
  imports Position_Invariant
begin

text \<open>
  Safety of the position manager: the invariant of every reachable manager, that its
  conservation checks cannot reject a command, and that its views never fail or panic.
\<close>

section \<open>Well-formed managers\<close>

definition readable_restriction :: "ledger_env \<Rightarrow> json \<Rightarrow> bool" where
  "readable_restriction env r \<longleftrightarrow> is_ok (pos_time (jindex r ''from'')) \<and> is_ok (restriction_until (jindex r ''until''))
     \<and> is_ok (pos_nonnegative env (jindex r ''quantity''))"

definition readable_broker :: "ledger_env \<Rightarrow> json \<Rightarrow> bool" where
  "readable_broker env v \<longleftrightarrow> is_ok (pos_nonnegative env (jindex (jindex v ''snapshot'') ''available''))"

definition pos_readable :: "ledger_env \<Rightarrow> pos_state \<Rightarrow> bool" where
  "pos_readable env s \<longleftrightarrow> (\<forall>r \<in> set (bt_values (ps_restrictions s)). readable_restriction env r)
     \<and> (\<forall>v \<in> set (bt_values (ps_brokers s)). readable_broker env v)"

definition pos_listed :: "pos_manager \<Rightarrow> pos_state \<Rightarrow> bool" where
  "pos_listed m s \<longleftrightarrow> (\<forall>i. map_of (ps_accounts s) i \<noteq> None \<longrightarrow> map_of (pm_instruments m) i \<noteq> None)"

definition pos_bounded :: "pos_state \<Rightarrow> bool" where
  "pos_bounded s \<longleftrightarrow> (\<forall>(i, a) \<in> set (ps_accounts s). book_bounded a = Inr ()) \<and> (\<forall>(k, b) \<in> set (ps_allocations s). book_bounded b = Inr ())"

definition pos_precise :: "pos_manager \<Rightarrow> bool" where
  "pos_precise m \<longleftrightarrow> (\<forall>i spec. map_of (pm_instruments m) i = Some spec \<longrightarrow> in_pp spec \<le> 18)"

definition pos_ok :: "ledger_env \<Rightarrow> pos_manager \<Rightarrow> bool" where
  "pos_ok env m \<longleftrightarrow> pos_conserved (pm_state m) \<and> pos_readable env (pm_state m) \<and> pos_listed m (pm_state m) \<and> pos_bounded (pm_state m)
     \<and> pos_precise m"

lemma values_insert: "set (bt_values (bt_insert k v m)) \<subseteq> insert v (set (bt_values m))"
  by (induction m) (auto simp: bt_values_def)

lemma values_remove: "set (bt_values (bt_remove k m)) \<subseteq> set (bt_values m)"
  by (auto simp: bt_values_def bt_remove_def)

lemma readable_restrictions [simp]:
  "pos_readable env s \<Longrightarrow> readable_restriction env v \<Longrightarrow> pos_readable env (s\<lparr>ps_restrictions := bt_insert k v (ps_restrictions s)\<rparr>)"
  "pos_readable env s \<Longrightarrow> pos_readable env (s\<lparr>ps_restrictions := bt_remove k (ps_restrictions s)\<rparr>)"
  using values_insert [of k v "ps_restrictions s"] values_remove [of k "ps_restrictions s"] by (auto simp: pos_readable_def)

lemma readable_brokers [simp]:
  "pos_readable env s \<Longrightarrow> readable_broker env v \<Longrightarrow>
     pos_readable env (s\<lparr>ps_receipts := rs, ps_brokers := bt_insert k v (ps_brokers s)\<rparr>)"
  "pos_readable env (s\<lparr>ps_receipts := rs\<rparr>) = pos_readable env s"
  using values_insert [of k v "ps_brokers s"] by (auto simp: pos_readable_def)

lemma quantity_readable: "instrument_quantity env spec v = Inr d \<Longrightarrow> ledger env \<Longrightarrow> is_ok (pos_nonnegative env v)"
  by (auto simp: instrument_quantity_def pos_positive_def pos_nonnegative_def rbind_eq_Inr guard_eq ledger.order_value)

context ledger
begin

lemma add_restriction_readable:
  "yields (add_restriction env m v) (\<lambda>(s', _, _). pos_readable env (pm_state m) \<longrightarrow> pos_readable env s')"
proof -
  have new: "readable_restriction env v"
    if "pos_row v names = Inr r" "instrument_quantity env spec (jfield r ''quantity'') = Inr q" "pos_time (jfield r ''from'') = Inr f"
      "(if jfield r ''until'' = JNull then Inr () else rbind (pos_time (jfield r ''until'')) (\<lambda>u.
          if u \<le> f then Inl e else Inr ())) = Inr w" for names r spec q f e w
    using that quantity_readable [OF that(2) ledger_axioms]
    by (auto simp: readable_restriction_def row_index restriction_until_def rbind_eq_Inr split: if_splits)
  show ?thesis
    unfolding add_restriction_def Let_def
    by (intro yields_rules) (auto intro!: readable_restrictions intro: new)
qed

lemma remove_restriction_readable:
  "yields (remove_restriction m v) (\<lambda>(s', _, _). pos_readable env (pm_state m) \<longrightarrow> pos_readable env s')"
  unfolding remove_restriction_def Let_def
  by (intro yields_rules) auto

lemma broker_read_available: "broker_read env spec r = Inr bv \<Longrightarrow> is_ok (pos_nonnegative env (jfield r ''available''))"
  by (auto simp: broker_read_def broker_amount_def rbind_eq_Inr guard_eq)

lemma reconcile_readable:
  "yields (reconcile env m v t) (\<lambda>(s', _, _). pos_readable env (pm_state m) \<longrightarrow> pos_readable env s')"
proof -
  have new: "readable_broker env (jobject [(''instrument'', a), (''snapshot'', v), (''time'', b), (''blocking'', c), (''differences'', d), (''actions'', e)])"
    if "pos_row v names = Inr r" "broker_read env spec r = Inr bv" for names r spec bv a b c d e
    using broker_read_available [OF that(2)] by (simp add: readable_broker_def jindex_jobject row_index [OF that(1)])
  show ?thesis
    unfolding reconcile_def Let_def
    by (intro yields_rules) (auto intro!: readable_brokers new)
qed

definition same_notes :: "pos_state \<Rightarrow> pos_state \<Rightarrow> bool" where
  "same_notes s s' \<longleftrightarrow> ps_restrictions s' = ps_restrictions s \<and> ps_brokers s' = ps_brokers s"

lemma trade_notes: "yields (trade env m v t) (\<lambda>(s', _, _). same_notes (pm_state m) s')"
proof -
  have buy: "yields (trade_buy env m ti t) (\<lambda>(s1, _). same_notes (pm_state m) s1)" for ti
    unfolding trade_buy_def Let_def by (intro yields_rules) (simp add: same_notes_def)
  have sell: "yields (trade_sell env m ti t) (\<lambda>(s1, _). same_notes (pm_state m) s1)" for ti
    unfolding trade_sell_def Let_def by (intro yields_rules) (simp add: same_notes_def)
  have commit: "same_notes s (trade_commit env ti t sig a b s1) = same_notes s s1" for s ti sig a b s1
    by (simp add: trade_commit_def same_notes_def Let_def)
  have move: "yields (if ti_buy ti then rbind (trade_buy env m ti t) (\<lambda>(s1, a, b). Inr (s1, a, b, bd_zero, bd_zero))
      else trade_sell env m ti t) (\<lambda>(s1, _). same_notes (pm_state m) s1)" for ti
    using buy [of ti] sell [of ti] by (auto simp: yields_def rbind_eq_Inr)
  show ?thesis
    unfolding trade_def Let_def
    by (intro yields_rules) (auto simp: commit same_notes_def [of _ "_\<lparr>ps_stale := _, ps_receipts := _\<rparr>"] same_notes_def [of "pm_state m" "pm_state m"]
        dest!: yieldsD [OF move])
qed

lemma hold_notes: "yields (reserve_command env m op v) (\<lambda>(s', _, _). same_notes (pm_state m) s')"
  unfolding reserve_command_def reserve_def change_reservation_def Let_def
  by (intro yields_rules) (simp_all add: same_notes_def)

lemma settle_notes: "yields (pos_settle env m v t) (\<lambda>(s', _, _). same_notes (pm_state m) s')"
  unfolding pos_settle_def Let_def by (intro yields_rules) (simp_all add: same_notes_def)

lemma dispatch_readable:
  assumes "pos_dispatch env m op v t = Inr (s', status, details)" "pos_readable env (pm_state m)"
  shows "pos_readable env s'"
proof -
  have same: "yields x (\<lambda>(s', _, _). same_notes (pm_state m) s') \<Longrightarrow>
      yields x (\<lambda>(s', _, _). pos_readable env (pm_state m) \<longrightarrow> pos_readable env s')" for x :: "pos_error + pos_state \<times> 'x \<times> 'y"
    by (auto simp: yields_def same_notes_def pos_readable_def)
  have "yields (pos_dispatch env m op v t) (\<lambda>(s', _, _). pos_readable env (pm_state m) \<longrightarrow> pos_readable env s')"
    unfolding pos_dispatch_def administration_def
    using same [OF trade_notes] same [OF hold_notes] same [OF settle_notes] add_restriction_readable remove_restriction_readable
      reconcile_readable
    by (intro yields_if yields_rbind yields_Inl) (auto intro: yields_Inr)
  then show ?thesis using assms by (auto simp: yields_def)
qed

section \<open>Views are total\<close>

lemma rfold_returns:
  "(\<And>x s. x \<in> set xs \<Longrightarrow> \<exists>t. f x s = Inr t) \<Longrightarrow> \<exists>t. rfold f xs s = Inr t"
proof (induction xs arbitrary: s)
  case (Cons x xs)
  then obtain t where "f x s = Inr t" by (meson list.set_intros(1))
  with Cons show ?case by auto
qed simp

lemma account_available_returns:
  assumes "pos_readable env s"
  shows "\<exists>d. account_available env s i = Inr d"
proof -
  have "\<exists>d. restrictions env s i = Inr d"
    unfolding restrictions_def
  proof (rule rfold_returns)
    fix r q
    assume "r \<in> set (filter (\<lambda>r. jindex r ''instrument'' = JString i) (bt_values (ps_restrictions s)))"
    then have "readable_restriction env r" using assms by (auto simp: pos_readable_def)
    then obtain f u d where "pos_time (jindex r ''from'') = Inr f" "restriction_until (jindex r ''until'') = Inr u"
      "pos_nonnegative env (jindex r ''quantity'') = Inr d"
      by (auto simp: readable_restriction_def is_ok_def split: sum.splits)
    then show "\<exists>t. rbind (pos_time (jindex r ''from'')) (\<lambda>from. rbind (restriction_until (jindex r ''until'')) (\<lambda>until.
       if from \<le> ps_now s \<and> (case until of None \<Rightarrow> True | Some t \<Rightarrow> ps_now s < t)
       then rbind (pos_nonnegative env (jindex r ''quantity'')) (\<lambda>d. Inr (bd_add env q d)) else Inr q)) = Inr t"
      by simp
  qed
  then obtain d where d: "restrictions env s i = Inr d" by blast
  have "\<exists>x. pos_nonnegative env (jindex (jindex v ''snapshot'') ''available'') = Inr x" if "map_of (ps_brokers s) i = Some v" for v
  proof -
    have "v \<in> set (bt_values (ps_brokers s))" using map_of_SomeD [OF that] by (force simp: bt_values_def)
    then have "readable_broker env v" using assms by (auto simp: pos_readable_def)
    then show ?thesis by (auto simp: readable_broker_def is_ok_def split: sum.splits)
  qed
  then show ?thesis
    by (cases "map_of (ps_brokers s) i") (auto simp: account_available_def d Let_def split: option.splits)
qed

lemma cluster_available_returns: "pos_readable env s \<Longrightarrow> \<exists>d. cluster_available env s c i = Inr d"
  using account_available_returns [of s i] by (auto simp: cluster_available_def split: option.splits)

lemma book_boundedD:
  assumes "book_bounded b = Inr ()"
  shows "bounded (bk_cost b) False = Inr ()" "bounded (bk_qty b) False = Inr ()"
  using assms by (simp_all add: book_bounded_def for_each_ok)

lemma ratio_returns:
  assumes "bounded n False = Inr ()" "bounded d False = Inr ()" "0 \<le> bd_value n" "0 < bd_value d" "0 \<le> s" "s \<le> 18"
  shows "\<exists>q. ratio env n d s = Inr q"
  using assms by (auto simp: ratio_def bounded_def Let_def value_simps split: if_splits)

lemma book_record_returns:
  assumes "book_bounded b = Inr ()" "book_sound b" "in_pp spec \<le> 18"
  shows "\<exists>v. book_record env spec avail bl b = Inr v"
proof (cases "bd_is_zero (bk_qty b)")
  case False
  then have "0 < qty_of b" "0 \<le> cost_of b" using assms(2) by (auto simp: book_sound_def bd_is_zero_value)
  then obtain q where "ratio env (bk_cost b) (bk_qty b) (int (in_pp spec)) = Inr q"
    using ratio_returns [OF book_boundedD [OF assms(1)], of "int (in_pp spec)"] assms(3) by auto
  with False show ?thesis by (simp add: book_record_def)
qed (simp add: book_record_def)

lemma pos_account_returns:
  assumes "pos_conserved (pm_state m)" "pos_readable env (pm_state m)" "pos_listed m (pm_state m)"
    "pos_precise m"
    "map_of (ps_accounts (pm_state m)) i = Some a" "book_bounded a = Inr ()"
  shows "\<exists>v. pos_account env m i = Inr v"
proof -
  obtain spec where spec: "map_of (pm_instruments m) i = Some spec" using assms(3,5) unfolding pos_listed_def by fastforce
  obtain d where d: "account_available env (pm_state m) i = Inr d" using account_available_returns [OF assms(2)] by blast
  have "in_pp spec \<le> 18" using assms(4) spec by (auto simp: pos_precise_def)
  then show ?thesis
    using book_record_returns [OF assms(6) conserved_account_sound [OF assms(1,5)], of spec d]
    by (simp add: pos_account_def pos_spec_def spec d assms(5))
qed

lemma collect_returns: "(\<And>x. x \<in> set xs \<Longrightarrow> \<exists>y. f x = Inr y) \<Longrightarrow> \<exists>ys. collect f xs = Inr ys"
proof (induction xs)
  case (Cons x xs)
  obtain y ys where "f x = Inr y" "collect f xs = Inr ys" using Cons by (meson list.set_intros)
  then show ?case by simp
qed simp

lemma exposure_returns:
  assumes "pos_ok env m"
  shows "\<exists>x. current_exposure_rows env m = Inr x"
proof -
  let ?s = "pm_state m"
  have c: "pos_conserved ?s" and r: "pos_readable env ?s" and l: "pos_listed m ?s" and b: "pos_bounded ?s"
    and pp: "pos_precise m"
    using assms by (auto simp: pos_ok_def)
  note ok = conserved_parts(1,2) [OF c]
  have acc: "\<exists>y. account_row env m i = Inr y" if i: "i \<in> set (bt_keys (ps_accounts ?s))" for i
  proof -
    obtain a where a: "(i, a) \<in> set (ps_accounts ?s)" using i by (auto simp: bt_keys_def)
    have m: "map_of (ps_accounts ?s) i = Some a" using a ok(1) by (simp add: bt_member_iff)
    have bb: "book_bounded a = Inr ()" using a b by (auto simp: pos_bounded_def)
    have "\<exists>v. pos_account env m i = Inr v" by (rule pos_account_returns [OF c r l pp m bb])
    then show ?thesis by (auto simp: account_row_def pos_expect_def)
  qed
  have al: "\<exists>y. allocation_row env m x = Inr y" if "x \<in> set (ps_allocations ?s)" for x
  proof -
    obtain k i bk where x: "x = ((k, i), bk)" by (metis surj_pair)
    have m: "map_of (ps_allocations ?s) (k, i) = Some bk" using that ok(2) by (simp add: x bt_member_iff)
    have "map_of (ps_accounts ?s) (snd (k, i)) \<noteq> None" using c m unfolding pos_conserved_def by blast
    then obtain spec where spec: "map_of (pm_instruments m) i = Some spec" using l unfolding pos_listed_def by fastforce
    obtain d where "cluster_available env ?s k i = Inr d" using cluster_available_returns [OF r] by blast
    moreover have "book_bounded bk = Inr ()" using that b x by (auto simp: pos_bounded_def)
    ultimately show ?thesis
      using book_record_returns [OF _ conserved_alloc_sound [OF c m], of spec] pp [unfolded pos_precise_def] spec
      by (auto simp: allocation_row_def x spec pos_expect_def split: sum.splits)
        (metis sum.distinct(1))+
  qed
  have "\<exists>ys. collect (account_row env m) (bt_keys (ps_accounts ?s)) = Inr ys" by (rule collect_returns) (rule acc)
  moreover have "\<exists>ys. collect (allocation_row env m) (ps_allocations ?s) = Inr ys" by (rule collect_returns) (rule al)
  ultimately show ?thesis by (auto simp: current_exposure_rows_def)
qed

lemma state_record_returns: "pos_ok env m \<Longrightarrow> \<exists>st. pos_state_record env m = Inr st"
  using exposure_returns [of m] by (auto simp: pos_state_record_def Let_def)

section \<open>Validation\<close>

text \<open>On a conserved state the validator can only report a number outside its bounds.\<close>

abbreviation bound_error :: pos_error where
  "bound_error \<equiv> PosError ''POSITION_ARITHMETIC_BOUND''"

lemma book_bounded_error: "book_bounded b = Inl e \<Longrightarrow> e = bound_error"
  unfolding book_bounded_def by (drule for_each_error) (auto dest: bounded_error)

lemma sound_not_invalid: "book_sound b \<Longrightarrow> \<not> allocation_invalid env b"
  by (auto simp: allocation_invalid_def book_sound_def value_simps)

lemma sum_allocations_values:
  assumes "rfold (sum_allocation env i) m (x, y, z) = Inr (q, s, c)"
  shows "bd_value q = bd_value x + alloc_total qty_of i m" "bd_value s = bd_value y + alloc_total settled_of i m"
    "bd_value c = bd_value z + alloc_total cost_of i m"
    "\<And>k b. (k, b) \<in> set m \<Longrightarrow> snd k = i \<Longrightarrow> book_bounded b = Inr ()"
proof -
  have "bd_value q = bd_value x + alloc_total qty_of i m \<and> bd_value s = bd_value y + alloc_total settled_of i m
    \<and> bd_value c = bd_value z + alloc_total cost_of i m \<and> (\<forall>(k, b) \<in> set m. snd k = i \<longrightarrow> book_bounded b = Inr ())"
    using assms
  proof (induction m arbitrary: x y z)
    case (Cons p m)
    obtain k j b where p: "p = ((k, j), b)" by (metis surj_pair)
    have tot: "alloc_total f i (((k, j), b) # m) = (if j = i then f b else 0) + alloc_total f i m" for f
      by (simp add: alloc_total_def bt_sum_def)
    show ?case
    proof (cases "j = i")
      case True
      with Cons.prems have "book_bounded b = Inr ()"
        "rfold (sum_allocation env i) m (bd_add env x (bk_qty b), bd_add env y (bk_settled b), bd_add env z (bk_cost b)) = Inr (q, s, c)"
        by (auto simp: p sum_allocation_def rbind_eq_Inr guard_eq)
      then show ?thesis using Cons.IH True tot by (simp add: p value_simps)
    next
      case False
      then have "rfold (sum_allocation env i) m (x, y, z) = Inr (q, s, c)" using Cons.prems by (simp add: p sum_allocation_def)
      then show ?thesis using Cons.IH False tot by (simp add: p)
    qed
  qed (simp add: alloc_total_def)
  then show "bd_value q = bd_value x + alloc_total qty_of i m" "bd_value s = bd_value y + alloc_total settled_of i m"
    "bd_value c = bd_value z + alloc_total cost_of i m"
    "\<And>k b. (k, b) \<in> set m \<Longrightarrow> snd k = i \<Longrightarrow> book_bounded b = Inr ()" by auto
qed

lemma sum_allocations_error:
  assumes "rfold (sum_allocation env i) m acc = Inl e" "\<And>k b. (k, b) \<in> set m \<Longrightarrow> book_sound b"
  shows "e = bound_error"
proof -
  obtain x u where "x \<in> set m" "sum_allocation env i x u = Inl e"
    using rfold_error [OF assms(1), of "\<lambda>_. True"] by blast
  with assms(2) sound_not_invalid show ?thesis
    by (auto simp: sum_allocation_def rbind_eq_Inl dest: book_bounded_error split: prod.splits if_splits)
qed

lemma validate_account_error:
  assumes ok: "pos_conserved (pm_state m)" "pos_readable env (pm_state m)" "pos_listed m (pm_state m)"
    "pos_precise m"
    and x: "(i, a) \<in> set (ps_accounts (pm_state m))" "validate_account env m (i, a) = Inl e"
  shows "e = bound_error"
proof -
  let ?al = "ps_allocations (pm_state m)"
  have a: "map_of (ps_accounts (pm_state m)) i = Some a" using x(1) conserved_parts(1) [OF ok(1)] by (simp add: bt_member_iff)
  then have matches: "account_matches ?al i a" using ok(1) unfolding pos_conserved_def by blast
  have sound: "(k, b) \<in> set ?al \<Longrightarrow> book_sound b" for k b
    using conserved_alloc_sound [OF ok(1)] conserved_parts(2) [OF ok(1)] by (auto simp: bt_member_iff)
  show ?thesis
  proof (cases "rfold (sum_allocation env i) ?al (bd_zero, bd_zero, bd_zero)")
    case (Inl e')
    then show ?thesis using x(2) sum_allocations_error [OF Inl] sound by (simp add: validate_account_def)
  next
    case (Inr t)
    obtain q s c where t: "t = (q, s, c)" by (cases t)
    have "bd_eq env q (bk_qty a) \<and> bd_eq env s (bk_settled a) \<and> bd_eq env c (bk_cost a)"
      using sum_allocations_values [OF Inr [unfolded t]] matches by (simp add: value_simps account_matches_def)
    then have "rbind (book_bounded a) (\<lambda>_. rbind (pos_account env m i) (\<lambda>_. Inr ())) = Inl e"
      using x(2) by (simp add: validate_account_def Inr t)
    then show ?thesis using pos_account_returns [OF ok a] by (auto simp: rbind_eq_Inl dest: book_bounded_error)
  qed
qed

lemma validate_loops:
  assumes "pos_conserved (pm_state m)"
  shows "for_each (validate_reservation env) (bt_values (ps_reservations (pm_state m))) = Inr ()"
    "for_each (validate_holds env (pm_state m)) (ps_allocations (pm_state m)) = Inr ()"
proof -
  note p = conserved_parts [OF assms]
  have "validate_reservation env r = Inr ()" if r: "r \<in> set (bt_values (ps_reservations (pm_state m)))" for r
  proof -
    obtain o' where "map_of (ps_reservations (pm_state m)) o' = Some r" using r p(3) by (auto simp: bt_values_iff)
    then show ?thesis using p(4) [of o' r] by (auto simp: validate_reservation_def reservation_sound_def value_simps)
  qed
  moreover have "validate_holds env (pm_state m) x = Inr ()" if x: "x \<in> set (ps_allocations (pm_state m))" for x
  proof -
    obtain c i b where xx: "x = ((c, i), b)" by (metis surj_pair)
    then have "map_of (ps_allocations (pm_state m)) (c, i) = Some b" using x p(2) by (simp add: bt_member_iff)
    then show ?thesis using p(5) [of "(c, i)"] by (simp add: validate_holds_def xx value_simps holds_value)
  qed
  ultimately show "for_each (validate_reservation env) (bt_values (ps_reservations (pm_state m))) = Inr ()"
    "for_each (validate_holds env (pm_state m)) (ps_allocations (pm_state m)) = Inr ()"
    by (simp_all add: for_each_ok)
qed

lemma validate_error:
  assumes ok: "pos_conserved (pm_state m)" "pos_readable env (pm_state m)" "pos_listed m (pm_state m)"
    "pos_precise m"
    and e: "pos_validate env m = Inl e"
  shows "e = bound_error"
proof -
  have "for_each (validate_account env m) (ps_accounts (pm_state m)) = Inl e"
    using e validate_loops [OF ok(1)] by (auto simp: pos_validate_def Let_def rbind_eq_Inl)
  then obtain i a where "(i, a) \<in> set (ps_accounts (pm_state m))" "validate_account env m (i, a) = Inl e"
    using for_each_error by fastforce
  then show ?thesis using validate_account_error [OF ok] by blast
qed

lemma validated_bounded:
  assumes "pos_validate env m = Inr ()" "pos_conserved (pm_state m)"
  shows "pos_bounded (pm_state m)"
proof -
  let ?s = "pm_state m"
  have v: "validate_account env m (i, a) = Inr ()" if "(i, a) \<in> set (ps_accounts ?s)" for i a
    using assms(1) that by (auto simp: pos_validate_def Let_def rbind_eq_Inr for_each_ok)
  have "book_bounded b = Inr ()" if b: "(k, b) \<in> set (ps_allocations ?s)" for k b
  proof -
    have "map_of (ps_allocations ?s) k = Some b" using b conserved_parts(2) [OF assms(2)] by (simp add: bt_member_iff)
    then obtain a where "map_of (ps_accounts ?s) (snd k) = Some a"
      using assms(2) unfolding pos_conserved_def by (metis not_None_eq)
    from v [OF map_of_SomeD [OF this]] obtain t where
      "rfold (sum_allocation env (snd k)) (ps_allocations ?s) (bd_zero, bd_zero, bd_zero) = Inr t"
      by (auto simp: validate_account_def rbind_eq_Inr)
    then show ?thesis using sum_allocations_values(4) [OF _ b] by (cases t) auto
  qed
  moreover have "book_bounded a = Inr ()" if "(i, a) \<in> set (ps_accounts ?s)" for i a
    using v [OF that] by (auto simp: validate_account_def rbind_eq_Inr guard_eq)
  ultimately show ?thesis by (auto simp: pos_bounded_def)
qed

lemma validate_returns:
  assumes "pos_ok env m"
  shows "pos_validate env m = Inr ()"
proof -
  have ok: "pos_conserved (pm_state m)" "pos_readable env (pm_state m)" "pos_listed m (pm_state m)" "pos_precise m" "pos_bounded (pm_state m)"
    using assms by (simp_all add: pos_ok_def)
  let ?al = "ps_allocations (pm_state m)"
  have "validate_account env m (i, a) = Inr ()" if x: "(i, a) \<in> set (ps_accounts (pm_state m))" for i a
  proof (rule ccontr)
    assume "validate_account env m (i, a) \<noteq> Inr ()"
    then obtain e where e: "validate_account env m (i, a) = Inl e" by (cases "validate_account env m (i, a)") auto
    have a: "map_of (ps_accounts (pm_state m)) i = Some a" using x conserved_parts(1) [OF ok(1)] by (simp add: bt_member_iff)
    have bnd: "book_bounded a = Inr ()" "\<And>k b. (k, b) \<in> set ?al \<Longrightarrow> book_bounded b = Inr ()" using ok(5) x by (auto simp: pos_bounded_def)
    have "\<not> (\<exists>e. rfold (sum_allocation env i) ?al (bd_zero, bd_zero, bd_zero) = Inl e)"
    proof
      assume "\<exists>e. rfold (sum_allocation env i) ?al (bd_zero, bd_zero, bd_zero) = Inl e"
      then obtain e x u where "x \<in> set ?al" "sum_allocation env i x u = Inl e"
        using rfold_error [of _ _ _ _ "\<lambda>_. True"] by metis
      moreover have "book_sound b" if "(k, b) \<in> set ?al" for k b
        using conserved_alloc_sound [OF ok(1)] conserved_parts(2) [OF ok(1)] that by (auto simp: bt_member_iff)
      ultimately show False
        using bnd(2) sound_not_invalid by (auto simp: sum_allocation_def rbind_eq_Inl split: prod.splits if_splits)
    qed
    then obtain t where t: "rfold (sum_allocation env i) ?al (bd_zero, bd_zero, bd_zero) = Inr t"
      by (cases "rfold (sum_allocation env i) ?al (bd_zero, bd_zero, bd_zero)") auto
    obtain q st c where tt: "t = (q, st, c)" by (cases t)
    have "account_matches ?al i a" using ok(1) a unfolding pos_conserved_def by blast
    then have "bd_eq env q (bk_qty a) \<and> bd_eq env st (bk_settled a) \<and> bd_eq env c (bk_cost a)"
      using sum_allocations_values [OF t [unfolded tt]] by (simp add: value_simps account_matches_def)
    then show False using e bnd(1) pos_account_returns [OF ok(1-4) a bnd(1)] by (auto simp: validate_account_def t tt)
  qed
  then have "for_each (validate_account env m) (ps_accounts (pm_state m)) = Inr ()" by (auto simp: for_each_ok)
  then show ?thesis using validate_loops [OF ok(1)] by (simp add: pos_validate_def Let_def)
qed

section \<open>Reachable managers\<close>

lemma listed_insert: "pos_listed m s \<Longrightarrow> map_of (pm_instruments m) i \<noteq> None \<Longrightarrow>
    ps_accounts s' = bt_insert i a (ps_accounts s) \<Longrightarrow> pos_listed m s'"
  by (auto simp: pos_listed_def)

lemma change_listed:
  assumes "pos_change env m s s'" "pos_listed m s"
  shows "pos_listed m s'"
  using assms(1)
proof cases
  case quiet
  then show ?thesis using assms(2) by (simp add: pos_listed_def same_books_def)
next
  case traded
  then show ?thesis by cases (use listed_insert [OF assms(2)] in auto)
next
  case held
  then show ?thesis by cases (use assms(2) in \<open>simp_all add: pos_listed_def\<close>)
next
  case settled
  then show ?thesis using listed_insert [OF assms(2)] by auto
qed

lemma begin_same: "pos_conserved (pos_begin s t) = pos_conserved s" "pos_readable env (pos_begin s t) = pos_readable env s"
  "pos_listed m (pos_begin s t) = pos_listed m s"
  by (simp_all add: pos_begin_def pos_conserved_def pos_readable_def pos_listed_def)

lemma record_same: "pos_conserved (pos_record v i g s) = pos_conserved s" "pos_readable env (pos_record v i g s) = pos_readable env s"
  "pos_listed m (pos_record v i g s) = pos_listed m s" "pos_bounded (pos_record v i g s) = pos_bounded s"
  by (simp_all add: pos_record_def pos_conserved_def pos_readable_def pos_listed_def pos_bounded_def)

lemma change_config: "pos_change env (m\<lparr>pm_state := s0\<rparr>) s s' = pos_change env m s s'"
proof -
  have sb: "settle_bucket env (m\<lparr>pm_state := s0\<rparr>) = settle_bucket env m"
  proof -
    have "cluster_id (m\<lparr>pm_state := s0\<rparr>) = cluster_id m" "pos_spec (m\<lparr>pm_state := s0\<rparr>) = pos_spec m"
      by (simp_all add: fun_eq_iff cluster_id_def pos_spec_def)
    then show ?thesis unfolding settle_bucket_def by (simp only:)
  qed
  show ?thesis by (simp add: pos_change.simps pos_trade.simps pos_hold.simps sb)
qed

text \<open>The state a command hands to the validator is conserved and readable.\<close>

lemma dispatch_ok:
  assumes "pos_dispatch env (m\<lparr>pm_state := pos_begin (pm_state m) t\<rparr>) op v t = Inr (s1, status, details)" "pos_ok env m"
  shows "pos_conserved s1 \<and> pos_readable env s1 \<and> pos_listed m s1"
proof -
  have ch: "pos_change env m (pos_begin (pm_state m) t) s1" using dispatch_change [OF assms(1)] by (simp add: change_config)
  have "pos_readable env s1" using dispatch_readable [OF assms(1)] assms(2) by (simp add: pos_ok_def begin_same)
  then show ?thesis
    using change_preserves [OF ch] change_listed [OF ch] assms(2) by (simp add: pos_ok_def begin_same)
qed

lemma candidate_ok:
  fixes command ident sig
  assumes "pos_dispatch env (m\<lparr>pm_state := pos_begin (pm_state m) t\<rparr>) op v t = Inr (s1, status, details)" "pos_ok env m"
  defines "m2 \<equiv> m\<lparr>pm_state := pos_record command ident sig (if status = PDuplicate then pm_state m else s1)\<rparr>"
  shows "pos_conserved (pm_state m2)" "pos_readable env (pm_state m2)" "pos_listed m2 (pm_state m2)" "pos_precise m2"
  using dispatch_ok [OF assms(1,2)] assms(2)
  by (auto simp: m2_def record_same pos_ok_def) (auto simp: pos_listed_def pos_precise_def)

lemma apply_ok:
  assumes "pos_apply env m v = Inr (m', oc)" "pos_ok env m"
  shows "pos_ok env m'"
  using assms(1)
proof (cases rule: pos_apply_cases)
  case recorded
  then show ?thesis
  proof cases
    case (recorded ident t op payload s1 status details u f)
    note ok = candidate_ok [OF recorded(5) assms(2), of v ident "pos_hash env v"]
    show ?thesis using ok validated_bounded [OF _ ok(1)] recorded(1,7) by (simp add: pos_ok_def)
  qed
qed (use assms(2) in simp_all)

lemma new_ok: "pos_new env config = Inr m \<Longrightarrow> pos_ok env m"
proof -
  have "yields (pos_new env config) (pos_ok env)"
    unfolding pos_new_def
  proof (intro yields_rules)
    fix r u cur cs clusters is' instruments
    assume "rfold (\<lambda>v instruments. rbind (instrument_parse env v) (\<lambda>(key, spec).
        if bt_contains instruments key then Inl (PosError ''POSITION_DUPLICATE_INSTRUMENT'')
        else Inr (bt_insert key spec instruments))) is' [] = Inr instruments"
    then have "\<forall>i spec. map_of instruments i = Some spec \<longrightarrow> in_pp spec \<le> 18"
    proof (rule rfold_invariant)
      fix x u v
      assume "\<forall>i spec. map_of u i = Some spec \<longrightarrow> in_pp spec \<le> 18"
        and "rbind (instrument_parse env x) (\<lambda>(key, spec). if bt_contains u key then Inl (PosError ''POSITION_DUPLICATE_INSTRUMENT'')
             else Inr (bt_insert key spec u)) = Inr v"
      moreover have "in_pp spec \<le> 18" if "instrument_parse env x = Inr (key, spec)" for key spec
        using that by (auto simp: instrument_parse_def rbind_eq_Inr guard_eq)
      ultimately show "\<forall>i spec. map_of v i = Some spec \<longrightarrow> in_pp spec \<le> 18"
        by (auto simp: rbind_eq_Inr guard_eq split: if_splits)
    qed simp
    then show "pos_ok env \<lparr>pm_config = config, pm_instruments = instruments, pm_currency = cur, pm_clusters = clusters,
         pm_state = pos_state_default\<rparr>"
      by (simp add: pos_ok_def pos_conserved_default pos_precise_def)
         (simp add: pos_readable_def pos_listed_def pos_bounded_def pos_state_default_def bt_values_def)
  qed
  then show "pos_new env config = Inr m \<Longrightarrow> pos_ok env m" by (rule yieldsD)
qed

end

interpretation positions: invariant_system "\<lambda>m. pos_new env config = Inr m" "pos_command env"
  "\<lambda>m. ledger env \<longrightarrow> pos_ok env m" for env config
  by unfold_locales (auto simp: pos_command_def intro: ledger.new_ok ledger.apply_ok)

end
