(* ===== verification/Position_Example.thy ===== *)
theory Position_Example
  imports Position_Safety Decimal_Values "HOL-Library.Code_Target_Nat"
begin

text \<open>
  A concrete run of the position manager: three units are bought, reserved for an order
  and sold again by its terminal fill. The environment has the reference decimal library and
  constant text and digest functions; its parser returns the checkpoint of the last state.
\<close>

interpretation ref_rounding: ledger_decimal ref_lib
proof
  fix a s
  show "bd_scale (lib_with_scale_round ref_lib a s HalfEven) = s" by (simp add: ref_lib_def Let_def)
  show "bd_coef (lib_with_scale_round ref_lib a s HalfEven) = round_spec HalfEven (bd_value a * 10 powi s)"
  proof (cases "bd_scale a \<le> s")
    case True
    then show ?thesis
      by (simp add: ref_lib_def Let_def ref_align_up [symmetric] round_spec_def)
  next
    case False
    then have "bd_value a * 10 powi s = of_int (bd_coef a) / of_int (10 ^ nat (bd_scale a - s))"
      using pow10_add [of "- bd_scale a" s] pow10_neg [of "bd_scale a - s"] pow10_nat [of "bd_scale a - s"]
      by (simp add: bd_value_def mult.assoc)
    with False show ?thesis by (simp add: ref_lib_def Let_def rounded_integer_spec)
  qed
qed

declare rbind_def [code_unfold]

lemma hex_nibble_code [code]: "hex_nibble d = (if d = 0 then 48 else if d < 10 then 48 + d else 87 + d)"
  by (simp add: hex_nibble_def)

definition px_currency :: currency where
  "px_currency = \<lparr>cu_code = str_lit ''USD'', cu_precision = 2, cu_type = Fiat\<rparr>"

definition px_spec :: json where
  "px_spec = jobject [(''schema_version'', jint 1), (''id'', JString (str_lit ''S.V'')), (''price_precision'', jint 2),
     (''quantity_precision'', jint 0), (''multiplier'', JString (str_lit ''1''))]"

definition px_scope :: "(string \<times> json) list" where
  "px_scope = [(''schema_version'', jint 1), (''engine'', JString (str_lit ''E'')), (''runtime'', JString (str_lit ''R'')),
     (''account'', JString (str_lit ''A'')), (''gateway'', JString (str_lit ''G'')), (''generation'', JString (str_lit ''1''))]"

definition px_config :: json where
  "px_config = jobject (px_scope @ [(''currency'', currency_to_record px_currency), (''clusters'', JArray [JString (str_lit ''C'')]),
     (''instruments'', JArray [px_spec])])"

definition px_command :: "string \<Rightarrow> int \<Rightarrow> string \<Rightarrow> json \<Rightarrow> json" where
  "px_command ident t op payload = jobject (px_scope @ [(''command_id'', JString (str_lit ident)), (''cause'', JString (replicate 64 48)),
     (''time'', jint t), (''op'', JString (str_lit op)), (''payload'', payload)])"

definition px_trade :: "string \<Rightarrow> int \<Rightarrow> string \<Rightarrow> string \<Rightarrow> bool \<Rightarrow> json" where
  "px_trade ident seq side price terminal = jobject [(''schema_version'', jint 1), (''instrument'', JString (str_lit ''S.V'')),
     (''cluster'', JString (str_lit ''C'')), (''order'', JString (str_lit ''O'')), (''trade'', JString (str_lit ident)),
     (''venue_trade'', JNull), (''execution'', JNull), (''sequence'', jint seq), (''side'', JString (str_lit side)),
     (''position_side'', JString (str_lit ''LONG'')), (''position_mode'', JString (str_lit ''NETTING'')),
     (''price'', JString (str_lit price)), (''quantity'', JString (str_lit ''3'')), (''fee'', JString (str_lit ''0'')),
     (''bucket'', JString (str_lit ''SETTLED'')), (''terminal_fill'', JBool terminal)]"

definition px_buy :: json where
  "px_buy = px_command ''c1'' 1 ''TRADE'' (px_trade ''T1'' 1 ''BUY'' ''2.50'' False)"

definition px_reserve :: json where
  "px_reserve = px_command ''c2'' 2 ''RESERVE'' (jobject [(''schema_version'', jint 1), (''instrument'', JString (str_lit ''S.V'')),
     (''cluster'', JString (str_lit ''C'')), (''order'', JString (str_lit ''O'')), (''quantity'', JString (str_lit ''3''))])"

definition px_sell :: json where
  "px_sell = px_command ''c3'' 3 ''TRADE'' (px_trade ''T2'' 2 ''SELL'' ''2.75'' True)"

definition px_plain :: platform where
  "px_plain = \<lparr>pf_lib = ref_lib, pf_uni = ascii_uni, pf_sha256 = (\<lambda>_. replicate 32 0),
     pf_json_text = (\<lambda>_. str_lit ''{}''), pf_json_parse = (\<lambda>_. None)\<rparr>"

definition px_env0 :: ledger_env where
  "px_env0 = \<lparr>le_pf = px_plain, le_plain = (\<lambda>_. []), le_date = (\<lambda>_. Some 2024)\<rparr>"

definition px_start :: pos_manager where
  "px_start = \<lparr>pm_config = px_config,
     pm_instruments = [(str_lit ''S.V'', \<lparr>in_pp = 2, in_qp = 0, in_multiplier = \<lparr>bd_coef = 1, bd_scale = 0\<rparr>\<rparr>)],
     pm_currency = px_currency, pm_clusters = [str_lit ''C''], pm_state = pos_state_default\<rparr>"

definition px_book :: "int \<Rightarrow> bigdec \<Rightarrow> bigdec \<Rightarrow> bigdec \<Rightarrow> nat \<Rightarrow> int \<Rightarrow> book" where
  "px_book q cost realized exact version t =
     \<lparr>bk_id = str_lit ''POS-'' @ replicate 64 48, bk_qty = \<lparr>bd_coef = q, bd_scale = 0\<rparr>, bk_settled = \<lparr>bd_coef = q, bd_scale = 0\<rparr>,
      bk_cost = cost, bk_realized = realized, bk_realized_exact = exact, bk_fees = bd_zero, bk_cycle = 1, bk_version = version,
      bk_opened = 1, bk_updated = t, bk_closed = None\<rparr>"

definition px_s1 :: pos_state where
  "px_s1 = pos_state_default\<lparr>
     ps_accounts := [(str_lit ''S.V'', px_book 3 \<lparr>bd_coef = 750, bd_scale = 2\<rparr> bd_zero bd_zero 1 1)],
     ps_allocations := [((str_lit ''C'', str_lit ''S.V''), px_book 3 \<lparr>bd_coef = 750, bd_scale = 2\<rparr> bd_zero bd_zero 1 1)],
     ps_watermarks := [(str_lit ''S.V'', 1, 1, str_lit ''T1'')],
     ps_receipts := [(str_lit ''trade:T1'', replicate 64 48)], ps_now := 1\<rparr>"

definition px_bought :: pos_manager where
  "px_bought = px_start\<lparr>pm_state := pos_record px_buy (str_lit ''c1'') (replicate 64 48) px_s1\<rparr>"

definition px_held :: "int \<Rightarrow> int \<Rightarrow> string \<Rightarrow> nat \<Rightarrow> reservation" where
  "px_held remaining consumed state version =
     \<lparr>rv_instrument = str_lit ''S.V'', rv_cluster = str_lit ''C'', rv_order = str_lit ''O'', rv_quantity = \<lparr>bd_coef = 3, bd_scale = 0\<rparr>,
      rv_remaining = \<lparr>bd_coef = remaining, bd_scale = 0\<rparr>, rv_consumed = \<lparr>bd_coef = consumed, bd_scale = 0\<rparr>, rv_released = bd_zero,
      rv_stage = str_lit ''LOCAL_ONLY'', rv_acknowledged = False, rv_state = str_lit state, rv_version = version\<rparr>"

definition px_reserved :: pos_manager where
  "px_reserved = px_bought\<lparr>pm_state := pos_record px_reserve (str_lit ''c2'') (replicate 64 48)
     ((pm_state px_bought)\<lparr>ps_reservations := [(str_lit ''O'', px_held 3 0 ''ACTIVE'' 1)], ps_now := 2\<rparr>)\<rparr>"

definition px_sold_book :: book where
  "px_sold_book = (px_book 0 \<lparr>bd_coef = 0, bd_scale = 2\<rparr> \<lparr>bd_coef = 75, bd_scale = 2\<rparr> \<lparr>bd_coef = 75, bd_scale = 2\<rparr> 2 3)\<lparr>bk_closed := Some 3\<rparr>"

definition px_sold :: pos_manager where
  "px_sold = px_reserved\<lparr>pm_state := pos_record px_sell (str_lit ''c3'') (replicate 64 48) ((pm_state px_reserved)\<lparr>
     ps_accounts := [(str_lit ''S.V'', px_sold_book)], ps_allocations := [((str_lit ''C'', str_lit ''S.V''), px_sold_book)],
     ps_reservations := [(str_lit ''O'', px_held 0 3 ''CONSUMED'' 2)],
     ps_watermarks := [(str_lit ''S.V'', 2, 3, str_lit ''T2'')],
     ps_receipts := [(str_lit ''trade:T1'', replicate 64 48), (str_lit ''trade:T2'', replicate 64 48)], ps_now := 3\<rparr>)\<rparr>"

definition px_parse :: "nat list \<Rightarrow> json option" where
  "px_parse bs = (case pos_checkpoint_record px_env0 px_sold of Inr rec \<Rightarrow> Some rec | Inl _ \<Rightarrow> None)"

definition px_env :: ledger_env where
  "px_env = px_env0\<lparr>le_pf := px_plain\<lparr>pf_json_parse := px_parse\<rparr>\<rparr>"

lemma px_new: "pos_new px_env px_config = Inr px_start"
  by code_simp

text \<open>A command is evaluated stage by stage: its envelope, the operation, the validation.\<close>

lemma pos_apply_stages:
  assumes "length (json_bytes (le_pf env) c) \<le> 16384"
    and r: "is_ok (pos_row c (pos_context @ [''command_id'', ''cause'', ''time'', ''op'', ''payload'']))"
    and "\<not> list_ex (\<lambda>k. jindex c k \<noteq> jindex (pm_config m) k) pos_context"
    and "pos_id (jindex c ''command_id'') = Inr ident" "pos_fingerprint (jindex c ''cause'') = Inr ()"
    "pos_time (jindex c ''time'') = Inr t" "pos_text (jindex c ''op'') = Inr op"
    and "map_of (ps_commands (pm_state m)) ident = None" "ps_journal (pm_state m) = [] \<or> ps_now (pm_state m) \<le> t"
    and "case pos_dispatch env (m\<lparr>pm_state := pos_begin (pm_state m) t\<rparr>) op (jindex c ''payload'') t of
        Inr (s1, status, _) \<Rightarrow> status = PApplied \<and> m\<lparr>pm_state := pos_record c ident (pos_hash env c) s1\<rparr> = m'
      | Inl _ \<Rightarrow> False"
    and "pos_validate env m' = Inr ()"
  shows "\<exists>oc. pos_apply env m c = Inr (m', oc) \<and> po_status oc = PApplied"
proof -
  obtain r where r: "pos_row c (pos_context @ [''command_id'', ''cause'', ''time'', ''op'', ''payload'']) = Inr r"
    using assms(2) by (auto simp: is_ok_def split: sum.splits)
  show ?thesis using assms(1,3-) unfolding row_index [OF r]
    by (auto simp: pos_apply_def Let_def not_less r split: sum.splits)
qed

lemma trade_stages:
  assumes "trade_read env m v = Inr ti" "known_alias (pm_state m) (ti_aliases ti) = None"
    "case map_of (ps_watermarks (pm_state m)) (ti_instrument ti) of Some w \<Rightarrow> w < (ti_sequence ti, t, ti_trade ti) | None \<Rightarrow> True"
    "case (if ti_buy ti then rbind (trade_buy env m ti t) (\<lambda>(s1, a, b). Inr (s1, a, b, bd_zero, bd_zero)) else trade_sell env m ti t) of
       Inr (s1, a, b, _, _) \<Rightarrow> trade_commit env ti t (pos_hash env (JArray [v, JString (int_text t)])) a b s1 = s2 | Inl _ \<Rightarrow> False"
    "is_ok (pos_account env (m\<lparr>pm_state := s2\<rparr>) (ti_instrument ti))"
  shows "\<exists>d. trade env m v t = Inr (s2, PApplied, d)"
  using assms by (auto simp: trade_def Let_def is_ok_def not_le [symmetric] split: sum.splits option.splits prod.splits)

lemma dispatch_trade: "pos_dispatch env m (str_lit ''TRADE'') v t = trade env m v t"
  by (simp add: pos_dispatch_def)

definition px_input :: "nat \<Rightarrow> bool \<Rightarrow> int \<Rightarrow> string \<Rightarrow> trade_input" where
  "px_input seq buy price ident =
     \<lparr>ti_instrument = str_lit ''S.V'', ti_spec = \<lparr>in_pp = 2, in_qp = 0, in_multiplier = \<lparr>bd_coef = 1, bd_scale = 0\<rparr>\<rparr>,
      ti_cluster = str_lit ''C'', ti_order = str_lit ''O'', ti_trade = str_lit ident, ti_buy = buy,
      ti_price = \<lparr>bd_coef = price, bd_scale = 2\<rparr>, ti_quantity = \<lparr>bd_coef = 3, bd_scale = 0\<rparr>, ti_fee = bd_zero,
      ti_terminal = \<not> buy, ti_settled = True, ti_sequence = seq, ti_aliases = [str_lit ''trade:'' @ str_lit ident]\<rparr>"

lemma u64_one [simp]: "as_u64 (jint 1) = Some 1" "as_u64 (jint 2) = Some 2"
  by code_simp+

lemma px_texts:
  "pos_id (JString (str_lit ''S.V'')) = Inr (str_lit ''S.V'')" "pos_id (JString (str_lit ''C'')) = Inr (str_lit ''C'')"
  "pos_id (JString (str_lit ''O'')) = Inr (str_lit ''O'')" "pos_id (JString (str_lit ''T1'')) = Inr (str_lit ''T1'')"
  "pos_id (JString (str_lit ''T2'')) = Inr (str_lit ''T2'')" "pos_text (JString (str_lit ''BUY'')) = Inr (str_lit ''BUY'')"
  "pos_text (JString (str_lit ''SELL'')) = Inr (str_lit ''SELL'')" "pos_text (JString (str_lit ''SETTLED'')) = Inr (str_lit ''SETTLED'')"
  by code_simp+

lemma px_numbers:
  "instrument_price px_env \<lparr>in_pp = 2, in_qp = 0, in_multiplier = \<lparr>bd_coef = 1, bd_scale = 0\<rparr>\<rparr> (JString (str_lit ''2.50'')) = Inr \<lparr>bd_coef = 250, bd_scale = 2\<rparr>"
  "instrument_price px_env \<lparr>in_pp = 2, in_qp = 0, in_multiplier = \<lparr>bd_coef = 1, bd_scale = 0\<rparr>\<rparr> (JString (str_lit ''2.75'')) = Inr \<lparr>bd_coef = 275, bd_scale = 2\<rparr>"
  "instrument_quantity px_env \<lparr>in_pp = 2, in_qp = 0, in_multiplier = \<lparr>bd_coef = 1, bd_scale = 0\<rparr>\<rparr> (JString (str_lit ''3'')) = Inr \<lparr>bd_coef = 3, bd_scale = 0\<rparr>"
  "pos_nonnegative px_env (JString (str_lit ''0'')) = Inr bd_zero"
  "is_ok (rbind (reparse px_env bd_zero) (\<lambda>x. pos_domain (money_new x px_currency)))"
  by code_simp+

lemma px_fee: "\<exists>x. rbind (reparse px_env bd_zero) (\<lambda>x. pos_domain (money_new x px_currency)) = Inr x"
  using px_numbers(5) by (auto simp: is_ok_def split: sum.splits)

lemma px_read:
  assumes "pm_instruments m = pm_instruments px_start" "pm_clusters m = pm_clusters px_start" "pm_currency m = px_currency"
  shows "trade_read px_env m (px_trade ''T1'' 1 ''BUY'' ''2.50'' False) = Inr (px_input 1 True 250 ''T1'')"
    "trade_read px_env m (px_trade ''T2'' 2 ''SELL'' ''2.75'' True) = Inr (px_input 2 False 275 ''T2'')"
proof -
  obtain x where x: "rbind (reparse px_env bd_zero) (\<lambda>x. pos_domain (money_new x (pm_currency m))) = Inr x"
    using px_fee assms(3) by auto
  note eval = trade_read_def px_trade_def pos_uint_def jindex_jobject row_version_def map_of_members length_members trade_fields_def
    px_texts pos_spec_def assms px_start_def cluster_id_def trade_price_def px_numbers x pos_boolean_def as_bool_def trade_alias_def px_input_def
  show "trade_read px_env m (px_trade ''T1'' 1 ''BUY'' ''2.50'' False) = Inr (px_input 1 True 250 ''T1'')"
    "trade_read px_env m (px_trade ''T2'' 2 ''SELL'' ''2.75'' True) = Inr (px_input 2 False 275 ''T2'')"
    by (simp_all add: eval cong: rbind_weak)
qed

section \<open>The run\<close>

lemma px_lib: "le_lib px_env = ref_lib"
  by (simp add: px_env_def px_env0_def px_plain_def)

lemma px_hex: "hex_bytes (replicate 32 0) = replicate 64 48"
  by code_simp

lemma px_hash: "pos_hash px_env v = replicate 64 48"
  by (simp add: pos_hash_def pos_digest_def px_env_def px_env0_def px_plain_def px_hex)

lemma ref_ops:
  "lib_add ref_lib a b = \<lparr>bd_coef = ref_align a (max (bd_scale a) (bd_scale b)) + ref_align b (max (bd_scale a) (bd_scale b)),
     bd_scale = max (bd_scale a) (bd_scale b)\<rparr>"
  "lib_sub ref_lib a b = \<lparr>bd_coef = ref_align a (max (bd_scale a) (bd_scale b)) - ref_align b (max (bd_scale a) (bd_scale b)),
     bd_scale = max (bd_scale a) (bd_scale b)\<rparr>"
  "lib_mul ref_lib a b = \<lparr>bd_coef = bd_coef a * bd_coef b, bd_scale = bd_scale a + bd_scale b\<rparr>"
  "lib_cmp ref_lib a b = cmp (ref_align a (max (bd_scale a) (bd_scale b))) (ref_align b (max (bd_scale a) (bd_scale b)))"
  by (simp_all add: ref_lib_def Let_def)

lemmas px_arith = px_lib ref_ops ref_align_def bd_less_def bd_eq_def bd_max_def bd_min_def bd_zero_def bd_is_zero_def bd_is_negative_def

lemma px_bounded:
  "bounded \<lparr>bd_coef = 0, bd_scale = 0\<rparr> False = Inr ()" "bounded \<lparr>bd_coef = 3, bd_scale = 0\<rparr> False = Inr ()"
  "bounded \<lparr>bd_coef = 750, bd_scale = 2\<rparr> False = Inr ()" "bounded \<lparr>bd_coef = 75, bd_scale = 2\<rparr> False = Inr ()"
  "bounded \<lparr>bd_coef = 0, bd_scale = 2\<rparr> False = Inr ()"
  by code_simp+

lemma px_ratio: "ratio px_env \<lparr>bd_coef = 750, bd_scale = 2\<rparr> \<lparr>bd_coef = 3, bd_scale = 0\<rparr> 2 = Inr \<lparr>bd_coef = 250, bd_scale = 2\<rparr>"
  by code_simp

lemma px_trade_buy:
  "\<exists>d. trade px_env (px_start\<lparr>pm_state := pos_begin (pm_state px_start) 1\<rparr>) (px_trade ''T1'' 1 ''BUY'' ''2.50'' False) 1
     = Inr (px_s1, PApplied, d)"
proof (rule trade_stages)
  show "trade_read px_env (px_start\<lparr>pm_state := pos_begin (pm_state px_start) 1\<rparr>) (px_trade ''T1'' 1 ''BUY'' ''2.50'' False)
      = Inr (px_input 1 True 250 ''T1'')"
    by (rule px_read) (simp_all add: px_start_def)
qed (simp_all add: px_input_def known_alias_def pos_begin_def px_start_def pos_state_default_def px_s1_def trade_buy_def buy_book_def
      book_new_def px_arith px_hash trade_commit_def touch_book_def px_book_def bind_receipts_def pos_account_def pos_spec_def
      account_available_def blocked_def bt_contains_def restrictions_def bt_values_def holds_def book_record_def px_ratio
      str_lit_def Let_def)

lemma px_round: "lib_with_scale_round ref_lib \<lparr>bd_coef = 75, bd_scale = 2\<rparr> 2 HalfEven = \<lparr>bd_coef = 75, bd_scale = 2\<rparr>"
  by code_simp

lemmas px_views = pos_account_def pos_spec_def account_available_def blocked_def bt_contains_def restrictions_def bt_values_def
  holds_def book_record_def px_ratio

lemma px_trade_sell:
  "\<exists>d. trade px_env (px_reserved\<lparr>pm_state := pos_begin (pm_state px_reserved) 3\<rparr>) (px_trade ''T2'' 2 ''SELL'' ''2.75'' True) 3
     = Inr ((pm_state px_sold)\<lparr>ps_journal := [px_buy, px_reserve], ps_sequence := 2,
              ps_commands := [(str_lit ''c1'', replicate 64 48), (str_lit ''c2'', replicate 64 48)]\<rparr>, PApplied, d)"
proof (rule trade_stages)
  show "trade_read px_env (px_reserved\<lparr>pm_state := pos_begin (pm_state px_reserved) 3\<rparr>) (px_trade ''T2'' 2 ''SELL'' ''2.75'' True)
      = Inr (px_input 2 False 275 ''T2'')"
    by (rule px_read) (simp_all add: px_start_def px_reserved_def px_bought_def)
qed (simp_all add: px_input_def known_alias_def pos_begin_def px_start_def pos_state_default_def px_s1_def px_bought_def px_reserved_def
      px_sold_def px_sold_book_def px_held_def pos_record_def trade_sell_def release_cost_def sell_book_def consume_reservation_def px_arith px_round
      px_currency_def px_hash trade_commit_def touch_book_def px_book_def bind_receipts_def px_views str_lit_def Let_def)

lemma px_size: "length (json_bytes (le_pf px_env) v) = 2"
  by (simp add: px_env_def px_env0_def px_plain_def json_bytes_def str_bytes_def str_lit_def utf8_def)

lemma px_cause: "pos_fingerprint (JString (replicate 64 48)) = Inr ()"
  by code_simp

lemma px_envelope:
  "is_ok (pos_row (px_command ident t op payload) (pos_context @ [''command_id'', ''cause'', ''time'', ''op'', ''payload'']))"
  "list_ex (\<lambda>k. jindex (px_command ident t op payload) k \<noteq> jindex px_config k) pos_context = False"
  "jindex (px_command ident t op payload) ''command_id'' = JString (str_lit ident)"
  "jindex (px_command ident t op payload) ''cause'' = JString (replicate 64 48)"
  "jindex (px_command ident t op payload) ''time'' = jint t" "jindex (px_command ident t op payload) ''op'' = JString (str_lit op)"
  "jindex (px_command ident t op payload) ''payload'' = payload"
  by (simp_all add: px_command_def px_scope_def pos_row_def row_version_def map_of_members length_members pos_context_def jindex_jobject px_config_def)

lemma px_ids:
  "pos_id (JString (str_lit ''c1'')) = Inr (str_lit ''c1'')" "pos_id (JString (str_lit ''c2'')) = Inr (str_lit ''c2'')"
  "pos_id (JString (str_lit ''c3'')) = Inr (str_lit ''c3'')" "pos_text (JString (str_lit ''TRADE'')) = Inr (str_lit ''TRADE'')"
  "pos_text (JString (str_lit ''RESERVE'')) = Inr (str_lit ''RESERVE'')" "pos_time (jint 1) = Inr 1" "pos_time (jint 2) = Inr 2" "pos_time (jint 3) = Inr 3"
  by code_simp+

lemmas px_checks = pos_validate_def for_each_def validate_account_def sum_allocation_def book_bounded_def px_bounded allocation_invalid_def
  validate_reservation_def validate_holds_def held_by_def

lemmas px_states = px_start_def px_s1_def px_bought_def px_reserved_def px_sold_def px_sold_book_def px_held_def px_book_def
  pos_record_def pos_state_default_def

lemma px_order [simp]:
  "str_lit ''c1'' < str_lit ''c2''" "str_lit ''c2'' < str_lit ''c3''" "str_lit ''c1'' < str_lit ''c3''" "\<not> str_lit ''c2'' < str_lit ''c1''"
  "\<not> str_lit ''c3'' < str_lit ''c1''" "\<not> str_lit ''c3'' < str_lit ''c2''"
  by code_simp+

lemma px_valid: "pos_validate px_env px_bought = Inr ()" "pos_validate px_env px_reserved = Inr ()" "pos_validate px_env px_sold = Inr ()"
  by (simp_all add: px_states px_checks px_views px_arith str_lit_def cong: rbind_weak)

lemma px_apply:
  assumes "case pos_dispatch px_env (m\<lparr>pm_state := pos_begin (pm_state m) t\<rparr>) (str_lit op) payload t of
        Inr (s1, status, _) \<Rightarrow> status = PApplied \<and> m\<lparr>pm_state := pos_record (px_command ident t op payload) (str_lit ident) (replicate 64 48) s1\<rparr> = m'
      | Inl _ \<Rightarrow> False" "pos_validate px_env m' = Inr ()" "pm_config m = px_config"
    "pos_id (JString (str_lit ident)) = Inr (str_lit ident)" "pos_time (jint t) = Inr t" "pos_text (JString (str_lit op)) = Inr (str_lit op)"
    "map_of (ps_commands (pm_state m)) (str_lit ident) = None" "ps_journal (pm_state m) = [] \<or> ps_now (pm_state m) \<le> t"
  shows "\<exists>oc. pos_apply px_env m (px_command ident t op payload) = Inr (m', oc) \<and> po_status oc = PApplied"
  by (rule pos_apply_stages [where ident = "str_lit ident" and t = t and op = "str_lit op"])
     (use assms in \<open>simp_all add: px_size px_envelope px_cause px_hash cong: sum.case_cong prod.case_cong\<close>)

lemma px_step_buy: "\<exists>oc. pos_apply px_env px_start px_buy = Inr (px_bought, oc) \<and> po_status oc = PApplied"
  unfolding px_buy_def using px_trade_buy
  by (intro px_apply px_valid px_ids) (auto simp: dispatch_trade px_bought_def px_buy_def, simp_all add: px_states)

lemma px_reserve_dispatch:
  "case pos_dispatch px_env (px_bought\<lparr>pm_state := pos_begin (pm_state px_bought) 2\<rparr>) (str_lit ''RESERVE'') (jobject [(''schema_version'', jint 1),
      (''instrument'', JString (str_lit ''S.V'')), (''cluster'', JString (str_lit ''C'')), (''order'', JString (str_lit ''O'')),
      (''quantity'', JString (str_lit ''3''))]) 2 of
     Inr (s1, status, _) \<Rightarrow> status = PApplied \<and> s1 = (pm_state px_bought)\<lparr>ps_reservations := [(str_lit ''O'', px_held 3 0 ''ACTIVE'' 1)], ps_now := 2\<rparr>
   | Inl _ \<Rightarrow> False"
  by (simp add: pos_begin_def pos_dispatch_def reserve_command_def reserve_def pos_row_def row_version_def map_of_members
       length_members px_texts cluster_id_def pos_spec_def px_start_def px_numbers cluster_available_def px_bought_def px_s1_def pos_record_def
       pos_state_default_def px_views px_arith px_book_def px_held_def Let_def cong: rbind_weak)

lemma px_step_reserve: "\<exists>oc. pos_apply px_env px_bought px_reserve = Inr (px_reserved, oc) \<and> po_status oc = PApplied"
  unfolding px_reserve_def using px_reserve_dispatch
  by (intro px_apply px_valid px_ids) (auto simp: px_reserved_def px_reserve_def split: sum.splits, simp_all add: px_states)

lemma px_step_sell: "\<exists>oc. pos_apply px_env px_reserved px_sell = Inr (px_sold, oc) \<and> po_status oc = PApplied"
  unfolding px_sell_def using px_trade_sell
  by (intro px_apply px_valid px_ids) (auto simp: dispatch_trade, simp_all add: px_states px_sell_def)

end
