(* ===== verification/Position_Properties.thy ===== *)
theory Position_Properties
  imports Position_Example Journal
begin

text \<open>
  Properties of the position ledger: conservation over every sequence of commands, the
  redundancy of the conservation checks, the cost a close releases, booking each trade once,
  rounding of realized profit, recovery, refinement of an abstract ledger, and that every
  reservation can be released.
\<close>

section \<open>Recovery\<close>

definition pos_accepted :: "pos_manager \<Rightarrow> pos_manager \<Rightarrow> pos_outcome \<Rightarrow> bool" where
  "pos_accepted m m' oc \<longleftrightarrow> po_status oc \<in> {PApplied, PStale, PDuplicate}
     \<and> length (ps_journal (pm_state m')) = length (ps_journal (pm_state m)) + 1"

lemma pos_replay_eq_journal:
  "pos_replay env = replay_journal (pos_apply env) pos_accepted (PosError ''POSITION_CHECKPOINT_REPLAY'')"
proof (intro ext)
  fix m xs
  show "pos_replay env m xs = replay_journal (pos_apply env) pos_accepted (PosError ''POSITION_CHECKPOINT_REPLAY'') m xs"
    by (induction xs arbitrary: m) (auto simp: rbind_def pos_accepted_def split: sum.splits)
qed

lemma dispatch_journal:
  assumes "pos_dispatch env m op v t = Inr (s', status, details)"
  shows "ps_journal s' = ps_journal (pm_state m)"
proof -
  let ?P = "\<lambda>(s', _, _). ps_journal s' = ps_journal (pm_state m)"
  have "yields (trade_buy env m ti t) (\<lambda>(s1, _). ps_journal s1 = ps_journal (pm_state m))"
    "yields (trade_sell env m ti t) (\<lambda>(s1, _). ps_journal s1 = ps_journal (pm_state m))" for ti
    unfolding trade_buy_def trade_sell_def Let_def by (intro yields_rules; simp)+
  then have move: "yields (if ti_buy ti then rbind (trade_buy env m ti t) (\<lambda>(s1, a, b). Inr (s1, a, b, bd_zero, bd_zero))
      else trade_sell env m ti t) (\<lambda>(s1, _). ps_journal s1 = ps_journal (pm_state m))" for ti
    by (fastforce simp: yields_def rbind_eq_Inr)
  have "yields (trade env m v t) ?P"
    unfolding trade_def Let_def
    by (intro yields_rules) (auto simp: trade_commit_def Let_def dest!: yieldsD [OF move])
  moreover have "yields (pos_settle env m v t) ?P" "yields (add_restriction env m v) ?P" "yields (remove_restriction m v) ?P"
    "yields (reserve_command env m op v) ?P" "yields (reconcile env m v t) ?P"
    unfolding pos_settle_def add_restriction_def remove_restriction_def reserve_command_def reserve_def change_reservation_def
      reconcile_def Let_def by (intro yields_rules; simp)+
  ultimately have "yields (pos_dispatch env m op v t) ?P"
    unfolding pos_dispatch_def administration_def by (intro yields_if yields_rbind yields_Inl) (auto intro: yields_Inr)
  then show ?thesis using assms by (auto simp: yields_def)
qed

lemma new_empty: "pos_new env c = Inr m \<Longrightarrow> pm_config m = c \<and> pm_state m = pos_state_default"
proof -
  have "yields (pos_new env c) (\<lambda>m. pm_config m = c \<and> pm_state m = pos_state_default)"
    unfolding pos_new_def by (intro yields_rules) simp
  then show "pos_new env c = Inr m \<Longrightarrow> pm_config m = c \<and> pm_state m = pos_state_default" by (rule yieldsD)
qed

lemma recorded_journal:
  assumes "pos_recorded env m v m' oc"
  shows "po_status oc \<noteq> PConflict" "pm_config m' = pm_config m" "pm_instruments m' = pm_instruments m"
    "pm_clusters m' = pm_clusters m" "pm_currency m' = pm_currency m" "ps_journal (pm_state m') = ps_journal (pm_state m) @ [v]"
  using assms by (auto elim!: pos_recorded.cases dest!: dispatch_journal simp: pos_record_def pos_begin_def)

interpretation position_owner: journaled_owner "pos_new env" "pos_apply env" pos_accepted pm_config "\<lambda>m. ps_journal (pm_state m)"
  "PosError ''POSITION_CHECKPOINT_REPLAY''" for env
proof
  fix m v m' oc
  assume "pos_apply env m v = Inr (m', oc)"
  then show "m' = m \<or> pos_accepted m m' oc \<and> pm_config m' = pm_config m \<and> ps_journal (pm_state m') = ps_journal (pm_state m) @ [v]"
    by (cases rule: pos_apply_cases) (auto simp: pos_accepted_def dest: recorded_journal intro: pos_status.exhaust [of "po_status oc"])
qed (auto dest: new_empty simp: pos_state_default_def)

lemma pos_restore_checkpoint:
  assumes "position_owner.determined env config m" "pos_checkpoint_record env m = Inr rec" "pm_config m0 = config"
    "length (pf_sha256 (le_pf env) (json_bytes (le_pf env) rec)) = 32" "\<forall>b \<in> set (pf_sha256 (le_pf env) (json_bytes (le_pf env) rec)). b < 256"
    "pf_json_parse (le_pf env) (json_bytes (le_pf env) rec) = Some rec"
  shows "pos_restore env m0 (json_bytes (le_pf env) rec) (pos_digest env (json_bytes (le_pf env) rec)) = Inr m"
proof -
  obtain st where st: "pos_state_record env m = Inr st"
    and rec: "rec = jobject [(''schema_version'', jint 2), (''config'', pm_config m), (''journal'', JArray (ps_journal (pm_state m))), (''state'', st)]"
    using assms(2) by (auto simp: pos_checkpoint_record_def rbind_eq_Inr)
  obtain m1 where m1: "pos_new env config = Inr m1" "pos_replay env m1 (ps_journal (pm_state m)) = Inr m" "pm_config m = config"
    using assms(1) by (auto simp: position_owner.determined_def pos_replay_eq_journal)
  have two: "as_u64 (jint 2) = Some 2" by code_simp
  have row: "checkpoint_row rec [''config'', ''journal'', ''state''] = Inr (members [(''schema_version'', jint 2), (''config'', pm_config m),
      (''journal'', JArray (ps_journal (pm_state m))), (''state'', st)])"
    unfolding rec checkpoint_row_def by (simp add: map_of_members length_members two)
  show ?thesis
    using hex_bytes_shape [OF assms(4,5)] row st m1 assms(3,6)
    by (simp add: pos_restore_def pos_fingerprint_def pos_text_def pos_digest_def as_array_def as_str_def)
qed

section \<open>Each trade once\<close>

lemma known_alias_None: "known_alias s as = None \<longleftrightarrow> (\<forall>a \<in> set as. map_of (ps_receipts s) a = None)"
proof (induction as)
  case (Cons a as)
  then show ?case by (cases "map_of (ps_receipts s) a") (auto simp: known_alias_def)
qed (simp add: known_alias_def)

lemma known_alias_bound:
  "as \<noteq> [] \<Longrightarrow> \<forall>a \<in> set as. map_of (ps_receipts s) a = Some g \<Longrightarrow> known_alias s as = Some g"
  by (cases as) (auto simp: known_alias_def)

lemma map_of_bind: "map_of (bind_receipts as g rs) a = (if a \<in> set as then Some g else map_of rs a)"
  by (induction as arbitrary: rs) (auto simp: bind_receipts_def)

definition receipts_grow :: "pos_state \<Rightarrow> pos_state \<Rightarrow> bool" where
  "receipts_grow s s' \<longleftrightarrow> map_of (ps_receipts s) \<subseteq>\<^sub>m map_of (ps_receipts s')"

lemma receipts_grow_same [simp]: "ps_receipts s' = ps_receipts s \<Longrightarrow> receipts_grow s s'"
  by (simp add: receipts_grow_def)

text \<open>What a trade does to the receipts: it binds every alias of the trade to its signature.\<close>

lemma trade_receipts:
  "yields (trade env m v t) (\<lambda>(s', status, _). \<exists>ti. trade_read env m v = Inr ti
     \<and> (\<forall>old. known_alias (pm_state m) (ti_aliases ti) = Some old \<longrightarrow>
          s' = pm_state m \<and> status = (if old = pos_hash env (JArray [v, JString (int_text t)]) then PDuplicate else PConflict))
     \<and> (known_alias (pm_state m) (ti_aliases ti) = None \<longrightarrow>
          ps_receipts s' = bind_receipts (ti_aliases ti) (pos_hash env (JArray [v, JString (int_text t)])) (ps_receipts (pm_state m))))"
proof -
  have "yields (trade_buy env m ti t) (\<lambda>(s1, _). ps_receipts s1 = ps_receipts (pm_state m))"
    "yields (trade_sell env m ti t) (\<lambda>(s1, _). ps_receipts s1 = ps_receipts (pm_state m))" for ti
    unfolding trade_buy_def trade_sell_def Let_def by (intro yields_rules; simp)+
  then have move: "yields (if ti_buy ti then rbind (trade_buy env m ti t) (\<lambda>(s1, a, b). Inr (s1, a, b, bd_zero, bd_zero))
      else trade_sell env m ti t) (\<lambda>(s1, _). ps_receipts s1 = ps_receipts (pm_state m))" for ti
    by (fastforce simp: yields_def rbind_eq_Inr)
  show ?thesis
    unfolding trade_def Let_def
    by (intro yields_rules) (auto simp: trade_commit_def Let_def dest!: yieldsD [OF move])
qed

lemma trade_cases:
  assumes "trade env m v t = Inr (s1, st, d)"
  obtains (known) ti old where "trade_read env m v = Inr ti" "known_alias (pm_state m) (ti_aliases ti) = Some old" "s1 = pm_state m"
      "st = (if old = pos_hash env (JArray [v, JString (int_text t)]) then PDuplicate else PConflict)"
    | (fresh) ti where "trade_read env m v = Inr ti" "known_alias (pm_state m) (ti_aliases ti) = None"
      "ps_receipts s1 = bind_receipts (ti_aliases ti) (pos_hash env (JArray [v, JString (int_text t)])) (ps_receipts (pm_state m))"
proof -
  from yieldsD [OF trade_receipts assms, unfolded prod.case] obtain ti where ti: "trade_read env m v = Inr ti"
    and rest: "(\<forall>old. known_alias (pm_state m) (ti_aliases ti) = Some old \<longrightarrow>
          s1 = pm_state m \<and> st = (if old = pos_hash env (JArray [v, JString (int_text t)]) then PDuplicate else PConflict))
     \<and> (known_alias (pm_state m) (ti_aliases ti) = None \<longrightarrow>
          ps_receipts s1 = bind_receipts (ti_aliases ti) (pos_hash env (JArray [v, JString (int_text t)])) (ps_receipts (pm_state m)))"
    by (elim exE conjE) (rule that, assumption, intro conjI)
  show thesis using known [OF ti] fresh [OF ti] rest by (cases "known_alias (pm_state m) (ti_aliases ti)") simp_all
qed

lemma trade_read_aliases: "trade_read env m v = Inr ti \<Longrightarrow> ti_aliases ti \<noteq> []"
proof -
  have "yields (trade_read env m v) (\<lambda>ti. ti_aliases ti \<noteq> [])"
    unfolding trade_read_def by (intro yields_rules) simp
  then show "trade_read env m v = Inr ti \<Longrightarrow> ti_aliases ti \<noteq> []" by (rule yieldsD)
qed

lemma trade_read_context:
  assumes "pm_instruments m' = pm_instruments m" "pm_clusters m' = pm_clusters m" "pm_currency m' = pm_currency m"
  shows "trade_read env m' v = trade_read env m v"
proof -
  have "pos_spec m' = pos_spec m" "cluster_id m' = cluster_id m" using assms by (simp_all add: fun_eq_iff pos_spec_def cluster_id_def)
  then show ?thesis unfolding trade_read_def assms(3) by (simp only:)
qed

lemma dispatch_receipts:
  assumes "pos_dispatch env m op v t = Inr (s', status, details)"
  shows "receipts_grow (pm_state m) s'"
proof -
  let ?P = "\<lambda>(s', _, _). receipts_grow (pm_state m) s'"
  have "receipts_grow (pm_state m) s1" if tr: "trade env m v t = Inr (s1, st, d)" for s1 st d
  proof -
    from tr show ?thesis
      by (cases rule: trade_cases) (fastforce simp: receipts_grow_def map_le_def map_of_bind known_alias_None)+
  qed
  then have "yields (trade env m v t) ?P" by (auto simp: yields_def)
  moreover have "yields (pos_settle env m v t) ?P" "yields (reconcile env m v t) ?P"
    unfolding pos_settle_def reconcile_def Let_def
    by (intro yields_rules; auto simp: receipts_grow_def map_le_def dom_def)+
  moreover have "yields (add_restriction env m v) ?P" "yields (remove_restriction m v) ?P" "yields (reserve_command env m op v) ?P"
    unfolding add_restriction_def remove_restriction_def reserve_command_def reserve_def change_reservation_def Let_def
    by (intro yields_rules; simp)+
  ultimately have "yields (pos_dispatch env m op v t) ?P"
    unfolding pos_dispatch_def administration_def by (intro yields_if yields_rbind yields_Inl) (auto intro: yields_Inr)
  then show ?thesis using assms by (auto simp: yields_def)
qed

definition later :: "pos_manager \<Rightarrow> pos_manager \<Rightarrow> bool" where
  "later m m' \<longleftrightarrow> receipts_grow (pm_state m) (pm_state m') \<and> pm_instruments m' = pm_instruments m
     \<and> pm_clusters m' = pm_clusters m \<and> pm_currency m' = pm_currency m"

lemma command_later: "pos_command env m m' \<Longrightarrow> later m m'"
proof -
  have "later m m'" if "pos_apply env m v = Inr (m', oc)" for v oc
    using that
  proof (cases rule: pos_apply_cases)
    case recorded
    then show ?thesis
    proof cases
      case (recorded ident t op payload s1 status details u f)
      then show ?thesis using dispatch_receipts [OF recorded(5)]
        by (auto simp: later_def pos_record_def receipts_grow_def pos_begin_def)
    qed
  qed (simp_all add: later_def)
  then show "pos_command env m m' \<Longrightarrow> later m m'" by (auto simp: pos_command_def)
qed

lemma run_later: "(pos_command env)\<^sup>*\<^sup>* m m' \<Longrightarrow> later m m'"
proof (induction rule: rtranclp_induct)
  case (step y z)
  then show ?case using command_later [OF step(2)] by (auto simp: later_def receipts_grow_def intro: map_le_trans)
qed (simp add: later_def)

lemma trade_rebooked:
  assumes "pos_recorded env m v m' oc" "po_status oc \<in> {PApplied, PStale}" "jindex v ''op'' = JString (str_lit ''TRADE'')"
  obtains t ti where "pos_time (jindex v ''time'') = Inr t" "trade_read env m (jindex v ''payload'') = Inr ti" "ti_aliases ti \<noteq> []"
    "\<forall>a \<in> set (ti_aliases ti). map_of (ps_receipts (pm_state m')) a
       = Some (pos_hash env (JArray [jindex v ''payload'', JString (int_text t)]))"
  using assms(1)
proof cases
  case (recorded ident t op payload s1 status details u f)
  let ?m = "m\<lparr>pm_state := pos_begin (pm_state m) t\<rparr>"
  obtain r where r: "pos_row v (pos_context @ [''command_id'', ''cause'', ''time'', ''op'', ''payload'']) = Inr r"
    "pos_time (jfield r ''time'') = Inr t" "pos_text (jfield r ''op'') = Inr op" "payload = jfield r ''payload''"
    using recorded(3) by (auto simp: pos_header_def)
  note ix = row_index [OF r(1)]
  have op: "op = str_lit ''TRADE''" using assms(3) r(3) ix by (auto simp: pos_text_def as_str_def rbind_eq_Inr ok_or_eq split: if_splits)
  have tr: "trade env ?m payload t = Inr (s1, status, details)" using recorded(5) by (simp add: op pos_dispatch_def)
  have st: "status \<in> {PApplied, PStale}" using assms(2) recorded(2) by simp
  from tr obtain ti where ti: "trade_read env ?m payload = Inr ti"
    "ps_receipts s1 = bind_receipts (ti_aliases ti) (pos_hash env (JArray [payload, JString (int_text t)])) (ps_receipts (pm_state ?m))"
    by (cases rule: trade_cases) (use st in \<open>auto split: if_splits\<close>)
  then have "\<forall>a \<in> set (ti_aliases ti). map_of (ps_receipts (pm_state m')) a = Some (pos_hash env (JArray [payload, JString (int_text t)]))"
    using recorded(1) st by (auto simp: pos_record_def map_of_bind)
  then show ?thesis
    using that [of t ti] r ix ti(1) trade_read_aliases [OF ti(1)] trade_read_context [of ?m m env] by simp
qed

lemma trade_again:
  assumes "pos_recorded env m v m' oc" "jindex v ''op'' = JString (str_lit ''TRADE'')"
    "pos_time (jindex v ''time'') = Inr t" "trade_read env m (jindex v ''payload'') = Inr ti" "ti_aliases ti \<noteq> []"
    "\<forall>a \<in> set (ti_aliases ti). map_of (ps_receipts (pm_state m)) a = Some (pos_hash env (JArray [jindex v ''payload'', JString (int_text t)]))"
  shows "po_status oc = PDuplicate \<and> same_books (pm_state m) (pm_state m')"
  using assms(1)
proof cases
  case (recorded ident t' op payload s1 status details u f)
  let ?m = "m\<lparr>pm_state := pos_begin (pm_state m) t'\<rparr>"
  obtain r where r: "pos_row v (pos_context @ [''command_id'', ''cause'', ''time'', ''op'', ''payload'']) = Inr r"
    "pos_time (jfield r ''time'') = Inr t'" "pos_text (jfield r ''op'') = Inr op" "payload = jfield r ''payload''"
    using recorded(3) by (auto simp: pos_header_def)
  note ix = row_index [OF r(1)]
  have op: "op = str_lit ''TRADE''" using assms(2) r(3) ix by (auto simp: pos_text_def as_str_def rbind_eq_Inr ok_or_eq split: if_splits)
  have t: "t' = t" using assms(3) r(2) ix by simp
  have tr: "trade env ?m payload t = Inr (s1, status, details)" using recorded(5) by (simp add: op pos_dispatch_def t)
  have rd: "trade_read env ?m payload = Inr ti" using assms(4) r(4) ix trade_read_context [of ?m m env] by simp
  have "known_alias (pm_state ?m) (ti_aliases ti) = Some (pos_hash env (JArray [payload, JString (int_text t)]))"
    using assms(5,6) r(4) ix by (intro known_alias_bound) (simp_all add: pos_begin_def)
  with tr rd have "status = PDuplicate" by (cases rule: trade_cases) auto
  then show ?thesis using recorded(1,2) by (simp add: same_books_def pos_record_def)
qed

section \<open>The example run\<close>

lemma px_ledger: "ledger px_env"
  by (simp add: ledger_def px_lib ref_rounding.ledger_decimal_axioms)

lemma px_commands: "pos_command px_env px_start px_bought" "pos_command px_env px_bought px_reserved" "pos_command px_env px_reserved px_sold"
  using px_step_buy px_step_reserve px_step_sell unfolding pos_command_def by blast+

lemma px_reachable:
  "positions_reachable px_env px_config px_start" "positions_reachable px_env px_config px_bought"
  "positions_reachable px_env px_config px_reserved" "positions_reachable px_env px_config px_sold"
proof -
  show a: "positions_reachable px_env px_config px_start" by (rule reach_init) (rule px_new)
  show b: "positions_reachable px_env px_config px_bought" by (rule reach_step [OF a px_commands(1)])
  show c: "positions_reachable px_env px_config px_reserved" by (rule reach_step [OF b px_commands(2)])
  show "positions_reachable px_env px_config px_sold" by (rule reach_step [OF c px_commands(3)])
qed

section \<open>Theorems\<close>

text \<open>
  C7: Conservation. In every manager reachable from a fresh one through any sequence of
  commands, each allocation is sound (settled between zero and the quantity, a cost that is not
  negative and is zero when flat), each account is the sum of its allocations in quantity,
  settled quantity and cost, each reservation splits its quantity into remaining, consumed and
  released parts, and what is held for the orders of a cluster never exceeds its settled holding.
\<close>
theorem positions_reachable_conserved:
  assumes "ledger env" "positions_reachable env config m"
  shows "pos_conserved (pm_state m)"
  using positions.reachable_inv [OF assms(2)] assms(1) by (simp add: pos_ok_def)

theorem positions_reachable_conserved_witness:
  "pos_conserved (pm_state px_sold) \<and> bt_keys (ps_accounts (pm_state px_sold)) = [str_lit ''S.V'']"
  using positions_reachable_conserved [OF px_ledger px_reachable(4)] by (simp add: px_states bt_keys_def)

text \<open>
  C8: The conservation checks never fire. Whatever command is dispatched on a reachable manager,
  the validation of the resulting candidate either succeeds or reports a number outside the
  arithmetic bounds: the errors for conservation, allocation, reservation and hold invariants
  and the panics of the views it builds cannot occur.
\<close>
theorem position_validation_redundant:
  assumes "ledger env" "positions_reachable env config m"
    "pos_dispatch env (m\<lparr>pm_state := pos_begin (pm_state m) t\<rparr>) op payload t = Inr (s1, status, details)"
  shows "pos_validate env (m\<lparr>pm_state := pos_record v ident (pos_hash env v) (if status = PDuplicate then pm_state m else s1)\<rparr>)
    \<in> {Inr (), Inl (PosError ''POSITION_ARITHMETIC_BOUND'')}"
proof -
  have ok: "pos_ok env m" using positions.reachable_inv [OF assms(2)] assms(1) by simp
  note c = ledger.candidate_ok [OF assms(1,3) ok, of v ident "pos_hash env v"]
  show ?thesis
    using ledger.validate_error [OF assms(1) c]
    by (cases "pos_validate env (m\<lparr>pm_state := pos_record v ident (pos_hash env v) (if status = PDuplicate then pm_state m else s1)\<rparr>)") auto
qed

theorem position_validation_redundant_witness:
  "\<exists>s1. pos_validate px_env (px_start\<lparr>pm_state := pos_record px_buy (str_lit ''c1'') (pos_hash px_env px_buy) s1\<rparr>)
     \<in> {Inr (), Inl (PosError ''POSITION_ARITHMETIC_BOUND'')} \<and> ps_accounts s1 \<noteq> []"
proof -
  obtain d where d: "pos_dispatch px_env (px_start\<lparr>pm_state := pos_begin (pm_state px_start) 1\<rparr>) (str_lit ''TRADE'')
      (px_trade ''T1'' 1 ''BUY'' ''2.50'' False) 1 = Inr (px_s1, PApplied, d)"
    using px_trade_buy by (auto simp: dispatch_trade)
  show ?thesis
    using position_validation_redundant [OF px_ledger px_reachable(1) d, of px_buy "str_lit ''c1''"]
    by (intro exI [of _ px_s1]) (simp add: px_s1_def)
qed

text \<open>
  The views of a reachable manager are total: its state record, which runs every account and
  allocation view and unwraps each of them, is produced without an error or a panic, and so is
  its checkpoint record.
\<close>
theorem position_views_total:
  assumes "ledger env" "positions_reachable env config m"
  shows "(\<exists>st. pos_state_record env m = Inr st) \<and> (\<exists>x. current_exposure env m = Inr x) \<and> (\<exists>rec. pos_checkpoint_record env m = Inr rec)"
proof -
  have ok: "pos_ok env m" using positions.reachable_inv [OF assms(2)] assms(1) by simp
  show ?thesis
    using ledger.state_record_returns [OF assms(1) ok] ledger.exposure_returns [OF assms(1) ok]
    by (auto simp: pos_checkpoint_record_def current_exposure_def)
qed

theorem position_views_total_witness: "\<exists>st. pos_state_record px_env px_sold = Inr st"
  using position_views_total [OF px_ledger px_reachable(4)] by simp

text \<open>
  The cost a close releases. Closing the whole quantity releases the whole cost; closing a
  part releases an amount between zero and the cost that differs from the exact proportional
  share by at most half a unit in its thirty-sixth significant digit.
\<close>
theorem release_cost_correct:
  assumes "ledger env" "release_cost env cost qty filled qp = Inr r" "0 < bd_value filled" "bd_value filled \<le> bd_value qty"
    "0 \<le> bd_value cost"
  shows "0 \<le> bd_value r \<and> bd_value r \<le> bd_value cost \<and> (bd_value filled = bd_value qty \<longrightarrow> r = cost)
    \<and> (let share = bd_value cost * bd_value filled / bd_value qty in \<bar>bd_value r - share\<bar> \<le> share / 2 * 10 powi (- 35))"
proof (cases "bd_value filled = bd_value qty")
  case True
  moreover have "bd_value qty \<noteq> 0" using assms(3,4) by (simp del: bd_value_eq_0)
  ultimately show ?thesis using assms ledger.release_cost_whole [OF assms(1) True, of cost qp] by (simp del: bd_value_eq_0)
next
  case False
  with assms(4) have "bd_value filled < bd_value qty" by simp
  then show ?thesis using ledger.release_cost_part [OF assms(1,2,3) _ assms(5)] False by (simp add: Let_def)
qed

theorem release_cost_correct_witness:
  "\<exists>r. release_cost px_env \<lparr>bd_coef = 750, bd_scale = 2\<rparr> \<lparr>bd_coef = 3, bd_scale = 0\<rparr> \<lparr>bd_coef = 1, bd_scale = 0\<rparr> 0 = Inr r
     \<and> bd_value r \<le> bd_value \<lparr>bd_coef = 750, bd_scale = 2\<rparr>"
proof -
  have "is_ok (release_cost px_env \<lparr>bd_coef = 750, bd_scale = 2\<rparr> \<lparr>bd_coef = 3, bd_scale = 0\<rparr> \<lparr>bd_coef = 1, bd_scale = 0\<rparr> 0)" by code_simp
  then obtain r where r: "release_cost px_env \<lparr>bd_coef = 750, bd_scale = 2\<rparr> \<lparr>bd_coef = 3, bd_scale = 0\<rparr> \<lparr>bd_coef = 1, bd_scale = 0\<rparr> 0 = Inr r"
    by (auto simp: is_ok_def split: sum.splits)
  then show ?thesis using release_cost_correct [OF px_ledger r] by (simp add: bd_value_def)
qed

text \<open>
  C12: Recovery is exact. The checkpoint a reachable manager writes is accepted by every fresh
  manager of the same configuration and restores exactly the manager that wrote it, provided
  the parser reads back what the JSON writer wrote.
\<close>
theorem position_checkpoint_restores:
  assumes "positions_reachable env config m" "pos_checkpoint_record env m = Inr rec" "pm_config m0 = config"
    "length (pf_sha256 (le_pf env) (json_bytes (le_pf env) rec)) = 32" "\<forall>b \<in> set (pf_sha256 (le_pf env) (json_bytes (le_pf env) rec)). b < 256"
    "pf_json_parse (le_pf env) (json_bytes (le_pf env) rec) = Some rec"
  shows "pos_restore env m0 (json_bytes (le_pf env) rec) (pos_digest env (json_bytes (le_pf env) rec)) = Inr m"
proof -
  have "position_owner.determined env config m"
    using assms(1) by (intro position_owner.reachable_determined) (simp add: pos_command_def [abs_def])
  then show ?thesis using assms(2-6) by (rule pos_restore_checkpoint)
qed

text \<open>The views read the decimal library only, so the parser of the environment does not matter to them.\<close>

lemma views_parser:
  fixes env f
  defines "env' \<equiv> env\<lparr>le_pf := (le_pf env)\<lparr>pf_json_parse := f\<rparr>\<rparr>"
  shows "pos_checkpoint_record env' = pos_checkpoint_record env"
proof -
  have lib: "bd_less env' = bd_less env" "bd_eq env' = bd_eq env" "le_lib env' = le_lib env" "le_plain env' = le_plain env"
    "pf_uni (le_pf env') = pf_uni (le_pf env)" by (simp_all add: env'_def bd_less_def [abs_def] bd_eq_def [abs_def])
  have ext: "bd_max env' = bd_max env" "bd_min env' = bd_min env" unfolding bd_max_def [abs_def] bd_min_def [abs_def] lib by (rule refl)+
  have num: "number env' = number env" "pos_nonnegative env' = pos_nonnegative env" "ratio env' = ratio env"
    unfolding number_def [abs_def] pos_nonnegative_def [abs_def] pos_decimal_def [abs_def] ratio_def [abs_def] lib by (rule refl)+
  have av: "holds env' = holds env" "account_available env' = account_available env" "cluster_available env' = cluster_available env"
    unfolding cluster_available_def [abs_def] account_available_def [abs_def] restrictions_def [abs_def] holds_def [abs_def] lib num ext
    by (rule refl)+
  have rows: "book_record env' = book_record env" "reservation_record env' = reservation_record env"
    unfolding book_record_def [abs_def] reservation_record_def [abs_def] lib num by (rule refl)+
  have "account_row env' = account_row env" "allocation_row env' = allocation_row env"
    unfolding account_row_def [abs_def] allocation_row_def [abs_def] pos_account_def [abs_def] av rows by (rule refl)+
  then show ?thesis unfolding pos_checkpoint_record_def [abs_def] pos_state_record_def [abs_def] current_exposure_rows_def [abs_def] rows by simp
qed

theorem position_checkpoint_restores_witness:
  "\<exists>rec. pos_checkpoint_record px_env px_sold = Inr rec
     \<and> pos_restore px_env px_start (json_bytes (le_pf px_env) rec) (pos_digest px_env (json_bytes (le_pf px_env) rec)) = Inr px_sold"
proof -
  have same: "pos_checkpoint_record px_env = pos_checkpoint_record px_env0"
    using views_parser [where env = px_env0 and f = px_parse] by (simp add: px_env_def px_env0_def)
  have "pos_ok px_env px_sold" using positions.reachable_inv [OF px_reachable(4)] px_ledger by simp
  from ledger.state_record_returns [OF px_ledger this] obtain rec where rec: "pos_checkpoint_record px_env px_sold = Inr rec"
    by (auto simp: pos_checkpoint_record_def)
  then have "px_parse bs = Some rec" for bs by (simp add: px_parse_def same)
  then have "pos_restore px_env px_start (json_bytes (le_pf px_env) rec) (pos_digest px_env (json_bytes (le_pf px_env) rec)) = Inr px_sold"
    by (intro position_checkpoint_restores [OF px_reachable(4) rec]) (simp_all add: px_start_def px_env_def px_env0_def px_plain_def)
  with rec show ?thesis by blast
qed

text \<open>
  C13: Each trade is booked once. After a trade command was applied or recorded as stale, any later command
  that reports the same trade (the same payload and time, under whatever command id) is a
  duplicate or a conflict, and leaves every account, allocation and reservation as it was,
  however many other commands ran in between.
\<close>
theorem trade_booked_once:
  assumes "pos_apply env m v = Inr (m1, oc)" "po_status oc \<in> {PApplied, PStale}" "jindex v ''op'' = JString (str_lit ''TRADE'')"
    "(pos_command env)\<^sup>*\<^sup>* m1 m2" "pos_apply env m2 w = Inr (m3, oc')"
    "jindex w ''op'' = jindex v ''op''" "jindex w ''payload'' = jindex v ''payload''" "jindex w ''time'' = jindex v ''time''"
  shows "po_status oc' \<in> {PDuplicate, PConflict} \<and> same_books (pm_state m2) (pm_state m3)"
proof -
  from assms(1) have rec: "pos_recorded env m v m1 oc" by (cases rule: pos_apply_cases) (use assms(2) in auto)
  obtain t ti where t: "pos_time (jindex v ''time'') = Inr t" "trade_read env m (jindex v ''payload'') = Inr ti" "ti_aliases ti \<noteq> []"
    "\<forall>a \<in> set (ti_aliases ti). map_of (ps_receipts (pm_state m1)) a = Some (pos_hash env (JArray [jindex v ''payload'', JString (int_text t)]))"
    using trade_rebooked [OF rec assms(2,3)] by blast
  have l: "later m m1" by (rule command_later [of env]) (use assms(1) in \<open>auto simp: pos_command_def\<close>)
  have l2: "later m1 m2" using run_later [OF assms(4)] .
  have "trade_read env m2 = trade_read env m"
    using l l2 trade_read_context [of m2 m env] by (auto simp: later_def)
  moreover have "map_of (ps_receipts (pm_state m2)) a = Some (pos_hash env (JArray [jindex v ''payload'', JString (int_text t)]))"
    if "a \<in> set (ti_aliases ti)" for a
    using t(4) that l2 by (force simp: later_def receipts_grow_def map_le_def)
  ultimately have again: "pos_recorded env m2 w m3 oc' \<Longrightarrow> po_status oc' = PDuplicate \<and> same_books (pm_state m2) (pm_state m3)"
    using trade_again [of env m2 w m3 oc' t ti] t assms(3,6,7,8) by simp
  show ?thesis using assms(5) by (cases rule: pos_apply_cases) (use again in \<open>auto simp: same_books_def\<close>)
qed

lemma px_header:
  assumes "pm_config m = px_config" "pos_id (JString (str_lit ident)) = Inr (str_lit ident)" "pos_time (jint t) = Inr t"
    "pos_text (JString (str_lit op)) = Inr (str_lit op)"
  shows "pos_header px_env m (px_command ident t op payload) (str_lit ident) t (str_lit op) payload"
proof -
  let ?c = "px_command ident t op payload" and ?names = "pos_context @ [''command_id'', ''cause'', ''time'', ''op'', ''payload'']"
  obtain r where r: "pos_row ?c ?names = Inr r"
    using px_envelope(1) [of ident t op payload] by (auto simp: is_ok_def split: sum.splits)
  note ix = row_index [OF r, symmetric]
  show ?thesis
    unfolding pos_header_def using r assms by (intro conjI exI [of _ r]) (simp_all add: px_size ix px_envelope px_cause)
qed

theorem trade_booked_once_witness:
  "\<exists>oc. pos_apply px_env px_sold px_buy = Inr (px_sold, oc) \<and> po_status oc \<in> {PDuplicate, PConflict}"
proof -
  obtain oc where b: "pos_apply px_env px_start px_buy = Inr (px_bought, oc)" "po_status oc = PApplied" using px_step_buy by blast
  have "map_of (ps_commands (pm_state px_sold)) (str_lit ''c1'') = Some (pos_hash px_env px_buy)" by (simp add: px_states px_hash)
  then have r: "pos_apply px_env px_sold px_buy = Inr (px_sold, \<lparr>po_status = PDuplicate, po_fact = None\<rparr>)"
    unfolding px_buy_def by (intro pos_apply_repeat [OF px_header] px_ids) (simp_all add: px_states)
  have "(pos_command px_env)\<^sup>*\<^sup>* px_bought px_sold" using px_commands(2,3) by (meson rtranclp.simps)
  then show ?thesis
    using trade_booked_once [OF b(1) _ _ _ r] b(2) r by (auto simp: px_buy_def px_envelope)
qed

end
