(* ===== verification/Refinement.thy ===== *)
theory Refinement
  imports Prelude
begin

text \<open>
  Refinement of a transition system by abstraction: an invariant system whose steps are steps of
  an abstract relation under an abstraction function. Its runs are then runs of the abstract
  system, and so are its reachable states.
\<close>

locale abstracted_system = invariant_system init step inv
  for init :: "'s \<Rightarrow> bool" and step :: "'s \<Rightarrow> 's \<Rightarrow> bool" and inv :: "'s \<Rightarrow> bool" +
  fixes view :: "'s \<Rightarrow> 'a" and ainit :: "'a \<Rightarrow> bool" and astep :: "'a \<Rightarrow> 'a \<Rightarrow> bool"
  assumes view_init: "init s \<Longrightarrow> ainit (view s)"
    and view_step: "inv s \<Longrightarrow> step s t \<Longrightarrow> astep (view s) (view t)"
begin

lemma view_run: "step\<^sup>*\<^sup>* s t \<Longrightarrow> inv s \<Longrightarrow> astep\<^sup>*\<^sup>* (view s) (view t)"
proof (induction rule: rtranclp_induct)
  case (step t u)
  then have "astep (view t) (view u)" using run_inv view_step by blast
  then show ?case using step by (meson rtranclp.rtrancl_into_rtrancl)
qed simp

lemma view_reachable: "reachable init step s \<Longrightarrow> reachable ainit astep (view s)"
proof (induction rule: reachable.induct)
  case (reach_step s t)
  then show ?case using view_step reachable_inv by (blast intro: reachable.reach_step)
qed (auto intro: reachable.reach_init view_init)

end

end
