(* ===== verification/Position_Refinement.thy ===== *)
theory Position_Refinement
  imports Position_Properties Refinement
begin

text \<open>
  The position manager against an abstract ledger of rational holdings, the rounding of
  realized profit, and the release of reservations.
\<close>

section \<open>The abstract ledger\<close>

text \<open>
  Per owner and instrument: the quantity held, the settled part, its cost, and what is held back
  for closing orders. A purchase may book settled or unsettled; a sale consumes what is held and
  may free the rest of its reservation.
\<close>

record holdings =
  hd_qty :: "rstr \<times> rstr \<Rightarrow> rat"
  hd_settled :: "rstr \<times> rstr \<Rightarrow> rat"
  hd_cost :: "rstr \<times> rstr \<Rightarrow> rat"
  hd_held :: "rstr \<times> rstr \<Rightarrow> rat"

definition released_share :: "rat \<Rightarrow> rat \<Rightarrow> rat \<Rightarrow> rat \<Rightarrow> bool" where
  "released_share cost qty q r \<longleftrightarrow> 0 \<le> r \<and> r \<le> cost \<and> (q = qty \<longrightarrow> r = cost)
     \<and> \<bar>r - cost * q / qty\<bar> \<le> cost * q / qty / 2 * 10 powi (- 35)"

inductive holdings_step :: "holdings \<Rightarrow> holdings \<Rightarrow> bool" where
  idle: "holdings_step a a"
| buy: "0 < p \<Longrightarrow> 0 < q \<Longrightarrow> s \<in> {0, q} \<Longrightarrow> holdings_step a (a\<lparr>hd_qty := (hd_qty a)(k := hd_qty a k + q),
     hd_settled := (hd_settled a)(k := hd_settled a k + s), hd_cost := (hd_cost a)(k := hd_cost a k + p * q)\<rparr>)"
| sell: "0 < q \<Longrightarrow> 0 \<le> free \<Longrightarrow> q + free \<le> hd_held a k \<Longrightarrow> released_share (hd_cost a k) (hd_qty a k) q r \<Longrightarrow>
     holdings_step a (a\<lparr>hd_qty := (hd_qty a)(k := hd_qty a k - q), hd_settled := (hd_settled a)(k := hd_settled a k - q),
       hd_cost := (hd_cost a)(k := hd_cost a k - r), hd_held := (hd_held a)(k := hd_held a k - (q + free))\<rparr>)"
| settle: "(\<And>k. hd_settled a k \<le> st k \<and> st k \<le> hd_qty a k) \<Longrightarrow> (\<And>k. snd k \<noteq> i \<Longrightarrow> st k = hd_settled a k) \<Longrightarrow>
     holdings_step a (a\<lparr>hd_settled := st\<rparr>)"
| hold: "0 < q \<Longrightarrow> hd_held a k + q \<le> hd_settled a k \<Longrightarrow> holdings_step a (a\<lparr>hd_held := (hd_held a)(k := hd_held a k + q)\<rparr>)"
| free: "0 \<le> q \<Longrightarrow> q \<le> hd_held a k \<Longrightarrow> holdings_step a (a\<lparr>hd_held := (hd_held a)(k := hd_held a k - q)\<rparr>)"

definition holdings_empty :: holdings where
  "holdings_empty = \<lparr>hd_qty = \<lambda>_. 0, hd_settled = \<lambda>_. 0, hd_cost = \<lambda>_. 0, hd_held = \<lambda>_. 0\<rparr>"

definition holdings_of :: "pos_state \<Rightarrow> holdings" where
  "holdings_of s = \<lparr>hd_qty = \<lambda>k. opt_value qty_of (map_of (ps_allocations s) k),
     hd_settled = \<lambda>k. opt_value settled_of (map_of (ps_allocations s) k),
     hd_cost = \<lambda>k. opt_value cost_of (map_of (ps_allocations s) k), hd_held = \<lambda>k. held_total k (ps_reservations s)\<rparr>"

lemma holdings_default: "holdings_of pos_state_default = holdings_empty"
  by (simp add: holdings_of_def holdings_empty_def pos_state_default_def held_total_def)

lemma holdings_same_books: "same_books s s' \<Longrightarrow> holdings_of s' = holdings_of s"
  by (simp add: holdings_of_def same_books_def)

lemma settle_buckets_only:
  assumes "rfold (settle_bucket env m i t) buckets ([], bd_zero, al0) = Inr (seen, tot, al)" "ledger env" "snd k \<noteq> i"
  shows "map_of al k = map_of al0 k"
proof -
  have "case (seen, tot, al) of (_, _, al') \<Rightarrow> map_of al' k = map_of al0 k"
  proof (rule rfold_invariant [OF assms(1)])
    fix x u v
    assume "case u of (_, _, al') \<Rightarrow> map_of al' k = map_of al0 k" "settle_bucket env m i t x u = Inr v"
    moreover obtain seen1 tot1 al1 where "u = (seen1, tot1, al1)" by (cases u)
    ultimately show "case v of (_, _, al') \<Rightarrow> map_of al' k = map_of al0 k"
      using yieldsD [OF ledger.settle_bucket_inserts [OF assms(2), of m i t x seen1 tot1 al1], of v] assms(3) by fastforce
  qed simp
  then show ?thesis by simp
qed

context ledger
begin

lemma trade_refines:
  assumes "pos_trade env m s s'" "pos_conserved s"
  shows "holdings_step (holdings_of s) (holdings_of s')"
proof -
  note al = conserved_alloc_sound [OF assms(2)] and ok = conserved_parts(3) [OF assms(2)]
    and rs = conserved_parts(4) [OF assms(2)]
  from assms(1) show ?thesis
  proof cases
    case (bought i spec c p q fee t st ow1 h0 a h1 ow2 b h2)
    note b = buy_book_values [OF bought(7), OF al]
    have eq: "holdings_of s' = (holdings_of s)\<lparr>hd_qty := (hd_qty (holdings_of s))((c, i) := hd_qty (holdings_of s) (c, i) + bd_value q),
        hd_settled := (hd_settled (holdings_of s))((c, i) := hd_settled (holdings_of s) (c, i) + (if st then bd_value q else 0)),
        hd_cost := (hd_cost (holdings_of s))((c, i) := hd_cost (holdings_of s) (c, i) + bd_value p * bd_value q)\<rparr>"
      using b by (auto simp: holdings_of_def bought(9,10) fun_eq_iff)
    show ?thesis unfolding eq by (rule buy) (use bought(3,4) in auto)
  next
    case (sold i spec c p q fee b a order r released exact realized t b1 a1 terminal r1)
    have v: "bd_value q \<le> remaining_of r" "bd_value q \<le> settled_of b" using sold(12,13) by (simp_all add: value_simps)
    note c1 = consume_values [OF sold(20) rs [OF sold(9)] sold(5) v(1)]
    let ?free = "remaining_of r - bd_value q - remaining_of r1"
    have eq: "holdings_of s' = (holdings_of s)\<lparr>hd_qty := (hd_qty (holdings_of s))((c, i) := hd_qty (holdings_of s) (c, i) - bd_value q),
        hd_settled := (hd_settled (holdings_of s))((c, i) := hd_settled (holdings_of s) (c, i) - bd_value q),
        hd_cost := (hd_cost (holdings_of s))((c, i) := hd_cost (holdings_of s) (c, i) - bd_value released),
        hd_held := (hd_held (holdings_of s))((c, i) := hd_held (holdings_of s) (c, i) - (bd_value q + ?free))\<rparr>"
      using sell_book_values [OF sold(18)] c1 sold(7,9,10,11)
      by (auto simp: holdings_of_def sold(22,23) held_total_insert ok fun_eq_iff)
    have "bd_value q + ?free \<le> hd_held (holdings_of s) (c, i)"
    proof -
      have "remaining_of r \<le> held_total (c, i) (ps_reservations s)"
        using held_total_member [OF ok _ sold(9)] rs sold(10,11) by (auto simp: reservation_sound_def)
      moreover have "0 \<le> remaining_of r1" using c1(1) by (simp add: reservation_sound_def)
      ultimately show ?thesis by (simp add: holdings_of_def)
    qed
    moreover have "released_share (hd_cost (holdings_of s) (c, i)) (hd_qty (holdings_of s) (c, i)) (bd_value q) (bd_value released)"
    proof -
      have q: "bd_value q \<le> qty_of b" "0 \<le> cost_of b" using v(2) al [OF sold(7)] by (auto simp: book_sound_def)
      have "\<bar>bd_value released - cost_of b * bd_value q / qty_of b\<bar> \<le> cost_of b * bd_value q / qty_of b / 2 * 10 powi (- 35)"
      proof (cases "bd_value q = qty_of b")
        case True
        then show ?thesis using release_cost_whole [OF True, of "bk_cost b" "in_qp spec"] sold(5,15) q(2) by (simp del: bd_value_eq_0)
      next
        case False
        then show ?thesis using release_cost_part(3) [OF sold(15,5) _ q(2)] q(1) by simp
      qed
      then show ?thesis
        using released_bounds [OF sold(15,5) q] by (simp add: released_share_def holdings_of_def sold(7))
    qed
    ultimately show ?thesis unfolding eq by (intro sell) (use sold(5) c1(2) in auto)
  qed
qed

lemma hold_refines:
  assumes "pos_hold env m s s'" "pos_conserved s"
  shows "holdings_step (holdings_of s) (holdings_of s')"
proof -
  note ok = conserved_parts(3) [OF assms(2)] and rs = conserved_parts(4) [OF assms(2)]
  from assms(1) show ?thesis
  proof cases
    case (reserved c order q i avail)
    have "bd_value q \<le> bd_value avail" "0 < bd_value q" using reserved(3,6) by (simp_all add: value_simps)
    then have "held_total (c, i) (ps_reservations s) + bd_value q \<le> opt_value settled_of (map_of (ps_allocations s) (c, i))"
      using cluster_available_bound [OF reserved(5)] by simp
    moreover have eq: "holdings_of s' = (holdings_of s)\<lparr>hd_held := (hd_held (holdings_of s))((c, i) := hd_held (holdings_of s) (c, i) + bd_value q)\<rparr>"
      by (auto simp: holdings_of_def reserved held_total_insert ok fun_eq_iff)
    ultimately show ?thesis unfolding eq by (intro hold reserved(3)) (simp add: holdings_of_def)
  next
    case (changed order r nxt r1 confirmed)
    note c1 = change_values [OF changed(3) rs [OF changed(1)]]
    let ?k = "(rv_cluster r, rv_instrument r)"
    have eq: "holdings_of s' = (holdings_of s)\<lparr>hd_held := (hd_held (holdings_of s))(?k := hd_held (holdings_of s) ?k - (remaining_of r - remaining_of r1))\<rparr>"
      using c1 changed(1) by (auto simp: holdings_of_def changed(4,6) held_total_insert ok fun_eq_iff)
    have "remaining_of r \<le> held_total ?k (ps_reservations s)"
      using held_total_member [OF ok _ changed(1)] rs by (auto simp: reservation_sound_def)
    then show ?thesis unfolding eq by (intro free) (use c1 in \<open>auto simp: holdings_of_def reservation_sound_def\<close>)
  qed
qed

lemma change_refines:
  assumes "pos_change env m s s'" "pos_conserved s"
  shows "holdings_step (holdings_of s) (holdings_of s')"
  using assms(1)
proof cases
  case quiet
  then show ?thesis using holdings_same_books idle by metis
next
  case (settled i spec t buckets seen tot allocations a)
  have st: "settles i (bd_value tot) (ps_allocations s) (ps_allocations s')"
    using settle_buckets_settles [OF settled(2)] conserved_alloc_sound [OF assms(2)] assms(2)
    by (simp add: settled(4) pos_conserved_def)
  have mv: "opt_value qty_of (map_of (ps_allocations s') k) = opt_value qty_of (map_of (ps_allocations s) k)"
    "opt_value cost_of (map_of (ps_allocations s') k) = opt_value cost_of (map_of (ps_allocations s) k)"
    "opt_value settled_of (map_of (ps_allocations s) k) \<le> opt_value settled_of (map_of (ps_allocations s') k)"
    "opt_value settled_of (map_of (ps_allocations s') k) \<le> opt_value qty_of (map_of (ps_allocations s) k)" for k
    using settlesD [OF st, of k] by (cases "map_of (ps_allocations s) k"; auto simp: option_rel_Some1 settle_moved_def)+
  have "holdings_of s' = (holdings_of s)\<lparr>hd_settled := hd_settled (holdings_of s')\<rparr>"
    by (simp add: holdings_of_def mv settled(6))
  moreover have "holdings_step (holdings_of s) ((holdings_of s)\<lparr>hd_settled := hd_settled (holdings_of s')\<rparr>)"
    using mv settle_buckets_only [OF settled(2) ledger_axioms] settled(4)
    by (intro holdings_step.settle [of _ _ i]) (simp_all add: holdings_of_def)
  ultimately show ?thesis by simp
qed (use assms(2) trade_refines hold_refines in blast)+

lemma command_refines:
  assumes "pos_ok env m" "pos_command env m m'"
  shows "holdings_step (holdings_of (pm_state m)) (holdings_of (pm_state m'))"
proof -
  obtain v oc where "pos_apply env m v = Inr (m', oc)" using assms(2) by (auto simp: pos_command_def)
  then show ?thesis
  proof (cases rule: pos_apply_cases)
    case recorded
    then show ?thesis
    proof cases
      case (recorded ident t op payload s1 status details u f)
      have ch: "pos_change env m (pos_begin (pm_state m) t) s1" using dispatch_change [OF recorded(5)] by (simp add: change_config)
      have "holdings_of (pos_begin (pm_state m) t) = holdings_of (pm_state m)" "holdings_of (pos_record v ident (pos_hash env v) s) = holdings_of s" for s
        by (simp_all add: holdings_of_def pos_begin_def pos_record_def)
      then show ?thesis
        using change_refines [OF ch] assms(1) recorded(1) by (auto simp: pos_ok_def begin_same intro: idle)
    qed
  qed (auto intro: idle)
qed

end

interpretation positions_abstract: abstracted_system "\<lambda>m. pos_new env config = Inr m" "pos_command env" "\<lambda>m. ledger env \<longrightarrow> pos_ok env m"
  "\<lambda>m. holdings_of (pm_state m)" "\<lambda>a. a = holdings_empty" "\<lambda>a b. ledger env \<longrightarrow> holdings_step a b" for env config
  by unfold_locales (auto dest: new_empty ledger.command_refines simp: holdings_default)

section \<open>Realized profit\<close>

definition half_even :: "rat \<Rightarrow> int \<Rightarrow> rat" where
  "half_even x p = of_int (round_spec HalfEven (x * 10 powi p)) * 10 powi (- p)"

definition realized_rounded :: "int \<Rightarrow> (rstr \<times> rstr, book) btree \<Rightarrow> bool" where
  "realized_rounded p al \<longleftrightarrow> (\<forall>k b. map_of al k = Some b \<longrightarrow> bd_value (bk_realized b) = half_even (bd_value (bk_realized_exact b)) p)"

lemma half_even_zero [simp]: "half_even 0 p = 0"
  by (simp add: half_even_def round_spec_def truncate_rat_def)

lemma half_even_near: "\<bar>half_even x p - x\<bar> \<le> 10 powi (- p) / 2"
proof -
  have "x * 10 powi p * 10 powi (- p) = x" by (simp add: pow10_neg)
  then have "half_even x p - x = (of_int (round_spec HalfEven (x * 10 powi p)) - x * 10 powi p) * 10 powi (- p)"
    by (simp only: half_even_def left_diff_distrib)
  then have "\<bar>half_even x p - x\<bar> = \<bar>of_int (round_spec HalfEven (x * 10 powi p)) - x * 10 powi p\<bar> * 10 powi (- p)"
    by (simp add: abs_mult)
  also have "\<dots> \<le> 1 / 2 * 10 powi (- p)" by (intro mult_right_mono round_half_even_near) simp
  finally show ?thesis by simp
qed

lemma realized_rounded_insert:
  "realized_rounded p al \<Longrightarrow> bd_value (bk_realized b) = half_even (bd_value (bk_realized_exact b)) p \<Longrightarrow> realized_rounded p (bt_insert k b al)"
  by (auto simp: realized_rounded_def)

lemma buy_book_realized:
  assumes "buy_book env spec t p q st owner old h = Inr (b, h')"
  obtains "bk_realized b = bd_zero" "bk_realized_exact b = bd_zero"
    | x where "old = Some x" "bk_realized b = bk_realized x" "bk_realized_exact b = bk_realized_exact x"
  using assms by (auto simp: buy_book_def book_new_def rbind_eq_Inr split: option.splits if_splits)

context ledger
begin

lemma round_value: "bd_value (lib_with_scale_round (le_lib env) d p HalfEven) = half_even (bd_value d) p"
  by (simp add: bd_value_def [of "lib_with_scale_round (le_lib env) d p HalfEven"] round_scale round_coef half_even_def)

lemma change_realized:
  assumes "pos_change env m s s'" "realized_rounded (int (cu_precision (pm_currency m))) (ps_allocations s)"
  shows "realized_rounded (int (cu_precision (pm_currency m))) (ps_allocations s')"
  using assms(1)
proof cases
  case quiet
  then show ?thesis using assms(2) by (simp add: same_books_def)
next
  case traded
  then show ?thesis
  proof cases
    case (bought i spec c p q fee t st ow1 h0 a h1 ow2 b h2)
    have "bd_value (bk_realized b) = half_even (bd_value (bk_realized_exact b)) (int (cu_precision (pm_currency m)))"
      using bought(7) by (cases rule: buy_book_realized) (use assms(2) in \<open>auto simp: realized_rounded_def\<close>)
    then show ?thesis unfolding bought(9) by (intro realized_rounded_insert assms(2)) simp
  next
    case (sold i spec c p q fee b a order r released exact realized t b1 a1 terminal r1)
    then show ?thesis
      using sell_book_values(4,5) [OF sold(18)] unfolding sold(22)
      by (intro realized_rounded_insert assms(2)) (simp add: value_simps round_value)
  qed
next
  case held
  then show ?thesis by cases (use assms(2) in simp_all)
next
  case (settled i spec t buckets seen tot allocations a)
  have "case (seen, tot, allocations) of (_, _, al) \<Rightarrow> realized_rounded (int (cu_precision (pm_currency m))) al"
  proof (rule rfold_invariant [OF settled(2)])
    fix x u v
    assume "case u of (_, _, al) \<Rightarrow> realized_rounded (int (cu_precision (pm_currency m))) al" "settle_bucket env m i t x u = Inr v"
    moreover obtain seen1 tot1 al1 where "u = (seen1, tot1, al1)" by (cases u)
    ultimately show "case v of (_, _, al) \<Rightarrow> realized_rounded (int (cu_precision (pm_currency m))) al"
      using yieldsD [OF settle_bucket_inserts [of m i t x seen1 tot1 al1], of v] by (auto simp: realized_rounded_def split: if_splits)
  qed (use assms(2) in simp)
  then show ?thesis by (simp add: settled(4))
qed

text \<open>What holds of the allocations across every change holds across commands.\<close>

lemma command_allocations:
  assumes "pos_command env m m'" "P (ps_allocations (pm_state m))"
    "\<And>s s'. pos_change env m s s' \<Longrightarrow> P (ps_allocations s) \<Longrightarrow> P (ps_allocations s')"
  shows "P (ps_allocations (pm_state m'))" "pm_currency m' = pm_currency m"
proof -
  obtain v oc where v: "pos_apply env m v = Inr (m', oc)" using assms(1) by (auto simp: pos_command_def)
  from v have "P (ps_allocations (pm_state m')) \<and> pm_currency m' = pm_currency m"
  proof (cases rule: pos_apply_cases)
    case recorded
    then show ?thesis
    proof cases
      case (recorded ident t op payload s1 status details u f)
      have "pos_change env m (pos_begin (pm_state m) t) s1" using dispatch_change [OF recorded(5)] by (simp add: change_config)
      then have "P (ps_allocations s1)" using assms(2,3) by (simp add: pos_begin_def)
      then show ?thesis using recorded(1) assms(2) by (simp add: pos_record_def)
    qed
  qed (use assms(2) in simp_all)
  then show "P (ps_allocations (pm_state m'))" "pm_currency m' = pm_currency m" by simp_all
qed

end

interpretation realized: invariant_system "\<lambda>m. pos_new env config = Inr m" "pos_command env"
  "\<lambda>m. ledger env \<longrightarrow> realized_rounded (int (cu_precision (pm_currency m))) (ps_allocations (pm_state m))" for env config
proof
  fix m
  assume "pos_new env config = Inr m"
  then show "ledger env \<longrightarrow> realized_rounded (int (cu_precision (pm_currency m))) (ps_allocations (pm_state m))"
    using new_empty by (auto simp: realized_rounded_def pos_state_default_def)
next
  fix m m'
  assume inv: "ledger env \<longrightarrow> realized_rounded (int (cu_precision (pm_currency m))) (ps_allocations (pm_state m))" and step: "pos_command env m m'"
  show "ledger env \<longrightarrow> realized_rounded (int (cu_precision (pm_currency m'))) (ps_allocations (pm_state m'))"
    using ledger.command_allocations [OF _ step, of "realized_rounded (int (cu_precision (pm_currency m)))"]
      inv ledger.change_realized by metis
qed

section \<open>Reservations can be released\<close>

definition held_named :: "pos_manager \<Rightarrow> bool" where
  "held_named m \<longleftrightarrow> (\<forall>c \<in> set (pm_clusters m). pos_id (JString c) = Inr c)
     \<and> (\<forall>order r. map_of (ps_reservations (pm_state m)) order = Some r \<longrightarrow> pos_id (JString order) = Inr order \<and> rv_cluster r \<in> set (pm_clusters m))"

lemma new_named: "pos_new env config = Inr m \<Longrightarrow> held_named m"
proof -
  have "yields (pos_new env config) held_named"
    unfolding pos_new_def
  proof (intro yields_rules)
    fix r u cur cs clusters is' instruments
    assume "rfold (\<lambda>v clusters. rbind (pos_id v) (\<lambda>c. if c \<in> set clusters then Inl (PosError ''POSITION_DUPLICATE_CLUSTER'')
        else Inr (bs_insert c clusters))) cs [] = Inr clusters"
    then have "\<forall>c \<in> set clusters. pos_id (JString c) = Inr c"
      by (rule rfold_invariant) (auto simp: rbind_eq_Inr guard_eq dest: pos_id_self)
    then show "held_named \<lparr>pm_config = config, pm_instruments = instruments, pm_currency = cur, pm_clusters = clusters, pm_state = pos_state_default\<rparr>"
      by (simp add: held_named_def pos_state_default_def)
  qed
  then show "pos_new env config = Inr m \<Longrightarrow> held_named m" by (rule yieldsD)
qed

context ledger
begin

lemma change_named:
  assumes "pos_change env m s s'" "held_named (m\<lparr>pm_state := s\<rparr>)"
  shows "held_named (m\<lparr>pm_state := s'\<rparr>)"
proof -
  have keep: "held_named (m\<lparr>pm_state := s'\<rparr>)" if "ps_reservations s' = bt_insert order r1 (ps_reservations s)"
    "pos_id (JString order) = Inr order" "rv_cluster r1 \<in> set (pm_clusters m)" for order r1
    using assms(2) that by (auto simp: held_named_def)
  have known: "pos_id (JString order) = Inr order" "rv_cluster r \<in> set (pm_clusters m)" if "map_of (ps_reservations s) order = Some r" for order r
    using assms(2) that by (auto simp: held_named_def)
  from assms(1) show ?thesis
  proof cases
    case quiet
    then show ?thesis using assms(2) by (simp add: held_named_def same_books_def)
  next
    case traded
    then show ?thesis
    proof cases
      case (sold i spec c p q fee b a order r released exact realized t b1 a1 terminal r1)
      have "rv_cluster r1 = rv_cluster r" using sold(20) by (auto simp: consume_reservation_def Let_def split: if_splits)
      then show ?thesis using known [OF sold(9)] by (intro keep [OF sold(23)]) simp_all
    qed (use assms(2) in \<open>simp add: held_named_def\<close>)
  next
    case held
    then show ?thesis
    proof cases
      case (reserved c order q i avail)
      then show ?thesis by (intro keep [OF reserved(7)]) simp_all
    next
      case (changed order r nxt r1 confirmed)
      have "rv_cluster r1 = rv_cluster r"
        using changed(3) stage_values [of nxt r r1] by (auto simp: release_reservation_def split: if_splits)
      then show ?thesis using known [OF changed(1)] by (intro keep [OF changed(4)]) simp_all
    qed
  qed (use assms(2) in \<open>simp add: held_named_def\<close>)
qed

lemma command_named:
  assumes "pos_command env m m'" "held_named m"
  shows "held_named m'"
proof -
  obtain v oc where "pos_apply env m v = Inr (m', oc)" using assms(1) by (auto simp: pos_command_def)
  then show ?thesis
  proof (cases rule: pos_apply_cases)
    case recorded
    then show ?thesis
    proof cases
      case (recorded ident t op payload s1 status details u f)
      have "pos_change env m (pos_begin (pm_state m) t) s1" using dispatch_change [OF recorded(5)] by (simp add: change_config)
      then have "held_named (m\<lparr>pm_state := s1\<rparr>)"
        by (rule change_named) (use assms(2) in \<open>simp add: held_named_def pos_begin_def\<close>)
      then show ?thesis using recorded(1) assms(2) by (simp add: held_named_def pos_record_def)
    qed
  qed (use assms(2) in simp_all)
qed

end

interpretation named: invariant_system "\<lambda>m. pos_new env config = Inr m" "pos_command env" "\<lambda>m. ledger env \<longrightarrow> held_named m" for env config
  by unfold_locales (auto intro: new_named ledger.command_named)

definition release_payload :: "rstr \<Rightarrow> rstr \<Rightarrow> json" where
  "release_payload order cluster = jobject [(''schema_version'', jint 1), (''order'', JString order), (''cluster'', JString cluster),
     (''broker_confirmed'', JBool True)]"

context ledger
begin

lemma release_dispatch:
  assumes "held_named m" "map_of (ps_reservations (pm_state m)) order = Some r" "remaining_of r \<noteq> 0"
  shows "\<exists>d. pos_dispatch env m (str_lit ''RELEASE'') (release_payload order (rv_cluster r)) t
    = Inr ((pm_state m)\<lparr>ps_reservations := bt_insert order (r\<lparr>rv_released := bd_add env (rv_released r) (rv_remaining r), rv_remaining := bd_zero,
        rv_stage := str_lit ''RELEASED'', rv_state := str_lit ''RELEASED'', rv_version := rv_version r + 1\<rparr>) (ps_reservations (pm_state m))\<rparr>, PApplied, d)"
proof -
  have n: "pos_id (JString order) = Inr order" "rv_cluster r \<in> set (pm_clusters m)" "pos_id (JString (rv_cluster r)) = Inr (rv_cluster r)"
    using assms(1,2) by (auto simp: held_named_def)
  have one: "as_u64 (jint 1) = Some 1" by code_simp
  have "\<not> bd_is_zero (rv_remaining r)" using assms(3) by (simp add: value_simps del: bd_value_eq_0)
  then show ?thesis
    using n assms(2)
    by (simp add: pos_dispatch_def reserve_command_def change_reservation_def release_payload_def pos_row_def row_version_def map_of_members
        length_members one cluster_id_def pos_boolean_def as_bool_def release_reservation_def Let_def cong: rbind_weak)
qed

end

section \<open>Theorems\<close>

text \<open>
  C9: The position manager refines the abstract ledger of holdings. The holdings of a reachable
  manager are reachable in the abstract ledger from the empty one, and every further command is
  one abstract step: idle, a purchase at a positive price, a sale of what is held back that
  releases the proportional cost, a settlement within the quantities of one instrument, a hold
  within what is settled, or a release.
\<close>
theorem positions_refine_holdings:
  assumes "ledger env" "positions_reachable env config m"
  shows "reachable (\<lambda>a. a = holdings_empty) holdings_step (holdings_of (pm_state m))
    \<and> (\<forall>m'. pos_command env m m' \<longrightarrow> holdings_step (holdings_of (pm_state m)) (holdings_of (pm_state m')))"
  using positions_abstract.view_reachable [OF assms(2)] assms(1)
    ledger.command_refines [OF assms(1)] positions.reachable_inv [OF assms(2)] by simp

theorem positions_refine_holdings_witness:
  "holdings_step (holdings_of (pm_state px_reserved)) (holdings_of (pm_state px_sold))
    \<and> hd_qty (holdings_of (pm_state px_reserved)) (str_lit ''C'', str_lit ''S.V'') = 3"
proof
  show "holdings_step (holdings_of (pm_state px_reserved)) (holdings_of (pm_state px_sold))"
    using positions_refine_holdings [OF px_ledger px_reachable(3)] px_commands(3) by blast
qed (simp add: holdings_of_def px_states bd_value_def)



text \<open>
  C10: Every live reservation can be released. In a reachable manager, the broker-confirmed
  release of a reservation with a remaining quantity is accepted whenever its envelope is well
  formed, its command id new and its time not in the past: validation cannot refuse it, the
  reservation ends with nothing remaining, and what the cluster holds back drops by exactly
  what remained.
\<close>
theorem reservation_releasable:
  assumes "ledger env" "positions_reachable env config m" "map_of (ps_reservations (pm_state m)) order = Some r" "remaining_of r \<noteq> 0"
    and header: "pos_header env m v ident t (str_lit ''RELEASE'') (release_payload order (rv_cluster r))"
    and new: "map_of (ps_commands (pm_state m)) ident = None" "ps_journal (pm_state m) = [] \<or> ps_now (pm_state m) \<le> t"
  shows "\<exists>m' oc r'. pos_apply env m v = Inr (m', oc) \<and> po_status oc = PApplied
    \<and> map_of (ps_reservations (pm_state m')) order = Some r' \<and> remaining_of r' = 0
    \<and> held_total (rv_cluster r, rv_instrument r) (ps_reservations (pm_state m'))
        = held_total (rv_cluster r, rv_instrument r) (ps_reservations (pm_state m)) - remaining_of r"
proof -
  let ?m = "m\<lparr>pm_state := pos_begin (pm_state m) t\<rparr>"
  let ?r = "r\<lparr>rv_released := bd_add env (rv_released r) (rv_remaining r), rv_remaining := bd_zero,
        rv_stage := str_lit ''RELEASED'', rv_state := str_lit ''RELEASED'', rv_version := rv_version r + 1\<rparr>"
  define s1 where "s1 = (pos_begin (pm_state m) t)\<lparr>ps_reservations := bt_insert order ?r (ps_reservations (pm_state m))\<rparr>"
  define m2 where "m2 = m\<lparr>pm_state := pos_record v ident (pos_hash env v) s1\<rparr>"
  have ok: "pos_ok env m" using positions.reachable_inv [OF assms(2)] assms(1) by simp
  have named: "held_named m" using named.reachable_inv [OF assms(2)] assms(1) by simp
  obtain d where d: "pos_dispatch env ?m (str_lit ''RELEASE'') (release_payload order (rv_cluster r)) t = Inr (s1, PApplied, d)"
    using ledger.release_dispatch [OF assms(1), of ?m order r t] named assms(3,4) by (auto simp: held_named_def pos_begin_def s1_def)
  note c = ledger.candidate_ok [OF assms(1) d ok, of v ident "pos_hash env v"]
  have "pos_bounded (pm_state m2)" using ok by (simp add: pos_ok_def m2_def s1_def pos_begin_def pos_record_def pos_bounded_def)
  then have "pos_validate env m2 = Inr ()"
    using c by (intro ledger.validate_returns [OF assms(1)]) (simp add: pos_ok_def m2_def)
  moreover obtain q where q: "pos_row v (pos_context @ [''command_id'', ''cause'', ''time'', ''op'', ''payload'']) = Inr q"
    using header by (auto simp: pos_header_def)
  ultimately have "\<exists>oc. pos_apply env m v = Inr (m2, oc) \<and> po_status oc = PApplied"
    using header new d by (intro pos_apply_stages [of _ _ _ ident t "str_lit ''RELEASE''"])
      (auto simp: pos_header_def row_index m2_def)
  moreover have "bt_ok (ps_reservations (pm_state m))" using ok by (simp add: pos_ok_def pos_conserved_def)
  ultimately show ?thesis
    using assms(3) by (intro exI [of _ m2]) (auto simp: m2_def s1_def pos_record_def held_total_insert bd_zero_def)
qed

theorem reservation_releasable_witness:
  "\<exists>m' oc r'. pos_apply px_env px_reserved (px_command ''c3'' 3 ''RELEASE'' (release_payload (str_lit ''O'') (str_lit ''C''))) = Inr (m', oc)
     \<and> po_status oc = PApplied \<and> map_of (ps_reservations (pm_state m')) (str_lit ''O'') = Some r' \<and> remaining_of r' = 0"
proof -
  let ?r = "px_held 3 0 ''ACTIVE'' 1"
  have r: "map_of (ps_reservations (pm_state px_reserved)) (str_lit ''O'') = Some ?r" "rv_cluster ?r = str_lit ''C''" "remaining_of ?r \<noteq> 0"
    by (simp_all add: px_states bd_value_def)
  have op: "pos_text (JString (str_lit ''RELEASE'')) = Inr (str_lit ''RELEASE'')" by code_simp
  have "pos_header px_env px_reserved (px_command ''c3'' 3 ''RELEASE'' (release_payload (str_lit ''O'') (rv_cluster ?r))) (str_lit ''c3'') 3
      (str_lit ''RELEASE'') (release_payload (str_lit ''O'') (rv_cluster ?r))"
    by (rule px_header) (simp_all add: px_ids op, simp add: px_states)
  from reservation_releasable [OF px_ledger px_reachable(3) r(1,3) this] show ?thesis
    unfolding r(2) by (auto simp: px_states)
qed

end
