(* ===== verification/Margin_Manager.thy ===== *)
theory Margin_Manager
  imports Position_Model
begin

text \<open>
  The margin manager of \<open>crates/margin/src\<close>: \<open>model.rs\<close> with its readers and structural bounds,
  and \<open>manager.rs\<close>. A reservation is a JSON record whose amounts are decimal texts; the manager
  keeps these records with the log of accepted instructions. The duplicate path of \<open>apply\<close>
  replays the log through \<open>apply\<close> itself and carries fuel; the length of the log is enough
  (\<open>apply_fuelled\<close>).
\<close>

datatype mar_error = MarError string | MarParse | MarFuel

definition mar_external :: "domain_error + 'a \<Rightarrow> mar_error + 'a" where
  "mar_external r = (case r of Inl e \<Rightarrow> Inl (MarError (domain_error_text e)) | Inr x \<Rightarrow> Inr x)"

definition mar_digest :: "ledger_env \<Rightarrow> json \<Rightarrow> rstr" where
  "mar_digest env v = hex_bytes (pf_sha256 (le_pf env) (json_bytes (le_pf env) v))"

section \<open>Readers (model.rs)\<close>

definition mar_fields :: "json \<Rightarrow> string list \<Rightarrow> mar_error + unit" where
  "mar_fields v names =
     rbind (ok_or (as_object v) (MarError ''MARGIN_RECORD'')) (\<lambda>r.
     if length r \<noteq> length names \<or> list_ex (\<lambda>k. \<not> bt_contains r (str_lit k)) names
     then Inl (MarError ''MARGIN_FIELDS'') else Inr ())"

definition mar_text :: "json \<Rightarrow> mar_error + rstr" where
  "mar_text v =
     ok_or (case as_str v of Some s \<Rightarrow> if trim_matches unicode_white_space s \<noteq> [] \<and> str_len s \<le> 256 then Some s else None | None \<Rightarrow> None)
       (MarError ''MARGIN_TEXT'')"

definition mar_id :: "json \<Rightarrow> mar_error + rstr" where
  "mar_id v =
     rbind (mar_text v) (\<lambda>s.
     rbind (mar_external (identifier_new ''OnlyIdentifier'' s)) (\<lambda>i.
     if i \<noteq> s then Inl (MarError ''MARGIN_NONCANONICAL_ID'') else Inr s))"

definition mar_uint :: "json \<Rightarrow> mar_error + nat" where
  "mar_uint v = ok_or (as_u64 v) (MarError ''MARGIN_UNSIGNED'')"

definition mar_fingerprint :: "json \<Rightarrow> mar_error + unit" where
  "mar_fingerprint v =
     rbind (mar_text v) (\<lambda>s.
     if str_len s \<noteq> 64 \<or> \<not> list_all (\<lambda>b. is_digit b \<or> 97 \<le> b \<and> b \<le> 102) (str_bytes s)
     then Inl (MarError ''MARGIN_FINGERPRINT'') else Inr ())"

definition mar_number :: "ledger_env \<Rightarrow> json \<Rightarrow> mar_error + bigdec" where
  "mar_number env v =
     rbind (mar_text v) (\<lambda>s.
     rbind (ok_or (lib_parse (le_lib env) s) MarParse) (\<lambda>n.
     if length (int_text (bd_coef n)) > 128 \<or> \<not> (- 64 \<le> bd_scale n \<and> bd_scale n \<le> 18) \<or> bd_less env n bd_zero
     then Inl (MarError ''MARGIN_DECIMAL'') else Inr n))"

definition mar_money :: "ledger_env \<Rightarrow> json \<Rightarrow> nat \<Rightarrow> mar_error + json" where
  "mar_money env v p =
     rbind (mar_number env v) (\<lambda>n.
     let rounded = lib_with_scale (le_lib env) n (int p); text = JString (le_plain env rounded) in
     if \<not> bd_eq env n rounded then Inl (MarError ''MARGIN_MONEY_PRECISION'')
     else rbind (mar_number env text) (\<lambda>_. Inr text))"

definition mar_currency :: "ledger_env \<Rightarrow> json \<Rightarrow> mar_error + nat" where
  "mar_currency env v =
     rbind (mar_external (currency_from_record (le_pf env) v)) (\<lambda>c.
     if currency_to_record c \<noteq> v then Inl (MarError ''MARGIN_CURRENCY'') else Inr (cu_precision c))"

definition mar_time :: "ledger_env \<Rightarrow> json \<Rightarrow> mar_error + timestamp" where
  "mar_time env v =
     (if length (json_bytes (le_pf env) v) > 256 then Inl (MarError ''MARGIN_TIME_BOUND'')
      else mar_external (timestamp_from_record (jobject [(''schema_version'', jint 1), (''unix_nanos'', v)])))"

definition mar_owner :: "string list" where
  "mar_owner = [''engine'', ''runtime'', ''account'', ''gateway'', ''generation'', ''runtime_kind'']"

definition mar_kind :: "json \<Rightarrow> mar_error + bool" where
  "mar_kind v = rbind (mar_text v) (\<lambda>k. Inr (k \<in> {str_lit ''BACKTEST'', str_lit ''SIM'', str_lit ''LIVE''}))"

definition mar_scope :: "json \<Rightarrow> mar_error + unit" where
  "mar_scope v =
     rbind (mar_fields v ([''schema_version''] @ mar_owner @ [''cluster'', ''revision'', ''instrument'', ''request''])) (\<lambda>_.
     if as_u64 (jindex v ''schema_version'') \<noteq> Some 1 then Inl (MarError ''MARGIN_SCHEMA'')
     else rbind (for_each (\<lambda>k. rbind (mar_id (jindex v k)) (\<lambda>_. Inr ())) (mar_owner @ [''cluster'', ''revision'', ''instrument'', ''request''])) (\<lambda>_.
     rbind (mar_fingerprint (jindex v ''generation'')) (\<lambda>_.
     rbind (mar_kind (jindex v ''runtime_kind'')) (\<lambda>known.
     if \<not> known then Inl (MarError ''MARGIN_RUNTIME_KIND'') else Inr ()))))"

text \<open>The structural bound walks the value with a stack of values and their depths.\<close>

function mar_walk :: "(json \<times> nat) list \<Rightarrow> nat \<Rightarrow> mar_error + unit" where
  "mar_walk [] nodes = Inr ()"
| "mar_walk ((v, depth) # pending) nodes =
     (if depth > 48 \<or> nodes + 1 > 2000000 then Inl (MarError ''MARGIN_STRUCTURE_BOUND'')
      else case v of
        JArray a \<Rightarrow>
          if length a > 4096 then Inl (MarError ''MARGIN_ARRAY_BOUND'')
          else mar_walk (rev (map (\<lambda>x. (x, depth + 1)) a) @ pending) (nodes + 1)
      | JObject ms \<Rightarrow>
          if length ms > 4096 then Inl (MarError ''MARGIN_OBJECT_BOUND'')
          else mar_walk (rev (map (\<lambda>m. (snd m, depth + 1)) ms) @ pending) (nodes + 1)
      | _ \<Rightarrow> mar_walk pending (nodes + 1))"
  by pat_completeness auto
termination
  by (relation "measure (\<lambda>(pending, _). sum_list (map (\<lambda>p. json_weight (fst p)) pending))")
     (auto simp: rev_map [symmetric] sum_list_rev comp_def split: json.splits)

definition mar_bounded :: "ledger_env \<Rightarrow> json \<Rightarrow> nat \<Rightarrow> mar_error + unit" where
  "mar_bounded env v bytes =
     rbind (mar_walk [(v, 0)] 0) (\<lambda>_.
     if length (json_bytes (le_pf env) v) > bytes then Inl (MarError ''MARGIN_SIZE_BOUND'') else Inr ())"

definition mar_units :: "ledger_env \<Rightarrow> json \<Rightarrow> nat \<Rightarrow> mar_error + nat" where
  "mar_units env q precision =
     (if precision > 18 then Inl (MarError ''MARGIN_QUANTITY_PRECISION'')
      else rbind (mar_number env q) (\<lambda>d.
      let n = bd_mul env d \<lparr>bd_coef = 1, bd_scale = - int precision\<rparr>; whole = lib_with_scale (le_lib env) n 0 in
      if \<not> bd_eq env n whole then Inl (MarError ''MARGIN_QUANTITY_PRECISION'')
      else ok_or (u64_token (le_plain env whole)) MarParse))"

section \<open>The manager (manager.rs)\<close>

record mar_effect =
  mf_value :: json
  mf_replay :: json

record mar_manager =
  mm_config :: json
  mm_capacity :: nat
  mm_states :: "(rstr, json) btree"
  mm_records :: "json list"

definition mar_new :: "ledger_env \<Rightarrow> json \<Rightarrow> nat \<Rightarrow> mar_error + mar_manager" where
  "mar_new env config capacity =
     rbind (mar_bounded env config 2048) (\<lambda>_.
     rbind (mar_fields config (mar_owner @ [''currency''])) (\<lambda>_.
     rbind (for_each (\<lambda>k. rbind (mar_id (jindex config k)) (\<lambda>_. Inr ())) mar_owner) (\<lambda>_.
     rbind (mar_fingerprint (jindex config ''generation'')) (\<lambda>_.
     rbind (mar_kind (jindex config ''runtime_kind'')) (\<lambda>known.
     if \<not> known \<or> capacity = 0 \<or> capacity > 512 then Inl (MarError ''MARGIN_CONFIG'')
     else rbind (mar_currency env (jindex config ''currency'')) (\<lambda>p.
     if p > 18 then Inl (MarError ''MARGIN_CONFIG'')
     else Inr \<lparr>mm_config = config, mm_capacity = capacity, mm_states = [], mm_records = []\<rparr>))))))"

definition mar_snapshot :: "mar_manager \<Rightarrow> rstr \<Rightarrow> mar_error + json" where
  "mar_snapshot m i = ok_or (map_of (mm_states m) i) (MarError ''MARGIN_RESERVATION_UNKNOWN'')"

definition mar_precision :: "json \<Rightarrow> mar_error + nat" where
  "mar_precision v = rbind (mar_uint v) (\<lambda>n. if n < 256 then Inr n else Inl (MarError ''MARGIN_QUANTITY_PRECISION''))"

text \<open>Amounts are read as numbers that are not negative, so the quotient rounds down.\<close>

definition proportional :: "ledger_env \<Rightarrow> bigdec \<Rightarrow> nat \<Rightarrow> nat \<Rightarrow> nat \<Rightarrow> mar_error + bigdec" where
  "proportional env amount part whole p =
     (if whole = 0 then Inl (MarError ''MARGIN_RELEASE_QUANTITY'')
      else let minor = bd_coef (lib_with_scale (le_lib env) amount (int p));
               numerator = minor * int part; denominator = int whole;
               q = numerator div denominator; twice = numerator mod denominator * 2
           in Inr \<lparr>bd_coef = (if twice > denominator \<or> twice = denominator \<and> q mod 2 \<noteq> 0 then q + 1 else q), bd_scale = int p\<rparr>)"

definition mar_release_quote :: "ledger_env \<Rightarrow> mar_manager \<Rightarrow> rstr \<Rightarrow> rstr \<Rightarrow> mar_error + json" where
  "mar_release_quote env m i quantity =
     rbind (mar_snapshot m i) (\<lambda>state.
     rbind (mar_currency env (jindex (mm_config m) ''currency'')) (\<lambda>p.
     rbind (mar_precision (jindex state ''quantity_precision'')) (\<lambda>precision.
     rbind (mar_units env (JString quantity) precision) (\<lambda>part.
     rbind (mar_units env (jindex state ''open'') precision) (\<lambda>whole.
     if part = 0 \<or> part > whole then Inl (MarError ''MARGIN_RELEASE_QUANTITY'')
     else rbind (rbind (mar_number env (jindex state ''occupied'')) (\<lambda>n. proportional env n part whole p)) (\<lambda>amount.
     rbind (rbind (mar_number env (jindex state ''maintenance'')) (\<lambda>n. proportional env n part whole p)) (\<lambda>maintenance.
     Inr (jobject [(''amount'', JString (le_plain env amount)), (''maintenance'', JString (le_plain env maintenance)),
       (''version'', jindex state ''version''), (''before_hash'', JString (mar_digest env state))]))))))))"

definition mar_checkpoint :: "mar_manager \<Rightarrow> json" where
  "mar_checkpoint m = jobject [(''schema_version'', jint 1), (''config'', mm_config m), (''capacity'', jint (int (mm_capacity m))),
     (''states'', JObject (mm_states m)), (''records'', JArray (mm_records m))]"

definition set_number :: "ledger_env \<Rightarrow> json \<Rightarrow> string \<Rightarrow> bigdec \<Rightarrow> json" where
  "set_number env v k n = jset v k (JString (le_plain env (lib_normalized (le_lib env) n)))"

definition set_money :: "ledger_env \<Rightarrow> json \<Rightarrow> string \<Rightarrow> bigdec \<Rightarrow> nat \<Rightarrow> json" where
  "set_money env v k n p = jset v k (JString (le_plain env (lib_with_scale (le_lib env) n (int p))))"

definition projection :: "json \<Rightarrow> json" where
  "projection state =
     (if state = JNull then JNull
      else jobject (map (\<lambda>k. (k, jindex state k)) [''schema_version'', ''id'', ''scope'', ''order'', ''currency'', ''mode'', ''isolation'',
        ''position_side'', ''original'', ''reserved'', ''occupied'', ''released'', ''maintenance'', ''version'']))"

section \<open>Reading an instruction (manager.rs)\<close>

record mar_input =
  mi_command :: json
  mi_action :: rstr
  mi_precision :: nat
  mi_quanta :: nat
  mi_time :: timestamp

definition mar_actions :: "rstr set" where
  "mar_actions = {str_lit ''RESERVE'', str_lit ''OCCUPY'', str_lit ''RELEASE_RESERVED'', str_lit ''RELEASE_OCCUPIED''}"

definition mar_command_fields :: "string list" where
  "mar_command_fields = [''schema_version'', ''id'', ''scope'', ''reservation'', ''source_order'', ''source_trade'', ''source_ref'',
     ''source_fingerprint'', ''mode'', ''isolation'', ''position_side'', ''action'', ''quantity'', ''quantity_precision'', ''amount'',
     ''maintenance'', ''time'', ''expected_version'', ''before_hash'']"

definition mar_read_scope :: "ledger_env \<Rightarrow> mar_manager \<Rightarrow> json \<Rightarrow> mar_error + unit" where
  "mar_read_scope env m input =
     rbind (mar_scope (jindex input ''scope'')) (\<lambda>_.
     rbind (mar_bounded env (jindex input ''scope'') 2048) (\<lambda>_.
     if list_ex (\<lambda>k. jindex (mm_config m) k \<noteq> jindex (jindex input ''scope'') k) mar_owner then Inl (MarError ''MARGIN_OWNER'')
     else rbind (mar_text (jindex (jindex input ''scope'') ''instrument'')) (\<lambda>i.
     rbind (mar_external (instrument_id_from_str i)) (\<lambda>_. Inr ()))))"

definition mar_read_mode :: "json \<Rightarrow> rstr \<Rightarrow> mar_error + unit" where
  "mar_read_mode input action =
     rbind (mar_text (jindex input ''mode'')) (\<lambda>mode.
     if mode \<notin> {str_lit ''CROSS'', str_lit ''ISOLATED''} then Inl (MarError ''MARGIN_MODE_OR_SIDE'')
     else rbind (mar_text (jindex input ''position_side'')) (\<lambda>side.
     if side \<notin> {str_lit ''LONG'', str_lit ''SHORT''} then Inl (MarError ''MARGIN_MODE_OR_SIDE'')
     else rbind (if jindex input ''mode'' = JString (str_lit ''CROSS'')
                 then if jindex input ''isolation'' \<noteq> JNull then Inl (MarError ''MARGIN_ISOLATION'') else Inr ()
                 else rbind (mar_id (jindex input ''isolation'')) (\<lambda>_. Inr ())) (\<lambda>_.
     if action \<in> {str_lit ''OCCUPY'', str_lit ''RELEASE_OCCUPIED''}
     then rbind (mar_id (jindex input ''source_trade'')) (\<lambda>_. Inr ())
     else if jindex input ''source_trade'' \<noteq> JNull then Inl (MarError ''MARGIN_TRADE_FAMILY'') else Inr ())))"

definition mar_reservation_id :: "ledger_env \<Rightarrow> mar_manager \<Rightarrow> json \<Rightarrow> rstr" where
  "mar_reservation_id env m input =
     str_lit ''MRES-'' @ mar_digest env (jobject [(''scope'', jindex input ''scope''), (''order'', jindex input ''source_order''),
       (''currency'', jindex (mm_config m) ''currency''), (''mode'', jindex input ''mode''), (''isolation'', jindex input ''isolation''),
       (''position_side'', jindex input ''position_side'')])"

definition mar_read :: "ledger_env \<Rightarrow> mar_manager \<Rightarrow> json \<Rightarrow> mar_error + mar_input" where
  "mar_read env m input =
     rbind (mar_bounded env input 8192) (\<lambda>_.
     rbind (mar_fields input mar_command_fields) (\<lambda>_.
     if as_u64 (jindex input ''schema_version'') \<noteq> Some 1 then Inl (MarError ''MARGIN_SCHEMA'')
     else rbind (mar_read_scope env m input) (\<lambda>_.
     rbind (for_each (\<lambda>k. rbind (mar_id (jindex input k)) (\<lambda>_. Inr ())) [''id'', ''source_order'', ''source_ref'']) (\<lambda>_.
     rbind (mar_fingerprint (jindex input ''source_fingerprint'')) (\<lambda>_.
     rbind (mar_text (jindex input ''action'')) (\<lambda>action.
     if action \<notin> mar_actions then Inl (MarError ''MARGIN_ACTION'')
     else rbind (mar_read_mode input action) (\<lambda>_.
     rbind (mar_currency env (jindex (mm_config m) ''currency'')) (\<lambda>p.
     rbind (mar_precision (jindex input ''quantity_precision'')) (\<lambda>precision.
     rbind (mar_money env (jindex input ''amount'') p) (\<lambda>amount.
     rbind (mar_money env (jindex input ''maintenance'') p) (\<lambda>maintenance.
     rbind (mar_number env (jindex input ''quantity'')) (\<lambda>q.
     let quantity = JString (le_plain env (lib_normalized (le_lib env) q)) in
     rbind (mar_units env quantity precision) (\<lambda>quanta.
     rbind (mar_time env (jindex input ''time'')) (\<lambda>t.
     rbind (if action = str_lit ''RESERVE''
            then if jindex input ''reservation'' \<noteq> JNull then Inl (MarError ''MARGIN_RESERVE_ID'')
                 else Inr (JString (mar_reservation_id env m input))
            else rbind (mar_id (jindex input ''reservation'')) (\<lambda>_. Inr (jindex input ''reservation''))) (\<lambda>reservation.
     Inr \<lparr>mi_command = jset (jset (jset (jset (jset input ''amount'' amount) ''maintenance'' maintenance) ''quantity'' quantity)
                         ''time'' (jindex (timestamp_to_record t) ''unix_nanos'')) ''reservation'' reservation,
          mi_action = action, mi_precision = precision, mi_quanta = quanta, mi_time = t\<rparr>)))))))))))))))"

section \<open>Applying an instruction (manager.rs)\<close>

definition mar_alias_conflict :: "json \<Rightarrow> rstr \<Rightarrow> json \<Rightarrow> bool" where
  "mar_alias_conflict command action c =
     (jindex command ''source_trade'' \<noteq> JNull \<and> jindex c ''source_trade'' = jindex command ''source_trade''
      \<and> (list_ex (\<lambda>k. jindex c k \<noteq> jindex command k) [''action'', ''source_order'']
         \<or> list_ex (\<lambda>k. jindex (jindex c ''scope'') k \<noteq> jindex (jindex command ''scope'') k) [''cluster'', ''revision'', ''instrument'']
         \<or> list_ex (\<lambda>k. jindex c k \<noteq> jindex command k) [''mode'', ''isolation'', ''position_side'']
         \<or> jindex c ''reservation'' = jindex command ''reservation'' \<or> action \<noteq> str_lit ''RELEASE_OCCUPIED''))"

definition mar_alias :: "json \<Rightarrow> rstr \<Rightarrow> json \<Rightarrow> mar_error + unit" where
  "mar_alias command action row =
     (let c = jindex row ''command'' in
      if jindex c ''source_ref'' = jindex command ''source_ref'' then Inl (MarError ''MARGIN_SOURCE_ALIAS'')
      else if mar_alias_conflict command action c then Inl (MarError ''MARGIN_TRADE_ALIAS'') else Inr ())"

definition mar_before :: "ledger_env \<Rightarrow> mar_manager \<Rightarrow> json \<Rightarrow> mar_input \<Rightarrow> json \<Rightarrow> mar_error + nat" where
  "mar_before env m input mi old =
     rbind (mar_uint (jindex input ''expected_version'')) (\<lambda>expected.
     if expected \<noteq> (case as_u64 (jindex old ''version'') of Some n \<Rightarrow> n | None \<Rightarrow> 0)
        \<or> jindex (mi_command mi) ''before_hash'' \<noteq> (if old = JNull then JNull else JString (mar_digest env old))
     then Inl (MarError ''MARGIN_BEFORE_PROOF'')
     else rbind (if old = JNull then Inr ()
                 else rbind (mar_time env (jindex old ''time'')) (\<lambda>u.
                      if mi_time mi < u then Inl (MarError ''MARGIN_TIME_REGRESSION'') else Inr ())) (\<lambda>_.
     rbind (for_each (mar_alias (mi_command mi) (mi_action mi)) (mm_records m)) (\<lambda>_. Inr expected)))"

definition mar_reserve :: "ledger_env \<Rightarrow> mar_manager \<Rightarrow> mar_input \<Rightarrow> rstr \<Rightarrow> json \<Rightarrow> bigdec \<Rightarrow> bigdec \<Rightarrow> nat \<Rightarrow> mar_error + json" where
  "mar_reserve env m mi key old amount maintenance p =
     (let c = mi_command mi in
      if old \<noteq> JNull \<or> mi_quanta mi = 0 \<or> bd_eq env amount bd_zero \<or> \<not> bd_eq env maintenance bd_zero
         \<or> list_ex (\<lambda>s. jindex s ''order'' = jindex c ''source_order'') (bt_values (mm_states m))
      then Inl (MarError ''MARGIN_RESERVE'')
      else rbind (mar_money env (JString (str_lit ''0'')) p) (\<lambda>zero.
      Inr (jobject [(''schema_version'', jint 1), (''id'', JString key), (''scope'', jindex c ''scope''), (''order'', jindex c ''source_order''),
        (''currency'', jindex (mm_config m) ''currency''), (''mode'', jindex c ''mode''), (''isolation'', jindex c ''isolation''),
        (''position_side'', jindex c ''position_side''), (''quantity_precision'', jint (int (mi_precision mi))),
        (''quantity'', jindex c ''quantity''), (''unfilled'', jindex c ''quantity''), (''open'', JString (str_lit ''0'')),
        (''closed'', JString (str_lit ''0'')), (''cancelled'', JString (str_lit ''0'')), (''original'', jindex c ''amount''),
        (''reserved'', jindex c ''amount''), (''occupied'', zero), (''released'', zero), (''maintenance'', zero),
        (''reserved_released'', JBool False), (''version'', jint 1), (''created_at'', jindex c ''time''), (''time'', jindex c ''time'')])))"

definition mar_occupy :: "ledger_env \<Rightarrow> mar_input \<Rightarrow> json \<Rightarrow> bigdec \<Rightarrow> bigdec \<Rightarrow> bigdec \<Rightarrow> nat \<Rightarrow> mar_error + json" where
  "mar_occupy env mi old quantity amount maintenance p =
     (let bad = Inl (MarError ''MARGIN_OCCUPY'') in
      if as_bool (jindex old ''reserved_released'') = Some True \<or> mi_quanta mi = 0 then bad
      else rbind (mar_number env (jindex old ''unfilled'')) (\<lambda>unfilled.
      if bd_less env unfilled quantity then bad
      else rbind (mar_number env (jindex old ''reserved'')) (\<lambda>reserved.
      if bd_less env reserved amount \<or> bd_less env amount maintenance then bad
      else rbind (mar_number env (jindex old ''open'')) (\<lambda>opened.
      rbind (mar_number env (jindex old ''occupied'')) (\<lambda>occupied.
      rbind (mar_number env (jindex old ''maintenance'')) (\<lambda>held.
      let s1 = set_number env old ''unfilled'' (bd_sub env unfilled quantity);
          s2 = set_number env s1 ''open'' (bd_add env opened quantity);
          s3 = set_money env s2 ''reserved'' (bd_sub env reserved amount) p;
          s4 = set_money env s3 ''occupied'' (bd_add env occupied amount) p
      in Inr (set_money env s4 ''maintenance'' (bd_add env held maintenance) p)))))))"

definition mar_release_reserved :: "ledger_env \<Rightarrow> json \<Rightarrow> bigdec \<Rightarrow> bigdec \<Rightarrow> bigdec \<Rightarrow> nat \<Rightarrow> mar_error + json" where
  "mar_release_reserved env old quantity amount maintenance p =
     (let bad = Inl (MarError ''MARGIN_RESERVED_RELEASE'') in
      if as_bool (jindex old ''reserved_released'') = Some True then bad
      else rbind (mar_number env (jindex old ''unfilled'')) (\<lambda>unfilled.
      if \<not> bd_eq env quantity unfilled then bad
      else rbind (mar_number env (jindex old ''reserved'')) (\<lambda>reserved.
      if \<not> bd_eq env amount reserved \<or> \<not> bd_eq env maintenance bd_zero then bad
      else rbind (mar_number env (jindex old ''cancelled'')) (\<lambda>cancelled.
      rbind (mar_number env (jindex old ''released'')) (\<lambda>released.
      let s1 = set_number env old ''cancelled'' (bd_add env cancelled quantity);
          s2 = jset s1 ''unfilled'' (JString (str_lit ''0''));
          s3 = set_money env s2 ''reserved'' bd_zero p;
          s4 = set_money env s3 ''released'' (bd_add env released amount) p
      in Inr (jset s4 ''reserved_released'' (JBool True)))))))"

definition mar_release_occupied :: "ledger_env \<Rightarrow> mar_input \<Rightarrow> json \<Rightarrow> bigdec \<Rightarrow> bigdec \<Rightarrow> bigdec \<Rightarrow> nat \<Rightarrow> mar_error + json" where
  "mar_release_occupied env mi old quantity amount maintenance p =
     (let bad = Inl (MarError ''MARGIN_OCCUPIED_RELEASE'') in
      rbind (mar_units env (jindex old ''open'') (mi_precision mi)) (\<lambda>whole.
      if mi_quanta mi = 0 \<or> mi_quanta mi > whole \<or> jindex (mi_command mi) ''source_order'' = jindex old ''order'' then bad
      else rbind (mar_number env (jindex old ''occupied'')) (\<lambda>occupied.
      rbind (proportional env occupied (mi_quanta mi) whole p) (\<lambda>share.
      if \<not> bd_eq env amount share then bad
      else rbind (mar_number env (jindex old ''maintenance'')) (\<lambda>held.
      rbind (proportional env held (mi_quanta mi) whole p) (\<lambda>held_share.
      if \<not> bd_eq env maintenance held_share then bad
      else rbind (mar_number env (jindex old ''open'')) (\<lambda>opened.
      rbind (mar_number env (jindex old ''closed'')) (\<lambda>closed.
      rbind (mar_number env (jindex old ''released'')) (\<lambda>released.
      let s1 = set_number env old ''open'' (bd_sub env opened quantity);
          s2 = set_number env s1 ''closed'' (bd_add env closed quantity);
          s3 = set_money env s2 ''occupied'' (bd_sub env occupied amount) p;
          s4 = set_money env s3 ''released'' (bd_add env released amount) p
      in Inr (set_money env s4 ''maintenance'' (bd_sub env held maintenance) p))))))))))"

definition mar_follow :: "ledger_env \<Rightarrow> mar_input \<Rightarrow> json \<Rightarrow> nat \<Rightarrow> bigdec \<Rightarrow> bigdec \<Rightarrow> nat \<Rightarrow> mar_error + json" where
  "mar_follow env mi old expected amount maintenance p =
     (let c = mi_command mi in
      if old = JNull then Inl (MarError ''MARGIN_RESERVATION_UNKNOWN'')
      else if list_ex (\<lambda>k. jindex old k \<noteq> jindex c k) [''scope'', ''mode'', ''isolation'', ''position_side'', ''quantity_precision'']
      then Inl (MarError ''MARGIN_RESERVATION_CONTEXT'')
      else rbind (mar_number env (jindex c ''quantity'')) (\<lambda>quantity.
      if mi_action mi \<noteq> str_lit ''RELEASE_OCCUPIED'' \<and> jindex old ''order'' \<noteq> jindex c ''source_order''
      then Inl (MarError ''MARGIN_ORDER_OWNER'')
      else rbind (if mi_action mi = str_lit ''OCCUPY'' then mar_occupy env mi old quantity amount maintenance p
                  else if mi_action mi = str_lit ''RELEASE_RESERVED'' then mar_release_reserved env old quantity amount maintenance p
                  else if mi_action mi = str_lit ''RELEASE_OCCUPIED'' then mar_release_occupied env mi old quantity amount maintenance p
                  else Inl (MarError ''MARGIN_ACTION'')) (\<lambda>state.
      if expected + 1 \<ge> 2 ^ 64 then Inl (MarError ''MARGIN_VERSION'')
      else Inr (jset (jset state ''version'' (jint (int (expected + 1)))) ''time'' (jindex c ''time'')))))"

definition mar_sum :: "ledger_env \<Rightarrow> json \<Rightarrow> string list \<Rightarrow> bigdec \<Rightarrow> mar_error + bigdec" where
  "mar_sum env state ks start = rfold (\<lambda>k n. rbind (mar_number env (jindex state k)) (\<lambda>d. Inr (bd_add env n d))) ks start"

definition mar_conserved :: "ledger_env \<Rightarrow> json \<Rightarrow> mar_error + unit" where
  "mar_conserved env state =
     rbind (mar_number env (jindex state ''original'')) (\<lambda>original.
     rbind (mar_number env (jindex state ''reserved'')) (\<lambda>reserved.
     rbind (mar_sum env state [''occupied'', ''released''] reserved) (\<lambda>amounts.
     if \<not> bd_eq env original amounts then Inl (MarError ''MARGIN_CONSERVATION'')
     else rbind (mar_number env (jindex state ''quantity'')) (\<lambda>quantity.
     rbind (mar_number env (jindex state ''unfilled'')) (\<lambda>unfilled.
     rbind (mar_sum env state [''open'', ''closed'', ''cancelled''] unfilled) (\<lambda>quantities.
     if \<not> bd_eq env quantity quantities then Inl (MarError ''MARGIN_CONSERVATION'') else Inr ()))))))"

definition mar_is_zero :: "ledger_env \<Rightarrow> json \<Rightarrow> string \<Rightarrow> mar_error + bool" where
  "mar_is_zero env state k = rbind (mar_number env (jindex state k)) (\<lambda>d. Inr (bd_eq env d bd_zero))"

fun mar_all_zero :: "ledger_env \<Rightarrow> json \<Rightarrow> string list \<Rightarrow> mar_error + bool" where
  "mar_all_zero env state [] = Inr True"
| "mar_all_zero env state (k # ks) = rbind (mar_is_zero env state k) (\<lambda>z. if z then mar_all_zero env state ks else Inr False)"

definition mar_status :: "ledger_env \<Rightarrow> json \<Rightarrow> mar_error + string" where
  "mar_status env state =
     rbind (mar_all_zero env state [''unfilled'', ''open'', ''reserved'', ''occupied'']) (\<lambda>closed.
     if closed then Inr ''CLOSED''
     else rbind (mar_number env (jindex state ''released'')) (\<lambda>released.
     if bd_less env bd_zero released then Inr ''PARTIALLY_RELEASED''
     else rbind (mar_number env (jindex state ''occupied'')) (\<lambda>occupied.
     Inr (if bd_less env bd_zero occupied then ''OCCUPIED'' else ''RESERVED''))))"

definition mar_transition :: "ledger_env \<Rightarrow> mar_manager \<Rightarrow> json \<Rightarrow> mar_input \<Rightarrow> rstr \<Rightarrow> json \<Rightarrow> mar_error + json" where
  "mar_transition env m input mi key old =
     rbind (mar_before env m input mi old) (\<lambda>expected.
     rbind (mar_currency env (jindex (mm_config m) ''currency'')) (\<lambda>p.
     rbind (mar_number env (jindex (mi_command mi) ''amount'')) (\<lambda>amount.
     rbind (mar_number env (jindex (mi_command mi) ''maintenance'')) (\<lambda>maintenance.
     rbind (if mi_action mi = str_lit ''RESERVE'' then mar_reserve env m mi key old amount maintenance p
            else mar_follow env mi old expected amount maintenance p) (\<lambda>state.
     rbind (mar_conserved env state) (\<lambda>_.
     rbind (mar_status env state) (\<lambda>status.
     Inr (jset state ''status'' (JString (str_lit status))))))))))"

definition mar_remaining :: "ledger_env \<Rightarrow> json \<Rightarrow> mar_error + nat" where
  "mar_remaining env state =
     rbind (mar_precision (jindex state ''quantity_precision'')) (\<lambda>p.
     rbind (mar_units env (jindex state ''unfilled'') p) (\<lambda>unfilled.
     let over = Inl (MarError ''MARGIN_ADMISSION_CAPACITY'') in
     if unfilled * 2 \<ge> 2 ^ 64 then over
     else case mar_units env (jindex state ''open'') p of
       Inl _ \<Rightarrow> over
     | Inr opened \<Rightarrow>
         if unfilled * 2 + opened \<ge> 2 ^ 64 then over
         else let n = unfilled * 2 + opened + (if as_bool (jindex state ''reserved_released'') = Some False then 1 else 0) in
              if n \<ge> 2 ^ 64 then over else Inr n))"

definition check_budget :: "ledger_env \<Rightarrow> mar_manager \<Rightarrow> mar_error + unit" where
  "check_budget env m =
     rbind (rfold (\<lambda>state budget.
         rbind (mar_remaining env state) (\<lambda>remaining.
         if budget + remaining \<ge> 2 ^ 64 \<or> budget + remaining > mm_capacity m
         then Inl (MarError ''MARGIN_ADMISSION_CAPACITY'') else Inr (budget + remaining)))
       (bt_values (mm_states m)) (length (mm_records m))) (\<lambda>_. Inr ())"

definition mar_result :: "ledger_env \<Rightarrow> json \<Rightarrow> json \<Rightarrow> json \<Rightarrow> json" where
  "mar_result env command old state =
     (let result = jobject [(''schema_version'', jint 1), (''instruction'', jindex command ''id''), (''before_hash'', jindex command ''before_hash''),
        (''after'', state), (''projection_before'', projection old), (''projection_after'', projection state),
        (''source_ref'', jindex command ''source_ref''), (''source_fingerprint'', jindex command ''source_fingerprint'')]
      in jset result ''id'' (JString (str_lit ''MAPL-'' @ mar_digest env result)))"

definition clear_reservation :: "json \<Rightarrow> json" where
  "clear_reservation c = (if jindex c ''action'' = JString (str_lit ''RESERVE'') then jset c ''reservation'' JNull else c)"

definition mar_commit :: "ledger_env \<Rightarrow> mar_manager \<Rightarrow> mar_input \<Rightarrow> rstr \<Rightarrow> json \<Rightarrow> json \<Rightarrow> mar_error + mar_manager \<times> mar_effect" where
  "mar_commit env m mi key old state =
     (let command = mi_command mi; result = mar_result env command old state;
          row = jobject [(''command'', command), (''result'', result)];
          candidate = m\<lparr>mm_states := bt_insert key state (mm_states m), mm_records := mm_records m @ [row]\<rparr> in
      rbind (mar_bounded env state 8192) (\<lambda>_.
      rbind (mar_bounded env row 32768) (\<lambda>_.
      rbind (check_budget env candidate) (\<lambda>_.
      rbind (mar_bounded env (mar_checkpoint candidate) 33554432) (\<lambda>_.
      Inr (candidate, \<lparr>mf_value = result,
        mf_replay = jobject [(''schema_version'', jint 1), (''config'', mm_config m), (''capacity'', jint (int (mm_capacity m))),
          (''before_hash'', JString (mar_digest env (mar_checkpoint m))), (''command'', clear_reservation command),
          (''after_hash'', JString (mar_digest env (mar_checkpoint candidate)))]\<rparr>))))))"

definition mar_advance :: "ledger_env \<Rightarrow> mar_manager \<Rightarrow> json \<Rightarrow> mar_input \<Rightarrow> mar_error + mar_manager \<times> mar_effect" where
  "mar_advance env m input mi =
     rbind (mar_text (jindex (mi_command mi) ''reservation'')) (\<lambda>key.
     let old = (case map_of (mm_states m) key of Some s \<Rightarrow> s | None \<Rightarrow> JNull) in
     rbind (mar_transition env m input mi key old) (mar_commit env m mi key old))"

text \<open>An instruction that was accepted before returns its result, with its replay input
  rederived by applying the log up to it to a fresh manager.\<close>

definition mar_index :: "mar_manager \<Rightarrow> json \<Rightarrow> nat" where
  "mar_index m command = length (takeWhile (\<lambda>r. jindex (jindex r ''command'') ''id'' \<noteq> jindex command ''id'') (mm_records m))"

definition mar_repeat ::
  "ledger_env \<Rightarrow> (mar_manager \<Rightarrow> json \<Rightarrow> mar_error + mar_manager \<times> mar_effect) \<Rightarrow> mar_manager \<Rightarrow> json \<Rightarrow> mar_error + mar_manager \<times> mar_effect" where
  "mar_repeat env again m command =
     (let index = mar_index m command; row = mm_records m ! index in
      if jindex row ''command'' \<noteq> command then Inl (MarError ''MARGIN_INSTRUCTION_CONFLICT'')
      else rbind (mar_new env (mm_config m) (mm_capacity m)) (\<lambda>fresh.
      rbind (rfold (\<lambda>entry prior. rbind (again prior (clear_reservation (jindex entry ''command''))) (\<lambda>(prior1, _). Inr prior1))
               (take index (mm_records m)) fresh) (\<lambda>prior.
      rbind (again prior (clear_reservation command)) (\<lambda>(_, effect).
      Inr (m, \<lparr>mf_value = jindex row ''result'', mf_replay = mf_replay effect\<rparr>)))))"

definition mar_step ::
  "ledger_env \<Rightarrow> (mar_manager \<Rightarrow> json \<Rightarrow> mar_error + mar_manager \<times> mar_effect) \<Rightarrow> mar_manager \<Rightarrow> json \<Rightarrow> mar_error + mar_manager \<times> mar_effect" where
  "mar_step env again m input =
     rbind (mar_read env m input) (\<lambda>mi.
     if mar_index m (mi_command mi) < length (mm_records m) then mar_repeat env again m (mi_command mi)
     else mar_advance env m input mi)"

fun mar_apply_fuel :: "ledger_env \<Rightarrow> nat \<Rightarrow> mar_manager \<Rightarrow> json \<Rightarrow> mar_error + mar_manager \<times> mar_effect" where
  "mar_apply_fuel env 0 m input = mar_step env (\<lambda>_ _. Inl MarFuel) m input"
| "mar_apply_fuel env (Suc n) m input = mar_step env (mar_apply_fuel env n) m input"

definition mar_apply :: "ledger_env \<Rightarrow> mar_manager \<Rightarrow> json \<Rightarrow> mar_error + mar_manager \<times> mar_effect" where
  "mar_apply env m input = mar_apply_fuel env (length (mm_records m)) m input"

section \<open>Restore (manager.rs)\<close>

definition mar_restore_row :: "ledger_env \<Rightarrow> json \<Rightarrow> mar_manager \<Rightarrow> mar_error + mar_manager" where
  "mar_restore_row env row m =
     rbind (mar_fields row [''command'', ''result'']) (\<lambda>_.
     rbind (mar_apply env m (clear_reservation (jindex row ''command''))) (\<lambda>(m1, effect).
     if mf_value effect \<noteq> jindex row ''result'' then Inl (MarError ''MARGIN_CHECKPOINT_RESULT'') else Inr m1))"

definition mar_restore :: "ledger_env \<Rightarrow> mar_manager \<Rightarrow> json \<Rightarrow> rstr \<Rightarrow> mar_error + mar_manager" where
  "mar_restore env m v expected =
     rbind (mar_bounded env v 33554432) (\<lambda>_.
     rbind (mar_fields v [''schema_version'', ''config'', ''capacity'', ''states'', ''records'']) (\<lambda>_.
     if as_u64 (jindex v ''schema_version'') \<noteq> Some 1 \<or> jindex v ''config'' \<noteq> mm_config m
        \<or> as_u64 (jindex v ''capacity'') \<noteq> Some (mm_capacity m) \<or> mar_digest env v \<noteq> expected
     then Inl (MarError ''MARGIN_CHECKPOINT_CONTEXT'')
     else if mm_records m \<noteq> [] \<or> mm_states m \<noteq> []
     then if mar_checkpoint m = v then Inr m else Inl (MarError ''MARGIN_RESTORE_FRESH_ONLY'')
     else rbind (ok_or (case as_array (jindex v ''records'') of Some a \<Rightarrow> if length a \<le> mm_capacity m then Some a else None | None \<Rightarrow> None)
                   (MarError ''MARGIN_CHECKPOINT_RECORDS'')) (\<lambda>rows.
     rbind (mar_new env (mm_config m) (mm_capacity m)) (\<lambda>fresh.
     rbind (rfold (mar_restore_row env) rows fresh) (\<lambda>restored.
     if mar_checkpoint restored \<noteq> v then Inl (MarError ''MARGIN_CHECKPOINT_NONCANONICAL'') else Inr restored)))))"

end
