(* ===== verification/Margin_Laws.thy ===== *)
theory Margin_Laws
  imports Margin_Manager Refinement
begin

text \<open>
  What the proofs about the margin manager share: the laws of plain decimal texts with what the
  readers of the manager make of them, the duplicate path with the fuel it needs, and half-even
  shares of an amount.
\<close>

section \<open>Texts of numbers\<close>

locale plain_texts = ledger env for env +
  assumes plain_value: "\<exists>e. lib_parse (le_lib env) (le_plain env d) = Some e \<and> bd_value e = bd_value d"
    and plain_integer: "bd_scale d = 0 \<Longrightarrow> le_plain env d = int_text (bd_coef d)"
    and normalized_value: "bd_value (lib_normalized (le_lib env) d) = bd_value d"

lemma u64_token_text: "0 \<le> c \<Longrightarrow> c < 2 ^ 64 \<Longrightarrow> u64_token (int_text c) = Some (nat c)"
  by (simp add: u64_token_def int_text_def nat_less_iff)

definition reads :: "ledger_env \<Rightarrow> json \<Rightarrow> rat \<Rightarrow> bool" where
  "reads env v x \<longleftrightarrow> (\<exists>d. mar_number env v = Inr d \<and> bd_value d = x)"

lemma readsI: "mar_number env v = Inr d \<Longrightarrow> reads env v (bd_value d)"
  by (auto simp: reads_def)

lemma reads_unique: "reads env v x \<Longrightarrow> reads env v y \<Longrightarrow> x = y"
  by (auto simp: reads_def)

context ledger
begin

lemma reads_nonneg: "reads env v x \<Longrightarrow> 0 \<le> x"
  by (auto simp: reads_def mar_number_def result_simps value_simps)

lemma reads_zero: "mar_all_zero env s ks = Inr True \<longleftrightarrow> (\<forall>k \<in> set ks. reads env (jindex s k) 0)"
proof (induction ks)
  case (Cons k ks)
  then show ?case
    by (cases "mar_number env (jindex s k)") (auto simp: mar_is_zero_def reads_def value_simps split: if_splits)
qed simp

end

context plain_texts
begin

lemma reads_plain: "mar_number env (JString (le_plain env d)) = Inr e \<Longrightarrow> bd_value e = bd_value d"
  using plain_value [of d] by (auto simp: mar_number_def mar_text_def as_str_def result_simps ok_or_eq split: if_splits)

lemma reads_plain_iff: "reads env (JString (le_plain env d)) x \<Longrightarrow> x = bd_value d"
  by (auto simp: reads_def dest: reads_plain)

lemma zero_text: "str_lit ''0'' = le_plain env bd_zero"
  by (simp add: plain_integer bd_zero_def int_text_def str_lit_def)

lemma reads_zero_text: "reads env (JString (str_lit ''0'')) x \<Longrightarrow> x = 0"
  unfolding zero_text by (drule reads_plain_iff) simp

lemma with_scale_multiple: "bd_value d * 10 ^ p = of_int c \<Longrightarrow> bd_value (lib_with_scale (le_lib env) d (int p)) = bd_value d"
  by (rule with_scale_exact [of _ _ c]) simp

lemma units_value:
  assumes "mar_units env v p = Inr n"
  shows "p \<le> 18" "reads env v (of_nat n / 10 ^ p)" "n < 2 ^ 64"
proof -
  obtain d where d: "mar_number env v = Inr d" "p \<le> 18"
    and w: "bd_eq env (bd_mul env d \<lparr>bd_coef = 1, bd_scale = - int p\<rparr>) (lib_with_scale (le_lib env) (bd_mul env d \<lparr>bd_coef = 1, bd_scale = - int p\<rparr>) 0)"
    and t: "u64_token (le_plain env (lib_with_scale (le_lib env) (bd_mul env d \<lparr>bd_coef = 1, bd_scale = - int p\<rparr>) 0)) = Some n"
    using assms by (auto simp: mar_units_def result_simps Let_def ok_or_eq split: if_splits)
  define w where "w = lib_with_scale (le_lib env) (bd_mul env d \<lparr>bd_coef = 1, bd_scale = - int p\<rparr>) 0"
  have s: "bd_scale w = 0" by (simp add: w_def with_scale_scale)
  have v: "bd_value d * 10 ^ p = bd_value w"
    using w unfolding w_def [symmetric] by (simp add: value_simps) (simp add: bd_value_def [of "\<lparr>bd_coef = 1, bd_scale = _\<rparr>"])
  have u: "u64_token (int_text (bd_coef w)) = Some n" using t unfolding w_def [symmetric] by (simp add: plain_integer s)
  have c: "0 \<le> bd_coef w" using reads_nonneg [OF readsI [OF d(1)]] v value_sign(2) [of w] by (metis mult_nonneg_nonneg zero_le_numeral zero_le_power)
  then have n: "n = nat (bd_coef w)" "n < 2 ^ 64" using u by (auto simp: u64_token_def int_text_def split: if_splits)
  have "bd_value w = of_int (bd_coef w)" by (simp add: bd_value_def s)
  then have "bd_value d = of_nat n / 10 ^ p" using v c n(1) by (simp add: field_simps)
  then show "p \<le> 18" "reads env v (of_nat n / 10 ^ p)" "n < 2 ^ 64" using d n(2) by (auto simp: reads_def)
qed

lemma units_returns:
  assumes "reads env v (of_nat n / 10 ^ p)" "p \<le> 18" "n < 2 ^ 64"
  shows "mar_units env v p = Inr n"
proof -
  obtain d where d: "mar_number env v = Inr d" "bd_value d = of_nat n / 10 ^ p" using assms(1) by (auto simp: reads_def)
  define m where "m = bd_mul env d \<lparr>bd_coef = 1, bd_scale = - int p\<rparr>"
  have m: "bd_value m = of_int (int n)" using d(2) by (simp add: m_def value_simps) (simp add: bd_value_def)
  define w where "w = lib_with_scale (le_lib env) m 0"
  have w: "bd_scale w = 0" "bd_coef w = int n"
    using truncate_of_int [of "int n"] by (simp_all add: w_def with_scale_scale with_scale_coef m)
  then have "bd_value w = bd_value m" by (simp add: bd_value_def [of w] m)
  moreover have "u64_token (le_plain env w) = Some n" using u64_token_text [of "int n"] assms(3) by (simp add: plain_integer w)
  ultimately show ?thesis
    using assms(2) d(1) unfolding mar_units_def Let_def by (simp add: m_def [symmetric] w_def [symmetric] order_value)
qed

end

section \<open>The duplicate path\<close>

text \<open>Every application adds at most one record, so the replay of a log prefix stays shorter
  than the log, and fuel of the length of the log is enough.\<close>

definition grows :: "(mar_manager \<Rightarrow> json \<Rightarrow> mar_error + mar_manager \<times> mar_effect) \<Rightarrow> bool" where
  "grows again \<longleftrightarrow> (\<forall>m input m' e. again m input = Inr (m', e) \<longrightarrow> length (mm_records m') \<le> Suc (length (mm_records m)))"

definition fuelled :: "nat \<Rightarrow> (mar_manager \<Rightarrow> json \<Rightarrow> mar_error + mar_manager \<times> mar_effect) \<Rightarrow> bool" where
  "fuelled n again \<longleftrightarrow> (\<forall>m input. length (mm_records m) \<le> n \<longrightarrow> again m input \<noteq> Inl MarFuel)"

lemma external_spares [spares_rules]: "spares MarFuel (mar_external r)"
  by (auto simp: spares_def mar_external_def split: sum.splits)

lemma walk_spares [spares_rules]: "spares MarFuel (mar_walk pending nodes)"
  by (induction pending nodes rule: mar_walk.induct) (auto simp: spares_def split: json.splits)

lemma readers_spare [spares_rules]:
  "spares MarFuel (mar_fields v names)" "spares MarFuel (mar_text v)" "spares MarFuel (mar_id v)" "spares MarFuel (mar_uint v)"
  "spares MarFuel (mar_fingerprint v)" "spares MarFuel (mar_number env v)" "spares MarFuel (mar_precision v)"
  "spares MarFuel (mar_currency env v)" "spares MarFuel (mar_time env v)" "spares MarFuel (mar_bounded env v n)"
  unfolding mar_fields_def mar_text_def mar_id_def mar_uint_def mar_fingerprint_def mar_number_def mar_precision_def mar_currency_def
    mar_time_def mar_bounded_def
  by (intro spares_rules; simp)+

lemma money_spares [spares_rules]: "spares MarFuel (mar_money env v p)" "spares MarFuel (mar_units env v p)" "spares MarFuel (mar_kind v)"
  "spares MarFuel (proportional env n part whole p)" "spares MarFuel (mar_sum env s ks n)" "spares MarFuel (mar_is_zero env s k)"
  unfolding mar_money_def mar_units_def mar_kind_def proportional_def mar_sum_def mar_is_zero_def Let_def by (intro spares_rules; simp)+

lemma scope_spares [spares_rules]: "spares MarFuel (mar_scope v)" "spares MarFuel (mar_all_zero env s ks)"
proof -
  show "spares MarFuel (mar_scope v)" unfolding mar_scope_def by (intro spares_rules; simp)+
  show "spares MarFuel (mar_all_zero env s ks)" by (induction ks) (auto intro!: spares_rules)
qed

lemma new_spares [spares_rules]: "spares MarFuel (mar_new env c n)" "spares MarFuel (mar_read env m input)"
  unfolding mar_new_def mar_read_def mar_read_scope_def mar_read_mode_def Let_def by (intro spares_rules; simp)+

lemma remaining_spares [spares_rules]: "spares MarFuel (mar_remaining env s)"
  unfolding mar_remaining_def Let_def by (intro spares_rules; simp)+

lemma advance_spares [spares_rules]: "spares MarFuel (mar_advance env m input mi)"
  unfolding mar_advance_def mar_transition_def mar_before_def mar_alias_def mar_reserve_def mar_follow_def mar_occupy_def mar_release_reserved_def
    mar_release_occupied_def mar_conserved_def mar_status_def mar_commit_def check_budget_def Let_def
  by (intro spares_rules; simp)+

lemma advance_records:
  "yields (mar_advance env m input mi) (\<lambda>(m', _). length (mm_records m') = Suc (length (mm_records m)) \<and> mm_config m' = mm_config m)"
  unfolding mar_advance_def mar_commit_def Let_def by (intro yields_rules) simp

lemma repeat_keeps: "mar_repeat env again m command = Inr (m', e) \<Longrightarrow> m' = m"
  by (auto simp: mar_repeat_def Let_def result_simps split: if_splits)

lemma step_grows: "grows (mar_step env again)"
  unfolding grows_def
proof (intro allI impI)
  fix m input m' e
  assume "mar_step env again m input = Inr (m', e)"
  then obtain mi where "mar_repeat env again m (mi_command mi) = Inr (m', e) \<or> mar_advance env m input mi = Inr (m', e)"
    unfolding mar_step_def by (rule rbindE) (metis (full_types))
  then show "length (mm_records m') \<le> Suc (length (mm_records m))"
  proof
    assume "mar_repeat env again m (mi_command mi) = Inr (m', e)"
    then have "m' = m" by (rule repeat_keeps)
    then show ?thesis by simp
  next
    assume "mar_advance env m input mi = Inr (m', e)"
    from yieldsD [OF advance_records this] show ?thesis by simp
  qed
qed

lemma apply_fuel_grows: "grows (mar_apply_fuel env n)"
proof -
  have "mar_apply_fuel env n = mar_step env (case n of 0 \<Rightarrow> \<lambda>_ _. Inl MarFuel | Suc k \<Rightarrow> mar_apply_fuel env k)"
    by (intro ext) (cases n; simp)
  then show ?thesis using step_grows by metis
qed

lemma replay_fuelled:
  assumes "grows again" "fuelled n again" "length xs + length (mm_records prior) \<le> Suc n"
  shows "spares MarFuel (rfold (\<lambda>entry prior. rbind (again prior (clear_reservation (jindex entry ''command''))) (\<lambda>(prior1, _). Inr prior1)) xs prior)
    \<and> yields (rfold (\<lambda>entry prior. rbind (again prior (clear_reservation (jindex entry ''command''))) (\<lambda>(prior1, _). Inr prior1)) xs prior)
        (\<lambda>p. length (mm_records p) \<le> length xs + length (mm_records prior))"
  using assms(3)
proof (induction xs arbitrary: prior)
  case (Cons x xs)
  show ?case
  proof (cases "again prior (clear_reservation (jindex x ''command''))")
    case (Inl e)
    then have "e \<noteq> MarFuel" using assms(2) Cons.prems by (auto simp: fuelled_def)
    then show ?thesis by (simp add: Inl spares_def yields_def)
  next
    case (Inr a)
    obtain p e where a: "a = (p, e)" by (cases a)
    have p: "length (mm_records p) \<le> Suc (length (mm_records prior))" using assms(1) Inr a by (auto simp: grows_def)
    then have "length xs + length (mm_records p) \<le> Suc n" using Cons.prems by simp
    from Cons.IH [OF this] show ?thesis using p by (auto simp: Inr a yields_def)
  qed
qed (simp add: spares_def yields_def)

lemma apply_fuelled: "fuelled n (mar_apply_fuel env n)"
proof (induction n)
  case 0
  show ?case
    unfolding fuelled_def
  proof (intro allI impI sparesD)
    fix m :: mar_manager and input
    assume "length (mm_records m) \<le> 0"
    then show "spares MarFuel (mar_apply_fuel env 0 m input)"
      by (auto simp: mar_step_def intro!: spares_rules)
  qed
next
  case (Suc n)
  show ?case
    unfolding fuelled_def
  proof (intro allI impI sparesD)
    fix m :: mar_manager and input
    assume m: "length (mm_records m) \<le> Suc n"
    have "spares MarFuel (mar_repeat env (mar_apply_fuel env n) m command)" if "mar_index m command < length (mm_records m)" for command
    proof -
      have fresh: "mm_records f = []" if "mar_new env c k = Inr f" for c k f
        using that by (auto simp: mar_new_def rbind_eq_Inr guard_eq)
      let ?xs = "take (mar_index m command) (mm_records m)"
      have len: "length ?xs \<le> n" using that m by simp
      let ?replay = "rfold (\<lambda>entry prior. rbind (mar_apply_fuel env n prior (clear_reservation (jindex entry ''command'')))
        (\<lambda>(prior1, _). Inr prior1)) ?xs"
      note replay = replay_fuelled [OF apply_fuel_grows Suc.IH, of ?xs]
      have rows: "spares MarFuel (?replay f)" if "mar_new env (mm_config m) (mm_capacity m) = Inr f" for f
        using replay [of f] fresh [OF that] len by simp
      have last: "spares MarFuel (mar_apply_fuel env n p (clear_reservation command))"
        if "mar_new env (mm_config m) (mm_capacity m) = Inr f" "?replay f = Inr p" for f p
      proof -
        have "length (mm_records p) \<le> n" using replay [of f] that(2) fresh [OF that(1)] len by (auto simp: yields_def min_le_iff_disj)
        then show ?thesis using Suc.IH by (simp add: fuelled_def spares_def)
      qed
      show ?thesis
        unfolding mar_repeat_def Let_def
        by (intro spares_if spares_rbind spares_prod spares_Inr spares_Inl new_spares rows last) simp_all
    qed
    then show "spares MarFuel (mar_apply_fuel env (Suc n) m input)"
      by (auto simp: mar_step_def intro!: spares_rules)
  qed
qed

section \<open>Half-even shares\<close>

definition half_even_div :: "int \<Rightarrow> int \<Rightarrow> int" where
  "half_even_div a b = (if a mod b * 2 > b \<or> a mod b * 2 = b \<and> a div b mod 2 \<noteq> 0 then a div b + 1 else a div b)"

lemma half_even_div_near:
  assumes "0 < b"
  shows "2 * b * half_even_div a b \<le> 2 * a + b" "2 * a - b \<le> 2 * b * half_even_div a b"
proof -
  have m: "a = b * (a div b) + a mod b" "0 \<le> a mod b" "a mod b < b" using assms by simp_all
  have "2 * (b * (a div b)) = 2 * a - 2 * (a mod b)" using m(1) by linarith
  then show "2 * b * half_even_div a b \<le> 2 * a + b" "2 * a - b \<le> 2 * b * half_even_div a b"
    using m(2,3) by (auto simp: half_even_div_def algebra_simps)
qed

lemma half_even_div_exact: "0 < b \<Longrightarrow> half_even_div (x * b) b = x"
  by (simp add: half_even_div_def)

lemma half_even_share:
  assumes "0 < b" "0 \<le> part" "part \<le> b" "0 \<le> x"
  shows "0 \<le> half_even_div (x * part) b" "half_even_div (x * part) b \<le> x"
proof -
  note n = half_even_div_near [OF assms(1), of "x * part"]
  have "0 \<le> x * part" using assms by simp
  then have "- b \<le> 2 * b * half_even_div (x * part) b" using n(2) by linarith
  then have "2 * b * (- 1) < 2 * b * half_even_div (x * part) b" using assms(1) by linarith
  then have "- 1 < half_even_div (x * part) b" using assms(1) by (subst (asm) mult_less_cancel_left_pos) simp_all
  then show "0 \<le> half_even_div (x * part) b" by simp
  have "x * part \<le> x * b" using assms by (simp add: mult_left_mono)
  then have "2 * b * half_even_div (x * part) b \<le> 2 * (x * b) + b" using n(1) by linarith
  then have "2 * b * half_even_div (x * part) b < 2 * b * (x + 1)" using assms(1) by (simp add: algebra_simps)
  then show "half_even_div (x * part) b \<le> x" using assms(1) by (simp add: mult_less_cancel_left_pos)
qed

text \<open>What stays after giving up a share grows with the whole.\<close>

lemma half_even_rest_mono:
  assumes "0 < b" "0 \<le> part" "part \<le> b" "x \<le> y"
  shows "x - half_even_div (x * part) b \<le> y - half_even_div (y * part) b"
proof (cases "part = b")
  case True
  then show ?thesis by (simp add: half_even_div_exact assms(1))
next
  case False
  have step: "half_even_div ((x + 1) * part) b \<le> half_even_div (x * part) b + 1" for x
  proof -
    have "2 * b * half_even_div ((x + 1) * part) b \<le> 2 * (x * part) + 2 * part + b" "2 * (x * part) - b \<le> 2 * b * half_even_div (x * part) b"
      using half_even_div_near [OF assms(1), of "(x + 1) * part"] half_even_div_near [OF assms(1), of "x * part"] by (simp_all add: algebra_simps)
    moreover have "part < b" using False assms(3) by simp
    ultimately have "2 * b * half_even_div ((x + 1) * part) b < 2 * b * (half_even_div (x * part) b + 2)" by (simp add: algebra_simps)
    then show ?thesis using assms(1) by (simp add: mult_less_cancel_left_pos)
  qed
  from assms(4) show ?thesis
  proof (induction rule: int_ge_induct)
    case (step i)
    then show ?case using \<open>\<And>x. half_even_div ((x + 1) * part) b \<le> half_even_div (x * part) b + 1\<close> [of i] by linarith
  qed simp
qed

end
