(* ===== verification/Margin_Invariant.thy ===== *)
theory Margin_Invariant
  imports Margin_Laws
begin

text \<open>
  What one reservation keeps: a slot describes its open and unfilled quantity in quanta and its
  occupied amount and maintenance margin in minor units of the currency. Every action moves the
  slot of a reservation, and every action but the reservation itself lowers the number of
  instructions that the slot may still need.
\<close>

definition spells :: "ledger_env \<Rightarrow> json \<Rightarrow> rat \<Rightarrow> bool" where
  "spells env v x \<longleftrightarrow> (\<exists>d. v = JString (le_plain env d) \<and> bd_value d = x)"

definition quanta :: "nat \<Rightarrow> nat \<Rightarrow> rat" where
  "quanta p n = of_nat n / 10 ^ p"

definition minor :: "nat \<Rightarrow> int \<Rightarrow> rat" where
  "minor p c = of_int c / 10 ^ p"

lemma quanta_simps [simp]: "quanta p (a + b) = quanta p a + quanta p b" "b \<le> a \<Longrightarrow> quanta p (a - b) = quanta p a - quanta p b"
  "quanta p 0 = 0" "quanta p a < quanta p b \<longleftrightarrow> a < b" "quanta p a \<le> quanta p b \<longleftrightarrow> a \<le> b" "quanta p a = quanta p b \<longleftrightarrow> a = b"
  by (simp_all add: quanta_def add_divide_distrib diff_divide_distrib divide_strict_right_mono divide_less_cancel divide_le_cancel of_nat_diff)

lemma minor_simps [simp]: "minor p (a + b) = minor p a + minor p b" "minor p (a - b) = minor p a - minor p b"
  "minor p 0 = 0" "minor p a < minor p b \<longleftrightarrow> a < b" "minor p a \<le> minor p b \<longleftrightarrow> a \<le> b" "minor p a = minor p b \<longleftrightarrow> a = b"
  by (simp_all add: minor_def add_divide_distrib diff_divide_distrib divide_less_cancel divide_le_cancel)

lemma minor_zero_iff [simp]: "minor p a = 0 \<longleftrightarrow> a = 0" "0 \<le> minor p a \<longleftrightarrow> 0 \<le> a" "quanta p n = 0 \<longleftrightarrow> n = 0"
  using minor_simps(5) [of p 0 a] by (simp_all add: minor_def quanta_def)

record slot =
  sl_precision :: nat
  sl_unfilled :: nat
  sl_open :: nat
  sl_occupied :: int
  sl_held :: int
  sl_released :: bool

definition slot_ok :: "slot \<Rightarrow> bool" where
  "slot_ok t \<longleftrightarrow> 0 \<le> sl_held t \<and> sl_held t \<le> sl_occupied t \<and> (sl_open t = 0 \<longrightarrow> sl_occupied t = 0) \<and> (sl_released t \<longrightarrow> sl_unfilled t = 0)"

definition slot_need :: "slot \<Rightarrow> nat" where
  "slot_need t = sl_unfilled t * 2 + sl_open t + (if sl_released t then 0 else 1)"

definition in_slot :: "ledger_env \<Rightarrow> nat \<Rightarrow> json \<Rightarrow> slot \<Rightarrow> bool" where
  "in_slot env p s t \<longleftrightarrow> mar_precision (jindex s ''quantity_precision'') = Inr (sl_precision t) \<and> sl_precision t \<le> 18 \<and>
     reads env (jindex s ''unfilled'') (quanta (sl_precision t) (sl_unfilled t)) \<and>
     reads env (jindex s ''open'') (quanta (sl_precision t) (sl_open t)) \<and>
     reads env (jindex s ''occupied'') (minor p (sl_occupied t)) \<and> spells env (jindex s ''maintenance'') (minor p (sl_held t)) \<and>
     as_bool (jindex s ''reserved_released'') = Some (sl_released t)"

text \<open>The slot after an action on it.\<close>

definition slot_occupy :: "nat \<Rightarrow> int \<Rightarrow> int \<Rightarrow> slot \<Rightarrow> slot" where
  "slot_occupy n a h t = t\<lparr>sl_unfilled := sl_unfilled t - n, sl_open := sl_open t + n, sl_occupied := sl_occupied t + a, sl_held := sl_held t + h\<rparr>"

definition slot_cancel :: "slot \<Rightarrow> slot" where
  "slot_cancel t = t\<lparr>sl_unfilled := 0, sl_released := True\<rparr>"

definition slot_release :: "nat \<Rightarrow> slot \<Rightarrow> slot" where
  "slot_release n t = t\<lparr>sl_open := sl_open t - n,
     sl_occupied := sl_occupied t - half_even_div (sl_occupied t * int n) (int (sl_open t)),
     sl_held := sl_held t - half_even_div (sl_held t * int n) (int (sl_open t))\<rparr>"

inductive slot_step :: "slot \<Rightarrow> slot \<Rightarrow> bool" where
  occupy: "\<not> sl_released t \<Longrightarrow> 0 < n \<Longrightarrow> n \<le> sl_unfilled t \<Longrightarrow> 0 \<le> h \<Longrightarrow> h \<le> a \<Longrightarrow> slot_step t (slot_occupy n a h t)"
| cancel: "\<not> sl_released t \<Longrightarrow> slot_step t (slot_cancel t)"
| release: "0 < n \<Longrightarrow> n \<le> sl_open t \<Longrightarrow> slot_step t (slot_release n t)"

lemma slot_step_ok: "slot_step t u \<Longrightarrow> slot_ok t \<Longrightarrow> slot_ok u"
proof (induction rule: slot_step.induct)
  case (release n t)
  let ?b = "int (sl_open t)"
  have b: "0 < ?b" "0 \<le> int n" "int n \<le> ?b" using release by simp_all
  have "0 \<le> sl_held t" "sl_held t \<le> sl_occupied t" using release.prems by (simp_all add: slot_ok_def)
  moreover have "half_even_div (sl_held t * int n) ?b \<le> sl_held t" using half_even_share(2) [OF b \<open>0 \<le> sl_held t\<close>] .
  moreover have "sl_held t - half_even_div (sl_held t * int n) ?b \<le> sl_occupied t - half_even_div (sl_occupied t * int n) ?b"
    using half_even_rest_mono [OF b \<open>sl_held t \<le> sl_occupied t\<close>] .
  moreover have "half_even_div (sl_occupied t * int n) ?b = sl_occupied t" if "sl_open t - n = 0"
  proof -
    have "n = sl_open t" using that release by simp
    then show ?thesis using b by (simp add: half_even_div_exact)
  qed
  ultimately show ?case using release.prems by (simp add: slot_ok_def slot_release_def)
qed (auto simp: slot_ok_def slot_occupy_def slot_cancel_def)

lemma slot_step_need: "slot_step t u \<Longrightarrow> slot_ok t \<Longrightarrow> Suc (slot_need u) \<le> slot_need t"
  by (induction rule: slot_step.induct) (auto simp: slot_need_def slot_occupy_def slot_cancel_def slot_release_def slot_ok_def)


section \<open>Readings\<close>

lemma conservedE:
  assumes "mar_conserved env s = Inr u"
  obtains or r oc re q un op cl ca where
    "mar_number env (jindex s ''original'') = Inr or" "mar_number env (jindex s ''reserved'') = Inr r"
    "mar_number env (jindex s ''occupied'') = Inr oc" "mar_number env (jindex s ''released'') = Inr re"
    "mar_number env (jindex s ''quantity'') = Inr q" "mar_number env (jindex s ''unfilled'') = Inr un"
    "mar_number env (jindex s ''open'') = Inr op" "mar_number env (jindex s ''closed'') = Inr cl"
    "mar_number env (jindex s ''cancelled'') = Inr ca"
    "bd_eq env or (bd_add env (bd_add env r oc) re)" "bd_eq env q (bd_add env (bd_add env (bd_add env un op) cl) ca)"
  using assms that by (auto simp: mar_conserved_def mar_sum_def result_simps)

lemma sum_unless: "j \<notin> set ks \<Longrightarrow> mar_sum env (jset s j x) ks n = mar_sum env s ks n"
proof (induction ks arbitrary: n)
  case (Cons k ks)
  then show ?case by (cases "mar_number env (jindex s k)") (auto simp: mar_sum_def)
qed (simp add: mar_sum_def)

lemma conserved_status:
  "k \<in> {''status'', ''version'', ''time''} \<Longrightarrow> mar_conserved env (jset s k x) = mar_conserved env s"
  by (elim insertE emptyE) (simp_all add: mar_conserved_def sum_unless cong: if_cong)

lemma in_slot_status: "in_slot env p (jset s ''status'' x) t \<longleftrightarrow> in_slot env p s t"
  by (simp add: in_slot_def)

context plain_texts
begin

lemma reads_spells: "reads env v x \<Longrightarrow> spells env v y \<Longrightarrow> x = y"
  by (auto simp: spells_def dest: reads_plain_iff)

lemma reads_known: "mar_number env v = Inr d \<Longrightarrow> spells env v y \<Longrightarrow> bd_value d = y"
  using readsI reads_spells by blast

lemma spells_number: "spells env (JString (le_plain env (lib_normalized (le_lib env) d))) (bd_value d)"
  by (auto simp: spells_def normalized_value)

lemma spells_money: "bd_value d = minor p c \<Longrightarrow> spells env (JString (le_plain env (lib_with_scale (le_lib env) d (int p)))) (minor p c)"
  using with_scale_multiple [of d p c] by (auto simp: spells_def minor_def)

lemma money_minor:
  assumes "mar_money env v p = Inr t"
  shows "\<exists>c. 0 \<le> c \<and> spells env t (minor p c) \<and> reads env t (minor p c)"
proof -
  obtain n d where n: "mar_number env v = Inr n" and t: "t = JString (le_plain env (lib_with_scale (le_lib env) n (int p)))"
    and d: "mar_number env t = Inr d"
    using assms by (auto simp: mar_money_def Let_def result_simps)
  define w where "w = lib_with_scale (le_lib env) n (int p)"
  have w: "bd_value w = minor p (bd_coef w)" by (simp add: w_def bd_value_def with_scale_scale minor_def power_int_minus divide_inverse)
  have "bd_value d = bd_value w" using reads_plain d unfolding t w_def by blast
  moreover have "0 \<le> bd_value d" using reads_nonneg readsI [OF d] by blast
  ultimately show ?thesis
    using readsI [OF d] w unfolding t w_def [symmetric] spells_def by (intro exI [of _ "bd_coef w"]) auto
qed

lemma money_zero:
  assumes "mar_money env (JString (str_lit ''0'')) p = Inr t"
  shows "spells env t 0"
proof -
  obtain n where n: "mar_number env (JString (str_lit ''0'')) = Inr n" and t: "t = JString (le_plain env (lib_with_scale (le_lib env) n (int p)))"
    using assms by (auto simp: mar_money_def Let_def result_simps)
  have "bd_value n = minor p 0" using reads_zero_text readsI [OF n] by simp
  from spells_money [OF this] show ?thesis by (simp add: t)
qed

lemma proportional_share:
  assumes "proportional env d part whole p = Inr x" "bd_value d = minor p c"
  shows "bd_value x = minor p (half_even_div (c * int part) (int whole))"
proof -
  have "bd_coef (lib_with_scale (le_lib env) d (int p)) = c"
    using truncate_of_int [of c] by (simp add: with_scale_coef assms(2) minor_def)
  then have "x = \<lparr>bd_coef = half_even_div (c * int part) (int whole), bd_scale = int p\<rparr>"
    using assms(1) by (auto simp: proportional_def Let_def half_even_div_def result_simps)
  then show ?thesis by (simp add: bd_value_def minor_def power_int_minus divide_inverse)
qed

lemma units_quanta: "mar_units env v p = Inr n \<longleftrightarrow> p \<le> 18 \<and> n < 2 ^ 64 \<and> reads env v (quanta p n)"
  unfolding quanta_def using units_value [of v p n] units_returns [of v n p] by blast

lemma slot_remaining:
  assumes "in_slot env p s t"
  shows "slot_need t < 2 ^ 64 \<Longrightarrow> mar_remaining env s = Inr (slot_need t)"
    "mar_remaining env s = Inr n \<Longrightarrow> n = slot_need t \<and> slot_need t < 2 ^ 64"
proof -
  have un: "mar_units env (jindex s ''unfilled'') (sl_precision t) = Inr n \<longleftrightarrow> n = sl_unfilled t \<and> n < 2 ^ 64" for n
    using assms unfolding units_quanta in_slot_def by (auto dest: reads_unique)
  have op: "mar_units env (jindex s ''open'') (sl_precision t) = Inr n \<longleftrightarrow> n = sl_open t \<and> n < 2 ^ 64" for n
    using assms unfolding units_quanta in_slot_def by (auto dest: reads_unique)
  have pr: "mar_precision (jindex s ''quantity_precision'') = Inr (sl_precision t)"
    and b: "as_bool (jindex s ''reserved_released'') = Some (sl_released t)" using assms by (simp_all add: in_slot_def)
  show "mar_remaining env s = Inr (slot_need t)" if need: "slot_need t < 2 ^ 64"
  proof -
    have "sl_unfilled t < 2 ^ 64" "sl_open t < 2 ^ 64" "sl_unfilled t * 2 + sl_open t < 2 ^ 64" using need by (auto simp: slot_need_def)
    then have "mar_units env (jindex s ''unfilled'') (sl_precision t) = Inr (sl_unfilled t)" "mar_units env (jindex s ''open'') (sl_precision t) = Inr (sl_open t)"
      using un op by simp_all
    then show ?thesis using need by (cases "sl_released t") (simp_all add: mar_remaining_def pr b slot_need_def)
  qed
  show "n = slot_need t \<and> slot_need t < 2 ^ 64" if n: "mar_remaining env s = Inr n"
  proof -
    obtain u where u: "mar_units env (jindex s ''unfilled'') (sl_precision t) = Inr u"
      using n by (cases "mar_units env (jindex s ''unfilled'') (sl_precision t)") (simp_all add: mar_remaining_def pr)
    obtain v where v: "mar_units env (jindex s ''open'') (sl_precision t) = Inr v"
      using n by (cases "mar_units env (jindex s ''open'') (sl_precision t)") (simp_all add: mar_remaining_def pr u Let_def split: if_splits)
    have "u = sl_unfilled t" "v = sl_open t" using u v by (simp_all add: un op)
    then show ?thesis using n by (simp add: mar_remaining_def pr b u v slot_need_def Let_def split: if_splits)
  qed
qed

text \<open>What a conserved reservation reads, when its texts are known.\<close>

lemma in_slotI:
  assumes "mar_conserved env s = Inr u" "mar_precision (jindex s ''quantity_precision'') = Inr (sl_precision t)" "sl_precision t \<le> 18"
    and "\<And>d. mar_number env (jindex s ''unfilled'') = Inr d \<Longrightarrow> bd_value d = quanta (sl_precision t) (sl_unfilled t)"
    and "\<And>d. mar_number env (jindex s ''open'') = Inr d \<Longrightarrow> bd_value d = quanta (sl_precision t) (sl_open t)"
    and "\<And>d. mar_number env (jindex s ''occupied'') = Inr d \<Longrightarrow> bd_value d = minor p (sl_occupied t)"
    and "spells env (jindex s ''maintenance'') (minor p (sl_held t))" "as_bool (jindex s ''reserved_released'') = Some (sl_released t)"
  shows "in_slot env p s t"
proof -
  from assms(1) obtain un op oc where "mar_number env (jindex s ''unfilled'') = Inr un" "mar_number env (jindex s ''open'') = Inr op"
    "mar_number env (jindex s ''occupied'') = Inr oc" by (rule conservedE)
  then show ?thesis using assms unfolding in_slot_def reads_def by blast
qed

lemma in_slot_reads:
  assumes "in_slot env p s t"
  shows "mar_number env (jindex s ''unfilled'') = Inr d \<Longrightarrow> bd_value d = quanta (sl_precision t) (sl_unfilled t)"
    "mar_number env (jindex s ''open'') = Inr d \<Longrightarrow> bd_value d = quanta (sl_precision t) (sl_open t)"
    "mar_number env (jindex s ''occupied'') = Inr d \<Longrightarrow> bd_value d = minor p (sl_occupied t)"
    "mar_number env (jindex s ''maintenance'') = Inr d \<Longrightarrow> bd_value d = minor p (sl_held t)"
  using assms readsI reads_unique reads_spells unfolding in_slot_def by blast+

lemma occupy_slot:
  assumes t: "in_slot env p old t" and s: "mar_occupy env mi old quantity amount maintenance p = Inr s" "mar_conserved env s = Inr ()"
    and v: "bd_value quantity = quanta (sl_precision t) (mi_quanta mi)" "bd_value amount = minor p a" "bd_value maintenance = minor p h" "0 \<le> h"
  shows "\<exists>u. slot_step t u \<and> in_slot env p s u"
proof -
  obtain unfilled reserved opened occupied held where
    r: "mar_number env (jindex old ''unfilled'') = Inr unfilled" "mar_number env (jindex old ''open'') = Inr opened"
      "mar_number env (jindex old ''occupied'') = Inr occupied" "mar_number env (jindex old ''maintenance'') = Inr held"
    and g: "as_bool (jindex old ''reserved_released'') \<noteq> Some True" "mi_quanta mi \<noteq> 0" "\<not> bd_less env unfilled quantity"
      "\<not> bd_less env amount maintenance"
    and eq: "s = set_money env (set_money env (set_money env (set_number env (set_number env old ''unfilled'' (bd_sub env unfilled quantity))
        ''open'' (bd_add env opened quantity)) ''reserved'' (bd_sub env reserved amount) p)
        ''occupied'' (bd_add env occupied amount) p) ''maintenance'' (bd_add env held maintenance) p"
    using s(1) by (auto simp: mar_occupy_def Let_def result_simps)
  have vals: "bd_value unfilled = quanta (sl_precision t) (sl_unfilled t)" "bd_value opened = quanta (sl_precision t) (sl_open t)"
    "bd_value occupied = minor p (sl_occupied t)" "bd_value held = minor p (sl_held t)"
    using in_slot_reads [OF t] r by blast+
  have n: "mi_quanta mi \<le> sl_unfilled t" "h \<le> a" "\<not> sl_released t" using g t by (simp_all add: order_value vals v in_slot_def)
  define u where "u = slot_occupy (mi_quanta mi) a h t"
  have "slot_step t u" unfolding u_def using g(2) n v(4) by (intro slot_step.occupy) simp_all
  moreover have "in_slot env p s u"
  proof (rule in_slotI [OF s(2)])
    show "mar_precision (jindex s ''quantity_precision'') = Inr (sl_precision u)" "sl_precision u \<le> 18"
      "as_bool (jindex s ''reserved_released'') = Some (sl_released u)"
      using t by (simp_all add: eq u_def slot_occupy_def in_slot_def set_money_def set_number_def)
    show "bd_value d = quanta (sl_precision u) (sl_unfilled u)" if "mar_number env (jindex s ''unfilled'') = Inr d" for d
      using reads_known [OF _ spells_number] that n(1) by (simp add: eq u_def slot_occupy_def set_money_def set_number_def value_simps vals v)
    show "bd_value d = quanta (sl_precision u) (sl_open u)" if "mar_number env (jindex s ''open'') = Inr d" for d
      using reads_known [OF _ spells_number] that by (simp add: eq u_def slot_occupy_def set_money_def set_number_def value_simps vals v)
    show "bd_value d = minor p (sl_occupied u)" if "mar_number env (jindex s ''occupied'') = Inr d" for d
      using reads_known [OF _ spells_money [of "bd_add env occupied amount" p "sl_occupied u"]] that
      by (simp add: eq u_def slot_occupy_def set_money_def set_number_def value_simps vals v)
    show "spells env (jindex s ''maintenance'') (minor p (sl_held u))"
      using spells_money [of "bd_add env held maintenance" p "sl_held u"]
      by (simp add: eq u_def slot_occupy_def set_money_def set_number_def value_simps vals v)
  qed
  ultimately show ?thesis by blast
qed

lemma cancel_slot:
  assumes t: "in_slot env p old t" and s: "mar_release_reserved env old quantity amount maintenance p = Inr s" "mar_conserved env s = Inr ()"
  shows "\<exists>u. slot_step t u \<and> in_slot env p s u"
proof -
  obtain cancelled released where
    g: "as_bool (jindex old ''reserved_released'') \<noteq> Some True"
    and eq: "s = jset (set_money env (set_money env (jset (set_number env old ''cancelled'' (bd_add env cancelled quantity))
        ''unfilled'' (JString (str_lit ''0''))) ''reserved'' bd_zero p) ''released'' (bd_add env released amount) p) ''reserved_released'' (JBool True)"
    using s(1) by (auto simp: mar_release_reserved_def Let_def result_simps)
  have "slot_step t (slot_cancel t)" using g t by (intro slot_step.cancel) (simp add: in_slot_def)
  moreover have "in_slot env p s (slot_cancel t)"
  proof (rule in_slotI [OF s(2)])
    show "bd_value d = quanta (sl_precision (slot_cancel t)) (sl_unfilled (slot_cancel t))" if "mar_number env (jindex s ''unfilled'') = Inr d" for d
      using reads_zero_text readsI that by (simp add: eq slot_cancel_def set_money_def)
  qed (use t in_slot_reads [OF t] in \<open>simp_all add: eq slot_cancel_def in_slot_def set_money_def set_number_def as_bool_def\<close>)
  ultimately show ?thesis by blast
qed

lemma release_slot:
  assumes t: "in_slot env p old t" and s: "mar_release_occupied env mi old quantity amount maintenance p = Inr s" "mar_conserved env s = Inr ()"
    and v: "bd_value quantity = quanta (sl_precision t) (mi_quanta mi)" "mi_precision mi = sl_precision t"
  shows "\<exists>u. slot_step t u \<and> in_slot env p s u"
proof -
  obtain whole occupied share held held_share opened closed released where
    w: "mar_units env (jindex old ''open'') (mi_precision mi) = Inr whole"
    and r: "mar_number env (jindex old ''open'') = Inr opened"
      "mar_number env (jindex old ''occupied'') = Inr occupied" "mar_number env (jindex old ''maintenance'') = Inr held"
    and sh: "proportional env occupied (mi_quanta mi) whole p = Inr share" "proportional env held (mi_quanta mi) whole p = Inr held_share"
      "bd_eq env amount share" "bd_eq env maintenance held_share"
    and g: "mi_quanta mi \<noteq> 0" "\<not> whole < mi_quanta mi"
    and eq: "s = set_money env (set_money env (set_money env (set_number env (set_number env old ''open'' (bd_sub env opened quantity))
        ''closed'' (bd_add env closed quantity)) ''occupied'' (bd_sub env occupied amount) p)
        ''released'' (bd_add env released amount) p) ''maintenance'' (bd_sub env held maintenance) p"
    using s(1) by (auto simp: mar_release_occupied_def Let_def result_simps)
  have whole: "whole = sl_open t" using w t reads_unique unfolding v(2) units_quanta in_slot_def by fastforce
  have vals: "bd_value opened = quanta (sl_precision t) (sl_open t)"
    "bd_value occupied = minor p (sl_occupied t)" "bd_value held = minor p (sl_held t)"
    using in_slot_reads [OF t] r by blast+
  define u where "u = slot_release (mi_quanta mi) t"
  have amounts: "bd_value amount = minor p (sl_occupied t - sl_occupied u)" "bd_value maintenance = minor p (sl_held t - sl_held u)"
    using proportional_share [OF sh(1) vals(2)] proportional_share [OF sh(2) vals(3)] sh(3,4)
    by (simp_all add: order_value whole u_def slot_release_def)
  have "slot_step t u" unfolding u_def using g by (intro slot_step.release) (simp_all add: whole)
  moreover have "in_slot env p s u"
  proof (rule in_slotI [OF s(2)])
    show "bd_value d = quanta (sl_precision u) (sl_open u)" if "mar_number env (jindex s ''open'') = Inr d" for d
      using reads_known [OF _ spells_number] that g by (simp add: eq u_def slot_release_def set_money_def set_number_def value_simps vals v whole)
    show "bd_value d = minor p (sl_occupied u)" if "mar_number env (jindex s ''occupied'') = Inr d" for d
      using reads_known [OF _ spells_money [of "bd_sub env occupied amount" p "sl_occupied u"]] that
      by (simp add: eq set_money_def set_number_def value_simps vals amounts)
    show "spells env (jindex s ''maintenance'') (minor p (sl_held u))"
      using spells_money [of "bd_sub env held maintenance" p "sl_held u"] by (simp add: eq set_money_def set_number_def value_simps vals amounts)
  qed (use t in_slot_reads [OF t] in \<open>simp_all add: eq u_def slot_release_def in_slot_def set_money_def set_number_def\<close>)
  ultimately show ?thesis by blast
qed

end

text \<open>What reading an instruction establishes.\<close>

definition input_ok :: "ledger_env \<Rightarrow> nat \<Rightarrow> mar_input \<Rightarrow> bool" where
  "input_ok env p mi \<longleftrightarrow> mar_units env (jindex (mi_command mi) ''quantity'') (mi_precision mi) = Inr (mi_quanta mi) \<and>
     mar_precision (jindex (mi_command mi) ''quantity_precision'') = Inr (mi_precision mi) \<and> mi_precision mi < 256 \<and>
     (\<exists>a h. 0 \<le> h \<and> reads env (jindex (mi_command mi) ''amount'') (minor p a) \<and> reads env (jindex (mi_command mi) ''maintenance'') (minor p h))"

lemma precision_bound: "mar_precision v = Inr n \<Longrightarrow> n < 256"
  by (auto simp: mar_precision_def result_simps)

lemma precision_jint: "n < 256 \<Longrightarrow> mar_precision (jint (int n)) = Inr n"
  by (simp add: mar_precision_def mar_uint_def as_u64_def jint_def u64_token_text)

context plain_texts
begin

lemma read_ok:
  assumes "mar_currency env (jindex (mm_config m) ''currency'') = Inr p" "mar_read env m input = Inr mi"
  shows "input_ok env p mi"
proof -
  obtain pr amount maintenance q n where r: "mar_precision (jindex input ''quantity_precision'') = Inr pr"
      "mar_money env (jindex input ''amount'') p = Inr amount" "mar_money env (jindex input ''maintenance'') p = Inr maintenance"
      "mar_units env q pr = Inr n"
    and mi: "jindex (mi_command mi) ''amount'' = amount" "jindex (mi_command mi) ''maintenance'' = maintenance" "jindex (mi_command mi) ''quantity'' = q"
      "jindex (mi_command mi) ''quantity_precision'' = jindex input ''quantity_precision''" "mi_precision mi = pr" "mi_quanta mi = n"
    using assms(2) unfolding mar_read_def Let_def assms(1) by (elim rbindE guardE) auto
  show ?thesis
    using r money_minor [OF r(2)] money_minor [OF r(3)] precision_bound [OF r(1)] by (auto simp: input_ok_def mi)
qed

lemma reserve_slot:
  assumes s: "mar_reserve env m mi key old amount maintenance p = Inr s" "mar_conserved env s = Inr ()" and mi: "input_ok env q mi"
  shows "\<exists>u. slot_ok u \<and> in_slot env p s u"
proof -
  obtain zero where z: "mar_money env (JString (str_lit ''0'')) p = Inr zero"
    and i: "jindex s ''quantity_precision'' = jint (int (mi_precision mi))" "jindex s ''unfilled'' = jindex (mi_command mi) ''quantity''"
      "jindex s ''open'' = JString (str_lit ''0'')" "jindex s ''occupied'' = zero" "jindex s ''maintenance'' = zero"
      "jindex s ''reserved_released'' = JBool False"
    using s(1) by (auto simp: mar_reserve_def Let_def result_simps jindex_jobject)
  define u where "u = \<lparr>sl_precision = mi_precision mi, sl_unfilled = mi_quanta mi, sl_open = 0, sl_occupied = 0, sl_held = 0, sl_released = False\<rparr>"
  have "in_slot env p s u"
  proof (rule in_slotI [OF s(2)])
    show "mar_precision (jindex s ''quantity_precision'') = Inr (sl_precision u)" "sl_precision u \<le> 18"
      using mi by (simp_all add: i u_def input_ok_def precision_jint units_quanta)
    show "bd_value d = quanta (sl_precision u) (sl_unfilled u)" if "mar_number env (jindex s ''unfilled'') = Inr d" for d
      using mi readsI that reads_unique unfolding i by (simp add: u_def input_ok_def units_quanta) blast
  qed (use money_zero [OF z] reads_zero_text readsI reads_known in \<open>simp_all add: i u_def as_bool_def\<close>)
  moreover have "slot_ok u" by (simp add: slot_ok_def u_def)
  ultimately show ?thesis by blast
qed

lemma follow_slot:
  assumes t: "in_slot env p old t" and s: "mar_follow env mi old expected amount maintenance p = Inr s" "mar_conserved env s = Inr ()"
    and mi: "input_ok env p mi" and r: "mar_number env (jindex (mi_command mi) ''amount'') = Inr amount" "mar_number env (jindex (mi_command mi) ''maintenance'') = Inr maintenance"
  shows "\<exists>u. slot_step t u \<and> in_slot env p s u"
proof -
  obtain quantity s0 where q: "mar_number env (jindex (mi_command mi) ''quantity'') = Inr quantity"
    and ctx: "jindex old ''quantity_precision'' = jindex (mi_command mi) ''quantity_precision''"
    and op: "mar_occupy env mi old quantity amount maintenance p = Inr s0 \<or> mar_release_reserved env old quantity amount maintenance p = Inr s0
      \<or> mar_release_occupied env mi old quantity amount maintenance p = Inr s0"
    and eq: "s = jset (jset s0 ''version'' (jint (int (expected + 1)))) ''time'' (jindex (mi_command mi) ''time'')"
    using s(1) by (auto simp: mar_follow_def Let_def result_simps split: if_splits)
  have pr: "mi_precision mi = sl_precision t" using t mi ctx by (simp add: in_slot_def input_ok_def)
  obtain a h where ah: "0 \<le> h" "reads env (jindex (mi_command mi) ''amount'') (minor p a)" "reads env (jindex (mi_command mi) ''maintenance'') (minor p h)"
    using mi by (auto simp: input_ok_def)
  have v: "bd_value quantity = quanta (sl_precision t) (mi_quanta mi)" "bd_value amount = minor p a" "bd_value maintenance = minor p h"
    using mi q r ah readsI reads_unique unfolding input_ok_def units_quanta pr by blast+
  have c: "mar_conserved env s0 = Inr ()" using s(2) by (simp add: eq conserved_status)
  have "\<exists>u. slot_step t u \<and> in_slot env p s0 u"
    using op occupy_slot [OF t _ c v(1-3) ah(1)] cancel_slot [OF t _ c] release_slot [OF t _ c v(1) pr] by blast
  then show ?thesis by (simp add: eq in_slot_def)
qed

end

end
