(* ===== verification/Margin_Example.thy ===== *)
theory Margin_Example
  imports Margin_Laws Position_Example
begin

text \<open>
  A concrete run of the margin manager: ten units are reserved for an order and four of them
  occupied by a trade. The environment has the reference decimal library and constant text and
  digest functions.
\<close>

definition mx_whole :: "bigdec \<Rightarrow> bigdec" where
  "mx_whole d = (if bd_scale d < 0 then \<lparr>bd_coef = bd_coef d * 10 ^ nat (- bd_scale d), bd_scale = 0\<rparr> else d)"

definition mx_env :: ledger_env where
  "mx_env = \<lparr>le_pf = px_plain, le_plain = (\<lambda>d. decimal_display \<lparr>d_number = mx_whole d, d_negative_zero = False\<rparr>), le_date = (\<lambda>_. None)\<rparr>"

definition mx_owner :: "(string \<times> json) list" where
  "mx_owner = [(''engine'', JString (str_lit ''E'')), (''runtime'', JString (str_lit ''R'')), (''account'', JString (str_lit ''A'')),
     (''gateway'', JString (str_lit ''G'')), (''generation'', JString (replicate 64 48)), (''runtime_kind'', JString (str_lit ''SIM''))]"

definition mx_config :: json where
  "mx_config = jobject (mx_owner @ [(''currency'', currency_to_record px_currency)])"

definition mx_scope :: json where
  "mx_scope = jobject (mx_owner @ [(''schema_version'', jint 1), (''cluster'', JString (str_lit ''C'')), (''revision'', JString (str_lit ''V'')),
     (''instrument'', JString (str_lit ''S.V'')), (''request'', JString (str_lit ''Q''))])"

definition mx_command :: "string \<Rightarrow> json \<Rightarrow> json \<Rightarrow> string \<Rightarrow> string \<Rightarrow> string \<Rightarrow> string \<Rightarrow> int \<Rightarrow> json \<Rightarrow> json" where
  "mx_command ident rid source action quantity amount maintenance expected before = jobject [(''schema_version'', jint 1),
     (''id'', JString (str_lit ident)), (''scope'', mx_scope), (''reservation'', rid), (''source_order'', JString (str_lit ''O'')),
     (''source_trade'', source), (''source_ref'', JString (str_lit ident)), (''source_fingerprint'', JString (replicate 64 48)),
     (''mode'', JString (str_lit ''CROSS'')), (''isolation'', JNull), (''position_side'', JString (str_lit ''LONG'')),
     (''action'', JString (str_lit action)), (''quantity'', JString (str_lit quantity)), (''quantity_precision'', jint 0),
     (''amount'', JString (str_lit amount)), (''maintenance'', JString (str_lit maintenance)), (''time'', jint 1),
     (''expected_version'', jint expected), (''before_hash'', before)]"

definition mx_key :: rstr where
  "mx_key = str_lit ''MRES-'' @ replicate 64 48"

definition mx_reserve :: json where
  "mx_reserve = mx_command ''c1'' JNull JNull ''RESERVE'' ''10'' ''25.00'' ''0'' 0 JNull"

definition mx_occupy :: json where
  "mx_occupy = mx_command ''c2'' (JString mx_key) (JString (str_lit ''T'')) ''OCCUPY'' ''4'' ''10'' ''2.5'' 1 (JString (replicate 64 48))"

definition mx_start :: mar_manager where
  "mx_start = \<lparr>mm_config = mx_config, mm_capacity = 32, mm_states = [], mm_records = []\<rparr>"

definition mx_input1 :: mar_input where
  "mx_input1 = \<lparr>mi_command = mx_command ''c1'' (JString mx_key) JNull ''RESERVE'' ''10'' ''25.00'' ''0.00'' 0 JNull,
     mi_action = str_lit ''RESERVE'', mi_precision = 0, mi_quanta = 10, mi_time = 1\<rparr>"

definition mx_input2 :: mar_input where
  "mx_input2 = \<lparr>mi_command = mx_command ''c2'' (JString mx_key) (JString (str_lit ''T'')) ''OCCUPY'' ''4'' ''10.00'' ''2.50'' 1 (JString (replicate 64 48)),
     mi_action = str_lit ''OCCUPY'', mi_precision = 0, mi_quanta = 4, mi_time = 1\<rparr>"

definition mx_state :: "string \<Rightarrow> string \<Rightarrow> string \<Rightarrow> string \<Rightarrow> string \<Rightarrow> int \<Rightarrow> string \<Rightarrow> json" where
  "mx_state unfilled opened reserved occupied held version status = jobject [(''schema_version'', jint 1), (''id'', JString mx_key),
     (''scope'', mx_scope), (''order'', JString (str_lit ''O'')), (''currency'', currency_to_record px_currency), (''mode'', JString (str_lit ''CROSS'')),
     (''isolation'', JNull), (''position_side'', JString (str_lit ''LONG'')), (''quantity_precision'', jint 0),
     (''quantity'', JString (str_lit ''10'')), (''unfilled'', JString (str_lit unfilled)), (''open'', JString (str_lit opened)),
     (''closed'', JString (str_lit ''0'')), (''cancelled'', JString (str_lit ''0'')), (''original'', JString (str_lit ''25.00'')),
     (''reserved'', JString (str_lit reserved)), (''occupied'', JString (str_lit occupied)), (''released'', JString (str_lit ''0.00'')),
     (''maintenance'', JString (str_lit held)), (''reserved_released'', JBool False), (''version'', jint version), (''created_at'', jint 1),
     (''time'', jint 1), (''status'', JString (str_lit status))]"

definition mx_state1 :: json where
  "mx_state1 = mx_state ''10'' ''0'' ''25.00'' ''0.00'' ''0.00'' 1 ''RESERVED''"

definition mx_state2 :: json where
  "mx_state2 = mx_state ''6'' ''4'' ''15.00'' ''10.00'' ''2.50'' 2 ''OCCUPIED''"

definition mx_row :: "mar_input \<Rightarrow> json \<Rightarrow> json \<Rightarrow> json" where
  "mx_row mi old s = jobject [(''command'', mi_command mi), (''result'', mar_result mx_env (mi_command mi) old s)]"

definition mx_reserved :: mar_manager where
  "mx_reserved = mx_start\<lparr>mm_states := [(mx_key, mx_state1)], mm_records := [mx_row mx_input1 JNull mx_state1]\<rparr>"

definition mx_occupied :: mar_manager where
  "mx_occupied = mx_start\<lparr>mm_states := [(mx_key, mx_state2)], mm_records := [mx_row mx_input1 JNull mx_state1, mx_row mx_input2 mx_state1 mx_state2]\<rparr>"

lemma apply_fresh:
  assumes "mar_read env m input = Inr mi" "\<not> mar_index m (mi_command mi) < length (mm_records m)" "mar_text (jindex (mi_command mi) ''reservation'') = Inr key"
    "mar_transition env m input mi key (case map_of (mm_states m) key of Some s \<Rightarrow> s | None \<Rightarrow> JNull) = Inr s"
    "is_ok (mar_commit env m mi key (case map_of (mm_states m) key of Some s \<Rightarrow> s | None \<Rightarrow> JNull) s)"
  shows "\<exists>e. mar_apply env m input = Inr (m\<lparr>mm_states := bt_insert key s (mm_states m), mm_records := mm_records m @
    [jobject [(''command'', mi_command mi), (''result'', mar_result env (mi_command mi) (case map_of (mm_states m) key of Some s \<Rightarrow> s | None \<Rightarrow> JNull) s)]]\<rparr>, e)"
proof -
  obtain m' e where c: "mar_commit env m mi key (case map_of (mm_states m) key of Some s \<Rightarrow> s | None \<Rightarrow> JNull) s = Inr (m', e)"
    using assms(5) by (auto simp: is_ok_def split: sum.splits)
  have "mar_apply env m input = Inr (m', e)"
    using assms(1-4) c by (cases "length (mm_records m)") (simp_all add: mar_apply_def mar_step_def mar_advance_def Let_def)
  moreover note c
  ultimately show ?thesis by (auto simp: mar_commit_def Let_def elim!: rbindE)
qed

lemma mx_new: "mar_new mx_env mx_config 32 = Inr mx_start"
  by code_simp

lemma mx_read1: "mar_read mx_env mx_start mx_reserve = Inr mx_input1"
  by code_simp

lemma mx_read2: "mar_read mx_env mx_reserved mx_occupy = Inr mx_input2"
  by code_simp

lemma mx_transition1: "mar_transition mx_env mx_start mx_reserve mx_input1 mx_key JNull = Inr mx_state1"
  by code_simp

lemma mx_transition2: "mar_transition mx_env mx_reserved mx_occupy mx_input2 mx_key mx_state1 = Inr mx_state2"
  by code_simp

lemma mx_commit1: "is_ok (mar_commit mx_env mx_start mx_input1 mx_key JNull mx_state1)"
  by code_simp

lemma mx_commit2: "is_ok (mar_commit mx_env mx_reserved mx_input2 mx_key mx_state1 mx_state2)"
  by code_simp

end
