(* ===== verification/Margin_Properties.thy ===== *)
theory Margin_Properties
  imports Margin_Invariant Margin_Example
begin

text \<open>
  Properties of the margin manager: the duplicate path never runs out of fuel; every reservation
  is conserved and follows the abstract machine of its slot; an admitted reservation never meets
  the capacity bound again.
\<close>

section \<open>The admission budget\<close>

definition mar_weight :: "ledger_env \<Rightarrow> json \<Rightarrow> nat" where
  "mar_weight env s = (case mar_remaining env s of Inl _ \<Rightarrow> 0 | Inr n \<Rightarrow> n)"

definition mar_budget :: "ledger_env \<Rightarrow> mar_manager \<Rightarrow> nat" where
  "mar_budget env m = length (mm_records m) + sum_list (map (mar_weight env) (bt_values (mm_states m)))"

lemma budget_fold:
  "rfold (\<lambda>state budget. rbind (mar_remaining env state) (\<lambda>remaining.
       if budget + remaining \<ge> 2 ^ 64 \<or> budget + remaining > c then Inl e else Inr (budget + remaining))) xs n = Inr t
   \<longleftrightarrow> (\<forall>x \<in> set xs. mar_remaining env x = Inr (mar_weight env x)) \<and> t = n + sum_list (map (mar_weight env) xs) \<and> (xs = [] \<or> t \<le> c \<and> t < 2 ^ 64)"
proof (induction xs arbitrary: n)
  case (Cons x xs)
  show ?case
  proof (cases "mar_remaining env x")
    case (Inr w)
    then have w: "mar_weight env x = w" by (simp add: mar_weight_def)
    show ?thesis
    proof (cases "n + w \<ge> 2 ^ 64 \<or> n + w > c")
      case True
      then show ?thesis by (auto simp: Inr w)
    next
      case False
      then show ?thesis using Cons.IH [of "n + w"] by (auto simp: Inr w)
    qed
  qed (auto simp: mar_weight_def)
qed auto

lemma check_budget_iff:
  assumes "mm_capacity m < 2 ^ 64" "mm_states m \<noteq> []"
  shows "check_budget env m = Inr () \<longleftrightarrow> (\<forall>s \<in> set (bt_values (mm_states m)). mar_remaining env s = Inr (mar_weight env s)) \<and> mar_budget env m \<le> mm_capacity m"
  using assms unfolding check_budget_def rbind_eq_Inr budget_fold mar_budget_def by (auto simp: bt_values_def)

lemma bt_sum_nat: "bt_sum (\<lambda>_ s. of_nat (f s)) m = of_nat (sum_list (map f (bt_values m)))"
  by (induction m) (simp_all add: bt_sum_def bt_values_def)

lemma budget_replace:
  assumes "bt_ok (mm_states m)" "map_of (mm_states m) key = Some old" "Suc (mar_weight env s) \<le> mar_weight env old"
  shows "mar_budget env (m\<lparr>mm_states := bt_insert key s (mm_states m), mm_records := mm_records m @ [row]\<rparr>) \<le> mar_budget env m"
proof -
  let ?w = "\<lambda>_ s. of_nat (mar_weight env s) :: rat"
  have "bt_sum ?w (bt_insert key s (mm_states m)) = bt_sum ?w (mm_states m) + of_nat (mar_weight env s) - of_nat (mar_weight env old)"
    using bt_sum_insert [OF assms(1), of ?w] assms(2) by simp
  then have "of_nat (sum_list (map (mar_weight env) (bt_values (bt_insert key s (mm_states m)))) + mar_weight env old)
      = (of_nat (sum_list (map (mar_weight env) (bt_values (mm_states m))) + mar_weight env s) :: rat)"
    by (simp add: bt_sum_nat)
  then have "sum_list (map (mar_weight env) (bt_values (bt_insert key s (mm_states m)))) + mar_weight env old
      = sum_list (map (mar_weight env) (bt_values (mm_states m))) + mar_weight env s" by (simp only: of_nat_eq_iff)
  then show ?thesis using assms(3) by (simp add: mar_budget_def)
qed

section \<open>The invariant\<close>

definition reservation_ok :: "ledger_env \<Rightarrow> nat \<Rightarrow> json \<Rightarrow> bool" where
  "reservation_ok env p s \<longleftrightarrow> mar_conserved env s = Inr () \<and> (\<exists>t. slot_ok t \<and> in_slot env p s t)"

definition margin_ok :: "ledger_env \<Rightarrow> mar_manager \<Rightarrow> bool" where
  "margin_ok env m \<longleftrightarrow> bt_ok (mm_states m) \<and> mm_capacity m \<le> 512 \<and> mar_budget env m \<le> mm_capacity m
     \<and> (\<forall>s \<in> set (bt_values (mm_states m)). mar_remaining env s = Inr (mar_weight env s))
     \<and> (\<exists>p. mar_currency env (jindex (mm_config m) ''currency'') = Inr p \<and> (\<forall>s \<in> set (bt_values (mm_states m)). reservation_ok env p s))"

lemma margin_new_ok: "mar_new env config capacity = Inr m \<Longrightarrow> margin_ok env m"
  by (auto simp: mar_new_def margin_ok_def mar_budget_def bt_values_def rbind_eq_Inr guard_eq bt_ok_def)

lemma margin_values_insert: "set (bt_values (bt_insert k v m)) \<subseteq> insert v (set (bt_values m))"
  by (induction m) (auto simp: bt_values_def split: if_splits)

lemma apply_cases:
  assumes "mar_apply env m input = Inr (m', e)"
  obtains (same) "m' = m" | (fresh) mi key s row where "mar_read env m input = Inr mi"
    "mar_transition env m input mi key (case map_of (mm_states m) key of Some s \<Rightarrow> s | None \<Rightarrow> JNull) = Inr s"
    "m' = m\<lparr>mm_states := bt_insert key s (mm_states m), mm_records := mm_records m @ [row]\<rparr>" "check_budget env m' = Inr ()"
proof -
  obtain again where "mar_step env again m input = Inr (m', e)"
    using assms unfolding mar_apply_def by (cases "length (mm_records m)") auto
  then obtain mi where mi: "mar_read env m input = Inr mi"
    and "(if mar_index m (mi_command mi) < length (mm_records m) then mar_repeat env again m (mi_command mi) else mar_advance env m input mi) = Inr (m', e)"
    unfolding mar_step_def by (rule rbindE)
  then consider "mar_repeat env again m (mi_command mi) = Inr (m', e)" | "mar_advance env m input mi = Inr (m', e)" by (metis (full_types))
  then show thesis
  proof cases
    case 1
    then show thesis using same repeat_keeps by blast
  next
    case 2
    then obtain key s where s: "mar_transition env m input mi key (case map_of (mm_states m) key of Some s \<Rightarrow> s | None \<Rightarrow> JNull) = Inr s"
      and c: "mar_commit env m mi key (case map_of (mm_states m) key of Some s \<Rightarrow> s | None \<Rightarrow> JNull) s = Inr (m', e)"
      by (auto simp: mar_advance_def Let_def elim!: rbindE)
    obtain row where "m' = m\<lparr>mm_states := bt_insert key s (mm_states m), mm_records := mm_records m @ [row]\<rparr>" "check_budget env m' = Inr ()"
      using c by (auto simp: mar_commit_def Let_def elim!: rbindE)
    then show thesis using fresh [OF mi s] by blast
  qed
qed

context plain_texts
begin

lemma transition_slot:
  assumes "mar_transition env m input mi key old = Inr s" "mar_read env m input = Inr mi" "mar_currency env (jindex (mm_config m) ''currency'') = Inr p"
  shows "mar_conserved env s = Inr ()"
    and "mi_action mi = str_lit ''RESERVE'' \<Longrightarrow> \<exists>u. slot_ok u \<and> in_slot env p s u"
    and "mi_action mi \<noteq> str_lit ''RESERVE'' \<Longrightarrow> old \<noteq> JNull \<and> (\<forall>t. in_slot env p old t \<longrightarrow> (\<exists>u. slot_step t u \<and> in_slot env p s u))"
proof -
  obtain expected amount maintenance s0 status where
    r: "mar_number env (jindex (mi_command mi) ''amount'') = Inr amount" "mar_number env (jindex (mi_command mi) ''maintenance'') = Inr maintenance"
    and op: "(if mi_action mi = str_lit ''RESERVE'' then mar_reserve env m mi key old amount maintenance p
            else mar_follow env mi old expected amount maintenance p) = Inr s0"
    and c: "mar_conserved env s0 = Inr ()" and s: "s = jset s0 ''status'' (JString (str_lit status))"
    using assms(1) unfolding mar_transition_def assms(3) by (auto elim!: rbindE)
  have mi: "input_ok env p mi" by (rule read_ok [OF assms(3,2)])
  show "mar_conserved env s = Inr ()" using c by (simp add: s conserved_status)
  show "\<exists>u. slot_ok u \<and> in_slot env p s u" if "mi_action mi = str_lit ''RESERVE''"
    using reserve_slot [OF _ c mi] op that by (simp add: s in_slot_status)
  show "old \<noteq> JNull \<and> (\<forall>t. in_slot env p old t \<longrightarrow> (\<exists>u. slot_step t u \<and> in_slot env p s u))" if "mi_action mi \<noteq> str_lit ''RESERVE''"
  proof -
    have f: "mar_follow env mi old expected amount maintenance p = Inr s0" using op that by simp
    then have "old \<noteq> JNull" by (auto simp: mar_follow_def Let_def)
    then show ?thesis using follow_slot [OF _ f c mi r] by (simp add: s in_slot_status)
  qed
qed

lemma transition_ok:
  assumes "margin_ok env m" "mar_read env m input = Inr mi" "mar_currency env (jindex (mm_config m) ''currency'') = Inr p"
    "mar_transition env m input mi key (case map_of (mm_states m) key of Some s \<Rightarrow> s | None \<Rightarrow> JNull) = Inr s"
  shows "reservation_ok env p s"
    and "mi_action mi \<noteq> str_lit ''RESERVE'' \<Longrightarrow>
      \<exists>old. map_of (mm_states m) key = Some old \<and> mar_remaining env s = Inr (mar_weight env s) \<and> Suc (mar_weight env s) \<le> mar_weight env old"
proof -
  note tr = transition_slot [OF assms(4,2,3)]
  have step: "\<exists>old t u. map_of (mm_states m) key = Some old \<and> mar_remaining env old = Inr (mar_weight env old)
      \<and> slot_ok t \<and> in_slot env p old t \<and> slot_step t u \<and> in_slot env p s u" if act: "mi_action mi \<noteq> str_lit ''RESERVE''"
  proof -
    obtain old where old: "map_of (mm_states m) key = Some old" using tr(3) [OF act] by (cases "map_of (mm_states m) key") auto
    then have "old \<in> set (bt_values (mm_states m))" by (force simp: bt_values_def dest: map_of_SomeD)
    then have "mar_remaining env old = Inr (mar_weight env old)" "reservation_ok env p old"
      using assms(1,3) by (auto simp: margin_ok_def)
    then show ?thesis using old tr(3) [OF act] by (auto simp: reservation_ok_def)
  qed
  show "reservation_ok env p s"
    using tr(1,2) step slot_step_ok unfolding reservation_ok_def by blast
  show "\<exists>old. map_of (mm_states m) key = Some old \<and> mar_remaining env s = Inr (mar_weight env s) \<and> Suc (mar_weight env s) \<le> mar_weight env old"
    if act: "mi_action mi \<noteq> str_lit ''RESERVE''"
  proof -
    obtain old t u where o: "map_of (mm_states m) key = Some old" "mar_remaining env old = Inr (mar_weight env old)"
      "slot_ok t" "in_slot env p old t" "slot_step t u" "in_slot env p s u" using step [OF act] by blast
    have t: "mar_weight env old = slot_need t" "slot_need t < 2 ^ 64" using slot_remaining(2) [OF o(4,2)] by simp_all
    have need: "Suc (slot_need u) \<le> slot_need t" using slot_step_need [OF o(5,3)] .
    then have "mar_remaining env s = Inr (slot_need u)" using slot_remaining(1) [OF o(6)] t by simp
    then show ?thesis using need t o(1) by (simp add: mar_weight_def)
  qed
qed

lemma apply_ok:
  assumes "margin_ok env m" "mar_apply env m input = Inr (m', e)"
  shows "margin_ok env m'"
  using assms(2)
proof (cases rule: apply_cases)
  case (fresh mi key s row)
  obtain p where p: "mar_currency env (jindex (mm_config m) ''currency'') = Inr p" using assms(1) by (auto simp: margin_ok_def)
  have "bt_insert key s (mm_states m) \<noteq> []" by (cases "mm_states m") auto
  then have "(\<forall>s \<in> set (bt_values (mm_states m')). mar_remaining env s = Inr (mar_weight env s)) \<and> mar_budget env m' \<le> mm_capacity m'"
    using fresh(4) assms(1) by (subst check_budget_iff [symmetric]) (simp_all add: fresh(3) margin_ok_def)
  moreover have "\<forall>s \<in> set (bt_values (mm_states m')). reservation_ok env p s"
    using assms(1) p transition_ok(1) [OF assms(1) fresh(1) p fresh(2)] margin_values_insert [of key s "mm_states m"] by (auto simp: margin_ok_def fresh(3))
  ultimately show ?thesis using assms(1) p by (simp add: margin_ok_def fresh(3))
qed (use assms(1) in simp)

lemma apply_slots:
  assumes "margin_ok env m" "mar_apply env m input = Inr (m', e)" "map_of (mm_states m) key = Some s"
  shows "\<exists>p s' t u. map_of (mm_states m') key = Some s' \<and> slot_ok t \<and> in_slot env p s t \<and> in_slot env p s' u \<and> (u = t \<or> slot_step t u)"
proof -
  have mem: "s \<in> set (bt_values (mm_states m))" using assms(3) by (force simp: bt_values_def dest: map_of_SomeD)
  then obtain p t where p: "mar_currency env (jindex (mm_config m) ''currency'') = Inr p" and c: "mar_conserved env s = Inr ()"
    and t: "slot_ok t" "in_slot env p s t"
    using assms(1) unfolding margin_ok_def reservation_ok_def by blast
  have stay: ?thesis if "map_of (mm_states m') key = Some s" using that t by blast
  have null: "s \<noteq> JNull" using c by (auto simp: mar_conserved_def mar_number_def mar_text_def as_str_def jindex_def result_simps)
  from assms(2) show ?thesis
  proof (cases rule: apply_cases)
    case same
    then show ?thesis using stay assms(3) by simp
  next
    case (fresh mi k s' row)
    show ?thesis
    proof (cases "k = key")
      case True
      then have tr: "mar_transition env m input mi key s = Inr s'" using fresh(2) assms(3) by simp
      note slots = transition_slot [OF tr fresh(1) p]
      have "mi_action mi \<noteq> str_lit ''RESERVE''"
      proof
        assume "mi_action mi = str_lit ''RESERVE''"
        then show False using tr null by (auto simp: mar_transition_def mar_reserve_def Let_def elim!: rbindE)
      qed
      from slots(3) [OF this] t obtain u where "slot_step t u" "in_slot env p s' u" by blast
      then show ?thesis using t True by (auto simp: fresh(3))
    qed (use stay assms(3) in \<open>simp add: fresh(3)\<close>)
  qed
qed

lemma follow_admitted:
  assumes "margin_ok env m" "mar_read env m input = Inr mi" "mi_action mi \<noteq> str_lit ''RESERVE''"
    "mar_transition env m input mi key (case map_of (mm_states m) key of Some s \<Rightarrow> s | None \<Rightarrow> JNull) = Inr s"
  shows "check_budget env (m\<lparr>mm_states := bt_insert key s (mm_states m), mm_records := mm_records m @ [row]\<rparr>) = Inr ()"
proof -
  obtain p where p: "mar_currency env (jindex (mm_config m) ''currency'') = Inr p" using assms(1) by (auto simp: margin_ok_def)
  obtain old where old: "map_of (mm_states m) key = Some old" "mar_remaining env s = Inr (mar_weight env s)" "Suc (mar_weight env s) \<le> mar_weight env old"
    using transition_ok(2) [OF assms(1,2) p assms(4,3)] by blast
  have ok: "bt_ok (mm_states m)" "mar_budget env m \<le> mm_capacity m" "mm_capacity m \<le> 512"
    "\<forall>s \<in> set (bt_values (mm_states m)). mar_remaining env s = Inr (mar_weight env s)"
    using assms(1) by (simp_all add: margin_ok_def)
  let ?m = "m\<lparr>mm_states := bt_insert key s (mm_states m), mm_records := mm_records m @ [row]\<rparr>"
  have "bt_insert key s (mm_states m) \<noteq> []" by (cases "mm_states m") auto
  moreover have "mar_budget env ?m \<le> mm_capacity ?m" using budget_replace [OF ok(1) old(1,3), of row] ok(2) by simp
  moreover have "\<forall>s \<in> set (bt_values (mm_states ?m)). mar_remaining env s = Inr (mar_weight env s)"
    using ok(4) old(2) margin_values_insert [of key s "mm_states m"] by auto
  ultimately show ?thesis using ok(3) by (subst check_budget_iff) simp_all
qed

end

section \<open>Reachable managers\<close>

definition mar_command :: "ledger_env \<Rightarrow> mar_manager \<Rightarrow> mar_manager \<Rightarrow> bool" where
  "mar_command env m m' \<longleftrightarrow> (\<exists>input e. mar_apply env m input = Inr (m', e))"

abbreviation margin_reachable :: "ledger_env \<Rightarrow> json \<Rightarrow> nat \<Rightarrow> mar_manager \<Rightarrow> bool" where
  "margin_reachable env config capacity \<equiv> reachable (\<lambda>m. mar_new env config capacity = Inr m) (mar_command env)"

interpretation margins: invariant_system "\<lambda>m. mar_new env config capacity = Inr m" "mar_command env" "\<lambda>m. plain_texts env \<longrightarrow> margin_ok env m"
  for env config capacity
  by unfold_locales (auto simp: mar_command_def intro: margin_new_ok plain_texts.apply_ok)

lemma mx_texts: "plain_texts mx_env"
proof -
  have lib: "le_lib mx_env = ref_lib" by (simp add: mx_env_def px_plain_def)
  have whole: "bd_value (mx_whole d) = bd_value d" for d
    using pow10_nat [of "- bd_scale d"] by (simp add: mx_whole_def bd_value_def)
  have parse: "lib_parse ref_lib (le_plain mx_env d) = Some (mx_whole d)" for d
    using grammar_display [of "\<lparr>d_number = mx_whole d, d_negative_zero = False\<rparr>"] by (simp add: mx_env_def ref_lib_def Let_def)
  have plain: "le_plain mx_env d = int_text (bd_coef d)" if "bd_scale d = 0" for d
    using that by (simp add: mx_env_def mx_whole_def decimal_display_def int_text_def is_negative_def Let_def nat_digits_ne)
  have norm: "bd_value (lib_normalized ref_lib d) = bd_value d" for d
    using strip_tens_spec [of "bd_coef d" "bd_scale d"] by (auto simp: ref_lib_def Let_def bd_value_def split: prod.splits)
  have "ledger mx_env" by (simp add: ledger_def lib ref_rounding.ledger_decimal_axioms)
  then show ?thesis
    by (rule plain_texts.intro) (unfold_locales, use parse whole plain norm in \<open>auto simp: lib\<close>)
qed

lemma mx_steps: "mar_command mx_env mx_start mx_reserved" "mar_command mx_env mx_reserved mx_occupied" "\<exists>e. mar_apply mx_env mx_reserved mx_occupy = Inr (mx_occupied, e)"
proof -
  have key: "mar_text (JString mx_key) = Inr mx_key" by code_simp
  have c: "jindex (mi_command mx_input1) ''reservation'' = JString mx_key" "jindex (mi_command mx_input2) ''reservation'' = JString mx_key"
    "jindex (mi_command mx_input1) ''id'' \<noteq> jindex (mi_command mx_input2) ''id''"
    by (simp_all add: mx_input1_def mx_input2_def mx_command_def jindex_jobject)
  have a: "\<exists>e. mar_apply mx_env mx_start mx_reserve = Inr (mx_reserved, e)"
    using apply_fresh [OF mx_read1, of mx_key mx_state1] mx_transition1 mx_commit1
    by (simp add: c key mx_reserved_def mx_start_def mx_row_def mar_index_def)
  show b: "\<exists>e. mar_apply mx_env mx_reserved mx_occupy = Inr (mx_occupied, e)"
    using apply_fresh [OF mx_read2, of mx_key mx_state2] mx_transition2 mx_commit2 c(3)
    by (simp add: c key mx_reserved_def mx_occupied_def mx_start_def mx_row_def mar_index_def jindex_jobject)
  show "mar_command mx_env mx_start mx_reserved" "mar_command mx_env mx_reserved mx_occupied" using a b unfolding mar_command_def by blast+
qed

lemma mx_reachable: "margin_reachable mx_env mx_config 32 mx_start" "margin_reachable mx_env mx_config 32 mx_reserved"
  "margin_reachable mx_env mx_config 32 mx_occupied"
proof -
  show a: "margin_reachable mx_env mx_config 32 mx_start" by (rule reach_init) (rule mx_new)
  show b: "margin_reachable mx_env mx_config 32 mx_reserved" by (rule reach_step [OF a mx_steps(1)])
  show "margin_reachable mx_env mx_config 32 mx_occupied" by (rule reach_step [OF b mx_steps(2)])
qed

section \<open>Theorems\<close>

text \<open>
  C17: Applying an instruction to the margin manager always ends: replaying the log for a
  repeated instruction recurs into the same operation, and fuel of the length of the log is
  enough for every manager and input.
\<close>
theorem margin_apply_ends: "mar_apply env m input \<noteq> Inl MarFuel"
  using apply_fuelled [of "length (mm_records m)" env] by (simp add: fuelled_def mar_apply_def)

text \<open>
  C15: The maintenance margin is covered. In every reachable margin manager each reservation is
  conserved (its amount splits into reserved, occupied and released parts, its quantity into
  unfilled, open, closed and cancelled parts), its maintenance margin never exceeds what it
  occupies although both are released in half-even rounded shares, and nothing stays occupied
  once its open quantity is closed.
\<close>
theorem margin_covers_maintenance:
  assumes "plain_texts env" "margin_reachable env config capacity m" "map_of (mm_states m) key = Some s"
    "mar_number env (jindex s ''maintenance'') = Inr held" "mar_number env (jindex s ''occupied'') = Inr occupied"
    "mar_number env (jindex s ''open'') = Inr opened"
  shows "mar_conserved env s = Inr () \<and> bd_value held \<le> bd_value occupied \<and> (bd_value opened = 0 \<longrightarrow> bd_value occupied = 0)"
proof -
  have "margin_ok env m" using margins.reachable_inv [OF assms(2)] assms(1) by simp
  moreover have "s \<in> set (bt_values (mm_states m))" using assms(3) by (force simp: bt_values_def dest: map_of_SomeD)
  ultimately obtain p t where t: "mar_conserved env s = Inr ()" "slot_ok t" "in_slot env p s t"
    unfolding margin_ok_def reservation_ok_def by blast
  have "bd_value held = minor p (sl_held t)" "bd_value occupied = minor p (sl_occupied t)" "bd_value opened = quanta (sl_precision t) (sl_open t)"
    using plain_texts.in_slot_reads [OF assms(1) t(3)] assms(4-6) by blast+
  then show ?thesis using t(1,2) by (simp add: slot_ok_def del: bd_value_eq_0)
qed

theorem margin_covers_maintenance_witness:
  "\<exists>s held occupied. map_of (mm_states mx_occupied) mx_key = Some s \<and> mar_number mx_env (jindex s ''maintenance'') = Inr held
    \<and> mar_number mx_env (jindex s ''occupied'') = Inr occupied \<and> bd_value held \<le> bd_value occupied \<and> bd_value held = 5 / 2"
proof -
  have n: "mar_number mx_env (JString (str_lit ''2.50'')) = Inr \<lparr>bd_coef = 250, bd_scale = 2\<rparr>"
    "mar_number mx_env (JString (str_lit ''10.00'')) = Inr \<lparr>bd_coef = 1000, bd_scale = 2\<rparr>"
    "mar_number mx_env (JString (str_lit ''4'')) = Inr \<lparr>bd_coef = 4, bd_scale = 0\<rparr>" by code_simp+
  have s: "map_of (mm_states mx_occupied) mx_key = Some mx_state2" by (simp add: mx_occupied_def)
  have i: "jindex mx_state2 ''maintenance'' = JString (str_lit ''2.50'')" "jindex mx_state2 ''occupied'' = JString (str_lit ''10.00'')"
    "jindex mx_state2 ''open'' = JString (str_lit ''4'')" by (simp_all add: mx_state2_def mx_state_def jindex_jobject)
  show ?thesis
    using margin_covers_maintenance [OF mx_texts mx_reachable(3) s, unfolded i, OF n] s n by (auto simp: i bd_value_def)
qed

text \<open>
  C14: The reservations of a margin manager refine the abstract machine of slots, which counts
  quanta and minor units of the currency. Whatever instruction a reachable manager accepts,
  each reservation it had before stays, and its slot is unchanged or makes one abstract step:
  it occupies part of its unfilled quantity, cancels the rest of it, or gives up the half-even
  share of its amounts for a part of its open quantity.
\<close>
theorem margin_refines_slots:
  assumes "plain_texts env" "margin_reachable env config capacity m" "mar_apply env m input = Inr (m', e)" "map_of (mm_states m) key = Some s"
  shows "\<exists>p s' t u. map_of (mm_states m') key = Some s' \<and> slot_ok t \<and> in_slot env p s t \<and> in_slot env p s' u \<and> (u = t \<or> slot_step t u)"
proof -
  have "margin_ok env m" using margins.reachable_inv [OF assms(2)] assms(1) by simp
  from plain_texts.apply_slots [OF assms(1) this assms(3,4)] show ?thesis .
qed

theorem margin_refines_slots_witness:
  "\<exists>p t u. in_slot mx_env p mx_state1 t \<and> in_slot mx_env p mx_state2 u \<and> (u = t \<or> slot_step t u)"
proof -
  obtain e where e: "mar_apply mx_env mx_reserved mx_occupy = Inr (mx_occupied, e)" using mx_steps(3) by blast
  show ?thesis
    using margin_refines_slots [OF mx_texts mx_reachable(2) e, of mx_key mx_state1] by (auto simp: mx_reserved_def mx_occupied_def)
qed

text \<open>
  C16: Admission is final. The budget of a manager counts the instructions its reservations may
  still need, and only a new reservation can exceed it. When an instruction on an existing
  reservation passes its own checks in a reachable manager, the budget check of the resulting
  manager succeeds: what was admitted can be occupied, cancelled and released to the end.
\<close>
theorem margin_admission_final:
  assumes "plain_texts env" "margin_reachable env config capacity m" "mar_read env m input = Inr mi" "mi_action mi \<noteq> str_lit ''RESERVE''"
    "mar_transition env m input mi key (case map_of (mm_states m) key of Some s \<Rightarrow> s | None \<Rightarrow> JNull) = Inr s"
  shows "check_budget env (m\<lparr>mm_states := bt_insert key s (mm_states m), mm_records := mm_records m @ [row]\<rparr>) = Inr ()"
proof -
  have "margin_ok env m" using margins.reachable_inv [OF assms(2)] assms(1) by simp
  from plain_texts.follow_admitted [OF assms(1) this assms(3-5)] show ?thesis .
qed

theorem margin_admission_final_witness:
  "check_budget mx_env (mx_reserved\<lparr>mm_states := bt_insert mx_key mx_state2 (mm_states mx_reserved), mm_records := mm_records mx_reserved @ [JNull]\<rparr>) = Inr ()"
  by (rule margin_admission_final [OF mx_texts mx_reachable(2) mx_read2])
     (use mx_transition2 in \<open>simp_all add: mx_reserved_def mx_input2_def\<close>)

end
