(* ===== verification/Risk_Model.thy ===== *)
theory Risk_Model
  imports Position_Model
begin

text \<open>
  The readers, the configuration and the holds of \<open>crates/risk/src/model.rs\<close>. Amounts are bare
  \<open>BigDecimal\<close> values, the counters \<open>u64\<close> natural numbers. A missing key of an indexed map is
  the error \<open>RiskPanic\<close>.
\<close>

datatype risk_error = RiskError string | RiskJson | RiskPanic

definition risk_domain :: "domain_error + 'a \<Rightarrow> risk_error + 'a" where
  "risk_domain r = (case r of Inl e \<Rightarrow> Inl (RiskError (domain_error_text e)) | Inr x \<Rightarrow> Inr x)"

definition risk_digest :: "ledger_env \<Rightarrow> nat list \<Rightarrow> rstr" where
  "risk_digest env bytes = hex_bytes (pf_sha256 (le_pf env) bytes)"

definition risk_hash :: "ledger_env \<Rightarrow> json \<Rightarrow> rstr" where
  "risk_hash env v = risk_digest env (json_bytes (le_pf env) v)"

datatype risk_status = RApplied | RDuplicate

record risk_outcome =
  ro_status :: risk_status
  ro_decision :: "json option"

section \<open>Readers\<close>

definition risk_row :: "json \<Rightarrow> string list \<Rightarrow> risk_error + (rstr \<times> json) list" where
  "risk_row v names =
     rbind (ok_or (as_object v) (RiskError ''RISK_RECORD_REQUIRED'')) (\<lambda>r.
     if (case map_of r (str_lit ''schema_version'') of Some n \<Rightarrow> as_u64 n | None \<Rightarrow> None) \<noteq> Some 1
        \<or> length r \<noteq> length names + 1
        \<or> list_ex (\<lambda>f. \<not> bt_contains r (str_lit f)) names
     then Inl (RiskError ''RISK_FIELDS_INVALID'') else Inr r)"

definition risk_text :: "json \<Rightarrow> risk_error + rstr" where
  "risk_text v =
     ok_or (case as_str v of Some s \<Rightarrow> if s \<noteq> [] \<and> str_len s \<le> 256 then Some s else None | None \<Rightarrow> None)
       (RiskError ''RISK_TEXT_INVALID'')"

definition risk_id :: "json \<Rightarrow> risk_error + rstr" where
  "risk_id v =
     rbind (risk_text v) (\<lambda>s.
     rbind (risk_domain (identifier_new ''OnlyIdentifier'' s)) (\<lambda>i.
     if i \<noteq> s then Inl (RiskError ''RISK_ID_NONCANONICAL'') else Inr s))"

definition risk_fp :: "json \<Rightarrow> risk_error + unit" where
  "risk_fp v =
     rbind (risk_text v) (\<lambda>s.
     if str_len s \<noteq> 64 \<or> \<not> list_all (\<lambda>b. is_digit b \<or> 97 \<le> b \<and> b \<le> 102) (str_bytes s)
     then Inl (RiskError ''RISK_DIGEST_INVALID'') else Inr ())"

definition risk_uint :: "json \<Rightarrow> risk_error + nat" where
  "risk_uint v = ok_or (as_u64 v) (RiskError ''RISK_UNSIGNED_REQUIRED'')"

definition risk_boolean :: "json \<Rightarrow> risk_error + bool" where
  "risk_boolean v = ok_or (as_bool v) (RiskError ''RISK_BOOL_REQUIRED'')"

definition risk_time :: "json \<Rightarrow> risk_error + int" where
  "risk_time v =
     rbind (ok_or (as_number v) (RiskError ''RISK_TIME_INVALID'')) (\<lambda>s.
     if str_len s > 40 then Inl (RiskError ''RISK_TIME_INVALID'')
     else ok_or (int_parse s) (RiskError ''RISK_TIME_INVALID''))"

definition risk_dec :: "ledger_env \<Rightarrow> json \<Rightarrow> nat \<Rightarrow> risk_error + bigdec" where
  "risk_dec env v p =
     rbind (risk_text v) (\<lambda>raw.
     rbind (risk_domain (decimal_from_str (le_lib env) (pf_uni (le_pf env)) raw)) (\<lambda>parsed.
     rbind (ok_or (lib_parse (le_lib env) (decimal_display parsed)) (RiskError ''RISK_DECIMAL_INVALID'')) (\<lambda>n.
     let plain_digits = length (int_text (bd_coef n)) + (if bd_scale n < 0 then nat (- bd_scale n) else 0) in
     if bd_scale n > int p \<or> bd_scale n < - 64 \<or> plain_digits > 128 then Inl (RiskError ''RISK_DECIMAL_BOUND'')
     else if bd_less env n bd_zero then Inl (RiskError ''RISK_NEGATIVE_VALUE'') else Inr n)))"

definition risk_norm :: "ledger_env \<Rightarrow> bigdec \<Rightarrow> rstr" where
  "risk_norm env n = le_plain env (lib_normalized (le_lib env) n)"

definition risk_money :: "ledger_env \<Rightarrow> bigdec \<Rightarrow> nat \<Rightarrow> rstr" where
  "risk_money env n p = le_plain env (lib_with_scale (le_lib env) n (int p))"

definition risk_instrument :: "json \<Rightarrow> risk_error + rstr" where
  "risk_instrument v =
     rbind (risk_text v) (\<lambda>s.
     rbind (risk_domain (instrument_id_from_str s)) (\<lambda>i.
     if instrument_display i \<noteq> s then Inl (RiskError ''RISK_INSTRUMENT_NONCANONICAL'') else Inr s))"

definition risk_key :: "ledger_env \<Rightarrow> rstr \<Rightarrow> rstr \<Rightarrow> rstr" where
  "risk_key env family ident = pf_json_text (le_pf env) (JArray [JString family, JString ident])"

definition risk_scope :: "rstr \<Rightarrow> risk_error + nat" where
  "risk_scope s =
     (if s = str_lit ''SYSTEM'' then Inr 0 else if s = str_lit ''RUNTIME'' then Inr 1 else if s = str_lit ''ACCOUNT'' then Inr 2
      else if s = str_lit ''INSTRUMENT'' then Inr 3 else if s = str_lit ''CLUSTER'' then Inr 4
      else Inl (RiskError ''RISK_SCOPE_INVALID''))"

section \<open>Configuration\<close>

record risk_rule =
  ru_id :: rstr
  ru_scope :: rstr
  ru_order :: nat
  ru_observing :: bool
  ru_kind :: rstr
  ru_limit :: bigdec

record risk_profile =
  rp_revision :: rstr
  rp_instruments :: "rstr list"
  rp_rules :: "risk_rule list"

definition risk_kinds :: "rstr set" where
  "risk_kinds = {str_lit ''MAX_ACTIVE_ORDERS'', str_lit ''MAX_ORDER_QUANTITY'', str_lit ''MAX_ORDER_NOTIONAL'', str_lit ''MAX_RESERVED_NOTIONAL''}"

definition read_rule :: "ledger_env \<Rightarrow> nat \<Rightarrow> json \<Rightarrow> rstr list \<times> risk_rule list \<Rightarrow> risk_error + rstr list \<times> risk_rule list" where
  "read_rule env p rv = (\<lambda>(ids, rs).
     rbind (risk_row rv [''id'', ''scope'', ''order'', ''mode'', ''kind'', ''limit'']) (\<lambda>rr.
     rbind (risk_id (jfield rr ''id'')) (\<lambda>rid.
     rbind (risk_text (jfield rr ''scope'')) (\<lambda>sc.
     rbind (risk_scope sc) (\<lambda>_.
     if sc = str_lit ''SYSTEM'' \<or> take 7 rid = str_lit ''system.'' \<or> rid \<in> set ids
     then Inl (RiskError ''RISK_MANDATORY_OR_DUPLICATE_RULE'')
     else rbind (risk_text (jfield rr ''mode'')) (\<lambda>mode.
     if mode \<notin> {str_lit ''ENFORCING'', str_lit ''OBSERVING''} then Inl (RiskError ''RISK_RULE_MODE'')
     else rbind (risk_text (jfield rr ''kind'')) (\<lambda>kind.
     if kind \<notin> risk_kinds then Inl (RiskError ''RISK_RULE_KIND'')
     else let precision = (if kind = str_lit ''MAX_ACTIVE_ORDERS'' then 0 else if kind = str_lit ''MAX_ORDER_QUANTITY'' then 18 else p) in
     rbind (risk_uint (jfield rr ''order'')) (\<lambda>order.
     rbind (risk_dec env (jfield rr ''limit'') precision) (\<lambda>limit.
     Inr (bs_insert rid ids, rs @ [\<lparr>ru_id = rid, ru_scope = sc, ru_order = order, ru_observing = (mode = str_lit ''OBSERVING''),
       ru_kind = kind, ru_limit = limit\<rparr>]))))))))))"

definition rule_rank :: "risk_rule \<Rightarrow> nat \<times> nat \<times> rstr" where
  "rule_rank r = (case risk_scope (ru_scope r) of Inr n \<Rightarrow> n | Inl _ \<Rightarrow> 5, ru_order r, ru_id r)"

definition read_profile :: "ledger_env \<Rightarrow> nat \<Rightarrow> rstr \<times> json \<Rightarrow> (rstr, risk_profile) btree \<Rightarrow> risk_error + (rstr, risk_profile) btree" where
  "read_profile env p = (\<lambda>(c, v) profiles.
     rbind (risk_id (JString c)) (\<lambda>_.
     rbind (risk_row v [''revision'', ''instruments'', ''rules'']) (\<lambda>x.
     rbind (risk_id (jfield x ''revision'')) (\<lambda>revision.
     rbind (ok_or (case as_array (jfield x ''instruments'') of Some a \<Rightarrow> if a \<noteq> [] \<and> length a \<le> 256 then Some a else None | None \<Rightarrow> None)
              (RiskError ''RISK_INSTRUMENT_BOUND'')) (\<lambda>instruments.
     rbind (rfold (\<lambda>i allowed. rbind (risk_instrument i) (\<lambda>s.
              if s \<in> set allowed then Inl (RiskError ''RISK_DUPLICATE_INSTRUMENT'') else Inr (bs_insert s allowed))) instruments []) (\<lambda>allowed.
     rbind (ok_or (case as_array (jfield x ''rules'') of Some a \<Rightarrow> if length a \<le> 64 then Some a else None | None \<Rightarrow> None)
              (RiskError ''RISK_RULE_BOUND'')) (\<lambda>rules.
     rbind (rfold (read_rule env p) rules ([], [])) (\<lambda>(_, rs).
     Inr (bt_insert c \<lparr>rp_revision = revision, rp_instruments = allowed, rp_rules = sort_key rule_rank rs\<rparr> profiles)))))))))"

definition risk_config :: "ledger_env \<Rightarrow> json \<Rightarrow> risk_error + nat \<times> (rstr, risk_profile) btree" where
  "risk_config env v =
     rbind (risk_row v [''engine'', ''runtime'', ''account'', ''generation'', ''runtime_kind'', ''currency'', ''clusters'', ''admission_limits'']) (\<lambda>r.
     rbind (for_each (\<lambda>k. rbind (risk_id (jfield r k)) (\<lambda>_. Inr ())) [''engine'', ''runtime'', ''account'', ''generation'']) (\<lambda>_.
     rbind (risk_text (jfield r ''runtime_kind'')) (\<lambda>kind.
     if kind \<notin> {str_lit ''BACKTEST'', str_lit ''SIM'', str_lit ''LIVE''} then Inl (RiskError ''RISK_RUNTIME_KIND'')
     else rbind (risk_domain (currency_from_record (le_pf env) (jfield r ''currency''))) (\<lambda>currency.
     if currency_to_record currency \<noteq> jfield r ''currency'' then Inl (RiskError ''RISK_CURRENCY_NONCANONICAL'')
     else rbind (risk_row (jfield r ''admission_limits'') [''commands'', ''journal_bytes'', ''checkpoint_bytes'', ''reservations'']) (\<lambda>limits.
     rbind (for_each (\<lambda>(k, maximum). rbind (risk_uint (jfield limits k)) (\<lambda>value.
              if value = 0 \<or> value > maximum then Inl (RiskError ''RISK_ADMISSION_LIMIT_INVALID'') else Inr ()))
              [(''commands'', 4096), (''reservations'', 1024), (''journal_bytes'', 8388608), (''checkpoint_bytes'', 33554432)]) (\<lambda>_.
     rbind (ok_or (case as_object (jfield r ''clusters'') of Some ms \<Rightarrow> if ms \<noteq> [] \<and> length ms \<le> 64 then Some ms else None | None \<Rightarrow> None)
              (RiskError ''RISK_CLUSTER_BOUND'')) (\<lambda>cs.
     rbind (rfold (read_profile env (cu_precision currency)) cs []) (\<lambda>profiles. Inr (cu_precision currency, profiles)))))))))"

section \<open>Holds\<close>

record hold =
  ho_cluster :: rstr
  ho_request :: rstr
  ho_instrument :: rstr
  ho_side :: rstr
  ho_position_side :: rstr
  ho_position_mode :: rstr
  ho_increasing :: bool
  ho_quantity :: bigdec
  ho_notional :: bigdec
  ho_fee :: bigdec
  ho_cash_requirement :: bigdec
  ho_consumed_quantity :: bigdec
  ho_consumed_notional :: bigdec
  ho_released_quantity :: bigdec
  ho_released_notional :: bigdec
  ho_state :: rstr
  ho_sent :: bool
  ho_unknown :: bool
  ho_acknowledged :: bool
  ho_cancel_pending :: bool
  ho_terminal :: "rstr option"

definition remaining_quantity :: "ledger_env \<Rightarrow> hold \<Rightarrow> bigdec" where
  "remaining_quantity env h = bd_sub env (bd_sub env (ho_quantity h) (ho_consumed_quantity h)) (ho_released_quantity h)"

definition remaining_notional :: "ledger_env \<Rightarrow> hold \<Rightarrow> bigdec" where
  "remaining_notional env h = bd_sub env (bd_sub env (ho_notional h) (ho_consumed_notional h)) (ho_released_notional h)"

definition hold_cash :: "ledger_env \<Rightarrow> hold \<Rightarrow> bigdec" where
  "hold_cash env h = (if ho_increasing h \<and> ho_state h = str_lit ''ACTIVE'' then bd_add env (ho_cash_requirement h) (ho_fee h) else bd_zero)"

definition hold_record :: "ledger_env \<Rightarrow> nat \<Rightarrow> hold \<Rightarrow> json" where
  "hold_record env p h = jobject [(''cluster'', JString (ho_cluster h)), (''request'', JString (ho_request h)), (''instrument'', JString (ho_instrument h)),
     (''side'', JString (ho_side h)), (''position_side'', JString (ho_position_side h)), (''position_mode'', JString (ho_position_mode h)),
     (''increasing'', JBool (ho_increasing h)), (''original_quantity'', JString (risk_norm env (ho_quantity h))),
     (''original_notional'', JString (risk_money env (ho_notional h) p)), (''fee_envelope'', JString (risk_money env (ho_fee h) p)),
     (''cash_requirement'', JString (risk_money env (ho_cash_requirement h) p)),
     (''consumed_quantity'', JString (risk_norm env (ho_consumed_quantity h))), (''consumed_notional'', JString (risk_money env (ho_consumed_notional h) p)),
     (''released_quantity'', JString (risk_norm env (ho_released_quantity h))), (''released_notional'', JString (risk_money env (ho_released_notional h) p)),
     (''remaining_quantity'', JString (risk_norm env (remaining_quantity env h))),
     (''remaining_notional'', JString (risk_money env (remaining_notional env h) p)), (''cash_hold'', JString (risk_money env (hold_cash env h) p)),
     (''state'', JString (ho_state h)), (''sent'', JBool (ho_sent h)), (''unknown'', JBool (ho_unknown h)), (''acknowledged'', JBool (ho_acknowledged h)),
     (''cancel_pending'', JBool (ho_cancel_pending h)), (''terminal'', case ho_terminal h of None \<Rightarrow> JNull | Some s \<Rightarrow> JString s)]"

definition bd_sum :: "ledger_env \<Rightarrow> (hold \<Rightarrow> bigdec) \<Rightarrow> hold list \<Rightarrow> bigdec" where
  "bd_sum env f hs = foldl (\<lambda>n h. bd_add env n (f h)) bd_zero hs"

end
