(* ===== verification/Risk_Manager.thy ===== *)
theory Risk_Manager
  imports Risk_Model
begin

text \<open>
  The risk manager of \<open>crates/risk/src\<close>: \<open>manager.rs\<close> with its command pipeline, \<open>pipeline.rs\<close> with
  the evaluation of a request, \<open>reservation.rs\<close> with the life of a hold and \<open>recovery.rs\<close>.
  Evaluation first reads everything it needs and then builds its checks; reading has no effect
  but the proof sources it records, so the grouping does not change which error comes first.
\<close>

record risk_manager =
  rm_config :: json
  rm_precision :: nat
  rm_profiles :: "(rstr, risk_profile) btree"
  rm_reservations :: "(rstr, hold) btree"
  rm_decisions :: "(rstr, json) btree"
  rm_request_inputs :: "(rstr, json) btree"
  rm_request_orders :: "(rstr, rstr) btree"
  rm_receipts :: "(rstr, rstr \<times> json option) btree"
  rm_aliases :: "(rstr, rstr) btree"
  rm_sources :: "(rstr, rstr) btree"
  rm_kills :: "rstr list"
  rm_audits :: "json list"
  rm_journal :: "json list"
  rm_sequence :: nat
  rm_epoch :: nat
  rm_watermark :: nat
  rm_now :: "int option"

definition risk_context :: "string list" where
  "risk_context = [''engine'', ''runtime'', ''account'', ''generation'']"

definition rule_record :: "ledger_env \<Rightarrow> risk_rule \<Rightarrow> json" where
  "rule_record env r = jobject [(''schema_version'', jint 1), (''id'', JString (ru_id r)), (''scope'', JString (ru_scope r)),
     (''order'', jint (int (ru_order r))), (''mode'', JString (str_lit (if ru_observing r then ''OBSERVING'' else ''ENFORCING''))),
     (''kind'', JString (ru_kind r)), (''limit'', JString (risk_norm env (ru_limit r)))]"

definition profile_config :: "ledger_env \<Rightarrow> rstr \<times> risk_profile \<Rightarrow> json \<Rightarrow> json" where
  "profile_config env = (\<lambda>(cluster, profile) config.
     let clusters = jindex config ''clusters'';
         entry = (case jget clusters cluster of Some v \<Rightarrow> v | None \<Rightarrow> JNull);
         entry1 = jset entry ''instruments'' (JArray (map JString (rp_instruments profile)));
         entry2 = jset entry1 ''rules'' (JArray (map (rule_record env) (rp_rules profile)))
     in jset config ''clusters'' (jput clusters cluster entry2))"

definition risk_new :: "ledger_env \<Rightarrow> json \<Rightarrow> risk_error + risk_manager" where
  "risk_new env config =
     rbind (risk_config env config) (\<lambda>(p, profiles).
     Inr \<lparr>rm_config = fold (profile_config env) profiles config, rm_precision = p, rm_profiles = profiles, rm_reservations = [], rm_decisions = [],
       rm_request_inputs = [], rm_request_orders = [], rm_receipts = [], rm_aliases = [], rm_sources = [], rm_kills = [], rm_audits = [],
       rm_journal = [], rm_sequence = 0, rm_epoch = 0, rm_watermark = 0, rm_now = None\<rparr>)"

definition is_active_hold :: "hold \<Rightarrow> bool" where
  "is_active_hold h = (ho_state h = str_lit ''ACTIVE'')"

definition risk_killed :: "ledger_env \<Rightarrow> risk_manager \<Rightarrow> rstr \<Rightarrow> bool" where
  "risk_killed env m cluster =
     (str_lit ''RUNTIME'' \<in> set (rm_kills m) \<or> str_lit ''ACCOUNT'' \<in> set (rm_kills m) \<or> risk_key env (str_lit ''CLUSTER'') cluster \<in> set (rm_kills m))"

definition risk_snapshot :: "ledger_env \<Rightarrow> risk_manager \<Rightarrow> rstr \<Rightarrow> risk_error + json" where
  "risk_snapshot env m cluster =
     rbind (ok_or (map_of (rm_profiles m) cluster) (RiskError ''RISK_CLUSTER_UNKNOWN'')) (\<lambda>profile.
     let holds = filter (\<lambda>h. ho_cluster h = cluster \<and> is_active_hold h) (bt_values (rm_reservations m)) in
     Inr (jobject ([(''schema_version'', jint 1)] @ map (\<lambda>k. (k, jindex (rm_config m) k)) risk_context @
       [(''cluster'', JString cluster), (''revision'', JString (rp_revision profile)), (''sequence'', jint (int (rm_sequence m))),
        (''admission_epoch'', jint (int (rm_epoch m))), (''active_count'', jint (int (length holds))),
        (''reserved_notional'', JString (risk_money env (bd_sum env (remaining_notional env) holds) (rm_precision m))),
        (''cash_hold'', JString (risk_money env (bd_sum env (hold_cash env) holds) (rm_precision m))),
        (''kill_switch'', JBool (risk_killed env m cluster))])))"

definition risk_state :: "ledger_env \<Rightarrow> risk_manager \<Rightarrow> json" where
  "risk_state env m = jobject [
     (''reservations'', JObject (bt_map_values (hold_record env (rm_precision m)) (rm_reservations m))),
     (''decisions'', JObject (rm_decisions m)), (''request_inputs'', JObject (rm_request_inputs m)),
     (''request_orders'', JObject (bt_map_values JString (rm_request_orders m))),
     (''receipts'', JObject (bt_map_values (\<lambda>(h, d). JArray [JString h, case d of None \<Rightarrow> JNull | Some v \<Rightarrow> v]) (rm_receipts m))),
     (''aliases'', JObject (bt_map_values JString (rm_aliases m))), (''sources'', JObject (bt_map_values JString (rm_sources m))),
     (''kill_switches'', JArray (map JString (rm_kills m))), (''audits'', JArray (rm_audits m)), (''sequence'', jint (int (rm_sequence m))),
     (''admission_epoch'', jint (int (rm_epoch m))), (''economic_watermark'', jint (int (rm_watermark m))),
     (''time'', case rm_now m of None \<Rightarrow> JNull | Some t \<Rightarrow> JString (int_text t)),
     (''active_count'', jint (int (length (filter is_active_hold (bt_values (rm_reservations m))))))]"

definition advance_epoch :: "risk_manager \<Rightarrow> risk_error + risk_manager" where
  "advance_epoch m = (if rm_epoch m + 1 \<ge> 2 ^ 64 then Inl (RiskError ''RISK_EPOCH_EXHAUSTED'') else Inr (m\<lparr>rm_epoch := rm_epoch m + 1\<rparr>))"

section \<open>Proof envelopes (manager.rs)\<close>

definition risk_envelope ::
  "ledger_env \<Rightarrow> risk_manager \<Rightarrow> json \<Rightarrow> string \<Rightarrow> rstr \<Rightarrow> rstr \<Rightarrow> nat \<Rightarrow> risk_error + risk_manager \<times> json option" where
  "risk_envelope env m v family cluster i n =
     (if v = JNull then Inr (m, None)
      else rbind (risk_row v [''family'', ''engine'', ''runtime'', ''account'', ''generation'', ''cluster'', ''instrument'', ''revision'', ''source_ref'',
                 ''version'', ''as_of_sequence'', ''source_digest'', ''data'']) (\<lambda>r.
      if list_ex (\<lambda>f. jfield r f \<noteq> jindex (rm_config m) f) risk_context then Inl (RiskError ''RISK_PROOF_CONTEXT'')
      else rbind (ok_or (map_of (rm_profiles m) cluster) RiskPanic) (\<lambda>profile.
      if jfield r ''family'' \<noteq> JString (str_lit family) \<or> jfield r ''cluster'' \<noteq> JString cluster \<or> jfield r ''instrument'' \<noteq> JString i
         \<or> jfield r ''revision'' \<noteq> JString (rp_revision profile)
      then Inl (RiskError ''RISK_PROOF_OWNER_RELATION'')
      else rbind (risk_id (jfield r ''source_ref'')) (\<lambda>source.
      rbind (risk_fp (jfield r ''source_digest'')) (\<lambda>_.
      rbind (risk_uint (jfield r ''version'')) (\<lambda>version.
      rbind (risk_uint (jfield r ''as_of_sequence'')) (\<lambda>as_of.
      if version = 0 \<or> as_of > n then Inl (RiskError ''RISK_PROOF_VERSION'')
      else let k = risk_key env (str_lit family) source; h = risk_hash env v in
      if (case map_of (rm_sources m) k of Some old \<Rightarrow> old \<noteq> h | None \<Rightarrow> False) then Inl (RiskError ''RISK_SOURCE_ID_CONFLICT'')
      else let m1 = m\<lparr>rm_sources := bt_insert k h (rm_sources m)\<rparr> in
      Inr (m1, if as_of < rm_watermark m then None else Some (jfield r ''data'')))))))))"

section \<open>Evaluation (pipeline.rs)\<close>

type_synonym failure = "(string \<times> rstr) option"

record risk_check =
  ch_scope :: nat
  ch_order :: nat
  ch_id :: rstr
  ch_observing :: bool
  ch_failure :: failure

record risk_facts =
  rf_instrument :: rstr
  rf_position :: rstr
  rf_mode :: rstr
  rf_quantity :: bigdec
  rf_increasing :: bool
  rf_closing :: bool
  rf_order_type :: rstr
  rf_price :: "bigdec option"
  rf_notional :: "bigdec option"
  rf_fee :: "bigdec option"
  rf_cash_requirement :: "bigdec option"
  rf_market :: failure
  rf_account_cash :: "bigdec option"
  rf_ledger_cash :: "bigdec option"
  rf_available :: "(bigdec \<times> bigdec) option"

definition dec_option :: "ledger_env \<Rightarrow> json \<Rightarrow> nat \<Rightarrow> risk_error + bigdec option" where
  "dec_option env v p = (if v = JNull then Inr None else rbind (risk_dec env v p) (\<lambda>d. Inr (Some d)))"

definition market_failure :: "ledger_env \<Rightarrow> json \<Rightarrow> json option \<Rightarrow> risk_error + failure" where
  "market_failure env request market = (case market of
     None \<Rightarrow> Inr (Some (''ERROR'', str_lit ''MARKET_UNAVAILABLE''))
   | Some v \<Rightarrow>
       rbind (risk_row v [''request_digest'', ''verdict'', ''code'']) (\<lambda>x.
       rbind (risk_fp (jfield x ''request_digest'')) (\<lambda>_.
       if jfield x ''request_digest'' \<noteq> JString (risk_hash env request) then Inl (RiskError ''RISK_MARKET_INTENT_RELATION'')
       else rbind (risk_text (jfield x ''verdict'')) (\<lambda>verdict.
       rbind (risk_text (jfield x ''code'')) (\<lambda>code.
       if verdict = str_lit ''ACCEPT'' then Inr None
       else if verdict = str_lit ''REJECT'' then Inr (Some (''REJECT'', code))
       else if verdict = str_lit ''ERROR'' then Inr (Some (''ERROR'', code))
       else Inl (RiskError ''RISK_MARKET_VERDICT''))))))"

definition cash_of :: "ledger_env \<Rightarrow> nat \<Rightarrow> json option \<Rightarrow> risk_error + bigdec option" where
  "cash_of env p view = (case view of
     None \<Rightarrow> Inr None
   | Some v \<Rightarrow>
       rbind (risk_row v [''status'', ''cash'']) (\<lambda>r.
       rbind (risk_text (jfield r ''status'')) (\<lambda>status.
       rbind (risk_dec env (jfield r ''cash'') p) (\<lambda>value.
       Inr (if status = str_lit ''ACTIVE'' then Some value else None)))))"

definition available_of :: "ledger_env \<Rightarrow> rstr \<Rightarrow> rstr \<Rightarrow> json option \<Rightarrow> risk_error + (bigdec \<times> bigdec) option" where
  "available_of env position mode view = (case view of
     None \<Rightarrow> Inr None
   | Some v \<Rightarrow>
       rbind (risk_row v [''account_available'', ''allocation_available'', ''position_side'', ''position_mode'']) (\<lambda>r.
       if jfield r ''position_side'' \<noteq> JString position \<or> jfield r ''position_mode'' \<noteq> JString mode then Inl (RiskError ''RISK_POSITION_PROOF_RELATION'')
       else rbind (risk_dec env (jfield r ''account_available'') 18) (\<lambda>a.
       rbind (risk_dec env (jfield r ''allocation_available'') 18) (\<lambda>b. Inr (Some (a, b))))))"

definition risk_read ::
  "ledger_env \<Rightarrow> risk_manager \<Rightarrow> rstr \<Rightarrow> json \<Rightarrow> (rstr \<times> json) list \<Rightarrow> json \<Rightarrow> nat \<Rightarrow> risk_error + risk_manager \<times> risk_facts" where
  "risk_read env m cluster request r views n =
     rbind (risk_instrument (jfield r ''instrument'')) (\<lambda>i.
     rbind (risk_text (jfield r ''side'')) (\<lambda>side.
     rbind (risk_text (jfield r ''position_side'')) (\<lambda>position.
     if side \<notin> {str_lit ''BUY'', str_lit ''SELL''} \<or> position \<notin> {str_lit ''LONG'', str_lit ''SHORT''} then Inl (RiskError ''RISK_SIDE_INVALID'')
     else rbind (risk_text (jfield r ''position_mode'')) (\<lambda>mode.
     if mode \<notin> {str_lit ''NETTING'', str_lit ''HEDGING''} then Inl (RiskError ''RISK_POSITION_MODE_INVALID'')
     else rbind (risk_dec env (jfield r ''quantity'') 18) (\<lambda>quantity.
     rbind (risk_text (jfield r ''effect'')) (\<lambda>effect.
     let buy = (side = str_lit ''BUY''); long = (position = str_lit ''LONG'') in
     rbind (risk_row views [''account'', ''ledger'', ''position'', ''market'']) (\<lambda>v.
     rbind (risk_envelope env m (jfield v ''account'') ''ACCOUNT'' cluster i n) (\<lambda>(m1, account).
     rbind (risk_envelope env m1 (jfield v ''ledger'') ''LEDGER'' cluster i n) (\<lambda>(m2, ledger).
     rbind (risk_envelope env m2 (jfield v ''position'') ''POSITION'' cluster i n) (\<lambda>(m3, position_view).
     rbind (risk_envelope env m3 (jfield v ''market'') ''MARKET'' cluster i n) (\<lambda>(m4, market).
     rbind (risk_text (jfield r ''order_type'')) (\<lambda>order_type.
     rbind (dec_option env (jfield r ''price'') 18) (\<lambda>price.
     rbind (dec_option env (jfield r ''notional'') (rm_precision m)) (\<lambda>notional.
     rbind (dec_option env (jfield r ''fee'') (rm_precision m)) (\<lambda>fee.
     rbind (dec_option env (jfield r ''cash_requirement'') (rm_precision m)) (\<lambda>cash.
     rbind (market_failure env request market) (\<lambda>verdict.
     rbind (cash_of env (rm_precision m) account) (\<lambda>ac.
     rbind (cash_of env (rm_precision m) ledger) (\<lambda>lc.
     rbind (available_of env position mode position_view) (\<lambda>available.
     Inr (m4, \<lparr>rf_instrument = i, rf_position = position, rf_mode = mode, rf_quantity = quantity,
       rf_increasing = (effect = str_lit ''OPEN'' \<and> (buy \<and> long \<or> \<not> buy \<and> \<not> long)),
       rf_closing = (effect = str_lit ''CLOSE'' \<and> (\<not> buy \<and> long \<or> buy \<and> \<not> long)),
       rf_order_type = order_type, rf_price = price, rf_notional = notional, rf_fee = fee, rf_cash_requirement = cash,
       rf_market = verdict, rf_account_cash = ac, rf_ledger_cash = lc, rf_available = available\<rparr>)))))))))))))))))))))"

definition or_zero :: "bigdec option \<Rightarrow> bigdec" where
  "or_zero x = (case x of None \<Rightarrow> bd_zero | Some d \<Rightarrow> d)"

definition funds_failure :: "ledger_env \<Rightarrow> risk_manager \<Rightarrow> rstr \<Rightarrow> risk_facts \<Rightarrow> failure" where
  "funds_failure env m cluster f =
     (let holds = bt_values (rm_reservations m);
          ac_holds = bd_sum env (hold_cash env) holds;
          lc_holds = bd_sum env (hold_cash env) (filter (\<lambda>h. ho_cluster h = cluster) holds);
          required = bd_add env (or_zero (rf_cash_requirement f)) (or_zero (rf_fee f))
      in if \<not> rf_increasing f then None
         else case (rf_account_cash f, rf_ledger_cash f) of
           (Some ac, Some lc) \<Rightarrow>
             if bd_less env (bd_sub env ac ac_holds) required \<or> bd_less env (bd_sub env lc lc_holds) required
             then Some (''REJECT'', str_lit ''INSUFFICIENT_CASH_WITH_FEES'') else None
         | _ \<Rightarrow> Some (''ERROR'', str_lit ''ACCOUNT_OR_LEDGER_UNAVAILABLE''))"

definition closes_same :: "risk_facts \<Rightarrow> hold \<Rightarrow> bool" where
  "closes_same f h = (\<not> ho_increasing h \<and> is_active_hold h \<and> ho_instrument h = rf_instrument f \<and> ho_position_side h = rf_position f
     \<and> ho_position_mode h = rf_mode f)"

definition position_failure :: "ledger_env \<Rightarrow> risk_manager \<Rightarrow> rstr \<Rightarrow> risk_facts \<Rightarrow> failure" where
  "position_failure env m cluster f =
     (let holds = bt_values (rm_reservations m);
          account_held = bd_sum env (remaining_quantity env) (filter (closes_same f) holds);
          cluster_held = bd_sum env (remaining_quantity env) (filter (\<lambda>h. closes_same f h \<and> ho_cluster h = cluster) holds)
      in case rf_available f of
           None \<Rightarrow> Some (''ERROR'', str_lit ''POSITION_UNAVAILABLE'')
         | Some (ac, lc) \<Rightarrow>
             if rf_closing f \<and> (bd_less env (bd_sub env ac account_held) (rf_quantity f) \<or> bd_less env (bd_sub env lc cluster_held) (rf_quantity f))
             then Some (''REJECT'', str_lit ''INSUFFICIENT_POSITION'') else None)"

definition fails_when :: "bool \<Rightarrow> string \<Rightarrow> string \<Rightarrow> failure" where
  "fails_when b outcome code = (if b then Some (outcome, str_lit code) else None)"

definition system_checks :: "ledger_env \<Rightarrow> risk_manager \<Rightarrow> risk_profile \<Rightarrow> rstr \<Rightarrow> risk_facts \<Rightarrow> risk_check list" where
  "system_checks env m profile cluster f =
     (let mandatory = (\<lambda>(order, name, failure).
            \<lparr>ch_scope = 0, ch_order = order, ch_id = str_lit ''system.'' @ str_lit name, ch_observing = False, ch_failure = failure\<rparr>)
      in map mandatory [
        (10, ''scope'', None),
        (20, ''instrument'', fails_when (rf_instrument f \<notin> set (rp_instruments profile)) ''REJECT'' ''INSTRUMENT_NOT_AUTHORIZED''),
        (30, ''quantity'', fails_when (\<not> bd_less env bd_zero (rf_quantity f)) ''REJECT'' ''INVALID_QUANTITY''),
        (40, ''order_type'', fails_when (rf_order_type f \<notin> {str_lit ''LIMIT'', str_lit ''MARKET''}) ''REJECT'' ''UNSUPPORTED_ORDER_TYPE''),
        (50, ''price'', fails_when (rf_order_type f = str_lit ''LIMIT'' \<and> (case rf_price f of None \<Rightarrow> True | Some x \<Rightarrow> \<not> bd_less env bd_zero x))
           ''ERROR'' ''PRICE_UNAVAILABLE''),
        (60, ''exposure'', fails_when (\<not> (rf_increasing f \<or> rf_closing f)) ''ERROR'' ''EXPOSURE_NOT_PROVED''),
        (70, ''cost'', fails_when (rf_notional f = None \<or> rf_increasing f \<and> (rf_fee f = None \<or> rf_cash_requirement f = None)) ''ERROR'' ''COST_UNAVAILABLE''),
        (80, ''kill_switch'', fails_when (risk_killed env m cluster \<and> rf_increasing f) ''REJECT'' ''KILL_SWITCH_ACTIVE''),
        (90, ''market'', rf_market f),
        (100, ''cash'', funds_failure env m cluster f),
        (110, ''position'', position_failure env m cluster f)])"

definition rule_holds :: "risk_manager \<Rightarrow> rstr \<Rightarrow> risk_facts \<Rightarrow> risk_rule \<Rightarrow> hold list" where
  "rule_holds m cluster f rule =
     filter (\<lambda>h. is_active_hold h \<and> (if ru_scope rule = str_lit ''CLUSTER'' then ho_cluster h = cluster
         else if ru_scope rule = str_lit ''INSTRUMENT'' then ho_instrument h = rf_instrument f else True)) (bt_values (rm_reservations m))"

definition rule_amount :: "ledger_env \<Rightarrow> risk_manager \<Rightarrow> rstr \<Rightarrow> risk_facts \<Rightarrow> risk_rule \<Rightarrow> risk_error + bigdec" where
  "rule_amount env m cluster f rule =
     (let holds = rule_holds m cluster f rule in
      if ru_kind rule = str_lit ''MAX_ACTIVE_ORDERS'' then Inr \<lparr>bd_coef = int (length holds) + 1, bd_scale = 0\<rparr>
      else if ru_kind rule = str_lit ''MAX_ORDER_QUANTITY'' then Inr (rf_quantity f)
      else if ru_kind rule = str_lit ''MAX_ORDER_NOTIONAL'' then Inr (or_zero (rf_notional f))
      else if ru_kind rule = str_lit ''MAX_RESERVED_NOTIONAL''
      then Inr (bd_add env (bd_sum env (remaining_notional env) holds) (or_zero (rf_notional f)))
      else Inl (RiskError ''RISK_RULE_KIND''))"

definition rule_check :: "ledger_env \<Rightarrow> risk_manager \<Rightarrow> rstr \<Rightarrow> risk_facts \<Rightarrow> risk_rule \<Rightarrow> risk_error + risk_check" where
  "rule_check env m cluster f rule =
     rbind (rule_amount env m cluster f rule) (\<lambda>amount.
     rbind (risk_scope (ru_scope rule)) (\<lambda>rank.
     Inr \<lparr>ch_scope = rank, ch_order = ru_order rule, ch_id = ru_id rule, ch_observing = ru_observing rule,
       ch_failure = (if rf_increasing f \<and> bd_less env (ru_limit rule) amount then Some (''REJECT'', ru_kind rule) else None)\<rparr>))"

definition check_rank :: "risk_check \<Rightarrow> nat \<times> nat \<times> rstr" where
  "check_rank c = (ch_scope c, ch_order c, ch_id c)"

record risk_verdict =
  vd_outcome :: string
  vd_code :: rstr
  vd_failed :: "rstr option"
  vd_evaluated :: "rstr list"
  vd_observations :: "rstr list"

fun run_checks :: "risk_check list \<Rightarrow> risk_verdict \<Rightarrow> risk_verdict" where
  "run_checks [] v = v"
| "run_checks (c # cs) v =
     (let v1 = v\<lparr>vd_evaluated := vd_evaluated v @ [ch_id c]\<rparr> in
      case ch_failure c of
        None \<Rightarrow> run_checks cs v1
      | Some (outcome, reason) \<Rightarrow>
          if ch_observing c \<and> outcome = ''REJECT'' then run_checks cs (v1\<lparr>vd_observations := vd_observations v1 @ [ch_id c]\<rparr>)
          else v1\<lparr>vd_outcome := outcome, vd_code := reason, vd_failed := Some (ch_id c)\<rparr>)"

definition verdict_start :: risk_verdict where
  "verdict_start = \<lparr>vd_outcome = ''ACCEPT'', vd_code = str_lit ''OK'', vd_failed = None, vd_evaluated = [], vd_observations = []\<rparr>"

definition risk_judge :: "ledger_env \<Rightarrow> risk_manager \<Rightarrow> risk_profile \<Rightarrow> rstr \<Rightarrow> risk_facts \<Rightarrow> risk_error + risk_verdict" where
  "risk_judge env m profile cluster f =
     rbind (collect (rule_check env m cluster f) (rp_rules profile)) (\<lambda>rules.
     Inr (run_checks (sort_key check_rank (system_checks env m profile cluster f @ rules)) verdict_start))"

definition decision_record :: "ledger_env \<Rightarrow> risk_manager \<Rightarrow> risk_profile \<Rightarrow> rstr \<Rightarrow> rstr \<Rightarrow> json \<Rightarrow> nat \<Rightarrow> risk_verdict \<Rightarrow> json" where
  "decision_record env m profile cluster request payload n v = jobject [(''schema_version'', jint 1), (''request'', JString request),
     (''cluster'', JString cluster), (''revision'', JString (rp_revision profile)),
     (''profile_digest'', JString (risk_hash env (case jget (jindex (rm_config m) ''clusters'') cluster of Some c \<Rightarrow> c | None \<Rightarrow> JNull))),
     (''input_digest'', JString (risk_hash env payload)), (''outcome'', JString (str_lit (vd_outcome v))),
     (''rule'', case vd_failed v of None \<Rightarrow> JNull | Some i \<Rightarrow> JString i), (''code'', JString (vd_code v)),
     (''evaluated'', JArray (map JString (vd_evaluated v))), (''observations'', JArray (map JString (vd_observations v))),
     (''admission_epoch'', jint (int (rm_epoch m))), (''runtime_sequence'', jint (int n))]"

definition request_fields :: "string list" where
  "request_fields = [''request_id'', ''instrument'', ''side'', ''effect'', ''position_side'', ''position_mode'', ''order_type'', ''quantity'', ''price'',
     ''notional'', ''fee'', ''cash_requirement'']"

definition risk_evaluate :: "ledger_env \<Rightarrow> risk_manager \<Rightarrow> rstr \<Rightarrow> json \<Rightarrow> nat \<Rightarrow> risk_error + risk_manager \<times> json \<times> bool" where
  "risk_evaluate env m cluster payload n =
     rbind (risk_row payload [''request'', ''views'']) (\<lambda>p.
     rbind (risk_row (jfield p ''request'') request_fields) (\<lambda>r.
     rbind (risk_id (jfield r ''request_id'')) (\<lambda>request.
     let k = risk_key env cluster request in
     case map_of (rm_request_inputs m) k of
       Some old \<Rightarrow>
         if old \<noteq> payload then Inl (RiskError ''RISK_REQUEST_ID_CONFLICT'')
         else rbind (ok_or (map_of (rm_decisions m) k) RiskPanic) (\<lambda>d. Inr (m, d, True))
     | None \<Rightarrow>
         rbind (risk_read env m cluster (jfield p ''request'') r (jfield p ''views'') n) (\<lambda>(m1, f).
         rbind (ok_or (map_of (rm_profiles m) cluster) RiskPanic) (\<lambda>profile.
         rbind (risk_judge env m1 profile cluster f) (\<lambda>v.
         let d = decision_record env m1 profile cluster request payload n v in
         Inr (m1\<lparr>rm_request_inputs := bt_insert k payload (rm_request_inputs m1), rm_decisions := bt_insert k d (rm_decisions m1),
                rm_audits := rm_audits m1 @ [d]\<rparr>, d, False)))))))"

section \<open>Holds (reservation.rs)\<close>

definition risk_new_hold :: "ledger_env \<Rightarrow> risk_manager \<Rightarrow> rstr \<Rightarrow> rstr \<Rightarrow> rstr \<Rightarrow> risk_error + risk_manager" where
  "risk_new_hold env m cluster request order =
     (let k = risk_key env cluster request in
      rbind (ok_or (map_of (rm_decisions m) k) (RiskError ''RISK_ACCEPTANCE_REQUIRED'')) (\<lambda>d.
      rbind (if jindex d ''outcome'' \<noteq> JString (str_lit ''ACCEPT'') then Inr True
             else rbind (risk_uint (jindex d ''admission_epoch'')) (\<lambda>e. Inr (e \<noteq> rm_epoch m))) (\<lambda>stale.
      if stale then Inl (RiskError ''RISK_ACCEPTANCE_STALE_OR_DENIED'')
      else if bt_contains (rm_reservations m) order then Inl (RiskError ''RISK_ORDER_REQUEST_CONFLICT'')
      else rbind (ok_or (map_of (rm_request_inputs m) k) RiskPanic) (\<lambda>input.
      let q = jindex input ''request''; increasing = (jindex q ''effect'' = JString (str_lit ''OPEN'')) in
      rbind (risk_dec env (jindex q ''quantity'') 18) (\<lambda>quantity.
      rbind (risk_dec env (jindex q ''notional'') (rm_precision m)) (\<lambda>notional.
      rbind (if increasing then risk_dec env (jindex q ''fee'') (rm_precision m) else Inr bd_zero) (\<lambda>fee.
      rbind (if increasing then risk_dec env (jindex q ''cash_requirement'') (rm_precision m) else Inr bd_zero) (\<lambda>cash.
      rbind (risk_instrument (jindex q ''instrument'')) (\<lambda>i.
      rbind (risk_id (jindex q ''side'')) (\<lambda>side.
      rbind (risk_id (jindex q ''position_side'')) (\<lambda>position_side.
      rbind (risk_id (jindex q ''position_mode'')) (\<lambda>position_mode.
      let h = \<lparr>ho_cluster = cluster, ho_request = request, ho_instrument = i, ho_side = side, ho_position_side = position_side,
                ho_position_mode = position_mode, ho_increasing = increasing, ho_quantity = quantity, ho_notional = notional, ho_fee = fee,
                ho_cash_requirement = cash, ho_consumed_quantity = bd_zero, ho_consumed_notional = bd_zero, ho_released_quantity = bd_zero,
                ho_released_notional = bd_zero, ho_state = str_lit ''ACTIVE'', ho_sent = False, ho_unknown = False, ho_acknowledged = False,
                ho_cancel_pending = False, ho_terminal = None\<rparr>
      in advance_epoch (m\<lparr>rm_request_orders := bt_insert k order (rm_request_orders m),
                         rm_reservations := bt_insert order h (rm_reservations m)\<rparr>)))))))))))))"

definition risk_reserve :: "ledger_env \<Rightarrow> risk_manager \<Rightarrow> rstr \<Rightarrow> json \<Rightarrow> risk_error + risk_manager \<times> bool" where
  "risk_reserve env m cluster v =
     rbind (risk_row v [''request_id'', ''order'']) (\<lambda>r.
     rbind (risk_id (jfield r ''request_id'')) (\<lambda>request.
     rbind (risk_id (jfield r ''order'')) (\<lambda>order.
     let k = risk_key env cluster request; conflict = Inl (RiskError ''RISK_ORDER_REQUEST_CONFLICT'') in
     case map_of (rm_request_orders m) k of
       Some existing \<Rightarrow>
         if existing \<noteq> order then conflict
         else rbind (ok_or (map_of (rm_reservations m) existing) (RiskError ''RISK_ORDER_RELATION_MISSING'')) (\<lambda>h.
              if ho_cluster h = cluster \<and> ho_request h = request then Inr (m, True) else conflict)
     | None \<Rightarrow> rbind (risk_new_hold env m cluster request order) (\<lambda>m1. Inr (m1, False)))))"

definition transition_fields :: "rstr \<Rightarrow> risk_error + string list" where
  "transition_fields op =
     (if op = str_lit ''STAGE'' then Inr [''order'', ''stage'']
      else if op = str_lit ''FILL'' then Inr [''order'', ''trade'', ''source_ref'', ''quantity'', ''notional'', ''final_fill'']
      else if op = str_lit ''TERMINAL'' then Inr [''order'', ''outcome'', ''source_ref'']
      else Inl (RiskError ''RISK_OPERATION_UNKNOWN''))"

definition transition_aliases :: "ledger_env \<Rightarrow> rstr \<Rightarrow> (rstr \<times> json) list \<Rightarrow> rstr \<Rightarrow> risk_error + rstr list" where
  "transition_aliases env op r order =
     (if op = str_lit ''FILL''
      then rbind (risk_id (jfield r ''trade'')) (\<lambda>t.
           rbind (risk_id (jfield r ''source_ref'')) (\<lambda>s. Inr [risk_key env (str_lit ''trade'') t, risk_key env (str_lit ''fill_source'') s]))
      else if op = str_lit ''TERMINAL''
      then rbind (risk_id (jfield r ''source_ref'')) (\<lambda>s. Inr [risk_key env (str_lit ''terminal_source'') s])
      else rbind (risk_id (jfield r ''stage'')) (\<lambda>s.
           Inr [risk_key env (str_lit ''stage'') (pf_json_text (le_pf env) (JArray [JString order, JString s]))]))"

definition hold_stage :: "hold \<Rightarrow> rstr \<Rightarrow> risk_error + hold" where
  "hold_stage h stage =
     (if stage = str_lit ''SENT'' then Inr (h\<lparr>ho_sent := True\<rparr>)
      else if stage = str_lit ''UNKNOWN'' then Inr (h\<lparr>ho_sent := True, ho_unknown := True\<rparr>)
      else if stage = str_lit ''ACKNOWLEDGED'' then Inr (h\<lparr>ho_sent := True, ho_acknowledged := True, ho_unknown := False\<rparr>)
      else if stage = str_lit ''CANCEL_PENDING'' then Inr (h\<lparr>ho_sent := True, ho_cancel_pending := True\<rparr>)
      else Inl (RiskError ''RISK_STAGE_INVALID''))"

definition hold_fill :: "ledger_env \<Rightarrow> hold \<Rightarrow> bigdec \<Rightarrow> bigdec \<Rightarrow> bool \<Rightarrow> risk_error + hold" where
  "hold_fill env h quantity notional final_fill =
     (let remaining = remaining_quantity env h in
      if \<not> bd_less env bd_zero quantity \<or> bd_less env remaining quantity \<or> bd_less env (remaining_notional env h) notional
         \<or> final_fill \<noteq> bd_eq env quantity remaining
      then Inl (RiskError ''RISK_FILL_CONSERVATION_OR_TERMINAL'')
      else let h1 = h\<lparr>ho_sent := True, ho_consumed_quantity := bd_add env (ho_consumed_quantity h) quantity,
                     ho_consumed_notional := bd_add env (ho_consumed_notional h) notional\<rparr>
           in Inr (if final_fill
                   then h1\<lparr>ho_released_notional := remaining_notional env h1, ho_state := str_lit ''CONSUMED'', ho_terminal := Some (str_lit ''FILLED'')\<rparr>
                   else h1))"

definition hold_terminal :: "ledger_env \<Rightarrow> hold \<Rightarrow> rstr \<Rightarrow> risk_error + hold" where
  "hold_terminal env h outcome =
     (if outcome \<notin> {str_lit ''CANCELLED'', str_lit ''REJECTED'', str_lit ''FAILED'', str_lit ''EXPIRED'', str_lit ''NOT_SENT''}
      then Inl (RiskError ''RISK_TERMINAL_OUTCOME_INVALID'')
      else if outcome = str_lit ''NOT_SENT'' \<and> ho_sent h then Inl (RiskError ''RISK_SENT_NOT_ABSENCE'')
      else let h1 = h\<lparr>ho_released_quantity := remaining_quantity env h\<rparr> in
           Inr (h1\<lparr>ho_released_notional := remaining_notional env h1, ho_state := str_lit ''RELEASED'', ho_terminal := Some outcome\<rparr>))"

definition hold_change :: "ledger_env \<Rightarrow> nat \<Rightarrow> rstr \<Rightarrow> (rstr \<times> json) list \<Rightarrow> hold \<Rightarrow> risk_error + hold" where
  "hold_change env precision op r h =
     (if op = str_lit ''STAGE'' then rbind (risk_text (jfield r ''stage'')) (hold_stage h)
      else if op = str_lit ''FILL''
      then rbind (risk_dec env (jfield r ''quantity'') 18) (\<lambda>quantity.
           rbind (risk_dec env (jfield r ''notional'') precision) (\<lambda>notional.
           rbind (risk_boolean (jfield r ''final_fill'')) (\<lambda>final_fill. hold_fill env h quantity notional final_fill)))
      else if op = str_lit ''TERMINAL'' then rbind (risk_text (jfield r ''outcome'')) (hold_terminal env h)
      else Inl (RiskError ''RISK_OPERATION_UNKNOWN''))"

definition risk_transition :: "ledger_env \<Rightarrow> risk_manager \<Rightarrow> rstr \<Rightarrow> rstr \<Rightarrow> json \<Rightarrow> nat \<Rightarrow> risk_error + risk_manager \<times> bool" where
  "risk_transition env m cluster op v n =
     rbind (transition_fields op) (\<lambda>names.
     rbind (risk_row v names) (\<lambda>r.
     rbind (risk_id (jfield r ''order'')) (\<lambda>order.
     rbind (ok_or (map_of (rm_reservations m) order) (RiskError ''RISK_RESERVATION_MISSING'')) (\<lambda>h.
     if ho_cluster h \<noteq> cluster then Inl (RiskError ''RISK_HOLD_OWNER_CONFLICT'')
     else let signature = risk_hash env (jobject [(''cluster'', JString cluster), (''op'', JString op), (''payload'', v)]) in
     rbind (transition_aliases env op r order) (\<lambda>aliases.
     let existing = filter (bt_contains (rm_aliases m)) aliases in
     if existing \<noteq> []
     then if length existing = length aliases \<and> list_all (\<lambda>k. map_of (rm_aliases m) k = Some signature) aliases then Inr (m, True)
          else Inl (RiskError ''RISK_FACT_ID_CONFLICT'')
     else if \<not> is_active_hold h then Inl (RiskError ''RISK_HOLD_TERMINAL'')
     else rbind (hold_change env (rm_precision m) op r h) (\<lambda>h1.
     let m1 = m\<lparr>rm_reservations := bt_insert order h1 (rm_reservations m),
               rm_watermark := (if op = str_lit ''STAGE'' then rm_watermark m else n),
               rm_aliases := fold (\<lambda>k. bt_insert k signature) aliases (rm_aliases m)\<rparr>
     in rbind (advance_epoch m1) (\<lambda>m2. Inr (m2, False))))))))"

definition risk_kill :: "ledger_env \<Rightarrow> risk_manager \<Rightarrow> rstr \<Rightarrow> json \<Rightarrow> risk_error + risk_manager" where
  "risk_kill env m cluster payload =
     rbind (risk_row payload [''scope'', ''active'']) (\<lambda>p.
     rbind (risk_text (jfield p ''scope'')) (\<lambda>scope.
     if scope \<notin> {str_lit ''RUNTIME'', str_lit ''ACCOUNT'', str_lit ''CLUSTER''} then Inl (RiskError ''RISK_KILL_SCOPE'')
     else let target = (if scope = str_lit ''CLUSTER'' then risk_key env scope cluster else scope) in
     rbind (risk_boolean (jfield p ''active'')) (\<lambda>active.
     let kills = (if active then bs_insert target (rm_kills m) else bs_remove target (rm_kills m)); m1 = m\<lparr>rm_kills := kills\<rparr> in
     if active \<longleftrightarrow> target \<in> set (rm_kills m) then Inr m1 else advance_epoch m1)))"

section \<open>Commands (manager.rs)\<close>

definition change_member :: "json \<Rightarrow> string \<Rightarrow> (json \<Rightarrow> risk_error + json) \<Rightarrow> risk_error + json" where
  "change_member v k f =
     rbind (ok_or (jget v (str_lit k)) (RiskError ''RISK_FIELDS_INVALID'')) (\<lambda>x.
     rbind (f x) (\<lambda>y. Inr (jset v k y)))"

definition normalize_decimal :: "ledger_env \<Rightarrow> json \<Rightarrow> string \<Rightarrow> nat \<Rightarrow> risk_error + json" where
  "normalize_decimal env v k p =
     change_member v k (\<lambda>x. if x = JNull then Inr x else rbind (risk_dec env x p) (\<lambda>d. Inr (JString (risk_norm env d))))"

definition normalize_view :: "ledger_env \<Rightarrow> nat \<Rightarrow> string \<Rightarrow> json \<Rightarrow> risk_error + json" where
  "normalize_view env p family views =
     change_member views family (\<lambda>view.
       if view = JNull then Inr view
       else change_member view ''data'' (\<lambda>data.
         if family = ''position'' then rfold (\<lambda>f d. normalize_decimal env d f 18) [''account_available'', ''allocation_available''] data
         else normalize_decimal env data ''cash'' p))"

definition risk_normalize :: "ledger_env \<Rightarrow> risk_manager \<Rightarrow> json \<Rightarrow> risk_error + json" where
  "risk_normalize env m c =
     rbind (risk_text (jindex c ''op'')) (\<lambda>op.
     if op = str_lit ''EVALUATE''
     then change_member c ''payload'' (\<lambda>payload.
       rbind (change_member payload ''request'' (\<lambda>request.
         rfold (\<lambda>f q. normalize_decimal env q f (if f \<in> {''quantity'', ''price''} then 18 else rm_precision m))
           [''quantity'', ''price'', ''notional'', ''fee'', ''cash_requirement''] request)) (\<lambda>payload1.
       change_member payload1 ''views'' (\<lambda>views. rfold (normalize_view env (rm_precision m)) [''account'', ''ledger'', ''position''] views)))
     else if op = str_lit ''FILL''
     then change_member c ''payload'' (\<lambda>payload.
       rbind (normalize_decimal env payload ''quantity'' 18) (\<lambda>p. normalize_decimal env p ''notional'' (rm_precision m)))
     else Inr c)"

definition risk_dispatch ::
  "ledger_env \<Rightarrow> risk_manager \<Rightarrow> rstr \<Rightarrow> rstr \<Rightarrow> json \<Rightarrow> nat \<Rightarrow> risk_error + risk_manager \<times> risk_status \<times> json option" where
  "risk_dispatch env m cluster op payload n =
     (let status = (\<lambda>duplicate. if duplicate then RDuplicate else RApplied) in
      if op = str_lit ''EVALUATE'' then rbind (risk_evaluate env m cluster payload n) (\<lambda>(m1, d, duplicate). Inr (m1, status duplicate, Some d))
      else if op = str_lit ''RESERVE'' then rbind (risk_reserve env m cluster payload) (\<lambda>(m1, duplicate). Inr (m1, status duplicate, None))
      else if op \<in> {str_lit ''STAGE'', str_lit ''FILL'', str_lit ''TERMINAL''}
      then rbind (risk_transition env m cluster op payload n) (\<lambda>(m1, duplicate). Inr (m1, status duplicate, None))
      else if op = str_lit ''KILL'' then rbind (risk_kill env m cluster payload) (\<lambda>m1. Inr (m1, RApplied, None))
      else Inl (RiskError ''RISK_OPERATION_UNKNOWN''))"

definition risk_increases :: "ledger_env \<Rightarrow> risk_manager \<Rightarrow> rstr \<Rightarrow> rstr \<Rightarrow> json \<Rightarrow> risk_error + bool" where
  "risk_increases env m cluster op payload =
     (if op = str_lit ''EVALUATE'' then Inr (jindex (jindex payload ''request'') ''effect'' = JString (str_lit ''OPEN''))
      else if op = str_lit ''RESERVE''
      then rbind (risk_text (jindex payload ''request_id'')) (\<lambda>request.
           Inr (case map_of (rm_request_inputs m) (risk_key env cluster request) of
                  Some v \<Rightarrow> jindex (jindex v ''request'') ''effect'' = JString (str_lit ''OPEN'') | None \<Rightarrow> False))
      else Inr False)"

definition risk_checkpoint_record :: "ledger_env \<Rightarrow> risk_manager \<Rightarrow> json" where
  "risk_checkpoint_record env m = jobject [(''schema_version'', jint 1), (''config'', rm_config m), (''journal'', JArray (rm_journal m)),
     (''state'', risk_state env m)]"

definition risk_checkpoint :: "ledger_env \<Rightarrow> risk_manager \<Rightarrow> nat list \<times> rstr" where
  "risk_checkpoint env m = (let bytes = json_bytes (le_pf env) (risk_checkpoint_record env m) in (bytes, risk_digest env bytes))"

definition risk_capacity :: "ledger_env \<Rightarrow> risk_manager \<Rightarrow> risk_error + unit" where
  "risk_capacity env m =
     (let limits = jindex (rm_config m) ''admission_limits''; full = Inl (RiskError ''RISK_CAPACITY_NEW_RISK_BLOCKED'') in
      rbind (risk_uint (jindex limits ''commands'')) (\<lambda>commands.
      if length (rm_journal m) > commands then full
      else rbind (risk_uint (jindex limits ''journal_bytes'')) (\<lambda>journal_bytes.
      if length (json_bytes (le_pf env) (JArray (rm_journal m))) > journal_bytes then full
      else rbind (risk_uint (jindex limits ''checkpoint_bytes'')) (\<lambda>checkpoint_bytes.
      if length (fst (risk_checkpoint env m)) > checkpoint_bytes then full
      else rbind (risk_uint (jindex limits ''reservations'')) (\<lambda>reservations.
      if length (rm_reservations m) > reservations then full else Inr ())))))"

definition risk_command_fields :: "string list" where
  "risk_command_fields = risk_context @ [''cluster'', ''command_id'', ''causal'', ''time'', ''runtime_sequence'', ''op'', ''payload'']"

definition risk_record :: "risk_manager \<Rightarrow> json \<Rightarrow> rstr \<Rightarrow> rstr \<Rightarrow> json option \<Rightarrow> nat \<Rightarrow> int \<Rightarrow> risk_manager" where
  "risk_record m command receipt fingerprint decision n t =
     m\<lparr>rm_sequence := n, rm_now := Some t, rm_receipts := bt_insert receipt (fingerprint, decision) (rm_receipts m),
       rm_journal := rm_journal m @ [command]\<rparr>"

definition risk_apply :: "ledger_env \<Rightarrow> risk_manager \<Rightarrow> json \<Rightarrow> risk_error + risk_manager \<times> risk_outcome" where
  "risk_apply env m input =
     (if length (json_bytes (le_pf env) input) > 65536 then Inl (RiskError ''RISK_COMMAND_BOUND'')
      else rbind (risk_normalize env m input) (\<lambda>command.
      rbind (risk_row command risk_command_fields) (\<lambda>r.
      if list_ex (\<lambda>f. jfield r f \<noteq> jindex (rm_config m) f) risk_context then Inl (RiskError ''RISK_COMMAND_CONTEXT'')
      else rbind (risk_id (jfield r ''cluster'')) (\<lambda>cluster.
      if \<not> bt_contains (rm_profiles m) cluster then Inl (RiskError ''RISK_CLUSTER_UNKNOWN'')
      else rbind (risk_id (jfield r ''command_id'')) (\<lambda>receipt.
      rbind (risk_fp (jfield r ''causal'')) (\<lambda>_.
      rbind (risk_uint (jfield r ''runtime_sequence'')) (\<lambda>n.
      rbind (risk_time (jfield r ''time'')) (\<lambda>t.
      let fingerprint = risk_hash env command in
      case map_of (rm_receipts m) receipt of
        Some (old, d) \<Rightarrow>
          if old = fingerprint then Inr (m, \<lparr>ro_status = RDuplicate, ro_decision = d\<rparr>) else Inl (RiskError ''RISK_COMMAND_ID_CONFLICT'')
      | None \<Rightarrow>
          if n \<le> rm_sequence m \<or> (case rm_now m of Some u \<Rightarrow> t < u | None \<Rightarrow> False) then Inl (RiskError ''RISK_SEQUENCE_OR_TIME_REGRESSION'')
          else rbind (risk_text (jfield r ''op'')) (\<lambda>op.
          rbind (risk_dispatch env m cluster op (jfield r ''payload'') n) (\<lambda>(m1, status, decision).
          rbind (risk_increases env m1 cluster op (jfield r ''payload'')) (\<lambda>increases.
          let m2 = risk_record m1 command receipt fingerprint decision n t in
          rbind (if increases \<and> status \<noteq> RDuplicate then risk_capacity env m2 else Inr ()) (\<lambda>_.
          Inr (m2, \<lparr>ro_status = status, ro_decision = decision\<rparr>)))))))))))))"

section \<open>Recovery (recovery.rs)\<close>

fun risk_replay :: "ledger_env \<Rightarrow> risk_manager \<Rightarrow> json list \<Rightarrow> risk_error + risk_manager" where
  "risk_replay env m [] = Inr m"
| "risk_replay env m (c # cs) =
     rbind (risk_apply env m c) (\<lambda>(m1, _).
     if length (rm_journal m1) \<noteq> length (rm_journal m) + 1 then Inl (RiskError ''RISK_REPLAY_RECEIPT'') else risk_replay env m1 cs)"

definition risk_restore :: "ledger_env \<Rightarrow> risk_manager \<Rightarrow> nat list \<Rightarrow> rstr \<Rightarrow> risk_error + risk_manager" where
  "risk_restore env m bytes expected =
     rbind (risk_fp (JString expected)) (\<lambda>_.
     if risk_digest env bytes \<noteq> expected then Inl (RiskError ''RISK_CHECKPOINT_DIGEST'')
     else rbind (ok_or (pf_json_parse (le_pf env) bytes) RiskJson) (\<lambda>v.
     rbind (risk_row v [''config'', ''journal'', ''state'']) (\<lambda>r.
     if json_bytes (le_pf env) v \<noteq> bytes \<or> jfield r ''config'' \<noteq> rm_config m then Inl (RiskError ''RISK_CHECKPOINT_CONTEXT_OR_CANONICAL'')
     else rbind (ok_or (as_array (jfield r ''journal'')) (RiskError ''RISK_CHECKPOINT_JOURNAL'')) (\<lambda>journal.
     rbind (risk_new env (rm_config m)) (\<lambda>fresh.
     rbind (risk_replay env fresh journal) (\<lambda>candidate.
     if JArray (rm_journal candidate) \<noteq> jfield r ''journal'' \<or> risk_state env candidate \<noteq> jfield r ''state''
     then Inl (RiskError ''RISK_CHECKPOINT_STATE'') else Inr candidate))))))"

end
