(* ===== verification/Risk_Steps.thy ===== *)
theory Risk_Steps
  imports Risk_Manager
begin

text \<open>
  What the commands of the risk manager do to its state, as one relation: a request is
  evaluated, a hold is created on a current acceptance, a hold moves, or a kill switch changes.
  Everything that changes the holds or the kill switches advances the admission epoch.
\<close>

lemma risk_row_object: "risk_row v names = Inr r \<Longrightarrow> v = JObject r"
  by (cases v) (auto simp: risk_row_def as_object_def result_simps)

lemma risk_row_index: "risk_row v names = Inr r \<Longrightarrow> jindex v k = jfield r k"
  using risk_row_object [of v names r] by (simp add: jindex_def)

lemma envelope_keeps: "risk_envelope env m v family cluster i n = Inr (m', d) \<Longrightarrow> \<exists>s. m' = m\<lparr>rm_sources := s\<rparr>"
  by (auto simp: risk_envelope_def Let_def result_simps split: if_splits) (rule exI [of _ "rm_sources m"], simp)

lemma read_keeps:
  assumes "risk_read env m cluster request r views n = Inr (m', f)"
  shows "\<exists>s. m' = m\<lparr>rm_sources := s\<rparr>"
proof -
  obtain m1 m2 m3 v1 v2 v3 v4 d1 d2 d3 d4 i1 i2 i3 i4 where e: "risk_envelope env m v1 ''ACCOUNT'' cluster i1 n = Inr (m1, d1)"
      "risk_envelope env m1 v2 ''LEDGER'' cluster i2 n = Inr (m2, d2)"
      "risk_envelope env m2 v3 ''POSITION'' cluster i3 n = Inr (m3, d3)" "risk_envelope env m3 v4 ''MARKET'' cluster i4 n = Inr (m', d4)"
    using assms unfolding risk_read_def Let_def by (elim rbindE guardE) (auto elim!: rbindE)
  obtain s1 s2 s3 s4 where "m1 = m\<lparr>rm_sources := s1\<rparr>" "m2 = m1\<lparr>rm_sources := s2\<rparr>" "m3 = m2\<lparr>rm_sources := s3\<rparr>" "m' = m3\<lparr>rm_sources := s4\<rparr>"
    using e [THEN envelope_keeps] by blast
  then show ?thesis by (intro exI [of _ s4]) simp
qed

lemma judge_same:
  assumes "rm_kills m = rm_kills m'" "rm_reservations m = rm_reservations m'"
  shows "risk_judge env m profile cluster f = risk_judge env m' profile cluster f"
  unfolding risk_judge_def rule_check_def [abs_def] rule_amount_def [abs_def] rule_holds_def system_checks_def funds_failure_def position_failure_def
    risk_killed_def assms by (rule refl)

text \<open>A request the manager admits in its present state.\<close>

definition risk_admits :: "ledger_env \<Rightarrow> risk_manager \<Rightarrow> rstr \<Rightarrow> json \<Rightarrow> bool" where
  "risk_admits env m cluster payload \<longleftrightarrow> (\<exists>p r profile f v m0 m1 n.
     risk_row payload [''request'', ''views''] = Inr p \<and> risk_row (jfield p ''request'') request_fields = Inr r
     \<and> rm_precision m0 = rm_precision m \<and> rm_watermark m0 = rm_watermark m \<and> risk_read env m0 cluster (jfield p ''request'') r (jfield p ''views'') n = Inr (m1, f)
     \<and> map_of (rm_profiles m) cluster = Some profile \<and> risk_judge env m profile cluster f = Inr v \<and> vd_outcome v = ''ACCEPT'')"

lemma admits_same:
  "rm_kills m = rm_kills m' \<Longrightarrow> rm_reservations m = rm_reservations m' \<Longrightarrow> rm_precision m = rm_precision m' \<Longrightarrow> rm_profiles m = rm_profiles m' \<Longrightarrow>
     rm_watermark m = rm_watermark m' \<Longrightarrow> risk_admits env m cluster payload = risk_admits env m' cluster payload"
  using judge_same [of m m'] unfolding risk_admits_def by simp

definition fresh_hold :: "ledger_env \<Rightarrow> risk_manager \<Rightarrow> rstr \<Rightarrow> rstr \<Rightarrow> json \<Rightarrow> hold \<Rightarrow> bool" where
  "fresh_hold env m cluster request q h \<longleftrightarrow> ho_cluster h = cluster \<and> ho_request h = request \<and> ho_increasing h = (jindex q ''effect'' = JString (str_lit ''OPEN''))
     \<and> risk_dec env (jindex q ''quantity'') 18 = Inr (ho_quantity h) \<and> risk_dec env (jindex q ''notional'') (rm_precision m) = Inr (ho_notional h)
     \<and> (if ho_increasing h then risk_dec env (jindex q ''fee'') (rm_precision m) = Inr (ho_fee h)
          \<and> risk_dec env (jindex q ''cash_requirement'') (rm_precision m) = Inr (ho_cash_requirement h)
        else ho_fee h = bd_zero \<and> ho_cash_requirement h = bd_zero)
     \<and> risk_instrument (jindex q ''instrument'') = Inr (ho_instrument h) \<and> risk_id (jindex q ''position_side'') = Inr (ho_position_side h)
     \<and> risk_id (jindex q ''position_mode'') = Inr (ho_position_mode h)
     \<and> ho_consumed_quantity h = bd_zero \<and> ho_consumed_notional h = bd_zero \<and> ho_released_quantity h = bd_zero \<and> ho_released_notional h = bd_zero
     \<and> ho_state h = str_lit ''ACTIVE'' \<and> ho_terminal h = None \<and> \<not> ho_sent h"

inductive risk_change :: "ledger_env \<Rightarrow> nat \<Rightarrow> risk_manager \<Rightarrow> risk_manager \<Rightarrow> bool" for env n where
  same: "risk_change env n m m"
| evaluated: "risk_row payload [''request'', ''views''] = Inr p \<Longrightarrow> risk_row (jfield p ''request'') request_fields = Inr r \<Longrightarrow>
    risk_read env m cluster (jfield p ''request'') r (jfield p ''views'') n = Inr (m1, f) \<Longrightarrow> map_of (rm_profiles m) cluster = Some profile \<Longrightarrow>
    risk_judge env m profile cluster f = Inr v \<Longrightarrow> k = risk_key env cluster request \<Longrightarrow> map_of (rm_request_inputs m) k = None \<Longrightarrow>
    d = decision_record env m profile cluster request payload n v \<Longrightarrow>
    m' = m\<lparr>rm_sources := s, rm_request_inputs := bt_insert k payload (rm_request_inputs m), rm_decisions := bt_insert k d (rm_decisions m),
      rm_audits := rm_audits m @ [d]\<rparr> \<Longrightarrow> risk_change env n m m'"
| reserved: "k = risk_key env cluster request \<Longrightarrow> map_of (rm_decisions m) k = Some d \<Longrightarrow> jindex d ''outcome'' = JString (str_lit ''ACCEPT'') \<Longrightarrow>
    as_u64 (jindex d ''admission_epoch'') = Some (rm_epoch m) \<Longrightarrow> map_of (rm_reservations m) order = None \<Longrightarrow>
    map_of (rm_request_inputs m) k = Some payload \<Longrightarrow> fresh_hold env m cluster request (jindex payload ''request'') h \<Longrightarrow> rm_epoch m + 1 < 2 ^ 64 \<Longrightarrow>
    m' = m\<lparr>rm_request_orders := bt_insert k order (rm_request_orders m), rm_reservations := bt_insert order h (rm_reservations m),
      rm_epoch := rm_epoch m + 1\<rparr> \<Longrightarrow> risk_change env n m m'"
| moved: "map_of (rm_reservations m) order = Some h \<Longrightarrow> is_active_hold h \<Longrightarrow> hold_change env (rm_precision m) op r h = Inr h1 \<Longrightarrow> rm_epoch m + 1 < 2 ^ 64 \<Longrightarrow>
    m' = m\<lparr>rm_reservations := bt_insert order h1 (rm_reservations m), rm_watermark := w, rm_aliases := al, rm_epoch := rm_epoch m + 1\<rparr> \<Longrightarrow>
    risk_change env n m m'"
| switched: "rm_epoch m + 1 < 2 ^ 64 \<Longrightarrow> m' = m\<lparr>rm_kills := kills, rm_epoch := rm_epoch m + 1\<rparr> \<Longrightarrow> risk_change env n m m'"

lemma decision_same: "rm_config m = rm_config m' \<Longrightarrow> rm_epoch m = rm_epoch m' \<Longrightarrow>
    decision_record env m profile cluster request payload n v = decision_record env m' profile cluster request payload n v"
  by (simp add: decision_record_def)

lemma evaluate_change:
  assumes "risk_evaluate env m cluster payload n = Inr (m', d, dup)"
  shows "risk_change env n m m'"
proof -
  obtain p r request where h: "risk_row payload [''request'', ''views''] = Inr p" "risk_row (jfield p ''request'') request_fields = Inr r"
    and rest: "(case map_of (rm_request_inputs m) (risk_key env cluster request) of
       Some old \<Rightarrow> if old \<noteq> payload then Inl (RiskError ''RISK_REQUEST_ID_CONFLICT'')
         else rbind (ok_or (map_of (rm_decisions m) (risk_key env cluster request)) RiskPanic) (\<lambda>d. Inr (m, d, True))
     | None \<Rightarrow>
         rbind (risk_read env m cluster (jfield p ''request'') r (jfield p ''views'') n) (\<lambda>(m1, f).
         rbind (ok_or (map_of (rm_profiles m) cluster) RiskPanic) (\<lambda>profile.
         rbind (risk_judge env m1 profile cluster f) (\<lambda>v.
         let d = decision_record env m1 profile cluster request payload n v in
         Inr (m1\<lparr>rm_request_inputs := bt_insert (risk_key env cluster request) payload (rm_request_inputs m1),
             rm_decisions := bt_insert (risk_key env cluster request) d (rm_decisions m1), rm_audits := rm_audits m1 @ [d]\<rparr>, d, False))))) = Inr (m', d, dup)"
    using assms unfolding risk_evaluate_def Let_def by (elim rbindE)
  show ?thesis
  proof (cases "map_of (rm_request_inputs m) (risk_key env cluster request)")
    case None
    then obtain m1 f profile v where r: "risk_read env m cluster (jfield p ''request'') r (jfield p ''views'') n = Inr (m1, f)"
        "map_of (rm_profiles m) cluster = Some profile" "risk_judge env m1 profile cluster f = Inr v"
      and m': "m' = m1\<lparr>rm_request_inputs := bt_insert (risk_key env cluster request) payload (rm_request_inputs m1),
             rm_decisions := bt_insert (risk_key env cluster request) (decision_record env m1 profile cluster request payload n v) (rm_decisions m1),
             rm_audits := rm_audits m1 @ [decision_record env m1 profile cluster request payload n v]\<rparr>"
      using rest by (auto simp: Let_def ok_or_eq elim!: rbindE)
    obtain s where s: "m1 = m\<lparr>rm_sources := s\<rparr>" using read_keeps [OF r(1)] by blast
    have j: "risk_judge env m profile cluster f = Inr v" using r(3) judge_same [of m1 m] by (simp add: s)
    have d: "decision_record env m1 = decision_record env m" by (intro ext decision_same) (simp_all add: s)
    show ?thesis
      by (rule risk_change.evaluated [OF h r(1,2) j refl None refl, where s = s]) (simp add: m' d, simp add: s)
  next
    case (Some old)
    then have "m' = m" using rest by (auto simp: result_simps split: if_splits)
    then show ?thesis by (simp add: risk_change.same)
  qed
qed

lemma new_hold_change:
  assumes "risk_new_hold env m cluster request order = Inr m'"
  shows "risk_change env n m m'"
proof -
  define k where "k = risk_key env cluster request"
  obtain d stale payload quantity notional fee cash i side ps pm h where
    d: "ok_or (map_of (rm_decisions m) k) (RiskError ''RISK_ACCEPTANCE_REQUIRED'') = Inr d"
      "(if jindex d ''outcome'' \<noteq> JString (str_lit ''ACCEPT'') then Inr True
        else rbind (risk_uint (jindex d ''admission_epoch'')) (\<lambda>e. Inr (e \<noteq> rm_epoch m))) = Inr stale" "\<not> stale"
    and o: "\<not> bt_contains (rm_reservations m) order" "ok_or (map_of (rm_request_inputs m) k) RiskPanic = Inr payload"
    and q: "risk_dec env (jindex (jindex payload ''request'') ''quantity'') 18 = Inr quantity"
      "risk_dec env (jindex (jindex payload ''request'') ''notional'') (rm_precision m) = Inr notional"
      "(if jindex (jindex payload ''request'') ''effect'' = JString (str_lit ''OPEN'')
        then risk_dec env (jindex (jindex payload ''request'') ''fee'') (rm_precision m) else Inr bd_zero) = Inr fee"
      "(if jindex (jindex payload ''request'') ''effect'' = JString (str_lit ''OPEN'')
        then risk_dec env (jindex (jindex payload ''request'') ''cash_requirement'') (rm_precision m) else Inr bd_zero) = Inr cash"
      "risk_instrument (jindex (jindex payload ''request'') ''instrument'') = Inr i" "risk_id (jindex (jindex payload ''request'') ''side'') = Inr side"
      "risk_id (jindex (jindex payload ''request'') ''position_side'') = Inr ps" "risk_id (jindex (jindex payload ''request'') ''position_mode'') = Inr pm"
    and m': "advance_epoch (m\<lparr>rm_request_orders := bt_insert k order (rm_request_orders m), rm_reservations := bt_insert order h (rm_reservations m)\<rparr>) = Inr m'"
    and h: "h = \<lparr>ho_cluster = cluster, ho_request = request, ho_instrument = i, ho_side = side, ho_position_side = ps,
          ho_position_mode = pm, ho_increasing = (jindex (jindex payload ''request'') ''effect'' = JString (str_lit ''OPEN'')), ho_quantity = quantity,
          ho_notional = notional, ho_fee = fee, ho_cash_requirement = cash, ho_consumed_quantity = bd_zero, ho_consumed_notional = bd_zero,
          ho_released_quantity = bd_zero, ho_released_notional = bd_zero, ho_state = str_lit ''ACTIVE'', ho_sent = False, ho_unknown = False,
          ho_acknowledged = False, ho_cancel_pending = False, ho_terminal = None\<rparr>"
    using assms unfolding risk_new_hold_def Let_def k_def [symmetric] by (elim rbindE guardE) (rule that, assumption+, rule refl)
  have d': "map_of (rm_decisions m) k = Some d" "jindex d ''outcome'' = JString (str_lit ''ACCEPT'')" "as_u64 (jindex d ''admission_epoch'') = Some (rm_epoch m)"
    "map_of (rm_reservations m) order = None" "map_of (rm_request_inputs m) k = Some payload"
    using d o by (auto simp: ok_or_eq risk_uint_def bt_contains_def split: if_splits elim!: rbindE)
  show ?thesis
  proof (rule risk_change.reserved [OF k_def d'])
    show "fresh_hold env m cluster request (jindex payload ''request'') h" using q by (auto simp: h fresh_hold_def)
  qed (use m' in \<open>auto simp: advance_epoch_def split: if_splits\<close>)
qed

lemma reserve_change:
  assumes "risk_reserve env m cluster v = Inr (m', dup)"
  shows "risk_change env n m m'"
proof -
  have "m' = m \<or> (\<exists>request order. risk_new_hold env m cluster request order = Inr m')"
    using assms unfolding risk_reserve_def Let_def by (elim rbindE) (auto split: option.splits if_splits elim!: rbindE)
  then show ?thesis using new_hold_change risk_change.same by blast
qed

lemma transition_change:
  assumes "risk_transition env m cluster op v n = Inr (m', dup)"
  shows "risk_change env n m m'"
proof -
  define w where "w = (if op = str_lit ''STAGE'' then rm_watermark m else n)"
  obtain r order h aliases signature where h: "ok_or (map_of (rm_reservations m) order) (RiskError ''RISK_RESERVATION_MISSING'') = Inr h"
    and rest: "(if filter (bt_contains (rm_aliases m)) aliases \<noteq> []
     then if length (filter (bt_contains (rm_aliases m)) aliases) = length aliases \<and> list_all (\<lambda>k. map_of (rm_aliases m) k = Some signature) aliases then Inr (m, True)
          else Inl (RiskError ''RISK_FACT_ID_CONFLICT'')
     else if \<not> is_active_hold h then Inl (RiskError ''RISK_HOLD_TERMINAL'')
     else rbind (hold_change env (rm_precision m) op r h) (\<lambda>h1.
     rbind (advance_epoch (m\<lparr>rm_reservations := bt_insert order h1 (rm_reservations m), rm_watermark := w,
               rm_aliases := fold (\<lambda>k. bt_insert k signature) aliases (rm_aliases m)\<rparr>)) (\<lambda>m2. Inr (m2, False)))) = Inr (m', dup)"
    using assms unfolding risk_transition_def Let_def w_def [symmetric] by (elim rbindE guardE) (rule that)
  show ?thesis
  proof (cases "filter (bt_contains (rm_aliases m)) aliases = []")
    case True
    then obtain h1 where a: "is_active_hold h" "hold_change env (rm_precision m) op r h = Inr h1"
      and e: "advance_epoch (m\<lparr>rm_reservations := bt_insert order h1 (rm_reservations m), rm_watermark := w,
               rm_aliases := fold (\<lambda>k. bt_insert k signature) aliases (rm_aliases m)\<rparr>) = Inr m'"
      using rest by (auto split: if_splits elim!: rbindE)
    have "map_of (rm_reservations m) order = Some h" using h by (simp add: ok_or_eq)
    then show ?thesis
      by (rule risk_change.moved [OF _ a]) (use e in \<open>auto simp: advance_epoch_def split: if_splits\<close>)
  next
    case False
    then have "m' = m" using rest by (auto split: if_splits)
    then show ?thesis by (simp add: risk_change.same)
  qed
qed

lemma kill_change:
  assumes "risk_kill env m cluster payload = Inr m'"
  shows "risk_change env n m m'"
proof -
  obtain kills target active where k: "kills = (if active then bs_insert target (rm_kills m) else bs_remove target (rm_kills m))"
    and r: "(if active \<longleftrightarrow> target \<in> set (rm_kills m) then Inr (m\<lparr>rm_kills := kills\<rparr>) else advance_epoch (m\<lparr>rm_kills := kills\<rparr>)) = Inr m'"
    using assms unfolding risk_kill_def Let_def by (elim rbindE guardE) (rule that [OF refl])
  show ?thesis
  proof (cases "active \<longleftrightarrow> target \<in> set (rm_kills m)")
    case True
    then have "kills = rm_kills m" by (simp add: k bs_insert_def insort_insert_triv bs_remove_def remove1_idem)
    then have "m' = m" using r True by simp
    then show ?thesis by (simp add: risk_change.same)
  next
    case False
    then show ?thesis
      using r by (intro risk_change.switched [where kills = kills]) (auto simp: advance_epoch_def split: if_splits)
  qed
qed

lemma risk_dispatch_change:
  assumes "risk_dispatch env m cluster op payload n = Inr (m', status, decision)"
  shows "risk_change env n m m'"
  using assms evaluate_change reserve_change transition_change kill_change
  unfolding risk_dispatch_def Let_def by (fastforce split: if_splits elim!: rbindE)

section \<open>The envelope of a command\<close>

text \<open>A command with its normalized form and the fields that the manager reads before it looks
  at the receipts.\<close>

definition risk_header :: "ledger_env \<Rightarrow> risk_manager \<Rightarrow> json \<Rightarrow> json \<Rightarrow> rstr \<Rightarrow> rstr \<Rightarrow> nat \<Rightarrow> int \<Rightarrow> bool" where
  "risk_header env m input command cluster receipt n t \<longleftrightarrow> length (json_bytes (le_pf env) input) \<le> 65536 \<and> risk_normalize env m input = Inr command
     \<and> (\<exists>r. risk_row command risk_command_fields = Inr r) \<and> \<not> list_ex (\<lambda>f. jindex command f \<noteq> jindex (rm_config m) f) risk_context
     \<and> risk_id (jindex command ''cluster'') = Inr cluster \<and> bt_contains (rm_profiles m) cluster \<and> risk_id (jindex command ''command_id'') = Inr receipt
     \<and> risk_fp (jindex command ''causal'') = Inr () \<and> risk_uint (jindex command ''runtime_sequence'') = Inr n \<and> risk_time (jindex command ''time'') = Inr t"

lemma risk_apply_header:
  assumes "risk_apply env m input = Inr (m', oc)"
  obtains (repeated) command cluster receipt n t d where "risk_header env m input command cluster receipt n t"
      "map_of (rm_receipts m) receipt = Some (risk_hash env command, d)" "m' = m" "oc = \<lparr>ro_status = RDuplicate, ro_decision = d\<rparr>"
  | (fresh) command cluster receipt n t m1 op status decision where "risk_header env m input command cluster receipt n t"
      "map_of (rm_receipts m) receipt = None" "risk_dispatch env m cluster op (jindex command ''payload'') n = Inr (m1, status, decision)"
      "risk_text (jindex command ''op'') = Inr op"
      "m' = risk_record m1 command receipt (risk_hash env command) decision n t" "oc = \<lparr>ro_status = status, ro_decision = decision\<rparr>"
proof -
  obtain command r cluster receipt n t where h: "length (json_bytes (le_pf env) input) \<le> 65536" "risk_normalize env m input = Inr command"
      "risk_row command risk_command_fields = Inr r" "\<not> list_ex (\<lambda>f. jfield r f \<noteq> jindex (rm_config m) f) risk_context"
      "risk_id (jfield r ''cluster'') = Inr cluster" "bt_contains (rm_profiles m) cluster" "risk_id (jfield r ''command_id'') = Inr receipt"
      "risk_fp (jfield r ''causal'') = Inr ()" "risk_uint (jfield r ''runtime_sequence'') = Inr n" "risk_time (jfield r ''time'') = Inr t"
    and rest: "(case map_of (rm_receipts m) receipt of
        Some (old, d) \<Rightarrow>
          if old = risk_hash env command then Inr (m, \<lparr>ro_status = RDuplicate, ro_decision = d\<rparr>) else Inl (RiskError ''RISK_COMMAND_ID_CONFLICT'')
      | None \<Rightarrow>
          if n \<le> rm_sequence m \<or> (case rm_now m of Some u \<Rightarrow> t < u | None \<Rightarrow> False) then Inl (RiskError ''RISK_SEQUENCE_OR_TIME_REGRESSION'')
          else rbind (risk_text (jfield r ''op'')) (\<lambda>op.
          rbind (risk_dispatch env m cluster op (jfield r ''payload'') n) (\<lambda>(m1, status, decision).
          rbind (risk_increases env m1 cluster op (jfield r ''payload'')) (\<lambda>increases.
          let m2 = risk_record m1 command receipt (risk_hash env command) decision n t in
          rbind (if increases \<and> status \<noteq> RDuplicate then risk_capacity env m2 else Inr ()) (\<lambda>_.
          Inr (m2, \<lparr>ro_status = status, ro_decision = decision\<rparr>)))))) = Inr (m', oc)"
    using assms unfolding risk_apply_def Let_def by (elim rbindE guardE) (simp add: not_less)
  have header: "risk_header env m input command cluster receipt n t"
    using h by (auto simp: risk_header_def risk_row_index [OF h(3)])
  show thesis
  proof (cases "map_of (rm_receipts m) receipt")
    case None
    obtain op m1 status decision where d: "risk_text (jfield r ''op'') = Inr op" "risk_dispatch env m cluster op (jfield r ''payload'') n = Inr (m1, status, decision)"
      and m': "m' = risk_record m1 command receipt (risk_hash env command) decision n t" "oc = \<lparr>ro_status = status, ro_decision = decision\<rparr>"
      using rest unfolding None option.case Let_def by (elim rbindE guardE) (auto elim!: rbindE)
    show thesis by (rule fresh [OF header None _ _ m']) (use d in \<open>simp_all add: risk_row_index [OF h(3)]\<close>)
  next
    case (Some a)
    obtain old d where a: "a = (old, d)" by (cases a)
    then have "old = risk_hash env command" "m' = m" "oc = \<lparr>ro_status = RDuplicate, ro_decision = d\<rparr>"
      using rest Some by (auto split: if_splits)
    then show thesis using repeated [OF header] Some a by blast
  qed
qed

definition risk_command :: "ledger_env \<Rightarrow> risk_manager \<Rightarrow> risk_manager \<Rightarrow> bool" where
  "risk_command env m m' \<longleftrightarrow> (\<exists>v oc. risk_apply env m v = Inr (m', oc))"

lemma risk_apply_change:
  assumes "risk_apply env m v = Inr (m', oc)"
  obtains (same) "m' = m" | (changed) m1 command receipt g decision n t where "risk_change env n m m1" "m' = risk_record m1 command receipt g decision n t"
  using assms by (cases rule: risk_apply_header) (auto dest: risk_dispatch_change)

end
