(* ===== verification/Risk_Invariant.thy ===== *)
theory Risk_Invariant
  imports Risk_Steps
begin

text \<open>
  The invariant of the risk manager. Every hold accounts for its quantity and notional, and an
  acceptance of the current epoch was given for exactly the holds and kill switches the manager
  has, so a hold is only created where it still fits.
\<close>

section \<open>Holds\<close>

definition hold_ok :: "hold \<Rightarrow> bool" where
  "hold_ok h \<longleftrightarrow> 0 \<le> bd_value (ho_consumed_quantity h) \<and> 0 \<le> bd_value (ho_consumed_notional h)
     \<and> 0 \<le> bd_value (ho_released_quantity h) \<and> 0 \<le> bd_value (ho_released_notional h)
     \<and> 0 \<le> bd_value (ho_fee h) \<and> 0 \<le> bd_value (ho_cash_requirement h)
     \<and> (if is_active_hold h
        then bd_value (ho_released_quantity h) = 0 \<and> bd_value (ho_released_notional h) = 0 \<and> ho_terminal h = None
          \<and> bd_value (ho_consumed_quantity h) < bd_value (ho_quantity h) \<and> bd_value (ho_consumed_notional h) \<le> bd_value (ho_notional h)
        else bd_value (ho_consumed_quantity h) + bd_value (ho_released_quantity h) = bd_value (ho_quantity h)
          \<and> bd_value (ho_consumed_notional h) + bd_value (ho_released_notional h) = bd_value (ho_notional h)
          \<and> ho_state h \<in> {str_lit ''CONSUMED'', str_lit ''RELEASED''} \<and> ho_terminal h \<noteq> None)"

context ledger
begin

lemma remaining_value [value_simps]:
  "bd_value (remaining_quantity env h) = bd_value (ho_quantity h) - bd_value (ho_consumed_quantity h) - bd_value (ho_released_quantity h)"
  "bd_value (remaining_notional env h) = bd_value (ho_notional h) - bd_value (ho_consumed_notional h) - bd_value (ho_released_notional h)"
  "bd_value (hold_cash env h) = (if ho_increasing h \<and> is_active_hold h then bd_value (ho_cash_requirement h) + bd_value (ho_fee h) else 0)"
  by (simp_all add: remaining_quantity_def remaining_notional_def hold_cash_def is_active_hold_def arith_value)

lemma risk_dec_nonneg: "risk_dec env v p = Inr d \<Longrightarrow> 0 \<le> bd_value d"
  by (auto simp: risk_dec_def Let_def result_simps value_simps)

lemma stage_ok: "hold_stage h stage = Inr h1 \<Longrightarrow> hold_ok h \<Longrightarrow> hold_ok h1"
  by (auto simp: hold_stage_def hold_ok_def is_active_hold_def split: if_splits)

lemma fill_ok:
  assumes "hold_fill env h q n final_fill = Inr h1" "hold_ok h" "is_active_hold h" "0 \<le> bd_value n"
  shows "hold_ok h1"
  using assms by (auto simp: hold_fill_def Let_def hold_ok_def is_active_hold_def value_simps split: if_splits)

lemma terminal_ok: "hold_terminal env h outcome = Inr h1 \<Longrightarrow> hold_ok h \<Longrightarrow> is_active_hold h \<Longrightarrow> hold_ok h1"
  by (auto simp: hold_terminal_def Let_def hold_ok_def is_active_hold_def value_simps split: if_splits)

lemma hold_change_ok:
  assumes "hold_change env p op r h = Inr h1" "hold_ok h" "is_active_hold h"
  shows "hold_ok h1"
  using assms stage_ok fill_ok terminal_ok risk_dec_nonneg
  unfolding hold_change_def by (auto split: if_splits elim!: rbindE)

end

section \<open>What an acceptance shows\<close>

lemma run_checks_accept:
  "vd_outcome (run_checks cs v) = ''ACCEPT'' \<Longrightarrow> \<forall>c \<in> set cs. \<forall>r. ch_failure c \<noteq> Some (''ACCEPT'', r) \<Longrightarrow>
     \<forall>c \<in> set cs. ch_failure c = None \<or> ch_observing c"
proof (induction cs v rule: run_checks.induct)
  case (2 c cs v)
  then show ?case by (auto simp: Let_def split: option.splits prod.splits if_splits)
qed simp

lemma collect_member: "collect f xs = Inr ys \<Longrightarrow> x \<in> set xs \<Longrightarrow> \<exists>y \<in> set ys. f x = Inr y"
  by (induction xs arbitrary: ys) (auto simp: rbind_eq_Inr)

lemma collect_source: "collect f xs = Inr ys \<Longrightarrow> y \<in> set ys \<Longrightarrow> \<exists>x \<in> set xs. f x = Inr y"
  by (induction xs arbitrary: ys) (auto simp: rbind_eq_Inr)

lemma failure_outcomes:
  "fails_when b ''REJECT'' code \<noteq> Some (''ACCEPT'', r)" "fails_when b ''ERROR'' code \<noteq> Some (''ACCEPT'', r)"
  "funds_failure env m cluster f \<noteq> Some (''ACCEPT'', r)" "position_failure env m cluster f \<noteq> Some (''ACCEPT'', r)"
  by (simp_all add: fails_when_def funds_failure_def position_failure_def Let_def split: option.splits prod.splits)

lemma judge_accepts:
  assumes "risk_judge env m profile cluster f = Inr v" "vd_outcome v = ''ACCEPT''" "\<forall>r. rf_market f \<noteq> Some (''ACCEPT'', r)"
  shows "c \<in> set (system_checks env m profile cluster f) \<Longrightarrow> ch_failure c = None"
    and "rule \<in> set (rp_rules profile) \<Longrightarrow> \<not> ru_observing rule \<Longrightarrow> rf_increasing f \<Longrightarrow>
      \<exists>amount. rule_amount env m cluster f rule = Inr amount \<and> \<not> bd_less env (ru_limit rule) amount"
proof -
  obtain rules where rules: "collect (rule_check env m cluster f) (rp_rules profile) = Inr rules"
    and v: "v = run_checks (sort_key check_rank (system_checks env m profile cluster f @ rules)) verdict_start"
    using assms(1) by (auto simp: risk_judge_def elim!: rbindE)
  have "\<forall>r. ch_failure c \<noteq> Some (''ACCEPT'', r)" if "c \<in> set (system_checks env m profile cluster f)" for c
    using that assms(3) failure_outcomes unfolding system_checks_def Let_def by auto
  moreover have "\<forall>r. ch_failure c \<noteq> Some (''ACCEPT'', r)" if "c \<in> set rules" for c
    using collect_source [OF rules that] by (auto simp: rule_check_def elim!: rbindE split: if_splits)
  ultimately have all: "\<forall>c \<in> set (system_checks env m profile cluster f @ rules). ch_failure c = None \<or> ch_observing c"
    using run_checks_accept [of "sort_key check_rank (system_checks env m profile cluster f @ rules)" verdict_start] assms(2) v by auto
  show "ch_failure c = None" if "c \<in> set (system_checks env m profile cluster f)"
  proof -
    have "\<not> ch_observing c" using that by (auto simp: system_checks_def Let_def)
    then show ?thesis using all that by auto
  qed
  show "\<exists>amount. rule_amount env m cluster f rule = Inr amount \<and> \<not> bd_less env (ru_limit rule) amount"
    if rule: "rule \<in> set (rp_rules profile)" "\<not> ru_observing rule" "rf_increasing f"
  proof -
    obtain c where c: "c \<in> set rules" "rule_check env m cluster f rule = Inr c" using collect_member [OF rules rule(1)] by blast
    then obtain amount where a: "rule_amount env m cluster f rule = Inr amount" "ch_observing c = ru_observing rule"
      "ch_failure c = (if rf_increasing f \<and> bd_less env (ru_limit rule) amount then Some (''REJECT'', ru_kind rule) else None)"
      by (auto simp: rule_check_def elim!: rbindE)
    have "ch_failure c = None" using all c(1) a(2) rule(2) by auto
    then show ?thesis using a rule(3) by (auto split: if_splits)
  qed
qed

text \<open>
  The facts an evaluation reads from its request and views. A view proves an amount only when
  it is not older than the watermark, the sequence of the last fill or end of a hold.
\<close>

definition view_proves :: "ledger_env \<Rightarrow> nat \<Rightarrow> json \<Rightarrow> string \<Rightarrow> nat \<Rightarrow> bigdec \<Rightarrow> bool" where
  "view_proves env w view name p d \<longleftrightarrow> risk_dec env (jindex (jindex view ''data'') name) p = Inr d
     \<and> (\<exists>n. as_u64 (jindex view ''as_of_sequence'') = Some n \<and> w \<le> n)"

definition facts_read :: "ledger_env \<Rightarrow> nat \<Rightarrow> nat \<Rightarrow> (rstr \<times> json) list \<Rightarrow> json \<Rightarrow> risk_facts \<Rightarrow> bool" where
  "facts_read env p w r views f \<longleftrightarrow> risk_dec env (jfield r ''quantity'') 18 = Inr (rf_quantity f)
     \<and> dec_option env (jfield r ''notional'') p = Inr (rf_notional f) \<and> dec_option env (jfield r ''fee'') p = Inr (rf_fee f)
     \<and> dec_option env (jfield r ''cash_requirement'') p = Inr (rf_cash_requirement f)
     \<and> risk_instrument (jfield r ''instrument'') = Inr (rf_instrument f) \<and> risk_text (jfield r ''position_side'') = Inr (rf_position f)
     \<and> risk_text (jfield r ''position_mode'') = Inr (rf_mode f)
     \<and> (rf_increasing f \<longrightarrow> jfield r ''effect'' = JString (str_lit ''OPEN'')) \<and> (rf_closing f \<longrightarrow> jfield r ''effect'' = JString (str_lit ''CLOSE''))
     \<and> (\<forall>c. rf_market f \<noteq> Some (''ACCEPT'', c))
     \<and> (\<forall>d. rf_account_cash f = Some d \<longrightarrow> view_proves env w (jindex views ''account'') ''cash'' p d)
     \<and> (\<forall>d. rf_ledger_cash f = Some d \<longrightarrow> view_proves env w (jindex views ''ledger'') ''cash'' p d)
     \<and> (\<forall>a b. rf_available f = Some (a, b) \<longrightarrow> view_proves env w (jindex views ''position'') ''account_available'' 18 a
          \<and> view_proves env w (jindex views ''position'') ''allocation_available'' 18 b)"

lemma risk_text_string: "risk_text v = Inr s \<Longrightarrow> v = JString s"
  by (cases v) (auto simp: risk_text_def as_str_def ok_or_eq split: if_splits)

lemma risk_id_text: "risk_id v = Inr s \<Longrightarrow> risk_text v = Inr s"
  by (auto simp: risk_id_def result_simps)

lemma envelope_data:
  assumes "risk_envelope env m v family cluster i n = Inr (m', Some d)"
  shows "d = jindex v ''data'' \<and> (\<exists>n. as_u64 (jindex v ''as_of_sequence'') = Some n \<and> rm_watermark m \<le> n)"
  using assms by (auto simp: risk_envelope_def Let_def risk_row_index risk_uint_def ok_or_eq split: if_splits elim!: rbindE)

lemma cash_of_reads: "cash_of env p x = Inr (Some d) \<Longrightarrow> \<exists>v. x = Some v \<and> risk_dec env (jindex v ''cash'') p = Inr d"
  by (auto simp: cash_of_def risk_row_index split: if_splits option.splits elim!: rbindE)

lemma available_reads: "available_of env position mode x = Inr (Some (a, b)) \<Longrightarrow>
    \<exists>v. x = Some v \<and> risk_dec env (jindex v ''account_available'') 18 = Inr a \<and> risk_dec env (jindex v ''allocation_available'') 18 = Inr b"
  by (auto simp: available_of_def risk_row_index split: if_splits option.splits elim!: rbindE)

lemma market_reads: "market_failure env request x = Inr f \<Longrightarrow> f \<noteq> Some (''ACCEPT'', c)"
  by (auto simp: market_failure_def split: if_splits option.splits elim!: rbindE)

lemma rbind_pairE: "rbind x (\<lambda>(a, b). f a b) = Inr y \<Longrightarrow> (\<And>a b. x = Inr (a, b) \<Longrightarrow> f a b = Inr y \<Longrightarrow> P) \<Longrightarrow> P"
  by (cases x) auto

lemma read_facts:
  assumes "risk_read env m cluster request r views n = Inr (m', f)"
  shows "facts_read env (rm_precision m) (rm_watermark m) r views f"
proof -
  obtain i side position mode quantity effect v m1 account m2 ledger m3 position_view m4 market order_type price notional fee cash verdict ac lc available where
    v: "risk_row views [''account'', ''ledger'', ''position'', ''market''] = Inr v"
    and e: "risk_envelope env m (jfield v ''account'') ''ACCOUNT'' cluster i n = Inr (m1, account)"
      "risk_envelope env m1 (jfield v ''ledger'') ''LEDGER'' cluster i n = Inr (m2, ledger)"
      "risk_envelope env m2 (jfield v ''position'') ''POSITION'' cluster i n = Inr (m3, position_view)"
    and r: "risk_dec env (jfield r ''quantity'') 18 = Inr quantity" "risk_instrument (jfield r ''instrument'') = Inr i"
      "risk_text (jfield r ''position_side'') = Inr position" "risk_text (jfield r ''position_mode'') = Inr mode"
      "dec_option env (jfield r ''notional'') (rm_precision m) = Inr notional" "dec_option env (jfield r ''fee'') (rm_precision m) = Inr fee"
      "dec_option env (jfield r ''cash_requirement'') (rm_precision m) = Inr cash" "risk_text (jfield r ''effect'') = Inr effect"
    and w: "market_failure env request market = Inr verdict" "cash_of env (rm_precision m) account = Inr ac"
      "cash_of env (rm_precision m) ledger = Inr lc" "available_of env position mode position_view = Inr available"
    and f: "(Inr (m4, \<lparr>rf_instrument = i, rf_position = position, rf_mode = mode, rf_quantity = quantity,
       rf_increasing = (effect = str_lit ''OPEN'' \<and> (side = str_lit ''BUY'' \<and> position = str_lit ''LONG'' \<or> side \<noteq> str_lit ''BUY'' \<and> position \<noteq> str_lit ''LONG'')),
       rf_closing = (effect = str_lit ''CLOSE'' \<and> (side \<noteq> str_lit ''BUY'' \<and> position = str_lit ''LONG'' \<or> side = str_lit ''BUY'' \<and> position \<noteq> str_lit ''LONG'')),
       rf_order_type = order_type, rf_price = price, rf_notional = notional, rf_fee = fee, rf_cash_requirement = cash,
       rf_market = verdict, rf_account_cash = ac, rf_ledger_cash = lc, rf_available = available\<rparr>) :: risk_error + risk_manager \<times> risk_facts) = Inr (m', f)"
    using assms unfolding risk_read_def Let_def by (elim rbind_pairE rbindE guardE) (rule that)
  have ix: "jindex views k = jfield v k" for k by (rule risk_row_index [OF v])
  have mark: "rm_watermark m1 = rm_watermark m" "rm_watermark m2 = rm_watermark m" using envelope_keeps [OF e(1)] envelope_keeps [OF e(2)] by auto
  have "view_proves env (rm_watermark m) (jindex views ''account'') ''cash'' (rm_precision m) d" if "rf_account_cash f = Some d" for d
    using cash_of_reads [of env "rm_precision m" account d] w(2) e(1) that f envelope_data by (auto simp: ix view_proves_def)
  moreover have "view_proves env (rm_watermark m) (jindex views ''ledger'') ''cash'' (rm_precision m) d" if "rf_ledger_cash f = Some d" for d
    using cash_of_reads [of env "rm_precision m" ledger d] w(3) e(2) that f envelope_data [of env m1] by (auto simp: ix view_proves_def mark)
  moreover have "view_proves env (rm_watermark m) (jindex views ''position'') ''account_available'' 18 a
      \<and> view_proves env (rm_watermark m) (jindex views ''position'') ''allocation_available'' 18 b" if "rf_available f = Some (a, b)" for a b
    using available_reads [of env position mode position_view a b] w(4) e(3) that f envelope_data [of env m2] by (auto simp: ix view_proves_def mark)
  moreover have "rf_quantity f = quantity" "rf_notional f = notional" "rf_fee f = fee" "rf_cash_requirement f = cash" "rf_instrument f = i"
      "rf_position f = position" "rf_mode f = mode" "rf_market f = verdict" "rf_increasing f \<Longrightarrow> effect = str_lit ''OPEN''" "rf_closing f \<Longrightarrow> effect = str_lit ''CLOSE''"
    using f by auto
  ultimately show ?thesis
    using r market_reads [OF w(1)] risk_text_string [OF r(8)] unfolding facts_read_def by simp
qed

section \<open>Sums over holds\<close>

definition held :: "(hold \<Rightarrow> bool) \<Rightarrow> (hold \<Rightarrow> bigdec) \<Rightarrow> risk_manager \<Rightarrow> rat" where
  "held P g m = bt_sum (\<lambda>_ h. if P h then bd_value (g h) else 0) (rm_reservations m)"

lemma held_insert:
  assumes "bt_ok (rm_reservations m)" "map_of (rm_reservations m) order = None" "rm_reservations m' = bt_insert order h (rm_reservations m)"
  shows "held P g m' = held P g m + (if P h then bd_value (g h) else 0)"
  using bt_sum_insert [OF assms(1), of "\<lambda>_ h. if P h then bd_value (g h) else 0" order h] assms(2,3) by (simp add: held_def)

lemma filter_values_insert:
  assumes "bt_ok m" "map_of m k = None"
  shows "length (filter P (bt_values (bt_insert k v m))) = length (filter P (bt_values m)) + (if P v then 1 else 0)"
  using assms
proof (induction m)
  case (Cons p m)
  have "k \<noteq> fst p" "map_of m k = None" "bt_ok m" using Cons.prems by (auto simp: bt_ok_def split: if_splits)
  then show ?case using Cons.IH by (auto simp: bt_values_def)
qed (simp add: bt_values_def)

context ledger
begin

lemma bd_sum_held: "bd_value (bd_sum env g (filter P (bt_values (rm_reservations m)))) = held P g m"
proof -
  have "sum_list (map (\<lambda>h. bd_value (g h)) (filter P (bt_values xs))) = bt_sum (\<lambda>_ h. if P h then bd_value (g h) else 0) xs" for xs :: "(rstr, hold) btree"
    by (induction xs) (auto simp: bt_sum_def bt_values_def)
  then show ?thesis using fold_sum [of g bd_zero] by (simp add: bd_sum_def held_def)
qed

lemma bd_sum_all: "bd_value (bd_sum env g (bt_values (rm_reservations m))) = held (\<lambda>_. True) g m"
  using bd_sum_held [of g "\<lambda>_. True" m] by simp

end

section \<open>What an admitted hold leaves\<close>

abbreviation proved :: "ledger_env \<Rightarrow> risk_manager \<Rightarrow> json \<Rightarrow> string \<Rightarrow> string \<Rightarrow> nat \<Rightarrow> bigdec \<Rightarrow> bool" where
  "proved env m payload family \<equiv> view_proves env (rm_watermark m) (jindex (jindex payload ''views'') family)"

definition rule_covers :: "rstr \<Rightarrow> rstr \<Rightarrow> risk_rule \<Rightarrow> hold \<Rightarrow> bool" where
  "rule_covers cluster i rule h \<longleftrightarrow> is_active_hold h \<and> (if ru_scope rule = str_lit ''CLUSTER'' then ho_cluster h = cluster
     else if ru_scope rule = str_lit ''INSTRUMENT'' then ho_instrument h = i else True)"

definition same_close :: "hold \<Rightarrow> hold \<Rightarrow> bool" where
  "same_close h g \<longleftrightarrow> \<not> ho_increasing g \<and> is_active_hold g \<and> ho_instrument g = ho_instrument h \<and> ho_position_side g = ho_position_side h
     \<and> ho_position_mode g = ho_position_mode h"

lemma rule_holds_covers: "rule_holds m cluster f rule = filter (rule_covers cluster (rf_instrument f) rule) (bt_values (rm_reservations m))"
  by (simp add: rule_holds_def rule_covers_def [abs_def])

lemma fails_when_None: "fails_when b outcome code = None \<longleftrightarrow> \<not> b"
  by (simp add: fails_when_def)

lemma system_pass:
  assumes "\<forall>c \<in> set (system_checks env m profile cluster f). ch_failure c = None"
  shows "bd_less env bd_zero (rf_quantity f)" "rf_increasing f \<or> rf_closing f" "rf_notional f \<noteq> None"
    "rf_increasing f \<Longrightarrow> rf_fee f \<noteq> None \<and> rf_cash_requirement f \<noteq> None \<and> \<not> risk_killed env m cluster"
    "funds_failure env m cluster f = None" "position_failure env m cluster f = None"
  using assms unfolding system_checks_def Let_def by (simp_all add: fails_when_None)

lemma dec_option_Some: "dec_option env v p = Inr (Some d) \<Longrightarrow> risk_dec env v p = Inr d"
  by (auto simp: dec_option_def split: if_splits elim!: rbindE)

text \<open>An admitted request with the hold made for it: the facts of the evaluation are those of the hold.\<close>

definition hold_of_facts :: "risk_facts \<Rightarrow> hold \<Rightarrow> bool" where
  "hold_of_facts f h \<longleftrightarrow> ho_quantity h = rf_quantity f \<and> rf_notional f = Some (ho_notional h) \<and> ho_instrument h = rf_instrument f
     \<and> ho_position_side h = rf_position f \<and> ho_position_mode h = rf_mode f \<and> ho_increasing h = rf_increasing f \<and> (\<not> rf_increasing f \<longrightarrow> rf_closing f)
     \<and> (rf_increasing f \<longrightarrow> rf_fee f = Some (ho_fee h) \<and> rf_cash_requirement f = Some (ho_cash_requirement h))"

lemma admitted_facts:
  assumes "risk_admits env m cluster payload" "fresh_hold env m cl request (jindex payload ''request'') h"
  obtains profile f v where "map_of (rm_profiles m) cluster = Some profile" "hold_of_facts f h"
    "\<And>c. c \<in> set (system_checks env m profile cluster f) \<Longrightarrow> ch_failure c = None"
    "\<And>rule. rule \<in> set (rp_rules profile) \<Longrightarrow> \<not> ru_observing rule \<Longrightarrow> rf_increasing f \<Longrightarrow>
      \<exists>amount. rule_amount env m cluster f rule = Inr amount \<and> \<not> bd_less env (ru_limit rule) amount"
    "\<And>d. rf_account_cash f = Some d \<Longrightarrow> proved env m payload ''account'' ''cash'' (rm_precision m) d"
    "\<And>d. rf_ledger_cash f = Some d \<Longrightarrow> proved env m payload ''ledger'' ''cash'' (rm_precision m) d"
    "\<And>a b. rf_available f = Some (a, b) \<Longrightarrow> proved env m payload ''position'' ''account_available'' 18 a
       \<and> proved env m payload ''position'' ''allocation_available'' 18 b"
proof -
  obtain p r profile f v m0 m1 n where a: "risk_row payload [''request'', ''views''] = Inr p" "risk_row (jfield p ''request'') request_fields = Inr r"
      "rm_precision m0 = rm_precision m" "rm_watermark m0 = rm_watermark m" "risk_read env m0 cluster (jfield p ''request'') r (jfield p ''views'') n = Inr (m1, f)"
      "map_of (rm_profiles m) cluster = Some profile" "risk_judge env m profile cluster f = Inr v" "vd_outcome v = ''ACCEPT''"
    using assms(1) unfolding risk_admits_def by blast
  have f: "facts_read env (rm_precision m) (rm_watermark m) r (jindex payload ''views'') f"
    using read_facts [OF a(5)] a(3,4) by (simp add: risk_row_index [OF a(1)])
  have q: "jindex (jindex payload ''request'') k = jfield r k" for k
    by (simp add: risk_row_index [OF a(1)] risk_row_index [OF a(2)])
  have "\<forall>c. rf_market f \<noteq> Some (''ACCEPT'', c)" using f by (simp add: facts_read_def)
  note j = judge_accepts [OF a(7,8) this]
  have "\<forall>c \<in> set (system_checks env m profile cluster f). ch_failure c = None" using j(1) by blast
  note pass = system_pass [OF this]
  have eff: "rf_increasing f \<longrightarrow> jfield r ''effect'' = JString (str_lit ''OPEN'')" "rf_closing f \<longrightarrow> jfield r ''effect'' = JString (str_lit ''CLOSE'')"
    using f by (simp_all add: facts_read_def)
  have inc: "ho_increasing h = rf_increasing f" using assms(2) eff pass(2) by (auto simp: fresh_hold_def q)
  have sides: "ho_position_side h = rf_position f" "ho_position_mode h = rf_mode f"
    using assms(2) f by (auto simp: fresh_hold_def facts_read_def q dest: risk_id_text)
  have eqs: "ho_quantity h = rf_quantity f" "ho_instrument h = rf_instrument f"
    using assms(2) f by (simp_all add: fresh_hold_def facts_read_def q)
  have "rf_notional f = Some (ho_notional h)"
    using assms(2) f pass(3) by (auto simp: fresh_hold_def facts_read_def q dest!: dec_option_Some)
  moreover have "rf_fee f = Some (ho_fee h) \<and> rf_cash_requirement f = Some (ho_cash_requirement h)" if "rf_increasing f"
    using assms(2) f pass(4) [OF that] that inc by (auto simp: fresh_hold_def facts_read_def q dest!: dec_option_Some)
  ultimately have "hold_of_facts f h" using sides eqs inc pass(2) by (auto simp: hold_of_facts_def)
  then show thesis using that [OF a(6) _ j] f by (auto simp: facts_read_def)
qed

context ledger
begin

lemma admitted_quantity:
  assumes "risk_admits env m cluster payload" "fresh_hold env m cl request (jindex payload ''request'') h"
  shows "0 < bd_value (ho_quantity h)"
proof -
  obtain profile f where f: "hold_of_facts f h" "\<And>c. c \<in> set (system_checks env m profile cluster f) \<Longrightarrow> ch_failure c = None"
    by (rule admitted_facts [OF assms], rule that, assumption+)
  have "bd_less env bd_zero (rf_quantity f)" using system_pass(1) f(2) by blast
  then show ?thesis using f(1) by (simp add: hold_of_facts_def order_value)
qed

text \<open>The proved cash covers the new hold beside all that is held already.\<close>

lemma admitted_cash:
  assumes "risk_admits env m cluster payload" "fresh_hold env m cluster request (jindex payload ''request'') h" "ho_increasing h"
  shows "\<not> risk_killed env m cluster \<and> (\<exists>ac lc. proved env m payload ''account'' ''cash'' (rm_precision m) ac
     \<and> proved env m payload ''ledger'' ''cash'' (rm_precision m) lc
     \<and> held (\<lambda>_. True) (hold_cash env) m + bd_value (hold_cash env h) \<le> bd_value ac
     \<and> held (\<lambda>g. ho_cluster g = cluster) (hold_cash env) m + bd_value (hold_cash env h) \<le> bd_value lc)"
proof -
  obtain profile f where f: "hold_of_facts f h" "\<And>c. c \<in> set (system_checks env m profile cluster f) \<Longrightarrow> ch_failure c = None"
    and views: "\<And>d. rf_account_cash f = Some d \<Longrightarrow> proved env m payload ''account'' ''cash'' (rm_precision m) d"
      "\<And>d. rf_ledger_cash f = Some d \<Longrightarrow> proved env m payload ''ledger'' ''cash'' (rm_precision m) d"
    by (rule admitted_facts [OF assms(1,2)], rule that, assumption+)
  have all: "\<forall>c \<in> set (system_checks env m profile cluster f). ch_failure c = None" using f(2) by blast
  have inc: "rf_increasing f" using f(1) assms(3) by (simp add: hold_of_facts_def)
  have cash: "bd_value (hold_cash env h) = bd_value (ho_cash_requirement h) + bd_value (ho_fee h)"
    using assms(2,3) by (simp add: remaining_value fresh_hold_def is_active_hold_def)
  obtain ac lc where c: "rf_account_cash f = Some ac" "rf_ledger_cash f = Some lc"
    using system_pass(5) [OF all] inc by (cases "rf_account_cash f"; cases "rf_ledger_cash f") (auto simp: funds_failure_def Let_def)
  have "held (\<lambda>_. True) (hold_cash env) m + bd_value (hold_cash env h) \<le> bd_value ac"
    "held (\<lambda>g. ho_cluster g = cluster) (hold_cash env) m + bd_value (hold_cash env h) \<le> bd_value lc"
    using system_pass(5) [OF all] inc f(1)
    by (auto simp: c funds_failure_def Let_def hold_of_facts_def or_zero_def order_value arith_value bd_sum_held bd_sum_all cash split: if_splits)
  then show ?thesis using views c system_pass(4) [OF all inc] by blast
qed

lemma admitted_close:
  assumes "risk_admits env m cluster payload" "fresh_hold env m cluster request (jindex payload ''request'') h" "\<not> ho_increasing h"
  shows "\<exists>a b. proved env m payload ''position'' ''account_available'' 18 a \<and> proved env m payload ''position'' ''allocation_available'' 18 b
     \<and> held (same_close h) (remaining_quantity env) m + bd_value (ho_quantity h) \<le> bd_value a
     \<and> held (\<lambda>g. same_close h g \<and> ho_cluster g = cluster) (remaining_quantity env) m + bd_value (ho_quantity h) \<le> bd_value b"
proof -
  obtain profile f where f: "hold_of_facts f h" "\<And>c. c \<in> set (system_checks env m profile cluster f) \<Longrightarrow> ch_failure c = None"
    and views: "\<And>a b. rf_available f = Some (a, b) \<Longrightarrow> proved env m payload ''position'' ''account_available'' 18 a
       \<and> proved env m payload ''position'' ''allocation_available'' 18 b"
    by (rule admitted_facts [OF assms(1,2)], rule that, assumption+)
  have all: "\<forall>c \<in> set (system_checks env m profile cluster f). ch_failure c = None" using f(2) by blast
  have close: "rf_closing f" "closes_same f = same_close h"
    using f(1) assms(3) by (auto simp: hold_of_facts_def closes_same_def same_close_def fun_eq_iff)
  obtain a b where c: "rf_available f = Some (a, b)"
    using system_pass(6) [OF all] by (cases "rf_available f") (auto simp: position_failure_def Let_def)
  have "held (same_close h) (remaining_quantity env) m + bd_value (ho_quantity h) \<le> bd_value a"
    "held (\<lambda>g. same_close h g \<and> ho_cluster g = cluster) (remaining_quantity env) m + bd_value (ho_quantity h) \<le> bd_value b"
    using system_pass(6) [OF all] close f(1)
    by (auto simp: c position_failure_def Let_def hold_of_facts_def order_value arith_value bd_sum_held split: if_splits)
  then show ?thesis using views [OF c] by blast
qed

lemma admitted_rules:
  assumes "risk_admits env m cluster payload" "fresh_hold env m cluster request (jindex payload ''request'') h" "ho_increasing h"
    "map_of (rm_profiles m) cluster = Some profile" "rule \<in> set (rp_rules profile)" "\<not> ru_observing rule"
  shows "ru_kind rule = str_lit ''MAX_ACTIVE_ORDERS'' \<longrightarrow>
      of_nat (length (filter (rule_covers cluster (ho_instrument h) rule) (bt_values (rm_reservations m))) + 1) \<le> bd_value (ru_limit rule)"
    "ru_kind rule = str_lit ''MAX_ORDER_QUANTITY'' \<longrightarrow> bd_value (ho_quantity h) \<le> bd_value (ru_limit rule)"
    "ru_kind rule = str_lit ''MAX_ORDER_NOTIONAL'' \<longrightarrow> bd_value (ho_notional h) \<le> bd_value (ru_limit rule)"
    "ru_kind rule = str_lit ''MAX_RESERVED_NOTIONAL'' \<longrightarrow>
      held (rule_covers cluster (ho_instrument h) rule) (remaining_notional env) m + bd_value (ho_notional h) \<le> bd_value (ru_limit rule)"
proof -
  obtain f where f: "hold_of_facts f h" and r: "rf_increasing f \<Longrightarrow> \<exists>amount. rule_amount env m cluster f rule = Inr amount \<and> \<not> bd_less env (ru_limit rule) amount"
  proof (rule admitted_facts [OF assms(1,2)])
    fix profile' f v
    assume a: "map_of (rm_profiles m) cluster = Some profile'" "hold_of_facts f h"
      and rules: "\<And>rule. rule \<in> set (rp_rules profile') \<Longrightarrow> \<not> ru_observing rule \<Longrightarrow> rf_increasing f \<Longrightarrow>
        \<exists>amount. rule_amount env m cluster f rule = Inr amount \<and> \<not> bd_less env (ru_limit rule) amount"
    show thesis by (rule that [OF a(2)]) (use rules [of rule] a(1) assms(4-6) in simp)
  qed
  have "rf_increasing f" using f assms(3) by (simp add: hold_of_facts_def)
  then obtain amount where a: "rule_amount env m cluster f rule = Inr amount" "bd_value amount \<le> bd_value (ru_limit rule)"
    using r by (auto simp: order_value)
  have i: "rf_instrument f = ho_instrument h" using f by (simp add: hold_of_facts_def)
  have n: "bd_value \<lparr>bd_coef = int k + 1, bd_scale = 0\<rparr> = of_nat (k + 1)" for k by (simp add: bd_value_def)
  show "ru_kind rule = str_lit ''MAX_ACTIVE_ORDERS'' \<longrightarrow>
      of_nat (length (filter (rule_covers cluster (ho_instrument h) rule) (bt_values (rm_reservations m))) + 1) \<le> bd_value (ru_limit rule)"
    using a n unfolding rule_amount_def Let_def rule_holds_covers i by auto
  show "ru_kind rule = str_lit ''MAX_ORDER_QUANTITY'' \<longrightarrow> bd_value (ho_quantity h) \<le> bd_value (ru_limit rule)"
    "ru_kind rule = str_lit ''MAX_ORDER_NOTIONAL'' \<longrightarrow> bd_value (ho_notional h) \<le> bd_value (ru_limit rule)"
    using a f by (auto simp: rule_amount_def Let_def hold_of_facts_def or_zero_def)
  show "ru_kind rule = str_lit ''MAX_RESERVED_NOTIONAL'' \<longrightarrow>
      held (rule_covers cluster (ho_instrument h) rule) (remaining_notional env) m + bd_value (ho_notional h) \<le> bd_value (ru_limit rule)"
    using a f unfolding rule_amount_def Let_def rule_holds_covers i by (auto simp: hold_of_facts_def or_zero_def arith_value bd_sum_held)
qed

end

end
