(* ===== verification/Risk_Safety.thy ===== *)
theory Risk_Safety
  imports Risk_Invariant
begin

text \<open>
  The invariant of the risk manager over its commands. The key of a request names its cluster
  and its identifier; the locale \<open>pair_texts\<close> has the law of the JSON text that makes it one.
\<close>

lemma u64_jint: "n < 2 ^ 64 \<Longrightarrow> as_u64 (jint (int n)) = Some n"
  by (simp add: as_u64_def jint_def u64_token_def int_text_def)

definition decision_ok :: "ledger_env \<Rightarrow> risk_manager \<Rightarrow> rstr \<Rightarrow> json \<Rightarrow> bool" where
  "decision_ok env m k d \<longleftrightarrow> (\<exists>cluster request e. k = risk_key env cluster request
     \<and> as_u64 (jindex d ''admission_epoch'') = Some e \<and> e \<le> rm_epoch m
     \<and> (e = rm_epoch m \<and> jindex d ''outcome'' = JString (str_lit ''ACCEPT'') \<longrightarrow>
          (\<exists>payload. map_of (rm_request_inputs m) k = Some payload \<and> risk_admits env m cluster payload)))"

definition risk_ok :: "ledger_env \<Rightarrow> risk_manager \<Rightarrow> bool" where
  "risk_ok env m \<longleftrightarrow> bt_ok (rm_reservations m) \<and> rm_epoch m < 2 ^ 64
     \<and> (\<forall>order h. map_of (rm_reservations m) order = Some h \<longrightarrow> hold_ok h)
     \<and> (\<forall>k d. map_of (rm_decisions m) k = Some d \<longrightarrow> decision_ok env m k d)"

lemma risk_new_ok: "risk_new env config = Inr m \<Longrightarrow> risk_ok env m"
  by (auto simp: risk_new_def risk_ok_def elim!: rbindE)

lemma decisions_expire:
  assumes "decision_ok env m k d" "rm_epoch m < rm_epoch m'"
  shows "decision_ok env m' k d"
proof -
  obtain cluster request e where "k = risk_key env cluster request" "as_u64 (jindex d ''admission_epoch'') = Some e" "e \<le> rm_epoch m"
    using assms(1) unfolding decision_ok_def by blast
  then show ?thesis unfolding decision_ok_def using assms(2) by (intro exI [of _ cluster] exI [of _ request] exI [of _ e]) simp
qed

lemma decision_same_state:
  assumes "decision_ok env m k d" "rm_kills m = rm_kills m'" "rm_reservations m = rm_reservations m'" "rm_precision m = rm_precision m'"
    "rm_profiles m = rm_profiles m'" "rm_watermark m = rm_watermark m'" "rm_epoch m = rm_epoch m'"
    "\<And>payload. map_of (rm_request_inputs m) k = Some payload \<Longrightarrow> map_of (rm_request_inputs m') k = Some payload"
  shows "decision_ok env m' k d"
  using assms(1,7,8) admits_same [OF assms(2-6)] unfolding decision_ok_def by metis

lemma evaluated_admits:
  assumes "risk_row payload [''request'', ''views''] = Inr p" "risk_row (jfield p ''request'') request_fields = Inr r"
    "risk_read env m cluster (jfield p ''request'') r (jfield p ''views'') n = Inr (m1, f)" "map_of (rm_profiles m) cluster = Some profile"
    "risk_judge env m profile cluster f = Inr v"
  shows "vd_outcome v = ''ACCEPT'' \<Longrightarrow> risk_admits env m cluster payload"
  using assms unfolding risk_admits_def by blast

lemma decision_reads:
  "jindex (decision_record env m profile cluster request payload n v) ''admission_epoch'' = jint (int (rm_epoch m))"
  "jindex (decision_record env m profile cluster request payload n v) ''outcome'' = JString (str_lit (vd_outcome v))"
  by (simp_all add: decision_record_def jindex_jobject)

context ledger
begin

lemma fresh_hold_ok:
  assumes "risk_admits env m cluster payload" "fresh_hold env m cl request (jindex payload ''request'') h"
  shows "hold_ok h"
  using admitted_quantity [OF assms] assms(2) risk_dec_nonneg
  by (auto simp: fresh_hold_def hold_ok_def is_active_hold_def value_simps split: if_splits)

lemma risk_change_ok: "risk_change env n m m' \<Longrightarrow> risk_ok env m \<Longrightarrow> risk_ok env m'"
proof (induction rule: risk_change.induct)
  case (evaluated payload p r m cluster m1 f profile v k request d m' s)
  have keep: "decision_ok env m' j x" if "decision_ok env m j x" for j x
    by (rule decision_same_state [OF that]) (use evaluated.hyps(7,9) in auto)
  have adm: "risk_admits env m' cluster payload" if "vd_outcome v = ''ACCEPT''"
    using evaluated_admits [OF evaluated.hyps(1-5) that] admits_same [of m m'] by (simp add: evaluated.hyps(9))
  have "decision_ok env m' k d"
    unfolding decision_ok_def using adm evaluated.prems
    by (intro exI [of _ cluster] exI [of _ request] exI [of _ "rm_epoch m"])
       (auto simp: evaluated.hyps(6,8,9) decision_reads u64_jint risk_ok_def)
  moreover have "rm_reservations m' = rm_reservations m" "rm_epoch m' = rm_epoch m" "map_of (rm_decisions m') = (map_of (rm_decisions m))(k \<mapsto> d)"
    using evaluated.hyps(9) by simp_all
  ultimately show ?case using keep evaluated.prems by (simp add: risk_ok_def)
next
  case (reserved k cluster request m d order payload h m')
  have "decision_ok env m k d" using reserved.prems reserved.hyps(2) by (simp add: risk_ok_def)
  then obtain cl where "risk_admits env m cl payload" unfolding decision_ok_def using reserved.hyps(3,4,6) by auto
  then have "hold_ok h" using fresh_hold_ok reserved.hyps(7) by blast
  then show ?case using reserved.prems reserved.hyps(8) decisions_expire [of env m _ _ m'] by (auto simp: risk_ok_def reserved.hyps(9))
next
  case (moved m order h op r h1 m' w al)
  have "hold_ok h1" using hold_change_ok [OF moved.hyps(3) _ moved.hyps(2)] moved.prems moved.hyps(1) by (simp add: risk_ok_def)
  then show ?case using moved.prems moved.hyps(4) decisions_expire [of env m _ _ m'] by (auto simp: risk_ok_def moved.hyps(5))
next
  case (switched m m' kills)
  then show ?case using decisions_expire [of env m _ _ m'] by (auto simp: risk_ok_def)
qed

lemma risk_record_ok: "risk_ok env (risk_record m command receipt g decision n t) = risk_ok env m"
proof -
  have "decision_ok env (risk_record m command receipt g decision n t) k d = decision_ok env m k d" for k d
    unfolding decision_ok_def using admits_same [of "risk_record m command receipt g decision n t" m env] by (simp add: risk_record_def)
  then show ?thesis by (simp add: risk_ok_def) (simp add: risk_record_def)
qed

lemma risk_apply_ok: "risk_apply env m v = Inr (m', oc) \<Longrightarrow> risk_ok env m \<Longrightarrow> risk_ok env m'"
  by (cases rule: risk_apply_change) (auto simp: risk_record_ok dest: risk_change_ok)

end

abbreviation risk_reachable :: "ledger_env \<Rightarrow> json \<Rightarrow> risk_manager \<Rightarrow> bool" where
  "risk_reachable env config \<equiv> reachable (\<lambda>m. risk_new env config = Inr m) (risk_command env)"

interpretation risks: invariant_system "\<lambda>m. risk_new env config = Inr m" "risk_command env" "\<lambda>m. ledger env \<longrightarrow> risk_ok env m"
  for env config
proof
  show "ledger env \<longrightarrow> risk_ok env m" if "risk_new env config = Inr m" for m using risk_new_ok [OF that] by blast
  show "ledger env \<longrightarrow> risk_ok env m'" if "ledger env \<longrightarrow> risk_ok env m" "risk_command env m m'" for m m'
    using that ledger.risk_apply_ok [of env m] unfolding risk_command_def by blast
qed

section \<open>New holds\<close>

locale pair_texts = ledger env for env +
  assumes pair_inject: "pf_json_text (le_pf env) (JArray [JString a, JString b]) = pf_json_text (le_pf env) (JArray [JString c, JString d]) \<Longrightarrow> a = c \<and> b = d"
begin

lemma risk_key_inject: "risk_key env a b = risk_key env c d \<Longrightarrow> a = c \<and> b = d"
  unfolding risk_key_def by (rule pair_inject)

text \<open>A command that creates a hold does so on an acceptance that is still current.\<close>

lemma new_hold_admitted:
  assumes "risk_apply env m v = Inr (m', oc)" "risk_ok env m" "map_of (rm_reservations m) order = None" "map_of (rm_reservations m') order = Some h"
  obtains payload where "map_of (rm_request_inputs m) (risk_key env (ho_cluster h) (ho_request h)) = Some payload"
    "risk_admits env m (ho_cluster h) payload" "fresh_hold env m (ho_cluster h) (ho_request h) (jindex payload ''request'') h"
    "rm_reservations m' = bt_insert order h (rm_reservations m)" "rm_request_inputs m' = rm_request_inputs m"
  using assms(1)
proof (cases rule: risk_apply_change)
  case (changed m1 command receipt g decision n t)
  have h: "map_of (rm_reservations m1) order = Some h" using assms(4) changed(2) by (simp add: risk_record_def)
  from changed(1) show thesis
  proof cases
    case (reserved k cluster request d order' payload h')
    have o: "order' = order" "h' = h" using h assms(3) reserved(9) by (auto split: if_splits)
    then have c: "ho_cluster h = cluster" "ho_request h = request" using reserved(7) by (auto simp: fresh_hold_def)
    have "decision_ok env m k d" using assms(2) reserved(2) by (simp add: risk_ok_def)
    then obtain cl rq where k: "k = risk_key env cl rq" "risk_admits env m cl payload" unfolding decision_ok_def using reserved(3,4,6) by auto
    have "cl = cluster" using risk_key_inject [OF k(1) [symmetric, unfolded reserved(1)]] by (rule conjunct1)
    then have "risk_admits env m cluster payload" using k(2) by simp
    then show thesis using that [of payload] reserved o c by (simp add: changed(2) risk_record_def)
  qed (use h assms(3) in \<open>auto split: if_splits\<close>)
qed (use assms(3,4) in auto)

end

end
