(* ===== verification/Risk_Example.thy ===== *)
theory Risk_Example
  imports Risk_Safety Position_Example
begin

text \<open>
  A concrete run of the risk manager: a request to open is evaluated against its views and a
  rule, accepted, and reserved. The environment has the reference decimal library, a constant
  digest and a text of JSON arrays of two strings that determines them.
\<close>

definition rx_text :: "json \<Rightarrow> rstr" where
  "rx_text v = (case v of JArray [JString a, JString b] \<Rightarrow> length a # a @ b | _ \<Rightarrow> str_lit ''{}'')"

definition rx_env :: ledger_env where
  "rx_env = \<lparr>le_pf = px_plain\<lparr>pf_json_text := rx_text\<rparr>, le_plain = (\<lambda>d. decimal_display \<lparr>d_number = d, d_negative_zero = False\<rparr>), le_date = (\<lambda>_. None)\<rparr>"

definition rx_owner :: "(string \<times> json) list" where
  "rx_owner = [(''schema_version'', jint 1), (''engine'', JString (str_lit ''E'')), (''runtime'', JString (str_lit ''R'')),
     (''account'', JString (str_lit ''A'')), (''generation'', JString (str_lit ''G''))]"

definition rx_rule :: json where
  "rx_rule = jobject [(''schema_version'', jint 1), (''id'', JString (str_lit ''cap'')), (''scope'', JString (str_lit ''CLUSTER'')), (''order'', jint 1),
     (''mode'', JString (str_lit ''ENFORCING'')), (''kind'', JString (str_lit ''MAX_RESERVED_NOTIONAL'')), (''limit'', JString (str_lit ''50.5''))]"

definition rx_config :: json where
  "rx_config = jobject (rx_owner @ [(''runtime_kind'', JString (str_lit ''SIM'')), (''currency'', currency_to_record px_currency),
     (''clusters'', jobject [(''C'', jobject [(''schema_version'', jint 1), (''revision'', JString (str_lit ''V'')),
        (''instruments'', JArray [JString (str_lit ''S.V'')]), (''rules'', JArray [rx_rule])])]),
     (''admission_limits'', jobject [(''schema_version'', jint 1), (''commands'', jint 8), (''journal_bytes'', jint 64), (''checkpoint_bytes'', jint 64),
        (''reservations'', jint 4)])])"

definition rx_command :: "string \<Rightarrow> int \<Rightarrow> string \<Rightarrow> json \<Rightarrow> json" where
  "rx_command ident n op payload = jobject (rx_owner @ [(''cluster'', JString (str_lit ''C'')), (''command_id'', JString (str_lit ident)),
     (''causal'', JString (replicate 64 48)), (''time'', jint 1), (''runtime_sequence'', jint n), (''op'', JString (str_lit op)), (''payload'', payload)])"

definition rx_view :: "string \<Rightarrow> string \<Rightarrow> json \<Rightarrow> json" where
  "rx_view family source data = jobject (rx_owner @ [(''family'', JString (str_lit family)), (''cluster'', JString (str_lit ''C'')),
     (''instrument'', JString (str_lit ''S.V'')), (''revision'', JString (str_lit ''V'')), (''source_ref'', JString (str_lit source)),
     (''version'', jint 1), (''as_of_sequence'', jint 1), (''source_digest'', JString (replicate 64 48)), (''data'', data)])"

definition rx_cash :: "string \<Rightarrow> json" where
  "rx_cash amount = jobject [(''schema_version'', jint 1), (''status'', JString (str_lit ''ACTIVE'')), (''cash'', JString (str_lit amount))]"

definition rx_request :: json where
  "rx_request = jobject [(''schema_version'', jint 1), (''request_id'', JString (str_lit ''Q'')), (''instrument'', JString (str_lit ''S.V'')),
     (''side'', JString (str_lit ''BUY'')), (''effect'', JString (str_lit ''OPEN'')), (''position_side'', JString (str_lit ''LONG'')),
     (''position_mode'', JString (str_lit ''NETTING'')), (''order_type'', JString (str_lit ''LIMIT'')), (''quantity'', JString (str_lit ''3'')),
     (''price'', JString (str_lit ''12.5'')), (''notional'', JString (str_lit ''37.5'')), (''fee'', JString (str_lit ''0.5'')),
     (''cash_requirement'', JString (str_lit ''37.5''))]"

definition rx_views :: json where
  "rx_views = jobject [(''schema_version'', jint 1), (''account'', rx_view ''ACCOUNT'' ''s1'' (rx_cash ''99'')),
     (''ledger'', rx_view ''LEDGER'' ''s2'' (rx_cash ''38'')),
     (''position'', rx_view ''POSITION'' ''s3'' (jobject [(''schema_version'', jint 1), (''account_available'', JString (str_lit ''0'')),
        (''allocation_available'', JString (str_lit ''0'')), (''position_side'', JString (str_lit ''LONG'')), (''position_mode'', JString (str_lit ''NETTING''))])),
     (''market'', rx_view ''MARKET'' ''s4'' (jobject [(''schema_version'', jint 1), (''request_digest'', JString (replicate 64 48)),
        (''verdict'', JString (str_lit ''ACCEPT'')), (''code'', JString (str_lit ''OK''))]))]"

definition rx_payload :: json where
  "rx_payload = jobject [(''schema_version'', jint 1), (''request'', rx_request), (''views'', rx_views)]"

definition rx_evaluate :: json where
  "rx_evaluate = rx_command ''c1'' 1 ''EVALUATE'' rx_payload"

definition rx_reserve :: json where
  "rx_reserve = rx_command ''c2'' 2 ''RESERVE'' (jobject [(''schema_version'', jint 1), (''request_id'', JString (str_lit ''Q'')), (''order'', JString (str_lit ''O''))])"

section \<open>The states of the run\<close>

definition rx_profile :: risk_profile where
  "rx_profile = \<lparr>rp_revision = str_lit ''V'', rp_instruments = [str_lit ''S.V''], rp_rules = [\<lparr>ru_id = str_lit ''cap'', ru_scope = str_lit ''CLUSTER'',
     ru_order = 1, ru_observing = False, ru_kind = str_lit ''MAX_RESERVED_NOTIONAL'', ru_limit = \<lparr>bd_coef = 505, bd_scale = 1\<rparr>\<rparr>]\<rparr>"

definition rx_start :: risk_manager where
  "rx_start = \<lparr>rm_config = rx_config, rm_precision = 2, rm_profiles = [(str_lit ''C'', rx_profile)], rm_reservations = [], rm_decisions = [],
     rm_request_inputs = [], rm_request_orders = [], rm_receipts = [], rm_aliases = [], rm_sources = [], rm_kills = [], rm_audits = [],
     rm_journal = [], rm_sequence = 0, rm_epoch = 0, rm_watermark = 0, rm_now = None\<rparr>"

definition rx_key :: rstr where
  "rx_key = 1 # str_lit ''CQ''"

definition rx_digest :: rstr where
  "rx_digest = replicate 64 48"

definition rx_sources :: "(rstr, rstr) btree" where
  "rx_sources = [(6 # str_lit ''LEDGERs2'', rx_digest), (6 # str_lit ''MARKETs4'', rx_digest), (7 # str_lit ''ACCOUNTs1'', rx_digest),
     (8 # str_lit ''POSITIONs3'', rx_digest)]"

definition rx_facts :: risk_facts where
  "rx_facts = \<lparr>rf_instrument = str_lit ''S.V'', rf_position = str_lit ''LONG'', rf_mode = str_lit ''NETTING'', rf_quantity = \<lparr>bd_coef = 3, bd_scale = 0\<rparr>,
     rf_increasing = True, rf_closing = False, rf_order_type = str_lit ''LIMIT'', rf_price = Some \<lparr>bd_coef = 125, bd_scale = 1\<rparr>,
     rf_notional = Some \<lparr>bd_coef = 375, bd_scale = 1\<rparr>, rf_fee = Some \<lparr>bd_coef = 5, bd_scale = 1\<rparr>,
     rf_cash_requirement = Some \<lparr>bd_coef = 375, bd_scale = 1\<rparr>, rf_market = None, rf_account_cash = Some \<lparr>bd_coef = 99, bd_scale = 0\<rparr>,
     rf_ledger_cash = Some \<lparr>bd_coef = 38, bd_scale = 0\<rparr>, rf_available = Some (bd_zero, bd_zero)\<rparr>"

definition rx_verdict :: risk_verdict where
  "rx_verdict = verdict_start\<lparr>vd_evaluated := map (\<lambda>name. str_lit ''system.'' @ str_lit name) [''scope'', ''instrument'', ''quantity'', ''order_type'',
     ''price'', ''exposure'', ''cost'', ''kill_switch'', ''market'', ''cash'', ''position''] @ [str_lit ''cap'']\<rparr>"

definition rx_decision :: json where
  "rx_decision = decision_record rx_env rx_start rx_profile (str_lit ''C'') (str_lit ''Q'') rx_payload 1 rx_verdict"

definition rx_evaluated :: risk_manager where
  "rx_evaluated = rx_start\<lparr>rm_sources := rx_sources, rm_request_inputs := [(rx_key, rx_payload)], rm_decisions := [(rx_key, rx_decision)], rm_audits := [rx_decision], rm_sequence := 1, rm_now := Some 1,
     rm_receipts := [(str_lit ''c1'', (rx_digest, Some rx_decision))], rm_journal := [rx_evaluate]\<rparr>"

definition rx_hold :: hold where
  "rx_hold = \<lparr>ho_cluster = str_lit ''C'', ho_request = str_lit ''Q'', ho_instrument = str_lit ''S.V'', ho_side = str_lit ''BUY'',
     ho_position_side = str_lit ''LONG'', ho_position_mode = str_lit ''NETTING'', ho_increasing = True, ho_quantity = \<lparr>bd_coef = 3, bd_scale = 0\<rparr>,
     ho_notional = \<lparr>bd_coef = 375, bd_scale = 1\<rparr>, ho_fee = \<lparr>bd_coef = 5, bd_scale = 1\<rparr>, ho_cash_requirement = \<lparr>bd_coef = 375, bd_scale = 1\<rparr>,
     ho_consumed_quantity = bd_zero, ho_consumed_notional = bd_zero, ho_released_quantity = bd_zero, ho_released_notional = bd_zero,
     ho_state = str_lit ''ACTIVE'', ho_sent = False, ho_unknown = False, ho_acknowledged = False, ho_cancel_pending = False, ho_terminal = None\<rparr>"

definition rx_reserved :: risk_manager where
  "rx_reserved = rx_evaluated\<lparr>rm_request_orders := [(rx_key, str_lit ''O'')], rm_reservations := [(str_lit ''O'', rx_hold)], rm_epoch := 1,
     rm_sequence := 2, rm_receipts := [(str_lit ''c1'', (rx_digest, Some rx_decision)), (str_lit ''c2'', (rx_digest, None))],
     rm_journal := [rx_evaluate, rx_reserve]\<rparr>"

definition rx_row :: "json \<Rightarrow> (rstr \<times> json) list" where
  "rx_row v = (case v of JObject r \<Rightarrow> r | _ \<Rightarrow> [])"

section \<open>The commands of the run\<close>

lemma risk_apply_fresh:
  assumes "length (json_bytes (le_pf env) input) \<le> 65536" "risk_normalize env m input = Inr command" "risk_row command risk_command_fields = Inr r"
    "\<not> list_ex (\<lambda>f. jfield r f \<noteq> jindex (rm_config m) f) risk_context" "risk_id (jfield r ''cluster'') = Inr cluster"
    "bt_contains (rm_profiles m) cluster" "risk_id (jfield r ''command_id'') = Inr receipt" "risk_fp (jfield r ''causal'') = Inr ()"
    "risk_uint (jfield r ''runtime_sequence'') = Inr n" "risk_time (jfield r ''time'') = Inr t" "map_of (rm_receipts m) receipt = None"
    "\<not> (n \<le> rm_sequence m \<or> (case rm_now m of Some u \<Rightarrow> t < u | None \<Rightarrow> False))" "risk_text (jfield r ''op'') = Inr op"
    "risk_dispatch env m cluster op (jfield r ''payload'') n = Inr (m1, status, decision)" "risk_increases env m1 cluster op (jfield r ''payload'') = Inr increases"
    "risk_capacity env (risk_record m1 command receipt (risk_hash env command) decision n t) = Inr ()"
  shows "risk_apply env m input = Inr (risk_record m1 command receipt (risk_hash env command) decision n t, \<lparr>ro_status = status, ro_decision = decision\<rparr>)"
  using assms unfolding risk_apply_def Let_def by simp

lemma rx_new: "risk_new rx_env rx_config = Inr rx_start"
  by code_simp

lemma rx_rows: "risk_row rx_evaluate risk_command_fields = Inr (rx_row rx_evaluate)" "risk_row rx_reserve risk_command_fields = Inr (rx_row rx_reserve)"
  "risk_row rx_payload [''request'', ''views''] = Inr (rx_row rx_payload)" "risk_row rx_request request_fields = Inr (rx_row rx_request)"
  by code_simp+

lemma rx_fields:
  "jfield (rx_row (rx_command ident n op payload)) k = jindex (rx_command ident n op payload) k"
  "jfield (rx_row rx_payload) k = jindex rx_payload k" "jfield (rx_row rx_request) k = jindex rx_request k"
  by (simp_all add: rx_row_def rx_command_def rx_payload_def rx_request_def jobject_members jindex_def)

lemma rx_readers: "risk_id (JString (str_lit ''C'')) = Inr (str_lit ''C'')" "risk_id (JString (str_lit ''Q'')) = Inr (str_lit ''Q'')"
  "risk_id (JString (str_lit ''c1'')) = Inr (str_lit ''c1'')" "risk_id (JString (str_lit ''c2'')) = Inr (str_lit ''c2'')"
  "risk_text (JString (str_lit ''EVALUATE'')) = Inr (str_lit ''EVALUATE'')" "risk_text (JString (str_lit ''RESERVE'')) = Inr (str_lit ''RESERVE'')"
  "risk_text (JString (str_lit ''Q'')) = Inr (str_lit ''Q'')" "risk_fp (JString (replicate 64 48)) = Inr ()" "risk_time (jint 1) = Inr 1"
  "risk_uint (jint 1) = Inr 1" "risk_uint (jint 2) = Inr 2"
  by code_simp+

lemma rx_texts: "risk_key rx_env (str_lit ''C'') (str_lit ''Q'') = rx_key" "risk_hash rx_env v = rx_digest"
  by (simp_all add: risk_key_def rx_env_def rx_text_def rx_key_def risk_hash_def risk_digest_def px_plain_def) code_simp+

lemma rx_sizes: "length (json_bytes (le_pf rx_env) (JObject ms)) = 2" "length (json_bytes (le_pf rx_env) (JArray (JObject ms # vs))) = 2"
  by (simp_all add: json_bytes_def rx_env_def px_plain_def rx_text_def split: list.splits json.splits) code_simp+

lemma rx_limits:
  assumes "rm_config m = rx_config" "rm_journal m = jobject ms # vs" "length vs < 8" "length (rm_reservations m) \<le> 4"
  shows "risk_capacity rx_env m = Inr ()"
proof -
  have "risk_uint (jindex (jindex rx_config ''admission_limits'') ''commands'') = Inr 8" "risk_uint (jindex (jindex rx_config ''admission_limits'') ''journal_bytes'') = Inr 64"
    "risk_uint (jindex (jindex rx_config ''admission_limits'') ''checkpoint_bytes'') = Inr 64" "risk_uint (jindex (jindex rx_config ''admission_limits'') ''reservations'') = Inr 4"
    by code_simp+
  then show ?thesis
    using assms by (simp add: risk_capacity_def risk_checkpoint_def risk_checkpoint_record_def jobject_members rx_sizes Let_def)
qed

lemma rx_read: "risk_read rx_env rx_start (str_lit ''C'') rx_request (rx_row rx_request) rx_views 1 = Inr (rx_start\<lparr>rm_sources := rx_sources\<rparr>, rx_facts)"
  by code_simp

lemma rx_judge: "risk_judge rx_env rx_start rx_profile (str_lit ''C'') rx_facts = Inr rx_verdict"
  by code_simp

lemma rx_new_hold: "risk_new_hold rx_env rx_evaluated (str_lit ''C'') (str_lit ''Q'') (str_lit ''O'') =
    Inr (rx_evaluated\<lparr>rm_request_orders := [(rx_key, str_lit ''O'')], rm_reservations := [(str_lit ''O'', rx_hold)], rm_epoch := 1\<rparr>)"
  by code_simp

lemma rx_normal: "risk_normalize rx_env rx_start rx_evaluate = Inr rx_evaluate" "risk_normalize rx_env rx_evaluated rx_reserve = Inr rx_reserve"
  by code_simp+

lemma rx_applies:
  assumes "rm_config m = rx_config" "rm_profiles m = [(str_lit ''C'', rx_profile)]" "input = rx_command ident n op payload"
    "risk_normalize rx_env m input = Inr input" "risk_row input risk_command_fields = Inr (rx_row input)"
    "risk_id (JString (str_lit ident)) = Inr (str_lit ident)" "risk_text (JString (str_lit op)) = Inr (str_lit op)" "risk_uint (jint n) = Inr k"
    "map_of (rm_receipts m) (str_lit ident) = None" "rm_sequence m < k" "rm_now m \<in> {None, Some 1}"
    "risk_dispatch rx_env m (str_lit ''C'') (str_lit op) payload k = Inr (m1, status, decision)"
    "risk_increases rx_env m1 (str_lit ''C'') (str_lit op) payload = Inr increases"
    "rm_config m1 = rx_config" "length (rm_journal m1) < 8" "\<forall>v \<in> set (rm_journal m1). \<exists>ms. v = jobject ms" "length (rm_reservations m1) \<le> 4"
  shows "risk_apply rx_env m input = Inr (risk_record m1 input (str_lit ident) rx_digest decision k 1, \<lparr>ro_status = status, ro_decision = decision\<rparr>)"
proof -
  have c: "jfield (rx_row input) x = jindex input x" for x by (simp add: assms(3) rx_fields)
  have i: "jindex input ''cluster'' = JString (str_lit ''C'')" "jindex input ''command_id'' = JString (str_lit ident)"
    "jindex input ''causal'' = JString (replicate 64 48)" "jindex input ''runtime_sequence'' = jint n" "jindex input ''time'' = jint 1"
    "jindex input ''op'' = JString (str_lit op)" "jindex input ''payload'' = payload"
    by (simp_all add: assms(3) rx_command_def rx_owner_def jindex_jobject)
  have ctx: "\<not> list_ex (\<lambda>f. jindex input f \<noteq> jindex rx_config f) risk_context"
    by (simp add: assms(3) rx_command_def rx_owner_def rx_config_def risk_context_def jindex_jobject)
  obtain ms vs where journal: "rm_journal m1 @ [input] = jobject ms # vs" "length vs < 8"
    using assms(3,15,16) by (cases "rm_journal m1") (auto simp: rx_command_def)
  have "risk_capacity rx_env (risk_record m1 input (str_lit ident) (risk_hash rx_env input) decision k 1) = Inr ()"
    by (rule rx_limits) (use assms(14,17) journal in \<open>simp_all add: risk_record_def\<close>)
  moreover have "length (json_bytes (le_pf rx_env) input) \<le> 65536" by (simp add: assms(3) rx_command_def jobject_members rx_sizes)
  ultimately have "risk_apply rx_env m input = Inr (risk_record m1 input (str_lit ident) (risk_hash rx_env input) decision k 1, \<lparr>ro_status = status, ro_decision = decision\<rparr>)"
    by (intro risk_apply_fresh [OF _ assms(4,5), where cluster = "str_lit ''C''" and op = "str_lit op"])
       (use assms(1,2,6-13) ctx in \<open>auto simp: c i rx_readers bt_contains_def\<close>)
  then show ?thesis by (simp add: rx_texts)
qed

lemma rx_evaluates: "risk_apply rx_env rx_start rx_evaluate = Inr (rx_evaluated, \<lparr>ro_status = RApplied, ro_decision = Some rx_decision\<rparr>)"
proof -
  define m1 where "m1 = rx_start\<lparr>rm_sources := rx_sources, rm_request_inputs := [(rx_key, rx_payload)], rm_decisions := [(rx_key, rx_decision)], rm_audits := [rx_decision]\<rparr>"
  have j: "risk_judge rx_env (rx_start\<lparr>rm_sources := rx_sources\<rparr>) rx_profile (str_lit ''C'') rx_facts = Inr rx_verdict"
    using rx_judge judge_same [of "rx_start\<lparr>rm_sources := rx_sources\<rparr>" rx_start] by simp
  have d: "decision_record rx_env (rx_start\<lparr>rm_sources := rx_sources\<rparr>) rx_profile (str_lit ''C'') (str_lit ''Q'') rx_payload 1 rx_verdict = rx_decision"
    unfolding rx_decision_def by (rule decision_same) simp_all
  have p: "jindex rx_payload ''request'' = rx_request" "jindex rx_payload ''views'' = rx_views" "jindex rx_request ''request_id'' = JString (str_lit ''Q'')"
    "jindex rx_request ''effect'' = JString (str_lit ''OPEN'')"
    by (simp_all add: rx_payload_def rx_request_def jindex_jobject)
  have dispatch: "risk_dispatch rx_env rx_start (str_lit ''C'') (str_lit ''EVALUATE'') rx_payload 1 = Inr (m1, RApplied, Some rx_decision)"
    using rx_read j d by (simp add: risk_dispatch_def risk_evaluate_def rx_rows rx_fields p rx_readers rx_texts m1_def rx_start_def Let_def)
  have "risk_apply rx_env rx_start rx_evaluate = Inr (risk_record m1 rx_evaluate (str_lit ''c1'') rx_digest (Some rx_decision) 1 1,
      \<lparr>ro_status = RApplied, ro_decision = Some rx_decision\<rparr>)"
    by (rule rx_applies [OF _ _ rx_evaluate_def rx_normal(1) rx_rows(1) _ _ _ _ _ _ dispatch, where increases = True])
       (simp_all add: rx_start_def m1_def rx_readers risk_increases_def p)
  then show ?thesis by (simp add: risk_record_def m1_def rx_evaluated_def rx_start_def)
qed

lemma rx_reserves: "risk_apply rx_env rx_evaluated rx_reserve = Inr (rx_reserved, \<lparr>ro_status = RApplied, ro_decision = None\<rparr>)"
proof -
  define payload where "payload = jobject [(''schema_version'', jint 1), (''request_id'', JString (str_lit ''Q'')), (''order'', JString (str_lit ''O''))]"
  define m1 where "m1 = rx_evaluated\<lparr>rm_request_orders := [(rx_key, str_lit ''O'')], rm_reservations := [(str_lit ''O'', rx_hold)], rm_epoch := 1\<rparr>"
  have rows: "risk_row payload [''request_id'', ''order''] = Inr (rx_row payload)" "risk_id (JString (str_lit ''O'')) = Inr (str_lit ''O'')"
    unfolding payload_def by code_simp+
  have p: "jfield (rx_row payload) ''request_id'' = JString (str_lit ''Q'')" "jfield (rx_row payload) ''order'' = JString (str_lit ''O'')"
    "jindex payload ''request_id'' = JString (str_lit ''Q'')"
    by (simp_all add: payload_def rx_row_def jobject_members jindex_def)
  have none: "rm_request_orders rx_evaluated = []" by (simp add: rx_evaluated_def rx_start_def)
  have dispatch: "risk_dispatch rx_env rx_evaluated (str_lit ''C'') (str_lit ''RESERVE'') payload 2 = Inr (m1, RApplied, None)"
    using rx_new_hold by (simp add: risk_dispatch_def risk_reserve_def rows p rx_readers rx_texts none m1_def Let_def)
  have "risk_apply rx_env rx_evaluated rx_reserve = Inr (risk_record m1 rx_reserve (str_lit ''c2'') rx_digest None 2 1, \<lparr>ro_status = RApplied, ro_decision = None\<rparr>)"
    by (rule rx_applies [OF _ _ rx_reserve_def [folded payload_def] rx_normal(2) rx_rows(2) _ _ _ _ _ _ dispatch, where increases = True])
       (simp_all add: rx_start_def rx_evaluated_def m1_def rx_readers risk_increases_def p rx_texts rx_payload_def rx_request_def jindex_jobject, auto simp: rx_evaluate_def rx_command_def)
  then show ?thesis by (simp add: risk_record_def m1_def rx_evaluated_def rx_reserved_def rx_start_def)
qed

end
