(* ===== verification/Risk_Properties.thy ===== *)
theory Risk_Properties
  imports Risk_Example
begin

text \<open>
  The properties of the risk manager: its holds are conserved, a hold is created only where the
  proved cash or position covers it and the limits of its cluster allow it, and a command is
  answered once.
\<close>

section \<open>Repeated commands\<close>

text \<open>What a command keeps of the manager.\<close>

definition risk_grows :: "risk_manager \<Rightarrow> risk_manager \<Rightarrow> bool" where
  "risk_grows m m' \<longleftrightarrow> rm_config m' = rm_config m \<and> rm_precision m' = rm_precision m \<and> rm_profiles m' = rm_profiles m
     \<and> map_of (rm_receipts m) \<subseteq>\<^sub>m map_of (rm_receipts m')"

lemma risk_change_keeps: "risk_change env n m m' \<Longrightarrow> rm_config m' = rm_config m \<and> rm_precision m' = rm_precision m
    \<and> rm_profiles m' = rm_profiles m \<and> rm_receipts m' = rm_receipts m"
  by (induction rule: risk_change.induct) auto

lemma risk_command_grows:
  assumes "risk_command env m m'"
  shows "risk_grows m m'"
proof -
  obtain v oc where "risk_apply env m v = Inr (m', oc)" using assms unfolding risk_command_def by blast
  then show ?thesis
  proof (cases rule: risk_apply_header)
    case (fresh command cluster receipt n t m1 op status decision)
    then show ?thesis using risk_change_keeps [OF risk_dispatch_change [OF fresh(3)]] by (auto simp: risk_grows_def risk_record_def map_le_def)
  qed (simp add: risk_grows_def)
qed

lemma risk_run_grows: "(risk_command env)\<^sup>*\<^sup>* m m' \<Longrightarrow> risk_grows m m'"
proof (induction rule: rtranclp_induct)
  case (step m1 m2)
  then show ?case using risk_command_grows [OF step.hyps(2)] by (auto simp: risk_grows_def intro: map_le_trans)
qed (simp add: risk_grows_def)

lemma normalize_same: "rm_precision m' = rm_precision m \<Longrightarrow> risk_normalize env m' c = risk_normalize env m c"
  by (simp add: risk_normalize_def cong: if_cong)

lemma header_grows: "risk_header env m input command cluster receipt n t \<Longrightarrow> risk_grows m m' \<Longrightarrow> risk_header env m' input command cluster receipt n t"
  using normalize_same [of m' m] by (simp add: risk_header_def risk_grows_def)

lemma risk_header_repeats:
  assumes "risk_header env m input command cluster receipt n t" "map_of (rm_receipts m) receipt = Some (risk_hash env command, d)"
  shows "risk_apply env m input = Inr (m, \<lparr>ro_status = RDuplicate, ro_decision = d\<rparr>)"
proof -
  obtain r where r: "risk_row command risk_command_fields = Inr r" using assms(1) by (auto simp: risk_header_def)
  show ?thesis
    using assms unfolding risk_header_def risk_apply_def by (simp add: risk_row_index [OF r] r Let_def)
qed

section \<open>Theorems\<close>

text \<open>
  C21: The risk manager answers a command once: when a command was accepted, repeating it after
  any further commands returns the decision it had, marked as a duplicate, and changes nothing.
\<close>
theorem risk_command_repeat:
  assumes "risk_apply env m input = Inr (m', oc)" "(risk_command env)\<^sup>*\<^sup>* m' m''"
  shows "risk_apply env m'' input = Inr (m'', \<lparr>ro_status = RDuplicate, ro_decision = ro_decision oc\<rparr>)"
  using assms(1)
proof (cases rule: risk_apply_header)
  case (repeated command cluster receipt n t d)
  note g = risk_run_grows [OF assms(2), unfolded repeated(3)]
  have "map_of (rm_receipts m'') receipt = Some (risk_hash env command, d)" using g repeated(2) by (force simp: risk_grows_def map_le_def)
  then show ?thesis using risk_header_repeats [OF header_grows [OF repeated(1) g]] repeated(4) by simp
next
  case (fresh command cluster receipt n t m1 op status decision)
  have "risk_grows m m''" using risk_command_grows [of env m m'] risk_run_grows [OF assms(2)] assms(1)
    by (auto simp: risk_command_def risk_grows_def intro: map_le_trans)
  note h = header_grows [OF fresh(1) this]
  have "map_of (rm_receipts m'') receipt = Some (risk_hash env command, decision)"
    using risk_run_grows [OF assms(2)] fresh(5) by (force simp: risk_grows_def map_le_def risk_record_def)
  then show ?thesis using risk_header_repeats [OF h] fresh(6) by simp
qed

lemma rx_steps: "risk_command rx_env rx_start rx_evaluated" "risk_command rx_env rx_evaluated rx_reserved"
  using rx_evaluates rx_reserves unfolding risk_command_def by blast+

lemma rx_reachable: "risk_reachable rx_env rx_config rx_evaluated" "risk_reachable rx_env rx_config rx_reserved"
proof -
  have a: "risk_reachable rx_env rx_config rx_start" by (rule reach_init) (rule rx_new)
  show b: "risk_reachable rx_env rx_config rx_evaluated" by (rule reach_step [OF a rx_steps(1)])
  show "risk_reachable rx_env rx_config rx_reserved" by (rule reach_step [OF b rx_steps(2)])
qed

theorem risk_command_repeat_witness:
  "risk_apply rx_env rx_reserved rx_evaluate = Inr (rx_reserved, \<lparr>ro_status = RDuplicate, ro_decision = Some rx_decision\<rparr>)"
  using risk_command_repeat [OF rx_evaluates, of rx_reserved] rx_steps(2) by auto

text \<open>
  C20: The holds of the risk manager are conserved. In every reachable manager the consumed and
  released parts of each hold are nonnegative; an active hold has released nothing, has
  quantity left and has not consumed more notional than it has; a finished hold splits into
  its consumed and released parts exactly, in quantity and in notional.
\<close>
theorem risk_holds_conserved:
  assumes "ledger env" "risk_reachable env config m" "map_of (rm_reservations m) order = Some h"
  shows "hold_ok h"
  using risks.reachable_inv [OF assms(2)] assms(1,3) by (simp add: risk_ok_def)

lemma rx_texts_hold: "pair_texts rx_env"
proof -
  have lib: "le_lib rx_env = ref_lib" by (simp add: rx_env_def px_plain_def)
  have text_eq: "pf_json_text (le_pf rx_env) = rx_text" by (simp add: rx_env_def)
  have inj: "a = c \<and> b = d" if "rx_text (JArray [JString a, JString b]) = rx_text (JArray [JString c, JString d])" for a b c d
    using that by (auto simp: rx_text_def)
  have "ledger rx_env" by (simp add: ledger_def lib ref_rounding.ledger_decimal_axioms)
  then show ?thesis
    by (rule pair_texts.intro) (unfold pair_texts_axioms_def text_eq, blast dest: inj)
qed

theorem risk_holds_conserved_witness: "map_of (rm_reservations rx_reserved) (str_lit ''O'') = Some rx_hold \<and> hold_ok rx_hold"
proof -
  have h: "map_of (rm_reservations rx_reserved) (str_lit ''O'') = Some rx_hold" by (simp add: rx_reserved_def)
  show ?thesis using risk_holds_conserved [OF pair_texts.axioms(1) [OF rx_texts_hold] rx_reachable(2) h] h by simp
qed

text \<open>
  C18: No command of the risk manager reserves more than was proved. When a reachable manager
  creates a hold, the evaluated request of its cluster is on file with views no older than the
  last fill or end of a hold. A hold that opens exposure is created under no kill switch, and
  the cash of all holds together, itself included, is within the proved cash of the account,
  as that of its cluster is within the proved cash of the ledger. For a hold that closes, the
  quantity all closing holds of the same position still have is within the proved availability
  of the account, and that of its cluster within the allocation.
\<close>
theorem risk_reserve_covered:
  assumes "pair_texts env" "risk_reachable env config m" "risk_apply env m input = Inr (m', oc)"
    "map_of (rm_reservations m) order = None" "map_of (rm_reservations m') order = Some h"
  shows "\<exists>payload. map_of (rm_request_inputs m') (risk_key env (ho_cluster h) (ho_request h)) = Some payload
    \<and> (if ho_increasing h
       then \<not> risk_killed env m (ho_cluster h) \<and> (\<exists>ac lc. proved env m payload ''account'' ''cash'' (rm_precision m) ac
         \<and> proved env m payload ''ledger'' ''cash'' (rm_precision m) lc
         \<and> held (\<lambda>_. True) (hold_cash env) m' \<le> bd_value ac \<and> held (\<lambda>g. ho_cluster g = ho_cluster h) (hold_cash env) m' \<le> bd_value lc)
       else \<exists>a b. proved env m payload ''position'' ''account_available'' 18 a \<and> proved env m payload ''position'' ''allocation_available'' 18 b
         \<and> held (same_close h) (remaining_quantity env) m' \<le> bd_value a
         \<and> held (\<lambda>g. same_close h g \<and> ho_cluster g = ho_cluster h) (remaining_quantity env) m' \<le> bd_value b)"
proof -
  have lg: "ledger env" by (rule pair_texts.axioms(1) [OF assms(1)])
  have ok: "risk_ok env m" using risks.reachable_inv [OF assms(2)] lg by simp
  obtain payload where p: "map_of (rm_request_inputs m) (risk_key env (ho_cluster h) (ho_request h)) = Some payload"
      "risk_admits env m (ho_cluster h) payload" "fresh_hold env m (ho_cluster h) (ho_request h) (jindex payload ''request'') h"
    and m': "rm_reservations m' = bt_insert order h (rm_reservations m)" "rm_request_inputs m' = rm_request_inputs m"
    using pair_texts.new_hold_admitted [OF assms(1,3) ok assms(4,5)] .
  have "bt_ok (rm_reservations m)" using ok by (simp add: risk_ok_def)
  note sums = held_insert [OF this assms(4) m'(1)]
  show ?thesis
  proof (cases "ho_increasing h")
    case True
    show ?thesis using ledger.admitted_cash [OF lg p(2,3) True] p(1) True by (intro exI [of _ payload]) (simp add: m'(2) sums)
  next
    case False
    have "same_close h h" "bd_value (remaining_quantity env h) = bd_value (ho_quantity h)"
      using False p(3) ledger.remaining_value(1) [OF lg] by (simp_all add: same_close_def fresh_hold_def is_active_hold_def)
    then show ?thesis using ledger.admitted_close [OF lg p(2,3) False] p(1) False by (intro exI [of _ payload]) (simp add: m'(2) sums)
  qed
qed

theorem risk_reserve_covered_witness:
  "\<exists>payload ac lc. map_of (rm_request_inputs rx_reserved) rx_key = Some payload \<and> proved rx_env rx_evaluated payload ''account'' ''cash'' 2 ac
    \<and> proved rx_env rx_evaluated payload ''ledger'' ''cash'' 2 lc \<and> held (\<lambda>_. True) (hold_cash rx_env) rx_reserved \<le> bd_value ac
    \<and> held (\<lambda>g. ho_cluster g = str_lit ''C'') (hold_cash rx_env) rx_reserved \<le> bd_value lc"
proof -
  have r: "map_of (rm_reservations rx_evaluated) (str_lit ''O'') = None" "map_of (rm_reservations rx_reserved) (str_lit ''O'') = Some rx_hold"
    "rm_precision rx_evaluated = 2" by (simp_all add: rx_reserved_def rx_evaluated_def rx_start_def)
  have h: "ho_cluster rx_hold = str_lit ''C''" "ho_request rx_hold = str_lit ''Q''" "ho_increasing rx_hold" by (simp_all add: rx_hold_def)
  show ?thesis
    using risk_reserve_covered [OF rx_texts_hold rx_reachable(1) rx_reserves r(1,2)] h(3) unfolding h(1,2) rx_texts r(3) by auto
qed

text \<open>
  C19: The limits of a cluster hold after every admission. When a reachable manager creates a hold
  that opens exposure, then for every enforcing rule of its cluster the number of active holds in
  the scope of the rule, the quantity and notional of the order, and the notional still reserved
  in that scope, the new hold included, are within the limit the rule sets for it.
\<close>
theorem risk_limits_respected:
  assumes "pair_texts env" "risk_reachable env config m" "risk_apply env m input = Inr (m', oc)"
    "map_of (rm_reservations m) order = None" "map_of (rm_reservations m') order = Some h" "ho_increasing h"
    "map_of (rm_profiles m) (ho_cluster h) = Some profile" "rule \<in> set (rp_rules profile)" "\<not> ru_observing rule"
  shows "(ru_kind rule = str_lit ''MAX_ACTIVE_ORDERS'' \<longrightarrow>
        of_nat (length (filter (rule_covers (ho_cluster h) (ho_instrument h) rule) (bt_values (rm_reservations m')))) \<le> bd_value (ru_limit rule))
    \<and> (ru_kind rule = str_lit ''MAX_ORDER_QUANTITY'' \<longrightarrow> bd_value (ho_quantity h) \<le> bd_value (ru_limit rule))
    \<and> (ru_kind rule = str_lit ''MAX_ORDER_NOTIONAL'' \<longrightarrow> bd_value (ho_notional h) \<le> bd_value (ru_limit rule))
    \<and> (ru_kind rule = str_lit ''MAX_RESERVED_NOTIONAL'' \<longrightarrow>
        held (rule_covers (ho_cluster h) (ho_instrument h) rule) (remaining_notional env) m' \<le> bd_value (ru_limit rule))"
proof -
  have lg: "ledger env" by (rule pair_texts.axioms(1) [OF assms(1)])
  have ok: "risk_ok env m" using risks.reachable_inv [OF assms(2)] lg by simp
  obtain payload where p: "risk_admits env m (ho_cluster h) payload" "fresh_hold env m (ho_cluster h) (ho_request h) (jindex payload ''request'') h"
    and m': "rm_reservations m' = bt_insert order h (rm_reservations m)"
    using pair_texts.new_hold_admitted [OF assms(1,3) ok assms(4,5)] .
  have bt: "bt_ok (rm_reservations m)" using ok by (simp add: risk_ok_def)
  have covers: "rule_covers (ho_cluster h) (ho_instrument h) rule h" using p(2) by (simp add: rule_covers_def fresh_hold_def is_active_hold_def)
  have rest: "bd_value (remaining_notional env h) = bd_value (ho_notional h)" using p(2) ledger.remaining_value(2) [OF lg] by (simp add: fresh_hold_def)
  note rules = ledger.admitted_rules [OF lg p assms(6-9)]
  show ?thesis
    using rules held_insert [OF bt assms(4) m'] covers rest by (simp add: m' filter_values_insert [OF bt assms(4)])
qed

theorem risk_limits_respected_witness:
  "held (rule_covers (str_lit ''C'') (str_lit ''S.V'') (hd (rp_rules rx_profile))) (remaining_notional rx_env) rx_reserved \<le> 101 / 2"
proof -
  have r: "map_of (rm_reservations rx_evaluated) (str_lit ''O'') = None" "map_of (rm_reservations rx_reserved) (str_lit ''O'') = Some rx_hold"
    "map_of (rm_profiles rx_evaluated) (ho_cluster rx_hold) = Some rx_profile" by (simp_all add: rx_reserved_def rx_evaluated_def rx_start_def rx_hold_def)
  have h: "ho_cluster rx_hold = str_lit ''C''" "ho_instrument rx_hold = str_lit ''S.V''" "ho_increasing rx_hold" by (simp_all add: rx_hold_def)
  have rule: "hd (rp_rules rx_profile) \<in> set (rp_rules rx_profile)" "\<not> ru_observing (hd (rp_rules rx_profile))"
    "ru_kind (hd (rp_rules rx_profile)) = str_lit ''MAX_RESERVED_NOTIONAL''" "bd_value (ru_limit (hd (rp_rules rx_profile))) = 101 / 2"
    by (simp_all add: rx_profile_def bd_value_def)
  show ?thesis
    using risk_limits_respected [OF rx_texts_hold rx_reachable(1) rx_reserves r(1,2) h(3) r(3) rule(1,2)] by (simp add: h rule)
qed

end
