(* ===== verification/Spec2Isabelle.thy ===== *)
theory Spec2Isabelle
  imports Clock_Progress Event_Bus_Properties Indicator_Ranges Predicate_Properties Decimal_Values Order_Properties Position_Refinement Margin_Properties Risk_Properties
begin

text \<open>
  \<^bold>\<open>OnlyAlpha kernel: a verification development.\<close>

  OnlyAlpha is a trading kernel in Rust. Its crates under \<open>src/crates\<close> form layers: \<open>domain\<close>
  (decimals, dimensional values, identifiers, validated records), \<open>clock\<close> (timers and virtual
  time), \<open>event\<close> (the event bus), \<open>operators\<close>, \<open>indicators\<close> and \<open>predicates\<close> (exact numeric
  computation over market data), \<open>order\<close> (the journaled order manager), the ledgers and risk
  (\<open>position\<close>, \<open>account\<close>, \<open>strategy-ledger\<close>, \<open>risk\<close>, \<open>fee\<close>, \<open>settlement\<close>, \<open>margin\<close>) and the
  composition (\<open>strategy\<close>, \<open>execution\<close>, \<open>runtime\<close>, \<open>backtest\<close>). \<open>packages\<close> holds the server and
  the user interface, \<open>plugs\<close> the brokers, data sources and market packs.

  \<^bold>\<open>Conventions.\<close> A struct is a record, an enum a datatype, a function of the source one
  definition of the same name where HOL allows it. Fallible code returns a sum, the left side
  being the error; a Rust panic is an error value of its own, so that its absence is a theorem.
  State is passed explicitly; callbacks are behaviours that return the actions they perform. A
  Rust string is the list of its code points, a \<open>BTreeMap\<close> the ascending list of its entries,
  machine integers are integers with the checked or wrapping bound written out. Code from
  outside the repository is a parameter with its documented laws as a locale: the decimal
  library (record \<open>decimal_lib\<close>, locales \<open>bigdecimal\<close>, \<open>decimal_text\<close> and, with half-even
  rounding, \<open>ledger_decimal\<close>), SHA-256 and the JSON text functions (record \<open>platform\<close>), the
  Unicode tables. A ledger takes the record \<open>ledger_env\<close>: a platform, the plain text of
  decimals and the calendar parser, with the laws of \<open>ledger\<close> and, where a proof needs the text
  functions, \<open>plain_texts\<close> (plain texts keep the value) or \<open>pair_texts\<close> (the JSON text of two
  strings determines them). Each of these locales has a witness on a concrete environment.
  The 64-bit counters of the ledgers are natural numbers with the overflow check of the source.

  \<^bold>\<open>Theories.\<close>
  \<^item> \<open>Prelude\<close>: results, ordered maps and sets, comparison, text, and the locale
    \<open>invariant_system\<close> every stateful component interprets.
  \<^item> \<open>Timer_Scheduler\<close>, \<open>Scheduler_Invariant\<close>, \<open>Clock_Snapshot\<close>, \<open>Virtual_Clock\<close>,
    \<open>Clock_Progress\<close>: \<open>clock/src/{model,scheduler,snapshot,virtual_clock}.rs\<close>. Registration,
    cancellation, dispatch tokens, completion, checkpoint and restore, and the advance loop with
    its callbacks. Shown: the scheduler invariant in every reachable state, that the snapshot
    validator accepts exactly the well-formed snapshots, the checkpoint round trip, exactness of
    dispatch tokens, and that advancing reaches its target and ends. The advance loop carries
    fuel; \<open>advance_to_terminates\<close> computes an amount that is enough when callbacks add no timers.
  \<^item> \<open>Json\<close>, \<open>Event_Model\<close>, \<open>Event_Bus\<close>, \<open>Event_Bus_Properties\<close>:
    \<open>event/src/{model,bus,capabilities,diagnostics,ports}.rs\<close>. Shown: the bus invariant, which
    event a full queue gives up, the order and isolation of observers, atomic batches against
    sequential publication, draining on close, the diagnostic window, identifier texts. Draining
    carries fuel; the queue length is enough when handlers publish nothing.
  \<^item> \<open>Operators\<close>, \<open>Decimal_Text\<close>, \<open>Indicators\<close>, \<open>Indicator_Properties\<close>, \<open>Indicator_Ranges\<close>:
    \<open>operators/src/lib.rs\<close> and \<open>indicators/src\<close>. Incremental means and indicators refine their
    window definitions, round once and never panic; ranges of RSI and the stochastic oscillator.
  \<^item> \<open>Predicates\<close>, \<open>Predicate_Properties\<close>: \<open>predicates/src\<close>. Comparisons of texts agree with the
    numbers they spell; nullable connectives give the strongest sound answer.
  \<^item> \<open>Decimal\<close>, \<open>Decimal_Properties\<close>, \<open>Decimal_Roundtrip\<close>, \<open>Decimal_Values\<close>:
    \<open>domain/src/{numeric,value}.rs\<close>. Exact arithmetic in the canonical range, division to 28
    digits, increments, hashing, texts, quantities and money. \<open>Decimal_Values\<close> holds a reference
    decimal library and interprets the locales on it.
  \<^item> \<open>Domain_Record\<close>, \<open>Domain_Fee\<close>, \<open>Domain_Execution\<close>, \<open>Domain_Codec\<close>:
    \<open>domain/src/{base,enums,identifiers,time,value,fee,trading,execution}.rs\<close>. Strict records and
    their codecs, fee records, intents, requests, fills and order snapshots with validation. The
    locales \<open>stable_codec\<close> and \<open>field_codec\<close> are the codec contract, interpreted by every field.
  \<^item> \<open>Order_Manager\<close>, \<open>Order_Steps\<close>, \<open>Order_Invariant\<close>, \<open>Order_Safety\<close>, \<open>Order_Example\<close>,
    \<open>Order_Properties\<close>: \<open>order/src/{model,manager,recovery}.rs\<close>. The state is the record
    \<open>manager\<close>; \<open>apply_command\<close> is \<open>Manager::apply\<close>, split along its match arms (\<open>do_fee\<close>,
    \<open>do_fill\<close>, ...), with the external envelope and the receipt and sequence gate before and the
    single commit after them. \<open>order_step\<close> is the relation of applied commands. Shown: the
    invariant of every reachable manager and absence of panics, the life cycle of an order,
    harmless redelivery, exact recovery from a checkpoint, average prices, and stable records.
    \<open>Order_Example\<close> is the concrete run the witnesses use.

  \<^item> \<open>Journal\<close>, \<open>Refinement\<close>, \<open>Ledger_Base\<close>: what the journaled components share. \<open>journaled_owner\<close>
    is the contract of a component whose state is the replay of its journal, interpreted by the
    order manager and the position manager; \<open>abstracted_system\<close> extends \<open>invariant_system\<close> by an
    abstract machine; \<open>Ledger_Base\<close> has loops with early return, the proof rules \<open>yields\<close> and
    \<open>spares\<close> of fallible operations, sums over ordered maps and the environment of a ledger.
  \<^item> \<open>Position_Model\<close>, \<open>Position_Manager\<close>, \<open>Position_Commands\<close>, \<open>Position_Arithmetic\<close>,
    \<open>Position_Steps\<close>, \<open>Position_Invariant\<close>, \<open>Position_Safety\<close>, \<open>Position_Example\<close>,
    \<open>Position_Properties\<close>, \<open>Position_Refinement\<close>: \<open>position/src\<close>. \<open>pos_apply\<close> is
    \<open>Manager::apply\<close> with its readers, commands, validation and commit. Shown: conservation of
    allocations, accounts and reservations in every reachable manager, that the validation of a
    candidate can fail only for numbers out of range, that the manager refines an abstract ledger
    of holdings, that a confirmed release is accepted, profit rounded once per cycle, recovery
    from a checkpoint, and that a trade is booked once.
  \<^item> \<open>Margin_Manager\<close>, \<open>Margin_Laws\<close>, \<open>Margin_Invariant\<close>, \<open>Margin_Example\<close>,
    \<open>Margin_Properties\<close>: \<open>margin/src\<close>. \<open>mar_apply\<close> is \<open>Manager::apply\<close>; a repeated instruction
    replays the log through the same operation, which is modelled with the length of the log as
    fuel, and \<open>margin_apply_ends\<close> shows it is always enough. Shown: reservations refine a machine
    of slots in quanta and minor units, maintenance is covered by what is occupied, and only a
    new reservation can exceed the admission budget.
  \<^item> \<open>Risk_Model\<close>, \<open>Risk_Manager\<close>, \<open>Risk_Steps\<close>, \<open>Risk_Invariant\<close>, \<open>Risk_Safety\<close>,
    \<open>Risk_Example\<close>, \<open>Risk_Properties\<close>: \<open>risk/src\<close>. \<open>risk_apply\<close> is \<open>Manager::apply\<close>;
    \<open>risk_evaluate\<close> is \<open>pipeline.rs\<close>, split into reading (\<open>risk_read\<close>) and judging
    (\<open>risk_judge\<close>), \<open>risk_reserve\<close> and \<open>risk_transition\<close> are \<open>reservation.rs\<close>. \<open>risk_change\<close> is the
    relation of what a command does. Shown: an acceptance of the current epoch still holds for
    the current holds and kill switches, so a hold is created only within the proved cash,
    position and limits; holds are conserved; a command is answered once.

  The order manager, the position ledger, the margin manager and the risk manager do not call
  one another: the runtime passes them records of the others' state. The risk manager reads
  such records as proof envelopes, which its theorems take as given.

  \<^bold>\<open>Not modelled.\<close> The native clock (threads), the event record codec and the operator algebra;
  of \<open>domain\<close> the calendar, instrument, market, account and catalog records, time zones and
  date texts, and the trade record that needs them; the account and strategy ledgers, the fee
  engine and settlement; broker contracts, the calculation graph, market data construction;
  strategies, execution, runtime and backtest; server, user interface and plugins, which are I/O
  around the kernel. The checkpoint caches of the managers are functions of their other fields
  and left out; mutex poisoning is left out.
\<close>

end
